(* ===== verification/Prelude.thy ===== *)
theory Prelude
  imports Main "HOL-Library.Word"
begin

text \<open>
  What every component shares: the result of a Rust function that may refuse or panic, the
  fixed-width arithmetic of a release build, byte slices, and loops.

  \<^item> \<^emph>\<open>Outcomes.\<close> A Rust function returning \<open>Result<T, E>\<close> ends in \<open>Ok\<close>, in \<open>Err\<close>, or
    unwinds (\<open>panic!\<close>, \<open>assert!\<close>, a slice index out of range, a division by zero). The
    three endings are the three constructors of \<open>outcome\<close>. A function that returns a plain
    value but may panic has the same type with an error type it never uses.
  \<^item> \<^emph>\<open>Integers.\<close> The workspace's release profile leaves overflow checks off, so \<open>u32\<close> and
    \<open>usize\<close> (64 bits on every supported host) arithmetic wraps. Values are natural numbers
    and the wrap-around is written out with \<open>wrap32\<close>/\<open>wrap64\<close>; since reduction modulo a
    power of two commutes with addition and multiplication, one reduction is written around
    each maximal sum-of-products.
\<close>

section \<open>Outcomes: a value, a refusal, or a panic\<close>

datatype ('e, 'a) outcome = Done 'a | Refused 'e | Panicked

fun obind :: "('e, 'a) outcome \<Rightarrow> ('a \<Rightarrow> ('e, 'b) outcome) \<Rightarrow> ('e, 'b) outcome" where
  "obind (Done x) f = f x"
| "obind (Refused e) f = Refused e"
| "obind Panicked f = Panicked"

text \<open>\<open>assert!(b); m\<close>, \<open>refuse_unless!(b, e); m\<close> and \<open>result.unwrap_or_else(|e| panic!())\<close>.\<close>

definition ensure :: "bool \<Rightarrow> ('e, 'a) outcome \<Rightarrow> ('e, 'a) outcome" where
  "ensure b m = (if b then m else Panicked)"

definition refuse_unless :: "bool \<Rightarrow> 'e \<Rightarrow> ('e, 'a) outcome \<Rightarrow> ('e, 'a) outcome" where
  "refuse_unless b e m = (if b then m else Refused e)"

fun unwrap :: "('e, 'a) outcome \<Rightarrow> ('f, 'a) outcome" where
  "unwrap (Done x) = Done x"
| "unwrap (Refused e) = Panicked"
| "unwrap Panicked = Panicked"

fun map_refused :: "('e \<Rightarrow> 'f) \<Rightarrow> ('e, 'a) outcome \<Rightarrow> ('f, 'a) outcome" where
  "map_refused h (Done x) = Done x"
| "map_refused h (Refused e) = Refused (h e)"
| "map_refused h Panicked = Panicked"

fun ok_or :: "'a option \<Rightarrow> 'e \<Rightarrow> ('e, 'a) outcome" where
  "ok_or (Some x) e = Done x"
| "ok_or None e = Refused e"

definition is_done :: "('e, 'a) outcome \<Rightarrow> bool" where
  "is_done r = (case r of Done _ \<Rightarrow> True | _ \<Rightarrow> False)"

lemma is_done_simps [simp]:
  "is_done (Done x)" "\<not> is_done (Refused e)" "\<not> is_done Panicked"
  by (simp_all add: is_done_def)

named_theorems outcome_intro \<open>facts of the form: this call ends in Done\<close>

lemma obind_eq_Done:
  "obind m f = Done y \<longleftrightarrow> (\<exists>x. m = Done x \<and> f x = Done y)"
  by (cases m) auto

lemma obind_DoneE:
  "obind m f = Done y \<Longrightarrow> (\<And>x. m = Done x \<Longrightarrow> f x = Done y \<Longrightarrow> thesis) \<Longrightarrow> thesis"
  by (cases m) auto

lemma obind_assoc: "obind (obind m f) g = obind m (\<lambda>x. obind (f x) g)"
  by (cases m) auto

lemma obind_eq_Panicked:
  "obind m f = Panicked \<longleftrightarrow> m = Panicked \<or> (\<exists>x. m = Done x \<and> f x = Panicked)"
  by (cases m) auto

lemma obind_eq_Refused:
  "obind m f = Refused e \<longleftrightarrow> m = Refused e \<or> (\<exists>x. m = Done x \<and> f x = Refused e)"
  by (cases m) auto

lemma ensure_eq_Done: "ensure b m = Done y \<longleftrightarrow> b \<and> m = Done y"
  by (simp add: ensure_def)

lemma refuse_unless_eq_Done: "refuse_unless b e m = Done y \<longleftrightarrow> b \<and> m = Done y"
  by (simp add: refuse_unless_def)

lemma refuse_unless_eq_Panicked: "refuse_unless b e m = Panicked \<longleftrightarrow> b \<and> m = Panicked"
  by (simp add: refuse_unless_def)

lemma unwrap_eq_Done: "unwrap m = Done y \<longleftrightarrow> m = Done y"
  by (cases m) auto

lemma map_refused_eq_Done: "map_refused h m = Done y \<longleftrightarrow> m = Done y"
  by (cases m) auto

lemma ok_or_eq_Done: "ok_or x e = Done y \<longleftrightarrow> x = Some y"
  by (cases x) auto

lemmas outcome_done =
  obind_eq_Done ensure_eq_Done refuse_unless_eq_Done unwrap_eq_Done map_refused_eq_Done
  ok_or_eq_Done

lemma refuse_unless_simps [simp]:
  "refuse_unless True e m = m" "refuse_unless False e m = Refused e"
  by (simp_all add: refuse_unless_def)

lemma ensure_simps [simp]: "ensure True m = m" "ensure False m = Panicked"
  by (simp_all add: ensure_def)

text \<open>The introduction rules of \<open>m \<noteq> Panicked\<close>, one per control construct.\<close>

named_theorems no_panic \<open>rules that show a call does not panic\<close>

lemma Done_not_Panicked [no_panic]: "Done x \<noteq> Panicked" by simp

lemma Refused_not_Panicked [no_panic]: "Refused e \<noteq> Panicked" by simp

lemma obind_not_Panicked [no_panic]:
  "m \<noteq> Panicked \<Longrightarrow> (\<And>x. m = Done x \<Longrightarrow> f x \<noteq> Panicked) \<Longrightarrow> obind m f \<noteq> Panicked"
  by (cases m) auto

lemma refuse_unless_not_Panicked [no_panic]:
  "(b \<Longrightarrow> m \<noteq> Panicked) \<Longrightarrow> refuse_unless b e m \<noteq> Panicked"
  by (simp add: refuse_unless_def)

lemma ensure_not_Panicked [no_panic]: "b \<Longrightarrow> m \<noteq> Panicked \<Longrightarrow> ensure b m \<noteq> Panicked"
  by (simp add: ensure_def)

lemma if_not_Panicked [no_panic]:
  "(b \<Longrightarrow> m \<noteq> Panicked) \<Longrightarrow> (\<not> b \<Longrightarrow> n \<noteq> Panicked) \<Longrightarrow> (if b then m else n) \<noteq> Panicked"
  by simp

lemma option_case_not_Panicked [no_panic]:
  "(x = None \<Longrightarrow> m \<noteq> Panicked) \<Longrightarrow> (\<And>y. x = Some y \<Longrightarrow> f y \<noteq> Panicked) \<Longrightarrow>
   (case x of None \<Rightarrow> m | Some y \<Rightarrow> f y) \<noteq> Panicked"
  by (cases x) auto

lemma map_refused_not_Panicked [no_panic]: "m \<noteq> Panicked \<Longrightarrow> map_refused h m \<noteq> Panicked"
  by (cases m) auto

lemma ok_or_not_Panicked [no_panic]: "ok_or x e \<noteq> Panicked"
  by (cases x) auto

lemma obind_cong [fundef_cong]:
  "m = m' \<Longrightarrow> (\<And>x. m' = Done x \<Longrightarrow> f x = g x) \<Longrightarrow> obind m f = obind m' g"
  by (cases m') auto

section \<open>Fixed-width arithmetic\<close>

definition wrap32 :: "nat \<Rightarrow> nat" where
  "wrap32 x = x mod 2 ^ 32"

definition wrap64 :: "nat \<Rightarrow> nat" where
  "wrap64 x = x mod 2 ^ 64"

definition U32_MAX :: nat where
  "U32_MAX = 2 ^ 32 - 1"

text \<open>Wrapping subtraction of two \<open>u32\<close> values, and the total variants the source calls.\<close>

definition sub32 :: "nat \<Rightarrow> nat \<Rightarrow> nat" where
  "sub32 a b = (if b \<le> a then a - b else 2 ^ 32 + a - b)"

definition sub64 :: "nat \<Rightarrow> nat \<Rightarrow> nat" where
  "sub64 a b = (if b \<le> a then a - b else 2 ^ 64 + a - b)"

text \<open>\<open>saturating_sub\<close> on naturals is truncating subtraction.\<close>

definition saturating_sub :: "nat \<Rightarrow> nat \<Rightarrow> nat" where
  "saturating_sub a b = a - b"

definition checked_mul32 :: "nat \<Rightarrow> nat \<Rightarrow> nat option" where
  "checked_mul32 a b = (if a * b < 2 ^ 32 then Some (a * b) else None)"

definition checked_add32 :: "nat \<Rightarrow> nat \<Rightarrow> nat option" where
  "checked_add32 a b = (if a + b < 2 ^ 32 then Some (a + b) else None)"

definition checked_sub :: "nat \<Rightarrow> nat \<Rightarrow> nat option" where
  "checked_sub a b = (if b \<le> a then Some (a - b) else None)"

definition checked_mul64 :: "nat \<Rightarrow> nat \<Rightarrow> nat option" where
  "checked_mul64 a b = (if a * b < 2 ^ 64 then Some (a * b) else None)"

definition checked_add64 :: "nat \<Rightarrow> nat \<Rightarrow> nat option" where
  "checked_add64 a b = (if a + b < 2 ^ 64 then Some (a + b) else None)"

text \<open>The division operator panics on a zero divisor.\<close>

definition udiv :: "nat \<Rightarrow> nat \<Rightarrow> ('e, nat) outcome" where
  "udiv a b = (if b = 0 then Panicked else Done (a div b))"

text \<open>\<open>div_ceil\<close> and \<open>next_multiple_of\<close> for the nonzero divisors of the source.\<close>

definition div_ceil :: "nat \<Rightarrow> nat \<Rightarrow> nat" where
  "div_ceil a b = (if a mod b > 0 then a div b + 1 else a div b)"

definition next_multiple_of :: "nat \<Rightarrow> nat \<Rightarrow> nat" where
  "next_multiple_of a b = (if a mod b = 0 then a else a + (b - a mod b))"

definition checked_next_multiple_of32 :: "nat \<Rightarrow> nat \<Rightarrow> nat option" where
  "checked_next_multiple_of32 a b =
     (let n = next_multiple_of a b in if 0 < b \<and> n < 2 ^ 32 then Some n else None)"

definition checked_next_multiple_of64 :: "nat \<Rightarrow> nat \<Rightarrow> nat option" where
  "checked_next_multiple_of64 a b =
     (let n = next_multiple_of a b in if 0 < b \<and> n < 2 ^ 64 then Some n else None)"

function next_pow2_from :: "nat \<Rightarrow> nat \<Rightarrow> nat" where
  "next_pow2_from p n = (if p = 0 \<or> n \<le> p then p else next_pow2_from (2 * p) n)"
  by pat_completeness auto
termination
  by (relation "measure (\<lambda>(p, n). n - p)") auto

declare next_pow2_from.simps [simp del]

text \<open>\<open>u32::next_power_of_two\<close>: 0 when the power does not fit (release build).\<close>

definition next_power_of_two :: "nat \<Rightarrow> nat" where
  "next_power_of_two n = wrap32 (next_pow2_from 1 n)"

lemma next_pow2_from_bounds:
  "0 < p \<Longrightarrow> n \<le> next_pow2_from p n \<and> next_pow2_from p n \<le> max p (2 * n)"
proof (induction p n rule: next_pow2_from.induct)
  case (1 p n)
  show ?case
  proof (cases "n \<le> p")
    case True
    then show ?thesis by (simp add: next_pow2_from.simps [of p n])
  next
    case False
    with 1 have "n \<le> next_pow2_from (2 * p) n \<and> next_pow2_from (2 * p) n \<le> max (2 * p) (2 * n)"
      by simp
    with False 1(2) show ?thesis by (simp add: next_pow2_from.simps [of p n])
  qed
qed

lemma wrap32_id [simp]: "x < 2 ^ 32 \<Longrightarrow> wrap32 x = x"
  by (simp add: wrap32_def)

lemma wrap32_less [simp]: "wrap32 x < 2 ^ 32"
  by (simp add: wrap32_def)

lemma wrap32_le: "wrap32 x \<le> x"
  by (simp add: wrap32_def)

lemma wrap64_id [simp]: "x < 2 ^ 64 \<Longrightarrow> wrap64 x = x"
  by (simp add: wrap64_def)

lemma sub32_id [simp]: "b \<le> a \<Longrightarrow> sub32 a b = a - b"
  by (simp add: sub32_def)

lemma sub64_id [simp]: "b \<le> a \<Longrightarrow> sub64 a b = a - b"
  by (simp add: sub64_def)

lemma udiv_pos [simp]: "0 < b \<Longrightarrow> udiv a b = Done (a div b)"
  by (simp add: udiv_def)

lemma udiv_not_Panicked [no_panic]: "0 < b \<Longrightarrow> udiv a b \<noteq> Panicked"
  by simp

lemma udiv_eq_Done: "udiv a b = Done q \<longleftrightarrow> 0 < b \<and> q = a div b"
  by (auto simp: udiv_def)

lemma checked_mul64_Some [simp]: "checked_mul64 a b = Some c \<longleftrightarrow> c = a * b \<and> a * b < 2 ^ 64"
  by (auto simp: checked_mul64_def)

lemma checked_mul32_Some [simp]: "checked_mul32 a b = Some c \<longleftrightarrow> c = a * b \<and> a * b < 2 ^ 32"
  by (auto simp: checked_mul32_def)

lemma checked_add64_Some [simp]: "checked_add64 a b = Some c \<longleftrightarrow> c = a + b \<and> a + b < 2 ^ 64"
  by (auto simp: checked_add64_def)

subsection \<open>Ceiling division and rounding\<close>

lemma div_ceil_eq:
  assumes b: "0 < b"
  shows "div_ceil a b = (a + b - 1) div b"
proof -
  define q r where "q = a div b" and "r = a mod b"
  have a: "a = q * b + r" and r: "r < b"
    using b by (simp_all add: q_def r_def)
  have shift: "(q * b + t) div b = q + t div b" for t
    using b by simp
  have "(a + b - 1) div b = (q * b + (r + b - 1)) div b"
    using b by (simp add: a add.assoc)
  also have "\<dots> = q + (r + b - 1) div b"
    by (rule shift)
  also have "(r + b - 1) div b = (if r > 0 then 1 else 0)"
    using b r by (auto simp: div_eq_dividend_iff le_div_geq)
  finally show ?thesis
    by (simp add: div_ceil_def q_def r_def)
qed

lemma div_ceil_le_iff: "0 < b \<Longrightarrow> div_ceil a b \<le> k \<longleftrightarrow> a \<le> k * b"
proof -
  assume b: "0 < b"
  have "div_ceil a b \<le> k \<longleftrightarrow> (a + b - 1) div b < Suc k"
    using b by (simp add: div_ceil_eq less_Suc_eq_le)
  also have "\<dots> \<longleftrightarrow> a + b - 1 < Suc k * b"
    using b by (simp add: div_less_iff_less_mult)
  also have "\<dots> \<longleftrightarrow> a \<le> k * b" using b by auto
  finally show ?thesis .
qed

lemma div_ceil_mult_ge: "0 < b \<Longrightarrow> a \<le> div_ceil a b * b"
  using div_ceil_le_iff by blast

lemma div_ceil_pos [simp]: "0 < b \<Longrightarrow> 0 < div_ceil a b \<longleftrightarrow> 0 < a"
  using div_ceil_le_iff [of b a 0] by auto

lemma div_ceil_le_self: "0 < b \<Longrightarrow> div_ceil a b \<le> a"
  by (simp add: div_ceil_le_iff)

lemma div_ceil_mult_less: "0 < b \<Longrightarrow> 0 < a \<Longrightarrow> div_ceil a b * b < a + b"
proof -
  assume b: "0 < b" and a: "0 < a"
  then obtain n where n: "div_ceil a b = Suc n"
    using div_ceil_pos [of b a] by (cases "div_ceil a b") auto
  then have "\<not> div_ceil a b \<le> n" by simp
  then have "\<not> a \<le> n * b" using b by (simp add: div_ceil_le_iff)
  then show ?thesis using n by simp
qed

lemma div_ceil_mult_self [simp]: "0 < b \<Longrightarrow> div_ceil (a * b) b = a"
  by (simp add: div_ceil_def)

lemma next_multiple_of_eq:
  assumes b: "0 < b"
  shows "next_multiple_of a b = div_ceil a b * b"
proof -
  define q r where "q = a div b" and "r = a mod b"
  have a: "a = q * b + r" and r: "r < b"
    using b by (simp_all add: q_def r_def)
  have "q * b + r + (b - r) = Suc q * b" using r by simp
  then show ?thesis
    unfolding next_multiple_of_def div_ceil_def q_def [symmetric] r_def [symmetric]
    by (simp add: a)
qed

lemma next_multiple_of_ge: "0 < b \<Longrightarrow> a \<le> next_multiple_of a b"
  by (simp add: next_multiple_of_eq div_ceil_mult_ge)

lemma next_multiple_of_dvd: "0 < b \<Longrightarrow> b dvd next_multiple_of a b"
  by (simp add: next_multiple_of_eq)

lemma next_multiple_of_less: "0 < b \<Longrightarrow> next_multiple_of a b < a + b"
  by (simp add: next_multiple_of_def)

lemma next_multiple_of_least:
  assumes "0 < b" "a \<le> c" "b dvd c"
  shows "next_multiple_of a b \<le> c"
proof -
  have "div_ceil a b \<le> c div b" using assms by (simp add: div_ceil_le_iff)
  then show ?thesis using assms by (metis dvd_div_mult_self mult_le_mono1 next_multiple_of_eq)
qed

lemma next_multiple_of_id [simp]: "b dvd a \<Longrightarrow> next_multiple_of a b = a"
  by (simp add: next_multiple_of_def)

section \<open>Byte slices\<close>

type_synonym byte = "8 word"

text \<open>
  A mutable slice is a list that is passed and returned. Reading \<open>s[i..i+n]\<close> and writing it
  with \<open>copy_from_slice\<close> panic when the range runs past the end.
\<close>

definition read_slice :: "'a list \<Rightarrow> nat \<Rightarrow> nat \<Rightarrow> ('e, 'a list) outcome" where
  "read_slice xs off n = ensure (off + n \<le> length xs) (Done (take n (drop off xs)))"

definition overwrite :: "'a list \<Rightarrow> nat \<Rightarrow> 'a list \<Rightarrow> 'a list" where
  "overwrite xs off ys = take off xs @ ys @ drop (off + length ys) xs"

definition write_slice :: "'a list \<Rightarrow> nat \<Rightarrow> 'a list \<Rightarrow> ('e, 'a list) outcome" where
  "write_slice xs off ys = ensure (off + length ys \<le> length xs) (Done (overwrite xs off ys))"

text \<open>\<open>s[lo..hi].fill(v)\<close>; the range panics when it is reversed or too long.\<close>

definition fill_slice :: "'a list \<Rightarrow> nat \<Rightarrow> nat \<Rightarrow> 'a \<Rightarrow> ('e, 'a list) outcome" where
  "fill_slice xs lo hi v =
     ensure (lo \<le> hi \<and> hi \<le> length xs) (Done (overwrite xs lo (replicate (hi - lo) v)))"

lemma length_overwrite [simp]:
  "off + length ys \<le> length xs \<Longrightarrow> length (overwrite xs off ys) = length xs"
  by (simp add: overwrite_def)

lemma nth_overwrite:
  "off + length ys \<le> length xs \<Longrightarrow> i < length xs \<Longrightarrow>
   overwrite xs off ys ! i = (if off \<le> i \<and> i < off + length ys then ys ! (i - off) else xs ! i)"
  by (auto simp: overwrite_def nth_append min_def)

lemma write_slice_ok [simp]:
  "off + length ys \<le> length xs \<Longrightarrow> write_slice xs off ys = Done (overwrite xs off ys)"
  by (simp add: write_slice_def)

lemma read_slice_ok [simp]:
  "off + n \<le> length xs \<Longrightarrow> read_slice xs off n = Done (take n (drop off xs))"
  by (simp add: read_slice_def)

lemma fill_slice_ok [simp]:
  "lo \<le> hi \<Longrightarrow> hi \<le> length xs \<Longrightarrow>
   fill_slice xs lo hi v = Done (overwrite xs lo (replicate (hi - lo) v))"
  by (simp add: fill_slice_def)

section \<open>Loops over a range\<close>

text \<open>A \<open>for\<close> loop that threads a state and may refuse or panic.\<close>

fun for_each :: "'i list \<Rightarrow> ('i \<Rightarrow> 's \<Rightarrow> ('e, 's) outcome) \<Rightarrow> 's \<Rightarrow> ('e, 's) outcome" where
  "for_each [] body s = Done s"
| "for_each (i # is) body s = obind (body i s) (for_each is body)"

lemma for_each_append:
  "for_each (xs @ ys) body s = obind (for_each xs body s) (for_each ys body)"
proof (induction xs arbitrary: s)
  case Nil
  show ?case by simp
next
  case (Cons x xs)
  show ?case by (cases "body x s") (simp_all add: Cons.IH)
qed

text \<open>The loop rule: an invariant over the prefix already visited.\<close>

lemma for_each_invariant:
  assumes init: "P [] s"
    and step: "\<And>seen i rest s. is = seen @ i # rest \<Longrightarrow> P seen s
                 \<Longrightarrow> \<exists>s'. body i s = Done s' \<and> P (seen @ [i]) s'"
  shows "\<exists>s'. for_each is body s = Done s' \<and> P is s'"
proof -
  have "\<exists>s'. for_each rest body s = Done s' \<and> P is s'"
    if "is = seen @ rest" and "P seen s" for seen rest s
    using that
  proof (induction rest arbitrary: seen s)
    case Nil
    then show ?case by simp
  next
    case (Cons i rest)
    from step [OF Cons.prems] obtain s1 where s1: "body i s = Done s1" "P (seen @ [i]) s1"
      by blast
    from Cons.IH [of "seen @ [i]" s1] Cons.prems(1) s1(2)
    show ?case by (simp add: s1(1))
  qed
  from this [of "[]" "is"] init show ?thesis by simp
qed

fun find_map :: "('a \<Rightarrow> 'b option) \<Rightarrow> 'a list \<Rightarrow> 'b option" where
  "find_map f [] = None"
| "find_map f (x # xs) = (case f x of Some y \<Rightarrow> Some y | None \<Rightarrow> find_map f xs)"

lemma find_map_SomeD: "find_map f xs = Some y \<Longrightarrow> \<exists>x \<in> set xs. f x = Some y"
  by (induction xs) (auto split: option.splits)

lemma find_map_NoneD: "find_map f xs = None \<Longrightarrow> x \<in> set xs \<Longrightarrow> f x = None"
  by (induction xs) (auto split: option.splits)

lemma find_map_not_None: "x \<in> set xs \<Longrightarrow> f x = Some y \<Longrightarrow> \<exists>z. find_map f xs = Some z"
  by (cases "find_map f xs") (auto dest: find_map_NoneD)

end
