(* ===== verification/PlanError.thy ===== *)
theory PlanError
  imports Prelude
begin

text \<open>
  The planner's refusal type (\<open>rocket-core/src/error.rs\<close>) and the planning policy
  (\<open>rocket-core/src/policy.rs\<close>).

  A refusal is its code. The message a \<open>PlanError\<close> also carries is the formatted text of
  the offending values; the crate's contract is that callers branch on the code and nothing
  parses the message, so the text is not modelled.
\<close>

datatype plan_error_code =
    InvalidShape
  | UnsupportedSemantics
  | HardwareLimit
  | CapacityExceeded
  | UnvalidatedConfiguration
  | Internal

type_synonym 'a plan_result = "(plan_error_code, 'a) outcome"

fun description :: "plan_error_code \<Rightarrow> string" where
  "description InvalidShape = ''convolution shape is malformed''"
| "description UnsupportedSemantics =
     ''convolution semantics are not supported by the Rocket lowering''"
| "description HardwareLimit = ''convolution exceeds a fixed hardware limit''"
| "description CapacityExceeded = ''no standalone tile fits the CBUF for this shape''"
| "description UnvalidatedConfiguration =
     ''convolution configuration has no capture or board backing''"
| "description Internal = ''the convolution planner failed internally''"

section \<open>The planning policy\<close>

record planning_policy =
  allow_unbacked_channels :: bool
  allow_large_kernel_probing :: bool

definition default_policy :: planning_policy where
  "default_policy = \<lparr>allow_unbacked_channels = False, allow_large_kernel_probing = False\<rparr>"

text \<open>
  The environment is read as the set of variables that are set; the override is the
  thread-local cell \<open>OVERRIDE\<close>.
\<close>

type_synonym environment = "string \<Rightarrow> bool"

definition policy_from_env :: "environment \<Rightarrow> planning_policy" where
  "policy_from_env env =
     \<lparr>allow_unbacked_channels = env ''ROCKET_ALLOW_UNBACKED_CHANNELS'',
      allow_large_kernel_probing = env ''ROCKET_ALLOW_LARGE_KERNEL_PROBING''\<rparr>"

definition current_policy :: "environment \<Rightarrow> planning_policy option \<Rightarrow> planning_policy" where
  "current_policy env cell =
     (case cell of Some p \<Rightarrow> p | None \<Rightarrow> policy_from_env env)"

text \<open>
  \<open>with_policy\<close> replaces the cell, runs the closure on it, and puts the old content back when
  the guard is dropped: on return, and on unwinding, which here is the closure's result being
  \<open>Panicked\<close>. The closure may itself change the cell.
\<close>

definition with_policy ::
  "planning_policy \<Rightarrow> (planning_policy option \<Rightarrow> ('e, 'r) outcome \<times> planning_policy option)
     \<Rightarrow> planning_policy option \<Rightarrow> ('e, 'r) outcome \<times> planning_policy option" where
  "with_policy policy f cell =
     (let restore = cell; (r, _) = f (Some policy) in (r, restore))"

definition unbacked_channels_allowed :: "planning_policy \<Rightarrow> bool" where
  "unbacked_channels_allowed pol = allow_unbacked_channels pol"

definition large_kernel_probing_allowed :: "planning_policy \<Rightarrow> bool" where
  "large_kernel_probing_allowed pol = allow_large_kernel_probing pol"

lemma with_policy_restores: "snd (with_policy p f cell) = cell"
  by (simp add: with_policy_def split: prod.split)

lemma with_policy_result: "fst (with_policy p f cell) = fst (f (Some p))"
  by (simp add: with_policy_def split: prod.split)

lemma current_policy_override: "current_policy env (Some p) = p"
  by (simp add: current_policy_def)

end
