(* ===== verification/ConvTypes.thy ===== *)
theory ConvTypes
  imports PlanError
begin

text \<open>
  The data of a convolution descriptor, from \<open>rocket-core/src/conv.rs\<close>: precisions,
  quantization parameters, activations and the shape, with the constants of the hardware and
  of the measured envelope. A single-precision float field is its raw bit pattern; nothing in
  the planner computes with it.
\<close>

section \<open>Constants\<close>

definition MAX_INPUT_CHANNELS :: nat where "MAX_INPUT_CHANNELS = 4096"
definition MAX_INT8_INPUT_CHANNELS :: nat where "MAX_INT8_INPUT_CHANNELS = 4096"
definition MAX_INT8_OUTPUT_CHANNELS :: nat where "MAX_INT8_OUTPUT_CHANNELS = 4096"
definition MAX_INT4_INPUT_CHANNELS :: nat where "MAX_INT4_INPUT_CHANNELS = 4096"
definition MAX_INT4_OUTPUT_CHANNELS :: nat where "MAX_INT4_OUTPUT_CHANNELS = 4096"
definition MAX_TF32_INPUT_CHANNELS :: nat where "MAX_TF32_INPUT_CHANNELS = 4096"
definition MAX_TF32_OUTPUT_CHANNELS :: nat where "MAX_TF32_OUTPUT_CHANNELS = 4096"
definition MAX_DENSE_CHANNELS :: nat where "MAX_DENSE_CHANNELS = 4"
definition MAX_OUTPUT_CHANNELS :: nat where "MAX_OUTPUT_CHANNELS = 4096"
definition MAX_DEPTHWISE_CHANNELS :: nat where "MAX_DEPTHWISE_CHANNELS = 1792"
definition FEATURE_ATOM_BYTES :: nat where "FEATURE_ATOM_BYTES = 16"
definition CBUF_BANKS :: nat where "CBUF_BANKS = 12"
definition CBUF_BANK_BYTES :: nat where "CBUF_BANK_BYTES = 256 * 128"
definition CBUF_ATOMS_PER_ENTRY :: nat where "CBUF_ATOMS_PER_ENTRY = 4"
definition MAX_UNDIVIDED_WEIGHT_BANKS :: nat where "MAX_UNDIVIDED_WEIGHT_BANKS = CBUF_BANKS - 2"
definition CBUF_ENTRY_BYTES :: nat where "CBUF_ENTRY_BYTES = 128"
definition CBUF_ENTRIES_PER_BANK :: nat where
  "CBUF_ENTRIES_PER_BANK = CBUF_BANK_BYTES div CBUF_ENTRY_BYTES"
definition MAX_DATA_ENTRIES :: nat where "MAX_DATA_ENTRIES = 0x7fff"
definition MAX_ENTRY_SLAB_BASE :: nat where "MAX_ENTRY_SLAB_BASE = 0x7ff"
definition MAX_FEATURE_GRAINS :: nat where "MAX_FEATURE_GRAINS = 0x03ff"
definition PIXELS_PER_BANK_STEP :: nat where "PIXELS_PER_BANK_STEP = 1024"

lemmas hw_consts =
  MAX_INPUT_CHANNELS_def MAX_INT8_INPUT_CHANNELS_def MAX_INT8_OUTPUT_CHANNELS_def
  MAX_INT4_INPUT_CHANNELS_def MAX_INT4_OUTPUT_CHANNELS_def MAX_TF32_INPUT_CHANNELS_def
  MAX_TF32_OUTPUT_CHANNELS_def MAX_DENSE_CHANNELS_def MAX_OUTPUT_CHANNELS_def
  MAX_DEPTHWISE_CHANNELS_def FEATURE_ATOM_BYTES_def CBUF_BANKS_def CBUF_BANK_BYTES_def
  CBUF_ATOMS_PER_ENTRY_def MAX_UNDIVIDED_WEIGHT_BANKS_def CBUF_ENTRY_BYTES_def
  CBUF_ENTRIES_PER_BANK_def MAX_DATA_ENTRIES_def MAX_ENTRY_SLAB_BASE_def
  MAX_FEATURE_GRAINS_def PIXELS_PER_BANK_STEP_def

text \<open>Rounds an atom count that is one short of a multiple of four up to it.\<close>

definition quad_atoms :: "nat \<Rightarrow> nat" where
  "quad_atoms atoms = (if atoms mod 4 = 3 then wrap32 (atoms + 1) else atoms)"

section \<open>Precisions\<close>

record multiplier =
  mul_scale :: nat
  mul_shift :: nat

record quantization =
  input_zero_point :: int
  output_zero_point :: int
  weight_zero_point :: int
  input_scale :: nat
  weights_scale :: nat
  q_multiplier :: multiplier

datatype precision =
    Fp16
  | Bf16
  | Int16
  | Fp16Accumulator
  | Tf32
  | Int4
  | Int8 quantization
  | Int8Accumulator quantization

fun element_bits :: "precision \<Rightarrow> nat" where
  "element_bits Tf32 = 32"
| "element_bits Fp16 = 16"
| "element_bits Fp16Accumulator = 16"
| "element_bits Bf16 = 16"
| "element_bits Int16 = 16"
| "element_bits (Int8 q) = 8"
| "element_bits (Int8Accumulator q) = 8"
| "element_bits Int4 = 4"

definition element_bytes :: "precision \<Rightarrow> nat plan_result" where
  "element_bytes p = (let bits = element_bits p in ensure (8 dvd bits) (Done (bits div 8)))"

definition bytes_for :: "precision \<Rightarrow> nat \<Rightarrow> nat plan_result" where
  "bytes_for p elements =
     (let bits = wrap32 (elements * element_bits p) in ensure (8 dvd bits) (Done (bits div 8)))"

definition shares_fp16_layout :: "precision \<Rightarrow> bool" where
  "shares_fp16_layout p = (element_bits p = 16)"

fun output_element_bytes :: "precision \<Rightarrow> nat" where
  "output_element_bytes Fp16 = 2"
| "output_element_bytes Bf16 = 2"
| "output_element_bytes Int16 = 2"
| "output_element_bytes Int4 = 2"
| "output_element_bytes (Int8 q) = 1"
| "output_element_bytes (Int8Accumulator q) = 4"
| "output_element_bytes Tf32 = 4"
| "output_element_bytes Fp16Accumulator = 4"

fun writes_accumulators :: "precision \<Rightarrow> bool" where
  "writes_accumulators (Int8Accumulator q) = True"
| "writes_accumulators p = False"

fun writes_fp32_result :: "precision \<Rightarrow> bool" where
  "writes_fp32_result Tf32 = True"
| "writes_fp32_result Fp16Accumulator = True"
| "writes_fp32_result p = False"

definition channels_per_atom :: "precision \<Rightarrow> nat" where
  "channels_per_atom p = FEATURE_ATOM_BYTES * 8 div element_bits p"

definition precision_granule :: "precision \<Rightarrow> nat" where
  "precision_granule p = (case p of Tf32 \<Rightarrow> 16 | _ \<Rightarrow> 2 * channels_per_atom p)"

fun max_in_channels :: "precision \<Rightarrow> nat" where
  "max_in_channels Fp16 = MAX_INPUT_CHANNELS"
| "max_in_channels Fp16Accumulator = MAX_INPUT_CHANNELS"
| "max_in_channels Bf16 = MAX_INPUT_CHANNELS"
| "max_in_channels Int16 = MAX_INPUT_CHANNELS"
| "max_in_channels (Int8 q) = MAX_INT8_INPUT_CHANNELS"
| "max_in_channels (Int8Accumulator q) = MAX_INT8_INPUT_CHANNELS"
| "max_in_channels Int4 = MAX_INT4_INPUT_CHANNELS"
| "max_in_channels Tf32 = MAX_TF32_INPUT_CHANNELS"

fun max_out_channels :: "precision \<Rightarrow> nat" where
  "max_out_channels Fp16 = MAX_OUTPUT_CHANNELS"
| "max_out_channels Fp16Accumulator = MAX_OUTPUT_CHANNELS"
| "max_out_channels Bf16 = MAX_OUTPUT_CHANNELS"
| "max_out_channels Int16 = MAX_OUTPUT_CHANNELS"
| "max_out_channels (Int8 q) = MAX_INT8_OUTPUT_CHANNELS"
| "max_out_channels (Int8Accumulator q) = MAX_INT8_OUTPUT_CHANNELS"
| "max_out_channels Int4 = MAX_INT4_OUTPUT_CHANNELS"
| "max_out_channels Tf32 = MAX_TF32_OUTPUT_CHANNELS"

fun quantization_of :: "precision \<Rightarrow> quantization option" where
  "quantization_of (Int8 q) = Some q"
| "quantization_of (Int8Accumulator q) = Some q"
| "quantization_of p = None"

section \<open>Activations and shapes\<close>

datatype activation = NoActivation | Relu | Clamped nat

type_synonym kernels = "nat \<times> nat"
type_synonym padding = "nat \<times> nat"

datatype feature_layout = Dense | Surfaces

record shape =
  width :: nat
  height :: nat
  stride :: nat
  in_channels :: nat
  out_channels :: nat
  precision :: precision
  padding :: "padding option"
  activation :: activation
  depthwise :: bool

text \<open>Every numeric field of the struct is a \<open>u32\<close> (\<open>usize\<close> for the padding).\<close>

definition u32_shape :: "shape \<Rightarrow> bool" where
  "u32_shape s \<longleftrightarrow> width s < 2 ^ 32 \<and> height s < 2 ^ 32 \<and> stride s < 2 ^ 32
     \<and> in_channels s < 2 ^ 32 \<and> out_channels s < 2 ^ 32"

section \<open>Facts about the precision tables\<close>

lemma element_bits_cases: "element_bits p \<in> {4, 8, 16, 32}"
  by (cases p) auto

lemma element_bits_pos [simp]: "0 < element_bits p"
  by (cases p) auto

lemma channels_per_atom_simps [simp]:
  "channels_per_atom Fp16 = 8" "channels_per_atom Bf16 = 8" "channels_per_atom Int16 = 8"
  "channels_per_atom Fp16Accumulator = 8" "channels_per_atom Tf32 = 4"
  "channels_per_atom Int4 = 32" "channels_per_atom (Int8 q) = 16"
  "channels_per_atom (Int8Accumulator q) = 16"
  by (simp_all add: channels_per_atom_def FEATURE_ATOM_BYTES_def)

lemma channels_per_atom_pos [simp]: "0 < channels_per_atom p"
  by (cases p) auto

lemma channels_per_atom_bits: "channels_per_atom p * element_bits p = 128"
  by (cases p) auto

lemma channels_per_atom_bounds: "4 \<le> channels_per_atom p \<and> channels_per_atom p \<le> 32"
  by (cases p) auto

lemma precision_granule_pos [simp]: "0 < precision_granule p"
  by (cases p) (auto simp: precision_granule_def)

lemma precision_granule_le: "precision_granule p \<le> 64"
  by (cases p) (auto simp: precision_granule_def)

lemma element_bytes_Done [outcome_intro]:
  "p \<noteq> Int4 \<Longrightarrow> element_bytes p = Done (element_bits p div 8)"
  by (cases p) (auto simp: element_bytes_def)

lemma output_element_bytes_bounds: "1 \<le> output_element_bytes p \<and> output_element_bytes p \<le> 4"
  by (cases p) auto

lemma quad_atoms_ge: "a < 2 ^ 31 \<Longrightarrow> a \<le> quad_atoms a"
  by (simp add: quad_atoms_def)

lemma quad_atoms_le: "quad_atoms a \<le> a + 1"
  using wrap32_le [of "a + 1"] by (simp add: quad_atoms_def)

end
