(* ===== verification/ConvShape.thy ===== *)
theory ConvShape
  imports ConvTypes
begin

text \<open>
  Building a convolution shape and the geometry it determines: the validating constructors
  \<open>Shape::try_*\<close>, the kernel programming, channel padding, coefficient sizes, strides and
  output extents of \<open>rocket-core/src/conv.rs\<close>. The planning policy the constructors read
  from the thread is an argument.
\<close>

section \<open>Constructors\<close>

definition try_with_precision ::
  "planning_policy \<Rightarrow> nat \<Rightarrow> nat \<Rightarrow> nat \<Rightarrow> nat \<Rightarrow> nat \<Rightarrow> precision \<Rightarrow> shape plan_result" where
  "try_with_precision pol w h st cin cout p =
     refuse_unless (0 < w \<and> 0 < h) InvalidShape (
     refuse_unless (0 < st) InvalidShape (
     refuse_unless (0 < cin \<and> 0 < cout) InvalidShape (
     refuse_unless ((1 \<le> cin \<and> cin \<le> max_in_channels p) \<or> unbacked_channels_allowed pol)
       UnvalidatedConfiguration (
     refuse_unless ((1 \<le> cout \<and> cout \<le> max_out_channels p) \<or> unbacked_channels_allowed pol)
       UnvalidatedConfiguration (
     refuse_unless (p = Int4 \<longrightarrow> cin mod (FEATURE_ATOM_BYTES * 2) = 0)
       UnvalidatedConfiguration (
     refuse_unless (case p of
         Int8Accumulator q \<Rightarrow> input_zero_point q = 0 \<and> output_zero_point q = 0
                              \<and> weight_zero_point q = 0
       | _ \<Rightarrow> True) UnsupportedSemantics (
     refuse_unless
       (Option.bind (checked_mul32 w h) (\<lambda>pixels. checked_mul32 pixels FEATURE_ATOM_BYTES) \<noteq> None)
       HardwareLimit (
     Done \<lparr>width = w, height = h, stride = st, in_channels = cin, out_channels = cout,
           precision = p, padding = None, activation = NoActivation, depthwise = False\<rparr>))))))))"

definition try_with_padding :: "shape \<Rightarrow> padding \<Rightarrow> shape plan_result" where
  "try_with_padding s pads =
     refuse_unless (fst pads \<le> 15 \<and> snd pads \<le> 15) HardwareLimit
       (Done (s\<lparr>padding := Some pads\<rparr>))"

definition try_with_activation :: "shape \<Rightarrow> activation \<Rightarrow> shape plan_result" where
  "try_with_activation s a =
     refuse_unless (\<not> writes_accumulators (precision s) \<or> a = NoActivation) UnsupportedSemantics
       (Done (s\<lparr>activation := a\<rparr>))"

definition try_with_depthwise :: "planning_policy \<Rightarrow> shape \<Rightarrow> shape plan_result" where
  "try_with_depthwise pol s =
     refuse_unless (in_channels s = out_channels s) UnsupportedSemantics (
     refuse_unless (in_channels s \<le> MAX_DEPTHWISE_CHANNELS \<or> unbacked_channels_allowed pol)
       UnvalidatedConfiguration (
     refuse_unless (element_bits (precision s) \<in> {8, 16} \<and> \<not> writes_fp32_result (precision s))
       UnvalidatedConfiguration (
     Done (s\<lparr>depthwise := True\<rparr>))))"

definition CAPTURED :: shape where
  "CAPTURED = \<lparr>width = 32, height = 32, stride = 1, in_channels = 3, out_channels = 8,
     precision = Fp16, padding = None, activation = NoActivation, depthwise = False\<rparr>"

section \<open>Kernel programming\<close>

record kernel_programming =
  k_height :: nat
  k_width :: nat
  k_pad_top :: nat
  k_pad_left :: nat

definition try_kernel_programming_of ::
  "kernels \<Rightarrow> padding option \<Rightarrow> kernel_programming plan_result" where
  "try_kernel_programming_of ks pad =
     (let (h, w) = ks;
          backed = (\<lambda>extent. 1 \<le> extent \<and> extent \<le> (11::nat))
      in refuse_unless (backed h \<and> backed w) UnvalidatedConfiguration (
         let (pad_top, pad_left) = (case pad of Some p \<Rightarrow> p | None \<Rightarrow> (h div 2, w div 2))
         in refuse_unless (pad_top < h \<and> pad_left < w) InvalidShape (
            Done \<lparr>k_height = h, k_width = w, k_pad_top = pad_top, k_pad_left = pad_left\<rparr>)))"

definition try_kernel_programming :: "shape \<Rightarrow> kernels \<Rightarrow> kernel_programming plan_result" where
  "try_kernel_programming s ks = try_kernel_programming_of ks (padding s)"

definition kernel_programming_of ::
  "kernels \<Rightarrow> padding option \<Rightarrow> kernel_programming plan_result" where
  "kernel_programming_of ks pad = unwrap (try_kernel_programming_of ks pad)"

definition kernel_prog :: "shape \<Rightarrow> kernels \<Rightarrow> kernel_programming plan_result" where
  "kernel_prog s ks = kernel_programming_of ks (padding s)"

definition check_extents_against :: "shape \<Rightarrow> kernel_programming \<Rightarrow> unit plan_result" where
  "check_extents_against s k =
     (let padded_width = wrap32 (width s + 2 * k_pad_left k)
      in refuse_unless (k_width k \<le> padded_width) InvalidShape (
         let padded_height = wrap32 (height s + 2 * k_pad_top k)
         in refuse_unless (k_height k \<le> padded_height) InvalidShape (Done ())))"

section \<open>Channel padding and coefficient sizes\<close>

definition shape_granule :: "shape \<Rightarrow> nat" where
  "shape_granule s =
     (let dense = precision_granule (precision s) in if depthwise s then 2 * dense else dense)"

definition feature_atoms :: "shape \<Rightarrow> nat" where
  "feature_atoms s = max (div_ceil (in_channels s) (channels_per_atom (precision s))) 1"

definition padded_channels :: "shape \<Rightarrow> nat" where
  "padded_channels s = wrap32 (feature_atoms s * channels_per_atom (precision s))"

definition weight_channels :: "shape \<Rightarrow> nat" where
  "weight_channels s =
     (if shares_fp16_layout (precision s)
      then wrap32 (quad_atoms (feature_atoms s) * channels_per_atom (precision s))
      else padded_channels s)"

definition programmed_kernels :: "shape \<Rightarrow> nat" where
  "programmed_kernels s =
     (if depthwise s then 1
      else if 16 \<le> element_bits (precision s) then out_channels s
      else wrap32 (next_multiple_of (out_channels s) 2))"

definition padded_out_channels :: "shape \<Rightarrow> nat" where
  "padded_out_channels s =
     (let granule = shape_granule s
      in max (wrap32 (next_multiple_of (out_channels s) granule)) granule)"

definition bs_buffer_bytes :: "nat \<Rightarrow> nat" where
  "bs_buffer_bytes channels = div_ceil channels 8 * 64"

definition shape_bs_buffer_bytes :: "shape \<Rightarrow> nat" where
  "shape_bs_buffer_bytes s = bs_buffer_bytes (padded_out_channels s)"

definition cbuf_atoms :: "shape \<Rightarrow> nat" where
  "cbuf_atoms s = quad_atoms (feature_atoms s)"

definition depthwise_padded_channels :: "shape \<Rightarrow> nat" where
  "depthwise_padded_channels s = wrap32 (cbuf_atoms s * channels_per_atom (precision s))"

definition streamed_contraction_channels :: "shape \<Rightarrow> nat" where
  "streamed_contraction_channels s = (if depthwise s then 1 else weight_channels s)"

text \<open>
  The coefficient byte count, once in 64-bit arithmetic with a refusal when the result does
  not fit the 32-bit register, and once in plain 32-bit arithmetic.
\<close>

definition try_weight_bytes :: "shape \<Rightarrow> kernels \<Rightarrow> nat plan_result" where
  "try_weight_bytes s ks =
     obind (try_kernel_programming s ks) (\<lambda>k.
     let elements = (if depthwise s
                     then cbuf_atoms s * channels_per_atom (precision s)
                     else weight_channels s * programmed_kernels s);
         bytes = wrap64 (wrap64 (elements * element_bits (precision s)) div 8
                         * k_height k * k_width k)
     in refuse_unless (bytes < 2 ^ 32) HardwareLimit (Done bytes))"

definition weight_bytes :: "shape \<Rightarrow> kernels \<Rightarrow> nat plan_result" where
  "weight_bytes s ks =
     obind (kernel_prog s ks) (\<lambda>k.
     if depthwise s
     then obind (bytes_for (precision s) (wrap32 (cbuf_atoms s * channels_per_atom (precision s))))
            (\<lambda>b. Done (wrap32 (k_height k * k_width k * b)))
     else obind (bytes_for (precision s) (wrap32 (weight_channels s * programmed_kernels s)))
            (\<lambda>b. Done (wrap32 (k_height k * k_width k * b))))"

section \<open>Layout, strides and extents\<close>

definition layout :: "shape \<Rightarrow> feature_layout" where
  "layout s = (if in_channels s \<le> MAX_DENSE_CHANNELS then Dense else Surfaces)"

definition output_width :: "shape \<Rightarrow> kernels \<Rightarrow> nat plan_result" where
  "output_width s ks =
     obind (kernel_prog s ks) (\<lambda>k.
     let padded = wrap32 (width s + 2 * k_pad_left k)
     in ensure (k_width k \<le> padded) (
        obind (udiv (padded - k_width k) (stride s)) (\<lambda>q. Done (wrap32 (q + 1)))))"

definition output_height :: "shape \<Rightarrow> kernels \<Rightarrow> nat plan_result" where
  "output_height s ks =
     obind (kernel_prog s ks) (\<lambda>k.
     let padded = wrap32 (height s + 2 * k_pad_top k)
     in ensure (k_height k \<le> padded) (
        obind (udiv (padded - k_height k) (stride s)) (\<lambda>q. Done (wrap32 (q + 1)))))"

definition input_row_stride :: "shape \<Rightarrow> nat plan_result" where
  "input_row_stride s =
     (case layout s of
        Dense \<Rightarrow> obind (element_bytes (precision s)) (\<lambda>b. Done (wrap32 (width s * in_channels s * b)))
      | Surfaces \<Rightarrow> Done (wrap32 (width s * FEATURE_ATOM_BYTES)))"

definition input_surface_stride :: "shape \<Rightarrow> nat" where
  "input_surface_stride s = wrap32 (width s * height s * FEATURE_ATOM_BYTES)"

definition cbuf_input_width :: "shape \<Rightarrow> nat \<Rightarrow> nat" where
  "cbuf_input_width s input_width =
     (case layout s of
        Dense \<Rightarrow> wrap32 (next_multiple_of input_width (channels_per_atom (precision s)))
      | Surfaces \<Rightarrow> input_width)"

definition dense_cbuf_pixel_bytes :: "shape \<Rightarrow> nat plan_result" where
  "dense_cbuf_pixel_bytes s =
     obind (element_bytes (precision s)) (\<lambda>b.
       Done (wrap32 (min (next_power_of_two (in_channels s)) 4 * b)))"

definition dense_feature_offset_safe :: "shape \<Rightarrow> nat \<Rightarrow> bool plan_result" where
  "dense_feature_offset_safe s in_first =
     (if layout s \<noteq> Dense then Done True
      else obind (input_row_stride s) (\<lambda>row.
             let offset = wrap32 (in_first * row) mod FEATURE_ATOM_BYTES in Done (offset = 0)))"

definition tile_in_first :: "shape \<Rightarrow> kernels \<Rightarrow> nat \<Rightarrow> nat plan_result" where
  "tile_in_first s ks out_first =
     obind (kernel_prog s ks) (\<lambda>k.
       Done (saturating_sub (wrap32 (out_first * stride s)) (k_pad_top k)))"

definition output_channel_block_bytes :: "shape \<Rightarrow> nat" where
  "output_channel_block_bytes s =
     (if writes_accumulators (precision s) \<and> depthwise s
      then precision_granule (precision s) * output_element_bytes (precision s)
      else FEATURE_ATOM_BYTES)"

definition output_atom_bytes :: "shape \<Rightarrow> nat" where
  "output_atom_bytes s =
     (if depthwise s \<and> writes_accumulators (precision s)
      then 2 * precision_granule (precision s) * output_element_bytes (precision s)
      else output_channel_block_bytes s)"

definition output_row_stride :: "shape \<Rightarrow> kernels \<Rightarrow> nat plan_result" where
  "output_row_stride s ks =
     obind (output_width s ks) (\<lambda>w. Done (wrap32 (w * output_channel_block_bytes s)))"

definition output_blocks_per_pixel :: "shape \<Rightarrow> nat" where
  "output_blocks_per_pixel s =
     div_ceil (wrap32 (padded_out_channels s * output_element_bytes (precision s)))
       (output_atom_bytes s)"

definition parity_padded_shape :: "shape \<Rightarrow> kernels \<Rightarrow> (string, shape) outcome" where
  "parity_padded_shape s ks = Done s"

definition output_scratch_bytes :: "shape \<Rightarrow> kernels \<Rightarrow> nat plan_result" where
  "output_scratch_bytes s ks =
     (let channel_bytes = padded_out_channels s * output_element_bytes (precision s);
          block_bytes = output_atom_bytes s;
          block_count = div_ceil channel_bytes block_bytes
      in obind (output_width s ks) (\<lambda>w.
         obind (output_height s ks) (\<lambda>h.
         Done (wrap64 (w * h * block_count * block_bytes)))))"

end
