(* ===== verification/Tiles.thy ===== *)
theory Tiles
  imports ConvShape
begin

text \<open>
  Row and column tiles of a convolution (\<open>Tile\<close>, \<open>ColumnTile\<close> in
  \<open>rocket-core/src/conv.rs\<close>): the input window each output range reads, equal splits,
  and the greedy split to a row capacity.
\<close>

section \<open>Row tiles\<close>

record tile =
  out_first :: nat
  out_rows :: nat
  in_first :: nat
  in_rows :: nat
  pad_top :: nat

text \<open>
  \<open>Tile::from_bounds\<close> looks the kernel programming up and then computes; the arithmetic is
  a function of its own so that the loops below look it up once.
\<close>

definition last_tap_row :: "shape \<Rightarrow> kernel_programming \<Rightarrow> nat \<Rightarrow> nat \<Rightarrow> nat" where
  "last_tap_row s k first rows =
     sub32 (wrap32 (sub32 (wrap32 (first + rows)) 1 * stride s + k_height k)) 1"

definition tile_at :: "shape \<Rightarrow> kernel_programming \<Rightarrow> nat \<Rightarrow> nat \<Rightarrow> tile" where
  "tile_at s k first rows =
     (let pad = k_pad_top k;
          in_f = saturating_sub (wrap32 (first * stride s)) pad;
          last_tap = last_tap_row s k first rows;
          in_last = min (saturating_sub last_tap pad) (sub32 (height s) 1);
          exact = wrap32 (sub32 in_last in_f + 1);
          in_r = min (max exact (wrap32 (rows * stride s))) (sub32 (height s) in_f);
          projected_first = wrap32 (first * stride s)
      in \<lparr>out_first = first, out_rows = rows, in_first = in_f, in_rows = in_r,
          pad_top = saturating_sub pad projected_first\<rparr>)"

definition tile_from_bounds :: "shape \<Rightarrow> kernels \<Rightarrow> nat \<Rightarrow> nat \<Rightarrow> tile plan_result" where
  "tile_from_bounds s ks first rows =
     obind (kernel_prog s ks) (\<lambda>k. Done (tile_at s k first rows))"

fun tile_split_from ::
  "shape \<Rightarrow> kernel_programming \<Rightarrow> nat \<Rightarrow> nat \<Rightarrow> nat \<Rightarrow> nat list \<Rightarrow> tile list" where
  "tile_split_from s k base remainder first [] = []"
| "tile_split_from s k base remainder first (index # rest) =
     (let rows = wrap32 (base + (if index < remainder then 1 else 0))
      in tile_at s k first rows
         # tile_split_from s k base remainder (wrap32 (first + rows)) rest)"

definition tile_split :: "shape \<Rightarrow> kernels \<Rightarrow> nat \<Rightarrow> tile list plan_result" where
  "tile_split s ks tiles =
     obind (output_height s ks) (\<lambda>oh.
     ensure (1 \<le> tiles \<and> tiles \<le> oh) (
     obind (kernel_prog s ks) (\<lambda>k.
     Done (tile_split_from s k (oh div tiles) (oh mod tiles) 0 [0..<tiles]))))"

text \<open>\<open>Tile::whole\<close> is the first element of the one-tile split.\<close>

definition tile_whole :: "shape \<Rightarrow> kernels \<Rightarrow> tile plan_result" where
  "tile_whole s ks =
     obind (tile_split s ks 1) (\<lambda>ts. case ts of t # _ \<Rightarrow> Done t | [] \<Rightarrow> Panicked)"

text \<open>
  The greedy split. One candidate height is a tile when the rows it would need with no image
  clipping fit the capacity; candidates are tried from the largest down.
\<close>

definition greedy_candidate ::
  "shape \<Rightarrow> kernel_programming \<Rightarrow> nat \<Rightarrow> nat \<Rightarrow> nat \<Rightarrow> tile option" where
  "greedy_candidate s k max_input_rows first rows =
     (let t = tile_at s k first rows;
          in_f = saturating_sub (wrap32 (first * stride s)) (k_pad_top k);
          unclipped_in_last = saturating_sub (last_tap_row s k first rows) (k_pad_top k);
          capacity_rows = max (wrap32 (sub32 unclipped_in_last in_f + 1)) (wrap32 (rows * stride s))
      in if capacity_rows \<le> max_input_rows then Some t else None)"

lemma out_rows_tile_at [simp]: "out_rows (tile_at s k f r) = r"
  by (simp add: tile_at_def Let_def)

lemma out_first_tile_at [simp]: "out_first (tile_at s k f r) = f"
  by (simp add: tile_at_def Let_def)

lemma greedy_candidate_SomeD: "greedy_candidate s k m f r = Some t \<Longrightarrow> t = tile_at s k f r"
  by (auto simp: greedy_candidate_def Let_def split: if_splits)

lemma greedy_found_rows:
  "find_map (greedy_candidate s k m f) (rev [Suc 0..<Suc n]) = Some t \<Longrightarrow>
   1 \<le> out_rows t \<and> out_rows t \<le> n \<and> t = tile_at s k f (out_rows t)"
  by (auto dest!: find_map_SomeD greedy_candidate_SomeD simp del: upt_Suc)

function greedy_from ::
  "shape \<Rightarrow> kernel_programming \<Rightarrow> nat \<Rightarrow> nat \<Rightarrow> nat \<Rightarrow> tile list option" where
  "greedy_from s k oh max_input_rows first =
     (if first < oh
      then case find_map (greedy_candidate s k max_input_rows first) (rev [Suc 0..<Suc (oh - first)]) of
             None \<Rightarrow> None
           | Some t \<Rightarrow> map_option (\<lambda>ts. t # ts)
                         (greedy_from s k oh max_input_rows (first + out_rows t))
      else Some [])"
  by pat_completeness auto
termination
  by (relation "measure (\<lambda>(s, k, oh, m, first). oh - first)")
     (auto dest!: greedy_found_rows simp del: upt_Suc)

declare greedy_from.simps [simp del]

definition split_greedy_to_capacity ::
  "shape \<Rightarrow> kernels \<Rightarrow> nat \<Rightarrow> tile list option plan_result" where
  "split_greedy_to_capacity s ks max_input_rows =
     obind (output_height s ks) (\<lambda>oh.
     obind (tile_from_bounds s ks 0 oh) (\<lambda>whole.
     if in_rows whole \<le> max_input_rows then Done (Some [whole])
     else obind (kernel_prog s ks) (\<lambda>k. Done (greedy_from s k oh max_input_rows 0))))"

definition tile_input_offset :: "tile \<Rightarrow> shape \<Rightarrow> nat plan_result" where
  "tile_input_offset t s = obind (input_row_stride s) (\<lambda>row. Done (wrap32 (in_first t * row)))"

definition tile_output_offset :: "tile \<Rightarrow> shape \<Rightarrow> kernels \<Rightarrow> nat plan_result" where
  "tile_output_offset t s ks =
     obind (output_row_stride s ks) (\<lambda>row. Done (wrap32 (out_first t * row)))"

section \<open>Column tiles\<close>

record column_tile =
  col_out_first :: nat
  col_out_cols :: nat
  col_in_first :: nat
  col_in_cols :: nat
  col_pad_left :: nat

definition column_at ::
  "shape \<Rightarrow> kernel_programming \<Rightarrow> nat \<Rightarrow> nat \<Rightarrow> nat \<Rightarrow> column_tile" where
  "column_at s k ow first cols =
     (let projected_first = wrap32 (first * stride s);
          in_f = saturating_sub projected_first (k_pad_left k);
          last_tap = sub32 (wrap32 (sub32 (wrap32 (first + cols)) 1 * stride s + k_width k)) 1;
          in_last = min (saturating_sub last_tap (k_pad_left k)) (sub32 (width s) 1);
          exact = wrap32 (sub32 in_last in_f + 1);
          spans_full_row = (first = 0 \<and> wrap32 (first + cols) = ow);
          in_c = (if spans_full_row then sub32 (width s) in_f
                  else min (max exact (wrap32 (cols * stride s))) (sub32 (width s) in_f))
      in \<lparr>col_out_first = first, col_out_cols = cols, col_in_first = in_f, col_in_cols = in_c,
          col_pad_left = saturating_sub (k_pad_left k) projected_first\<rparr>)"

definition column_from_output_range ::
  "shape \<Rightarrow> kernels \<Rightarrow> nat \<Rightarrow> nat \<Rightarrow> column_tile plan_result" where
  "column_from_output_range s ks first cols =
     obind (output_width s ks) (\<lambda>ow.
     ensure (0 < cols \<and> wrap32 (first + cols) \<le> ow) (
     obind (kernel_prog s ks) (\<lambda>k. Done (column_at s k ow first cols))))"

fun column_split_from ::
  "shape \<Rightarrow> kernels \<Rightarrow> nat \<Rightarrow> nat list \<Rightarrow> column_tile list plan_result" where
  "column_split_from s ks first [] = Done []"
| "column_split_from s ks first (cols # rest) =
     obind (column_from_output_range s ks first cols) (\<lambda>t.
     obind (column_split_from s ks (wrap32 (first + cols)) rest) (\<lambda>ts. Done (t # ts)))"

definition column_split :: "shape \<Rightarrow> kernels \<Rightarrow> nat list \<Rightarrow> column_tile list plan_result" where
  "column_split s ks output_widths =
     ensure (output_widths \<noteq> []) (
     obind (output_width s ks) (\<lambda>ow.
     ensure (wrap32 (sum_list output_widths) = ow) (column_split_from s ks 0 output_widths)))"

definition column_whole :: "shape \<Rightarrow> kernels \<Rightarrow> column_tile plan_result" where
  "column_whole s ks =
     obind (output_width s ks) (\<lambda>ow. column_from_output_range s ks 0 ow)"

definition column_input_offset :: "column_tile \<Rightarrow> shape \<Rightarrow> nat plan_result" where
  "column_input_offset c s =
     (case layout s of
        Dense \<Rightarrow> obind (element_bytes (precision s)) (\<lambda>b.
                   Done (wrap32 (col_in_first c * in_channels s * b)))
      | Surfaces \<Rightarrow> Done (wrap32 (col_in_first c * FEATURE_ATOM_BYTES)))"

definition column_output_offset :: "column_tile \<Rightarrow> shape \<Rightarrow> nat" where
  "column_output_offset c s = wrap32 (col_out_first c * output_channel_block_bytes s)"

end
