(* ===== verification/CbufPartition.thy ===== *)
theory CbufPartition
  imports Tiles
begin

text \<open>
  How the twelve CBUF banks are divided between feature data and coefficients, and how many
  input rows and columns a division holds (\<open>rocket-core/src/conv.rs\<close>).
\<close>

section \<open>Coefficient bank preference\<close>

definition weight_banks_floor :: "nat \<Rightarrow> nat" where
  "weight_banks_floor channels =
     (if channels \<le> 256 then 3 else min (3 + (channels - 256) div 64) 5)"

definition streamed_weight_bank_preference_for_group ::
  "nat \<Rightarrow> kernels \<Rightarrow> nat \<Rightarrow> nat \<Rightarrow> nat plan_result" where
  "streamed_weight_bank_preference_for_group channels ks group_divisor bits =
     (let group_bytes_per_tap = wrap32 (64 * max (bits div 16) 1)
      in obind (udiv (wrap32 (wrap32 (fst ks) * wrap32 (snd ks) * channels * group_bytes_per_tap))
                     group_divisor) (\<lambda>working_set.
         let entries = div_ceil working_set CBUF_ENTRY_BYTES;
             banks = max (div_ceil entries CBUF_ENTRIES_PER_BANK) 1
         in if group_divisor = 1 then Done banks
            else if banks < 2 then Done 2
            else let remainder = entries mod CBUF_ENTRIES_PER_BANK
                 in if remainder \<noteq> 0 \<and> CBUF_ENTRIES_PER_BANK mod remainder \<noteq> 0
                    then Done (banks + 1) else Done banks))"

definition streamed_weight_bank_preference ::
  "nat \<Rightarrow> kernels \<Rightarrow> nat \<Rightarrow> nat plan_result" where
  "streamed_weight_bank_preference channels ks bits =
     obind (streamed_weight_bank_preference_for_group channels ks 1 bits) (\<lambda>undivided.
     if undivided \<le> MAX_UNDIVIDED_WEIGHT_BANKS then Done undivided
     else streamed_weight_bank_preference_for_group channels ks 2 bits)"

section \<open>Demand\<close>

definition data_bank_demand :: "shape \<Rightarrow> nat plan_result" where
  "data_bank_demand s =
     (case layout s of
        Dense \<Rightarrow> obind (dense_cbuf_pixel_bytes s) (\<lambda>pixel.
          Done (max (div_ceil (wrap32 (cbuf_input_width s (width s) * height s * pixel))
                              (8 * PIXELS_PER_BANK_STEP)) 1))
      | Surfaces \<Rightarrow>
          Done (max (div_ceil (wrap32 (width s * height s * cbuf_atoms s))
                              (2 * PIXELS_PER_BANK_STEP)) 1))"

definition weight_bank_demand :: "shape \<Rightarrow> kernels \<Rightarrow> nat plan_result" where
  "weight_bank_demand s ks =
     obind (weight_bytes s ks) (\<lambda>b. Done (max (div_ceil b CBUF_BANK_BYTES) 1))"

section \<open>Capacity\<close>

definition max_tile_input_rows_for_width_and_data_banks ::
  "shape \<Rightarrow> nat \<Rightarrow> nat \<Rightarrow> nat plan_result" where
  "max_tile_input_rows_for_width_and_data_banks s input_width data_banks =
     ensure (1 \<le> data_banks \<and> data_banks < CBUF_BANKS) (
     ensure (1 \<le> input_width \<and> input_width \<le> width s) (
     let charged_width = cbuf_input_width s input_width
     in obind (case layout s of
          Dense \<Rightarrow> obind (dense_cbuf_pixel_bytes s) (\<lambda>pixel.
            udiv (data_banks * (CBUF_BANK_BYTES div 4)) (wrap32 (charged_width * pixel)))
        | Surfaces \<Rightarrow>
            let entries_per_row = div_ceil (wrap32 (input_width * cbuf_atoms s)) CBUF_ATOMS_PER_ENTRY
            in udiv (data_banks * CBUF_BANK_BYTES)
                 (wrap32 (entries_per_row * CBUF_ATOMS_PER_ENTRY * FEATURE_ATOM_BYTES)))
        (\<lambda>capacity. obind (udiv MAX_DATA_ENTRIES charged_width) (\<lambda>entries.
           Done (min capacity entries)))))"

definition max_tile_input_rows_for_data_banks :: "shape \<Rightarrow> nat \<Rightarrow> nat plan_result" where
  "max_tile_input_rows_for_data_banks s data_banks =
     max_tile_input_rows_for_width_and_data_banks s (width s) data_banks"

definition max_tile_input_width :: "shape \<Rightarrow> nat" where
  "max_tile_input_width s =
     (let extra_slabs = (case layout s of
            Dense \<Rightarrow> 0
          | Surfaces \<Rightarrow> sub32 (div_ceil (cbuf_atoms s) CBUF_ATOMS_PER_ENTRY) 1)
      in if extra_slabs = 0 then width s
         else min (MAX_ENTRY_SLAB_BASE div extra_slabs) (width s))"

definition max_feature_grain_input_rows :: "shape \<Rightarrow> kernels \<Rightarrow> nat plan_result" where
  "max_feature_grain_input_rows s ks =
     obind (kernel_prog s ks) (\<lambda>k.
     Done (max (saturating_sub MAX_FEATURE_GRAINS (wrap32 (k_height k + k_pad_top k))) 1))"

definition min_tiles_for_width_and_data_banks ::
  "shape \<Rightarrow> kernels \<Rightarrow> nat \<Rightarrow> nat \<Rightarrow> nat plan_result" where
  "min_tiles_for_width_and_data_banks s ks input_width data_banks =
     obind (kernel_prog s ks) (\<lambda>k.
     let halo = sub32 (k_height k) 1
     in obind (max_tile_input_rows_for_width_and_data_banks s input_width data_banks) (\<lambda>cap.
        obind (max_feature_grain_input_rows s ks) (\<lambda>grain.
        let rows = max (saturating_sub (min cap grain) halo) 1
        in ensure (stride s \<noteq> 0) (
           let output_rows = max (div_ceil rows (stride s)) 1
           in obind (output_height s ks) (\<lambda>oh. Done (div_ceil oh output_rows))))))"

section \<open>The partition\<close>

definition try_demand_based_cbuf_partition :: "shape \<Rightarrow> kernels \<Rightarrow> (nat \<times> nat) plan_result" where
  "try_demand_based_cbuf_partition s ks =
     obind (data_bank_demand s) (\<lambda>data.
     obind (weight_bank_demand s ks) (\<lambda>weights.
     let granted = (if data \<le> weights then data
                    else min data (saturating_sub CBUF_BANKS weights));
         data_banks = min (max granted 1) (CBUF_BANKS - 1);
         weight_banks = CBUF_BANKS - data_banks
     in obind (streamed_weight_bank_preference (streamed_contraction_channels s) ks
                 (element_bits (precision s))) (\<lambda>streamed_preference.
     refuse_unless (streamed_preference < CBUF_BANKS) UnvalidatedConfiguration (
     let floor = max (weight_banks_floor (weight_channels s)) streamed_preference
     in if data_banks = 1 \<and> streamed_preference < weight_banks \<and> streamed_preference < weights
        then let weight_banks = min floor (CBUF_BANKS - 1)
             in Done (CBUF_BANKS - weight_banks, weight_banks)
        else if weight_banks < floor \<and> weight_banks < weights
        then let weight_banks = min floor (CBUF_BANKS - 1)
             in Done (CBUF_BANKS - weight_banks, weight_banks)
        else
          let whole_data_banks = min data (CBUF_BANKS - 1);
              whole_weight_banks = CBUF_BANKS - whole_data_banks
          in obind (tile_whole s ks) (\<lambda>whole.
             obind (max_tile_input_rows_for_data_banks s data_banks) (\<lambda>baseline_rows.
             obind (max_tile_input_rows_for_data_banks s whole_data_banks) (\<lambda>whole_rows.
             let baseline_fits = in_rows whole \<le> baseline_rows;
                 whole_data_fits = in_rows whole \<le> whole_rows
             in if data_banks < whole_data_banks \<and> floor \<le> whole_weight_banks
                   \<and> \<not> baseline_fits \<and> whole_data_fits
                then Done (whole_data_banks, whole_weight_banks)
                else Done (data_banks, weight_banks))))))))"

definition assert_default_cbuf_kernel :: "kernels \<Rightarrow> unit plan_result" where
  "assert_default_cbuf_kernel ks = ensure (ks = (1, 1) \<or> ks = (3, 3)) (Done ())"

definition data_banks_of :: "shape \<Rightarrow> kernels \<Rightarrow> nat plan_result" where
  "data_banks_of s ks =
     obind (assert_default_cbuf_kernel ks) (\<lambda>_.
     obind (unwrap (try_demand_based_cbuf_partition s ks)) (\<lambda>p. Done (fst p)))"

definition weight_banks_of :: "shape \<Rightarrow> kernels \<Rightarrow> nat plan_result" where
  "weight_banks_of s ks = obind (data_banks_of s ks) (\<lambda>d. Done (CBUF_BANKS - d))"

definition max_tile_input_rows :: "shape \<Rightarrow> kernels \<Rightarrow> nat plan_result" where
  "max_tile_input_rows s ks =
     obind (data_banks_of s ks) (\<lambda>d.
     obind (max_tile_input_rows_for_data_banks s d) (\<lambda>rows.
     obind (max_feature_grain_input_rows s ks) (\<lambda>grain. Done (min rows grain))))"

definition min_tiles :: "shape \<Rightarrow> kernels \<Rightarrow> nat plan_result" where
  "min_tiles s ks =
     obind (data_banks_of s ks) (\<lambda>d. min_tiles_for_width_and_data_banks s ks (width s) d)"

section \<open>Partitions of the large kernels\<close>

definition unstarved_large_kernel_partition ::
  "shape \<Rightarrow> kernels \<Rightarrow> nat \<times> nat \<Rightarrow> (nat \<times> nat) plan_result" where
  "unstarved_large_kernel_partition s ks captured =
     obind (streamed_weight_bank_preference (streamed_contraction_channels s) ks
              (element_bits (precision s))) (\<lambda>preference.
     let weight_banks = min (max (snd captured) preference) (CBUF_BANKS - 1)
     in Done (CBUF_BANKS - weight_banks, weight_banks))"

definition large_kernel_max_in_channels :: "precision \<Rightarrow> nat \<Rightarrow> nat" where
  "large_kernel_max_in_channels p extent =
     (if extent \<le> 5 then U32_MAX
      else if extent = 9 then 128
      else if extent = 11 then 64
      else case p of Tf32 \<Rightarrow> 96 | Int4 \<Rightarrow> 224 | _ \<Rightarrow> 208)"

definition check_large_kernel_plan_case ::
  "planning_policy \<Rightarrow> shape \<Rightarrow> nat \<Rightarrow> bool \<Rightarrow> unit plan_result" where
  "check_large_kernel_plan_case pol s extent precision_neutral =
     (if large_kernel_probing_allowed pol then Done ()
      else refuse_unless (precision_neutral \<or> precision s = Fp16) UnvalidatedConfiguration (
           refuse_unless (stride s = 1) UnvalidatedConfiguration (
           let ceiling = large_kernel_max_in_channels (precision s) extent
           in refuse_unless (in_channels s \<le> ceiling) UnvalidatedConfiguration (Done ()))))"

definition MAX_NON_SQUARE_DEMAND_BASED_WEIGHT_BANKS :: nat where
  "MAX_NON_SQUARE_DEMAND_BASED_WEIGHT_BANKS = 5"
definition MAX_EVEN_SQUARE_DEMAND_BASED_WEIGHT_BANKS :: nat where
  "MAX_EVEN_SQUARE_DEMAND_BASED_WEIGHT_BANKS = 8"
definition MAX_EVEN_NON_SQUARE_FP16_DEMAND_BASED_WEIGHT_BANKS :: nat where
  "MAX_EVEN_NON_SQUARE_FP16_DEMAND_BASED_WEIGHT_BANKS = 6"
definition MAX_EVEN_NON_SQUARE_INT8_DEMAND_BASED_WEIGHT_BANKS :: nat where
  "MAX_EVEN_NON_SQUARE_INT8_DEMAND_BASED_WEIGHT_BANKS = 4"

definition even_square_cbuf_partition :: "shape \<Rightarrow> kernels \<Rightarrow> (nat \<times> nat) plan_result" where
  "even_square_cbuf_partition s ks =
     refuse_unless (stride s = 1) UnvalidatedConfiguration (
     obind (weight_bank_demand s ks) (\<lambda>demand.
     refuse_unless (demand \<le> MAX_EVEN_SQUARE_DEMAND_BASED_WEIGHT_BANKS) UnvalidatedConfiguration (
     try_demand_based_cbuf_partition s ks)))"

definition non_square_cbuf_partition :: "shape \<Rightarrow> kernels \<Rightarrow> (nat \<times> nat) plan_result" where
  "non_square_cbuf_partition s ks =
     refuse_unless (stride s = 1) UnvalidatedConfiguration (
     obind (try_kernel_programming s ks) (\<lambda>k.
     let both_even = (k_height k mod 2 = 0 \<and> k_width k mod 2 = 0);
         limit = (if both_even
                  then (if precision s = Fp16
                        then MAX_EVEN_NON_SQUARE_FP16_DEMAND_BASED_WEIGHT_BANKS
                        else MAX_EVEN_NON_SQUARE_INT8_DEMAND_BASED_WEIGHT_BANKS)
                  else MAX_NON_SQUARE_DEMAND_BASED_WEIGHT_BANKS)
     in obind (weight_bank_demand s ks) (\<lambda>demand.
        refuse_unless (demand \<le> limit) UnvalidatedConfiguration (
        try_demand_based_cbuf_partition s ks))))"

end
