(* ===== verification/ConvPlan.thy ===== *)
theory ConvPlan
  imports CbufPartition
begin

text \<open>
  The planner proper (\<open>ConvPlan\<close> in \<open>rocket-core/src/conv.rs\<close>): the grid of tiles under
  a CBUF partition, the dense realignment, the search over column partitions, and the entry
  points \<open>try_new\<close> and \<open>try_with_cbuf_banks\<close>.
\<close>

record tile2d =
  t_rows :: tile
  t_columns :: column_tile

record conv_plan =
  plan_shape :: shape
  plan_kernels :: kernels
  plan_data_banks :: nat
  plan_weight_banks :: nat
  plan_output_column_widths :: "nat list"
  plan_tiles :: "tile2d list"

section \<open>Grids\<close>

definition tile2d_whole :: "shape \<Rightarrow> kernels \<Rightarrow> tile2d plan_result" where
  "tile2d_whole s ks =
     obind (tile_whole s ks) (\<lambda>r.
     obind (column_whole s ks) (\<lambda>c. Done \<lparr>t_rows = r, t_columns = c\<rparr>))"

fun grid_columns ::
  "shape \<Rightarrow> kernels \<Rightarrow> nat \<Rightarrow> column_tile list \<Rightarrow> tile2d list plan_result" where
  "grid_columns s ks d [] = Done []"
| "grid_columns s ks d (c # cs) =
     obind (min_tiles_for_width_and_data_banks s ks (col_in_cols c) d) (\<lambda>n.
     obind (tile_split s ks n) (\<lambda>rows.
     obind (grid_columns s ks d cs) (\<lambda>rest.
     Done (map (\<lambda>r. \<lparr>t_rows = r, t_columns = c\<rparr>) rows @ rest))))"

definition tile2d_grid ::
  "shape \<Rightarrow> kernels \<Rightarrow> nat list \<Rightarrow> nat \<Rightarrow> tile2d list plan_result" where
  "tile2d_grid s ks widths d =
     obind (column_split s ks widths) (\<lambda>columns. grid_columns s ks d columns)"

definition tile2d_input_offset :: "tile2d \<Rightarrow> shape \<Rightarrow> nat plan_result" where
  "tile2d_input_offset t s =
     obind (tile_input_offset (t_rows t) s) (\<lambda>a.
     obind (column_input_offset (t_columns t) s) (\<lambda>b. Done (wrap32 (a + b))))"

definition tile2d_output_offset :: "tile2d \<Rightarrow> shape \<Rightarrow> kernels \<Rightarrow> nat plan_result" where
  "tile2d_output_offset t s ks =
     obind (tile_output_offset (t_rows t) s ks) (\<lambda>a.
     Done (wrap32 (a + column_output_offset (t_columns t) s)))"

definition feature_grains :: "kernels \<Rightarrow> tile \<Rightarrow> nat plan_result" where
  "feature_grains ks t =
     obind (kernel_programming_of ks None) (\<lambda>k.
     Done (wrap32 (in_rows t + k_height k + pad_top t)))"

fun grid_fits :: "shape \<Rightarrow> kernels \<Rightarrow> tile2d list \<Rightarrow> nat \<Rightarrow> bool plan_result" where
  "grid_fits s ks [] d = Done True"
| "grid_fits s ks (t # ts) d =
     (if \<not> col_in_cols (t_columns t) \<le> max_tile_input_width s then Done False
      else obind (max_tile_input_rows_for_width_and_data_banks s (col_in_cols (t_columns t)) d)
        (\<lambda>rows. if \<not> in_rows (t_rows t) \<le> rows then Done False
           else obind (feature_grains ks (t_rows t)) (\<lambda>g.
                if \<not> g \<le> MAX_FEATURE_GRAINS then Done False else grid_fits s ks ts d)))"

section \<open>Realigning the row tiles of a dense input\<close>

text \<open>
  Each interior boundary moves to the nearest output row, searched outwards and downwards
  first, whose first input row starts on a feature atom, staying strictly between the
  (already moved) boundary before it and the one after it.
\<close>

definition boundary_safe :: "shape \<Rightarrow> kernels \<Rightarrow> nat \<Rightarrow> bool plan_result" where
  "boundary_safe s ks boundary =
     obind (tile_in_first s ks boundary) (\<lambda>f. dense_feature_offset_safe s f)"

fun search_candidates ::
  "(nat \<Rightarrow> bool plan_result) \<Rightarrow> nat \<Rightarrow> nat \<Rightarrow> nat list \<Rightarrow> nat option plan_result" where
  "search_candidates safe lower upper [] = Done None"
| "search_candidates safe lower upper (c # cs) =
     (if c < lower \<or> upper < c then search_candidates safe lower upper cs
      else obind (safe c) (\<lambda>ok. if ok then Done (Some c)
                                else search_candidates safe lower upper cs))"

definition candidates_at :: "nat \<Rightarrow> nat \<Rightarrow> nat list" where
  "candidates_at current distance =
     (case checked_sub current distance of Some c \<Rightarrow> [c] | None \<Rightarrow> [])
     @ (case checked_add32 current distance of Some c \<Rightarrow> [c] | None \<Rightarrow> [])"

fun search_distances ::
  "(nat \<Rightarrow> bool plan_result) \<Rightarrow> nat \<Rightarrow> nat \<Rightarrow> nat \<Rightarrow> nat list \<Rightarrow> nat option plan_result" where
  "search_distances safe lower upper current [] = Done None"
| "search_distances safe lower upper current (d # ds) =
     obind (search_candidates safe lower upper (candidates_at current d)) (\<lambda>best.
     case best of Some b \<Rightarrow> Done (Some b)
     | None \<Rightarrow> search_distances safe lower upper current ds)"

fun realign_boundaries ::
  "(nat \<Rightarrow> bool plan_result) \<Rightarrow> nat list \<Rightarrow> nat list \<Rightarrow> nat list option plan_result" where
  "realign_boundaries safe bs [] = Done (Some bs)"
| "realign_boundaries safe bs (i # is) =
     (let lower = wrap32 (bs ! (i - 1) + 1);
          upper = sub32 (bs ! (i + 1)) 1
      in if upper < lower then Done None
         else let current = bs ! i
              in obind (safe current) (\<lambda>ok.
                 if ok then realign_boundaries safe bs is
                 else let max_distance = max (sub32 current lower) (sub32 upper current)
                      in obind (search_distances safe lower upper current [1..<Suc max_distance])
                           (\<lambda>best. case best of
                              None \<Rightarrow> Done None
                            | Some b \<Rightarrow> realign_boundaries safe (bs[i := b]) is)))"

fun tiles_of_boundaries :: "shape \<Rightarrow> kernel_programming \<Rightarrow> nat list \<Rightarrow> tile list" where
  "tiles_of_boundaries s k (a # b # rest) =
     tile_at s k a (sub32 b a) # tiles_of_boundaries s k (b # rest)"
| "tiles_of_boundaries s k bs = []"

definition realign_dense_row_tiles ::
  "shape \<Rightarrow> kernels \<Rightarrow> tile list \<Rightarrow> nat \<Rightarrow> tile list option plan_result" where
  "realign_dense_row_tiles s ks tiles max_rows =
     (if layout s \<noteq> Dense \<or> length tiles \<le> 1 then Done (Some tiles)
      else obind (output_height s ks) (\<lambda>oh.
           let boundaries = map out_first tiles @ [oh]
           in obind (realign_boundaries (boundary_safe s ks) boundaries
                       [1..<length boundaries - 1]) (\<lambda>moved.
              case moved of
                None \<Rightarrow> Done None
              | Some bs \<Rightarrow>
                  obind (kernel_prog s ks) (\<lambda>k.
                  let realigned = tiles_of_boundaries s k bs
                  in if \<forall>t \<in> set realigned. in_rows t \<le> max_rows then Done (Some realigned)
                     else Done None))))"

section \<open>Planning a grid under a partition\<close>

text \<open>The equal splits tried, in order, when the greedy split could not be realigned.\<close>

fun equal_split_fallback ::
  "shape \<Rightarrow> kernels \<Rightarrow> nat \<Rightarrow> nat list \<Rightarrow> tile list option plan_result" where
  "equal_split_fallback s ks max_rows [] = Done None"
| "equal_split_fallback s ks max_rows (count # counts) =
     obind (tile_split s ks count) (\<lambda>rows.
     if \<not> (\<forall>t \<in> set rows. in_rows t \<le> max_rows)
     then equal_split_fallback s ks max_rows counts
     else obind (realign_dense_row_tiles s ks rows max_rows) (\<lambda>r.
          case r of Some ts \<Rightarrow> Done (Some ts)
          | None \<Rightarrow> equal_split_fallback s ks max_rows counts))"

definition plan_column_rows ::
  "shape \<Rightarrow> kernels \<Rightarrow> nat \<Rightarrow> tile list option plan_result" where
  "plan_column_rows s ks max_rows =
     obind (split_greedy_to_capacity s ks max_rows) (\<lambda>g.
     case g of None \<Rightarrow> Done None
     | Some greedy \<Rightarrow>
         obind (realign_dense_row_tiles s ks greedy max_rows) (\<lambda>r.
         case r of Some ts \<Rightarrow> Done (Some ts)
         | None \<Rightarrow> obind (output_height s ks) (\<lambda>oh.
                   equal_split_fallback s ks max_rows [1..<Suc oh])))"

fun plan_columns ::
  "shape \<Rightarrow> kernels \<Rightarrow> nat \<Rightarrow> column_tile list \<Rightarrow> tile2d list option plan_result" where
  "plan_columns s ks d [] = Done (Some [])"
| "plan_columns s ks d (c # cs) =
     (if max_tile_input_width s < col_in_cols c then Done None
      else obind (max_tile_input_rows_for_width_and_data_banks s (col_in_cols c) d) (\<lambda>cap.
           obind (max_feature_grain_input_rows s ks) (\<lambda>grain.
           obind (plan_column_rows s ks (min cap grain)) (\<lambda>r.
           case r of None \<Rightarrow> Done None
           | Some rows \<Rightarrow>
               obind (plan_columns s ks d cs) (\<lambda>rest.
               Done (map_option (\<lambda>ts. map (\<lambda>r. \<lparr>t_rows = r, t_columns = c\<rparr>) rows @ ts)
                       rest))))))"

definition plan_grid ::
  "shape \<Rightarrow> kernels \<Rightarrow> nat list \<Rightarrow> nat \<Rightarrow> tile2d list option plan_result" where
  "plan_grid s ks widths d =
     obind (column_split s ks widths) (\<lambda>columns. plan_columns s ks d columns)"

definition balanced_column_widths :: "nat \<Rightarrow> nat \<Rightarrow> nat list" where
  "balanced_column_widths ow columns =
     (let base = ow div columns; remainder = ow mod columns
      in map (\<lambda>index. wrap32 (base + (if index < remainder then 1 else 0))) [0..<columns])"

definition captured_column_partition :: "shape \<Rightarrow> kernels \<Rightarrow> nat list option" where
  "captured_column_partition s ks =
     (let focused_shape = (width s = 256 \<and> height s = 32 \<and> stride s = 1 \<and> out_channels s = 64
            \<and> precision s = Fp16 \<and> padding s = None)
      in if \<not> focused_shape then None
         else if ks = (9, 9) \<and> in_channels s = 64 then Some [135, 121]
         else if ks = (11, 11) \<and> in_channels s = 48 then Some [137, 119]
         else if ks = (11, 11) \<and> in_channels s = 64 then Some [59, 54, 54, 54, 35]
         else None)"

definition make_plan ::
  "shape \<Rightarrow> kernels \<Rightarrow> nat \<times> nat \<Rightarrow> nat list \<Rightarrow> tile2d list \<Rightarrow> conv_plan" where
  "make_plan s ks banks widths tiles =
     \<lparr>plan_shape = s, plan_kernels = ks, plan_data_banks = fst banks,
      plan_weight_banks = snd banks, plan_output_column_widths = widths, plan_tiles = tiles\<rparr>"

text \<open>The search over column counts: the first count whose grid plans.\<close>

fun search_column_counts ::
  "shape \<Rightarrow> kernels \<Rightarrow> nat \<times> nat \<Rightarrow> nat \<Rightarrow> nat list \<Rightarrow> conv_plan plan_result" where
  "search_column_counts s ks banks ow [] = Refused CapacityExceeded"
| "search_column_counts s ks banks ow (count # counts) =
     (let widths = balanced_column_widths ow count
      in obind (plan_grid s ks widths (fst banks)) (\<lambda>g.
         case g of Some tiles \<Rightarrow> Done (make_plan s ks banks widths tiles)
         | None \<Rightarrow> search_column_counts s ks banks ow counts))"

definition new_with_cbuf_partition ::
  "shape \<Rightarrow> kernels \<Rightarrow> nat \<times> nat \<Rightarrow> conv_plan plan_result" where
  "new_with_cbuf_partition s ks banks =
     obind (map_refused (\<lambda>_. UnsupportedSemantics) (parity_padded_shape s ks)) (\<lambda>_.
     obind (output_width s ks) (\<lambda>full.
     obind (plan_grid s ks [full] (fst banks)) (\<lambda>g.
     case g of Some tiles \<Rightarrow> Done (make_plan s ks banks [full] tiles)
     | None \<Rightarrow>
         refuse_unless (layout s = Surfaces) UnvalidatedConfiguration (
         case captured_column_partition s ks of
           Some widths \<Rightarrow>
             obind (tile2d_grid s ks widths (fst banks)) (\<lambda>tiles.
             obind (grid_fits s ks tiles (fst banks)) (\<lambda>fits.
             refuse_unless fits Internal (Done (make_plan s ks banks widths tiles))))
         | None \<Rightarrow> search_column_counts s ks banks full [2..<Suc full]))))"

section \<open>Entry points\<close>

definition square_cbuf_partition ::
  "planning_policy \<Rightarrow> shape \<Rightarrow> kernels \<Rightarrow> nat \<Rightarrow> (nat \<times> nat) plan_result" where
  "square_cbuf_partition pol s ks extent =
     (if extent = 1 \<or> extent = 3 then try_demand_based_cbuf_partition s ks
      else if extent \<in> {2, 4, 6, 8, 10} then even_square_cbuf_partition s ks
      else if extent = 5 then
        obind (check_large_kernel_plan_case pol s 5 True) (\<lambda>_.
        try_demand_based_cbuf_partition s ks)
      else if extent = 7 then
        obind (check_large_kernel_plan_case pol s 7 True) (\<lambda>_.
        obind (weight_bank_demand s ks) (\<lambda>demand.
        if demand \<le> 7 then try_demand_based_cbuf_partition s ks
        else unstarved_large_kernel_partition s ks (8, 4)))
      else if extent = 9 then
        obind (check_large_kernel_plan_case pol s 9 False) (\<lambda>_.
        let captured = (if 33 \<le> in_channels s \<and> in_channels s \<le> 48 then (7, 5) else (6, 6))
        in unstarved_large_kernel_partition s ks captured)
      else if extent = 11 then
        obind (check_large_kernel_plan_case pol s 11 False) (\<lambda>_.
        let captured = (if 1 \<le> in_channels s \<and> in_channels s \<le> 32 then (7, 5)
                        else if 33 \<le> in_channels s \<and> in_channels s \<le> 48 then (5, 7)
                        else (3, 9))
        in unstarved_large_kernel_partition s ks captured)
      else Refused Internal)"

definition try_new :: "planning_policy \<Rightarrow> shape \<Rightarrow> kernels \<Rightarrow> conv_plan plan_result" where
  "try_new pol s ks =
     obind (try_kernel_programming s ks) (\<lambda>k.
     obind (check_extents_against s k) (\<lambda>_.
     obind (try_weight_bytes s ks) (\<lambda>_.
     if k_height k \<noteq> k_width k
     then obind (non_square_cbuf_partition s ks) (\<lambda>banks. new_with_cbuf_partition s ks banks)
     else obind (square_cbuf_partition pol s ks (k_height k)) (\<lambda>banks.
          new_with_cbuf_partition s ks banks))))"

definition try_with_cbuf_banks ::
  "shape \<Rightarrow> kernels \<Rightarrow> nat \<Rightarrow> nat \<Rightarrow> conv_plan plan_result" where
  "try_with_cbuf_banks s ks data_banks weight_banks =
     refuse_unless (0 < data_banks \<and> 0 < weight_banks
                    \<and> wrap32 (data_banks + weight_banks) = CBUF_BANKS) InvalidShape (
     obind (try_kernel_programming s ks) (\<lambda>k.
     obind (check_extents_against s k) (\<lambda>_.
     obind (try_weight_bytes s ks) (\<lambda>_.
     new_with_cbuf_partition s ks (data_banks, weight_banks)))))"

section \<open>The staged accumulator output\<close>

record accumulator_output_tile =
  scratch_offset :: nat
  scratch_bytes :: nat
  output_row :: nat
  output_column :: nat
  output_rows :: nat
  output_columns :: nat

record accumulator_output_layout =
  acc_tiles :: "accumulator_output_tile list"
  acc_scratch_bytes :: nat

fun accumulate_tiles ::
  "nat \<Rightarrow> nat \<Rightarrow> nat \<Rightarrow> tile2d list \<Rightarrow> (accumulator_output_tile list \<times> nat) plan_result" where
  "accumulate_tiles blocks block_bytes offset [] = Done ([], offset)"
| "accumulate_tiles blocks block_bytes offset (t # ts) =
     (let tile_pixels = wrap64 (out_rows (t_rows t) * col_out_cols (t_columns t))
      in obind (ok_or (Option.bind (checked_mul64 tile_pixels blocks)
                        (\<lambda>v. checked_mul64 v block_bytes)) InvalidShape) (\<lambda>bytes.
         let out = \<lparr>scratch_offset = offset, scratch_bytes = bytes,
                    output_row = out_first (t_rows t),
                    output_column = col_out_first (t_columns t),
                    output_rows = out_rows (t_rows t),
                    output_columns = col_out_cols (t_columns t)\<rparr>
         in obind (ok_or (checked_add64 offset bytes) InvalidShape) (\<lambda>next.
            obind (accumulate_tiles blocks block_bytes next ts) (\<lambda>(rest, total).
            Done (out # rest, total)))))"

definition accumulator_output_layout_of ::
  "conv_plan \<Rightarrow> accumulator_output_layout plan_result" where
  "accumulator_output_layout_of p =
     (let s = plan_shape p in
      refuse_unless (writes_accumulators (precision s)) UnsupportedSemantics (
      let source_block_bytes = output_atom_bytes s;
          padded_bytes_per_pixel =
            wrap64 (padded_out_channels s * output_element_bytes (precision s));
          blocks_per_pixel = div_ceil padded_bytes_per_pixel source_block_bytes
      in obind (accumulate_tiles blocks_per_pixel source_block_bytes 0 (plan_tiles p))
           (\<lambda>(tiles, total).
         obind (output_scratch_bytes s (plan_kernels p)) (\<lambda>allocated.
         refuse_unless (total = allocated) Internal
           (Done \<lparr>acc_tiles = tiles, acc_scratch_bytes = total\<rparr>)))))"

end
