(* ===== verification/ExecutableFormat.thy ===== *)
theory ExecutableFormat
  imports ConvPlan
begin

text \<open>
  The wire format of a convolution executable
  (\<open>iree-rocket-hal/src/rocket/executable_format.rs\<close>): 21 little-endian 32-bit fields, the first
  the format version; its encoder, its decoder and the validation of a decoded shape against the
  planner.
\<close>

definition CONV2D_V1_FORMAT_VERSION :: nat where "CONV2D_V1_FORMAT_VERSION = 4"
definition FIELD_COUNT_U32 :: nat where "FIELD_COUNT_U32 = 20"
definition PAYLOAD_LEN :: nat where "PAYLOAD_LEN = 4 + FIELD_COUNT_U32 * 4"

datatype decode_error =
    WrongLength nat nat
  | UnsupportedVersion nat
  | InvalidActivationTag nat
  | InvalidPrecisionTag nat

type_synonym 'a decode_result = "(decode_error, 'a) outcome"

section \<open>Scalars on the wire\<close>

text \<open>\<open>u32::to_le_bytes\<close>, \<open>u32::from_le_bytes\<close>, and the \<open>i32\<close> casts between the two's complements.\<close>

definition to_le_bytes :: "nat \<Rightarrow> byte list" where
  "to_le_bytes n = map (\<lambda>i. of_nat (n div 256 ^ i)) [0, 1, 2, 3]"

fun from_le_bytes :: "byte list \<Rightarrow> nat" where
  "from_le_bytes [] = 0"
| "from_le_bytes (b # bs) = unat b + 256 * from_le_bytes bs"

definition i32_bits :: "int \<Rightarrow> nat" where
  "i32_bits z = nat (z mod 2 ^ 32)"

definition as_i32 :: "nat \<Rightarrow> int" where
  "as_i32 n = (if n < 2 ^ 31 then int n else int n - 2 ^ 32)"

section \<open>Encoding\<close>

fun activation_fields :: "activation \<Rightarrow> nat \<times> nat" where
  "activation_fields NoActivation = (0, 0)"
| "activation_fields Relu = (1, 0)"
| "activation_fields (Clamped cmp) = (2, cmp)"

text \<open>The tag and the calibration fields; an unquantized precision carries zeros.\<close>

definition uncalibrated :: quantization where
  "uncalibrated = \<lparr>input_zero_point = 0, output_zero_point = 0, weight_zero_point = 0,
     input_scale = 0, weights_scale = 0, q_multiplier = \<lparr>mul_scale = 0, mul_shift = 0\<rparr>\<rparr>"

fun precision_fields :: "precision \<Rightarrow> nat \<times> quantization" where
  "precision_fields (Int8 q) = (0, q)"
| "precision_fields Fp16 = (1, uncalibrated)"
| "precision_fields (Int8Accumulator q) = (2, q)"
| "precision_fields Bf16 = (3, uncalibrated)"
| "precision_fields Int16 = (4, uncalibrated)"
| "precision_fields Int4 = (5, uncalibrated)"
| "precision_fields Tf32 = (6, uncalibrated)"
| "precision_fields Fp16Accumulator = (7, uncalibrated)"

definition encode_conv_shape_v1 :: "shape \<Rightarrow> kernels \<Rightarrow> byte list" where
  "encode_conv_shape_v1 s ks =
     (let (weights_height, weights_width) = ks;
          (pad_top, pad_left) = (case padding s of Some p \<Rightarrow> p | None \<Rightarrow> (0, 0));
          (activation_tag, activation_cmp) = activation_fields (activation s);
          (precision_tag, q) = precision_fields (precision s)
      in to_le_bytes CONV2D_V1_FORMAT_VERSION @ to_le_bytes (width s) @ to_le_bytes (height s)
         @ to_le_bytes (in_channels s) @ to_le_bytes (out_channels s)
         @ to_le_bytes (wrap32 weights_width) @ to_le_bytes (wrap32 weights_height)
         @ to_le_bytes (stride s) @ to_le_bytes (if depthwise s then 1 else 0)
         @ to_le_bytes (wrap32 pad_top) @ to_le_bytes (wrap32 pad_left)
         @ to_le_bytes (i32_bits (input_zero_point q)) @ to_le_bytes (i32_bits (output_zero_point q))
         @ to_le_bytes (i32_bits (weight_zero_point q)) @ to_le_bytes (input_scale q)
         @ to_le_bytes (weights_scale q) @ to_le_bytes (mul_scale (q_multiplier q))
         @ to_le_bytes (mul_shift (q_multiplier q)) @ to_le_bytes activation_tag
         @ to_le_bytes activation_cmp @ to_le_bytes precision_tag)"

section \<open>Decoding\<close>

text \<open>\<open>read_u32\<close>: \<open>split_at(4)\<close> panics on a shorter cursor.\<close>

definition read_u32 :: "byte list \<Rightarrow> (nat \<times> byte list) decode_result" where
  "read_u32 cursor =
     ensure (4 \<le> length cursor) (Done (from_le_bytes (take 4 cursor), drop 4 cursor))"

fun decode_activation :: "nat \<Rightarrow> nat \<Rightarrow> activation decode_result" where
  "decode_activation tag cmp =
     (if tag = 0 then Done NoActivation
      else if tag = 1 then Done Relu
      else if tag = 2 then Done (Clamped cmp)
      else Refused (InvalidActivationTag tag))"

fun decode_precision :: "nat \<Rightarrow> quantization \<Rightarrow> precision decode_result" where
  "decode_precision tag q =
     (if tag = 0 then Done (Int8 q)
      else if tag = 1 then Done Fp16
      else if tag = 3 then Done Bf16
      else if tag = 4 then Done Int16
      else if tag = 5 then Done Int4
      else if tag = 6 then Done Tf32
      else if tag = 7 then Done Fp16Accumulator
      else if tag = 2 then Done (Int8Accumulator q)
      else Refused (InvalidPrecisionTag tag))"

definition decode_conv_shape_v1 :: "byte list \<Rightarrow> (shape \<times> kernels) decode_result" where
  "decode_conv_shape_v1 payload =
     (if length payload \<noteq> PAYLOAD_LEN then Refused (WrongLength PAYLOAD_LEN (length payload))
      else obind (read_u32 payload) (\<lambda>(version, cursor).
      if version \<noteq> CONV2D_V1_FORMAT_VERSION then Refused (UnsupportedVersion version)
      else obind (read_u32 cursor) (\<lambda>(input_width, cursor).
      obind (read_u32 cursor) (\<lambda>(input_height, cursor).
      obind (read_u32 cursor) (\<lambda>(input_channels, cursor).
      obind (read_u32 cursor) (\<lambda>(output_channels, cursor).
      obind (read_u32 cursor) (\<lambda>(weights_width, cursor).
      obind (read_u32 cursor) (\<lambda>(weights_height, cursor).
      obind (read_u32 cursor) (\<lambda>(conv_stride, cursor).
      obind (read_u32 cursor) (\<lambda>(dw, cursor).
      obind (read_u32 cursor) (\<lambda>(pad_top, cursor).
      obind (read_u32 cursor) (\<lambda>(pad_left, cursor).
      obind (read_u32 cursor) (\<lambda>(input_zp, cursor).
      obind (read_u32 cursor) (\<lambda>(output_zp, cursor).
      obind (read_u32 cursor) (\<lambda>(weight_zp, cursor).
      obind (read_u32 cursor) (\<lambda>(in_scale, cursor).
      obind (read_u32 cursor) (\<lambda>(w_scale, cursor).
      obind (read_u32 cursor) (\<lambda>(multiplier_scale, cursor).
      obind (read_u32 cursor) (\<lambda>(multiplier_shift, cursor).
      obind (read_u32 cursor) (\<lambda>(activation_tag, cursor).
      obind (read_u32 cursor) (\<lambda>(activation_cmp, cursor).
      obind (read_u32 cursor) (\<lambda>(precision_tag, cursor).
      obind (decode_activation activation_tag activation_cmp) (\<lambda>act.
      obind (decode_precision precision_tag
               \<lparr>input_zero_point = as_i32 input_zp, output_zero_point = as_i32 output_zp,
                weight_zero_point = as_i32 weight_zp, input_scale = in_scale, weights_scale = w_scale,
                q_multiplier = \<lparr>mul_scale = multiplier_scale, mul_shift = multiplier_shift\<rparr>\<rparr>) (\<lambda>p.
      Done (\<lparr>width = input_width, height = input_height, stride = conv_stride,
             in_channels = input_channels, out_channels = output_channels, precision = p,
             padding = Some (pad_top, pad_left), activation = act, depthwise = dw \<noteq> 0\<rparr>,
            (weights_height, weights_width))))))))))))))))))))))))))"

section \<open>Validation\<close>

text \<open>
  The decoded shape is rebuilt through the constructors and trial-planned under
  \<open>catch_unwind\<close>: a panic of the planner comes back as an internal refusal.
\<close>

definition rebuild_and_plan :: "planning_policy \<Rightarrow> shape \<Rightarrow> kernels \<Rightarrow> unit plan_result" where
  "rebuild_and_plan pol s ks =
     obind (try_with_precision pol (width s) (height s) (stride s) (in_channels s) (out_channels s)
              (precision s)) (\<lambda>rebuilt.
     obind (case padding s of Some p \<Rightarrow> try_with_padding rebuilt p | None \<Rightarrow> Done rebuilt) (\<lambda>rebuilt.
     obind (try_with_activation rebuilt (activation s)) (\<lambda>rebuilt.
     obind (if depthwise s then try_with_depthwise pol rebuilt else Done rebuilt) (\<lambda>rebuilt.
     obind (map_refused (\<lambda>_. UnsupportedSemantics) (parity_padded_shape rebuilt ks)) (\<lambda>programmed.
     obind (try_new pol programmed ks) (\<lambda>_. Done ()))))))"

definition validate_conv_shape :: "planning_policy \<Rightarrow> shape \<Rightarrow> kernels \<Rightarrow> unit plan_result" where
  "validate_conv_shape pol s ks =
     (case rebuild_and_plan pol s ks of
        Done u \<Rightarrow> Done u
      | Refused e \<Rightarrow> Refused e
      | Panicked \<Rightarrow> Refused Internal)"

end
