(* ===== verification/RegisterWords.thy ===== *)
theory RegisterWords
  imports Prelude
begin

unbundle bit_operations_syntax

text \<open>
  Register values and command words (\<open>iree-rocket-hal/src/rocket/builders.rs\<close>), the trailer of a
  program (\<open>builders/pc.rs\<close>, \<open>regcmd.rs\<close>), and what a program writes: a field reads back what was
  put in it, and a command word carries its domain, offset and value.
\<close>

section \<open>Domains and registers\<close>

definition DOMAIN_CNA :: nat where "DOMAIN_CNA = 0x201"
definition DOMAIN_PC :: nat where "DOMAIN_PC = 0x101"
definition DOMAIN_CORE :: nat where "DOMAIN_CORE = 0x801"
definition DOMAIN_DPU :: nat where "DOMAIN_DPU = 0x1001"
definition DOMAIN_DPU_RDMA :: nat where "DOMAIN_DPU_RDMA = 0x2001"
definition DOMAIN_PPU :: nat where "DOMAIN_PPU = 0x4001"
definition DOMAIN_PPU_RDMA :: nat where "DOMAIN_PPU_RDMA = 0x8001"

lemmas domain_defs =
  DOMAIN_CNA_def DOMAIN_PC_def DOMAIN_CORE_def DOMAIN_DPU_def DOMAIN_DPU_RDMA_def DOMAIN_PPU_def
  DOMAIN_PPU_RDMA_def

text \<open>\<open>RegisterMeta\<close>: the domain and offset of a register type.\<close>

record register_meta =
  reg_domain :: nat
  reg_offset :: nat

type_synonym reg32 = "32 word"
type_synonym 'a reg_result = "(string, 'a) outcome"

section \<open>Field setters\<close>

text \<open>\<open>Bits::<N>::new\<close>.\<close>

definition bits_new :: "nat \<Rightarrow> nat \<Rightarrow> reg32 reg_result" where
  "bits_new n v = ensure (n < 32 \<longrightarrow> v < 2 ^ n) (Done (word_of_nat v))"

definition set_flag :: "reg32 \<Rightarrow> bool \<Rightarrow> reg32 \<Rightarrow> reg32" where
  "set_flag fmask enable r = (if enable then r OR fmask else r AND NOT fmask)"

definition set_field :: "reg32 \<Rightarrow> reg32 \<Rightarrow> reg32 \<Rightarrow> reg32" where
  "set_field fmask encoded r = (r AND NOT fmask) OR (encoded AND fmask)"

text \<open>
  Every setter takes a \<open>Bits<N>\<close>, which its caller makes with \<open>Bits::new\<close>, moves it to its place
  with the header's \<open>(val << SHIFT) & MASK\<close> and stores it under the same mask.
\<close>

type_synonym setter = "nat \<Rightarrow> reg32 \<Rightarrow> reg32 reg_result"

definition field_setter :: "nat \<Rightarrow> reg32 \<Rightarrow> nat \<Rightarrow> setter" where
  "field_setter n fmask sh v r =
     obind (bits_new n v) (\<lambda>b. Done (set_field fmask (push_bit sh b AND fmask) r))"

section \<open>Command words\<close>

type_synonym reg_cmd = "64 word"

definition regcmd_new :: "nat \<Rightarrow> nat \<Rightarrow> reg32 \<Rightarrow> reg_cmd" where
  "regcmd_new target off r =
     push_bit 48 (word_of_nat target) OR push_bit 16 (ucast r) OR word_of_nat off"

definition new_raw :: "nat \<Rightarrow> reg_cmd" where
  "new_raw v = word_of_nat v"

definition build :: "register_meta \<Rightarrow> reg32 \<Rightarrow> reg_cmd" where
  "build R r = regcmd_new (reg_domain R) (reg_offset R) r"

text \<open>\<open>Register::<R>::new()\<close>, a chain of setters, \<open>build()\<close>.\<close>

fun apply_setters :: "(reg32 \<Rightarrow> reg32 reg_result) list \<Rightarrow> reg32 \<Rightarrow> reg32 reg_result" where
  "apply_setters [] r = Done r"
| "apply_setters (f # fs) r = obind (f r) (apply_setters fs)"

definition write_register :: "register_meta \<Rightarrow> (reg32 \<Rightarrow> reg32 reg_result) list \<Rightarrow> reg_cmd reg_result" where
  "write_register R fs = obind (apply_setters fs 0) (\<lambda>r. Done (build R r))"

definition zero_register :: "register_meta \<Rightarrow> reg_cmd" where
  "zero_register R = build R 0"

text \<open>A block of pushes: each register with its setters, in order; the first panic ends it.\<close>

type_synonym writes = "(register_meta \<times> (reg32 \<Rightarrow> reg32 reg_result) list) list"

fun write_all :: "writes \<Rightarrow> reg_cmd list reg_result" where
  "write_all [] = Done []"
| "write_all ((R, fs) # ps) =
     obind (write_register R fs) (\<lambda>w. obind (write_all ps) (\<lambda>ws. Done (w # ws)))"

section \<open>The trailer\<close>

definition PCRegisterAmounts :: register_meta where
  "PCRegisterAmounts = \<lparr>reg_domain = DOMAIN_PC, reg_offset = 0x14\<rparr>"

definition MASK_CNA :: reg32 where "MASK_CNA = 1"
definition MASK_CORE :: reg32 where "MASK_CORE = 4"
definition MASK_DPU :: reg32 where "MASK_DPU = 8"
definition MASK_DPU_RDMA :: reg32 where "MASK_DPU_RDMA = 16"
definition MASK_PPU :: reg32 where "MASK_PPU = 32"
definition MASK_PPU_RDMA :: reg32 where "MASK_PPU_RDMA = 64"

definition MASK_CONVOLUTION :: reg32 where
  "MASK_CONVOLUTION = MASK_CNA OR MASK_CORE OR MASK_DPU OR MASK_DPU_RDMA"

lemmas mask_defs =
  MASK_CNA_def MASK_CORE_def MASK_DPU_def MASK_DPU_RDMA_def MASK_PPU_def MASK_PPU_RDMA_def

definition single_task_placeholder :: reg_cmd where
  "single_task_placeholder = new_raw 0"

definition required_marker :: reg_cmd where
  "required_marker = new_raw 0x0041000000000000"

definition operation_enable :: "reg32 \<Rightarrow> reg_cmd" where
  "operation_enable m = regcmd_new 0x81 0x8 m"

definition alignment_padding :: reg_cmd where
  "alignment_padding = new_raw 0"

definition push_kick :: "reg_cmd list \<Rightarrow> reg32 \<Rightarrow> reg_cmd list" where
  "push_kick cmds m =
     (let kicked = cmds @ [single_task_placeholder, zero_register PCRegisterAmounts,
                           required_marker, operation_enable m]
      in if length kicked mod 2 = 0 then kicked else kicked @ [alignment_padding])"

section \<open>Reading a field back\<close>

definition field_of :: "nat \<Rightarrow> nat \<Rightarrow> reg32 \<Rightarrow> nat" where
  "field_of n sh r = unat (take_bit n (drop_bit sh r))"

definition field_mask :: "nat \<Rightarrow> nat \<Rightarrow> reg32" where
  "field_mask n sh = push_bit sh (mask n)"

lemma bit_field_mask:
  "bit (field_mask n sh) i \<longleftrightarrow> sh \<le> i \<and> i < sh + n \<and> i < 32"
  by (auto simp: field_mask_def bit_simps)

lemma bit_set_field:
  "bit (set_field m e r) i \<longleftrightarrow> (if bit m i then bit e i else bit r i \<and> i < 32)"
  by (auto simp: set_field_def bit_simps dest: bit_imp_le_length)

text \<open>A field reads back the value written, and leaves every other bit of the register alone.\<close>

lemma field_setter_eq:
  assumes "n + sh \<le> 32" "0 < n"
  shows "field_setter n (field_mask n sh) sh v r =
    (if v < 2 ^ n \<or> n = 32 then Done (set_field (field_mask n sh) (push_bit sh (word_of_nat v)) r) else Panicked)"
proof -
  have "set_field m (push_bit sh b AND m) r = set_field m (push_bit sh b) r" for m and b :: reg32
    by (simp add: set_field_def and.assoc)
  then show ?thesis using assms by (auto simp: field_setter_def bits_new_def ensure_def)
qed

lemma field_of_same:
  assumes "n + sh \<le> 32" "v < 2 ^ n"
  shows "field_of n sh (set_field (field_mask n sh) (push_bit sh (word_of_nat v)) r) = v"
proof -
  have "take_bit n (drop_bit sh (set_field (field_mask n sh) (push_bit sh (word_of_nat v)) r)) = take_bit n (word_of_nat v :: reg32)"
    using assms(1) by (intro bit_word_eqI) (auto simp: bit_simps bit_set_field bit_field_mask)
  moreover have "v < 2 ^ 32"
    using assms by (meson le_less_trans less_le_trans one_le_numeral power_increasing trans_le_add1 le_add1)
  ultimately show ?thesis
    using assms(2) by (simp add: field_of_def unsigned_take_bit_eq unat_of_nat take_bit_nat_eq_self)
qed

lemma field_of_other:
  assumes "n + sh \<le> sh' \<or> n' + sh' \<le> sh"
  shows "field_of n' sh' (set_field (field_mask n sh) e r) = field_of n' sh' r"
proof -
  have "take_bit n' (drop_bit sh' (set_field (field_mask n sh) e r)) = take_bit n' (drop_bit sh' r)"
    using assms by (intro bit_word_eqI) (auto simp: bit_simps bit_set_field bit_field_mask dest: bit_imp_le_length)
  then show ?thesis by (simp add: field_of_def)
qed

lemma field_of_zero: "field_of n sh 0 = 0"
  by (simp add: field_of_def)

section \<open>Reading a command word\<close>

definition cmd_domain :: "reg_cmd \<Rightarrow> nat" where
  "cmd_domain w = unat (drop_bit 48 w)"

definition cmd_offset :: "reg_cmd \<Rightarrow> nat" where
  "cmd_offset w = unat (take_bit 16 w)"

definition cmd_value :: "reg_cmd \<Rightarrow> reg32" where
  "cmd_value w = ucast (drop_bit 16 w)"

lemma regcmd_new_fields:
  assumes "d < 2 ^ 16" "off < 2 ^ 16"
  shows "cmd_domain (regcmd_new d off r) = d" "cmd_offset (regcmd_new d off r) = off"
    "cmd_value (regcmd_new d off r) = r"
proof -
  have high: "\<not> bit d i" if "16 \<le> i" for i using assms(1) that
    by (metis bit_take_bit_iff linorder_not_less take_bit_nat_eq_self_iff)
  have low: "\<not> bit off i" if "16 \<le> i" for i using assms(2) that
    by (metis bit_take_bit_iff linorder_not_less take_bit_nat_eq_self_iff)
  note bits = bit_simps regcmd_new_def high low
  have "drop_bit 48 (regcmd_new d off r) = word_of_nat d"
    by (intro bit_word_eqI) (auto simp: bits not_le dest: bit_imp_le_length)
  then show "cmd_domain (regcmd_new d off r) = d"
    using assms(1) by (simp add: cmd_domain_def unat_of_nat)
  have "take_bit 16 (regcmd_new d off r) = word_of_nat off"
    by (intro bit_word_eqI) (auto simp: bits not_le dest: bit_imp_le_length)
  then show "cmd_offset (regcmd_new d off r) = off"
    using assms(2) by (simp add: cmd_offset_def unat_of_nat)
  show "cmd_value (regcmd_new d off r) = r"
    unfolding cmd_value_def by (intro bit_word_eqI) (auto simp: bits not_le dest: bit_imp_le_length)
qed

text \<open>The value a program leaves in a register: its last write wins.\<close>

definition register_value :: "reg_cmd list \<Rightarrow> register_meta \<Rightarrow> reg32 option" where
  "register_value cmds R =
     map_of (rev (map (\<lambda>w. ((cmd_domain w, cmd_offset w), cmd_value w)) cmds)) (reg_domain R, reg_offset R)"

definition field_value :: "reg_cmd list \<Rightarrow> register_meta \<Rightarrow> nat \<Rightarrow> nat \<Rightarrow> nat option" where
  "field_value cmds R n sh = map_option (field_of n sh) (register_value cmds R)"

lemma build_fields:
  assumes "reg_domain R < 2 ^ 16" "reg_offset R < 2 ^ 16"
  shows "cmd_domain (build R r) = reg_domain R" "cmd_offset (build R r) = reg_offset R"
    "cmd_value (build R r) = r"
  using assms by (simp_all add: build_def regcmd_new_fields)

lemma trailer_fields:
  "cmd_domain single_task_placeholder = 0" "cmd_domain required_marker = 0x41"
  "cmd_domain alignment_padding = 0" "cmd_domain (operation_enable m) = 0x81"
  by (simp_all add: cmd_domain_def single_task_placeholder_def required_marker_def alignment_padding_def
      new_raw_def) (simp add: operation_enable_def regcmd_new_fields cmd_domain_def [symmetric])

text \<open>
  What a program leaves in each register it writes: the result of the register's own setters, whatever
  else the program and its trailer write.
\<close>

definition reg_address :: "register_meta \<Rightarrow> nat \<times> nat" where
  "reg_address R = (reg_domain R, reg_offset R)"

definition cmd_address :: "reg_cmd \<Rightarrow> nat \<times> nat" where
  "cmd_address w = (cmd_domain w, cmd_offset w)"

lemma write_all_keys:
  assumes "write_all ps = Done ws" and "\<forall>(R, fs) \<in> set ps. reg_domain R < 2 ^ 16 \<and> reg_offset R < 2 ^ 16"
  shows "map cmd_address ws = map (reg_address \<circ> fst) ps"
    and "list_all2 (\<lambda>(R, fs) w. apply_setters fs 0 = Done (cmd_value w)) ps ws"
  using assms
  by (induction ps arbitrary: ws rule: write_all.induct)
     (auto simp: write_register_def obind_eq_Done build_fields cmd_address_def reg_address_def)

lemma map_of_rev_distinct: "distinct (map fst xs) \<Longrightarrow> map_of (rev xs) = map_of xs"
  by (metis map_of_inject_set distinct_rev rev_map set_rev)

lemma write_all_value:
  assumes ws: "write_all ps = Done ws"
    and regs: "\<forall>(R, fs) \<in> set ps. reg_domain R < 2 ^ 16 \<and> reg_offset R < 2 ^ 16"
    and once: "distinct (map (reg_address \<circ> fst) ps)"
    and rest: "\<forall>w \<in> set trail. cmd_address w \<notin> set (map (reg_address \<circ> fst) ps)"
    and mem: "(R, fs) \<in> set ps"
  shows "\<exists>r. register_value (ws @ trail) R = Some r \<and> apply_setters fs 0 = Done r"
proof -
  note keys = write_all_keys [OF ws regs]
  let ?kv = "\<lambda>w. (cmd_address w, cmd_value w)"
  obtain i where i: "i < length ps" "ps ! i = (R, fs)" using mem by (auto simp: in_set_conv_nth)
  then have w: "i < length ws" "apply_setters fs 0 = Done (cmd_value (ws ! i))"
    using keys(2) by (auto simp: list_all2_conv_all_nth)
  have addr: "cmd_address (ws ! i) = reg_address R"
    using arg_cong [OF keys(1), of "\<lambda>l. l ! i"] i w(1) by simp
  have "map_of (rev (map ?kv trail)) (reg_address R) = None"
    using rest mem by (force simp: map_of_eq_None_iff image_iff)
  moreover have "distinct (map fst (map ?kv ws))" using keys(1) once by (simp add: comp_def)
  then have "map_of (rev (map ?kv ws)) = map_of (map ?kv ws)" by (rule map_of_rev_distinct)
  moreover have "map_of (map ?kv ws) (reg_address R) = Some (cmd_value (ws ! i))"
    using \<open>distinct (map fst (map ?kv ws))\<close> w(1) addr
    by (auto simp: map_of_eq_Some_iff image_iff intro!: bexI [of _ "ws ! i"])
  ultimately have "register_value (ws @ trail) R = Some (cmd_value (ws ! i))"
    unfolding register_value_def reg_address_def [symmetric] cmd_address_def [symmetric]
    by (simp add: map_add_def)
  with w(2) show ?thesis by blast
qed

text \<open>A setter's result, in the form the reading lemmas of fields apply to.\<close>

definition put :: "nat \<Rightarrow> nat \<Rightarrow> nat \<Rightarrow> reg32 \<Rightarrow> reg32" where
  "put n sh v r = set_field (field_mask n sh) (push_bit sh (word_of_nat v)) r"

lemma field_setter_put:
  assumes "m = field_mask n sh" "n + sh \<le> 32" "0 < n"
  shows "field_setter n m sh v r = (if v < 2 ^ n \<or> n = 32 then Done (put n sh v r) else Panicked)"
  using assms by (simp add: field_setter_eq put_def)

lemma field_of_put:
  "n + sh \<le> 32 \<Longrightarrow> v < 2 ^ n \<Longrightarrow> field_of n sh (put n sh v r) = v"
  "n + sh \<le> sh' \<or> n' + sh' \<le> sh \<Longrightarrow> field_of n' sh' (put n sh v r) = field_of n' sh' r"
  by (simp_all add: put_def field_of_same field_of_other)

text \<open>A field of the value a program leaves, zero when the program does not write the register.\<close>

definition field_at :: "reg_cmd list \<Rightarrow> register_meta \<Rightarrow> nat \<Rightarrow> nat \<Rightarrow> nat" where
  "field_at p R n sh = (case field_value p R n sh of Some v \<Rightarrow> v | None \<Rightarrow> 0)"

lemmas setter_steps =
  field_setter_put field_mask_def mask_numeral field_of_put field_of_zero obind_eq_Done

lemma write_all_total:
  "\<forall>x \<in> set ps. \<exists>r. apply_setters (snd x) 0 = Done r \<Longrightarrow> \<exists>cmds. write_all ps = Done cmds"
proof (induction ps)
  case (Cons p ps)
  then obtain r cmds where "apply_setters (snd p) 0 = Done r" "write_all ps = Done cmds" by auto
  then show ?case by (cases p) (simp add: write_register_def)
qed simp

lemma minus_one_plus_one: "1 \<le> v \<Longrightarrow> sub32 v 1 + 1 = v"
  by simp

lemma write_all_append:
  "write_all (xs @ ys) = obind (write_all xs) (\<lambda>a. obind (write_all ys) (\<lambda>b. Done (a @ b)))"
proof (induction xs)
  case (Cons x xs)
  then show ?case
    by (cases x; cases "write_register (fst x) (snd x)"; cases "write_all xs"; cases "write_all ys") auto
qed (cases "write_all ys"; simp)

lemma register_value_append:
  "register_value bs R = Some r \<Longrightarrow> register_value (as @ bs) R = Some r"
  by (simp add: register_value_def)

end
