(* ===== verification/ConvEncodings.thy ===== *)
theory ConvEncodings
  imports ConvPlan ExecutableFormat RegisterWords HostText
begin

text \<open>
  The encodings a convolution program uses (\<open>builders/values.rs\<close> and the first part of
  \<open>rocket/conv.rs\<close>): precision codes, activation fields, the writer geometry, and the
  characterisation overrides, which read environment variables and two process-wide flags.
\<close>

section \<open>Named values\<close>

datatype data_precision_code = DataInt8 | DataInt16 | DataFp16 | DataBf16 | DataInt4 | DataTf32

fun data_code :: "data_precision_code \<Rightarrow> nat" where
  "data_code DataInt8 = 0"
| "data_code DataInt16 = 1"
| "data_code DataFp16 = 2"
| "data_code DataBf16 = 3"
| "data_code DataInt4 = 6"
| "data_code DataTf32 = 7"

datatype output_precision_code = OutInt8 | OutInt16 | OutFp16 | OutBf16 | OutInt32 | OutFp32 | OutInt4

fun output_code :: "output_precision_code \<Rightarrow> nat" where
  "output_code OutInt8 = 0"
| "output_code OutInt16 = 1"
| "output_code OutFp16 = 2"
| "output_code OutBf16 = 3"
| "output_code OutInt32 = 4"
| "output_code OutFp32 = 5"
| "output_code OutInt4 = 6"

text \<open>\<open>BurstLength::Sixteen\<close>, \<open>DpuOutputMode::ExternalMemory\<close>.\<close>

definition BURST_SIXTEEN :: nat where "BURST_SIXTEEN = 15"
definition OUTPUT_EXTERNAL_MEMORY :: nat where "OUTPUT_EXTERNAL_MEMORY = 2"

fun data_precision :: "precision \<Rightarrow> data_precision_code" where
  "data_precision Fp16 = DataFp16"
| "data_precision Fp16Accumulator = DataFp16"
| "data_precision Bf16 = DataBf16"
| "data_precision Int16 = DataInt16"
| "data_precision Int4 = DataInt4"
| "data_precision Tf32 = DataTf32"
| "data_precision (Int8 q) = DataInt8"
| "data_precision (Int8Accumulator q) = DataInt8"

fun dpu_data_precision :: "precision \<Rightarrow> output_precision_code" where
  "dpu_data_precision Tf32 = OutFp32"
| "dpu_data_precision Fp16 = OutFp16"
| "dpu_data_precision Fp16Accumulator = OutFp16"
| "dpu_data_precision Bf16 = OutBf16"
| "dpu_data_precision Int16 = OutInt16"
| "dpu_data_precision Int4 = OutInt4"
| "dpu_data_precision (Int8 q) = OutInt8"
| "dpu_data_precision (Int8Accumulator q) = OutInt8"

fun output_data_precision :: "precision \<Rightarrow> output_precision_code" where
  "output_data_precision Fp16 = OutFp16"
| "output_data_precision Bf16 = OutBf16"
| "output_data_precision Int16 = OutInt16"
| "output_data_precision Int4 = OutInt16"
| "output_data_precision Tf32 = OutFp32"
| "output_data_precision Fp16Accumulator = OutFp32"
| "output_data_precision (Int8 q) = OutInt8"
| "output_data_precision (Int8Accumulator q) = OutInt32"

text \<open>Bypass, relu bypass, clamp enable, clamp value.\<close>

fun bn_programming :: "activation \<Rightarrow> nat \<times> nat \<times> nat \<times> nat" where
  "bn_programming NoActivation = (1, 1, 0, 0)"
| "bn_programming Relu = (0, 0, 0, 0)"
| "bn_programming (Clamped cmp) = (0, 0, 1, cmp)"

definition conv_mode :: "shape \<Rightarrow> nat" where
  "conv_mode s = (if depthwise s then 3 else 0)"

definition argb_input_mode :: "nat \<Rightarrow> nat reg_result" where
  "argb_input_mode channels = ensure (1 \<le> channels \<and> channels \<le> 4) (Done (7 + channels))"

definition BS_MUL_SHIFT_VALUE :: nat where "BS_MUL_SHIFT_VALUE = 14"
definition BRDMA_DATA_USE_NONE :: nat where "BRDMA_DATA_USE_NONE = 0"
definition BRDMA_DATA_USE_BIAS :: nat where "BRDMA_DATA_USE_BIAS = 1"
definition BRDMA_DATA_USE_QUANTIZED :: nat where "BRDMA_DATA_USE_QUANTIZED = 7"
definition DENSE_ACCUMULATOR_SURF_MULT :: nat where "DENSE_ACCUMULATOR_SURF_MULT = 8"

section \<open>Overrides\<close>

text \<open>The process environment and the two flags \<open>set_od_engage\<close> and \<open>set_accumulator_bs_engage\<close> store.\<close>

record conv_env =
  env_var :: "string \<Rightarrow> string option"
  od_flag :: bool
  bs_flag :: bool

definition set_od_engage :: "bool \<Rightarrow> conv_env \<Rightarrow> conv_env" where
  "set_od_engage engaged e = e\<lparr>od_flag := engaged\<rparr>"

definition set_accumulator_bs_engage :: "bool \<Rightarrow> conv_env \<Rightarrow> conv_env" where
  "set_accumulator_bs_engage engaged e = e\<lparr>bs_flag := engaged\<rparr>"

definition env_u32 :: "conv_env \<Rightarrow> string \<Rightarrow> nat option" where
  "env_u32 e name = Option.bind (env_var e name) parse_u32"

text \<open>A setting that applies from a minimum channel count on.\<close>

definition gated_u32 :: "conv_env \<Rightarrow> string \<Rightarrow> string \<Rightarrow> nat \<Rightarrow> nat option" where
  "gated_u32 e gate name channels =
     (if channels < (case env_u32 e gate of Some n \<Rightarrow> n | None \<Rightarrow> 0) then None else env_u32 e name)"

datatype grains_override = Exact nat | Cap nat

definition grains_override_min_channels :: "conv_env \<Rightarrow> nat" where
  "grains_override_min_channels e =
     (case env_u32 e ''ROCKET_FEATURE_GRAINS_MIN_CIN'' of Some n \<Rightarrow> n | None \<Rightarrow> 0)"

definition grains_override_of :: "conv_env \<Rightarrow> grains_override option" where
  "grains_override_of e =
     (case env_u32 e ''ROCKET_FEATURE_GRAINS'' of
        Some v \<Rightarrow> Some (Exact v)
      | None \<Rightarrow> map_option Cap (env_u32 e ''ROCKET_FEATURE_GRAINS_MAX''))"

definition feature_grains_planned :: "conv_env \<Rightarrow> shape \<Rightarrow> kernels \<Rightarrow> tile \<Rightarrow> nat reg_result" where
  "feature_grains_planned e s ks t =
     obind (unwrap (feature_grains ks t)) (\<lambda>programmed.
     Done (if in_channels s < grains_override_min_channels e then programmed
           else case grains_override_of e of
                  Some (Exact v) \<Rightarrow> v
                | Some (Cap c) \<Rightarrow> min programmed c
                | None \<Rightarrow> programmed))"

definition accumulator_surf_add_override :: "conv_env \<Rightarrow> nat \<Rightarrow> nat option" where
  "accumulator_surf_add_override e =
     gated_u32 e ''ROCKET_ACC_SURF_ADD_MIN_CIN'' ''ROCKET_ACC_SURF_ADD''"

definition int4_override :: "conv_env \<Rightarrow> precision \<Rightarrow> string \<Rightarrow> nat option" where
  "int4_override e p name = (if p \<noteq> Int4 then None else env_u32 e (''ROCKET_INT4_'' @ name))"

definition bs_ow_size_e_override :: "conv_env \<Rightarrow> nat \<Rightarrow> nat option" where
  "bs_ow_size_e_override e = gated_u32 e ''ROCKET_ACC_SIZE_E_MIN_CIN'' ''ROCKET_ACC_SIZE_E''"

definition accumulator_surf_mult_override :: "conv_env \<Rightarrow> nat \<Rightarrow> nat option" where
  "accumulator_surf_mult_override e = gated_u32 e ''ROCKET_ACC_SIZE_E_MIN_CIN'' ''ROCKET_ACC_SURF_MULT''"

definition accumulator_mc_surf_out_override :: "conv_env \<Rightarrow> nat \<Rightarrow> nat option" where
  "accumulator_mc_surf_out_override e =
     gated_u32 e ''ROCKET_ACC_SIZE_E_MIN_CIN'' ''ROCKET_ACC_MC_SURF_OUT''"

definition accumulator_bs_engage :: "conv_env \<Rightarrow> bool" where
  "accumulator_bs_engage e \<longleftrightarrow> bs_flag e
     \<or> (case env_var e ''ROCKET_ACC_BS_ENGAGE'' of Some v \<Rightarrow> v \<noteq> ''0'' | None \<Rightarrow> False)"

definition od_engage :: "conv_env \<Rightarrow> bool" where
  "od_engage e \<longleftrightarrow> od_flag e
     \<or> (case env_var e ''ROCKET_ACC_OD_ENGAGE'' of Some v \<Rightarrow> v \<noteq> ''0'' | None \<Rightarrow> False)"

definition cpend_from_configuration :: "conv_env \<Rightarrow> bool" where
  "cpend_from_configuration e \<longleftrightarrow> env_var e ''ROCKET_CPEND'' = Some ''mesa''"

definition acc_brdma_restore :: "conv_env \<Rightarrow> bool" where
  "acc_brdma_restore e \<longleftrightarrow> env_var e ''ROCKET_ACC_BRDMA'' = Some ''1''"

definition acc_vendor_part :: "conv_env \<Rightarrow> string \<Rightarrow> bool" where
  "acc_vendor_part e part =
     (let text = (case env_var e ''ROCKET_ACC_VENDOR'' of Some v \<Rightarrow> v | None \<Rightarrow> []);
          parts = filter (\<lambda>p. p \<noteq> []) (map (\<lambda>p. map ascii_lowercase (trim p)) (split_on CHR '','' text))
      in list_ex (\<lambda>v. v = part \<or> v = ''all'') parts)"

definition ow_src_override :: "conv_env \<Rightarrow> nat option" where
  "ow_src_override e =
     (if acc_vendor_part e ''owsrc'' then Some 0
      else if cpend_from_configuration e then Some 0
      else env_u32 e ''ROCKET_OW_SRC'')"

definition bs_ow_op_value :: "conv_env \<Rightarrow> quantization option \<Rightarrow> nat" where
  "bs_ow_op_value e q =
     (case env_u32 e ''ROCKET_BS_OW_OP'' of
        Some v \<Rightarrow> v mod 2 ^ 16
      | None \<Rightarrow>
          if cpend_from_configuration e
          then nat ((0x80 - (case q of Some q' \<Rightarrow> weight_zero_point q' | None \<Rightarrow> 0)) mod 2 ^ 16)
          else 0)"

definition bs_ow_size_e :: "conv_env \<Rightarrow> shape \<Rightarrow> nat" where
  "bs_ow_size_e e s =
     (case bs_ow_size_e_override e (in_channels s) of
        Some v \<Rightarrow> v
      | None \<Rightarrow> (case int4_override e (precision s) ''SIZE_E'' of
          Some v \<Rightarrow> v
        | None \<Rightarrow>
            if depthwise s then 3
            else if writes_fp32_result (precision s) then 3
            else if writes_accumulators (precision s) \<or> precision s = Int4 then 7
            else 1))"

end
