(* ===== verification/CnaRegisters.thy ===== *)
theory CnaRegisters
  imports RegisterWords
begin

text \<open>
  The registers of the convolution front end and of the core, and their field setters
  (\<open>builders/cna.rs\<close>, \<open>builders/core.rs\<close>); masks and shifts are those of \<open>rkt_registers.h\<close>.
\<close>

section \<open>The convolution front end\<close>

definition CnaSPointer :: register_meta where
  "CnaSPointer = \<lparr>reg_domain = DOMAIN_CNA, reg_offset = 0x1004\<rparr>"

definition CnaSPointer_pointer :: setter where
  "CnaSPointer_pointer = field_setter 1 0x00000001 0"

definition CnaSPointer_pointer_pp_en :: setter where
  "CnaSPointer_pointer_pp_en = field_setter 1 0x00000002 1"

definition CnaSPointer_executor_pp_en :: setter where
  "CnaSPointer_executor_pp_en = field_setter 1 0x00000004 2"

definition CnaSPointer_pointer_pp_mode :: setter where
  "CnaSPointer_pointer_pp_mode = field_setter 1 0x00000008 3"

definition CnaSPointer_pointer_pp_clear :: setter where
  "CnaSPointer_pointer_pp_clear = field_setter 1 0x00000010 4"

definition CnaSPointer_executer_pp_clear :: setter where
  "CnaSPointer_executer_pp_clear = field_setter 1 0x00000020 5"

definition CnaSPointer_executer :: setter where
  "CnaSPointer_executer = field_setter 1 0x00010000 16"

definition CnaOperationEnable :: register_meta where
  "CnaOperationEnable = \<lparr>reg_domain = DOMAIN_CNA, reg_offset = 0x1008\<rparr>"

definition CnaOperationEnable_op_en :: setter where
  "CnaOperationEnable_op_en = field_setter 1 0x00000001 0"

definition CnaConvCon1 :: register_meta where
  "CnaConvCon1 = \<lparr>reg_domain = DOMAIN_CNA, reg_offset = 0x100c\<rparr>"

definition CnaConvCon1_conv_mode :: setter where
  "CnaConvCon1_conv_mode = field_setter 4 0x0000000f 0"

definition CnaConvCon1_in_precision :: setter where
  "CnaConvCon1_in_precision = field_setter 3 0x00000070 4"

definition CnaConvCon1_proc_precision :: setter where
  "CnaConvCon1_proc_precision = field_setter 3 0x00000380 7"

definition CnaConvCon1_argb_in :: setter where
  "CnaConvCon1_argb_in = field_setter 4 0x0000f000 12"

definition CnaConvCon1_deconv :: setter where
  "CnaConvCon1_deconv = field_setter 1 0x00010000 16"

definition CnaConvCon1_group_line_off :: setter where
  "CnaConvCon1_group_line_off = field_setter 1 0x20000000 29"

definition CnaConvCon1_nonalign_dma :: setter where
  "CnaConvCon1_nonalign_dma = field_setter 1 0x40000000 30"

definition CnaConvCon2 :: register_meta where
  "CnaConvCon2 = \<lparr>reg_domain = DOMAIN_CNA, reg_offset = 0x1010\<rparr>"

definition CnaConvCon2_cmd_fifo_srst :: setter where
  "CnaConvCon2_cmd_fifo_srst = field_setter 1 0x00000001 0"

definition CnaConvCon2_csc_do_en :: setter where
  "CnaConvCon2_csc_do_en = field_setter 1 0x00000002 1"

definition CnaConvCon2_csc_wo_en :: setter where
  "CnaConvCon2_csc_wo_en = field_setter 1 0x00000004 2"

definition CnaConvCon2_feature_grains :: setter where
  "CnaConvCon2_feature_grains = field_setter 10 0x00003ff0 4"

definition CnaConvCon2_kernel_group :: setter where
  "CnaConvCon2_kernel_group = field_setter 8 0x00ff0000 16"

definition CnaConvCon3 :: register_meta where
  "CnaConvCon3 = \<lparr>reg_domain = DOMAIN_CNA, reg_offset = 0x1014\<rparr>"

definition CnaConvCon3_conv_x_stride :: setter where
  "CnaConvCon3_conv_x_stride = field_setter 3 0x00000007 0"

definition CnaConvCon3_conv_y_stride :: setter where
  "CnaConvCon3_conv_y_stride = field_setter 3 0x00000038 3"

definition CnaConvCon3_deconv_x_stride :: setter where
  "CnaConvCon3_deconv_x_stride = field_setter 3 0x00000700 8"

definition CnaConvCon3_deconv_y_stride :: setter where
  "CnaConvCon3_deconv_y_stride = field_setter 3 0x00003800 11"

definition CnaConvCon3_atrous_x_dilation :: setter where
  "CnaConvCon3_atrous_x_dilation = field_setter 5 0x001f0000 16"

definition CnaConvCon3_atrous_y_dilation :: setter where
  "CnaConvCon3_atrous_y_dilation = field_setter 5 0x03e00000 21"

definition CnaConvCon3_nn_mode :: setter where
  "CnaConvCon3_nn_mode = field_setter 3 0x70000000 28"

definition CnaDataSize0 :: register_meta where
  "CnaDataSize0 = \<lparr>reg_domain = DOMAIN_CNA, reg_offset = 0x1020\<rparr>"

definition CnaDataSize0_datain_width :: setter where
  "CnaDataSize0_datain_width = field_setter 11 0x07ff0000 16"

definition CnaDataSize0_datain_height :: setter where
  "CnaDataSize0_datain_height = field_setter 11 0x000007ff 0"

definition CnaDataSize1 :: register_meta where
  "CnaDataSize1 = \<lparr>reg_domain = DOMAIN_CNA, reg_offset = 0x1024\<rparr>"

definition CnaDataSize1_datain_channel :: setter where
  "CnaDataSize1_datain_channel = field_setter 16 0x0000ffff 0"

definition CnaDataSize1_datain_channel_real :: setter where
  "CnaDataSize1_datain_channel_real = field_setter 14 0x3fff0000 16"

definition CnaDataSize2 :: register_meta where
  "CnaDataSize2 = \<lparr>reg_domain = DOMAIN_CNA, reg_offset = 0x1028\<rparr>"

definition CnaDataSize2_dataout_width :: setter where
  "CnaDataSize2_dataout_width = field_setter 11 0x000007ff 0"

definition CnaDataSize3 :: register_meta where
  "CnaDataSize3 = \<lparr>reg_domain = DOMAIN_CNA, reg_offset = 0x102c\<rparr>"

definition CnaDataSize3_dataout_atomics :: setter where
  "CnaDataSize3_dataout_atomics = field_setter 22 0x003fffff 0"

definition CnaDataSize3_surf_mode :: setter where
  "CnaDataSize3_surf_mode = field_setter 2 0x00c00000 22"

definition CnaWeightSize0 :: register_meta where
  "CnaWeightSize0 = \<lparr>reg_domain = DOMAIN_CNA, reg_offset = 0x1030\<rparr>"

definition CnaWeightSize0_weight_bytes :: setter where
  "CnaWeightSize0_weight_bytes = field_setter 32 0xffffffff 0"

definition CnaWeightSize1 :: register_meta where
  "CnaWeightSize1 = \<lparr>reg_domain = DOMAIN_CNA, reg_offset = 0x1034\<rparr>"

definition CnaWeightSize1_weight_bytes_per_kernel :: setter where
  "CnaWeightSize1_weight_bytes_per_kernel = field_setter 19 0x0007ffff 0"

definition CnaWeightSize2 :: register_meta where
  "CnaWeightSize2 = \<lparr>reg_domain = DOMAIN_CNA, reg_offset = 0x1038\<rparr>"

definition CnaWeightSize2_weight_width :: setter where
  "CnaWeightSize2_weight_width = field_setter 5 0x1f000000 24"

definition CnaWeightSize2_weight_height :: setter where
  "CnaWeightSize2_weight_height = field_setter 5 0x001f0000 16"

definition CnaWeightSize2_weight_kernels :: setter where
  "CnaWeightSize2_weight_kernels = field_setter 14 0x00003fff 0"

definition CnaCbufCon0 :: register_meta where
  "CnaCbufCon0 = \<lparr>reg_domain = DOMAIN_CNA, reg_offset = 0x1040\<rparr>"

definition CnaCbufCon0_weight_reuse :: setter where
  "CnaCbufCon0_weight_reuse = field_setter 1 0x00002000 13"

definition CnaCbufCon0_data_reuse :: setter where
  "CnaCbufCon0_data_reuse = field_setter 1 0x00001000 12"

definition CnaCbufCon0_fc_data_bank :: setter where
  "CnaCbufCon0_fc_data_bank = field_setter 3 0x00000700 8"

definition CnaCbufCon0_weight_bank :: setter where
  "CnaCbufCon0_weight_bank = field_setter 4 0x000000f0 4"

definition CnaCbufCon0_data_bank :: setter where
  "CnaCbufCon0_data_bank = field_setter 4 0x0000000f 0"

definition CnaCbufCon1 :: register_meta where
  "CnaCbufCon1 = \<lparr>reg_domain = DOMAIN_CNA, reg_offset = 0x1044\<rparr>"

definition CnaCbufCon1_data_entries :: setter where
  "CnaCbufCon1_data_entries = field_setter 15 0x00007fff 0"

definition CnaCvtCon0 :: register_meta where
  "CnaCvtCon0 = \<lparr>reg_domain = DOMAIN_CNA, reg_offset = 0x104c\<rparr>"

definition CnaCvtCon0_cvt_bypass :: setter where
  "CnaCvtCon0_cvt_bypass = field_setter 1 0x00000001 0"

definition CnaCvtCon0_cvt_type :: setter where
  "CnaCvtCon0_cvt_type = field_setter 1 0x00000002 1"

definition CnaCvtCon0_round_type :: setter where
  "CnaCvtCon0_round_type = field_setter 1 0x00000004 2"

definition CnaCvtCon0_data_sign :: setter where
  "CnaCvtCon0_data_sign = field_setter 1 0x00000008 3"

definition CnaCvtCon0_cvt_truncate_0 :: setter where
  "CnaCvtCon0_cvt_truncate_0 = field_setter 6 0x000003f0 4"

definition CnaCvtCon0_cvt_truncate_1 :: setter where
  "CnaCvtCon0_cvt_truncate_1 = field_setter 6 0x0000fc00 10"

definition CnaCvtCon0_cvt_truncate_2 :: setter where
  "CnaCvtCon0_cvt_truncate_2 = field_setter 6 0x003f0000 16"

definition CnaCvtCon0_cvt_truncate_3 :: setter where
  "CnaCvtCon0_cvt_truncate_3 = field_setter 6 0x0fc00000 22"

definition CnaCvtCon1 :: register_meta where
  "CnaCvtCon1 = \<lparr>reg_domain = DOMAIN_CNA, reg_offset = 0x1050\<rparr>"

definition CnaCvtCon1_cvt_offset0 :: setter where
  "CnaCvtCon1_cvt_offset0 = field_setter 16 0x0000ffff 0"

definition CnaCvtCon1_cvt_scale0 :: setter where
  "CnaCvtCon1_cvt_scale0 = field_setter 16 0xffff0000 16"

definition CnaCvtCon2 :: register_meta where
  "CnaCvtCon2 = \<lparr>reg_domain = DOMAIN_CNA, reg_offset = 0x1054\<rparr>"

definition CnaCvtCon2_cvt_offset1 :: setter where
  "CnaCvtCon2_cvt_offset1 = field_setter 16 0x0000ffff 0"

definition CnaCvtCon2_cvt_scale1 :: setter where
  "CnaCvtCon2_cvt_scale1 = field_setter 16 0xffff0000 16"

definition CnaCvtCon3 :: register_meta where
  "CnaCvtCon3 = \<lparr>reg_domain = DOMAIN_CNA, reg_offset = 0x1058\<rparr>"

definition CnaCvtCon3_cvt_offset2 :: setter where
  "CnaCvtCon3_cvt_offset2 = field_setter 16 0x0000ffff 0"

definition CnaCvtCon3_cvt_scale2 :: setter where
  "CnaCvtCon3_cvt_scale2 = field_setter 16 0xffff0000 16"

definition CnaCvtCon4 :: register_meta where
  "CnaCvtCon4 = \<lparr>reg_domain = DOMAIN_CNA, reg_offset = 0x105c\<rparr>"

definition CnaCvtCon4_cvt_offset3 :: setter where
  "CnaCvtCon4_cvt_offset3 = field_setter 16 0x0000ffff 0"

definition CnaCvtCon4_cvt_scale3 :: setter where
  "CnaCvtCon4_cvt_scale3 = field_setter 16 0xffff0000 16"

definition CnaFcCon0 :: register_meta where
  "CnaFcCon0 = \<lparr>reg_domain = DOMAIN_CNA, reg_offset = 0x1060\<rparr>"

definition CnaFcCon0_fc_skip_en :: setter where
  "CnaFcCon0_fc_skip_en = field_setter 1 0x00000001 0"

definition CnaFcCon0_fc_skip_data :: setter where
  "CnaFcCon0_fc_skip_data = field_setter 16 0xffff0000 16"

definition CnaFcCon1 :: register_meta where
  "CnaFcCon1 = \<lparr>reg_domain = DOMAIN_CNA, reg_offset = 0x1064\<rparr>"

definition CnaFcCon1_data_offset :: setter where
  "CnaFcCon1_data_offset = field_setter 17 0x0001ffff 0"

definition CnaPadCon0 :: register_meta where
  "CnaPadCon0 = \<lparr>reg_domain = DOMAIN_CNA, reg_offset = 0x1068\<rparr>"

definition CnaPadCon0_pad_top :: setter where
  "CnaPadCon0_pad_top = field_setter 4 0x0000000f 0"

definition CnaPadCon0_pad_left :: setter where
  "CnaPadCon0_pad_left = field_setter 4 0x000000f0 4"

definition CnaFeatureDataAddr :: register_meta where
  "CnaFeatureDataAddr = \<lparr>reg_domain = DOMAIN_CNA, reg_offset = 0x1070\<rparr>"

definition CnaFeatureDataAddr_feature_base_addr :: setter where
  "CnaFeatureDataAddr_feature_base_addr = field_setter 32 0xffffffff 0"

definition CnaFcCon2 :: register_meta where
  "CnaFcCon2 = \<lparr>reg_domain = DOMAIN_CNA, reg_offset = 0x1074\<rparr>"

definition CnaFcCon2_weight_offset :: setter where
  "CnaFcCon2_weight_offset = field_setter 17 0x0001ffff 0"

definition CnaDmaCon0 :: register_meta where
  "CnaDmaCon0 = \<lparr>reg_domain = DOMAIN_CNA, reg_offset = 0x1078\<rparr>"

definition CnaDmaCon0_data_burst_len :: setter where
  "CnaDmaCon0_data_burst_len = field_setter 4 0x0000000f 0"

definition CnaDmaCon0_weight_burst_len :: setter where
  "CnaDmaCon0_weight_burst_len = field_setter 4 0x000f0000 16"

definition CnaDmaCon0_ov4k_bypass :: setter where
  "CnaDmaCon0_ov4k_bypass = field_setter 1 0x80000000 31"

definition CnaDmaCon1 :: register_meta where
  "CnaDmaCon1 = \<lparr>reg_domain = DOMAIN_CNA, reg_offset = 0x107c\<rparr>"

definition CnaDmaCon1_line_stride :: setter where
  "CnaDmaCon1_line_stride = field_setter 28 0x0fffffff 0"

definition CnaDmaCon2 :: register_meta where
  "CnaDmaCon2 = \<lparr>reg_domain = DOMAIN_CNA, reg_offset = 0x1080\<rparr>"

definition CnaDmaCon2_surf_stride :: setter where
  "CnaDmaCon2_surf_stride = field_setter 28 0x0fffffff 0"

definition CnaFcDataSize0 :: register_meta where
  "CnaFcDataSize0 = \<lparr>reg_domain = DOMAIN_CNA, reg_offset = 0x1084\<rparr>"

definition CnaFcDataSize0_dma_height :: setter where
  "CnaFcDataSize0_dma_height = field_setter 11 0x000007ff 0"

definition CnaFcDataSize0_dma_width :: setter where
  "CnaFcDataSize0_dma_width = field_setter 14 0x3fff0000 16"

definition CnaFcDataSize1 :: register_meta where
  "CnaFcDataSize1 = \<lparr>reg_domain = DOMAIN_CNA, reg_offset = 0x1088\<rparr>"

definition CnaFcDataSize1_dma_channel :: setter where
  "CnaFcDataSize1_dma_channel = field_setter 16 0x0000ffff 0"

definition CnaClkGate :: register_meta where
  "CnaClkGate = \<lparr>reg_domain = DOMAIN_CNA, reg_offset = 0x1090\<rparr>"

definition CnaClkGate_cna_feature_disable_clkgate :: setter where
  "CnaClkGate_cna_feature_disable_clkgate = field_setter 1 0x00000001 0"

definition CnaClkGate_cna_weight_disable_clkgate :: setter where
  "CnaClkGate_cna_weight_disable_clkgate = field_setter 1 0x00000002 1"

definition CnaClkGate_csc_disable_clkgate :: setter where
  "CnaClkGate_csc_disable_clkgate = field_setter 1 0x00000004 2"

definition CnaClkGate_cbuf_cs_disable_clkgate :: setter where
  "CnaClkGate_cbuf_cs_disable_clkgate = field_setter 1 0x00000010 4"

definition CnaDcompCtrl :: register_meta where
  "CnaDcompCtrl = \<lparr>reg_domain = DOMAIN_CNA, reg_offset = 0x1100\<rparr>"

definition CnaDcompCtrl_decomp_control :: setter where
  "CnaDcompCtrl_decomp_control = field_setter 3 0x00000007 0"

definition CnaDcompCtrl_wt_dec_bypass :: setter where
  "CnaDcompCtrl_wt_dec_bypass = field_setter 1 0x00000008 3"

definition CnaDcompRegnum :: register_meta where
  "CnaDcompRegnum = \<lparr>reg_domain = DOMAIN_CNA, reg_offset = 0x1104\<rparr>"

definition CnaDcompRegnum_dcomp_regnum :: setter where
  "CnaDcompRegnum_dcomp_regnum = field_setter 32 0xffffffff 0"

definition CnaDcompAddr0 :: register_meta where
  "CnaDcompAddr0 = \<lparr>reg_domain = DOMAIN_CNA, reg_offset = 0x1110\<rparr>"

definition CnaDcompAddr0_decompress_addr0 :: setter where
  "CnaDcompAddr0_decompress_addr0 = field_setter 32 0xffffffff 0"

definition CnaCvtCon5 :: register_meta where
  "CnaCvtCon5 = \<lparr>reg_domain = DOMAIN_CNA, reg_offset = 0x1180\<rparr>"

definition CnaCvtCon5_per_channel_cvt_en :: setter where
  "CnaCvtCon5_per_channel_cvt_en = field_setter 32 0xffffffff 0"

definition CnaPadCon1 :: register_meta where
  "CnaPadCon1 = \<lparr>reg_domain = DOMAIN_CNA, reg_offset = 0x1184\<rparr>"

definition CnaPadCon1_pad_value :: setter where
  "CnaPadCon1_pad_value = field_setter 32 0xffffffff 0"

definition CnaDcompAmount0 :: register_meta where
  "CnaDcompAmount0 = \<lparr>reg_domain = DOMAIN_CNA, reg_offset = 0x1140\<rparr>"

definition CnaDcompAmount0_dcomp_amount :: setter where
  "CnaDcompAmount0_dcomp_amount = field_setter 32 0xffffffff 0"

definition CnaDcompAmount1 :: register_meta where
  "CnaDcompAmount1 = \<lparr>reg_domain = DOMAIN_CNA, reg_offset = 0x1144\<rparr>"

definition CnaDcompAmount1_dcomp_amount :: setter where
  "CnaDcompAmount1_dcomp_amount = field_setter 32 0xffffffff 0"

definition CnaDcompAmount2 :: register_meta where
  "CnaDcompAmount2 = \<lparr>reg_domain = DOMAIN_CNA, reg_offset = 0x1148\<rparr>"

definition CnaDcompAmount2_dcomp_amount :: setter where
  "CnaDcompAmount2_dcomp_amount = field_setter 32 0xffffffff 0"

definition CnaDcompAmount3 :: register_meta where
  "CnaDcompAmount3 = \<lparr>reg_domain = DOMAIN_CNA, reg_offset = 0x114c\<rparr>"

definition CnaDcompAmount3_dcomp_amount :: setter where
  "CnaDcompAmount3_dcomp_amount = field_setter 32 0xffffffff 0"

definition CnaDcompAmount4 :: register_meta where
  "CnaDcompAmount4 = \<lparr>reg_domain = DOMAIN_CNA, reg_offset = 0x1150\<rparr>"

definition CnaDcompAmount4_dcomp_amount :: setter where
  "CnaDcompAmount4_dcomp_amount = field_setter 32 0xffffffff 0"

definition CnaDcompAmount5 :: register_meta where
  "CnaDcompAmount5 = \<lparr>reg_domain = DOMAIN_CNA, reg_offset = 0x1154\<rparr>"

definition CnaDcompAmount5_dcomp_amount :: setter where
  "CnaDcompAmount5_dcomp_amount = field_setter 32 0xffffffff 0"

definition CnaDcompAmount6 :: register_meta where
  "CnaDcompAmount6 = \<lparr>reg_domain = DOMAIN_CNA, reg_offset = 0x1158\<rparr>"

definition CnaDcompAmount6_dcomp_amount :: setter where
  "CnaDcompAmount6_dcomp_amount = field_setter 32 0xffffffff 0"

definition CnaDcompAmount7 :: register_meta where
  "CnaDcompAmount7 = \<lparr>reg_domain = DOMAIN_CNA, reg_offset = 0x115c\<rparr>"

definition CnaDcompAmount7_dcomp_amount :: setter where
  "CnaDcompAmount7_dcomp_amount = field_setter 32 0xffffffff 0"

definition CnaDcompAmount8 :: register_meta where
  "CnaDcompAmount8 = \<lparr>reg_domain = DOMAIN_CNA, reg_offset = 0x1160\<rparr>"

definition CnaDcompAmount8_dcomp_amount :: setter where
  "CnaDcompAmount8_dcomp_amount = field_setter 32 0xffffffff 0"

definition CnaDcompAmount9 :: register_meta where
  "CnaDcompAmount9 = \<lparr>reg_domain = DOMAIN_CNA, reg_offset = 0x1164\<rparr>"

definition CnaDcompAmount9_dcomp_amount :: setter where
  "CnaDcompAmount9_dcomp_amount = field_setter 32 0xffffffff 0"

definition CnaDcompAmount10 :: register_meta where
  "CnaDcompAmount10 = \<lparr>reg_domain = DOMAIN_CNA, reg_offset = 0x1168\<rparr>"

definition CnaDcompAmount10_dcomp_amount :: setter where
  "CnaDcompAmount10_dcomp_amount = field_setter 32 0xffffffff 0"

definition CnaDcompAmount11 :: register_meta where
  "CnaDcompAmount11 = \<lparr>reg_domain = DOMAIN_CNA, reg_offset = 0x116c\<rparr>"

definition CnaDcompAmount11_dcomp_amount :: setter where
  "CnaDcompAmount11_dcomp_amount = field_setter 32 0xffffffff 0"

definition CnaDcompAmount12 :: register_meta where
  "CnaDcompAmount12 = \<lparr>reg_domain = DOMAIN_CNA, reg_offset = 0x1170\<rparr>"

definition CnaDcompAmount12_dcomp_amount :: setter where
  "CnaDcompAmount12_dcomp_amount = field_setter 32 0xffffffff 0"

definition CnaDcompAmount13 :: register_meta where
  "CnaDcompAmount13 = \<lparr>reg_domain = DOMAIN_CNA, reg_offset = 0x1174\<rparr>"

definition CnaDcompAmount13_dcomp_amount :: setter where
  "CnaDcompAmount13_dcomp_amount = field_setter 32 0xffffffff 0"

definition CnaDcompAmount14 :: register_meta where
  "CnaDcompAmount14 = \<lparr>reg_domain = DOMAIN_CNA, reg_offset = 0x1178\<rparr>"

definition CnaDcompAmount14_dcomp_amount :: setter where
  "CnaDcompAmount14_dcomp_amount = field_setter 32 0xffffffff 0"

definition CnaDcompAmount15 :: register_meta where
  "CnaDcompAmount15 = \<lparr>reg_domain = DOMAIN_CNA, reg_offset = 0x117c\<rparr>"

definition CnaDcompAmount15_dcomp_amount :: setter where
  "CnaDcompAmount15_dcomp_amount = field_setter 32 0xffffffff 0"

text \<open>Every register of the block with its setters, their widths and shifts.\<close>

definition cna_block :: "(register_meta \<times> (setter \<times> nat \<times> nat) list) list" where
  "cna_block =
     [(CnaSPointer, [
        (CnaSPointer_pointer, 1, 0), (CnaSPointer_pointer_pp_en, 1, 1),
        (CnaSPointer_executor_pp_en, 1, 2), (CnaSPointer_pointer_pp_mode, 1, 3),
        (CnaSPointer_pointer_pp_clear, 1, 4), (CnaSPointer_executer_pp_clear, 1, 5),
        (CnaSPointer_executer, 1, 16)]),
      (CnaOperationEnable, [
        (CnaOperationEnable_op_en, 1, 0)]),
      (CnaConvCon1, [
        (CnaConvCon1_conv_mode, 4, 0), (CnaConvCon1_in_precision, 3, 4),
        (CnaConvCon1_proc_precision, 3, 7), (CnaConvCon1_argb_in, 4, 12),
        (CnaConvCon1_deconv, 1, 16), (CnaConvCon1_group_line_off, 1, 29),
        (CnaConvCon1_nonalign_dma, 1, 30)]),
      (CnaConvCon2, [
        (CnaConvCon2_cmd_fifo_srst, 1, 0), (CnaConvCon2_csc_do_en, 1, 1),
        (CnaConvCon2_csc_wo_en, 1, 2), (CnaConvCon2_feature_grains, 10, 4),
        (CnaConvCon2_kernel_group, 8, 16)]),
      (CnaConvCon3, [
        (CnaConvCon3_conv_x_stride, 3, 0), (CnaConvCon3_conv_y_stride, 3, 3),
        (CnaConvCon3_deconv_x_stride, 3, 8), (CnaConvCon3_deconv_y_stride, 3, 11),
        (CnaConvCon3_atrous_x_dilation, 5, 16), (CnaConvCon3_atrous_y_dilation, 5, 21),
        (CnaConvCon3_nn_mode, 3, 28)]),
      (CnaDataSize0, [
        (CnaDataSize0_datain_width, 11, 16), (CnaDataSize0_datain_height, 11, 0)]),
      (CnaDataSize1, [
        (CnaDataSize1_datain_channel, 16, 0), (CnaDataSize1_datain_channel_real, 14, 16)]),
      (CnaDataSize2, [
        (CnaDataSize2_dataout_width, 11, 0)]),
      (CnaDataSize3, [
        (CnaDataSize3_dataout_atomics, 22, 0), (CnaDataSize3_surf_mode, 2, 22)]),
      (CnaWeightSize0, [
        (CnaWeightSize0_weight_bytes, 32, 0)]),
      (CnaWeightSize1, [
        (CnaWeightSize1_weight_bytes_per_kernel, 19, 0)]),
      (CnaWeightSize2, [
        (CnaWeightSize2_weight_width, 5, 24), (CnaWeightSize2_weight_height, 5, 16),
        (CnaWeightSize2_weight_kernels, 14, 0)]),
      (CnaCbufCon0, [
        (CnaCbufCon0_weight_reuse, 1, 13), (CnaCbufCon0_data_reuse, 1, 12),
        (CnaCbufCon0_fc_data_bank, 3, 8), (CnaCbufCon0_weight_bank, 4, 4),
        (CnaCbufCon0_data_bank, 4, 0)]),
      (CnaCbufCon1, [
        (CnaCbufCon1_data_entries, 15, 0)]),
      (CnaCvtCon0, [
        (CnaCvtCon0_cvt_bypass, 1, 0), (CnaCvtCon0_cvt_type, 1, 1),
        (CnaCvtCon0_round_type, 1, 2), (CnaCvtCon0_data_sign, 1, 3),
        (CnaCvtCon0_cvt_truncate_0, 6, 4), (CnaCvtCon0_cvt_truncate_1, 6, 10),
        (CnaCvtCon0_cvt_truncate_2, 6, 16), (CnaCvtCon0_cvt_truncate_3, 6, 22)]),
      (CnaCvtCon1, [
        (CnaCvtCon1_cvt_offset0, 16, 0), (CnaCvtCon1_cvt_scale0, 16, 16)]),
      (CnaCvtCon2, [
        (CnaCvtCon2_cvt_offset1, 16, 0), (CnaCvtCon2_cvt_scale1, 16, 16)]),
      (CnaCvtCon3, [
        (CnaCvtCon3_cvt_offset2, 16, 0), (CnaCvtCon3_cvt_scale2, 16, 16)]),
      (CnaCvtCon4, [
        (CnaCvtCon4_cvt_offset3, 16, 0), (CnaCvtCon4_cvt_scale3, 16, 16)]),
      (CnaFcCon0, [
        (CnaFcCon0_fc_skip_en, 1, 0), (CnaFcCon0_fc_skip_data, 16, 16)]),
      (CnaFcCon1, [
        (CnaFcCon1_data_offset, 17, 0)]),
      (CnaPadCon0, [
        (CnaPadCon0_pad_top, 4, 0), (CnaPadCon0_pad_left, 4, 4)]),
      (CnaFeatureDataAddr, [
        (CnaFeatureDataAddr_feature_base_addr, 32, 0)]),
      (CnaFcCon2, [
        (CnaFcCon2_weight_offset, 17, 0)]),
      (CnaDmaCon0, [
        (CnaDmaCon0_data_burst_len, 4, 0), (CnaDmaCon0_weight_burst_len, 4, 16),
        (CnaDmaCon0_ov4k_bypass, 1, 31)]),
      (CnaDmaCon1, [
        (CnaDmaCon1_line_stride, 28, 0)]),
      (CnaDmaCon2, [
        (CnaDmaCon2_surf_stride, 28, 0)]),
      (CnaFcDataSize0, [
        (CnaFcDataSize0_dma_height, 11, 0), (CnaFcDataSize0_dma_width, 14, 16)]),
      (CnaFcDataSize1, [
        (CnaFcDataSize1_dma_channel, 16, 0)]),
      (CnaClkGate, [
        (CnaClkGate_cna_feature_disable_clkgate, 1, 0),
        (CnaClkGate_cna_weight_disable_clkgate, 1, 1), (CnaClkGate_csc_disable_clkgate, 1, 2),
        (CnaClkGate_cbuf_cs_disable_clkgate, 1, 4)]),
      (CnaDcompCtrl, [
        (CnaDcompCtrl_decomp_control, 3, 0), (CnaDcompCtrl_wt_dec_bypass, 1, 3)]),
      (CnaDcompRegnum, [
        (CnaDcompRegnum_dcomp_regnum, 32, 0)]),
      (CnaDcompAddr0, [
        (CnaDcompAddr0_decompress_addr0, 32, 0)]),
      (CnaCvtCon5, [
        (CnaCvtCon5_per_channel_cvt_en, 32, 0)]),
      (CnaPadCon1, [
        (CnaPadCon1_pad_value, 32, 0)]),
      (CnaDcompAmount0, [
        (CnaDcompAmount0_dcomp_amount, 32, 0)]),
      (CnaDcompAmount1, [
        (CnaDcompAmount1_dcomp_amount, 32, 0)]),
      (CnaDcompAmount2, [
        (CnaDcompAmount2_dcomp_amount, 32, 0)]),
      (CnaDcompAmount3, [
        (CnaDcompAmount3_dcomp_amount, 32, 0)]),
      (CnaDcompAmount4, [
        (CnaDcompAmount4_dcomp_amount, 32, 0)]),
      (CnaDcompAmount5, [
        (CnaDcompAmount5_dcomp_amount, 32, 0)]),
      (CnaDcompAmount6, [
        (CnaDcompAmount6_dcomp_amount, 32, 0)]),
      (CnaDcompAmount7, [
        (CnaDcompAmount7_dcomp_amount, 32, 0)]),
      (CnaDcompAmount8, [
        (CnaDcompAmount8_dcomp_amount, 32, 0)]),
      (CnaDcompAmount9, [
        (CnaDcompAmount9_dcomp_amount, 32, 0)]),
      (CnaDcompAmount10, [
        (CnaDcompAmount10_dcomp_amount, 32, 0)]),
      (CnaDcompAmount11, [
        (CnaDcompAmount11_dcomp_amount, 32, 0)]),
      (CnaDcompAmount12, [
        (CnaDcompAmount12_dcomp_amount, 32, 0)]),
      (CnaDcompAmount13, [
        (CnaDcompAmount13_dcomp_amount, 32, 0)]),
      (CnaDcompAmount14, [
        (CnaDcompAmount14_dcomp_amount, 32, 0)]),
      (CnaDcompAmount15, [
        (CnaDcompAmount15_dcomp_amount, 32, 0)])]"

lemmas cna_block_registers =
  CnaSPointer_def CnaOperationEnable_def CnaConvCon1_def CnaConvCon2_def CnaConvCon3_def
  CnaDataSize0_def CnaDataSize1_def CnaDataSize2_def CnaDataSize3_def CnaWeightSize0_def
  CnaWeightSize1_def CnaWeightSize2_def CnaCbufCon0_def CnaCbufCon1_def CnaCvtCon0_def
  CnaCvtCon1_def CnaCvtCon2_def CnaCvtCon3_def CnaCvtCon4_def CnaFcCon0_def CnaFcCon1_def
  CnaPadCon0_def CnaFeatureDataAddr_def CnaFcCon2_def CnaDmaCon0_def CnaDmaCon1_def
  CnaDmaCon2_def CnaFcDataSize0_def CnaFcDataSize1_def CnaClkGate_def CnaDcompCtrl_def
  CnaDcompRegnum_def CnaDcompAddr0_def CnaCvtCon5_def CnaPadCon1_def CnaDcompAmount0_def
  CnaDcompAmount1_def CnaDcompAmount2_def CnaDcompAmount3_def CnaDcompAmount4_def
  CnaDcompAmount5_def CnaDcompAmount6_def CnaDcompAmount7_def CnaDcompAmount8_def
  CnaDcompAmount9_def CnaDcompAmount10_def CnaDcompAmount11_def CnaDcompAmount12_def
  CnaDcompAmount13_def CnaDcompAmount14_def CnaDcompAmount15_def

lemmas cna_block_setters =
  CnaSPointer_pointer_def CnaSPointer_pointer_pp_en_def CnaSPointer_executor_pp_en_def
  CnaSPointer_pointer_pp_mode_def CnaSPointer_pointer_pp_clear_def
  CnaSPointer_executer_pp_clear_def CnaSPointer_executer_def CnaOperationEnable_op_en_def
  CnaConvCon1_conv_mode_def CnaConvCon1_in_precision_def CnaConvCon1_proc_precision_def
  CnaConvCon1_argb_in_def CnaConvCon1_deconv_def CnaConvCon1_group_line_off_def
  CnaConvCon1_nonalign_dma_def CnaConvCon2_cmd_fifo_srst_def CnaConvCon2_csc_do_en_def
  CnaConvCon2_csc_wo_en_def CnaConvCon2_feature_grains_def CnaConvCon2_kernel_group_def
  CnaConvCon3_conv_x_stride_def CnaConvCon3_conv_y_stride_def CnaConvCon3_deconv_x_stride_def
  CnaConvCon3_deconv_y_stride_def CnaConvCon3_atrous_x_dilation_def
  CnaConvCon3_atrous_y_dilation_def CnaConvCon3_nn_mode_def CnaDataSize0_datain_width_def
  CnaDataSize0_datain_height_def CnaDataSize1_datain_channel_def
  CnaDataSize1_datain_channel_real_def CnaDataSize2_dataout_width_def
  CnaDataSize3_dataout_atomics_def CnaDataSize3_surf_mode_def CnaWeightSize0_weight_bytes_def
  CnaWeightSize1_weight_bytes_per_kernel_def CnaWeightSize2_weight_width_def
  CnaWeightSize2_weight_height_def CnaWeightSize2_weight_kernels_def CnaCbufCon0_weight_reuse_def
  CnaCbufCon0_data_reuse_def CnaCbufCon0_fc_data_bank_def CnaCbufCon0_weight_bank_def
  CnaCbufCon0_data_bank_def CnaCbufCon1_data_entries_def CnaCvtCon0_cvt_bypass_def
  CnaCvtCon0_cvt_type_def CnaCvtCon0_round_type_def CnaCvtCon0_data_sign_def
  CnaCvtCon0_cvt_truncate_0_def CnaCvtCon0_cvt_truncate_1_def CnaCvtCon0_cvt_truncate_2_def
  CnaCvtCon0_cvt_truncate_3_def CnaCvtCon1_cvt_offset0_def CnaCvtCon1_cvt_scale0_def
  CnaCvtCon2_cvt_offset1_def CnaCvtCon2_cvt_scale1_def CnaCvtCon3_cvt_offset2_def
  CnaCvtCon3_cvt_scale2_def CnaCvtCon4_cvt_offset3_def CnaCvtCon4_cvt_scale3_def
  CnaFcCon0_fc_skip_en_def CnaFcCon0_fc_skip_data_def CnaFcCon1_data_offset_def
  CnaPadCon0_pad_top_def CnaPadCon0_pad_left_def CnaFeatureDataAddr_feature_base_addr_def
  CnaFcCon2_weight_offset_def CnaDmaCon0_data_burst_len_def CnaDmaCon0_weight_burst_len_def
  CnaDmaCon0_ov4k_bypass_def CnaDmaCon1_line_stride_def CnaDmaCon2_surf_stride_def
  CnaFcDataSize0_dma_height_def CnaFcDataSize0_dma_width_def CnaFcDataSize1_dma_channel_def
  CnaClkGate_cna_feature_disable_clkgate_def CnaClkGate_cna_weight_disable_clkgate_def
  CnaClkGate_csc_disable_clkgate_def CnaClkGate_cbuf_cs_disable_clkgate_def
  CnaDcompCtrl_decomp_control_def CnaDcompCtrl_wt_dec_bypass_def CnaDcompRegnum_dcomp_regnum_def
  CnaDcompAddr0_decompress_addr0_def CnaCvtCon5_per_channel_cvt_en_def CnaPadCon1_pad_value_def
  CnaDcompAmount0_dcomp_amount_def CnaDcompAmount1_dcomp_amount_def
  CnaDcompAmount2_dcomp_amount_def CnaDcompAmount3_dcomp_amount_def
  CnaDcompAmount4_dcomp_amount_def CnaDcompAmount5_dcomp_amount_def
  CnaDcompAmount6_dcomp_amount_def CnaDcompAmount7_dcomp_amount_def
  CnaDcompAmount8_dcomp_amount_def CnaDcompAmount9_dcomp_amount_def
  CnaDcompAmount10_dcomp_amount_def CnaDcompAmount11_dcomp_amount_def
  CnaDcompAmount12_dcomp_amount_def CnaDcompAmount13_dcomp_amount_def
  CnaDcompAmount14_dcomp_amount_def CnaDcompAmount15_dcomp_amount_def

section \<open>The multiply-accumulate core\<close>

definition CoreSStatus :: register_meta where
  "CoreSStatus = \<lparr>reg_domain = DOMAIN_CORE, reg_offset = 0x3000\<rparr>"

definition CoreSStatus_status_0 :: setter where
  "CoreSStatus_status_0 = field_setter 2 0x00000003 0"

definition CoreSStatus_status_1 :: setter where
  "CoreSStatus_status_1 = field_setter 2 0x00030000 16"

definition CoreSPointer :: register_meta where
  "CoreSPointer = \<lparr>reg_domain = DOMAIN_CORE, reg_offset = 0x3004\<rparr>"

definition CoreSPointer_pointer :: setter where
  "CoreSPointer_pointer = field_setter 1 0x00000001 0"

definition CoreSPointer_pointer_pp_en :: setter where
  "CoreSPointer_pointer_pp_en = field_setter 1 0x00000002 1"

definition CoreSPointer_executer_pp_en :: setter where
  "CoreSPointer_executer_pp_en = field_setter 1 0x00000004 2"

definition CoreSPointer_pointer_pp_mode :: setter where
  "CoreSPointer_pointer_pp_mode = field_setter 1 0x00000008 3"

definition CoreSPointer_pointer_pp_clear :: setter where
  "CoreSPointer_pointer_pp_clear = field_setter 1 0x00000010 4"

definition CoreSPointer_executer_pp_clear :: setter where
  "CoreSPointer_executer_pp_clear = field_setter 1 0x00000020 5"

definition CoreSPointer_executer :: setter where
  "CoreSPointer_executer = field_setter 1 0x00010000 16"

definition CoreOperationEnable :: register_meta where
  "CoreOperationEnable = \<lparr>reg_domain = DOMAIN_CORE, reg_offset = 0x3008\<rparr>"

definition CoreOperationEnable_op_en :: setter where
  "CoreOperationEnable_op_en = field_setter 1 0x00000001 0"

definition CoreMacGating :: register_meta where
  "CoreMacGating = \<lparr>reg_domain = DOMAIN_CORE, reg_offset = 0x300c\<rparr>"

definition CoreMacGating_slcg_op_en :: setter where
  "CoreMacGating_slcg_op_en = field_setter 27 0x07ffffff 0"

definition CoreMiscCfg :: register_meta where
  "CoreMiscCfg = \<lparr>reg_domain = DOMAIN_CORE, reg_offset = 0x3010\<rparr>"

definition CoreMiscCfg_qd_en :: setter where
  "CoreMiscCfg_qd_en = field_setter 1 0x00000001 0"

definition CoreMiscCfg_dw_en :: setter where
  "CoreMiscCfg_dw_en = field_setter 1 0x00000002 1"

definition CoreMiscCfg_proc_precision :: setter where
  "CoreMiscCfg_proc_precision = field_setter 3 0x00000700 8"

definition CoreMiscCfg_soft_gating :: setter where
  "CoreMiscCfg_soft_gating = field_setter 6 0x000fc000 14"

definition CoreDataoutSize0 :: register_meta where
  "CoreDataoutSize0 = \<lparr>reg_domain = DOMAIN_CORE, reg_offset = 0x3014\<rparr>"

definition CoreDataoutSize0_dataout_width :: setter where
  "CoreDataoutSize0_dataout_width = field_setter 16 0x0000ffff 0"

definition CoreDataoutSize0_dataout_height :: setter where
  "CoreDataoutSize0_dataout_height = field_setter 16 0xffff0000 16"

definition CoreDataoutSize1 :: register_meta where
  "CoreDataoutSize1 = \<lparr>reg_domain = DOMAIN_CORE, reg_offset = 0x3018\<rparr>"

definition CoreDataoutSize1_dataout_channel :: setter where
  "CoreDataoutSize1_dataout_channel = field_setter 16 0x0000ffff 0"

definition CoreClipTruncate :: register_meta where
  "CoreClipTruncate = \<lparr>reg_domain = DOMAIN_CORE, reg_offset = 0x301c\<rparr>"

definition CoreClipTruncate_clip_truncate :: setter where
  "CoreClipTruncate_clip_truncate = field_setter 5 0x0000001f 0"

definition CoreClipTruncate_round_type :: setter where
  "CoreClipTruncate_round_type = field_setter 1 0x00000040 6"

definition CoreReserved3030 :: register_meta where
  "CoreReserved3030 = \<lparr>reg_domain = DOMAIN_CORE, reg_offset = 0x3030\<rparr>"

text \<open>Every register of the block with its setters, their widths and shifts.\<close>

definition core_block :: "(register_meta \<times> (setter \<times> nat \<times> nat) list) list" where
  "core_block =
     [(CoreSStatus, [
        (CoreSStatus_status_0, 2, 0), (CoreSStatus_status_1, 2, 16)]),
      (CoreSPointer, [
        (CoreSPointer_pointer, 1, 0), (CoreSPointer_pointer_pp_en, 1, 1),
        (CoreSPointer_executer_pp_en, 1, 2), (CoreSPointer_pointer_pp_mode, 1, 3),
        (CoreSPointer_pointer_pp_clear, 1, 4), (CoreSPointer_executer_pp_clear, 1, 5),
        (CoreSPointer_executer, 1, 16)]),
      (CoreOperationEnable, [
        (CoreOperationEnable_op_en, 1, 0)]),
      (CoreMacGating, [
        (CoreMacGating_slcg_op_en, 27, 0)]),
      (CoreMiscCfg, [
        (CoreMiscCfg_qd_en, 1, 0), (CoreMiscCfg_dw_en, 1, 1), (CoreMiscCfg_proc_precision, 3, 8),
        (CoreMiscCfg_soft_gating, 6, 14)]),
      (CoreDataoutSize0, [
        (CoreDataoutSize0_dataout_width, 16, 0), (CoreDataoutSize0_dataout_height, 16, 16)]),
      (CoreDataoutSize1, [
        (CoreDataoutSize1_dataout_channel, 16, 0)]),
      (CoreClipTruncate, [
        (CoreClipTruncate_clip_truncate, 5, 0), (CoreClipTruncate_round_type, 1, 6)]),
      (CoreReserved3030, [])]"

lemmas core_block_registers =
  CoreSStatus_def CoreSPointer_def CoreOperationEnable_def CoreMacGating_def CoreMiscCfg_def
  CoreDataoutSize0_def CoreDataoutSize1_def CoreClipTruncate_def CoreReserved3030_def

lemmas core_block_setters =
  CoreSStatus_status_0_def CoreSStatus_status_1_def CoreSPointer_pointer_def
  CoreSPointer_pointer_pp_en_def CoreSPointer_executer_pp_en_def CoreSPointer_pointer_pp_mode_def
  CoreSPointer_pointer_pp_clear_def CoreSPointer_executer_pp_clear_def CoreSPointer_executer_def
  CoreOperationEnable_op_en_def CoreMacGating_slcg_op_en_def CoreMiscCfg_qd_en_def
  CoreMiscCfg_dw_en_def CoreMiscCfg_proc_precision_def CoreMiscCfg_soft_gating_def
  CoreDataoutSize0_dataout_width_def CoreDataoutSize0_dataout_height_def
  CoreDataoutSize1_dataout_channel_def CoreClipTruncate_clip_truncate_def
  CoreClipTruncate_round_type_def

end
