(* ===== verification/DpuRegisters.thy ===== *)
theory DpuRegisters
  imports RegisterWords
begin

text \<open>
  The registers of the data processing unit (the output stage) and of its reader, and their field
  setters (\<open>builders/dpu.rs\<close>, \<open>builders/dpu_rdma.rs\<close>); masks and shifts are those of
  \<open>rkt_registers.h\<close>.
\<close>

section \<open>The data processing unit\<close>

definition DpuSStatus :: register_meta where
  "DpuSStatus = \<lparr>reg_domain = DOMAIN_DPU, reg_offset = 0x4000\<rparr>"

definition DpuSStatus_status_0 :: setter where
  "DpuSStatus_status_0 = field_setter 2 0x00000003 0"

definition DpuSStatus_status_1 :: setter where
  "DpuSStatus_status_1 = field_setter 2 0x00030000 16"

definition DpuSPointer :: register_meta where
  "DpuSPointer = \<lparr>reg_domain = DOMAIN_DPU, reg_offset = 0x4004\<rparr>"

definition DpuSPointer_pointer :: setter where
  "DpuSPointer_pointer = field_setter 1 0x00000001 0"

definition DpuSPointer_pointer_pp_en :: setter where
  "DpuSPointer_pointer_pp_en = field_setter 1 0x00000002 1"

definition DpuSPointer_executer_pp_en :: setter where
  "DpuSPointer_executer_pp_en = field_setter 1 0x00000004 2"

definition DpuSPointer_pointer_pp_mode :: setter where
  "DpuSPointer_pointer_pp_mode = field_setter 1 0x00000008 3"

definition DpuSPointer_pointer_pp_clear :: setter where
  "DpuSPointer_pointer_pp_clear = field_setter 1 0x00000010 4"

definition DpuSPointer_executer_pp_clear :: setter where
  "DpuSPointer_executer_pp_clear = field_setter 1 0x00000020 5"

definition DpuSPointer_executer :: setter where
  "DpuSPointer_executer = field_setter 1 0x00010000 16"

definition DpuOperationEnable :: register_meta where
  "DpuOperationEnable = \<lparr>reg_domain = DOMAIN_DPU, reg_offset = 0x4008\<rparr>"

definition DpuOperationEnable_op_en :: setter where
  "DpuOperationEnable_op_en = field_setter 1 0x00000001 0"

definition DpuFeatureModeCfg :: register_meta where
  "DpuFeatureModeCfg = \<lparr>reg_domain = DOMAIN_DPU, reg_offset = 0x400c\<rparr>"

definition DpuFeatureModeCfg_flying_mode :: setter where
  "DpuFeatureModeCfg_flying_mode = field_setter 1 0x00000001 0"

definition DpuFeatureModeCfg_output_mode :: setter where
  "DpuFeatureModeCfg_output_mode = field_setter 2 0x00000006 1"

definition DpuFeatureModeCfg_conv_mode :: setter where
  "DpuFeatureModeCfg_conv_mode = field_setter 2 0x00000018 3"

definition DpuFeatureModeCfg_burst_len :: setter where
  "DpuFeatureModeCfg_burst_len = field_setter 4 0x000001e0 5"

definition DpuFeatureModeCfg_surf_len :: setter where
  "DpuFeatureModeCfg_surf_len = field_setter 16 0x01fffe00 9"

definition DpuFeatureModeCfg_nonalign :: setter where
  "DpuFeatureModeCfg_nonalign = field_setter 1 0x02000000 25"

definition DpuFeatureModeCfg_rgp_type :: setter where
  "DpuFeatureModeCfg_rgp_type = field_setter 4 0x3c000000 26"

definition DpuFeatureModeCfg_tp_en :: setter where
  "DpuFeatureModeCfg_tp_en = field_setter 1 0x40000000 30"

definition DpuFeatureModeCfg_comb_use :: setter where
  "DpuFeatureModeCfg_comb_use = field_setter 1 0x80000000 31"

definition DpuDataFormat :: register_meta where
  "DpuDataFormat = \<lparr>reg_domain = DOMAIN_DPU, reg_offset = 0x4010\<rparr>"

definition DpuDataFormat_proc_precision :: setter where
  "DpuDataFormat_proc_precision = field_setter 3 0x00000007 0"

definition DpuDataFormat_mc_surf_out :: setter where
  "DpuDataFormat_mc_surf_out = field_setter 1 0x00000008 3"

definition DpuDataFormat_bs_mul_shift_value_neg :: setter where
  "DpuDataFormat_bs_mul_shift_value_neg = field_setter 6 0x000003f0 4"

definition DpuDataFormat_bn_mul_shift_value_neg :: setter where
  "DpuDataFormat_bn_mul_shift_value_neg = field_setter 6 0x0000fc00 10"

definition DpuDataFormat_ew_truncate_neg :: setter where
  "DpuDataFormat_ew_truncate_neg = field_setter 10 0x03ff0000 16"

definition DpuDataFormat_in_precision :: setter where
  "DpuDataFormat_in_precision = field_setter 3 0x1c000000 26"

definition DpuDataFormat_out_precision :: setter where
  "DpuDataFormat_out_precision = field_setter 3 0xe0000000 29"

definition DpuOffsetPend :: register_meta where
  "DpuOffsetPend = \<lparr>reg_domain = DOMAIN_DPU, reg_offset = 0x4014\<rparr>"

definition DpuOffsetPend_offset_pend :: setter where
  "DpuOffsetPend_offset_pend = field_setter 16 0x0000ffff 0"

definition DpuDstBaseAddr :: register_meta where
  "DpuDstBaseAddr = \<lparr>reg_domain = DOMAIN_DPU, reg_offset = 0x4020\<rparr>"

definition DpuDstBaseAddr_dst_base_addr :: setter where
  "DpuDstBaseAddr_dst_base_addr = field_setter 32 0xffffffff 0"

definition DpuDstSurfStride :: register_meta where
  "DpuDstSurfStride = \<lparr>reg_domain = DOMAIN_DPU, reg_offset = 0x4024\<rparr>"

definition DpuDstSurfStride_dst_surf_stride :: setter where
  "DpuDstSurfStride_dst_surf_stride = field_setter 28 0xfffffff0 4"

definition DpuDataCubeWidth :: register_meta where
  "DpuDataCubeWidth = \<lparr>reg_domain = DOMAIN_DPU, reg_offset = 0x4030\<rparr>"

definition DpuDataCubeWidth_width :: setter where
  "DpuDataCubeWidth_width = field_setter 13 0x00001fff 0"

definition DpuDataCubeHeight :: register_meta where
  "DpuDataCubeHeight = \<lparr>reg_domain = DOMAIN_DPU, reg_offset = 0x4034\<rparr>"

definition DpuDataCubeHeight_height :: setter where
  "DpuDataCubeHeight_height = field_setter 13 0x00001fff 0"

definition DpuDataCubeHeight_minmax_ctl :: setter where
  "DpuDataCubeHeight_minmax_ctl = field_setter 3 0x01c00000 22"

definition DpuDataCubeNotchAddr :: register_meta where
  "DpuDataCubeNotchAddr = \<lparr>reg_domain = DOMAIN_DPU, reg_offset = 0x4038\<rparr>"

definition DpuDataCubeNotchAddr_notch_addr_0 :: setter where
  "DpuDataCubeNotchAddr_notch_addr_0 = field_setter 13 0x00001fff 0"

definition DpuDataCubeNotchAddr_notch_addr_1 :: setter where
  "DpuDataCubeNotchAddr_notch_addr_1 = field_setter 13 0x1fff0000 16"

definition DpuDataCubeChannel :: register_meta where
  "DpuDataCubeChannel = \<lparr>reg_domain = DOMAIN_DPU, reg_offset = 0x403c\<rparr>"

definition DpuDataCubeChannel_channel :: setter where
  "DpuDataCubeChannel_channel = field_setter 13 0x00001fff 0"

definition DpuDataCubeChannel_orig_channel :: setter where
  "DpuDataCubeChannel_orig_channel = field_setter 13 0x1fff0000 16"

definition DpuBsCfg :: register_meta where
  "DpuBsCfg = \<lparr>reg_domain = DOMAIN_DPU, reg_offset = 0x4040\<rparr>"

definition DpuBsCfg_bs_bypass :: setter where
  "DpuBsCfg_bs_bypass = field_setter 1 0x00000001 0"

definition DpuBsCfg_bs_alu_bypass :: setter where
  "DpuBsCfg_bs_alu_bypass = field_setter 1 0x00000002 1"

definition DpuBsCfg_bs_mul_bypass :: setter where
  "DpuBsCfg_bs_mul_bypass = field_setter 1 0x00000010 4"

definition DpuBsCfg_bs_mul_prelu :: setter where
  "DpuBsCfg_bs_mul_prelu = field_setter 1 0x00000020 5"

definition DpuBsCfg_bs_relu_bypass :: setter where
  "DpuBsCfg_bs_relu_bypass = field_setter 1 0x00000040 6"

definition DpuBsCfg_bs_relux_en :: setter where
  "DpuBsCfg_bs_relux_en = field_setter 1 0x00000080 7"

definition DpuBsCfg_bs_alu_src :: setter where
  "DpuBsCfg_bs_alu_src = field_setter 1 0x00000100 8"

definition DpuBsCfg_bs_alu_algo :: setter where
  "DpuBsCfg_bs_alu_algo = field_setter 4 0x000f0000 16"

definition DpuBsAluCfg :: register_meta where
  "DpuBsAluCfg = \<lparr>reg_domain = DOMAIN_DPU, reg_offset = 0x4044\<rparr>"

definition DpuBsAluCfg_bs_alu_operand :: setter where
  "DpuBsAluCfg_bs_alu_operand = field_setter 32 0xffffffff 0"

definition DpuBsMulCfg :: register_meta where
  "DpuBsMulCfg = \<lparr>reg_domain = DOMAIN_DPU, reg_offset = 0x4048\<rparr>"

definition DpuBsMulCfg_bs_mul_src :: setter where
  "DpuBsMulCfg_bs_mul_src = field_setter 1 0x00000001 0"

definition DpuBsMulCfg_bs_truncate_src :: setter where
  "DpuBsMulCfg_bs_truncate_src = field_setter 1 0x00000002 1"

definition DpuBsMulCfg_bs_mul_shift_value :: setter where
  "DpuBsMulCfg_bs_mul_shift_value = field_setter 6 0x00003f00 8"

definition DpuBsMulCfg_bs_mul_operand :: setter where
  "DpuBsMulCfg_bs_mul_operand = field_setter 16 0xffff0000 16"

definition DpuBsReluxCmpValue :: register_meta where
  "DpuBsReluxCmpValue = \<lparr>reg_domain = DOMAIN_DPU, reg_offset = 0x404c\<rparr>"

definition DpuBsReluxCmpValue_bs_relux_cmp_dat :: setter where
  "DpuBsReluxCmpValue_bs_relux_cmp_dat = field_setter 32 0xffffffff 0"

definition DpuBsOwCfg :: register_meta where
  "DpuBsOwCfg = \<lparr>reg_domain = DOMAIN_DPU, reg_offset = 0x4050\<rparr>"

definition DpuBsOwCfg_ow_src :: setter where
  "DpuBsOwCfg_ow_src = field_setter 1 0x00000001 0"

definition DpuBsOwCfg_od_bypass :: setter where
  "DpuBsOwCfg_od_bypass = field_setter 1 0x00000002 1"

definition DpuBsOwCfg_size_e_0 :: setter where
  "DpuBsOwCfg_size_e_0 = field_setter 3 0x0000001c 2"

definition DpuBsOwCfg_size_e_1 :: setter where
  "DpuBsOwCfg_size_e_1 = field_setter 3 0x000000e0 5"

definition DpuBsOwCfg_size_e_2 :: setter where
  "DpuBsOwCfg_size_e_2 = field_setter 3 0x00000700 8"

definition DpuBsOwCfg_tp_org_en :: setter where
  "DpuBsOwCfg_tp_org_en = field_setter 1 0x08000000 27"

definition DpuBsOwCfg_rgp_cnter :: setter where
  "DpuBsOwCfg_rgp_cnter = field_setter 4 0xf0000000 28"

definition DpuBsOwOp :: register_meta where
  "DpuBsOwOp = \<lparr>reg_domain = DOMAIN_DPU, reg_offset = 0x4054\<rparr>"

definition DpuBsOwOp_ow_op :: setter where
  "DpuBsOwOp_ow_op = field_setter 16 0x0000ffff 0"

definition DpuWdmaSize0 :: register_meta where
  "DpuWdmaSize0 = \<lparr>reg_domain = DOMAIN_DPU, reg_offset = 0x4058\<rparr>"

definition DpuWdmaSize0_channel_wdma :: setter where
  "DpuWdmaSize0_channel_wdma = field_setter 13 0x00001fff 0"

definition DpuWdmaSize0_size_c_wdma :: setter where
  "DpuWdmaSize0_size_c_wdma = field_setter 11 0x07ff0000 16"

definition DpuWdmaSize0_tp_precision :: setter where
  "DpuWdmaSize0_tp_precision = field_setter 1 0x08000000 27"

definition DpuWdmaSize1 :: register_meta where
  "DpuWdmaSize1 = \<lparr>reg_domain = DOMAIN_DPU, reg_offset = 0x405c\<rparr>"

definition DpuWdmaSize1_width_wdma :: setter where
  "DpuWdmaSize1_width_wdma = field_setter 13 0x00001fff 0"

definition DpuWdmaSize1_height_wdma :: setter where
  "DpuWdmaSize1_height_wdma = field_setter 13 0x1fff0000 16"

definition DpuBnCfg :: register_meta where
  "DpuBnCfg = \<lparr>reg_domain = DOMAIN_DPU, reg_offset = 0x4060\<rparr>"

definition DpuBnCfg_bn_bypass :: setter where
  "DpuBnCfg_bn_bypass = field_setter 1 0x00000001 0"

definition DpuBnCfg_bn_alu_bypass :: setter where
  "DpuBnCfg_bn_alu_bypass = field_setter 1 0x00000002 1"

definition DpuBnCfg_bn_mul_bypass :: setter where
  "DpuBnCfg_bn_mul_bypass = field_setter 1 0x00000010 4"

definition DpuBnCfg_bn_mul_prelu :: setter where
  "DpuBnCfg_bn_mul_prelu = field_setter 1 0x00000020 5"

definition DpuBnCfg_bn_relu_bypass :: setter where
  "DpuBnCfg_bn_relu_bypass = field_setter 1 0x00000040 6"

definition DpuBnCfg_bn_relux_en :: setter where
  "DpuBnCfg_bn_relux_en = field_setter 1 0x00000080 7"

definition DpuBnCfg_bn_alu_src :: setter where
  "DpuBnCfg_bn_alu_src = field_setter 1 0x00000100 8"

definition DpuBnCfg_bn_alu_algo :: setter where
  "DpuBnCfg_bn_alu_algo = field_setter 4 0x000f0000 16"

definition DpuBnAluCfg :: register_meta where
  "DpuBnAluCfg = \<lparr>reg_domain = DOMAIN_DPU, reg_offset = 0x4064\<rparr>"

definition DpuBnAluCfg_bn_alu_operand :: setter where
  "DpuBnAluCfg_bn_alu_operand = field_setter 32 0xffffffff 0"

definition DpuBnMulCfg :: register_meta where
  "DpuBnMulCfg = \<lparr>reg_domain = DOMAIN_DPU, reg_offset = 0x4068\<rparr>"

definition DpuBnMulCfg_bn_mul_src :: setter where
  "DpuBnMulCfg_bn_mul_src = field_setter 1 0x00000001 0"

definition DpuBnMulCfg_bn_truncate_src :: setter where
  "DpuBnMulCfg_bn_truncate_src = field_setter 1 0x00000002 1"

definition DpuBnMulCfg_bn_mul_shift_value :: setter where
  "DpuBnMulCfg_bn_mul_shift_value = field_setter 6 0x00003f00 8"

definition DpuBnMulCfg_bn_mul_operand :: setter where
  "DpuBnMulCfg_bn_mul_operand = field_setter 16 0xffff0000 16"

definition DpuBnReluxCmpValue :: register_meta where
  "DpuBnReluxCmpValue = \<lparr>reg_domain = DOMAIN_DPU, reg_offset = 0x406c\<rparr>"

definition DpuBnReluxCmpValue_bn_relux_cmp_dat :: setter where
  "DpuBnReluxCmpValue_bn_relux_cmp_dat = field_setter 32 0xffffffff 0"

definition DpuEwCfg :: register_meta where
  "DpuEwCfg = \<lparr>reg_domain = DOMAIN_DPU, reg_offset = 0x4070\<rparr>"

definition DpuEwCfg_ew_bypass :: setter where
  "DpuEwCfg_ew_bypass = field_setter 1 0x00000001 0"

definition DpuEwCfg_ew_op_bypass :: setter where
  "DpuEwCfg_ew_op_bypass = field_setter 1 0x00000002 1"

definition DpuEwCfg_ew_op_type :: setter where
  "DpuEwCfg_ew_op_type = field_setter 1 0x00000004 2"

definition DpuEwCfg_ew_mul_prelu :: setter where
  "DpuEwCfg_ew_mul_prelu = field_setter 1 0x00000020 5"

definition DpuEwCfg_ew_op_src :: setter where
  "DpuEwCfg_ew_op_src = field_setter 1 0x00000040 6"

definition DpuEwCfg_ew_lut_bypass :: setter where
  "DpuEwCfg_ew_lut_bypass = field_setter 1 0x00000080 7"

definition DpuEwCfg_ew_op_cvt_bypass :: setter where
  "DpuEwCfg_ew_op_cvt_bypass = field_setter 1 0x00000100 8"

definition DpuEwCfg_ew_relu_bypass :: setter where
  "DpuEwCfg_ew_relu_bypass = field_setter 1 0x00000200 9"

definition DpuEwCfg_ew_relux_en :: setter where
  "DpuEwCfg_ew_relux_en = field_setter 1 0x00000400 10"

definition DpuEwCfg_ew_alu_algo :: setter where
  "DpuEwCfg_ew_alu_algo = field_setter 4 0x000f0000 16"

definition DpuEwCfg_ew_binary_en :: setter where
  "DpuEwCfg_ew_binary_en = field_setter 1 0x00100000 20"

definition DpuEwCfg_ew_equal_en :: setter where
  "DpuEwCfg_ew_equal_en = field_setter 1 0x00200000 21"

definition DpuEwCfg_edata_size :: setter where
  "DpuEwCfg_edata_size = field_setter 2 0x00c00000 22"

definition DpuEwCfg_ew_data_mode :: setter where
  "DpuEwCfg_ew_data_mode = field_setter 2 0x30000000 28"

definition DpuEwCfg_ew_cvt_round :: setter where
  "DpuEwCfg_ew_cvt_round = field_setter 1 0x40000000 30"

definition DpuEwCfg_ew_cvt_type :: setter where
  "DpuEwCfg_ew_cvt_type = field_setter 1 0x80000000 31"

definition DpuEwCvtOffsetValue :: register_meta where
  "DpuEwCvtOffsetValue = \<lparr>reg_domain = DOMAIN_DPU, reg_offset = 0x4074\<rparr>"

definition DpuEwCvtOffsetValue_ew_op_cvt_offset :: setter where
  "DpuEwCvtOffsetValue_ew_op_cvt_offset = field_setter 32 0xffffffff 0"

definition DpuEwCvtScaleValue :: register_meta where
  "DpuEwCvtScaleValue = \<lparr>reg_domain = DOMAIN_DPU, reg_offset = 0x4078\<rparr>"

definition DpuEwCvtScaleValue_ew_op_cvt_scale :: setter where
  "DpuEwCvtScaleValue_ew_op_cvt_scale = field_setter 16 0x0000ffff 0"

definition DpuEwCvtScaleValue_ew_op_cvt_shift :: setter where
  "DpuEwCvtScaleValue_ew_op_cvt_shift = field_setter 6 0x003f0000 16"

definition DpuEwCvtScaleValue_ew_truncate :: setter where
  "DpuEwCvtScaleValue_ew_truncate = field_setter 10 0xffc00000 22"

definition DpuEwReluxCmpValue :: register_meta where
  "DpuEwReluxCmpValue = \<lparr>reg_domain = DOMAIN_DPU, reg_offset = 0x407c\<rparr>"

definition DpuEwReluxCmpValue_ew_relux_cmp_dat :: setter where
  "DpuEwReluxCmpValue_ew_relux_cmp_dat = field_setter 32 0xffffffff 0"

definition DpuOutCvtOffset :: register_meta where
  "DpuOutCvtOffset = \<lparr>reg_domain = DOMAIN_DPU, reg_offset = 0x4080\<rparr>"

definition DpuOutCvtOffset_out_cvt_offset :: setter where
  "DpuOutCvtOffset_out_cvt_offset = field_setter 32 0xffffffff 0"

definition DpuOutCvtScale :: register_meta where
  "DpuOutCvtScale = \<lparr>reg_domain = DOMAIN_DPU, reg_offset = 0x4084\<rparr>"

definition DpuOutCvtScale_out_cvt_scale :: setter where
  "DpuOutCvtScale_out_cvt_scale = field_setter 16 0x0000ffff 0"

definition DpuOutCvtScale_fp32tofp16_en :: setter where
  "DpuOutCvtScale_fp32tofp16_en = field_setter 1 0x00010000 16"

definition DpuOutCvtShift :: register_meta where
  "DpuOutCvtShift = \<lparr>reg_domain = DOMAIN_DPU, reg_offset = 0x4088\<rparr>"

definition DpuOutCvtShift_out_cvt_shift :: setter where
  "DpuOutCvtShift_out_cvt_shift = field_setter 12 0x00000fff 0"

definition DpuOutCvtShift_minus_exp :: setter where
  "DpuOutCvtShift_minus_exp = field_setter 8 0x000ff000 12"

definition DpuOutCvtShift_cvt_round :: setter where
  "DpuOutCvtShift_cvt_round = field_setter 1 0x40000000 30"

definition DpuOutCvtShift_cvt_type :: setter where
  "DpuOutCvtShift_cvt_type = field_setter 1 0x80000000 31"

definition DpuSurfaceAdd :: register_meta where
  "DpuSurfaceAdd = \<lparr>reg_domain = DOMAIN_DPU, reg_offset = 0x40c0\<rparr>"

definition DpuSurfaceAdd_surf_add :: setter where
  "DpuSurfaceAdd_surf_add = field_setter 28 0xfffffff0 4"

definition DpuReserved40c4 :: register_meta where
  "DpuReserved40c4 = \<lparr>reg_domain = DOMAIN_DPU, reg_offset = 0x40c4\<rparr>"

definition DpuLutAccessCfg :: register_meta where
  "DpuLutAccessCfg = \<lparr>reg_domain = DOMAIN_DPU, reg_offset = 0x4100\<rparr>"

definition DpuLutAccessCfg_lut_addr :: setter where
  "DpuLutAccessCfg_lut_addr = field_setter 10 0x000003ff 0"

definition DpuLutAccessCfg_lut_table_id :: setter where
  "DpuLutAccessCfg_lut_table_id = field_setter 1 0x00010000 16"

definition DpuLutAccessCfg_lut_access_type :: setter where
  "DpuLutAccessCfg_lut_access_type = field_setter 1 0x00020000 17"

definition DpuLutAccessData :: register_meta where
  "DpuLutAccessData = \<lparr>reg_domain = DOMAIN_DPU, reg_offset = 0x4104\<rparr>"

definition DpuLutAccessData_lut_access_data :: setter where
  "DpuLutAccessData_lut_access_data = field_setter 16 0x0000ffff 0"

definition DpuLutCfg :: register_meta where
  "DpuLutCfg = \<lparr>reg_domain = DOMAIN_DPU, reg_offset = 0x4108\<rparr>"

definition DpuLutCfg_lut_road_sel :: setter where
  "DpuLutCfg_lut_road_sel = field_setter 1 0x00000001 0"

definition DpuLutCfg_lut_expand_en :: setter where
  "DpuLutCfg_lut_expand_en = field_setter 1 0x00000002 1"

definition DpuLutCfg_lut_lo_le_mux :: setter where
  "DpuLutCfg_lut_lo_le_mux = field_setter 2 0x0000000c 2"

definition DpuLutCfg_lut_uflow_priority :: setter where
  "DpuLutCfg_lut_uflow_priority = field_setter 1 0x00000010 4"

definition DpuLutCfg_lut_oflow_priority :: setter where
  "DpuLutCfg_lut_oflow_priority = field_setter 1 0x00000020 5"

definition DpuLutCfg_lut_hybrid_priority :: setter where
  "DpuLutCfg_lut_hybrid_priority = field_setter 1 0x00000040 6"

definition DpuLutCfg_lut_cal_sel :: setter where
  "DpuLutCfg_lut_cal_sel = field_setter 1 0x00000080 7"

definition DpuLutInfo :: register_meta where
  "DpuLutInfo = \<lparr>reg_domain = DOMAIN_DPU, reg_offset = 0x410c\<rparr>"

definition DpuLutInfo_lut_le_index_select :: setter where
  "DpuLutInfo_lut_le_index_select = field_setter 8 0x0000ff00 8"

definition DpuLutInfo_lut_lo_index_select :: setter where
  "DpuLutInfo_lut_lo_index_select = field_setter 8 0x00ff0000 16"

definition DpuLutLeStart :: register_meta where
  "DpuLutLeStart = \<lparr>reg_domain = DOMAIN_DPU, reg_offset = 0x4110\<rparr>"

definition DpuLutLeStart_lut_le_start :: setter where
  "DpuLutLeStart_lut_le_start = field_setter 32 0xffffffff 0"

definition DpuLutLeEnd :: register_meta where
  "DpuLutLeEnd = \<lparr>reg_domain = DOMAIN_DPU, reg_offset = 0x4114\<rparr>"

definition DpuLutLeEnd_lut_le_end :: setter where
  "DpuLutLeEnd_lut_le_end = field_setter 32 0xffffffff 0"

definition DpuLutLoStart :: register_meta where
  "DpuLutLoStart = \<lparr>reg_domain = DOMAIN_DPU, reg_offset = 0x4118\<rparr>"

definition DpuLutLoStart_lut_lo_start :: setter where
  "DpuLutLoStart_lut_lo_start = field_setter 32 0xffffffff 0"

definition DpuLutLoEnd :: register_meta where
  "DpuLutLoEnd = \<lparr>reg_domain = DOMAIN_DPU, reg_offset = 0x411c\<rparr>"

definition DpuLutLoEnd_lut_lo_end :: setter where
  "DpuLutLoEnd_lut_lo_end = field_setter 32 0xffffffff 0"

definition DpuLutLeSlopeScale :: register_meta where
  "DpuLutLeSlopeScale = \<lparr>reg_domain = DOMAIN_DPU, reg_offset = 0x4120\<rparr>"

definition DpuLutLeSlopeScale_lut_le_slope_uflow_scale :: setter where
  "DpuLutLeSlopeScale_lut_le_slope_uflow_scale = field_setter 16 0x0000ffff 0"

definition DpuLutLeSlopeScale_lut_le_slope_oflow_scale :: setter where
  "DpuLutLeSlopeScale_lut_le_slope_oflow_scale = field_setter 16 0xffff0000 16"

definition DpuLutLeSlopeShift :: register_meta where
  "DpuLutLeSlopeShift = \<lparr>reg_domain = DOMAIN_DPU, reg_offset = 0x4124\<rparr>"

definition DpuLutLeSlopeShift_lut_le_slope_uflow_shift :: setter where
  "DpuLutLeSlopeShift_lut_le_slope_uflow_shift = field_setter 5 0x0000001f 0"

definition DpuLutLeSlopeShift_lut_le_slope_oflow_shift :: setter where
  "DpuLutLeSlopeShift_lut_le_slope_oflow_shift = field_setter 5 0x000003e0 5"

definition DpuLutLoSlopeScale :: register_meta where
  "DpuLutLoSlopeScale = \<lparr>reg_domain = DOMAIN_DPU, reg_offset = 0x4128\<rparr>"

definition DpuLutLoSlopeScale_lut_lo_slope_uflow_scale :: setter where
  "DpuLutLoSlopeScale_lut_lo_slope_uflow_scale = field_setter 16 0x0000ffff 0"

definition DpuLutLoSlopeScale_lut_lo_slope_oflow_scale :: setter where
  "DpuLutLoSlopeScale_lut_lo_slope_oflow_scale = field_setter 16 0xffff0000 16"

definition DpuLutLoSlopeShift :: register_meta where
  "DpuLutLoSlopeShift = \<lparr>reg_domain = DOMAIN_DPU, reg_offset = 0x412c\<rparr>"

definition DpuLutLoSlopeShift_lut_lo_slope_uflow_shift :: setter where
  "DpuLutLoSlopeShift_lut_lo_slope_uflow_shift = field_setter 5 0x0000001f 0"

definition DpuLutLoSlopeShift_lut_lo_slope_oflow_shift :: setter where
  "DpuLutLoSlopeShift_lut_lo_slope_oflow_shift = field_setter 5 0x000003e0 5"

definition DpuEwOpValue0 :: register_meta where
  "DpuEwOpValue0 = \<lparr>reg_domain = DOMAIN_DPU, reg_offset = 0x4090\<rparr>"

definition DpuEwOpValue0_ew_operand :: setter where
  "DpuEwOpValue0_ew_operand = field_setter 32 0xffffffff 0"

definition DpuEwOpValue1 :: register_meta where
  "DpuEwOpValue1 = \<lparr>reg_domain = DOMAIN_DPU, reg_offset = 0x4094\<rparr>"

definition DpuEwOpValue1_ew_operand :: setter where
  "DpuEwOpValue1_ew_operand = field_setter 32 0xffffffff 0"

definition DpuEwOpValue2 :: register_meta where
  "DpuEwOpValue2 = \<lparr>reg_domain = DOMAIN_DPU, reg_offset = 0x4098\<rparr>"

definition DpuEwOpValue2_ew_operand :: setter where
  "DpuEwOpValue2_ew_operand = field_setter 32 0xffffffff 0"

definition DpuEwOpValue3 :: register_meta where
  "DpuEwOpValue3 = \<lparr>reg_domain = DOMAIN_DPU, reg_offset = 0x409c\<rparr>"

definition DpuEwOpValue3_ew_operand :: setter where
  "DpuEwOpValue3_ew_operand = field_setter 32 0xffffffff 0"

definition DpuEwOpValue4 :: register_meta where
  "DpuEwOpValue4 = \<lparr>reg_domain = DOMAIN_DPU, reg_offset = 0x40a0\<rparr>"

definition DpuEwOpValue4_ew_operand :: setter where
  "DpuEwOpValue4_ew_operand = field_setter 32 0xffffffff 0"

definition DpuEwOpValue5 :: register_meta where
  "DpuEwOpValue5 = \<lparr>reg_domain = DOMAIN_DPU, reg_offset = 0x40a4\<rparr>"

definition DpuEwOpValue5_ew_operand :: setter where
  "DpuEwOpValue5_ew_operand = field_setter 32 0xffffffff 0"

definition DpuEwOpValue6 :: register_meta where
  "DpuEwOpValue6 = \<lparr>reg_domain = DOMAIN_DPU, reg_offset = 0x40a8\<rparr>"

definition DpuEwOpValue6_ew_operand :: setter where
  "DpuEwOpValue6_ew_operand = field_setter 32 0xffffffff 0"

definition DpuEwOpValue7 :: register_meta where
  "DpuEwOpValue7 = \<lparr>reg_domain = DOMAIN_DPU, reg_offset = 0x40ac\<rparr>"

definition DpuEwOpValue7_ew_operand :: setter where
  "DpuEwOpValue7_ew_operand = field_setter 32 0xffffffff 0"

text \<open>Every register of the block with its setters, their widths and shifts.\<close>

definition dpu_block :: "(register_meta \<times> (setter \<times> nat \<times> nat) list) list" where
  "dpu_block =
     [(DpuSStatus, [
        (DpuSStatus_status_0, 2, 0), (DpuSStatus_status_1, 2, 16)]),
      (DpuSPointer, [
        (DpuSPointer_pointer, 1, 0), (DpuSPointer_pointer_pp_en, 1, 1),
        (DpuSPointer_executer_pp_en, 1, 2), (DpuSPointer_pointer_pp_mode, 1, 3),
        (DpuSPointer_pointer_pp_clear, 1, 4), (DpuSPointer_executer_pp_clear, 1, 5),
        (DpuSPointer_executer, 1, 16)]),
      (DpuOperationEnable, [
        (DpuOperationEnable_op_en, 1, 0)]),
      (DpuFeatureModeCfg, [
        (DpuFeatureModeCfg_flying_mode, 1, 0), (DpuFeatureModeCfg_output_mode, 2, 1),
        (DpuFeatureModeCfg_conv_mode, 2, 3), (DpuFeatureModeCfg_burst_len, 4, 5),
        (DpuFeatureModeCfg_surf_len, 16, 9), (DpuFeatureModeCfg_nonalign, 1, 25),
        (DpuFeatureModeCfg_rgp_type, 4, 26), (DpuFeatureModeCfg_tp_en, 1, 30),
        (DpuFeatureModeCfg_comb_use, 1, 31)]),
      (DpuDataFormat, [
        (DpuDataFormat_proc_precision, 3, 0), (DpuDataFormat_mc_surf_out, 1, 3),
        (DpuDataFormat_bs_mul_shift_value_neg, 6, 4),
        (DpuDataFormat_bn_mul_shift_value_neg, 6, 10), (DpuDataFormat_ew_truncate_neg, 10, 16),
        (DpuDataFormat_in_precision, 3, 26), (DpuDataFormat_out_precision, 3, 29)]),
      (DpuOffsetPend, [
        (DpuOffsetPend_offset_pend, 16, 0)]),
      (DpuDstBaseAddr, [
        (DpuDstBaseAddr_dst_base_addr, 32, 0)]),
      (DpuDstSurfStride, [
        (DpuDstSurfStride_dst_surf_stride, 28, 4)]),
      (DpuDataCubeWidth, [
        (DpuDataCubeWidth_width, 13, 0)]),
      (DpuDataCubeHeight, [
        (DpuDataCubeHeight_height, 13, 0), (DpuDataCubeHeight_minmax_ctl, 3, 22)]),
      (DpuDataCubeNotchAddr, [
        (DpuDataCubeNotchAddr_notch_addr_0, 13, 0), (DpuDataCubeNotchAddr_notch_addr_1, 13, 16)]),
      (DpuDataCubeChannel, [
        (DpuDataCubeChannel_channel, 13, 0), (DpuDataCubeChannel_orig_channel, 13, 16)]),
      (DpuBsCfg, [
        (DpuBsCfg_bs_bypass, 1, 0), (DpuBsCfg_bs_alu_bypass, 1, 1),
        (DpuBsCfg_bs_mul_bypass, 1, 4), (DpuBsCfg_bs_mul_prelu, 1, 5),
        (DpuBsCfg_bs_relu_bypass, 1, 6), (DpuBsCfg_bs_relux_en, 1, 7),
        (DpuBsCfg_bs_alu_src, 1, 8), (DpuBsCfg_bs_alu_algo, 4, 16)]),
      (DpuBsAluCfg, [
        (DpuBsAluCfg_bs_alu_operand, 32, 0)]),
      (DpuBsMulCfg, [
        (DpuBsMulCfg_bs_mul_src, 1, 0), (DpuBsMulCfg_bs_truncate_src, 1, 1),
        (DpuBsMulCfg_bs_mul_shift_value, 6, 8), (DpuBsMulCfg_bs_mul_operand, 16, 16)]),
      (DpuBsReluxCmpValue, [
        (DpuBsReluxCmpValue_bs_relux_cmp_dat, 32, 0)]),
      (DpuBsOwCfg, [
        (DpuBsOwCfg_ow_src, 1, 0), (DpuBsOwCfg_od_bypass, 1, 1), (DpuBsOwCfg_size_e_0, 3, 2),
        (DpuBsOwCfg_size_e_1, 3, 5), (DpuBsOwCfg_size_e_2, 3, 8), (DpuBsOwCfg_tp_org_en, 1, 27),
        (DpuBsOwCfg_rgp_cnter, 4, 28)]),
      (DpuBsOwOp, [
        (DpuBsOwOp_ow_op, 16, 0)]),
      (DpuWdmaSize0, [
        (DpuWdmaSize0_channel_wdma, 13, 0), (DpuWdmaSize0_size_c_wdma, 11, 16),
        (DpuWdmaSize0_tp_precision, 1, 27)]),
      (DpuWdmaSize1, [
        (DpuWdmaSize1_width_wdma, 13, 0), (DpuWdmaSize1_height_wdma, 13, 16)]),
      (DpuBnCfg, [
        (DpuBnCfg_bn_bypass, 1, 0), (DpuBnCfg_bn_alu_bypass, 1, 1),
        (DpuBnCfg_bn_mul_bypass, 1, 4), (DpuBnCfg_bn_mul_prelu, 1, 5),
        (DpuBnCfg_bn_relu_bypass, 1, 6), (DpuBnCfg_bn_relux_en, 1, 7),
        (DpuBnCfg_bn_alu_src, 1, 8), (DpuBnCfg_bn_alu_algo, 4, 16)]),
      (DpuBnAluCfg, [
        (DpuBnAluCfg_bn_alu_operand, 32, 0)]),
      (DpuBnMulCfg, [
        (DpuBnMulCfg_bn_mul_src, 1, 0), (DpuBnMulCfg_bn_truncate_src, 1, 1),
        (DpuBnMulCfg_bn_mul_shift_value, 6, 8), (DpuBnMulCfg_bn_mul_operand, 16, 16)]),
      (DpuBnReluxCmpValue, [
        (DpuBnReluxCmpValue_bn_relux_cmp_dat, 32, 0)]),
      (DpuEwCfg, [
        (DpuEwCfg_ew_bypass, 1, 0), (DpuEwCfg_ew_op_bypass, 1, 1), (DpuEwCfg_ew_op_type, 1, 2),
        (DpuEwCfg_ew_mul_prelu, 1, 5), (DpuEwCfg_ew_op_src, 1, 6),
        (DpuEwCfg_ew_lut_bypass, 1, 7), (DpuEwCfg_ew_op_cvt_bypass, 1, 8),
        (DpuEwCfg_ew_relu_bypass, 1, 9), (DpuEwCfg_ew_relux_en, 1, 10),
        (DpuEwCfg_ew_alu_algo, 4, 16), (DpuEwCfg_ew_binary_en, 1, 20),
        (DpuEwCfg_ew_equal_en, 1, 21), (DpuEwCfg_edata_size, 2, 22),
        (DpuEwCfg_ew_data_mode, 2, 28), (DpuEwCfg_ew_cvt_round, 1, 30),
        (DpuEwCfg_ew_cvt_type, 1, 31)]),
      (DpuEwCvtOffsetValue, [
        (DpuEwCvtOffsetValue_ew_op_cvt_offset, 32, 0)]),
      (DpuEwCvtScaleValue, [
        (DpuEwCvtScaleValue_ew_op_cvt_scale, 16, 0), (DpuEwCvtScaleValue_ew_op_cvt_shift, 6, 16),
        (DpuEwCvtScaleValue_ew_truncate, 10, 22)]),
      (DpuEwReluxCmpValue, [
        (DpuEwReluxCmpValue_ew_relux_cmp_dat, 32, 0)]),
      (DpuOutCvtOffset, [
        (DpuOutCvtOffset_out_cvt_offset, 32, 0)]),
      (DpuOutCvtScale, [
        (DpuOutCvtScale_out_cvt_scale, 16, 0), (DpuOutCvtScale_fp32tofp16_en, 1, 16)]),
      (DpuOutCvtShift, [
        (DpuOutCvtShift_out_cvt_shift, 12, 0), (DpuOutCvtShift_minus_exp, 8, 12),
        (DpuOutCvtShift_cvt_round, 1, 30), (DpuOutCvtShift_cvt_type, 1, 31)]),
      (DpuSurfaceAdd, [
        (DpuSurfaceAdd_surf_add, 28, 4)]),
      (DpuReserved40c4, []),
      (DpuLutAccessCfg, [
        (DpuLutAccessCfg_lut_addr, 10, 0), (DpuLutAccessCfg_lut_table_id, 1, 16),
        (DpuLutAccessCfg_lut_access_type, 1, 17)]),
      (DpuLutAccessData, [
        (DpuLutAccessData_lut_access_data, 16, 0)]),
      (DpuLutCfg, [
        (DpuLutCfg_lut_road_sel, 1, 0), (DpuLutCfg_lut_expand_en, 1, 1),
        (DpuLutCfg_lut_lo_le_mux, 2, 2), (DpuLutCfg_lut_uflow_priority, 1, 4),
        (DpuLutCfg_lut_oflow_priority, 1, 5), (DpuLutCfg_lut_hybrid_priority, 1, 6),
        (DpuLutCfg_lut_cal_sel, 1, 7)]),
      (DpuLutInfo, [
        (DpuLutInfo_lut_le_index_select, 8, 8), (DpuLutInfo_lut_lo_index_select, 8, 16)]),
      (DpuLutLeStart, [
        (DpuLutLeStart_lut_le_start, 32, 0)]),
      (DpuLutLeEnd, [
        (DpuLutLeEnd_lut_le_end, 32, 0)]),
      (DpuLutLoStart, [
        (DpuLutLoStart_lut_lo_start, 32, 0)]),
      (DpuLutLoEnd, [
        (DpuLutLoEnd_lut_lo_end, 32, 0)]),
      (DpuLutLeSlopeScale, [
        (DpuLutLeSlopeScale_lut_le_slope_uflow_scale, 16, 0),
        (DpuLutLeSlopeScale_lut_le_slope_oflow_scale, 16, 16)]),
      (DpuLutLeSlopeShift, [
        (DpuLutLeSlopeShift_lut_le_slope_uflow_shift, 5, 0),
        (DpuLutLeSlopeShift_lut_le_slope_oflow_shift, 5, 5)]),
      (DpuLutLoSlopeScale, [
        (DpuLutLoSlopeScale_lut_lo_slope_uflow_scale, 16, 0),
        (DpuLutLoSlopeScale_lut_lo_slope_oflow_scale, 16, 16)]),
      (DpuLutLoSlopeShift, [
        (DpuLutLoSlopeShift_lut_lo_slope_uflow_shift, 5, 0),
        (DpuLutLoSlopeShift_lut_lo_slope_oflow_shift, 5, 5)]),
      (DpuEwOpValue0, [
        (DpuEwOpValue0_ew_operand, 32, 0)]),
      (DpuEwOpValue1, [
        (DpuEwOpValue1_ew_operand, 32, 0)]),
      (DpuEwOpValue2, [
        (DpuEwOpValue2_ew_operand, 32, 0)]),
      (DpuEwOpValue3, [
        (DpuEwOpValue3_ew_operand, 32, 0)]),
      (DpuEwOpValue4, [
        (DpuEwOpValue4_ew_operand, 32, 0)]),
      (DpuEwOpValue5, [
        (DpuEwOpValue5_ew_operand, 32, 0)]),
      (DpuEwOpValue6, [
        (DpuEwOpValue6_ew_operand, 32, 0)]),
      (DpuEwOpValue7, [
        (DpuEwOpValue7_ew_operand, 32, 0)])]"

lemmas dpu_block_registers =
  DpuSStatus_def DpuSPointer_def DpuOperationEnable_def DpuFeatureModeCfg_def DpuDataFormat_def
  DpuOffsetPend_def DpuDstBaseAddr_def DpuDstSurfStride_def DpuDataCubeWidth_def
  DpuDataCubeHeight_def DpuDataCubeNotchAddr_def DpuDataCubeChannel_def DpuBsCfg_def
  DpuBsAluCfg_def DpuBsMulCfg_def DpuBsReluxCmpValue_def DpuBsOwCfg_def DpuBsOwOp_def
  DpuWdmaSize0_def DpuWdmaSize1_def DpuBnCfg_def DpuBnAluCfg_def DpuBnMulCfg_def
  DpuBnReluxCmpValue_def DpuEwCfg_def DpuEwCvtOffsetValue_def DpuEwCvtScaleValue_def
  DpuEwReluxCmpValue_def DpuOutCvtOffset_def DpuOutCvtScale_def DpuOutCvtShift_def
  DpuSurfaceAdd_def DpuReserved40c4_def DpuLutAccessCfg_def DpuLutAccessData_def DpuLutCfg_def
  DpuLutInfo_def DpuLutLeStart_def DpuLutLeEnd_def DpuLutLoStart_def DpuLutLoEnd_def
  DpuLutLeSlopeScale_def DpuLutLeSlopeShift_def DpuLutLoSlopeScale_def DpuLutLoSlopeShift_def
  DpuEwOpValue0_def DpuEwOpValue1_def DpuEwOpValue2_def DpuEwOpValue3_def DpuEwOpValue4_def
  DpuEwOpValue5_def DpuEwOpValue6_def DpuEwOpValue7_def

lemmas dpu_block_setters =
  DpuSStatus_status_0_def DpuSStatus_status_1_def DpuSPointer_pointer_def
  DpuSPointer_pointer_pp_en_def DpuSPointer_executer_pp_en_def DpuSPointer_pointer_pp_mode_def
  DpuSPointer_pointer_pp_clear_def DpuSPointer_executer_pp_clear_def DpuSPointer_executer_def
  DpuOperationEnable_op_en_def DpuFeatureModeCfg_flying_mode_def
  DpuFeatureModeCfg_output_mode_def DpuFeatureModeCfg_conv_mode_def
  DpuFeatureModeCfg_burst_len_def DpuFeatureModeCfg_surf_len_def DpuFeatureModeCfg_nonalign_def
  DpuFeatureModeCfg_rgp_type_def DpuFeatureModeCfg_tp_en_def DpuFeatureModeCfg_comb_use_def
  DpuDataFormat_proc_precision_def DpuDataFormat_mc_surf_out_def
  DpuDataFormat_bs_mul_shift_value_neg_def DpuDataFormat_bn_mul_shift_value_neg_def
  DpuDataFormat_ew_truncate_neg_def DpuDataFormat_in_precision_def
  DpuDataFormat_out_precision_def DpuOffsetPend_offset_pend_def DpuDstBaseAddr_dst_base_addr_def
  DpuDstSurfStride_dst_surf_stride_def DpuDataCubeWidth_width_def DpuDataCubeHeight_height_def
  DpuDataCubeHeight_minmax_ctl_def DpuDataCubeNotchAddr_notch_addr_0_def
  DpuDataCubeNotchAddr_notch_addr_1_def DpuDataCubeChannel_channel_def
  DpuDataCubeChannel_orig_channel_def DpuBsCfg_bs_bypass_def DpuBsCfg_bs_alu_bypass_def
  DpuBsCfg_bs_mul_bypass_def DpuBsCfg_bs_mul_prelu_def DpuBsCfg_bs_relu_bypass_def
  DpuBsCfg_bs_relux_en_def DpuBsCfg_bs_alu_src_def DpuBsCfg_bs_alu_algo_def
  DpuBsAluCfg_bs_alu_operand_def DpuBsMulCfg_bs_mul_src_def DpuBsMulCfg_bs_truncate_src_def
  DpuBsMulCfg_bs_mul_shift_value_def DpuBsMulCfg_bs_mul_operand_def
  DpuBsReluxCmpValue_bs_relux_cmp_dat_def DpuBsOwCfg_ow_src_def DpuBsOwCfg_od_bypass_def
  DpuBsOwCfg_size_e_0_def DpuBsOwCfg_size_e_1_def DpuBsOwCfg_size_e_2_def
  DpuBsOwCfg_tp_org_en_def DpuBsOwCfg_rgp_cnter_def DpuBsOwOp_ow_op_def
  DpuWdmaSize0_channel_wdma_def DpuWdmaSize0_size_c_wdma_def DpuWdmaSize0_tp_precision_def
  DpuWdmaSize1_width_wdma_def DpuWdmaSize1_height_wdma_def DpuBnCfg_bn_bypass_def
  DpuBnCfg_bn_alu_bypass_def DpuBnCfg_bn_mul_bypass_def DpuBnCfg_bn_mul_prelu_def
  DpuBnCfg_bn_relu_bypass_def DpuBnCfg_bn_relux_en_def DpuBnCfg_bn_alu_src_def
  DpuBnCfg_bn_alu_algo_def DpuBnAluCfg_bn_alu_operand_def DpuBnMulCfg_bn_mul_src_def
  DpuBnMulCfg_bn_truncate_src_def DpuBnMulCfg_bn_mul_shift_value_def
  DpuBnMulCfg_bn_mul_operand_def DpuBnReluxCmpValue_bn_relux_cmp_dat_def DpuEwCfg_ew_bypass_def
  DpuEwCfg_ew_op_bypass_def DpuEwCfg_ew_op_type_def DpuEwCfg_ew_mul_prelu_def
  DpuEwCfg_ew_op_src_def DpuEwCfg_ew_lut_bypass_def DpuEwCfg_ew_op_cvt_bypass_def
  DpuEwCfg_ew_relu_bypass_def DpuEwCfg_ew_relux_en_def DpuEwCfg_ew_alu_algo_def
  DpuEwCfg_ew_binary_en_def DpuEwCfg_ew_equal_en_def DpuEwCfg_edata_size_def
  DpuEwCfg_ew_data_mode_def DpuEwCfg_ew_cvt_round_def DpuEwCfg_ew_cvt_type_def
  DpuEwCvtOffsetValue_ew_op_cvt_offset_def DpuEwCvtScaleValue_ew_op_cvt_scale_def
  DpuEwCvtScaleValue_ew_op_cvt_shift_def DpuEwCvtScaleValue_ew_truncate_def
  DpuEwReluxCmpValue_ew_relux_cmp_dat_def DpuOutCvtOffset_out_cvt_offset_def
  DpuOutCvtScale_out_cvt_scale_def DpuOutCvtScale_fp32tofp16_en_def
  DpuOutCvtShift_out_cvt_shift_def DpuOutCvtShift_minus_exp_def DpuOutCvtShift_cvt_round_def
  DpuOutCvtShift_cvt_type_def DpuSurfaceAdd_surf_add_def DpuLutAccessCfg_lut_addr_def
  DpuLutAccessCfg_lut_table_id_def DpuLutAccessCfg_lut_access_type_def
  DpuLutAccessData_lut_access_data_def DpuLutCfg_lut_road_sel_def DpuLutCfg_lut_expand_en_def
  DpuLutCfg_lut_lo_le_mux_def DpuLutCfg_lut_uflow_priority_def DpuLutCfg_lut_oflow_priority_def
  DpuLutCfg_lut_hybrid_priority_def DpuLutCfg_lut_cal_sel_def DpuLutInfo_lut_le_index_select_def
  DpuLutInfo_lut_lo_index_select_def DpuLutLeStart_lut_le_start_def DpuLutLeEnd_lut_le_end_def
  DpuLutLoStart_lut_lo_start_def DpuLutLoEnd_lut_lo_end_def
  DpuLutLeSlopeScale_lut_le_slope_uflow_scale_def DpuLutLeSlopeScale_lut_le_slope_oflow_scale_def
  DpuLutLeSlopeShift_lut_le_slope_uflow_shift_def DpuLutLeSlopeShift_lut_le_slope_oflow_shift_def
  DpuLutLoSlopeScale_lut_lo_slope_uflow_scale_def DpuLutLoSlopeScale_lut_lo_slope_oflow_scale_def
  DpuLutLoSlopeShift_lut_lo_slope_uflow_shift_def DpuLutLoSlopeShift_lut_lo_slope_oflow_shift_def
  DpuEwOpValue0_ew_operand_def DpuEwOpValue1_ew_operand_def DpuEwOpValue2_ew_operand_def
  DpuEwOpValue3_ew_operand_def DpuEwOpValue4_ew_operand_def DpuEwOpValue5_ew_operand_def
  DpuEwOpValue6_ew_operand_def DpuEwOpValue7_ew_operand_def

section \<open>Its reader\<close>

definition DpuRdmaSStatus :: register_meta where
  "DpuRdmaSStatus = \<lparr>reg_domain = DOMAIN_DPU_RDMA, reg_offset = 0x5000\<rparr>"

definition DpuRdmaSStatus_status_0 :: setter where
  "DpuRdmaSStatus_status_0 = field_setter 2 0x00000003 0"

definition DpuRdmaSStatus_status_1 :: setter where
  "DpuRdmaSStatus_status_1 = field_setter 2 0x00030000 16"

definition DpuRdmaSPointer :: register_meta where
  "DpuRdmaSPointer = \<lparr>reg_domain = DOMAIN_DPU_RDMA, reg_offset = 0x5004\<rparr>"

definition DpuRdmaSPointer_pointer :: setter where
  "DpuRdmaSPointer_pointer = field_setter 1 0x00000001 0"

definition DpuRdmaSPointer_pointer_pp_en :: setter where
  "DpuRdmaSPointer_pointer_pp_en = field_setter 1 0x00000002 1"

definition DpuRdmaSPointer_executer_pp_en :: setter where
  "DpuRdmaSPointer_executer_pp_en = field_setter 1 0x00000004 2"

definition DpuRdmaSPointer_pointer_pp_mode :: setter where
  "DpuRdmaSPointer_pointer_pp_mode = field_setter 1 0x00000008 3"

definition DpuRdmaSPointer_pointer_pp_clear :: setter where
  "DpuRdmaSPointer_pointer_pp_clear = field_setter 1 0x00000010 4"

definition DpuRdmaSPointer_executer_pp_clear :: setter where
  "DpuRdmaSPointer_executer_pp_clear = field_setter 1 0x00000020 5"

definition DpuRdmaSPointer_executer :: setter where
  "DpuRdmaSPointer_executer = field_setter 1 0x00010000 16"

definition DpuRdmaOperationEnable :: register_meta where
  "DpuRdmaOperationEnable = \<lparr>reg_domain = DOMAIN_DPU_RDMA, reg_offset = 0x5008\<rparr>"

definition DpuRdmaOperationEnable_op_en :: setter where
  "DpuRdmaOperationEnable_op_en = field_setter 1 0x00000001 0"

definition DpuRdmaDataCubeWidth :: register_meta where
  "DpuRdmaDataCubeWidth = \<lparr>reg_domain = DOMAIN_DPU_RDMA, reg_offset = 0x500c\<rparr>"

definition DpuRdmaDataCubeWidth_width :: setter where
  "DpuRdmaDataCubeWidth_width = field_setter 13 0x00001fff 0"

definition DpuRdmaDataCubeHeight :: register_meta where
  "DpuRdmaDataCubeHeight = \<lparr>reg_domain = DOMAIN_DPU_RDMA, reg_offset = 0x5010\<rparr>"

definition DpuRdmaDataCubeHeight_height :: setter where
  "DpuRdmaDataCubeHeight_height = field_setter 13 0x00001fff 0"

definition DpuRdmaDataCubeHeight_ew_line_notch_addr :: setter where
  "DpuRdmaDataCubeHeight_ew_line_notch_addr = field_setter 13 0x1fff0000 16"

definition DpuRdmaDataCubeChannel :: register_meta where
  "DpuRdmaDataCubeChannel = \<lparr>reg_domain = DOMAIN_DPU_RDMA, reg_offset = 0x5014\<rparr>"

definition DpuRdmaDataCubeChannel_channel :: setter where
  "DpuRdmaDataCubeChannel_channel = field_setter 13 0x00001fff 0"

definition DpuRdmaSrcBaseAddr :: register_meta where
  "DpuRdmaSrcBaseAddr = \<lparr>reg_domain = DOMAIN_DPU_RDMA, reg_offset = 0x5018\<rparr>"

definition DpuRdmaSrcBaseAddr_src_base_addr :: setter where
  "DpuRdmaSrcBaseAddr_src_base_addr = field_setter 32 0xffffffff 0"

definition DpuRdmaBrdmaCfg :: register_meta where
  "DpuRdmaBrdmaCfg = \<lparr>reg_domain = DOMAIN_DPU_RDMA, reg_offset = 0x501c\<rparr>"

definition DpuRdmaBrdmaCfg_brdma_data_use :: setter where
  "DpuRdmaBrdmaCfg_brdma_data_use = field_setter 4 0x0000001e 1"

definition DpuRdmaBsBaseAddr :: register_meta where
  "DpuRdmaBsBaseAddr = \<lparr>reg_domain = DOMAIN_DPU_RDMA, reg_offset = 0x5020\<rparr>"

definition DpuRdmaBsBaseAddr_bs_base_addr :: setter where
  "DpuRdmaBsBaseAddr_bs_base_addr = field_setter 32 0xffffffff 0"

definition DpuRdmaNrdmaCfg :: register_meta where
  "DpuRdmaNrdmaCfg = \<lparr>reg_domain = DOMAIN_DPU_RDMA, reg_offset = 0x5028\<rparr>"

definition DpuRdmaNrdmaCfg_nrdma_data_use :: setter where
  "DpuRdmaNrdmaCfg_nrdma_data_use = field_setter 4 0x0000001e 1"

definition DpuRdmaBnBaseAddr :: register_meta where
  "DpuRdmaBnBaseAddr = \<lparr>reg_domain = DOMAIN_DPU_RDMA, reg_offset = 0x502c\<rparr>"

definition DpuRdmaBnBaseAddr_bn_base_addr :: setter where
  "DpuRdmaBnBaseAddr_bn_base_addr = field_setter 32 0xffffffff 0"

definition DpuRdmaErdmaCfg :: register_meta where
  "DpuRdmaErdmaCfg = \<lparr>reg_domain = DOMAIN_DPU_RDMA, reg_offset = 0x5034\<rparr>"

definition DpuRdmaErdmaCfg_erdma_disable :: setter where
  "DpuRdmaErdmaCfg_erdma_disable = field_setter 1 0x00000001 0"

definition DpuRdmaErdmaCfg_ov4k_bypass :: setter where
  "DpuRdmaErdmaCfg_ov4k_bypass = field_setter 1 0x00000002 1"

definition DpuRdmaErdmaCfg_erdma_data_size :: setter where
  "DpuRdmaErdmaCfg_erdma_data_size = field_setter 2 0x0000000c 2"

definition DpuRdmaErdmaCfg_erdma_nonalign :: setter where
  "DpuRdmaErdmaCfg_erdma_nonalign = field_setter 1 0x10000000 28"

definition DpuRdmaErdmaCfg_erdma_surf_mode :: setter where
  "DpuRdmaErdmaCfg_erdma_surf_mode = field_setter 1 0x20000000 29"

definition DpuRdmaErdmaCfg_erdma_data_mode :: setter where
  "DpuRdmaErdmaCfg_erdma_data_mode = field_setter 2 0xc0000000 30"

definition DpuRdmaEwBaseAddr :: register_meta where
  "DpuRdmaEwBaseAddr = \<lparr>reg_domain = DOMAIN_DPU_RDMA, reg_offset = 0x5038\<rparr>"

definition DpuRdmaEwBaseAddr_ew_base_addr :: setter where
  "DpuRdmaEwBaseAddr_ew_base_addr = field_setter 32 0xffffffff 0"

definition DpuRdmaEwSurfStride :: register_meta where
  "DpuRdmaEwSurfStride = \<lparr>reg_domain = DOMAIN_DPU_RDMA, reg_offset = 0x5040\<rparr>"

definition DpuRdmaEwSurfStride_ew_surf_stride :: setter where
  "DpuRdmaEwSurfStride_ew_surf_stride = field_setter 28 0xfffffff0 4"

definition DpuRdmaFeatureModeCfg :: register_meta where
  "DpuRdmaFeatureModeCfg = \<lparr>reg_domain = DOMAIN_DPU_RDMA, reg_offset = 0x5044\<rparr>"

definition DpuRdmaFeatureModeCfg_flying_mode :: setter where
  "DpuRdmaFeatureModeCfg_flying_mode = field_setter 1 0x00000001 0"

definition DpuRdmaFeatureModeCfg_conv_mode :: setter where
  "DpuRdmaFeatureModeCfg_conv_mode = field_setter 2 0x00000006 1"

definition DpuRdmaFeatureModeCfg_mrdma_fp16tofp32_en :: setter where
  "DpuRdmaFeatureModeCfg_mrdma_fp16tofp32_en = field_setter 1 0x00000008 3"

definition DpuRdmaFeatureModeCfg_mrdma_disable :: setter where
  "DpuRdmaFeatureModeCfg_mrdma_disable = field_setter 1 0x00000010 4"

definition DpuRdmaFeatureModeCfg_proc_precision :: setter where
  "DpuRdmaFeatureModeCfg_proc_precision = field_setter 3 0x000000e0 5"

definition DpuRdmaFeatureModeCfg_comb_use :: setter where
  "DpuRdmaFeatureModeCfg_comb_use = field_setter 3 0x00000700 8"

definition DpuRdmaFeatureModeCfg_burst_len :: setter where
  "DpuRdmaFeatureModeCfg_burst_len = field_setter 4 0x00007800 11"

definition DpuRdmaFeatureModeCfg_in_precision :: setter where
  "DpuRdmaFeatureModeCfg_in_precision = field_setter 3 0x00038000 15"

definition DpuRdmaSrcDmaCfg :: register_meta where
  "DpuRdmaSrcDmaCfg = \<lparr>reg_domain = DOMAIN_DPU_RDMA, reg_offset = 0x5048\<rparr>"

definition DpuRdmaSrcDmaCfg_kernel_width :: setter where
  "DpuRdmaSrcDmaCfg_kernel_width = field_setter 3 0x00000007 0"

definition DpuRdmaSrcDmaCfg_kernel_height :: setter where
  "DpuRdmaSrcDmaCfg_kernel_height = field_setter 3 0x00000038 3"

definition DpuRdmaSrcDmaCfg_kernel_stride_width :: setter where
  "DpuRdmaSrcDmaCfg_kernel_stride_width = field_setter 3 0x000001c0 6"

definition DpuRdmaSrcDmaCfg_kernel_stride_height :: setter where
  "DpuRdmaSrcDmaCfg_kernel_stride_height = field_setter 3 0x00000e00 9"

definition DpuRdmaSrcDmaCfg_unpooling_en :: setter where
  "DpuRdmaSrcDmaCfg_unpooling_en = field_setter 1 0x00001000 12"

definition DpuRdmaSrcDmaCfg_pooling_method :: setter where
  "DpuRdmaSrcDmaCfg_pooling_method = field_setter 1 0x00002000 13"

definition DpuRdmaSrcDmaCfg_line_notch_addr :: setter where
  "DpuRdmaSrcDmaCfg_line_notch_addr = field_setter 13 0xfff80000 19"

definition DpuRdmaSurfNotch :: register_meta where
  "DpuRdmaSurfNotch = \<lparr>reg_domain = DOMAIN_DPU_RDMA, reg_offset = 0x504c\<rparr>"

definition DpuRdmaSurfNotch_surf_notch_addr :: setter where
  "DpuRdmaSurfNotch_surf_notch_addr = field_setter 28 0xfffffff0 4"

definition DpuRdmaPadCfg :: register_meta where
  "DpuRdmaPadCfg = \<lparr>reg_domain = DOMAIN_DPU_RDMA, reg_offset = 0x5064\<rparr>"

definition DpuRdmaPadCfg_pad_left :: setter where
  "DpuRdmaPadCfg_pad_left = field_setter 3 0x00000007 0"

definition DpuRdmaPadCfg_pad_top :: setter where
  "DpuRdmaPadCfg_pad_top = field_setter 3 0x00000070 4"

definition DpuRdmaPadCfg_pad_value :: setter where
  "DpuRdmaPadCfg_pad_value = field_setter 16 0xffff0000 16"

definition DpuRdmaWeight :: register_meta where
  "DpuRdmaWeight = \<lparr>reg_domain = DOMAIN_DPU_RDMA, reg_offset = 0x5068\<rparr>"

definition DpuRdmaWeight_m_weight :: setter where
  "DpuRdmaWeight_m_weight = field_setter 8 0x000000ff 0"

definition DpuRdmaWeight_b_weight :: setter where
  "DpuRdmaWeight_b_weight = field_setter 8 0x0000ff00 8"

definition DpuRdmaWeight_n_weight :: setter where
  "DpuRdmaWeight_n_weight = field_setter 8 0x00ff0000 16"

definition DpuRdmaWeight_e_weight :: setter where
  "DpuRdmaWeight_e_weight = field_setter 8 0xff000000 24"

definition DpuRdmaEwSurfNotch :: register_meta where
  "DpuRdmaEwSurfNotch = \<lparr>reg_domain = DOMAIN_DPU_RDMA, reg_offset = 0x506c\<rparr>"

definition DpuRdmaEwSurfNotch_ew_surf_notch :: setter where
  "DpuRdmaEwSurfNotch_ew_surf_notch = field_setter 28 0xfffffff0 4"

text \<open>Every register of the block with its setters, their widths and shifts.\<close>

definition dpu_rdma_block :: "(register_meta \<times> (setter \<times> nat \<times> nat) list) list" where
  "dpu_rdma_block =
     [(DpuRdmaSStatus, [
        (DpuRdmaSStatus_status_0, 2, 0), (DpuRdmaSStatus_status_1, 2, 16)]),
      (DpuRdmaSPointer, [
        (DpuRdmaSPointer_pointer, 1, 0), (DpuRdmaSPointer_pointer_pp_en, 1, 1),
        (DpuRdmaSPointer_executer_pp_en, 1, 2), (DpuRdmaSPointer_pointer_pp_mode, 1, 3),
        (DpuRdmaSPointer_pointer_pp_clear, 1, 4), (DpuRdmaSPointer_executer_pp_clear, 1, 5),
        (DpuRdmaSPointer_executer, 1, 16)]),
      (DpuRdmaOperationEnable, [
        (DpuRdmaOperationEnable_op_en, 1, 0)]),
      (DpuRdmaDataCubeWidth, [
        (DpuRdmaDataCubeWidth_width, 13, 0)]),
      (DpuRdmaDataCubeHeight, [
        (DpuRdmaDataCubeHeight_height, 13, 0), (DpuRdmaDataCubeHeight_ew_line_notch_addr, 13, 16)]),
      (DpuRdmaDataCubeChannel, [
        (DpuRdmaDataCubeChannel_channel, 13, 0)]),
      (DpuRdmaSrcBaseAddr, [
        (DpuRdmaSrcBaseAddr_src_base_addr, 32, 0)]),
      (DpuRdmaBrdmaCfg, [
        (DpuRdmaBrdmaCfg_brdma_data_use, 4, 1)]),
      (DpuRdmaBsBaseAddr, [
        (DpuRdmaBsBaseAddr_bs_base_addr, 32, 0)]),
      (DpuRdmaNrdmaCfg, [
        (DpuRdmaNrdmaCfg_nrdma_data_use, 4, 1)]),
      (DpuRdmaBnBaseAddr, [
        (DpuRdmaBnBaseAddr_bn_base_addr, 32, 0)]),
      (DpuRdmaErdmaCfg, [
        (DpuRdmaErdmaCfg_erdma_disable, 1, 0), (DpuRdmaErdmaCfg_ov4k_bypass, 1, 1),
        (DpuRdmaErdmaCfg_erdma_data_size, 2, 2), (DpuRdmaErdmaCfg_erdma_nonalign, 1, 28),
        (DpuRdmaErdmaCfg_erdma_surf_mode, 1, 29), (DpuRdmaErdmaCfg_erdma_data_mode, 2, 30)]),
      (DpuRdmaEwBaseAddr, [
        (DpuRdmaEwBaseAddr_ew_base_addr, 32, 0)]),
      (DpuRdmaEwSurfStride, [
        (DpuRdmaEwSurfStride_ew_surf_stride, 28, 4)]),
      (DpuRdmaFeatureModeCfg, [
        (DpuRdmaFeatureModeCfg_flying_mode, 1, 0), (DpuRdmaFeatureModeCfg_conv_mode, 2, 1),
        (DpuRdmaFeatureModeCfg_mrdma_fp16tofp32_en, 1, 3),
        (DpuRdmaFeatureModeCfg_mrdma_disable, 1, 4),
        (DpuRdmaFeatureModeCfg_proc_precision, 3, 5), (DpuRdmaFeatureModeCfg_comb_use, 3, 8),
        (DpuRdmaFeatureModeCfg_burst_len, 4, 11), (DpuRdmaFeatureModeCfg_in_precision, 3, 15)]),
      (DpuRdmaSrcDmaCfg, [
        (DpuRdmaSrcDmaCfg_kernel_width, 3, 0), (DpuRdmaSrcDmaCfg_kernel_height, 3, 3),
        (DpuRdmaSrcDmaCfg_kernel_stride_width, 3, 6),
        (DpuRdmaSrcDmaCfg_kernel_stride_height, 3, 9), (DpuRdmaSrcDmaCfg_unpooling_en, 1, 12),
        (DpuRdmaSrcDmaCfg_pooling_method, 1, 13), (DpuRdmaSrcDmaCfg_line_notch_addr, 13, 19)]),
      (DpuRdmaSurfNotch, [
        (DpuRdmaSurfNotch_surf_notch_addr, 28, 4)]),
      (DpuRdmaPadCfg, [
        (DpuRdmaPadCfg_pad_left, 3, 0), (DpuRdmaPadCfg_pad_top, 3, 4),
        (DpuRdmaPadCfg_pad_value, 16, 16)]),
      (DpuRdmaWeight, [
        (DpuRdmaWeight_m_weight, 8, 0), (DpuRdmaWeight_b_weight, 8, 8),
        (DpuRdmaWeight_n_weight, 8, 16), (DpuRdmaWeight_e_weight, 8, 24)]),
      (DpuRdmaEwSurfNotch, [
        (DpuRdmaEwSurfNotch_ew_surf_notch, 28, 4)])]"

lemmas dpu_rdma_block_registers =
  DpuRdmaSStatus_def DpuRdmaSPointer_def DpuRdmaOperationEnable_def DpuRdmaDataCubeWidth_def
  DpuRdmaDataCubeHeight_def DpuRdmaDataCubeChannel_def DpuRdmaSrcBaseAddr_def DpuRdmaBrdmaCfg_def
  DpuRdmaBsBaseAddr_def DpuRdmaNrdmaCfg_def DpuRdmaBnBaseAddr_def DpuRdmaErdmaCfg_def
  DpuRdmaEwBaseAddr_def DpuRdmaEwSurfStride_def DpuRdmaFeatureModeCfg_def DpuRdmaSrcDmaCfg_def
  DpuRdmaSurfNotch_def DpuRdmaPadCfg_def DpuRdmaWeight_def DpuRdmaEwSurfNotch_def

lemmas dpu_rdma_block_setters =
  DpuRdmaSStatus_status_0_def DpuRdmaSStatus_status_1_def DpuRdmaSPointer_pointer_def
  DpuRdmaSPointer_pointer_pp_en_def DpuRdmaSPointer_executer_pp_en_def
  DpuRdmaSPointer_pointer_pp_mode_def DpuRdmaSPointer_pointer_pp_clear_def
  DpuRdmaSPointer_executer_pp_clear_def DpuRdmaSPointer_executer_def
  DpuRdmaOperationEnable_op_en_def DpuRdmaDataCubeWidth_width_def
  DpuRdmaDataCubeHeight_height_def DpuRdmaDataCubeHeight_ew_line_notch_addr_def
  DpuRdmaDataCubeChannel_channel_def DpuRdmaSrcBaseAddr_src_base_addr_def
  DpuRdmaBrdmaCfg_brdma_data_use_def DpuRdmaBsBaseAddr_bs_base_addr_def
  DpuRdmaNrdmaCfg_nrdma_data_use_def DpuRdmaBnBaseAddr_bn_base_addr_def
  DpuRdmaErdmaCfg_erdma_disable_def DpuRdmaErdmaCfg_ov4k_bypass_def
  DpuRdmaErdmaCfg_erdma_data_size_def DpuRdmaErdmaCfg_erdma_nonalign_def
  DpuRdmaErdmaCfg_erdma_surf_mode_def DpuRdmaErdmaCfg_erdma_data_mode_def
  DpuRdmaEwBaseAddr_ew_base_addr_def DpuRdmaEwSurfStride_ew_surf_stride_def
  DpuRdmaFeatureModeCfg_flying_mode_def DpuRdmaFeatureModeCfg_conv_mode_def
  DpuRdmaFeatureModeCfg_mrdma_fp16tofp32_en_def DpuRdmaFeatureModeCfg_mrdma_disable_def
  DpuRdmaFeatureModeCfg_proc_precision_def DpuRdmaFeatureModeCfg_comb_use_def
  DpuRdmaFeatureModeCfg_burst_len_def DpuRdmaFeatureModeCfg_in_precision_def
  DpuRdmaSrcDmaCfg_kernel_width_def DpuRdmaSrcDmaCfg_kernel_height_def
  DpuRdmaSrcDmaCfg_kernel_stride_width_def DpuRdmaSrcDmaCfg_kernel_stride_height_def
  DpuRdmaSrcDmaCfg_unpooling_en_def DpuRdmaSrcDmaCfg_pooling_method_def
  DpuRdmaSrcDmaCfg_line_notch_addr_def DpuRdmaSurfNotch_surf_notch_addr_def
  DpuRdmaPadCfg_pad_left_def DpuRdmaPadCfg_pad_top_def DpuRdmaPadCfg_pad_value_def
  DpuRdmaWeight_m_weight_def DpuRdmaWeight_b_weight_def DpuRdmaWeight_n_weight_def
  DpuRdmaWeight_e_weight_def DpuRdmaEwSurfNotch_ew_surf_notch_def

end
