(* ===== verification/ConvProgram.thy ===== *)
theory ConvProgram
  imports ConvEncodings CnaRegisters DpuRegisters
begin

text \<open>
  The command program of a convolution tile (\<open>conv_2d_tile_program\<close> of \<open>rocket/conv.rs\<close>), register by
  register in the order the code pushes them, the programs of a plan, and their relocation.
\<close>

datatype output_placement = SharedImage | ContiguousTile

section \<open>The values computed before the program\<close>

record conv_values =
  cv_padded_channels :: nat
  cv_padded_out_channels :: nat
  cv_input_width :: nat
  cv_out_width :: nat
  cv_full_out_width :: nat
  cv_out_height :: nat
  cv_horizontally_tiled :: bool
  cv_input_offset :: nat
  cv_output_base_offset :: nat
  cv_output_surface_pixels :: nat
  cv_output_notch :: nat
  cv_line_stride :: nat
  cv_surf_stride :: nat
  cv_data_entries :: nat
  cv_kernel_width :: nat
  cv_kernel_height :: nat
  cv_weight_bytes_per_kernel :: nat
  cv_weight_bytes :: nat
  cv_argb_in :: nat

definition max_data_entries :: nat where "max_data_entries = MAX_DATA_ENTRIES"

text \<open>Base offset, surface pixels and notch of the output, by placement.\<close>

definition output_geometry ::
  "shape \<Rightarrow> kernels \<Rightarrow> tile2d \<Rightarrow> output_placement \<Rightarrow> nat \<Rightarrow> nat \<Rightarrow> (nat \<times> nat \<times> nat) reg_result" where
  "output_geometry s ks t placement full_out_width out_height =
     (let out_width = col_out_cols (t_columns t) in
      case placement of
        SharedImage \<Rightarrow>
          obind (unwrap (tile2d_output_offset t s ks)) (\<lambda>base.
          Done (base, wrap32 (full_out_width * out_height), sub32 full_out_width out_width))
      | ContiguousTile \<Rightarrow>
          ensure (writes_accumulators (precision s))
            (Done (0, wrap32 (out_width * out_rows (t_rows t)), 0)))"

text \<open>Line stride, surface stride and data entries, by layout.\<close>

definition fetch_geometry :: "shape \<Rightarrow> bool \<Rightarrow> nat \<Rightarrow> nat \<Rightarrow> nat \<times> nat \<times> nat" where
  "fetch_geometry s horizontally_tiled input_width in_row_count =
     (case (layout s, horizontally_tiled) of
        (Dense, _) \<Rightarrow>
          (width s, wrap32 (width s * sub32 (height s) 1),
           wrap32 (cbuf_input_width s input_width * in_row_count))
      | (Surfaces, False) \<Rightarrow>
          (wrap32 (width s * 4), wrap32 (width s * sub32 (height s) 4) mod 2 ^ 28,
           div_ceil (wrap32 (input_width * cbuf_atoms s)) CBUF_ATOMS_PER_ENTRY)
      | (Surfaces, True) \<Rightarrow>
          (width s, sub32 (wrap32 (width s * height s)) input_width,
           div_ceil (wrap32 (input_width * cbuf_atoms s)) CBUF_ATOMS_PER_ENTRY))"

text \<open>The assertions on the tile, in the order of the code.\<close>

definition check_tile :: "shape \<Rightarrow> tile2d \<Rightarrow> nat \<Rightarrow> nat \<Rightarrow> nat \<Rightarrow> unit reg_result" where
  "check_tile s t grains full_out_width out_height =
     (let rows = t_rows t; columns = t_columns t in
      ensure (grains \<le> MAX_FEATURE_GRAINS) (
      ensure (0 < out_rows rows \<and> wrap32 (out_first rows + out_rows rows) \<le> out_height) (
      ensure (0 < col_out_cols columns
              \<and> wrap32 (col_out_first columns + col_out_cols columns) \<le> full_out_width) (
      ensure (wrap32 (in_rows rows * cbuf_input_width s (col_in_cols columns)) \<le> max_data_entries) (
      ensure (0 < in_rows rows \<and> wrap32 (in_first rows + in_rows rows) \<le> height s) (
      ensure (0 < col_in_cols columns
              \<and> wrap32 (col_in_first columns + col_in_cols columns) \<le> width s) (Done ())))))))"

definition conv_values_of ::
  "shape \<Rightarrow> kernels \<Rightarrow> tile2d \<Rightarrow> nat \<Rightarrow> output_placement \<Rightarrow> conv_values reg_result" where
  "conv_values_of s ks t grains placement =
     obind (unwrap (output_width s ks)) (\<lambda>full_out_width.
     obind (unwrap (output_height s ks)) (\<lambda>out_height.
     let input_width = col_in_cols (t_columns t); out_width = col_out_cols (t_columns t);
         tiled = (col_out_first (t_columns t) \<noteq> 0 \<or> out_width \<noteq> full_out_width)
     in ensure (input_width \<le> max_tile_input_width s) (
        obind (output_geometry s ks t placement full_out_width out_height) (\<lambda>(base, surface, notch).
        obind (check_tile s t grains full_out_width out_height) (\<lambda>_.
        obind (unwrap (kernel_prog s ks)) (\<lambda>k.
        let (line, surf, entries) = fetch_geometry s tiled input_width (in_rows (t_rows t))
        in obind (unwrap (weight_bytes s ks)) (\<lambda>wb.
           obind (unwrap (tile2d_input_offset t s)) (\<lambda>input_offset.
           obind (case layout s of Dense \<Rightarrow> argb_input_mode (in_channels s) | Surfaces \<Rightarrow> Done 0) (\<lambda>argb.
           Done \<lparr>cv_padded_channels = padded_channels s, cv_padded_out_channels = padded_out_channels s,
                 cv_input_width = input_width, cv_out_width = out_width,
                 cv_full_out_width = full_out_width, cv_out_height = out_height,
                 cv_horizontally_tiled = tiled, cv_input_offset = input_offset,
                 cv_output_base_offset = base, cv_output_surface_pixels = surface,
                 cv_output_notch = notch, cv_line_stride = line, cv_surf_stride = surf,
                 cv_data_entries = entries, cv_kernel_width = k_width k, cv_kernel_height = k_height k,
                 cv_weight_bytes_per_kernel =
                   wrap32 (k_height k * k_width k * weight_channels s * element_bits (precision s)) div 8,
                 cv_weight_bytes = wb, cv_argb_in = argb\<rparr>)))))))))"

section \<open>The blocks of the program\<close>

abbreviation flag :: "bool \<Rightarrow> nat" where "flag \<equiv> of_bool"

definition cbuf_con0 :: "nat \<Rightarrow> nat \<Rightarrow> (reg32 \<Rightarrow> reg32 reg_result) list" where
  "cbuf_con0 data_banks weight_banks =
     [CnaCbufCon0_weight_bank weight_banks, CnaCbufCon0_data_bank data_banks]"

definition conv_con1 :: "shape \<Rightarrow> conv_values \<Rightarrow> (reg32 \<Rightarrow> reg32 reg_result) list" where
  "conv_con1 s v =
     (case layout s of
        Dense \<Rightarrow> [CnaConvCon1_nonalign_dma 1, CnaConvCon1_group_line_off 1, CnaConvCon1_argb_in (cv_argb_in v)]
      | Surfaces \<Rightarrow> [CnaConvCon1_nonalign_dma 0, CnaConvCon1_group_line_off (flag (cv_horizontally_tiled v)),
                     CnaConvCon1_argb_in 0])
     @ [CnaConvCon1_proc_precision (data_code (data_precision (precision s))),
        CnaConvCon1_in_precision (data_code (data_precision (precision s))),
        CnaConvCon1_conv_mode (conv_mode s)]"

definition preamble_commands :: "shape \<Rightarrow> conv_values \<Rightarrow> nat \<Rightarrow> nat \<Rightarrow> writes" where
  "preamble_commands s v data_banks weight_banks =
     [(CnaCbufCon0, cbuf_con0 data_banks weight_banks),
      (CnaDcompRegnum, []), (CnaDcompCtrl, []),
      (CnaConvCon1, conv_con1 s v),
      (DpuSPointer, [DpuSPointer_pointer_pp_mode 1, DpuSPointer_executer_pp_en 1, DpuSPointer_pointer_pp_en 1]),
      (DpuRdmaSPointer,
       [DpuRdmaSPointer_pointer_pp_mode 1, DpuRdmaSPointer_executer_pp_en 1, DpuRdmaSPointer_pointer_pp_en 1])]"

definition cna_convolution_commands ::
  "shape \<Rightarrow> tile2d \<Rightarrow> conv_values \<Rightarrow> nat \<Rightarrow> nat \<Rightarrow> nat \<Rightarrow> writes" where
  "cna_convolution_commands s t v grains data_banks weight_banks =
     [(CnaConvCon1, conv_con1 s v),
      (CnaConvCon2, [CnaConvCon2_feature_grains grains]),
      (CnaConvCon3, [CnaConvCon3_conv_x_stride (stride s), CnaConvCon3_conv_y_stride (stride s)]),
      (CnaDataSize0,
       [CnaDataSize0_datain_width (cv_input_width v), CnaDataSize0_datain_height (in_rows (t_rows t))]),
      (CnaDataSize1,
       [CnaDataSize1_datain_channel_real (sub32 (in_channels s) 1 mod 64),
        CnaDataSize1_datain_channel (cv_padded_channels v)]),
      (CnaDataSize2, [CnaDataSize2_dataout_width (cv_out_width v)]),
      (CnaDataSize3, [CnaDataSize3_dataout_atomics (wrap32 (cv_out_width v * out_rows (t_rows t)))]),
      (CnaWeightSize0, [CnaWeightSize0_weight_bytes (cv_weight_bytes v)]),
      (CnaWeightSize1, [CnaWeightSize1_weight_bytes_per_kernel (cv_weight_bytes_per_kernel v)]),
      (CnaWeightSize2,
       [CnaWeightSize2_weight_width (cv_kernel_width v), CnaWeightSize2_weight_height (cv_kernel_height v),
        CnaWeightSize2_weight_kernels (programmed_kernels s)]),
      (CnaCbufCon0, cbuf_con0 data_banks weight_banks),
      (CnaCbufCon1, [CnaCbufCon1_data_entries (cv_data_entries v)]),
      (CnaCvtCon0, [CnaCvtCon0_data_sign 1, CnaCvtCon0_cvt_type 1, CnaCvtCon0_cvt_bypass 1]),
      (CnaCvtCon1, [CnaCvtCon1_cvt_scale0 1]), (CnaCvtCon2, [CnaCvtCon2_cvt_scale1 1]),
      (CnaCvtCon3, [CnaCvtCon3_cvt_scale2 1]), (CnaCvtCon4, [CnaCvtCon4_cvt_scale3 1])]"

definition cna_dma_commands :: "shape \<Rightarrow> tile2d \<Rightarrow> conv_values \<Rightarrow> writes" where
  "cna_dma_commands s t v =
     [(CnaFcCon0, []), (CnaFcCon1, []),
      (CnaPadCon0, [CnaPadCon0_pad_top (pad_top (t_rows t)), CnaPadCon0_pad_left (col_pad_left (t_columns t))]),
      (CnaFeatureDataAddr, [CnaFeatureDataAddr_feature_base_addr (cv_input_offset v)]),
      (CnaFcCon2, []),
      (CnaDmaCon0, [CnaDmaCon0_data_burst_len BURST_SIXTEEN, CnaDmaCon0_weight_burst_len BURST_SIXTEEN]),
      (CnaDmaCon1, [CnaDmaCon1_line_stride (cv_line_stride v)]),
      (CnaDmaCon2, [CnaDmaCon2_surf_stride (cv_surf_stride v)]),
      (CnaFcDataSize0,
       [CnaFcDataSize0_dma_width (cv_input_width v), CnaFcDataSize0_dma_height (in_rows (t_rows t))]),
      (CnaFcDataSize1, [CnaFcDataSize1_dma_channel (cv_padded_channels v)]),
      (CnaDcompCtrl, []), (CnaDcompRegnum, []), (CnaDcompAddr0, []),
      (CnaDcompAmount0, []), (CnaDcompAmount1, []), (CnaDcompAmount2, []), (CnaDcompAmount3, []),
      (CnaDcompAmount4, []), (CnaDcompAmount5, []), (CnaDcompAmount6, []), (CnaDcompAmount7, []),
      (CnaDcompAmount8, []), (CnaDcompAmount9, []), (CnaDcompAmount10, []), (CnaDcompAmount11, []),
      (CnaDcompAmount12, []), (CnaDcompAmount13, []), (CnaDcompAmount14, []), (CnaDcompAmount15, []),
      (CnaCvtCon5, []),
      (CnaPadCon1,
       [CnaPadCon1_pad_value
          (case quantization_of (precision s) of Some q \<Rightarrow> i32_bits (input_zero_point q) | None \<Rightarrow> 0)])]"

definition cna_commands :: "shape \<Rightarrow> tile2d \<Rightarrow> conv_values \<Rightarrow> nat \<Rightarrow> nat \<Rightarrow> nat \<Rightarrow> writes" where
  "cna_commands s t v grains data_banks weight_banks =
     cna_convolution_commands s t v grains data_banks weight_banks @ cna_dma_commands s t v"

definition core_commands :: "conv_env \<Rightarrow> shape \<Rightarrow> tile2d \<Rightarrow> conv_values \<Rightarrow> writes" where
  "core_commands e s t v =
     [(CoreMiscCfg,
       [CoreMiscCfg_proc_precision (data_code (data_precision (precision s))),
        CoreMiscCfg_qd_en (flag (quantization_of (precision s) \<noteq> None
          \<and> \<not> (writes_accumulators (precision s) \<and> acc_vendor_part e ''qd''))),
        CoreMiscCfg_dw_en (flag (depthwise s))]),
      (CoreDataoutSize0,
       [CoreDataoutSize0_dataout_width (sub32 (cv_out_width v) 1),
        CoreDataoutSize0_dataout_height (sub32 (out_rows (t_rows t)) 1)]),
      (CoreDataoutSize1, [CoreDataoutSize1_dataout_channel (sub32 (cv_padded_out_channels v) 1)]),
      (CoreClipTruncate, []), (CoreReserved3030, [])]"

text \<open>The switches of the output stage, and the surface stride of its writer.\<close>

definition bs_passthrough :: "conv_env \<Rightarrow> shape \<Rightarrow> bool" where
  "bs_passthrough e s \<longleftrightarrow> writes_accumulators (precision s) \<and> accumulator_bs_engage e"

definition bs_vendor :: "conv_env \<Rightarrow> shape \<Rightarrow> bool" where
  "bs_vendor e s \<longleftrightarrow> writes_accumulators (precision s) \<and> acc_vendor_part e ''bs''"

definition bs_mul_shift :: "conv_env \<Rightarrow> shape \<Rightarrow> nat" where
  "bs_mul_shift e s =
     (if quantization_of (precision s) \<noteq> None \<and> \<not> bs_passthrough e s
         \<and> \<not> (writes_accumulators (precision s) \<and> acc_vendor_part e ''bs'')
      then BS_MUL_SHIFT_VALUE else 0)"

definition brdma_data_use :: "conv_env \<Rightarrow> shape \<Rightarrow> nat" where
  "brdma_data_use e s =
     (if writes_accumulators (precision s) \<and> \<not> acc_brdma_restore e then BRDMA_DATA_USE_NONE
      else if quantization_of (precision s) \<noteq> None then BRDMA_DATA_USE_QUANTIZED
      else BRDMA_DATA_USE_BIAS)"

definition output_precision_bits :: "conv_env \<Rightarrow> shape \<Rightarrow> nat" where
  "output_precision_bits e s =
     (case int4_override e (precision s) ''OUT_PRECISION'' of
        Some v \<Rightarrow> v | None \<Rightarrow> output_code (output_data_precision (precision s)))"

definition mc_surf_out :: "conv_env \<Rightarrow> shape \<Rightarrow> nat" where
  "mc_surf_out e s =
     (case int4_override e (precision s) ''MC_SURF_OUT'' of
        Some v \<Rightarrow> v
      | None \<Rightarrow> (case accumulator_mc_surf_out_override e (in_channels s) of
          Some v \<Rightarrow> v
        | None \<Rightarrow> flag (writes_accumulators (precision s) \<and> depthwise s)))"

definition surf_add :: "conv_env \<Rightarrow> shape \<Rightarrow> tile2d \<Rightarrow> conv_values \<Rightarrow> nat" where
  "surf_add e s t v =
     (if writes_accumulators (precision s)
      then let mult = (case accumulator_surf_mult_override e (in_channels s) of
                         Some m \<Rightarrow> m | None \<Rightarrow> DENSE_ACCUMULATOR_SURF_MULT)
           in case accumulator_surf_add_override e (in_channels s) of
                Some a \<Rightarrow> a
              | None \<Rightarrow> if depthwise s then 16
                         else wrap32 (cv_out_width v * out_rows (t_rows t) * mult)
      else case int4_override e (precision s) ''SURF_ADD'' of
             Some a \<Rightarrow> a
           | None \<Rightarrow>
               if writes_fp32_result (precision s)
               then wrap32 (cv_full_out_width v * cv_out_height v * 4)
               else if precision s = Int4
               then wrap32 (cv_full_out_width v * cv_out_height v * DENSE_ACCUMULATOR_SURF_MULT)
               else wrap32 (cv_full_out_width v * cv_out_height v * 2 * (if depthwise s then 2 else 1)))"

text \<open>Offset, scale and shift of the output converter.\<close>

definition output_conversion :: "shape \<Rightarrow> nat \<times> nat \<times> nat" where
  "output_conversion s =
     (if writes_accumulators (precision s) then (0, 1, 0)
      else case quantization_of (precision s) of
             Some q \<Rightarrow> (i32_bits (output_zero_point q), mul_scale (q_multiplier q), mul_shift (q_multiplier q))
           | None \<Rightarrow> (0, 1, 0))"

definition dpu_cube_commands :: "conv_env \<Rightarrow> shape \<Rightarrow> tile2d \<Rightarrow> conv_values \<Rightarrow> writes" where
  "dpu_cube_commands e s t v =
     (let dpu_precision = output_code (dpu_data_precision (precision s)) in
     [(DpuFeatureModeCfg,
       [DpuFeatureModeCfg_burst_len BURST_SIXTEEN, DpuFeatureModeCfg_output_mode OUTPUT_EXTERNAL_MEMORY,
        DpuFeatureModeCfg_conv_mode (conv_mode s)]),
      (DpuDataFormat,
       [DpuDataFormat_in_precision dpu_precision, DpuDataFormat_out_precision (output_precision_bits e s),
        DpuDataFormat_proc_precision dpu_precision, DpuDataFormat_mc_surf_out (mc_surf_out e s),
        DpuDataFormat_bs_mul_shift_value_neg (bs_mul_shift e s)]),
      (DpuOffsetPend, []),
      (DpuDstBaseAddr, [DpuDstBaseAddr_dst_base_addr (cv_output_base_offset v)]),
      (DpuDstSurfStride, [DpuDstSurfStride_dst_surf_stride (cv_output_surface_pixels v)]),
      (DpuDataCubeWidth, [DpuDataCubeWidth_width (sub32 (cv_out_width v) 1)]),
      (DpuDataCubeHeight, [DpuDataCubeHeight_height (sub32 (out_rows (t_rows t)) 1)]),
      (DpuDataCubeNotchAddr,
       [DpuDataCubeNotchAddr_notch_addr_0 (cv_output_notch v),
        DpuDataCubeNotchAddr_notch_addr_1 (cv_output_notch v)]),
      (DpuDataCubeChannel,
       [DpuDataCubeChannel_orig_channel (sub32 (out_channels s) 1),
        DpuDataCubeChannel_channel (sub32 (cv_padded_out_channels v) 1)])])"

definition dpu_stage_commands :: "conv_env \<Rightarrow> shape \<Rightarrow> tile2d \<Rightarrow> conv_values \<Rightarrow> writes" where
  "dpu_stage_commands e s t v =
     (let quantized = quantization_of (precision s) \<noteq> None;
          accumulator_output = writes_accumulators (precision s);
          size_e = bs_ow_size_e e s;
          (bn_bypass, bn_relu_bypass, bn_relux_en, bn_relux_cmp) = bn_programming (activation s)
      in
     [(DpuBsCfg,
       [DpuBsCfg_bs_bypass (flag (accumulator_output \<and> \<not> bs_passthrough e s)),
        DpuBsCfg_bs_alu_algo (if bs_vendor e s then 0 else 2),
        DpuBsCfg_bs_alu_src (if bs_vendor e s then 0 else 1),
        DpuBsCfg_bs_relu_bypass 1,
        DpuBsCfg_bs_alu_bypass (flag (bs_passthrough e s \<or> bs_vendor e s)),
        DpuBsCfg_bs_mul_bypass (flag (\<not> quantized \<or> bs_passthrough e s \<or> bs_vendor e s))]),
      (DpuBsAluCfg, []),
      (DpuBsMulCfg,
       [DpuBsMulCfg_bs_mul_shift_value (bs_mul_shift e s),
        DpuBsMulCfg_bs_mul_src (flag (quantized \<and> \<not> bs_vendor e s))]),
      (DpuBsReluxCmpValue, []),
      (DpuBsOwCfg,
       [DpuBsOwCfg_size_e_0 size_e, DpuBsOwCfg_size_e_1 size_e, DpuBsOwCfg_size_e_2 size_e,
        DpuBsOwCfg_od_bypass (flag ((\<not> quantized \<or> accumulator_output) \<and> \<not> od_engage e)),
        DpuBsOwCfg_ow_src (case ow_src_override e of Some o' \<Rightarrow> o' | None \<Rightarrow> flag quantized)]),
      (DpuBsOwOp, [DpuBsOwOp_ow_op (bs_ow_op_value e (quantization_of (precision s)))]),
      (DpuWdmaSize0, [DpuWdmaSize0_channel_wdma (sub32 (cv_padded_out_channels v) 1)]),
      (DpuWdmaSize1,
       [DpuWdmaSize1_height_wdma (sub32 (out_rows (t_rows t)) 1),
        DpuWdmaSize1_width_wdma (sub32 (cv_out_width v) 1)]),
      (DpuBnCfg,
       [DpuBnCfg_bn_relu_bypass bn_relu_bypass, DpuBnCfg_bn_relux_en bn_relux_en,
        DpuBnCfg_bn_mul_bypass 1, DpuBnCfg_bn_alu_bypass 1, DpuBnCfg_bn_bypass bn_bypass]),
      (DpuBnAluCfg, []), (DpuBnMulCfg, []),
      (DpuBnReluxCmpValue, [DpuBnReluxCmpValue_bn_relux_cmp_dat bn_relux_cmp]),
      (DpuEwCfg,
       [DpuEwCfg_ew_relu_bypass 1, DpuEwCfg_ew_op_cvt_bypass 1, DpuEwCfg_ew_lut_bypass 1,
        DpuEwCfg_ew_op_bypass 1, DpuEwCfg_ew_bypass 1]),
      (DpuEwCvtOffsetValue, []),
      (DpuEwCvtScaleValue, [DpuEwCvtScaleValue_ew_op_cvt_scale 1]),
      (DpuEwReluxCmpValue, [])])"

definition dpu_conversion_commands :: "conv_env \<Rightarrow> shape \<Rightarrow> tile2d \<Rightarrow> conv_values \<Rightarrow> writes" where
  "dpu_conversion_commands e s t v =
     (let quantized = quantization_of (precision s) \<noteq> None;
          (output_offset, output_scale, output_shift) = output_conversion s
      in
     [(DpuOutCvtOffset, [DpuOutCvtOffset_out_cvt_offset output_offset]),
      (DpuOutCvtScale,
       [DpuOutCvtScale_fp32tofp16_en (flag (\<not> quantized \<and> \<not> writes_fp32_result (precision s))),
        DpuOutCvtScale_out_cvt_scale output_scale]),
      (DpuOutCvtShift, [DpuOutCvtShift_out_cvt_shift output_shift]),
      (DpuEwOpValue0, []), (DpuEwOpValue1, []), (DpuEwOpValue2, []), (DpuEwOpValue3, []),
      (DpuEwOpValue4, []), (DpuEwOpValue5, []), (DpuEwOpValue6, []), (DpuEwOpValue7, []),
      (DpuSurfaceAdd, [DpuSurfaceAdd_surf_add (surf_add e s t v)]),
      (DpuReserved40c4, []), (DpuLutAccessCfg, []), (DpuLutAccessData, []), (DpuLutCfg, []),
      (DpuLutInfo, []), (DpuLutLeStart, []), (DpuLutLeEnd, []), (DpuLutLoStart, []), (DpuLutLoEnd, []),
      (DpuLutLeSlopeScale, []), (DpuLutLeSlopeShift, []), (DpuLutLoSlopeScale, []),
      (DpuLutLoSlopeShift, [])])"

definition dpu_commands :: "conv_env \<Rightarrow> shape \<Rightarrow> tile2d \<Rightarrow> conv_values \<Rightarrow> writes" where
  "dpu_commands e s t v =
     dpu_cube_commands e s t v @ dpu_stage_commands e s t v @ dpu_conversion_commands e s t v"

lemmas cna_commands_defs = cna_commands_def cna_convolution_commands_def cna_dma_commands_def

lemmas dpu_commands_defs =
  dpu_commands_def dpu_cube_commands_def dpu_stage_commands_def dpu_conversion_commands_def

definition dpu_rdma_commands :: "conv_env \<Rightarrow> shape \<Rightarrow> tile2d \<Rightarrow> conv_values \<Rightarrow> writes" where
  "dpu_rdma_commands e s t v =
     (let dpu_precision = output_code (dpu_data_precision (precision s)) in
     [(DpuRdmaDataCubeWidth, [DpuRdmaDataCubeWidth_width (sub32 (cv_out_width v) 1)]),
      (DpuRdmaDataCubeHeight, [DpuRdmaDataCubeHeight_height (sub32 (out_rows (t_rows t)) 1)]),
      (DpuRdmaDataCubeChannel, [DpuRdmaDataCubeChannel_channel (sub32 (cv_padded_out_channels v) 1)]),
      (DpuRdmaSrcBaseAddr, []),
      (DpuRdmaBrdmaCfg, [DpuRdmaBrdmaCfg_brdma_data_use (brdma_data_use e s)]),
      (DpuRdmaBsBaseAddr, []), (DpuRdmaNrdmaCfg, []), (DpuRdmaBnBaseAddr, []),
      (DpuRdmaErdmaCfg, [DpuRdmaErdmaCfg_erdma_disable 1]),
      (DpuRdmaEwBaseAddr, []), (DpuRdmaEwSurfStride, []),
      (DpuRdmaFeatureModeCfg,
       [DpuRdmaFeatureModeCfg_burst_len BURST_SIXTEEN, DpuRdmaFeatureModeCfg_mrdma_disable 1,
        DpuRdmaFeatureModeCfg_in_precision dpu_precision, DpuRdmaFeatureModeCfg_proc_precision dpu_precision,
        DpuRdmaFeatureModeCfg_conv_mode (conv_mode s)]),
      (DpuRdmaSrcDmaCfg, []), (DpuRdmaSurfNotch, []), (DpuRdmaPadCfg, []),
      (DpuRdmaWeight,
       [DpuRdmaWeight_e_weight 1, DpuRdmaWeight_n_weight 1, DpuRdmaWeight_b_weight 1,
        DpuRdmaWeight_m_weight 1]),
      (DpuRdmaEwSurfNotch, [])])"

definition conv_trailer :: "reg_cmd list" where
  "conv_trailer =
     [single_task_placeholder, zero_register PCRegisterAmounts, required_marker,
      operation_enable MASK_CONVOLUTION] @ replicate 6 alignment_padding"

section \<open>The program of a tile, the programs of a plan\<close>

definition conv_writes ::
  "conv_env \<Rightarrow> shape \<Rightarrow> tile2d \<Rightarrow> conv_values \<Rightarrow> nat \<Rightarrow> nat \<Rightarrow> nat \<Rightarrow> writes" where
  "conv_writes e s t v grains data_banks weight_banks =
     preamble_commands s v data_banks weight_banks @ cna_commands s t v grains data_banks weight_banks
     @ core_commands e s t v @ dpu_commands e s t v @ dpu_rdma_commands e s t v"

definition conv_2d_tile_program ::
  "conv_env \<Rightarrow> shape \<Rightarrow> kernels \<Rightarrow> tile2d \<Rightarrow> nat \<Rightarrow> nat \<Rightarrow> nat \<Rightarrow> output_placement \<Rightarrow> reg_cmd list reg_result" where
  "conv_2d_tile_program e s ks t grains data_banks weight_banks placement =
     obind (conv_values_of s ks t grains placement) (\<lambda>v.
     obind (write_all (conv_writes e s t v grains data_banks weight_banks)) (\<lambda>cmds.
     Done (cmds @ conv_trailer)))"

fun map_tiles :: "(tile2d \<Rightarrow> reg_cmd list reg_result) \<Rightarrow> tile2d list \<Rightarrow> reg_cmd list list reg_result" where
  "map_tiles f [] = Done []"
| "map_tiles f (t # ts) = obind (f t) (\<lambda>p. obind (map_tiles f ts) (\<lambda>ps. Done (p # ps)))"

definition plan_tile_program :: "conv_env \<Rightarrow> conv_plan \<Rightarrow> output_placement \<Rightarrow> tile2d \<Rightarrow> reg_cmd list reg_result" where
  "plan_tile_program e p placement t =
     obind (feature_grains_planned e (plan_shape p) (plan_kernels p) (t_rows t)) (\<lambda>grains.
     conv_2d_tile_program e (plan_shape p) (plan_kernels p) t grains (plan_data_banks p)
       (plan_weight_banks p) placement)"

definition conv_programs :: "conv_env \<Rightarrow> conv_plan \<Rightarrow> reg_cmd list list reg_result" where
  "conv_programs e p = map_tiles (plan_tile_program e p SharedImage) (plan_tiles p)"

record staged_accumulator_output =
  staged_programs :: "reg_cmd list list"
  staged_tiles :: "accumulator_output_tile list"
  staged_scratch_bytes :: nat

definition staged_accumulator_programs :: "conv_env \<Rightarrow> conv_plan \<Rightarrow> staged_accumulator_output reg_result" where
  "staged_accumulator_programs e p =
     obind (unwrap (accumulator_output_layout_of p)) (\<lambda>lay.
     obind (map_tiles (plan_tile_program e p ContiguousTile) (plan_tiles p)) (\<lambda>ps.
     Done \<lparr>staged_programs = ps, staged_tiles = acc_tiles lay, staged_scratch_bytes = acc_scratch_bytes lay\<rparr>))"

section \<open>Relocation\<close>

record dma_buffers =
  input_buffer :: nat
  weights_buffer :: nat
  bias_buffer :: nat
  output_buffer :: nat

definition relocate_one :: "register_meta \<Rightarrow> nat \<Rightarrow> bool \<Rightarrow> reg_cmd list \<Rightarrow> reg_cmd list reg_result" where
  "relocate_one R address keep_tile_offset cmds =
     ensure (address mod 16 = 0) (
     case filter (\<lambda>i. cmd_address (cmds ! i) = reg_address R) [0..<length cmds] of
       [i] \<Rightarrow> Done (cmds[i := regcmd_new (reg_domain R) (reg_offset R)
                (word_of_nat address + (if keep_tile_offset then cmd_value (cmds ! i) else 0))])
     | _ \<Rightarrow> Panicked)"

definition relocate_output :: "bool \<Rightarrow> dma_buffers \<Rightarrow> reg_cmd list \<Rightarrow> reg_cmd list reg_result" where
  "relocate_output keep_tile_offset b cmds =
     obind (relocate_one CnaFeatureDataAddr (input_buffer b) True cmds) (\<lambda>cmds.
     obind (relocate_one CnaDcompAddr0 (weights_buffer b) True cmds) (\<lambda>cmds.
     obind (relocate_one DpuRdmaBsBaseAddr (bias_buffer b) True cmds) (\<lambda>cmds.
     relocate_one DpuDstBaseAddr (output_buffer b) keep_tile_offset cmds)))"

definition relocate :: "dma_buffers \<Rightarrow> reg_cmd list \<Rightarrow> reg_cmd list reg_result" where
  "relocate = relocate_output True"

definition relocate_with_exact_output :: "dma_buffers \<Rightarrow> reg_cmd list \<Rightarrow> reg_cmd list reg_result" where
  "relocate_with_exact_output = relocate_output False"

definition relocate_staged_accumulator ::
  "dma_buffers \<Rightarrow> accumulator_output_tile \<Rightarrow> reg_cmd list \<Rightarrow> reg_cmd list reg_result" where
  "relocate_staged_accumulator b t cmds =
     ensure (scratch_offset t < 2 ^ 32) (
     case checked_add32 (output_buffer b) (scratch_offset t) of
       None \<Rightarrow> Panicked
     | Some local \<Rightarrow> relocate_with_exact_output (b\<lparr>output_buffer := local\<rparr>) cmds)"

fun relocate_all :: "dma_buffers \<Rightarrow> reg_cmd list list \<Rightarrow> reg_cmd list list reg_result" where
  "relocate_all b [] = Done []"
| "relocate_all b (p # ps) = obind (relocate b p) (\<lambda>q. obind (relocate_all b ps) (\<lambda>qs. Done (q # qs)))"

definition conv_programs_with_buffers :: "conv_env \<Rightarrow> conv_plan \<Rightarrow> dma_buffers \<Rightarrow> reg_cmd list list reg_result" where
  "conv_programs_with_buffers e p b = obind (conv_programs e p) (relocate_all b)"

fun relocate_staged ::
  "dma_buffers \<Rightarrow> reg_cmd list list \<Rightarrow> accumulator_output_tile list \<Rightarrow> reg_cmd list list reg_result" where
  "relocate_staged b (p # ps) (t # ts) =
     obind (relocate_staged_accumulator b t p) (\<lambda>q. obind (relocate_staged b ps ts) (\<lambda>qs. Done (q # qs)))"
| "relocate_staged b ps ts = Done ps"

definition programs_with_staged_accumulator_output ::
  "conv_env \<Rightarrow> conv_plan \<Rightarrow> dma_buffers \<Rightarrow> staged_accumulator_output reg_result" where
  "programs_with_staged_accumulator_output e p b =
     obind (staged_accumulator_programs e p) (\<lambda>staged.
     obind (relocate_staged b (staged_programs staged) (staged_tiles staged)) (\<lambda>ps.
     Done (staged\<lparr>staged_programs := ps\<rparr>)))"

section \<open>Single tiles\<close>

definition conv_2d_tile_with_grains ::
  "conv_env \<Rightarrow> shape \<Rightarrow> kernels \<Rightarrow> tile \<Rightarrow> nat \<Rightarrow> reg_cmd list reg_result" where
  "conv_2d_tile_with_grains e s ks rows grains =
     obind (unwrap (assert_default_cbuf_kernel ks)) (\<lambda>_.
     obind (unwrap (column_whole s ks)) (\<lambda>columns.
     obind (unwrap (data_banks_of s ks)) (\<lambda>db.
     obind (unwrap (weight_banks_of s ks)) (\<lambda>wb.
     conv_2d_tile_program e s ks \<lparr>t_rows = rows, t_columns = columns\<rparr> grains db wb SharedImage))))"

definition conv_2d_tile :: "conv_env \<Rightarrow> shape \<Rightarrow> kernels \<Rightarrow> tile \<Rightarrow> reg_cmd list reg_result" where
  "conv_2d_tile e s ks rows =
     obind (unwrap (feature_grains ks rows)) (\<lambda>grains. conv_2d_tile_with_grains e s ks rows grains)"

definition conv_2d :: "conv_env \<Rightarrow> kernels \<Rightarrow> reg_cmd list reg_result" where
  "conv_2d e ks = obind (unwrap (tile_whole CAPTURED ks)) (\<lambda>rows. conv_2d_tile e CAPTURED ks rows)"

text \<open>An explicit partition of the convolution buffer.\<close>

definition explicit_banks_ok :: "nat \<Rightarrow> nat \<Rightarrow> bool" where
  "explicit_banks_ok data_banks weight_banks \<longleftrightarrow>
     0 < data_banks \<and> 0 < weight_banks \<and> wrap32 (data_banks + weight_banks) = CBUF_BANKS"

definition conv_2d_tile_with_cbuf_banks ::
  "conv_env \<Rightarrow> shape \<Rightarrow> kernels \<Rightarrow> tile \<Rightarrow> nat \<Rightarrow> nat \<Rightarrow> reg_cmd list reg_result" where
  "conv_2d_tile_with_cbuf_banks e s ks rows data_banks weight_banks =
     ensure (explicit_banks_ok data_banks weight_banks) (
     obind (unwrap (column_whole s ks)) (\<lambda>columns.
     obind (unwrap (max_tile_input_rows_for_data_banks s data_banks)) (\<lambda>most.
     ensure (in_rows rows \<le> most) (
     obind (unwrap (feature_grains ks rows)) (\<lambda>grains.
     conv_2d_tile_program e s ks \<lparr>t_rows = rows, t_columns = columns\<rparr> grains data_banks weight_banks
       SharedImage)))))"

definition conv_2d_tile_2d_with_cbuf_banks ::
  "conv_env \<Rightarrow> shape \<Rightarrow> kernels \<Rightarrow> tile2d \<Rightarrow> nat \<Rightarrow> nat \<Rightarrow> reg_cmd list reg_result" where
  "conv_2d_tile_2d_with_cbuf_banks e s ks t data_banks weight_banks =
     ensure (layout s = Surfaces) (
     ensure (stride s = 1) (
     ensure (explicit_banks_ok data_banks weight_banks) (
     obind (unwrap (max_tile_input_rows_for_width_and_data_banks s (col_in_cols (t_columns t)) data_banks)) (\<lambda>most.
     ensure (in_rows (t_rows t) \<le> most) (
     obind (unwrap (feature_grains ks (t_rows t))) (\<lambda>grains.
     conv_2d_tile_program e s ks t grains data_banks weight_banks SharedImage))))))"

end
