(* ===== verification/ConvRelocation.thy ===== *)
theory ConvRelocation
  imports ConvProgram
begin

text \<open>
  Relocation of a convolution program: the four address registers are each written exactly once,
  so relocation always succeeds on sixteen-byte aligned buffers and changes those four words only.
\<close>

section \<open>The registers a program writes\<close>

lemma conv_writes_in_range:
  "\<forall>(R, fs) \<in> set (conv_writes e s t v g db wb). reg_domain R < 2 ^ 16 \<and> reg_offset R < 2 ^ 16"
  by (simp add: conv_writes_def preamble_commands_def cna_commands_defs core_commands_def dpu_commands_defs
      dpu_rdma_commands_def Let_def case_prod_beta cna_block_registers core_block_registers
      dpu_block_registers dpu_rdma_block_registers domain_defs)

text \<open>The four registers, and how often a program writes each.\<close>

definition address_registers :: "register_meta list" where
  "address_registers = [CnaFeatureDataAddr, CnaDcompAddr0, DpuRdmaBsBaseAddr, DpuDstBaseAddr]"

definition written_once :: "(nat \<times> nat) list \<Rightarrow> bool" where
  "written_once as \<longleftrightarrow> (\<forall>R \<in> set address_registers. count_list as (reg_address R) = 1)"

lemmas address_register_defs =
  address_registers_def CnaFeatureDataAddr_def CnaDcompAddr0_def DpuRdmaBsBaseAddr_def
  DpuDstBaseAddr_def reg_address_def domain_defs

lemma address_registers_distinct: "distinct (map reg_address address_registers)"
  by (simp add: address_register_defs)

lemma conv_writes_addresses_once:
  "written_once (map (reg_address \<circ> fst) (conv_writes e s t v g db wb))"
  by (simp add: written_once_def address_registers_def reg_address_def conv_writes_def
      preamble_commands_def cna_commands_defs core_commands_def dpu_commands_defs dpu_rdma_commands_def
      Let_def case_prod_beta cna_block_registers core_block_registers
      dpu_block_registers dpu_rdma_block_registers domain_defs)

lemma conv_trailer_domains: "\<forall>w \<in> set conv_trailer. fst (cmd_address w) \<in> {0, 0x41, 0x81, 0x101}"
  by (simp add: conv_trailer_def cmd_address_def trailer_fields zero_register_def build_fields
      PCRegisterAmounts_def domain_defs)

lemma tile_program_addresses:
  assumes "conv_2d_tile_program e s ks t g db wb placement = Done program"
  shows "written_once (map cmd_address program)"
proof -
  obtain v cmds where cmds: "write_all (conv_writes e s t v g db wb) = Done cmds"
    and program: "program = cmds @ conv_trailer"
    using assms by (auto simp: conv_2d_tile_program_def obind_eq_Done)
  have "map cmd_address cmds = map (reg_address \<circ> fst) (conv_writes e s t v g db wb)"
    using write_all_keys(1) [OF cmds conv_writes_in_range] .
  moreover have "count_list (map cmd_address conv_trailer) (reg_address R) = 0"
    if "R \<in> set address_registers" for R
  proof -
    have "fst (reg_address R) \<notin> {0, 0x41, 0x81, 0x101}" using that by (auto simp: address_register_defs)
    then have "reg_address R \<notin> set (map cmd_address conv_trailer)" using conv_trailer_domains by auto
    then show ?thesis by (rule count_list_0_iff [THEN iffD2])
  qed
  ultimately show ?thesis
    using conv_writes_addresses_once [of e s t v g db wb] by (simp add: written_once_def program)
qed

section \<open>One register\<close>

lemma filter_index_once:
  assumes "\<forall>x \<in> set us. \<not> P x" "P w" "\<forall>x \<in> set vs. \<not> P x"
  shows "filter (\<lambda>i. P ((us @ w # vs) ! i)) [0..<length (us @ w # vs)] = [length us]"
proof -
  have "[0..<length (us @ w # vs)] =
      [0..<length us] @ length us # [Suc (length us)..<length us + Suc (length vs)]"
    by (metis length_append length_Cons le_add1 less_add_Suc1 upt_add_eq_append upt_conv_Cons zero_le add_Suc_right)
  moreover have "filter (\<lambda>i. P ((us @ w # vs) ! i)) [0..<length us] = []"
    using assms(1) by (auto simp: filter_empty_conv nth_append)
  moreover have "filter (\<lambda>i. P ((us @ w # vs) ! i)) [Suc (length us)..<length us + Suc (length vs)] = []"
    using assms(3) by (auto simp: filter_empty_conv nth_append nth_Cons')
  ultimately show ?thesis using assms(2) by simp
qed

lemma count_list_once:
  assumes "count_list (map f xs) a = 1"
  obtains us w vs where "xs = us @ w # vs" "\<forall>x \<in> set us. f x \<noteq> a" "f w = a" "\<forall>x \<in> set vs. f x \<noteq> a"
proof -
  have "a \<in> set (map f xs)" using assms by (metis count_list_0_iff zero_neq_one)
  then obtain w where "w \<in> set xs" "f w = a" by auto
  then obtain us vs where xs: "xs = us @ w # vs" by (meson split_list)
  then have "count_list (map f us) a = 0" "count_list (map f vs) a = 0"
    using assms \<open>f w = a\<close> by auto
  then have "a \<notin> f ` set us" "a \<notin> f ` set vs" by (simp_all add: count_list_0_iff)
  then show thesis using \<open>f w = a\<close> by (intro that [OF xs] ballI) (metis imageI)+
qed

definition bound_word :: "register_meta \<Rightarrow> nat \<Rightarrow> bool \<Rightarrow> reg_cmd \<Rightarrow> reg_cmd" where
  "bound_word R address keep w =
     (if cmd_address w = reg_address R
      then regcmd_new (reg_domain R) (reg_offset R)
             (word_of_nat address + (if keep then cmd_value w else 0))
      else w)"

lemma relocate_one_map:
  assumes "count_list (map cmd_address cmds) (reg_address R) = 1"
  shows "relocate_one R address keep cmds =
    (if address mod 16 = 0 then Done (map (bound_word R address keep) cmds) else Panicked)"
proof -
  obtain us w vs where cmds: "cmds = us @ w # vs" and out: "\<forall>x \<in> set us. cmd_address x \<noteq> reg_address R"
    "cmd_address w = reg_address R" "\<forall>x \<in> set vs. cmd_address x \<noteq> reg_address R"
    using count_list_once [OF assms] .
  have "map (bound_word R address keep) us = us" "map (bound_word R address keep) vs = vs"
    using out by (auto simp: bound_word_def intro!: map_idI)
  then show ?thesis
    using filter_index_once [where P = "\<lambda>w. cmd_address w = reg_address R", OF out]
    by (simp add: relocate_one_def cmds out(2) bound_word_def [of R address keep w])
qed

lemma new_word_address:
  "R \<in> set address_registers \<Longrightarrow> cmd_address (regcmd_new (reg_domain R) (reg_offset R) r) = reg_address R"
  by (auto simp: cmd_address_def regcmd_new_fields address_register_defs)

lemma bound_word_address:
  "R \<in> set address_registers \<Longrightarrow> cmd_address (bound_word R address keep w) = cmd_address w"
  by (simp add: bound_word_def new_word_address)

section \<open>The four registers\<close>

text \<open>What relocation makes of one word.\<close>

definition relocated_word :: "bool \<Rightarrow> dma_buffers \<Rightarrow> reg_cmd \<Rightarrow> reg_cmd" where
  "relocated_word keep b w =
     (let rebased = (\<lambda>R base old. regcmd_new (reg_domain R) (reg_offset R) (word_of_nat base + old)) in
      if cmd_address w = reg_address CnaFeatureDataAddr
      then rebased CnaFeatureDataAddr (input_buffer b) (cmd_value w)
      else if cmd_address w = reg_address CnaDcompAddr0
      then rebased CnaDcompAddr0 (weights_buffer b) (cmd_value w)
      else if cmd_address w = reg_address DpuRdmaBsBaseAddr
      then rebased DpuRdmaBsBaseAddr (bias_buffer b) (cmd_value w)
      else if cmd_address w = reg_address DpuDstBaseAddr
      then rebased DpuDstBaseAddr (output_buffer b) (if keep then cmd_value w else 0)
      else w)"

definition aligned_buffers :: "dma_buffers \<Rightarrow> bool" where
  "aligned_buffers b \<longleftrightarrow> input_buffer b mod 16 = 0 \<and> weights_buffer b mod 16 = 0
     \<and> bias_buffer b mod 16 = 0 \<and> output_buffer b mod 16 = 0"

lemma relocate_output_map:
  assumes once: "written_once (map cmd_address cmds)"
  shows "relocate_output keep b cmds =
    (if aligned_buffers b then Done (map (relocated_word keep b) cmds) else Panicked)"
proof -
  have count: "count_list (map cmd_address cmds) (reg_address R) = 1" if "R \<in> set address_registers" for R
    using once that by (simp add: written_once_def)
  have mem: "CnaFeatureDataAddr \<in> set address_registers" "CnaDcompAddr0 \<in> set address_registers"
    "DpuRdmaBsBaseAddr \<in> set address_registers" "DpuDstBaseAddr \<in> set address_registers"
    by (simp_all add: address_registers_def)
  have keys: "map cmd_address (map (bound_word R a k) cs) = map cmd_address cs"
    if "R \<in> set address_registers" for R a k cs
    using bound_word_address [OF that] by simp
  let ?f = "bound_word CnaFeatureDataAddr (input_buffer b) True"
  let ?w = "bound_word CnaDcompAddr0 (weights_buffer b) True"
  let ?s = "bound_word DpuRdmaBsBaseAddr (bias_buffer b) True"
  let ?d = "bound_word DpuDstBaseAddr (output_buffer b) keep"
  have "relocate_output keep b cmds =
      (if aligned_buffers b then Done (map ?d (map ?s (map ?w (map ?f cmds)))) else Panicked)"
    unfolding relocate_output_def aligned_buffers_def
    by (simp add: relocate_one_map count keys mem del: map_map)
  moreover have "?d (?s (?w (?f w))) = relocated_word keep b w" for w
  proof -
    have ne: "reg_address CnaFeatureDataAddr \<noteq> reg_address CnaDcompAddr0"
      "reg_address CnaFeatureDataAddr \<noteq> reg_address DpuRdmaBsBaseAddr"
      "reg_address CnaFeatureDataAddr \<noteq> reg_address DpuDstBaseAddr"
      "reg_address CnaDcompAddr0 \<noteq> reg_address DpuRdmaBsBaseAddr"
      "reg_address CnaDcompAddr0 \<noteq> reg_address DpuDstBaseAddr"
      "reg_address DpuRdmaBsBaseAddr \<noteq> reg_address DpuDstBaseAddr"
      using address_registers_distinct by (simp_all add: address_registers_def)
    note at = ne ne [symmetric] mem [THEN new_word_address] bound_word_def
    consider "cmd_address w = reg_address CnaFeatureDataAddr" | "cmd_address w = reg_address CnaDcompAddr0"
      | "cmd_address w = reg_address DpuRdmaBsBaseAddr" | "cmd_address w = reg_address DpuDstBaseAddr"
      | "cmd_address w \<notin> reg_address ` set address_registers"
      by (auto simp: address_registers_def)
    then show ?thesis
    proof cases
      case 5
      then show ?thesis by (simp add: bound_word_def relocated_word_def Let_def address_registers_def)
    qed (simp_all add: relocated_word_def Let_def at)
  qed
  ultimately show ?thesis by (simp add: comp_def)
qed

end
