(* ===== verification/ConvTask.thy ===== *)
theory ConvTask
  imports ConvRelocation
begin

text \<open>
  A convolution program as the device reads it: the task decoded from its registers, and the values
  the builder put in them.
\<close>

section \<open>A task as the device reads it\<close>

text \<open>
  Each extent is programmed in several blocks; a field that several registers repeat is a list, the
  fetch block first. Output extents past the first entry are stored less one.
\<close>

record conv_task =
  ct_window :: "(nat \<times> nat) list"
  ct_in_channels :: "nat \<times> nat \<times> nat"
  ct_output_widths :: "nat list"
  ct_output_heights :: "nat list"
  ct_atomics :: nat
  ct_out_channels :: "nat list"
  ct_kernel :: "nat \<times> nat \<times> nat"
  ct_weight_bytes :: "nat \<times> nat"
  ct_stride :: "nat \<times> nat"
  ct_pad :: "nat \<times> nat"
  ct_pad_value :: nat
  ct_grains :: nat
  ct_banks :: "nat \<times> nat"
  ct_entries :: nat
  ct_source :: nat
  ct_source_strides :: "nat \<times> nat"
  ct_destination :: nat
  ct_surface :: nat
  ct_surface_add :: nat
  ct_notch :: "nat \<times> nat"
  ct_modes :: "nat list"
  ct_precisions :: "nat list"
  ct_conversion :: "nat \<times> nat \<times> nat"
  ct_coefficients_bias :: "nat \<times> nat"

definition read_conv :: "reg_cmd list \<Rightarrow> conv_task" where
  "read_conv p =
     \<lparr>ct_window = [(field_at p CnaDataSize0 11 16, field_at p CnaDataSize0 11 0),
        (field_at p CnaFcDataSize0 14 16, field_at p CnaFcDataSize0 11 0)],
      ct_in_channels = (field_at p CnaDataSize1 14 16, field_at p CnaDataSize1 16 0,
        field_at p CnaFcDataSize1 16 0),
      ct_output_widths = [field_at p CnaDataSize2 11 0, field_at p CoreDataoutSize0 16 0 + 1,
        field_at p DpuDataCubeWidth 13 0 + 1, field_at p DpuWdmaSize1 13 0 + 1,
        field_at p DpuRdmaDataCubeWidth 13 0 + 1],
      ct_output_heights = [field_at p CoreDataoutSize0 16 16 + 1, field_at p DpuDataCubeHeight 13 0 + 1,
        field_at p DpuWdmaSize1 13 16 + 1, field_at p DpuRdmaDataCubeHeight 13 0 + 1],
      ct_atomics = field_at p CnaDataSize3 22 0,
      ct_out_channels = [field_at p DpuDataCubeChannel 13 16 + 1, field_at p CoreDataoutSize1 16 0 + 1,
        field_at p DpuDataCubeChannel 13 0 + 1, field_at p DpuWdmaSize0 13 0 + 1,
        field_at p DpuRdmaDataCubeChannel 13 0 + 1],
      ct_kernel = (field_at p CnaWeightSize2 5 24, field_at p CnaWeightSize2 5 16,
        field_at p CnaWeightSize2 14 0),
      ct_weight_bytes = (field_at p CnaWeightSize0 32 0, field_at p CnaWeightSize1 19 0),
      ct_stride = (field_at p CnaConvCon3 3 0, field_at p CnaConvCon3 3 3),
      ct_pad = (field_at p CnaPadCon0 4 0, field_at p CnaPadCon0 4 4),
      ct_pad_value = field_at p CnaPadCon1 32 0,
      ct_grains = field_at p CnaConvCon2 10 4,
      ct_banks = (field_at p CnaCbufCon0 4 0, field_at p CnaCbufCon0 4 4),
      ct_entries = field_at p CnaCbufCon1 15 0,
      ct_source = field_at p CnaFeatureDataAddr 32 0,
      ct_source_strides = (field_at p CnaDmaCon1 28 0, field_at p CnaDmaCon2 28 0),
      ct_destination = field_at p DpuDstBaseAddr 32 0,
      ct_surface = field_at p DpuDstSurfStride 28 4,
      ct_surface_add = field_at p DpuSurfaceAdd 28 4,
      ct_notch = (field_at p DpuDataCubeNotchAddr 13 0, field_at p DpuDataCubeNotchAddr 13 16),
      ct_modes = [field_at p CnaConvCon1 4 0, field_at p DpuFeatureModeCfg 2 3,
        field_at p DpuRdmaFeatureModeCfg 2 1],
      ct_precisions = [field_at p CnaConvCon1 3 4, field_at p CnaConvCon1 3 7, field_at p DpuDataFormat 3 26,
        field_at p DpuDataFormat 3 0, field_at p DpuDataFormat 3 29],
      ct_conversion = (field_at p DpuOutCvtOffset 32 0, field_at p DpuOutCvtScale 16 0,
        field_at p DpuOutCvtShift 12 0),
      ct_coefficients_bias = (field_at p CnaDcompAddr0 32 0, field_at p DpuRdmaBsBaseAddr 32 0)\<rparr>"

section \<open>The last write of every register\<close>

text \<open>The preamble's first four registers are written again; from there on every register is written once.\<close>

definition later_writes :: "conv_env \<Rightarrow> shape \<Rightarrow> tile2d \<Rightarrow> conv_values \<Rightarrow> nat \<Rightarrow> nat \<Rightarrow> nat \<Rightarrow> writes" where
  "later_writes e s t v g db wb = drop 4 (conv_writes e s t v g db wb)"

lemmas conv_block_defs =
  preamble_commands_def cna_commands_defs core_commands_def dpu_commands_defs dpu_rdma_commands_def
  Let_def case_prod_beta

lemmas conv_block_registers =
  cna_block_registers core_block_registers dpu_block_registers dpu_rdma_block_registers

lemmas conv_block_setters =
  cna_block_setters core_block_setters dpu_block_setters dpu_rdma_block_setters

lemma later_writes_once: "distinct (map (reg_address \<circ> fst) (later_writes e s t v g db wb))"
  by (simp add: later_writes_def conv_writes_def conv_block_defs reg_address_def conv_block_registers domain_defs)

lemma later_writes_domain:
  "\<forall>x \<in> set (map (reg_address \<circ> fst) (later_writes e s t v g db wb)). fst x \<in> {0x201, 0x801, 0x1001, 0x2001}"
  by (simp add: later_writes_def conv_writes_def conv_block_defs reg_address_def conv_block_registers domain_defs)

lemma conv_register_value:
  assumes cmds: "write_all (conv_writes e s t v g db wb) = Done cmds"
    and mem: "(R, fs) \<in> set (later_writes e s t v g db wb)"
  shows "\<exists>r. register_value (cmds @ conv_trailer) R = Some r \<and> apply_setters fs 0 = Done r"
proof -
  let ?first = "take 4 (conv_writes e s t v g db wb)"
  have "write_all (?first @ later_writes e s t v g db wb) = Done cmds"
    using cmds by (simp add: later_writes_def)
  then obtain a b where b: "write_all (later_writes e s t v g db wb) = Done b" and cmds_eq: "cmds = a @ b"
    by (auto simp: write_all_append obind_eq_Done)
  have range: "\<forall>(R, fs) \<in> set (later_writes e s t v g db wb). reg_domain R < 2 ^ 16 \<and> reg_offset R < 2 ^ 16"
    using conv_writes_in_range [of e s t v g db wb] by (auto simp: later_writes_def dest!: in_set_dropD)
  have "cmd_address w \<notin> set (map (reg_address \<circ> fst) (later_writes e s t v g db wb))"
    if "w \<in> set conv_trailer" for w
  proof
    assume "cmd_address w \<in> set (map (reg_address \<circ> fst) (later_writes e s t v g db wb))"
    then have "fst (cmd_address w) \<in> {0x201, 0x801, 0x1001, 0x2001}" using later_writes_domain by blast
    then show False using conv_trailer_domains that by auto
  qed
  then obtain r where "register_value (b @ conv_trailer) R = Some r" "apply_setters fs 0 = Done r"
    using write_all_value [OF b range later_writes_once _ mem] by blast
  then show ?thesis unfolding cmds_eq append_assoc using register_value_append by blast
qed


lemma blocks_of_program:
  "set (cna_commands s t v g db wb) \<subseteq> set (later_writes e s t v g db wb)"
  "set (core_commands e s t v) \<subseteq> set (later_writes e s t v g db wb)"
  "set (dpu_commands e s t v) \<subseteq> set (later_writes e s t v g db wb)"
  "set (dpu_rdma_commands e s t v) \<subseteq> set (later_writes e s t v g db wb)"
  by (auto simp: later_writes_def conv_writes_def preamble_commands_def)

text \<open>A field as its register's own setters leave it.\<close>

lemma field_at_written:
  assumes cmds: "write_all (conv_writes e s t v g db wb) = Done cmds"
    and block: "set block \<subseteq> set (later_writes e s t v g db wb)" and mem: "(R, fs) \<in> set block"
    and field: "\<forall>r. apply_setters fs 0 = Done r \<longrightarrow> field_of n sh r = x"
  shows "field_at (cmds @ conv_trailer) R n sh = x"
  using conv_register_value [OF cmds subsetD [OF block mem]] field
  by (auto simp: field_at_def field_value_def)

lemma core_read_back:
  assumes "write_all (conv_writes e s t v g db wb) = Done cmds"
  shows "field_at (cmds @ conv_trailer) CoreDataoutSize0 16 0 = sub32 (cv_out_width v) 1"
    "field_at (cmds @ conv_trailer) CoreDataoutSize0 16 16 = sub32 (out_rows (t_rows t)) 1"
    "field_at (cmds @ conv_trailer) CoreDataoutSize1 16 0 = sub32 (cv_padded_out_channels v) 1"
  by (rule field_at_written [OF assms(1) blocks_of_program(2), unfolded core_commands_def],
      (rule list.set_intros(1) | rule list.set_intros(2))+,
      simp add: core_block_setters setter_steps  split: if_splits feature_layout.splits)+

lemma dpu_rdma_read_back:
  assumes "write_all (conv_writes e s t v g db wb) = Done cmds"
  shows "field_at (cmds @ conv_trailer) DpuRdmaDataCubeWidth 13 0 = sub32 (cv_out_width v) 1"
    "field_at (cmds @ conv_trailer) DpuRdmaDataCubeHeight 13 0 = sub32 (out_rows (t_rows t)) 1"
    "field_at (cmds @ conv_trailer) DpuRdmaDataCubeChannel 13 0 = sub32 (cv_padded_out_channels v) 1"
    "field_at (cmds @ conv_trailer) DpuRdmaFeatureModeCfg 2 1 = conv_mode s"
    "field_at (cmds @ conv_trailer) DpuRdmaBsBaseAddr 32 0 = 0"
  by (rule field_at_written [OF assms(1) blocks_of_program(4), unfolded dpu_rdma_commands_def Let_def],
      (rule list.set_intros(1) | rule list.set_intros(2))+,
      simp add: dpu_rdma_block_setters setter_steps  split: if_splits feature_layout.splits)+

lemma dpu_read_back:
  assumes "write_all (conv_writes e s t v g db wb) = Done cmds"
    and "cv_output_base_offset v < 2 ^ 32" "fst (output_conversion s) < 2 ^ 32"
  shows "field_at (cmds @ conv_trailer) DpuDataCubeWidth 13 0 = sub32 (cv_out_width v) 1"
    "field_at (cmds @ conv_trailer) DpuWdmaSize1 13 0 = sub32 (cv_out_width v) 1"
    "field_at (cmds @ conv_trailer) DpuDataCubeHeight 13 0 = sub32 (out_rows (t_rows t)) 1"
    "field_at (cmds @ conv_trailer) DpuWdmaSize1 13 16 = sub32 (out_rows (t_rows t)) 1"
    "field_at (cmds @ conv_trailer) DpuDataCubeChannel 13 16 = sub32 (out_channels s) 1"
    "field_at (cmds @ conv_trailer) DpuDataCubeChannel 13 0 = sub32 (cv_padded_out_channels v) 1"
    "field_at (cmds @ conv_trailer) DpuWdmaSize0 13 0 = sub32 (cv_padded_out_channels v) 1"
    "field_at (cmds @ conv_trailer) DpuDstBaseAddr 32 0 = cv_output_base_offset v"
    "field_at (cmds @ conv_trailer) DpuDstSurfStride 28 4 = cv_output_surface_pixels v"
    "field_at (cmds @ conv_trailer) DpuSurfaceAdd 28 4 = surf_add e s t v"
    "field_at (cmds @ conv_trailer) DpuDataCubeNotchAddr 13 0 = cv_output_notch v"
    "field_at (cmds @ conv_trailer) DpuDataCubeNotchAddr 13 16 = cv_output_notch v"
    "field_at (cmds @ conv_trailer) DpuFeatureModeCfg 2 3 = conv_mode s"
    "field_at (cmds @ conv_trailer) DpuDataFormat 3 26 = output_code (dpu_data_precision (precision s))"
    "field_at (cmds @ conv_trailer) DpuDataFormat 3 0 = output_code (dpu_data_precision (precision s))"
    "field_at (cmds @ conv_trailer) DpuDataFormat 3 29 = output_precision_bits e s"
    "field_at (cmds @ conv_trailer) DpuOutCvtOffset 32 0 = fst (output_conversion s)"
    "field_at (cmds @ conv_trailer) DpuOutCvtScale 16 0 = fst (snd (output_conversion s))"
    "field_at (cmds @ conv_trailer) DpuOutCvtShift 12 0 = snd (snd (output_conversion s))"
  by (rule field_at_written [OF assms(1) blocks_of_program(3), unfolded dpu_commands_defs Let_def case_prod_beta append.simps],
      (rule list.set_intros(1) | rule list.set_intros(2))+,
      simp add: dpu_block_setters setter_steps assms(2,3) [simplified] split: if_splits feature_layout.splits)+

definition pad_value_of :: "shape \<Rightarrow> nat" where
  "pad_value_of s = (case quantization_of (precision s) of Some q \<Rightarrow> i32_bits (input_zero_point q) | None \<Rightarrow> 0)"

lemma pad_value_of_less: "pad_value_of s < 2 ^ 32"
  by (simp add: pad_value_of_def i32_bits_def nat_less_iff split: option.split)

lemma cna_read_back:
  assumes "write_all (conv_writes e s t v g db wb) = Done cmds"
    and "cv_input_offset v < 2 ^ 32" "cv_weight_bytes v < 2 ^ 32"
  shows "field_at (cmds @ conv_trailer) CnaDataSize0 11 16 = cv_input_width v"
    "field_at (cmds @ conv_trailer) CnaDataSize0 11 0 = in_rows (t_rows t)"
    "field_at (cmds @ conv_trailer) CnaFcDataSize0 14 16 = cv_input_width v"
    "field_at (cmds @ conv_trailer) CnaFcDataSize0 11 0 = in_rows (t_rows t)"
    "field_at (cmds @ conv_trailer) CnaDataSize1 14 16 = sub32 (in_channels s) 1 mod 64"
    "field_at (cmds @ conv_trailer) CnaDataSize1 16 0 = cv_padded_channels v"
    "field_at (cmds @ conv_trailer) CnaFcDataSize1 16 0 = cv_padded_channels v"
    "field_at (cmds @ conv_trailer) CnaDataSize2 11 0 = cv_out_width v"
    "field_at (cmds @ conv_trailer) CnaDataSize3 22 0 = wrap32 (cv_out_width v * out_rows (t_rows t))"
    "field_at (cmds @ conv_trailer) CnaWeightSize2 5 24 = cv_kernel_width v"
    "field_at (cmds @ conv_trailer) CnaWeightSize2 5 16 = cv_kernel_height v"
    "field_at (cmds @ conv_trailer) CnaWeightSize2 14 0 = programmed_kernels s"
    "field_at (cmds @ conv_trailer) CnaWeightSize0 32 0 = cv_weight_bytes v"
    "field_at (cmds @ conv_trailer) CnaWeightSize1 19 0 = cv_weight_bytes_per_kernel v"
    "field_at (cmds @ conv_trailer) CnaConvCon3 3 0 = stride s"
    "field_at (cmds @ conv_trailer) CnaConvCon3 3 3 = stride s"
    "field_at (cmds @ conv_trailer) CnaPadCon0 4 0 = pad_top (t_rows t)"
    "field_at (cmds @ conv_trailer) CnaPadCon0 4 4 = col_pad_left (t_columns t)"
    "field_at (cmds @ conv_trailer) CnaPadCon1 32 0 = pad_value_of s"
    "field_at (cmds @ conv_trailer) CnaConvCon2 10 4 = g"
    "field_at (cmds @ conv_trailer) CnaCbufCon0 4 0 = db"
    "field_at (cmds @ conv_trailer) CnaCbufCon0 4 4 = wb"
    "field_at (cmds @ conv_trailer) CnaCbufCon1 15 0 = cv_data_entries v"
    "field_at (cmds @ conv_trailer) CnaFeatureDataAddr 32 0 = cv_input_offset v"
    "field_at (cmds @ conv_trailer) CnaDmaCon1 28 0 = cv_line_stride v"
    "field_at (cmds @ conv_trailer) CnaDmaCon2 28 0 = cv_surf_stride v"
    "field_at (cmds @ conv_trailer) CnaConvCon1 4 0 = conv_mode s"
    "field_at (cmds @ conv_trailer) CnaDcompAddr0 32 0 = 0"
    "field_at (cmds @ conv_trailer) CnaConvCon1 3 4 = data_code (data_precision (precision s))"
    "field_at (cmds @ conv_trailer) CnaConvCon1 3 7 = data_code (data_precision (precision s))"
  by (rule field_at_written [OF assms(1) blocks_of_program(1), unfolded cna_commands_defs append.simps cbuf_con0_def],
      (rule list.set_intros(1) | rule list.set_intros(2))+,
      simp add: cna_block_setters conv_con1_def pad_value_of_def [symmetric] setter_steps assms(2,3) [simplified] pad_value_of_less [of s, simplified] split: if_splits feature_layout.splits)+

end
