(* ===== verification/TileProofs.thy ===== *)
theory TileProofs
  imports ConvPlan
begin

text \<open>
  The geometry lemmas: what the constructors guarantee of a shape, the overflow-free reading of
  output extents and tiles under that guarantee, and the partition facts of the three ways the
  planner cuts rows and of the way it cuts columns.
\<close>

section \<open>Shapes the constructors build\<close>

definition valid_shape :: "shape \<Rightarrow> bool" where
  "valid_shape s \<longleftrightarrow> 0 < width s \<and> 0 < height s \<and> 0 < stride s \<and> 0 < in_channels s
     \<and> 0 < out_channels s \<and> width s * height s * 16 < 2 ^ 32 \<and> u32_shape s
     \<and> (precision s = Int4 \<longrightarrow> in_channels s mod 32 = 0)"

text \<open>Kernel facts and extents: everything the planner has checked before it cuts tiles.\<close>

definition geometry :: "shape \<Rightarrow> kernels \<Rightarrow> kernel_programming \<Rightarrow> bool" where
  "geometry s ks k \<longleftrightarrow> valid_shape s \<and> try_kernel_programming s ks = Done k
     \<and> k_width k \<le> width s + 2 * k_pad_left k \<and> k_height k \<le> height s + 2 * k_pad_top k"

definition out_w :: "shape \<Rightarrow> kernel_programming \<Rightarrow> nat" where
  "out_w s k = (width s + 2 * k_pad_left k - k_width k) div stride s + 1"

definition out_h :: "shape \<Rightarrow> kernel_programming \<Rightarrow> nat" where
  "out_h s k = (height s + 2 * k_pad_top k - k_height k) div stride s + 1"

lemma kernel_programming_bounds:
  assumes "try_kernel_programming s ks = Done k"
  shows "1 \<le> k_height k" "k_height k \<le> 11" "1 \<le> k_width k" "k_width k \<le> 11"
    "k_pad_top k < k_height k" "k_pad_left k < k_width k"
    "k_height k = fst ks" "k_width k = snd ks"
  using assms
  by (auto simp: try_kernel_programming_def try_kernel_programming_of_def Let_def outcome_done
           split: prod.splits)

lemma geometry_bounds:
  assumes "geometry s ks k"
  shows "0 < width s" "0 < height s" "0 < stride s" "width s < 268435456" "height s < 268435456"
    "stride s < 4294967296"
proof -
  from assms have v: "0 < width s" "0 < height s" "0 < stride s" "width s * height s * 16 < 4294967296"
    "stride s < 4294967296"
    by (simp_all add: geometry_def valid_shape_def u32_shape_def)
  then have "width s * height s < 268435456" by linarith
  moreover have "width s \<le> width s * height s" "height s \<le> width s * height s"
    using v by simp_all
  ultimately show "width s < 268435456" "height s < 268435456" by linarith+
  show "0 < width s" "0 < height s" "0 < stride s" "stride s < 4294967296" by fact+
qed

lemma geometry_kernel:
  assumes "geometry s ks k"
  shows "1 \<le> k_height k" "k_height k \<le> 11" "1 \<le> k_width k" "k_width k \<le> 11"
    "k_pad_top k < k_height k" "k_pad_left k < k_width k"
    "k_width k \<le> width s + 2 * k_pad_left k" "k_height k \<le> height s + 2 * k_pad_top k"
  using assms kernel_programming_bounds [of s ks k] by (auto simp: geometry_def)

lemma kernel_prog_Done [outcome_intro]:
  "geometry s ks k \<Longrightarrow> kernel_prog s ks = Done k"
  by (simp add: geometry_def kernel_prog_def kernel_programming_of_def try_kernel_programming_def)

lemma output_width_Done [outcome_intro]:
  assumes g: "geometry s ks k"
  shows "output_width s ks = Done (out_w s k)"
proof -
  note b = geometry_bounds [OF g] geometry_kernel [OF g]
  have "(width s + 2 * k_pad_left k - k_width k) div stride s + 1 < 4294967296"
    using b div_le_dividend [of "width s + 2 * k_pad_left k - k_width k" "stride s"] by linarith
  then show ?thesis
    using b by (simp add: output_width_def kernel_prog_Done [OF g] out_w_def)
qed

lemma output_height_Done [outcome_intro]:
  assumes g: "geometry s ks k"
  shows "output_height s ks = Done (out_h s k)"
proof -
  note b = geometry_bounds [OF g] geometry_kernel [OF g]
  have "(height s + 2 * k_pad_top k - k_height k) div stride s + 1 < 4294967296"
    using b div_le_dividend [of "height s + 2 * k_pad_top k - k_height k" "stride s"] by linarith
  then show ?thesis
    using b by (simp add: output_height_def kernel_prog_Done [OF g] out_h_def)
qed

lemma out_w_pos [simp]: "0 < out_w s k"
  by (simp add: out_w_def)

lemma out_h_pos [simp]: "0 < out_h s k"
  by (simp add: out_h_def)

text \<open>The last output position projects inside the padded input.\<close>

lemma last_output_row_projects:
  assumes g: "geometry s ks k" and r: "r < out_h s k"
  shows "r * stride s + k_height k \<le> height s + 2 * k_pad_top k"
proof -
  have "r \<le> (height s + 2 * k_pad_top k - k_height k) div stride s"
    using r by (simp add: out_h_def)
  then have "r * stride s \<le> height s + 2 * k_pad_top k - k_height k"
    by (metis div_times_less_eq_dividend le_trans mult_le_mono1)
  then show ?thesis using geometry_kernel [OF g] by simp
qed

lemma last_output_column_projects:
  assumes g: "geometry s ks k" and c: "c < out_w s k"
  shows "c * stride s + k_width k \<le> width s + 2 * k_pad_left k"
proof -
  have "c \<le> (width s + 2 * k_pad_left k - k_width k) div stride s"
    using c by (simp add: out_w_def)
  then have "c * stride s \<le> width s + 2 * k_pad_left k - k_width k"
    by (metis div_times_less_eq_dividend le_trans mult_le_mono1)
  then show ?thesis using geometry_kernel [OF g] by simp
qed

text \<open>
  The stride times a tile's extent never wraps: with two or more outputs the stride is at most
  the padded extent, and with one it is a single \<open>u32\<close>.
\<close>

lemma extent_times_stride_fits:
  fixes st p n :: nat
  assumes st: "st < 4294967296" and p: "p < 536870912" and n: "(n - 1) * st \<le> p"
  shows "n * st < 4294967296"
proof (cases "n \<le> 1")
  case True
  then show ?thesis using st by (cases n) auto
next
  case False
  then obtain m where m: "n = Suc (Suc m)" by (cases n; cases "n - 1") auto
  have "n * st = (n - 1) * st + st" using m by simp
  moreover have "st \<le> (n - 1) * st" using m by simp
  ultimately show ?thesis using n p by linarith
qed

section \<open>Row tiles without overflow\<close>

lemma tile_at_eq:
  assumes g: "geometry s ks k" and r: "0 < rows" "first + rows \<le> out_h s k"
  defines "pad \<equiv> k_pad_top k"
  defines "in_f \<equiv> first * stride s - pad"
  defines "in_last \<equiv> min ((first + rows - 1) * stride s + k_height k - 1 - pad) (height s - 1)"
  shows "tile_at s k first rows =
    \<lparr>out_first = first, out_rows = rows, in_first = in_f,
     in_rows = min (max (in_last - in_f + 1) (rows * stride s)) (height s - in_f),
     pad_top = pad - first * stride s\<rparr>"
    and "in_f \<le> in_last" and "in_last < height s"
    and "last_tap_row s k first rows = (first + rows - 1) * stride s + k_height k - 1"
    and "first * stride s < 536870912" and "rows * stride s < 4294967296"
    and "last_tap_row s k first rows < 536870912"
proof -
  note b = geometry_bounds [OF g] geometry_kernel [OF g]
  have h29: "height s + 2 * k_pad_top k < 536870912" using b by linarith
  have last: "(first + rows - 1) * stride s + k_height k \<le> height s + 2 * k_pad_top k"
    using last_output_row_projects [OF g, of "first + rows - 1"] r by simp
  have mono: "first * stride s \<le> (first + rows - 1) * stride s"
    using r by (intro mult_le_mono1) simp
  have first29: "first * stride s < 536870912" using mono last b h29 by linarith
  have "(rows - 1) * stride s \<le> (first + rows - 1) * stride s"
    by (intro mult_le_mono1) simp
  then have "(rows - 1) * stride s \<le> height s + 2 * k_pad_top k"
    using last by linarith
  then have rows32: "rows * stride s < 4294967296"
    using b h29 by (intro extent_times_stride_fits [of _ "height s + 2 * k_pad_top k"]) simp_all
  have oh32: "first + rows < 4294967296"
  proof -
    have "out_h s k \<le> height s + 2 * k_pad_top k + 1"
      by (simp add: out_h_def order_trans [OF div_le_dividend diff_le_self])
    then show ?thesis using r(2) h29 by linarith
  qed
  have tap: "last_tap_row s k first rows = (first + rows - 1) * stride s + k_height k - 1"
    using last h29 b r oh32 by (simp add: last_tap_row_def)
  have fl: "in_f \<le> in_last"
    using mono last b unfolding in_f_def in_last_def pad_def min.bounded_iff
    by (intro conjI; linarith)
  have ll: "in_last < height s" using b by (simp add: in_last_def)
  have exact: "in_last - in_f + 1 < 4294967296" using ll b by linarith
  show "in_f \<le> in_last" "in_last < height s" "first * stride s < 536870912" "rows * stride s < 4294967296"
    "last_tap_row s k first rows = (first + rows - 1) * stride s + k_height k - 1"
    by fact+
  show "last_tap_row s k first rows < 536870912" using tap last h29 b by linarith
  have in_f: "saturating_sub (wrap32 (first * stride s)) (k_pad_top k) = in_f"
    using first29 by (simp add: saturating_sub_def in_f_def pad_def)
  have in_l: "min (saturating_sub (last_tap_row s k first rows) (k_pad_top k)) (sub32 (height s) 1)
                = in_last"
    using b by (simp add: saturating_sub_def tap in_last_def pad_def)
  have ex: "wrap32 (sub32 in_last in_f + 1) = in_last - in_f + 1"
    using fl exact by simp
  have hs: "sub32 (height s) in_f = height s - in_f"
    using fl ll by simp
  show "tile_at s k first rows =
    \<lparr>out_first = first, out_rows = rows, in_first = in_f,
     in_rows = min (max (in_last - in_f + 1) (rows * stride s)) (height s - in_f),
     pad_top = pad - first * stride s\<rparr>"
    unfolding tile_at_def Let_def in_f in_l ex hs
    using rows32 first29 by (simp add: saturating_sub_def pad_def)
qed

lemma int_diff_swap: "int (a - b) - int (b - a) = int a - int b"
  by linarith

lemma window_arith:
  fixes lo hi n h :: nat
  assumes "lo \<le> hi" and "hi < h"
  shows "0 < min (max (hi - lo + 1) n) (h - lo)"
    and "lo + min (max (hi - lo + 1) n) (h - lo) \<le> h"
    and "\<And>i. lo \<le> i \<Longrightarrow> i \<le> hi \<Longrightarrow> i < lo + min (max (hi - lo + 1) n) (h - lo)"
  using assms by (auto simp: min_def max_def)

text \<open>
  The halo theorem of one tile: its rows lie inside the image, its pad is what its first
  window still misses, and every tap of every output row it owns that falls inside the image
  is one of its rows.
\<close>

lemma tile_window:
  assumes g: "geometry s ks k" and r: "0 < rows" "first + rows \<le> out_h s k"
  defines "t \<equiv> tile_at s k first rows"
  shows "0 < in_rows t" and "in_first t + in_rows t \<le> height s"
    and "int (in_first t) - int (pad_top t) = int (first * stride s) - int (k_pad_top k)"
    and "\<And>row tap i. first \<le> row \<Longrightarrow> row < first + rows \<Longrightarrow> tap < k_height k \<Longrightarrow>
           row * stride s + tap = i + k_pad_top k \<Longrightarrow> i < height s \<Longrightarrow>
           in_first t \<le> i \<and> i < in_first t + in_rows t"
proof -
  note b = geometry_bounds [OF g] geometry_kernel [OF g]
  note eq = tile_at_eq [OF g r]
  note w = window_arith [OF eq(2,3), where n = "rows * stride s"]
  show "0 < in_rows t" "in_first t + in_rows t \<le> height s"
    unfolding t_def eq(1) tile.simps by (rule w)+
  show "int (in_first t) - int (pad_top t) = int (first * stride s) - int (k_pad_top k)"
    unfolding t_def eq(1) tile.simps by (rule int_diff_swap)
  fix row tap i
  assume row: "first \<le> row" "row < first + rows" and tap: "tap < k_height k"
    and i: "row * stride s + tap = i + k_pad_top k" "i < height s"
  have lo: "first * stride s \<le> row * stride s" using row by simp
  have hi: "row * stride s \<le> (first + rows - 1) * stride s"
    using row by (intro mult_le_mono1) linarith
  have "i \<le> (first + rows - 1) * stride s + k_height k - 1 - k_pad_top k"
    using hi tap i b by linarith
  then have "i \<le> min ((first + rows - 1) * stride s + k_height k - 1 - k_pad_top k) (height s - 1)"
    using i(2) by simp
  moreover have "first * stride s - k_pad_top k \<le> i" using lo tap i b by linarith
  ultimately show "in_first t \<le> i \<and> i < in_first t + in_rows t"
    unfolding t_def eq(1) tile.simps by (intro conjI w(3))
qed

lemma column_at_eq:
  assumes g: "geometry s ks k" and c: "0 < cols" "first + cols \<le> out_w s k"
  defines "pad \<equiv> k_pad_left k"
  defines "in_f \<equiv> first * stride s - pad"
  defines "in_last \<equiv> min ((first + cols - 1) * stride s + k_width k - 1 - pad) (width s - 1)"
  shows "column_at s k (out_w s k) first cols =
    \<lparr>col_out_first = first, col_out_cols = cols, col_in_first = in_f,
     col_in_cols = (if first = 0 \<and> first + cols = out_w s k then width s - in_f
                    else min (max (in_last - in_f + 1) (cols * stride s)) (width s - in_f)),
     col_pad_left = pad - first * stride s\<rparr>"
    and "in_f \<le> in_last" and "in_last < width s" and "first + cols < 4294967296"
proof -
  note b = geometry_bounds [OF g] geometry_kernel [OF g]
  have w29: "width s + 2 * k_pad_left k < 536870912" using b by linarith
  have last: "(first + cols - 1) * stride s + k_width k \<le> width s + 2 * k_pad_left k"
    using last_output_column_projects [OF g, of "first + cols - 1"] c by simp
  have mono: "first * stride s \<le> (first + cols - 1) * stride s"
    using c by (intro mult_le_mono1) simp
  have first29: "first * stride s < 536870912" using mono last b w29 by linarith
  have "(cols - 1) * stride s \<le> (first + cols - 1) * stride s"
    by (intro mult_le_mono1) simp
  then have "(cols - 1) * stride s \<le> width s + 2 * k_pad_left k"
    using last by linarith
  then have cols32: "cols * stride s < 4294967296"
    using b w29 by (intro extent_times_stride_fits [of _ "width s + 2 * k_pad_left k"]) simp_all
  have "out_w s k \<le> width s + 2 * k_pad_left k + 1"
    by (simp add: out_w_def order_trans [OF div_le_dividend diff_le_self])
  then show ow32: "first + cols < 4294967296" using c(2) w29 by linarith
  have tap: "sub32 (wrap32 (sub32 (wrap32 (first + cols)) 1 * stride s + k_width k)) 1
               = (first + cols - 1) * stride s + k_width k - 1"
    using last w29 b c ow32 by simp
  show fl: "in_f \<le> in_last"
    using mono last b unfolding in_f_def in_last_def pad_def min.bounded_iff
    by (intro conjI; linarith)
  show ll: "in_last < width s" using b by (simp add: in_last_def)
  have exact: "in_last - in_f + 1 < 4294967296" using ll b by linarith
  have in_f: "saturating_sub (wrap32 (first * stride s)) (k_pad_left k) = in_f"
    using first29 by (simp add: saturating_sub_def in_f_def pad_def)
  have in_l: "min (saturating_sub ((first + cols - 1) * stride s + k_width k - 1) (k_pad_left k))
                (sub32 (width s) 1) = in_last"
    using b by (simp add: saturating_sub_def in_last_def pad_def)
  have ex: "wrap32 (sub32 in_last in_f + 1) = in_last - in_f + 1"
    using fl exact by simp
  have ws: "sub32 (width s) in_f = width s - in_f"
    using fl ll by simp
  show "column_at s k (out_w s k) first cols =
    \<lparr>col_out_first = first, col_out_cols = cols, col_in_first = in_f,
     col_in_cols = (if first = 0 \<and> first + cols = out_w s k then width s - in_f
                    else min (max (in_last - in_f + 1) (cols * stride s)) (width s - in_f)),
     col_pad_left = pad - first * stride s\<rparr>"
    unfolding column_at_def Let_def tap in_f in_l ex ws
    using cols32 first29 ow32 by (simp add: saturating_sub_def pad_def)
qed

lemma column_window:
  assumes g: "geometry s ks k" and c: "0 < cols" "first + cols \<le> out_w s k"
  defines "t \<equiv> column_at s k (out_w s k) first cols"
  shows "0 < col_in_cols t" and "col_in_first t + col_in_cols t \<le> width s"
    and "int (col_in_first t) - int (col_pad_left t) = int (first * stride s) - int (k_pad_left k)"
    and "\<And>col tap i. first \<le> col \<Longrightarrow> col < first + cols \<Longrightarrow> tap < k_width k \<Longrightarrow>
           col * stride s + tap = i + k_pad_left k \<Longrightarrow> i < width s \<Longrightarrow>
           col_in_first t \<le> i \<and> i < col_in_first t + col_in_cols t"
proof -
  note b = geometry_bounds [OF g] geometry_kernel [OF g]
  note eq = column_at_eq [OF g c]
  note w = window_arith [OF eq(2,3), where n = "cols * stride s"]
  have full: "0 < width s - (first * stride s - k_pad_left k)"
    "first * stride s - k_pad_left k + (width s - (first * stride s - k_pad_left k)) \<le> width s"
    using eq(2,3) by linarith+
  show "0 < col_in_cols t" "col_in_first t + col_in_cols t \<le> width s"
    unfolding t_def eq(1) column_tile.simps using full w(1,2)
    by (simp_all only: simp_thms split: if_split)
  show "int (col_in_first t) - int (col_pad_left t) = int (first * stride s) - int (k_pad_left k)"
    unfolding t_def eq(1) column_tile.simps by (rule int_diff_swap)
  fix col tap i
  assume col: "first \<le> col" "col < first + cols" and tap: "tap < k_width k"
    and i: "col * stride s + tap = i + k_pad_left k" "i < width s"
  have lo: "first * stride s \<le> col * stride s" using col by simp
  have hi: "col * stride s \<le> (first + cols - 1) * stride s"
    using col by (intro mult_le_mono1) linarith
  have "i \<le> (first + cols - 1) * stride s + k_width k - 1 - k_pad_left k"
    using hi tap i b by linarith
  then have "i \<le> min ((first + cols - 1) * stride s + k_width k - 1 - k_pad_left k) (width s - 1)"
    using i(2) by simp
  moreover have lo_i: "first * stride s - k_pad_left k \<le> i" using lo tap i b by linarith
  ultimately have "i < first * stride s - k_pad_left k
      + min (max (min ((first + cols - 1) * stride s + k_width k - 1 - k_pad_left k) (width s - 1)
                  - (first * stride s - k_pad_left k) + 1) (cols * stride s))
            (width s - (first * stride s - k_pad_left k))"
    by (intro w(3))
  note inside = this
  show "col_in_first t \<le> i \<and> i < col_in_first t + col_in_cols t"
  proof (cases "first = 0 \<and> first + cols = out_w s k")
    case True
    show ?thesis
      unfolding t_def eq(1) column_tile.simps if_P [OF True]
      using lo_i i(2) by (intro conjI; linarith)
  next
    case False
    show ?thesis
      unfolding t_def eq(1) column_tile.simps if_not_P [OF False]
      using lo_i inside by (rule conjI)
  qed
qed

end
