(* ===== verification/RowProofs.thy ===== *)
theory RowProofs
  imports TileProofs
begin

text \<open>
  The three ways the planner cuts output rows (the equal split, the greedy split to capacity,
  the dense realignment) all produce a chain of tiles: nonempty, each the tile of its own
  bounds, each starting where the one before it ended, from the first output row to the last.
\<close>

section \<open>Chains of row tiles\<close>

fun row_chain :: "shape \<Rightarrow> kernel_programming \<Rightarrow> nat \<Rightarrow> tile list \<Rightarrow> nat \<Rightarrow> bool" where
  "row_chain s k f [] l = (f = l)"
| "row_chain s k f (t # ts) l =
     (0 < out_rows t \<and> t = tile_at s k f (out_rows t) \<and> row_chain s k (f + out_rows t) ts l)"

lemma row_chain_le: "row_chain s k f ts l \<Longrightarrow> f \<le> l"
  by (induction ts arbitrary: f) (auto dest: add_leD1)

lemma row_chain_out_first: "row_chain s k f (t # ts) l \<Longrightarrow> out_first t = f"
  by (metis out_first_tile_at row_chain.simps(2))

lemma row_chain_sum: "row_chain s k f ts l \<Longrightarrow> f + sum_list (map out_rows ts) = l"
proof (induction ts arbitrary: f)
  case (Cons t ts)
  then have "f + out_rows t + sum_list (map out_rows ts) = l" by simp
  then show ?case by simp
qed simp

lemma row_chain_member:
  assumes "row_chain s k f ts l" and "t \<in> set ts"
  shows "0 < out_rows t \<and> f \<le> out_first t \<and> out_first t + out_rows t \<le> l
    \<and> t = tile_at s k (out_first t) (out_rows t)"
  using assms
proof (induction ts arbitrary: f)
  case Nil
  then show ?case by simp
next
  case (Cons u us)
  then have u: "0 < out_rows u" "u = tile_at s k f (out_rows u)"
    and us: "row_chain s k (f + out_rows u) us l"
    by simp_all
  have first: "out_first u = f" using Cons.prems(1) by (rule row_chain_out_first)
  show ?case
  proof (cases "t = u")
    case True
    with u first row_chain_le [OF us] show ?thesis by simp
  next
    case False
    with Cons.prems(2) have "t \<in> set us" by simp
    from Cons.IH [OF us this] show ?thesis by simp
  qed
qed

definition row_of_tile :: "nat \<Rightarrow> tile \<Rightarrow> bool" where
  "row_of_tile r t \<longleftrightarrow> out_first t \<le> r \<and> r < out_first t + out_rows t"

lemma row_chain_once:
  assumes "row_chain s k f ts l" and "f \<le> r" and "r < l"
  shows "length (filter (row_of_tile r) ts) = 1"
  using assms
proof (induction ts arbitrary: f)
  case Nil
  then show ?case by simp
next
  case (Cons t ts)
  then have ts: "row_chain s k (f + out_rows t) ts l" by simp
  have first: "out_first t = f" using Cons.prems(1) by (rule row_chain_out_first)
  show ?case
  proof (cases "r < f + out_rows t")
    case True
    have "\<not> row_of_tile r u" if "u \<in> set ts" for u
      using row_chain_member [OF ts that] True by (simp add: row_of_tile_def)
    then have "filter (row_of_tile r) ts = []" by (simp add: filter_empty_conv)
    moreover have "row_of_tile r t" using True first Cons.prems(2) by (simp add: row_of_tile_def)
    ultimately show ?thesis by simp
  next
    case False
    then have "\<not> row_of_tile r t" using first by (simp add: row_of_tile_def)
    with False Cons.IH [OF ts] Cons.prems(3) show ?thesis by simp
  qed
qed

section \<open>The equal split\<close>

lemma tile_split_from_chain:
  assumes "i \<le> n" and "0 < base" and "f + (n - i) * base + (rem - i) < 4294967296"
    and "rem \<le> n"
  shows "row_chain s k f (tile_split_from s k base rem f [i..<n]) (f + (n - i) * base + (rem - i))"
  using assms
proof (induction "n - i" arbitrary: i f)
  case 0
  then show ?case by simp
next
  case (Suc m)
  define rows where "rows = base + (if i < rem then 1 else 0)"
  have i: "i < n" using Suc.hyps(2) by simp
  then have upt: "[i..<n] = i # [Suc i..<n]" by (simp add: upt_conv_Cons)
  have split: "(n - i) * base = (n - Suc i) * base + base"
    using i by (metis Suc_diff_Suc add.commute mult_Suc)
  have total: "f + (n - i) * base + (rem - i) = (f + rows) + (n - Suc i) * base + (rem - Suc i)"
    using split by (simp add: rows_def Suc_diff_Suc)
  then have small: "f + rows < 4294967296" "rows < 4294967296"
    using Suc.prems(3) by linarith+
  have "row_chain s k (f + rows) (tile_split_from s k base rem (f + rows) [Suc i..<n])
          ((f + rows) + (n - Suc i) * base + (rem - Suc i))"
    using Suc.hyps(2) i Suc.prems total by (intro Suc.hyps(1)) simp_all
  moreover have "wrap32 (base + (if i < rem then 1 else 0)) = rows"
    using small by (simp add: rows_def)
  ultimately show ?case
    using small Suc.prems(2) unfolding total upt by (simp add: Let_def) (simp add: rows_def)
qed

lemma tile_split_chain:
  assumes g: "geometry s ks k" and split: "tile_split s ks n = Done ts"
  shows "row_chain s k 0 ts (out_h s k)" and "length ts = n"
proof -
  let ?oh = "out_h s k"
  from split have n: "1 \<le> n" "n \<le> ?oh"
    and ts: "ts = tile_split_from s k (?oh div n) (?oh mod n) 0 [0..<n]"
    by (simp_all add: tile_split_def output_height_Done [OF g] kernel_prog_Done [OF g]
        ensure_eq_Done)
  have total: "0 + (n - 0) * (?oh div n) + (?oh mod n - 0) = ?oh"
    by simp
  have "?oh < 4294967296"
    using geometry_bounds [OF g] geometry_kernel [OF g]
      div_le_dividend [of "height s + 2 * k_pad_top k - k_height k" "stride s"]
    unfolding out_h_def by linarith
  then have "row_chain s k 0 ts (0 + (n - 0) * (?oh div n) + (?oh mod n - 0))"
    unfolding ts using n by (intro tile_split_from_chain) (simp_all add: div_greater_zero_iff)
  then show "row_chain s k 0 ts ?oh" by (simp only: total)
  have len: "length (tile_split_from s k b r f xs) = length xs" for b r f xs
    by (induction xs arbitrary: f) (simp_all add: Let_def)
  show "length ts = n" by (simp add: ts len)
qed

section \<open>The greedy split\<close>

lemma greedy_candidate_fits:
  assumes g: "geometry s ks k" and r: "0 < rows" "first + rows \<le> out_h s k"
    and c: "greedy_candidate s k cap first rows = Some t"
  shows "in_rows t \<le> cap"
proof -
  note b = geometry_bounds [OF g] geometry_kernel [OF g]
  note eq = tile_at_eq [OF g r]
  let ?in_f = "first * stride s - k_pad_top k"
  let ?un = "(first + rows - 1) * stride s + k_height k - 1 - k_pad_top k"
  let ?in_last = "min ?un (height s - 1)"
  have sat: "saturating_sub (wrap32 (first * stride s)) (k_pad_top k) = ?in_f"
    "saturating_sub (last_tap_row s k first rows) (k_pad_top k) = ?un"
    using eq(4,5) by (simp_all add: saturating_sub_def)
  have un: "?un < 536870912" using eq(4,7) by linarith
  have le: "?in_f \<le> ?un" using eq(2) by simp
  have "wrap32 (sub32 ?un ?in_f + 1) = ?un - ?in_f + 1"
    using le un by simp
  then have cap: "max (?un - ?in_f + 1) (rows * stride s) \<le> cap" and t: "t = tile_at s k first rows"
    using c eq(6) unfolding greedy_candidate_def Let_def sat
    by (simp_all split: if_splits)
  have "?in_last - ?in_f + 1 \<le> ?un - ?in_f + 1" by simp
  then have "min (max (?in_last - ?in_f + 1) (rows * stride s)) (height s - ?in_f)
               \<le> max (?un - ?in_f + 1) (rows * stride s)"
    by (meson max.mono min.coboundedI1 order_refl)
  then show ?thesis unfolding t eq(1) tile.simps using cap by (rule order_trans)
qed

lemma greedy_from_chain:
  assumes "geometry s ks k" and "greedy_from s k (out_h s k) cap f = Some ts" and "f \<le> out_h s k"
  shows "row_chain s k f ts (out_h s k) \<and> (\<forall>t \<in> set ts. in_rows t \<le> cap)"
  using assms(2,3)
proof (induction "out_h s k - f" arbitrary: f ts rule: less_induct)
  case less
  show ?case
  proof (cases "f < out_h s k")
    case False
    with less.prems show ?thesis by (simp add: greedy_from.simps [of s k _ cap f])
  next
    case True
    with less.prems(1) obtain t us where
      t: "find_map (greedy_candidate s k cap f) (rev [Suc 0..<Suc (out_h s k - f)]) = Some t"
      and us: "greedy_from s k (out_h s k) cap (f + out_rows t) = Some us" and ts: "ts = t # us"
      by (auto simp: greedy_from.simps [of s k _ cap f] split: option.splits)
    from greedy_found_rows [OF t] True
    have r: "1 \<le> out_rows t" "f + out_rows t \<le> out_h s k" "t = tile_at s k f (out_rows t)"
      by linarith+
    from find_map_SomeD [OF t] have "greedy_candidate s k cap f (out_rows t) = Some t"
      using greedy_candidate_SomeD by fastforce
    then have fit: "in_rows t \<le> cap"
      using r by (intro greedy_candidate_fits [OF assms(1)]) simp_all
    have "row_chain s k (f + out_rows t) us (out_h s k) \<and> (\<forall>t \<in> set us. in_rows t \<le> cap)"
      using True r us by (intro less.hyps) simp_all
    then show ?thesis using ts r fit by simp
  qed
qed

lemma split_greedy_chain:
  assumes g: "geometry s ks k" and greedy: "split_greedy_to_capacity s ks cap = Done (Some ts)"
  shows "row_chain s k 0 ts (out_h s k)" and "t \<in> set ts \<Longrightarrow> in_rows t \<le> cap"
proof -
  have "row_chain s k 0 ts (out_h s k) \<and> (\<forall>t \<in> set ts. in_rows t \<le> cap)"
  proof (cases "in_rows (tile_at s k 0 (out_h s k)) \<le> cap")
    case True
    with greedy have "ts = [tile_at s k 0 (out_h s k)]"
      by (simp add: split_greedy_to_capacity_def output_height_Done [OF g] tile_from_bounds_def
          kernel_prog_Done [OF g])
    with True show ?thesis by simp
  next
    case False
    with greedy have "greedy_from s k (out_h s k) cap 0 = Some ts"
      by (simp add: split_greedy_to_capacity_def output_height_Done [OF g] tile_from_bounds_def
          kernel_prog_Done [OF g])
    then show ?thesis by (intro greedy_from_chain [OF g]) simp_all
  qed
  then show "row_chain s k 0 ts (out_h s k)" "t \<in> set ts \<Longrightarrow> in_rows t \<le> cap" by simp_all
qed

section \<open>Boundaries and their realignment\<close>

definition increasing :: "nat list \<Rightarrow> bool" where
  "increasing bs \<longleftrightarrow> (\<forall>i. Suc i < length bs \<longrightarrow> bs ! i < bs ! Suc i)"

lemma increasing_Cons:
  "increasing (b # bs) \<longleftrightarrow> (bs \<noteq> [] \<longrightarrow> b < hd bs) \<and> increasing bs"
proof (cases bs)
  case (Cons c cs)
  have "increasing (b # c # cs) \<longleftrightarrow> b < c \<and> increasing (c # cs)"
    by (auto simp: increasing_def nth_Cons split: nat.splits)
  with Cons show ?thesis by simp
qed (simp add: increasing_def)

lemma chain_boundaries:
  "row_chain s k f ts l \<Longrightarrow>
   increasing (map out_first ts @ [l]) \<and> hd (map out_first ts @ [l]) = f"
proof (induction ts arbitrary: f)
  case Nil
  then show ?case by (simp add: increasing_def)
next
  case (Cons t ts)
  then have "row_chain s k (f + out_rows t) ts l" "0 < out_rows t" by simp_all
  moreover have "out_first t = f" using Cons.prems by (rule row_chain_out_first)
  ultimately show ?case using Cons.IH [of "f + out_rows t"] by (simp add: increasing_Cons)
qed

lemma tiles_of_boundaries_chain:
  "increasing (b # bs) \<Longrightarrow> row_chain s k b (tiles_of_boundaries s k (b # bs)) (last (b # bs))"
proof (induction bs arbitrary: b)
  case Nil
  then show ?case by simp
next
  case (Cons c cs)
  then have "b < c" and "increasing (c # cs)" by (simp_all add: increasing_Cons)
  then show ?case using Cons.IH [of c] by simp
qed

lemma increasing_update:
  assumes "increasing bs" and "0 < i" and "Suc i < length bs"
    and "bs ! (i - 1) < b" and "b < bs ! Suc i"
  shows "increasing (bs[i := b])"
  unfolding increasing_def
proof (intro allI impI)
  fix j
  assume j: "Suc j < length (bs[i := b])"
  show "bs[i := b] ! j < bs[i := b] ! Suc j"
  proof (cases "j = i \<or> Suc j = i")
    case True
    then show ?thesis using assms j by auto
  next
    case False
    then show ?thesis using assms(1) j by (simp add: increasing_def nth_list_update)
  qed
qed

lemma search_candidates_sound:
  "search_candidates safe lower upper cs = Done (Some b) \<Longrightarrow>
   lower \<le> b \<and> b \<le> upper \<and> safe b = Done True"
  by (induction cs) (auto split: if_splits simp: obind_eq_Done)

lemma search_distances_sound:
  "search_distances safe lower upper current ds = Done (Some b) \<Longrightarrow>
   lower \<le> b \<and> b \<le> upper \<and> safe b = Done True"
  by (induction ds) (auto split: option.splits simp: obind_eq_Done dest: search_candidates_sound)

text \<open>
  The realignment keeps the boundaries increasing and their ends, and leaves every boundary it
  visited safe.
\<close>

lemma realign_boundaries_sound:
  assumes "realign_boundaries safe bs is = Done (Some cs)"
    and "increasing bs" and "\<forall>b \<in> set bs. b < 4294967295"
    and "\<forall>i \<in> set is. 0 < i \<and> Suc i < length bs" and "distinct is"
    and "\<forall>i \<in> A. i < length bs \<and> i \<notin> set is \<and> safe (bs ! i) = Done True"
  shows "increasing cs \<and> length cs = length bs \<and> hd cs = hd bs \<and> last cs = last bs
    \<and> (\<forall>i \<in> A \<union> set is. safe (cs ! i) = Done True)"
  using assms
proof (induction "is" arbitrary: bs A)
  case Nil
  then show ?case by simp
next
  case (Cons i rest)
  have i: "0 < i" "Suc i < length bs" "i \<notin> set rest" using Cons.prems by simp_all
  have bound: "bs ! j < 4294967295" if "j < length bs" for j
    using Cons.prems(3) that by simp
  have lower: "wrap32 (bs ! (i - 1) + 1) = bs ! (i - 1) + 1"
    using bound [of "i - 1"] i by simp
  have step: "bs ! j < bs ! Suc j" if "Suc j < length bs" for j
    using Cons.prems(2) that by (simp add: increasing_def)
  have gap: "bs ! (i - 1) < bs ! i" "bs ! i < bs ! Suc i"
    using step [of "i - 1"] step [of i] i by simp_all
  have upper: "sub32 (bs ! (i + 1)) 1 = bs ! Suc i - 1"
    using gap by simp
  from Cons.prems(1) obtain ok where ok: "safe (bs ! i) = Done ok"
    by (auto simp: Let_def obind_eq_Done split: if_splits)
  show ?case
  proof (cases ok)
    case True
    with Cons.prems(1) ok have "realign_boundaries safe bs rest = Done (Some cs)"
      by (simp add: Let_def split: if_splits)
    from Cons.IH [OF this Cons.prems(2,3), of "insert i A"] Cons.prems i True ok
    show ?thesis by auto
  next
    case False
    with Cons.prems(1) ok obtain b ds where
      b: "search_distances safe (bs ! (i - 1) + 1) (bs ! Suc i - 1) (bs ! i) ds = Done (Some b)"
      and cs: "realign_boundaries safe (bs[i := b]) rest = Done (Some cs)"
      using lower upper
      by (auto simp: Let_def obind_eq_Done split: if_splits option.splits)
    from search_distances_sound [OF b]
    have range: "bs ! (i - 1) < b" "b < bs ! Suc i" "safe b = Done True"
      using gap by auto
    have inc: "increasing (bs[i := b])"
      using Cons.prems(2) i range by (intro increasing_update) simp_all
    have small: "\<forall>x \<in> set (bs[i := b]). x < 4294967295"
      using Cons.prems(3) range(2) bound [OF i(2)] set_update_subset_insert [of bs i b] by fastforce
    have A: "\<forall>j \<in> insert i A. j < length (bs[i := b]) \<and> j \<notin> set rest
               \<and> safe (bs[i := b] ! j) = Done True"
      using Cons.prems(6) i range(3) by (auto simp: nth_list_update)
    have ne: "bs \<noteq> []" using i by auto
    have ends: "hd (bs[i := b]) = hd bs" "last (bs[i := b]) = last bs"
      using i ne by (simp_all add: hd_conv_nth last_conv_nth nth_list_update)
    have "increasing cs \<and> length cs = length (bs[i := b]) \<and> hd cs = hd (bs[i := b])
      \<and> last cs = last (bs[i := b]) \<and> (\<forall>j \<in> insert i A \<union> set rest. safe (cs ! j) = Done True)"
      using Cons.prems(4,5) by (intro Cons.IH [OF cs inc small]) (use A in simp_all)
    then show ?thesis using ends by auto
  qed
qed

end
