(* ===== verification/RowSplitters.thy ===== *)
theory RowSplitters
  imports RowProofs
begin

text \<open>
  The contract of a row splitter, which the planner's grid relies on, and its two providers in
  the source: the greedy split, and the whole row search of one column (greedy, realigned, or
  else the first equal split that fits and realigns).
\<close>

section \<open>The interface\<close>

locale row_splitter =
  fixes split :: "shape \<Rightarrow> kernels \<Rightarrow> nat \<Rightarrow> tile list option plan_result"
  assumes split_chain:
      "geometry s ks k \<Longrightarrow> split s ks cap = Done (Some ts) \<Longrightarrow> row_chain s k 0 ts (out_h s k)"
    and split_fits:
      "geometry s ks k \<Longrightarrow> split s ks cap = Done (Some ts) \<Longrightarrow> t \<in> set ts \<Longrightarrow> in_rows t \<le> cap"
begin

lemma rows_once:
  assumes "geometry s ks k" and "split s ks cap = Done (Some ts)" and "r < out_h s k"
  shows "length (filter (row_of_tile r) ts) = 1"
  by (rule row_chain_once [OF split_chain [OF assms(1,2)] le0 assms(3)])

lemma rows_total:
  assumes "geometry s ks k" and "split s ks cap = Done (Some ts)"
  shows "sum_list (map out_rows ts) = out_h s k"
  using row_chain_sum [OF split_chain [OF assms]] by simp

lemma rows_member:
  assumes "geometry s ks k" and "split s ks cap = Done (Some ts)" and "t \<in> set ts"
  shows "0 < out_rows t" "out_first t + out_rows t \<le> out_h s k"
    "t = tile_at s k (out_first t) (out_rows t)"
  using row_chain_member [OF split_chain [OF assms(1,2)] assms(3)] by simp_all

text \<open>A capacity of zero rows never yields a plan: every tile reads at least one row.\<close>

lemma capacity_positive:
  assumes g: "geometry s ks k" and "split s ks cap = Done (Some ts)"
  shows "0 < cap"
proof -
  from rows_total [OF assms] have "ts \<noteq> []" by (metis list.map(1) out_h_pos less_irrefl sum_list.Nil)
  then obtain t where t: "t \<in> set ts" by (meson list.set_sel(1))
  from rows_member [OF assms t] tile_window(1) [OF g, of "out_rows t" "out_first t"]
  have "0 < in_rows t" by simp
  with split_fits [OF assms t] show ?thesis by simp
qed

end

interpretation greedy: row_splitter split_greedy_to_capacity
  by unfold_locales (rule split_greedy_chain; assumption)+

section \<open>Realigned tiles\<close>

lemma dense_row_stride_Done:
  assumes "valid_shape s" and "layout s = Dense"
  shows "\<exists>row. input_row_stride s = Done row"
proof -
  from assms have "precision s \<noteq> Int4"
    by (auto simp: valid_shape_def layout_def MAX_DENSE_CHANNELS_def split: if_splits)
  then show ?thesis using assms by (simp add: input_row_stride_def element_bytes_Done)
qed

lemma tiles_of_boundaries_member:
  "t \<in> set (tiles_of_boundaries s k bs) \<Longrightarrow>
   \<exists>i rows. Suc i < length bs \<and> t = tile_at s k (bs ! i) rows"
proof (induction s k bs rule: tiles_of_boundaries.induct)
  case (1 s k a b rest)
  show ?case
  proof (cases "t = tile_at s k a (sub32 b a)")
    case True
    then show ?thesis by (intro exI [of _ 0] exI [of _ "sub32 b a"]) simp
  next
    case False
    with "1.prems" have "t \<in> set (tiles_of_boundaries s k (b # rest))" by simp
    from "1.IH" [OF this] obtain i rows
      where "Suc i < length (b # rest)" "t = tile_at s k ((b # rest) ! i) rows" by blast
    then show ?thesis by (intro exI [of _ "Suc i"] exI [of _ rows]) simp
  qed
qed simp_all

lemma length_tiles_of_boundaries: "length (tiles_of_boundaries s k bs) = length bs - 1"
  by (induction s k bs rule: tiles_of_boundaries.induct) simp_all

lemma in_first_tile_at:
  "in_first (tile_at s k f r) = saturating_sub (wrap32 (f * stride s)) (k_pad_top k)"
  by (simp add: tile_at_def Let_def)

lemma realign_chain:
  assumes g: "geometry s ks k" and chain: "row_chain s k 0 ts (out_h s k)"
    and re: "realign_dense_row_tiles s ks ts cap = Done (Some us)"
  shows "row_chain s k 0 us (out_h s k)" and "length us = length ts"
    and "layout s = Dense \<Longrightarrow> 1 < length ts \<Longrightarrow> t \<in> set us \<Longrightarrow>
           in_rows t \<le> cap \<and> dense_feature_offset_safe s (in_first t) = Done True"
    and "\<not> (layout s = Dense \<and> 1 < length ts) \<Longrightarrow> us = ts"
proof -
  have "row_chain s k 0 us (out_h s k) \<and> length us = length ts
    \<and> (layout s = Dense \<and> 1 < length ts \<longrightarrow> (\<forall>t \<in> set us. in_rows t \<le> cap
          \<and> dense_feature_offset_safe s (in_first t) = Done True))
    \<and> (\<not> (layout s = Dense \<and> 1 < length ts) \<longrightarrow> us = ts)"
  proof (cases "layout s = Dense \<and> 1 < length ts")
    case False
    then have "layout s \<noteq> Dense \<or> length ts \<le> 1" by linarith
    with re have "us = ts" by (simp add: realign_dense_row_tiles_def)
    with chain False show ?thesis by blast
  next
    case True
    let ?bs = "map out_first ts @ [out_h s k]"
    from True have dense: "\<not> (layout s \<noteq> Dense \<or> length ts \<le> 1)" by simp
    have "obind (realign_boundaries (boundary_safe s ks) ?bs [1..<length ?bs - 1])
        (\<lambda>moved. case moved of None \<Rightarrow> Done None
         | Some bs \<Rightarrow> let realigned = tiles_of_boundaries s k bs
             in if \<forall>t \<in> set realigned. in_rows t \<le> cap then Done (Some realigned)
                else Done None) = Done (Some us)"
      using re by (simp only: realign_dense_row_tiles_def if_not_P [OF dense] Let_def
          output_height_Done [OF g] kernel_prog_Done [OF g] obind.simps)
    then obtain moved where moved:
      "realign_boundaries (boundary_safe s ks) ?bs [1..<length ?bs - 1] = Done moved"
      and rest: "(case moved of None \<Rightarrow> Done None
         | Some bs \<Rightarrow> let realigned = tiles_of_boundaries s k bs
             in if \<forall>t \<in> set realigned. in_rows t \<le> cap then Done (Some realigned)
                else Done None) = (Done (Some us) :: tile list option plan_result)"
      by (rule obind_DoneE)
    from rest obtain cs where cs: "moved = Some cs"
      and us: "us = tiles_of_boundaries s k cs" and fit: "\<forall>t \<in> set us. in_rows t \<le> cap"
      by (cases moved) (simp_all add: Let_def split: if_splits)
    note cs = moved [unfolded cs]
    have small: "\<forall>b \<in> set ?bs. b < 4294967295"
    proof -
      have oh: "out_h s k < 4294967295"
        using geometry_bounds [OF g] geometry_kernel [OF g]
          div_le_dividend [of "height s + 2 * k_pad_top k - k_height k" "stride s"]
        unfolding out_h_def by linarith
      have "out_first t \<le> out_h s k" if "t \<in> set ts" for t
        using row_chain_member [OF chain that] by simp
      with oh show ?thesis by fastforce
    qed
    from chain_boundaries [OF chain]
    have "increasing cs \<and> length cs = length ?bs \<and> hd cs = hd ?bs \<and> last cs = last ?bs
      \<and> (\<forall>i \<in> {} \<union> set [1..<length ?bs - 1]. boundary_safe s ks (cs ! i) = Done True)"
      by (intro realign_boundaries_sound [OF cs _ small]) auto
    then have sound: "increasing cs" "length cs = length ?bs" "hd cs = 0" "last cs = out_h s k"
      "\<And>i. 0 < i \<Longrightarrow> Suc i < length cs \<Longrightarrow> boundary_safe s ks (cs ! i) = Done True"
      using chain_boundaries [OF chain] by auto
    then obtain b bs where b: "cs = b # bs" by (cases cs) auto
    have "row_chain s k 0 us (out_h s k)"
      using tiles_of_boundaries_chain [of b bs s k]
      unfolding b [symmetric] us [symmetric] sound(4) using sound(1,3) b by simp
    moreover have "length us = length ts"
      using us sound(2) by (simp add: length_tiles_of_boundaries)
    moreover have "dense_feature_offset_safe s (in_first t) = Done True" if "t \<in> set us" for t
    proof -
      from tiles_of_boundaries_member [of t s k cs] that us obtain i rows
        where i: "Suc i < length cs" "t = tile_at s k (cs ! i) rows" by auto
      show ?thesis
      proof (cases "i = 0")
        case True
        then have "in_first t = 0"
          using i sound(3) b by (simp add: in_first_tile_at saturating_sub_def)
        moreover from dense_row_stride_Done [of s] g \<open>layout s = Dense \<and> 1 < length ts\<close>
        obtain row where "input_row_stride s = Done row" by (auto simp: geometry_def)
        ultimately show ?thesis by (simp add: dense_feature_offset_safe_def)
      next
        case False
        with sound(5) [of i] i show ?thesis
          by (simp add: boundary_safe_def tile_in_first_def kernel_prog_Done [OF g] in_first_tile_at)
      qed
    qed
    ultimately show ?thesis using fit True by simp
  qed
  then show "row_chain s k 0 us (out_h s k)" "length us = length ts"
    "layout s = Dense \<Longrightarrow> 1 < length ts \<Longrightarrow> t \<in> set us \<Longrightarrow>
       in_rows t \<le> cap \<and> dense_feature_offset_safe s (in_first t) = Done True"
    "\<not> (layout s = Dense \<and> 1 < length ts) \<Longrightarrow> us = ts"
    by auto
qed

section \<open>The row search of one column\<close>

text \<open>What the search returns is a realignment of some chain whose tiles fit.\<close>

lemma equal_split_fallback_source:
  assumes g: "geometry s ks k"
  shows "equal_split_fallback s ks cap counts = Done (Some us) \<Longrightarrow>
    \<exists>ts. row_chain s k 0 ts (out_h s k) \<and> (\<forall>t \<in> set ts. in_rows t \<le> cap)
       \<and> realign_dense_row_tiles s ks ts cap = Done (Some us)"
proof (induction counts)
  case (Cons count counts)
  from Cons.prems obtain rows where rows: "tile_split s ks count = Done rows"
    and rest: "(if \<not> (\<forall>t \<in> set rows. in_rows t \<le> cap)
       then equal_split_fallback s ks cap counts
       else obind (realign_dense_row_tiles s ks rows cap) (\<lambda>r.
          case r of Some ts \<Rightarrow> Done (Some ts)
          | None \<Rightarrow> equal_split_fallback s ks cap counts)) = Done (Some us)"
    unfolding equal_split_fallback.simps by (cases "tile_split s ks count") simp_all
  show ?case
  proof (cases "\<forall>t \<in> set rows. in_rows t \<le> cap")
    case False
    with rest Cons.IH show ?thesis by simp
  next
    case True
    then have "\<not> \<not> (\<forall>t \<in> set rows. in_rows t \<le> cap)" by blast
    from rest [unfolded if_not_P [OF this]]
    obtain r where r: "realign_dense_row_tiles s ks rows cap = Done r"
      and c: "(case r of Some ts \<Rightarrow> Done (Some ts)
               | None \<Rightarrow> equal_split_fallback s ks cap counts) = Done (Some us)"
      by (rule obind_DoneE)
    show ?thesis
    proof (cases r)
      case None
      with c Cons.IH show ?thesis by simp
    next
      case (Some ts)
      with c r have "realign_dense_row_tiles s ks rows cap = Done (Some us)" by simp
      with tile_split_chain(1) [OF g rows] True show ?thesis by blast
    qed
  qed
qed simp

lemma plan_column_rows_source:
  assumes g: "geometry s ks k" and plan: "plan_column_rows s ks cap = Done (Some us)"
  shows "\<exists>ts. row_chain s k 0 ts (out_h s k) \<and> (\<forall>t \<in> set ts. in_rows t \<le> cap)
       \<and> realign_dense_row_tiles s ks ts cap = Done (Some us)"
proof -
  have "obind (split_greedy_to_capacity s ks cap) (\<lambda>gr. case gr of None \<Rightarrow> Done None
     | Some ts \<Rightarrow> obind (realign_dense_row_tiles s ks ts cap) (\<lambda>r.
         case r of Some ts \<Rightarrow> Done (Some ts)
         | None \<Rightarrow> equal_split_fallback s ks cap [1..<Suc (out_h s k)]))
     = Done (Some us)"
    using plan by (simp only: plan_column_rows_def output_height_Done [OF g] obind.simps)
  then obtain gr where gr: "split_greedy_to_capacity s ks cap = Done gr"
    and rest: "(case gr of None \<Rightarrow> Done None
     | Some ts \<Rightarrow> obind (realign_dense_row_tiles s ks ts cap) (\<lambda>r.
         case r of Some ts \<Rightarrow> Done (Some ts)
         | None \<Rightarrow> equal_split_fallback s ks cap [1..<Suc (out_h s k)]))
     = Done (Some us)"
    by (rule obind_DoneE)
  from rest obtain ts where ts: "gr = Some ts" by (cases gr) simp_all
  note greedy = gr [unfolded ts]
  from rest [unfolded ts option.case]
  obtain r where r: "realign_dense_row_tiles s ks ts cap = Done r"
    and c: "(case r of Some ts \<Rightarrow> Done (Some ts)
         | None \<Rightarrow> equal_split_fallback s ks cap [1..<Suc (out_h s k)])
      = Done (Some us)"
    by (rule obind_DoneE)
  show ?thesis
  proof (cases r)
    case None
    with c have "equal_split_fallback s ks cap [1..<Suc (out_h s k)]
      = Done (Some us)"
      by (simp only: option.case)
    then show ?thesis by (rule equal_split_fallback_source [OF g])
  next
    case (Some us')
    with c r have "realign_dense_row_tiles s ks ts cap = Done (Some us)" by simp
    with split_greedy_chain [OF g greedy] show ?thesis by blast
  qed
qed

interpretation planned: row_splitter plan_column_rows
proof unfold_locales
  fix s ks k cap ts
  assume g: "geometry s ks k" and plan: "plan_column_rows s ks cap = Done (Some ts)"
  from plan_column_rows_source [OF this] obtain us where
    us: "row_chain s k 0 us (out_h s k)" "\<forall>t \<in> set us. in_rows t \<le> cap"
    "realign_dense_row_tiles s ks us cap = Done (Some ts)" by blast
  show "row_chain s k 0 ts (out_h s k)" by (rule realign_chain(1) [OF g us(1,3)])
  fix t
  assume "t \<in> set ts"
  then show "in_rows t \<le> cap"
    using realign_chain(3,4) [OF g us(1,3)] us(2) by (cases "layout s = Dense \<and> 1 < length us") auto
qed

text \<open>
  Dense inputs: every tile of a column that was cut at all starts on a feature atom.
\<close>

lemma plan_column_rows_aligned:
  assumes g: "geometry s ks k" and plan: "plan_column_rows s ks cap = Done (Some ts)"
    and "layout s = Dense" and "1 < length ts" and "t \<in> set ts"
  shows "dense_feature_offset_safe s (in_first t) = Done True"
proof -
  from plan_column_rows_source [OF g plan] obtain us where
    us: "row_chain s k 0 us (out_h s k)" "realign_dense_row_tiles s ks us cap = Done (Some ts)"
    by blast
  show ?thesis using realign_chain(2,3) [OF g us] assms(3-5) by simp
qed

end
