(* ===== verification/PlanProofs.thy ===== *)
theory PlanProofs
  imports RowSplitters
begin

text \<open>
  The grid of tiles: columns form a chain as rows do, every column carries a row chain, each
  tile fits the CBUF and the register fields, and the whole grid covers every output pixel
  exactly once.
\<close>

section \<open>Column chains\<close>

fun col_chain :: "shape \<Rightarrow> kernel_programming \<Rightarrow> nat \<Rightarrow> column_tile list \<Rightarrow> nat \<Rightarrow> bool" where
  "col_chain s k f [] l = (f = l)"
| "col_chain s k f (c # cs) l =
     (0 < col_out_cols c \<and> c = column_at s k (out_w s k) f (col_out_cols c)
      \<and> col_chain s k (f + col_out_cols c) cs l)"

lemma col_out_cols_column_at [simp]: "col_out_cols (column_at s k ow f c) = c"
  by (simp add: column_at_def Let_def)

lemma col_out_first_column_at [simp]: "col_out_first (column_at s k ow f c) = f"
  by (simp add: column_at_def Let_def)

lemma col_chain_le: "col_chain s k f cs l \<Longrightarrow> f \<le> l"
  by (induction cs arbitrary: f) (auto dest: add_leD1)

lemma col_chain_first: "col_chain s k f (c # cs) l \<Longrightarrow> col_out_first c = f"
  by (metis col_out_first_column_at col_chain.simps(2))

lemma col_chain_member:
  assumes "col_chain s k f cs l" and "c \<in> set cs"
  shows "0 < col_out_cols c \<and> f \<le> col_out_first c \<and> col_out_first c + col_out_cols c \<le> l
    \<and> c = column_at s k (out_w s k) (col_out_first c) (col_out_cols c)"
  using assms
proof (induction cs arbitrary: f)
  case Nil
  then show ?case by simp
next
  case (Cons d ds)
  then have d: "0 < col_out_cols d" "d = column_at s k (out_w s k) f (col_out_cols d)"
    and ds: "col_chain s k (f + col_out_cols d) ds l"
    by simp_all
  have first: "col_out_first d = f" using Cons.prems(1) by (rule col_chain_first)
  show ?case
  proof (cases "c = d")
    case True
    with d first col_chain_le [OF ds] show ?thesis by simp
  next
    case False
    with Cons.prems(2) have "c \<in> set ds" by simp
    from Cons.IH [OF ds this] show ?thesis by simp
  qed
qed

definition column_of_tile :: "nat \<Rightarrow> column_tile \<Rightarrow> bool" where
  "column_of_tile x c \<longleftrightarrow> col_out_first c \<le> x \<and> x < col_out_first c + col_out_cols c"

lemma out_w_small: "geometry s ks k \<Longrightarrow> out_w s k < 4294967295"
  using geometry_bounds [of s ks k] geometry_kernel [of s ks k]
    div_le_dividend [of "width s + 2 * k_pad_left k - k_width k" "stride s"]
  unfolding out_w_def by linarith

lemma out_h_small: "geometry s ks k \<Longrightarrow> out_h s k < 4294967295"
  using geometry_bounds [of s ks k] geometry_kernel [of s ks k]
    div_le_dividend [of "height s + 2 * k_pad_top k - k_height k" "stride s"]
  unfolding out_h_def by linarith

lemma column_split_from_chain:
  assumes g: "geometry s ks k"
  shows "column_split_from s ks f ws = Done cs \<Longrightarrow> f + sum_list ws = out_w s k \<Longrightarrow>
    col_chain s k f cs (out_w s k) \<and> map col_out_cols cs = ws"
proof (induction ws arbitrary: f cs)
  case Nil
  then show ?case by simp
next
  case (Cons w ws)
  have small: "f + w < 4294967296" using Cons.prems(2) out_w_small [OF g] by simp
  from Cons.prems(1) obtain t ts where
    t: "column_from_output_range s ks f w = Done t"
    and ts: "column_split_from s ks (wrap32 (f + w)) ws = Done ts" and cs: "cs = t # ts"
    unfolding column_split_from.simps by (elim obind_DoneE) auto
  from t have t_eq: "t = column_at s k (out_w s k) f w" and w: "0 < w"
    by (simp_all add: column_from_output_range_def output_width_Done [OF g] kernel_prog_Done [OF g]
        ensure_eq_Done)
  from ts have "column_split_from s ks (f + w) ws = Done ts" using small by simp
  from Cons.IH [OF this] Cons.prems(2) have "col_chain s k (f + w) ts (out_w s k)" "map col_out_cols ts = ws"
    by simp_all
  then show ?case using t_eq w cs by simp
qed

lemma column_split_chain:
  assumes g: "geometry s ks k" and "column_split s ks ws = Done cs" and "sum_list ws = out_w s k"
  shows "col_chain s k 0 cs (out_w s k)" and "map col_out_cols cs = ws"
  using column_split_from_chain [OF g, of 0 ws cs] assms(2,3)
  by (simp_all add: column_split_def ensure_eq_Done output_width_Done [OF g])

section \<open>What one tile must satisfy\<close>

text \<open>
  The demand of a tile on the data part of the CBUF, written with exact arithmetic: bytes per
  row times rows against the banks granted, the entry counter, the width limit of the entry
  slabs and the grain counter.
\<close>

definition row_entries :: "shape \<Rightarrow> nat \<Rightarrow> nat" where
  "row_entries s cols = div_ceil (cols * cbuf_atoms s) 4"

definition tile_resident :: "shape \<Rightarrow> kernel_programming \<Rightarrow> nat \<Rightarrow> tile2d \<Rightarrow> bool" where
  "tile_resident s k d t \<longleftrightarrow> 1 \<le> d \<and> d < 12 \<and>
     (case layout s of
        Surfaces \<Rightarrow> in_rows (t_rows t) * (row_entries s (col_in_cols (t_columns t)) * 64) \<le> d * 32768
          \<and> in_rows (t_rows t) * col_in_cols (t_columns t) \<le> 32767
      | Dense \<Rightarrow>
          (let charged = next_multiple_of (col_in_cols (t_columns t)) (channels_per_atom (precision s));
               pixel = min (next_power_of_two (in_channels s)) 4 * (element_bits (precision s) div 8)
           in in_rows (t_rows t) * (charged * pixel) \<le> d * 8192
              \<and> in_rows (t_rows t) * charged \<le> 32767))
     \<and> col_in_cols (t_columns t) \<le> max_tile_input_width s
     \<and> in_rows (t_rows t) + k_height k + pad_top (t_rows t) \<le> 1023"

lemma valid_shape_extents:
  assumes "valid_shape s"
  shows "width s < 268435456" and "height s < 268435456" and "width s * height s < 268435456"
proof -
  from assms have v: "0 < width s" "0 < height s" "width s * height s * 16 < 4294967296"
    by (simp_all add: valid_shape_def)
  then show wh: "width s * height s < 268435456" by linarith
  have "width s \<le> width s * height s" "height s \<le> width s * height s"
    using v by simp_all
  with wh show "width s < 268435456" "height s < 268435456" by linarith+
qed

lemma feature_atoms_bounds:
  assumes "u32_shape s"
  shows "0 < feature_atoms s" and "feature_atoms s \<le> 1073741824"
proof -
  have c: "4 \<le> channels_per_atom (precision s)" using channels_per_atom_bounds by blast
  have "in_channels s < 4294967296" using assms by (simp add: u32_shape_def)
  then have "in_channels s \<le> 1073741824 * 4" by simp
  also have "\<dots> \<le> 1073741824 * channels_per_atom (precision s)" using c by (intro mult_le_mono2)
  finally have "div_ceil (in_channels s) (channels_per_atom (precision s)) \<le> 1073741824"
    by (simp add: div_ceil_le_iff)
  then show "feature_atoms s \<le> 1073741824" by (simp add: feature_atoms_def)
  show "0 < feature_atoms s" by (simp add: feature_atoms_def)
qed

lemma cbuf_atoms_bounds:
  assumes "u32_shape s"
  shows "0 < cbuf_atoms s" and "cbuf_atoms s \<le> 1073741825" and "feature_atoms s \<le> cbuf_atoms s"
  using feature_atoms_bounds [OF assms] by (simp_all add: cbuf_atoms_def quad_atoms_def)

text \<open>The slab limit bounds the atoms of one row, so the entry count of a row never wraps.\<close>

lemma slab_limit:
  assumes v: "valid_shape s" and l: "layout s = Surfaces" and c: "c \<le> max_tile_input_width s" "c \<le> 32767"
  shows "c * cbuf_atoms s \<le> 139256"
proof -
  let ?slabs = "div_ceil (cbuf_atoms s) 4"
  have pos: "0 < cbuf_atoms s" using v cbuf_atoms_bounds(1) by (simp add: valid_shape_def)
  then have slabs: "0 < ?slabs" by simp
  have atoms: "cbuf_atoms s \<le> ?slabs * 4" by (rule div_ceil_mult_ge) simp
  show ?thesis
  proof (cases "?slabs = 1")
    case True
    with atoms have "cbuf_atoms s \<le> 4" by simp
    with c(2) have "c * cbuf_atoms s \<le> 32767 * 4" by (intro mult_le_mono)
    then show ?thesis by simp
  next
    case False
    define extra where "extra = ?slabs - 1"
    have extra: "0 < extra" "?slabs = extra + 1" using False slabs unfolding extra_def by linarith+
    have "max_tile_input_width s \<le> 2047 div extra"
      using l extra by (simp add: max_tile_input_width_def Let_def hw_consts)
    with c(1) have "c \<le> 2047 div extra" by simp
    then have "c * extra \<le> 2047" using extra by (simp add: less_eq_div_iff_mult_less_eq)
    moreover have "c * cbuf_atoms s \<le> c * (extra * 4 + 4)"
      using atoms extra by (intro mult_le_mono2) simp
    moreover have "c * (extra * 4 + 4) = c * extra * 4 + c * 4" by (simp add: algebra_simps)
    ultimately show ?thesis using c(2) by linarith
  qed
qed

lemma capacity_surfaces:
  assumes v: "valid_shape s" and l: "layout s = Surfaces" and c: "c \<le> max_tile_input_width s"
    and cap: "max_tile_input_rows_for_width_and_data_banks s c d = Done cap"
    and r: "0 < rows" "rows \<le> cap"
  shows "rows * (row_entries s c * 64) \<le> d * 32768" and "rows * c \<le> 32767"
proof -
  from cap obtain capacity entries where pos: "1 \<le> c"
    and capacity: "udiv (d * CBUF_BANK_BYTES)
          (wrap32 (div_ceil (wrap32 (c * cbuf_atoms s)) CBUF_ATOMS_PER_ENTRY
                   * CBUF_ATOMS_PER_ENTRY * FEATURE_ATOM_BYTES)) = (Done capacity :: nat plan_result)"
    and entries: "udiv MAX_DATA_ENTRIES c = (Done entries :: nat plan_result)"
    and cap_eq: "cap = min capacity entries"
    unfolding max_tile_input_rows_for_width_and_data_banks_def ensure_eq_Done Let_def
    by (auto simp: l cbuf_input_width_def elim!: obind_DoneE)
  have "rows \<le> 32767 div c"
    using entries r cap_eq by (simp add: udiv_eq_Done MAX_DATA_ENTRIES_def)
  then show rc: "rows * c \<le> 32767" using pos by (simp add: less_eq_div_iff_mult_less_eq)
  have "c \<le> rows * c" using r by simp
  with rc have "c \<le> 32767" by linarith
  from slab_limit [OF v l c this] have small: "c * cbuf_atoms s \<le> 139256" .
  have "row_entries s c \<le> c * cbuf_atoms s" unfolding row_entries_def by (rule div_ceil_le_self) simp
  with small have e: "row_entries s c * 64 < 4294967296" by linarith
  have "0 < row_entries s c"
    using pos v cbuf_atoms_bounds(1) [of s] by (simp add: row_entries_def valid_shape_def)
  moreover have "rows \<le> (d * 32768) div (row_entries s c * 64)"
    using capacity r cap_eq small e
    by (simp add: udiv_eq_Done hw_consts row_entries_def mult.assoc)
  ultimately show "rows * (row_entries s c * 64) \<le> d * 32768"
    by (simp add: less_eq_div_iff_mult_less_eq)
qed

lemma capacity_dense:
  assumes v: "valid_shape s" and l: "layout s = Dense"
    and cap: "max_tile_input_rows_for_width_and_data_banks s c d = Done cap"
    and r: "0 < rows" "rows \<le> cap"
  defines "charged \<equiv> next_multiple_of c (channels_per_atom (precision s))"
  defines "pixel \<equiv> min (next_power_of_two (in_channels s)) 4 * (element_bits (precision s) div 8)"
  shows "rows * (charged * pixel) \<le> d * 8192" and "rows * charged \<le> 32767"
proof -
  have ch: "in_channels s \<le> 4" using l by (simp add: layout_def MAX_DENSE_CHANNELS_def split: if_splits)
  with v have p: "precision s \<noteq> Int4" by (auto simp: valid_shape_def)
  have "element_bits (precision s) div 8 \<le> 4" by (cases "precision s") auto
  then have px16: "pixel \<le> 4 * 4" unfolding pixel_def by (intro mult_le_mono) simp_all
  then have px: "dense_cbuf_pixel_bytes s = Done pixel"
    using p by (simp add: dense_cbuf_pixel_bytes_def element_bytes_Done pixel_def)
  from cap have pos: "1 \<le> c" "c \<le> width s"
    by (simp_all add: max_tile_input_rows_for_width_and_data_banks_def ensure_eq_Done)
  have "charged < 268435456 + 32"
    using pos(2) valid_shape_extents(1) [OF v] next_multiple_of_less [of "channels_per_atom (precision s)" c]
      channels_per_atom_bounds [of "precision s"] unfolding charged_def by simp
  then have ch_eq: "cbuf_input_width s c = charged"
    using l by (simp add: cbuf_input_width_def charged_def)
  from cap obtain capacity entries where
    capacity: "udiv (d * (CBUF_BANK_BYTES div 4)) (wrap32 (charged * pixel)) = (Done capacity :: nat plan_result)"
    and entries: "udiv MAX_DATA_ENTRIES charged = (Done entries :: nat plan_result)"
    and cap_eq: "cap = min capacity entries"
    unfolding max_tile_input_rows_for_width_and_data_banks_def ensure_eq_Done Let_def
    by (auto simp: l px ch_eq elim!: obind_DoneE)
  have "c \<le> charged" unfolding charged_def by (rule next_multiple_of_ge) simp
  with pos have chp: "0 < charged" by simp
  have "rows \<le> 32767 div charged"
    using entries r cap_eq by (simp add: udiv_eq_Done MAX_DATA_ENTRIES_def)
  then show rc: "rows * charged \<le> 32767" using chp by (simp add: less_eq_div_iff_mult_less_eq)
  have "charged \<le> rows * charged" using r by simp
  with rc have "charged \<le> 32767" by linarith
  then have "charged * pixel \<le> 32767 * (4 * 4)" using px16 by (rule mult_le_mono)
  then have w: "wrap32 (charged * pixel) = charged * pixel" by simp
  have "0 < charged * pixel" using capacity by (simp add: udiv_eq_Done w)
  moreover have "rows \<le> (d * 8192) div (charged * pixel)"
    using capacity r cap_eq by (simp add: udiv_eq_Done w CBUF_BANK_BYTES_def)
  ultimately show "rows * (charged * pixel) \<le> d * 8192"
    by (simp add: less_eq_div_iff_mult_less_eq)
qed

lemma tile_resident_intro:
  assumes g: "geometry s ks k"
    and t: "t_rows t = tile_at s k f (out_rows (t_rows t))" "0 < out_rows (t_rows t)"
      "f + out_rows (t_rows t) \<le> out_h s k"
    and c: "col_in_cols (t_columns t) \<le> max_tile_input_width s"
    and cap: "max_tile_input_rows_for_width_and_data_banks s (col_in_cols (t_columns t)) d = Done cap"
    and r: "in_rows (t_rows t) \<le> cap"
    and grains: "in_rows (t_rows t) + k_height k + pad_top (t_rows t) \<le> 1023"
  shows "tile_resident s k d t"
proof -
  have v: "valid_shape s" using g by (simp add: geometry_def)
  have pos: "0 < in_rows (t_rows t)"
    using tile_window(1) [OF g t(2,3)] t(1) by simp
  have d: "1 \<le> d" "d < 12"
    using cap by (simp_all add: max_tile_input_rows_for_width_and_data_banks_def ensure_eq_Done CBUF_BANKS_def)
  show ?thesis
    using d capacity_surfaces [OF v _ c cap pos r] capacity_dense [OF v _ cap pos r] c grains
    by (cases "layout s") (simp_all add: tile_resident_def Let_def)
qed

section \<open>Grids\<close>

text \<open>
  A grid over a list of columns: for every column in order, its row chain paired with it, every
  tile resident.
\<close>

fun grid_over ::
  "shape \<Rightarrow> kernel_programming \<Rightarrow> nat \<Rightarrow> column_tile list \<Rightarrow> tile2d list \<Rightarrow> bool" where
  "grid_over s k d [] ts = (ts = [])"
| "grid_over s k d (c # cs) ts =
     (\<exists>rows rest. ts = map (\<lambda>r. \<lparr>t_rows = r, t_columns = c\<rparr>) rows @ rest
        \<and> row_chain s k 0 rows (out_h s k)
        \<and> (\<forall>r \<in> set rows. tile_resident s k d \<lparr>t_rows = r, t_columns = c\<rparr>)
        \<and> (layout s = Dense \<and> 1 < length rows \<longrightarrow>
             (\<forall>r \<in> set rows. dense_feature_offset_safe s (in_first r) = Done True))
        \<and> grid_over s k d cs rest)"

definition covers :: "nat \<Rightarrow> nat \<Rightarrow> tile2d \<Rightarrow> bool" where
  "covers r x t \<longleftrightarrow> row_of_tile r (t_rows t) \<and> column_of_tile x (t_columns t)"

lemma filter_covers_column:
  "length (filter (covers r x) (map (\<lambda>t. \<lparr>t_rows = t, t_columns = c\<rparr>) rows)) =
     (if column_of_tile x c then length (filter (row_of_tile r) rows) else 0)"
  by (induction rows) (simp_all add: covers_def)

lemma grid_over_outside:
  "grid_over s k d cs ts \<Longrightarrow> \<forall>c \<in> set cs. \<not> column_of_tile x c \<Longrightarrow>
   filter (covers r x) ts = []"
  by (induction cs arbitrary: ts) (auto simp: filter_empty_conv covers_def)

lemma grid_over_once:
  assumes "col_chain s k f cs l" and "grid_over s k d cs ts"
    and "f \<le> x" and "x < l" and "r < out_h s k"
  shows "length (filter (covers r x) ts) = 1"
  using assms
proof (induction cs arbitrary: f ts)
  case Nil
  then show ?case by simp
next
  case (Cons c cs)
  from Cons.prems(2) obtain rows rest where
    ts: "ts = map (\<lambda>r. \<lparr>t_rows = r, t_columns = c\<rparr>) rows @ rest"
    and rows: "row_chain s k 0 rows (out_h s k)" and rest: "grid_over s k d cs rest"
    by auto
  have first: "col_out_first c = f" using Cons.prems(1) by (rule col_chain_first)
  have tail: "col_chain s k (f + col_out_cols c) cs l" using Cons.prems(1) by simp
  have once: "length (filter (row_of_tile r) rows) = 1"
    by (rule row_chain_once [OF rows le0 Cons.prems(5)])
  have split: "length (filter (covers r x) ts) =
      (if column_of_tile x c then 1 else 0) + length (filter (covers r x) rest)"
    by (simp only: ts filter_append length_append filter_covers_column once)
  show ?case
  proof (cases "x < f + col_out_cols c")
    case True
    have "\<forall>e \<in> set cs. \<not> column_of_tile x e"
      using col_chain_member [OF tail] True by (force simp: column_of_tile_def)
    with rest have "filter (covers r x) rest = []" by (rule grid_over_outside)
    moreover have "column_of_tile x c" using True first Cons.prems(3) by (simp add: column_of_tile_def)
    ultimately show ?thesis by (simp add: split)
  next
    case False
    then have "\<not> column_of_tile x c" using first by (simp add: column_of_tile_def)
    with False Cons.IH [OF tail rest] Cons.prems(4,5) show ?thesis by (simp add: split)
  qed
qed

lemma grid_over_member:
  assumes "grid_over s k d cs ts" and "t \<in> set ts"
  shows "t_columns t \<in> set cs \<and> tile_resident s k d t
    \<and> t_rows t = tile_at s k (out_first (t_rows t)) (out_rows (t_rows t))
    \<and> 0 < out_rows (t_rows t) \<and> out_first (t_rows t) + out_rows (t_rows t) \<le> out_h s k"
  using assms
proof (induction cs arbitrary: ts)
  case Nil
  then show ?case by simp
next
  case (Cons c cs)
  from Cons.prems(1) obtain rows rest where
    ts: "ts = map (\<lambda>r. \<lparr>t_rows = r, t_columns = c\<rparr>) rows @ rest"
    and rows: "row_chain s k 0 rows (out_h s k)" and rest: "grid_over s k d cs rest"
    and res: "\<forall>r \<in> set rows. tile_resident s k d \<lparr>t_rows = r, t_columns = c\<rparr>"
    by auto
  show ?case
  proof (cases "t \<in> set rest")
    case True
    from Cons.IH [OF rest this] show ?thesis by simp
  next
    case False
    with Cons.prems(2) ts obtain r where r: "r \<in> set rows" "t = \<lparr>t_rows = r, t_columns = c\<rparr>" by auto
    with row_chain_member [OF rows r(1)] res show ?thesis by simp
  qed
qed

text \<open>Two different row tiles under one column: the column was cut, so its tiles are aligned.\<close>

lemma col_chain_distinct: "col_chain s k f (c # cs) l \<Longrightarrow> c \<notin> set cs"
  using col_chain_member [of s k "f + col_out_cols c" cs l c] col_chain_first [of s k f c cs l]
  by auto

lemma grid_over_aligned:
  assumes "col_chain s k f cs l" and "grid_over s k d cs ts" and dense: "layout s = Dense"
    and "t \<in> set ts" and "u \<in> set ts" and "t_columns u = t_columns t" and "t_rows u \<noteq> t_rows t"
  shows "dense_feature_offset_safe s (in_first (t_rows t)) = Done True"
  using assms(1,2,4,5)
proof (induction cs arbitrary: f ts)
  case Nil
  then show ?case by simp
next
  case (Cons c cs)
  from Cons.prems(2) obtain rows rest where
    ts: "ts = map (\<lambda>r. \<lparr>t_rows = r, t_columns = c\<rparr>) rows @ rest"
    and rest: "grid_over s k d cs rest"
    and safe: "1 < length rows \<Longrightarrow> \<forall>r \<in> set rows. dense_feature_offset_safe s (in_first r) = Done True"
    using dense by auto
  have c: "c \<notin> set cs" by (rule col_chain_distinct [OF Cons.prems(1)])
  show ?case
  proof (cases "t_columns t = c")
    case True
    with grid_over_member [OF rest] c assms(6) have "t \<notin> set rest" "u \<notin> set rest" by metis+
    with Cons.prems(3,4) ts have "t_rows t \<in> set rows" "t_rows u \<in> set rows" by auto
    with assms(7) safe show ?thesis by (cases rows rule: remdups_adj.cases) auto
  next
    case False
    with Cons.prems(3,4) ts assms(6) have "t \<in> set rest" "u \<in> set rest" by auto
    moreover have "col_chain s k (f + col_out_cols c) cs l" using Cons.prems(1) by simp
    ultimately show ?thesis by (intro Cons.IH [OF _ rest])
  qed
qed

text \<open>The rows the grain counter allows leave room for the kernel and the top padding.\<close>

lemma pad_top_tile_at: "pad_top (tile_at s k f r) \<le> k_pad_top k"
  by (simp add: tile_at_def Let_def saturating_sub_def)

lemma max_feature_grain_input_rows_Done [outcome_intro]:
  assumes g: "geometry s ks k"
  shows "max_feature_grain_input_rows s ks = Done (1023 - (k_height k + k_pad_top k))"
  using geometry_kernel [OF g]
  by (simp add: max_feature_grain_input_rows_def kernel_prog_Done [OF g] saturating_sub_def
      MAX_FEATURE_GRAINS_def)

lemma plan_columns_grid:
  assumes g: "geometry s ks k"
  shows "plan_columns s ks d cs = Done (Some ts) \<Longrightarrow> grid_over s k d cs ts"
proof (induction cs arbitrary: ts)
  case Nil
  then show ?case by simp
next
  case (Cons c cs)
  have c: "col_in_cols c \<le> max_tile_input_width s"
    using Cons.prems by (simp split: if_splits)
  then have "\<not> max_tile_input_width s < col_in_cols c" by simp
  from Cons.prems [unfolded plan_columns.simps if_not_P [OF this]] obtain cap where
    cap: "max_tile_input_rows_for_width_and_data_banks s (col_in_cols c) d = Done cap"
    and rest: "obind (plan_column_rows s ks (min cap (1023 - (k_height k + k_pad_top k)))) (\<lambda>r.
       case r of None \<Rightarrow> Done None
       | Some rows \<Rightarrow> obind (plan_columns s ks d cs) (\<lambda>rest.
           Done (map_option (\<lambda>ts. map (\<lambda>r. \<lparr>t_rows = r, t_columns = c\<rparr>) rows @ ts) rest)))
       = Done (Some ts)"
    by (elim obind_DoneE) (simp add: max_feature_grain_input_rows_Done [OF g])
  from rest obtain r where r: "plan_column_rows s ks (min cap (1023 - (k_height k + k_pad_top k))) = Done r"
    and rest: "(case r of None \<Rightarrow> Done None
       | Some rows \<Rightarrow> obind (plan_columns s ks d cs) (\<lambda>rest.
           Done (map_option (\<lambda>ts. map (\<lambda>r. \<lparr>t_rows = r, t_columns = c\<rparr>) rows @ ts) rest)))
       = Done (Some ts)"
    by (rule obind_DoneE)
  from rest obtain rows where rows: "r = Some rows" by (cases r) simp_all
  from rest [unfolded rows option.case] obtain us where
    us: "plan_columns s ks d cs = Done (Some us)"
    and ts: "ts = map (\<lambda>r. \<lparr>t_rows = r, t_columns = c\<rparr>) rows @ us"
    by (elim obind_DoneE) auto
  note plan = r [unfolded rows]
  have chain: "row_chain s k 0 rows (out_h s k)" by (rule planned.split_chain [OF g plan])
  have "tile_resident s k d \<lparr>t_rows = t, t_columns = c\<rparr>" if t: "t \<in> set rows" for t
  proof -
    note m = row_chain_member [OF chain t]
    have fit: "in_rows t \<le> cap" "in_rows t \<le> 1023 - (k_height k + k_pad_top k)"
      using planned.split_fits [OF g plan t] by simp_all
    have "pad_top t \<le> k_pad_top k" using m pad_top_tile_at by metis
    then have "in_rows t + k_height k + pad_top t \<le> 1023"
      using fit(2) geometry_kernel [OF g] by linarith
    with m fit(1) c cap show ?thesis
      by (intro tile_resident_intro [OF g, of _ "out_first t" d cap]) simp_all
  qed
  moreover have "\<forall>r \<in> set rows. dense_feature_offset_safe s (in_first r) = Done True"
    if "layout s = Dense" "1 < length rows"
    using plan_column_rows_aligned [OF g plan that] by blast
  ultimately show ?case using Cons.IH [OF us] ts chain by auto
qed

section \<open>The checked grid of a captured partition\<close>

lemma feature_grains_eq:
  assumes g: "geometry s ks k" and "in_rows t < 268435456" and "pad_top t \<le> k_pad_top k"
  shows "feature_grains ks t = Done (in_rows t + k_height k + pad_top t)"
proof -
  note b = geometry_kernel [OF g]
  have ks: "k_height k = fst ks" "k_width k = snd ks"
    using g kernel_programming_bounds(7,8) [of s ks k] by (auto simp: geometry_def)
  have "kernel_programming_of ks None =
      (Done \<lparr>k_height = fst ks, k_width = snd ks, k_pad_top = fst ks div 2, k_pad_left = snd ks div 2\<rparr>
       :: kernel_programming plan_result)"
    using b ks by (cases ks) (simp add: kernel_programming_of_def try_kernel_programming_of_def)
  then show ?thesis using assms(2,3) b ks by (simp add: feature_grains_def)
qed

lemma grid_fits_member:
  "grid_fits s ks ts d = Done True \<Longrightarrow> t \<in> set ts \<Longrightarrow>
   col_in_cols (t_columns t) \<le> max_tile_input_width s
   \<and> (\<exists>cap g. max_tile_input_rows_for_width_and_data_banks s (col_in_cols (t_columns t)) d = Done cap
        \<and> in_rows (t_rows t) \<le> cap \<and> feature_grains ks (t_rows t) = Done g \<and> g \<le> MAX_FEATURE_GRAINS)"
proof (induction ts)
  case (Cons u ts)
  then have c: "col_in_cols (t_columns u) \<le> max_tile_input_width s" by (simp split: if_splits)
  from Cons.prems(1) c obtain cap where
    cap: "max_tile_input_rows_for_width_and_data_banks s (col_in_cols (t_columns u)) d = Done cap"
    and rest: "(if \<not> in_rows (t_rows u) \<le> cap then Done False
           else obind (feature_grains ks (t_rows u)) (\<lambda>g.
                if \<not> g \<le> MAX_FEATURE_GRAINS then Done False else grid_fits s ks ts d)) = Done True"
    by (auto elim!: obind_DoneE)
  then have r: "in_rows (t_rows u) \<le> cap" by (simp split: if_splits)
  with rest obtain g where g: "feature_grains ks (t_rows u) = Done g"
    and rest: "(if \<not> g \<le> MAX_FEATURE_GRAINS then Done False else grid_fits s ks ts d) = Done True"
    by (auto elim!: obind_DoneE)
  then have "g \<le> MAX_FEATURE_GRAINS" "grid_fits s ks ts d = Done True" by (simp_all split: if_splits)
  with Cons c cap r g show ?case by auto
qed simp

lemma grid_columns_grid:
  assumes g: "geometry s ks k" and l: "layout s = Surfaces"
  shows "grid_columns s ks d cs = Done ts \<Longrightarrow>
    (\<And>t. t \<in> set ts \<Longrightarrow> grid_fits s ks [t] d = Done True) \<Longrightarrow> grid_over s k d cs ts"
proof (induction cs arbitrary: ts)
  case Nil
  then show ?case by simp
next
  case (Cons c cs)
  from Cons.prems(1) obtain n rows us where rows: "tile_split s ks n = Done rows"
    and us: "grid_columns s ks d cs = Done us"
    and ts: "ts = map (\<lambda>r. \<lparr>t_rows = r, t_columns = c\<rparr>) rows @ us"
    by (auto elim!: obind_DoneE)
  note chain = tile_split_chain(1) [OF g rows]
  have "tile_resident s k d \<lparr>t_rows = t, t_columns = c\<rparr>" if t: "t \<in> set rows" for t
  proof -
    note m = row_chain_member [OF chain t]
    have "grid_fits s ks [\<lparr>t_rows = t, t_columns = c\<rparr>] d = Done True"
      using Cons.prems(2) [of "\<lparr>t_rows = t, t_columns = c\<rparr>"] ts t by auto
    from grid_fits_member [OF this, of "\<lparr>t_rows = t, t_columns = c\<rparr>"] obtain cap gr where
      fit: "col_in_cols c \<le> max_tile_input_width s"
        "max_tile_input_rows_for_width_and_data_banks s (col_in_cols c) d = Done cap"
        "in_rows t \<le> cap" "feature_grains ks t = Done gr" "gr \<le> 1023"
      by (auto simp: MAX_FEATURE_GRAINS_def)
    have w: "in_first t + in_rows t \<le> height s"
      using tile_window(2) [OF g, of "out_rows t" "out_first t"] m by simp
    have "pad_top t \<le> k_pad_top k" using m pad_top_tile_at by metis
    moreover have "in_rows t < 268435456" using w geometry_bounds(5) [OF g] by linarith
    ultimately have "in_rows t + k_height k + pad_top t \<le> 1023"
      using fit(4,5) feature_grains_eq [OF g, of t] by simp
    with m fit show ?thesis
      by (intro tile_resident_intro [OF g, of _ "out_first t" d cap]) simp_all
  qed
  moreover have "grid_over s k d cs us" using Cons.IH [OF us] Cons.prems(2) ts by auto
  ultimately show ?case using ts chain l by auto
qed

lemma grid_fits_single:
  "grid_fits s ks ts d = Done True \<Longrightarrow> t \<in> set ts \<Longrightarrow> grid_fits s ks [t] d = Done True"
  by (drule grid_fits_member) auto

section \<open>The widths the planner tries\<close>

lemma sum_balanced:
  "rem \<le> n \<Longrightarrow> sum_list (map (\<lambda>i. base + (if i < rem then 1 else 0)) [0..<n]) = n * base + (rem::nat)"
proof -
  have "sum_list (map (\<lambda>i. base + (if i < rem then 1 else 0)) [0..<m]) = m * base + min rem m" for m
    by (induction m) (auto simp: min_def)
  then show "rem \<le> n \<Longrightarrow> ?thesis" by (simp add: min_def)
qed

lemma balanced_column_widths_sum:
  assumes "0 < n" and "ow < 4294967295"
  shows "sum_list (balanced_column_widths ow n) = ow" and "length (balanced_column_widths ow n) = n"
proof -
  have le: "ow div n \<le> ow" by simp
  have "ow div n + 1 < 4294967296" using le assms(2) by linarith
  then have w: "wrap32 (ow div n + (if i < ow mod n then 1 else 0)) = ow div n + (if i < ow mod n then 1 else 0)" for i
    by simp
  have "balanced_column_widths ow n = map (\<lambda>i. ow div n + (if i < ow mod n then 1 else 0)) [0..<n]"
    unfolding balanced_column_widths_def Let_def w ..
  then show "sum_list (balanced_column_widths ow n) = ow" "length (balanced_column_widths ow n) = n"
    using sum_balanced [of "ow mod n" n "ow div n"] assms by (simp_all add: less_imp_le)
qed

lemma captured_column_partition_sum:
  assumes g: "geometry s ks k" and c: "captured_column_partition s ks = Some ws"
  shows "sum_list ws = out_w s k"
proof -
  have k: "try_kernel_programming_of ks (padding s) = Done k"
    using g by (simp add: geometry_def try_kernel_programming_def)
  have pad: "padding s = None" "width s = 256" "stride s = 1" "ks = (9, 9) \<or> ks = (11, 11)"
    using c by (auto simp: captured_column_partition_def Let_def simp del: not_None_eq split: if_splits)
  then have "out_w s k = 256"
    using k by (auto simp: try_kernel_programming_of_def out_w_def)
  moreover have "sum_list ws = 256"
    using c by (auto simp: captured_column_partition_def Let_def simp del: not_None_eq split: if_splits)
  ultimately show ?thesis by simp
qed

section \<open>Every plan is a grid\<close>

definition plan_grid_ok :: "shape \<Rightarrow> kernels \<Rightarrow> kernel_programming \<Rightarrow> nat \<times> nat \<Rightarrow> conv_plan \<Rightarrow> bool" where
  "plan_grid_ok s ks k banks p \<longleftrightarrow>
     plan_shape p = s \<and> plan_kernels p = ks \<and> plan_data_banks p = fst banks
     \<and> plan_weight_banks p = snd banks \<and> sum_list (plan_output_column_widths p) = out_w s k
     \<and> (\<exists>cs. col_chain s k 0 cs (out_w s k) \<and> map col_out_cols cs = plan_output_column_widths p
          \<and> grid_over s k (fst banks) cs (plan_tiles p))"

lemma make_plan_ok:
  assumes g: "geometry s ks k" and "column_split s ks ws = Done cs" and "sum_list ws = out_w s k"
    and "grid_over s k (fst banks) cs ts"
  shows "plan_grid_ok s ks k banks (make_plan s ks banks ws ts)"
  using column_split_chain [OF g assms(2,3)] assms
  by (auto simp: plan_grid_ok_def make_plan_def)

lemma plan_grid_Some:
  assumes g: "geometry s ks k" and "plan_grid s ks ws (fst banks) = Done (Some ts)"
    and "sum_list ws = out_w s k"
  shows "plan_grid_ok s ks k banks (make_plan s ks banks ws ts)"
proof -
  from assms(2) obtain cs where "column_split s ks ws = Done cs"
    and "plan_columns s ks (fst banks) cs = Done (Some ts)"
    unfolding plan_grid_def by (rule obind_DoneE)
  with plan_columns_grid [OF g] make_plan_ok [OF g _ assms(3)] show ?thesis by blast
qed

lemma search_column_counts_ok:
  assumes g: "geometry s ks k"
  shows "search_column_counts s ks banks (out_w s k) counts = Done p \<Longrightarrow> 0 \<notin> set counts \<Longrightarrow>
    plan_grid_ok s ks k banks p"
proof (induction counts)
  case Nil
  then show ?case by simp
next
  case (Cons n counts)
  let ?ws = "balanced_column_widths (out_w s k) n"
  have sum: "sum_list ?ws = out_w s k"
    using Cons.prems(2) out_w_small [OF g] by (intro balanced_column_widths_sum) auto
  from Cons.prems(1) obtain r where r: "plan_grid s ks ?ws (fst banks) = Done r"
    and rest: "(case r of Some tiles \<Rightarrow> Done (make_plan s ks banks ?ws tiles)
         | None \<Rightarrow> search_column_counts s ks banks (out_w s k) counts) = Done p"
    by (auto simp: Let_def elim!: obind_DoneE)
  show ?case
  proof (cases r)
    case None
    with rest Cons show ?thesis by simp
  next
    case (Some ts)
    with rest have "p = make_plan s ks banks ?ws ts" by simp
    with plan_grid_Some [OF g r [unfolded Some] sum] show ?thesis by simp
  qed
qed

lemma new_with_cbuf_partition_ok:
  assumes g: "geometry s ks k" and p: "new_with_cbuf_partition s ks banks = Done p"
  shows "plan_grid_ok s ks k banks p"
proof -
  let ?ow = "out_w s k"
  from p obtain r where r: "plan_grid s ks [?ow] (fst banks) = Done r"
    and rest: "(case r of Some tiles \<Rightarrow> Done (make_plan s ks banks [?ow] tiles)
     | None \<Rightarrow> refuse_unless (layout s = Surfaces) UnvalidatedConfiguration (
         case captured_column_partition s ks of
           Some widths \<Rightarrow>
             obind (tile2d_grid s ks widths (fst banks)) (\<lambda>tiles.
             obind (grid_fits s ks tiles (fst banks)) (\<lambda>fits.
             refuse_unless fits Internal (Done (make_plan s ks banks widths tiles))))
         | None \<Rightarrow> search_column_counts s ks banks ?ow [2..<Suc ?ow])) = Done p"
    unfolding new_with_cbuf_partition_def parity_padded_shape_def
    by (simp add: output_width_Done [OF g] del: upt_Suc) (rule obind_DoneE)
  show ?thesis
  proof (cases r)
    case (Some ts)
    with rest have "p = make_plan s ks banks [?ow] ts" by simp
    with plan_grid_Some [OF g r [unfolded Some]] show ?thesis by simp
  next
    case None
    from rest [unfolded None option.case] have l: "layout s = Surfaces"
      and alt: "(case captured_column_partition s ks of
           Some widths \<Rightarrow>
             obind (tile2d_grid s ks widths (fst banks)) (\<lambda>tiles.
             obind (grid_fits s ks tiles (fst banks)) (\<lambda>fits.
             refuse_unless fits Internal (Done (make_plan s ks banks widths tiles))))
         | None \<Rightarrow> search_column_counts s ks banks ?ow [2..<Suc ?ow]) = Done p"
      by (simp_all add: refuse_unless_eq_Done del: upt_Suc)
    show ?thesis
    proof (cases "captured_column_partition s ks")
      case None
      with alt have "search_column_counts s ks banks ?ow [2..<Suc ?ow] = Done p" by simp
      then show ?thesis by (rule search_column_counts_ok [OF g]) auto
    next
      case (Some ws)
      note sum = captured_column_partition_sum [OF g Some]
      from alt Some obtain ts where ts: "tile2d_grid s ks ws (fst banks) = Done ts"
        and fits: "grid_fits s ks ts (fst banks) = Done True"
        and p_eq: "p = make_plan s ks banks ws ts"
        by (auto simp: refuse_unless_eq_Done elim!: obind_DoneE)
      from ts obtain cs where cs: "column_split s ks ws = Done cs"
        and grid: "grid_columns s ks (fst banks) cs = Done ts"
        unfolding tile2d_grid_def by (rule obind_DoneE)
      have "grid_over s k (fst banks) cs ts"
        using grid_fits_single [OF fits] by (intro grid_columns_grid [OF g l grid]) auto
      with make_plan_ok [OF g cs sum] p_eq show ?thesis by simp
    qed
  qed
qed

section \<open>The entry points\<close>

lemma geometry_of_checks:
  assumes v: "valid_shape s" and k: "try_kernel_programming s ks = Done k"
    and e: "check_extents_against s k = Done u"
  shows "geometry s ks k"
proof -
  note b = kernel_programming_bounds [OF k] valid_shape_extents [OF v]
  have "width s + 2 * k_pad_left k < 4294967296" "height s + 2 * k_pad_top k < 4294967296"
    using b by linarith+
  with v k e show ?thesis
    by (simp add: geometry_def check_extents_against_def refuse_unless_eq_Done Let_def)
qed

definition banks_ok :: "nat \<times> nat \<Rightarrow> bool" where
  "banks_ok b \<longleftrightarrow> 1 \<le> fst b \<and> 1 \<le> snd b \<and> fst b + snd b = 12"

lemma weight_banks_floor_bounds: "3 \<le> weight_banks_floor c" "weight_banks_floor c \<le> 5"
  by (simp_all add: weight_banks_floor_def)

lemma demand_based_banks:
  assumes "try_demand_based_cbuf_partition s ks = Done b"
  shows "banks_ok b"
proof -
  have weights: "banks_ok (12 - min f 11, min f 11)" if "3 \<le> f" for f
    using that by (auto simp: banks_ok_def)
  have data: "banks_ok (min (max g 1) 11, 12 - min (max g 1) 11)" for g
    by (auto simp: banks_ok_def)
  have whole: "banks_ok (min d 11, 12 - min d 11)" if "1 \<le> d" for d
    using that by (auto simp: banks_ok_def)
  from assms obtain d where d: "data_bank_demand s = Done d"
    unfolding try_demand_based_cbuf_partition_def by (rule obind_DoneE)
  then have pos: "1 \<le> d"
    by (cases "layout s") (auto simp: data_bank_demand_def elim!: obind_DoneE)
  from assms obtain w pref where
    rest: "(let data_banks = min (max (if d \<le> w then d else min d (saturating_sub CBUF_BANKS w)) 1)
                 (CBUF_BANKS - 1);
          weight_banks = CBUF_BANKS - data_banks
      in let floor = max (weight_banks_floor (weight_channels s)) pref
      in if data_banks = 1 \<and> pref < weight_banks \<and> pref < w
         then Done (CBUF_BANKS - min floor (CBUF_BANKS - 1), min floor (CBUF_BANKS - 1))
         else if weight_banks < floor \<and> weight_banks < w
         then Done (CBUF_BANKS - min floor (CBUF_BANKS - 1), min floor (CBUF_BANKS - 1))
         else obind (tile_whole s ks) (\<lambda>whole.
              obind (max_tile_input_rows_for_data_banks s data_banks) (\<lambda>baseline_rows.
              obind (max_tile_input_rows_for_data_banks s (min d (CBUF_BANKS - 1))) (\<lambda>whole_rows.
              if data_banks < min d (CBUF_BANKS - 1) \<and> floor \<le> CBUF_BANKS - min d (CBUF_BANKS - 1)
                   \<and> \<not> in_rows whole \<le> baseline_rows \<and> in_rows whole \<le> whole_rows
              then Done (min d (CBUF_BANKS - 1), CBUF_BANKS - min d (CBUF_BANKS - 1))
              else Done (data_banks, weight_banks))))) = Done b"
    unfolding try_demand_based_cbuf_partition_def d obind.simps Let_def
    by (elim obind_DoneE) (drule refuse_unless_eq_Done [THEN iffD1], blast)
  have eleven: "(12::nat) - 1 = 11" by simp
  define f where "f = max (weight_banks_floor (weight_channels s)) pref"
  have f: "3 \<le> f" using weight_banks_floor_bounds(1) [of "weight_channels s"] by (simp add: f_def)
  define g where "g = (if d \<le> w then d else min d (saturating_sub 12 w))"
  have "b = (12 - min f 11, min f 11) \<or> b = (min (max g 1) 11, 12 - min (max g 1) 11)
      \<or> b = (min d 11, 12 - min d 11)"
    using rest unfolding Let_def CBUF_BANKS_def f_def [symmetric] g_def [symmetric] eleven
    by (auto simp only: outcome.inject elim!: obind_DoneE split: if_splits)
  then show ?thesis using weights [OF f] data [of g] whole [OF pos] by metis
qed

lemma unstarved_banks:
  "unstarved_large_kernel_partition s ks c = Done b \<Longrightarrow> 1 \<le> snd c \<Longrightarrow> banks_ok b"
  by (auto simp: unstarved_large_kernel_partition_def Let_def CBUF_BANKS_def banks_ok_def
      elim!: obind_DoneE)

lemma even_square_banks: "even_square_cbuf_partition s ks = Done b \<Longrightarrow> banks_ok b"
  unfolding even_square_cbuf_partition_def
  by (auto simp only: refuse_unless_eq_Done elim!: obind_DoneE intro: demand_based_banks)

lemma non_square_banks: "non_square_cbuf_partition s ks = Done b \<Longrightarrow> banks_ok b"
  unfolding non_square_cbuf_partition_def Let_def
  by (auto simp only: refuse_unless_eq_Done elim!: obind_DoneE intro: demand_based_banks)

lemma square_banks: "square_cbuf_partition pol s ks e = Done b \<Longrightarrow> banks_ok b"
  unfolding square_cbuf_partition_def Let_def
  by (elim obind_DoneE | simp only: refuse_unless_eq_Done snd_conv outcome.distinct split: if_splits)+
     ((auto elim!: obind_DoneE elim: demand_based_banks even_square_banks unstarved_banks
        split: if_splits), erule demand_based_banks, erule unstarved_banks, simp)

lemma try_new_grid:
  assumes v: "valid_shape s" and p: "try_new pol s ks = Done p"
  obtains k b where "geometry s ks k" and "banks_ok b" and "plan_grid_ok s ks k b p"
    and "output_width s ks = Done (out_w s k)" and "output_height s ks = Done (out_h s k)"
proof -
  from p obtain k u x where k: "try_kernel_programming s ks = Done k"
    and e: "check_extents_against s k = Done u"
    and rest: "(if k_height k \<noteq> k_width k
       then obind (non_square_cbuf_partition s ks) (\<lambda>banks. new_with_cbuf_partition s ks banks)
       else obind (square_cbuf_partition pol s ks (k_height k)) (\<lambda>banks.
            new_with_cbuf_partition s ks banks)) = Done p"
    unfolding try_new_def by (elim obind_DoneE)
  from rest obtain b where b: "banks_ok b" and plan: "new_with_cbuf_partition s ks b = Done p"
    by (cases "k_height k = k_width k")
       (auto elim!: obind_DoneE intro: that non_square_banks square_banks)
  note g = geometry_of_checks [OF v k e]
  from that [OF g b new_with_cbuf_partition_ok [OF g plan] output_width_Done [OF g]
      output_height_Done [OF g]]
  show thesis .
qed

lemma try_with_cbuf_banks_grid:
  assumes v: "valid_shape s" and p: "try_with_cbuf_banks s ks d w = Done p"
    and u32: "d < 2 ^ 32" "w < 2 ^ 32"
  obtains k where "geometry s ks k" and "banks_ok (d, w)" and "plan_grid_ok s ks k (d, w) p"
    and "output_width s ks = Done (out_w s k)" and "output_height s ks = Done (out_h s k)"
proof -
  from p obtain k u where k: "try_kernel_programming s ks = Done k"
    and e: "check_extents_against s k = Done u" and dw: "0 < d" "0 < w" "wrap32 (d + w) = 12"
    and plan: "new_with_cbuf_partition s ks (d, w) = Done p"
    unfolding try_with_cbuf_banks_def CBUF_BANKS_def
    by (auto simp only: refuse_unless_eq_Done elim!: obind_DoneE)
  note g = geometry_of_checks [OF v k e]
  note ok = new_with_cbuf_partition_ok [OF g plan]
  then obtain cs where cs: "col_chain s k 0 cs (out_w s k)"
    and grid: "grid_over s k d cs (plan_tiles p)"
    by (auto simp: plan_grid_ok_def)
  have "length (filter (covers 0 0) (plan_tiles p)) = 1"
    by (rule grid_over_once [OF cs grid]) simp_all
  then have "plan_tiles p \<noteq> []" by auto
  then obtain t where "t \<in> set (plan_tiles p)" by (meson list.set_sel(1))
  from grid_over_member [OF grid this] have "d < 12" by (simp add: tile_resident_def)
  with dw u32 have "banks_ok (d, w)"
    by (cases "d + w < 4294967296") (auto simp: banks_ok_def wrap32_def le_mod_geq)
  from that [OF g this ok output_width_Done [OF g] output_height_Done [OF g]]
  show thesis .
qed

text \<open>A tile of the plan, its column and its row window.\<close>

lemma plan_tile:
  assumes ok: "plan_grid_ok s ks k b p" and t: "t \<in> set (plan_tiles p)"
  shows "tile_resident s k (plan_data_banks p) t"
    and "t_rows t = tile_at s k (out_first (t_rows t)) (out_rows (t_rows t))"
    and "0 < out_rows (t_rows t)" and "out_first (t_rows t) + out_rows (t_rows t) \<le> out_h s k"
    and "t_columns t = column_at s k (out_w s k) (col_out_first (t_columns t)) (col_out_cols (t_columns t))"
    and "0 < col_out_cols (t_columns t)"
    and "col_out_first (t_columns t) + col_out_cols (t_columns t) \<le> out_w s k"
proof -
  from ok obtain cs where cs: "col_chain s k 0 cs (out_w s k)"
    and grid: "grid_over s k (plan_data_banks p) cs (plan_tiles p)"
    by (auto simp: plan_grid_ok_def)
  note m = grid_over_member [OF grid t]
  show "tile_resident s k (plan_data_banks p) t"
    "t_rows t = tile_at s k (out_first (t_rows t)) (out_rows (t_rows t))"
    "0 < out_rows (t_rows t)" "out_first (t_rows t) + out_rows (t_rows t) \<le> out_h s k"
    using m by blast+
  have "t_columns t \<in> set cs" using m by blast
  from col_chain_member [OF cs this]
  show "t_columns t = column_at s k (out_w s k) (col_out_first (t_columns t)) (col_out_cols (t_columns t))"
    "0 < col_out_cols (t_columns t)" "col_out_first (t_columns t) + col_out_cols (t_columns t) \<le> out_w s k"
    by blast+
qed

lemma plan_covers_once:
  assumes ok: "plan_grid_ok s ks k b p" and "r < out_h s k" and "c < out_w s k"
  shows "length (filter (covers r c) (plan_tiles p)) = 1"
proof -
  from ok obtain cs where cs: "col_chain s k 0 cs (out_w s k)"
    and grid: "grid_over s k (plan_data_banks p) cs (plan_tiles p)"
    by (auto simp: plan_grid_ok_def)
  show ?thesis by (rule grid_over_once [OF cs grid le0 assms(3,2)])
qed

section \<open>The accumulator scratch\<close>

definition tile_area :: "tile2d \<Rightarrow> nat" where
  "tile_area t = out_rows (t_rows t) * col_out_cols (t_columns t)"

lemma grid_over_area:
  "grid_over s k d cs ts \<Longrightarrow>
   sum_list (map tile_area ts) = out_h s k * sum_list (map col_out_cols cs)"
proof (induction cs arbitrary: ts)
  case Nil
  then show ?case by simp
next
  case (Cons c cs)
  from Cons.prems obtain rows rest where
    ts: "ts = map (\<lambda>r. \<lparr>t_rows = r, t_columns = c\<rparr>) rows @ rest"
    and rows: "row_chain s k 0 rows (out_h s k)" and rest: "grid_over s k d cs rest"
    by auto
  have "sum_list (map tile_area (map (\<lambda>r. \<lparr>t_rows = r, t_columns = c\<rparr>) rs)) =
      sum_list (map out_rows rs) * col_out_cols c" for rs
    by (induction rs) (simp_all add: tile_area_def add_mult_distrib)
  moreover have "sum_list (map out_rows rows) = out_h s k" using row_chain_sum [OF rows] by simp
  ultimately show ?case using Cons.IH [OF rest] by (simp add: ts add_mult_distrib2)
qed

lemma plan_area:
  assumes "plan_grid_ok s ks k b p"
  shows "sum_list (map tile_area (plan_tiles p)) = out_h s k * out_w s k"
  using assms grid_over_area by (fastforce simp: plan_grid_ok_def)

text \<open>
  Consecutive entries: each starts where the one before ended and takes its tile's area times
  the bytes per pixel, and describes its tile's output rectangle.
\<close>

fun entries_of :: "nat \<Rightarrow> nat \<Rightarrow> accumulator_output_tile list \<Rightarrow> tile2d list \<Rightarrow> nat \<Rightarrow> bool" where
  "entries_of pixel off [] [] stop = (off = stop)"
| "entries_of pixel off (e # es) (t # ts) stop =
     (scratch_offset e = off \<and> scratch_bytes e = tile_area t * pixel
      \<and> output_row e = out_first (t_rows t) \<and> output_rows e = out_rows (t_rows t)
      \<and> output_column e = col_out_first (t_columns t)
      \<and> output_columns e = col_out_cols (t_columns t)
      \<and> entries_of pixel (off + scratch_bytes e) es ts stop)"
| "entries_of pixel off es ts stop = False"

text \<open>
  The 64-bit checks of the accumulation fail exactly when the exact total does not fit, and then
  with \<open>InvalidShape\<close>.
\<close>

definition acc_stop :: "nat \<Rightarrow> nat \<Rightarrow> tile2d list \<Rightarrow> nat" where
  "acc_stop pixel off ts = off + sum_list (map tile_area ts) * pixel"

lemma accumulate_tiles_exact:
  assumes "\<forall>t \<in> set ts. tile_area t < 2 ^ 64" and "off < 2 ^ 64" and bytes: "0 < bytes"
  shows "if acc_stop (blocks * bytes) off ts < 2 ^ 64
    then \<exists>es. accumulate_tiles blocks bytes off ts = Done (es, acc_stop (blocks * bytes) off ts)
              \<and> entries_of (blocks * bytes) off es ts (acc_stop (blocks * bytes) off ts)
    else accumulate_tiles blocks bytes off ts = Refused InvalidShape"
  using assms(1,2)
proof (induction ts arbitrary: off)
  case Nil
  then show ?case by (simp add: acc_stop_def)
next
  case (Cons t ts)
  let ?px = "blocks * bytes"
  let ?here = "tile_area t * ?px"
  let ?stop = "acc_stop ?px (off + ?here) ts"
  have area: "wrap64 (out_rows (t_rows t) * col_out_cols (t_columns t)) = tile_area t"
    using Cons.prems(1) by (simp add: tile_area_def)
  have split: "acc_stop ?px off (t # ts) = ?stop"
    by (simp add: acc_stop_def add_mult_distrib)
  define size where "size = Option.bind (checked_mul64 (tile_area t) blocks) (\<lambda>v. checked_mul64 v bytes)"
  have mono: "tile_area t * blocks \<le> ?here" using bytes by (simp add: mult.assoc [symmetric])
  have size: "size = (if ?here < 2 ^ 64 then Some ?here else None)"
  proof (cases "tile_area t * blocks < 2 ^ 64")
    case True
    then show ?thesis by (simp add: size_def checked_mul64_def mult.assoc)
  next
    case False
    with mono have "\<not> ?here < 2 ^ 64" by linarith
    with False show ?thesis by (simp add: size_def checked_mul64_def)
  qed
  show ?case
  proof (cases "off + ?here < 2 ^ 64")
    case True
    then have "?here < 2 ^ 64" by linarith
    with True Cons.IH [of "off + ?here"] Cons.prems(1) show ?thesis
      unfolding split accumulate_tiles.simps area Let_def size_def [symmetric] size
      by (auto simp: checked_add64_def)
  next
    case False
    then have "\<not> ?stop < 2 ^ 64" unfolding acc_stop_def by linarith
    with False show ?thesis
      unfolding split accumulate_tiles.simps area Let_def size_def [symmetric] size
      by (auto simp: checked_add64_def)
  qed
qed

lemma output_atom_bytes_bounds: "0 < output_atom_bytes s \<and> output_atom_bytes s \<le> 512"
  by (cases "precision s")
     (simp_all add: output_atom_bytes_def output_channel_block_bytes_def FEATURE_ATOM_BYTES_def
        precision_granule_def)

text \<open>The padded bytes one accumulator pixel takes in the scratch.\<close>

definition accumulator_pixel :: "shape \<Rightarrow> nat" where
  "accumulator_pixel s = div_ceil (padded_out_channels s * output_element_bytes (precision s))
     (output_atom_bytes s) * output_atom_bytes s"

lemma accumulator_layout_exact:
  assumes v: "valid_shape s" and p: "try_new pol s ks = Done p"
    and acc: "writes_accumulators (precision s)"
  shows "(\<exists>L. accumulator_output_layout_of p = Done L
            \<and> entries_of (accumulator_pixel s) 0 (acc_tiles L) (plan_tiles p) (acc_scratch_bytes L)
            \<and> output_scratch_bytes s ks = Done (acc_scratch_bytes L))
    \<or> accumulator_output_layout_of p = Refused InvalidShape"
proof -
  obtain k b where g: "geometry s ks k" and ok: "plan_grid_ok s ks k b p"
    using try_new_grid [OF v p] by metis
  have s: "plan_shape p = s" "plan_kernels p = ks" using ok by (simp_all add: plan_grid_ok_def)
  let ?bytes = "output_atom_bytes s"
  let ?chan = "padded_out_channels s * output_element_bytes (precision s)"
  let ?blocks = "div_ceil ?chan ?bytes"
  let ?stop = "acc_stop (?blocks * ?bytes) 0 (plan_tiles p)"
  have "padded_out_channels s < 4294967296 + 128"
  proof -
    have "shape_granule s \<le> 128"
      using precision_granule_le [of "precision s"] by (simp add: shape_granule_def Let_def)
    moreover have "wrap32 (next_multiple_of (out_channels s) (shape_granule s)) < 4294967296"
      using wrap32_less by simp
    ultimately show ?thesis by (simp add: padded_out_channels_def Let_def max_def)
  qed
  then have "?chan \<le> (4294967296 + 128) * 4"
    using output_element_bytes_bounds [of "precision s"] by (intro mult_le_mono) simp_all
  then have chan: "wrap64 ?chan = ?chan" by simp
  have area: "\<forall>t \<in> set (plan_tiles p). tile_area t < 2 ^ 64"
  proof
    fix t
    assume "t \<in> set (plan_tiles p)"
    from plan_tile(4,7) [OF ok this]
    have "out_rows (t_rows t) \<le> 4294967295" "col_out_cols (t_columns t) \<le> 4294967295"
      using out_h_small [OF g] out_w_small [OF g] by linarith+
    then have "tile_area t \<le> 4294967295 * 4294967295"
      unfolding tile_area_def by (rule mult_le_mono)
    then show "tile_area t < 2 ^ 64" by simp
  qed
  have stop: "?stop = out_w s k * out_h s k * ?blocks * ?bytes"
    using plan_area [OF ok] by (simp add: acc_stop_def mult.assoc mult.left_commute)
  note exact = accumulate_tiles_exact [OF area, of 0 ?bytes ?blocks]
  show ?thesis
  proof (cases "?stop < 2 ^ 64")
    case True
    then obtain es where es: "accumulate_tiles ?blocks ?bytes 0 (plan_tiles p) = Done (es, ?stop)"
      "entries_of (accumulator_pixel s) 0 es (plan_tiles p) ?stop"
      using exact output_atom_bytes_bounds [of s] by (auto simp: accumulator_pixel_def)
    have "output_scratch_bytes s ks = Done ?stop"
      using True stop by (simp add: output_scratch_bytes_def output_width_Done [OF g]
          output_height_Done [OF g] Let_def)
    with es acc show ?thesis
      by (simp add: accumulator_output_layout_of_def s Let_def chan)
  next
    case False
    then have "accumulate_tiles ?blocks ?bytes 0 (plan_tiles p) = Refused InvalidShape"
      using exact output_atom_bytes_bounds [of s] by simp
    with acc show ?thesis by (simp add: accumulator_output_layout_of_def s Let_def chan)
  qed
qed

end
