(* ===== verification/PlanTotal.thy ===== *)
theory PlanTotal
  imports PlanProofs
begin

text \<open>
  The planner is total: as long as one input row's atoms stay addressable, no assertion,
  division or slice index on the way from a shape to a plan can fail, so \<open>try_new\<close> ends in a
  plan or in a typed refusal. All its loops are structural or have a decreasing measure.
\<close>

text \<open>
  The bound: the atoms of one input row, rounded to CBUF entries, fit the 32-bit product the
  capacity computation divides by (268435452 is \<open>2^28 - 4\<close>).
\<close>

definition row_addressable :: "shape \<Rightarrow> bool" where
  "row_addressable s \<longleftrightarrow> width s * cbuf_atoms s \<le> 268435452"

section \<open>Capacity\<close>

lemma element_bits_div_8_le: "element_bits p div 8 \<le> 4"
  by (cases p) auto

lemma dense_not_int4: "valid_shape s \<Longrightarrow> layout s = Dense \<Longrightarrow> precision s \<noteq> Int4"
  by (auto simp: valid_shape_def layout_def MAX_DENSE_CHANNELS_def split: if_splits)

lemma dense_pixel:
  assumes v: "valid_shape s" and l: "layout s = Dense"
  shows "\<exists>b. dense_cbuf_pixel_bytes s = Done b \<and> 0 < b \<and> b \<le> 4 * (element_bits (precision s) div 8)
    \<and> b \<le> 16"
proof -
  let ?e = "element_bits (precision s) div 8"
  let ?b = "min (next_power_of_two (in_channels s)) 4 * ?e"
  have p: "precision s \<noteq> Int4" by (rule dense_not_int4 [OF v l])
  have e: "0 < ?e" "?e \<le> 4" using p by (cases "precision s"; simp)+
  have ch: "1 \<le> in_channels s" "in_channels s \<le> 4"
    using v l by (auto simp: valid_shape_def layout_def MAX_DENSE_CHANNELS_def split: if_splits)
  with next_pow2_from_bounds [of 1 "in_channels s"] have "0 < next_power_of_two (in_channels s)"
    by (simp add: next_power_of_two_def)
  then have "0 < ?b" using e by simp
  moreover have le: "?b \<le> 4 * ?e" by (intro mult_le_mono1) simp
  moreover have "?b \<le> 16" using le e by linarith
  ultimately show ?thesis
    using p by (simp add: dense_cbuf_pixel_bytes_def element_bytes_Done)
qed

lemma capacity_total:
  assumes v: "valid_shape s" and a: "row_addressable s"
    and d: "1 \<le> d" "d < 12" and c: "1 \<le> c" "c \<le> width s"
  shows "max_tile_input_rows_for_width_and_data_banks s c d \<noteq> Panicked"
proof (cases "layout s")
  case Surfaces
  have atoms: "0 < cbuf_atoms s" using v cbuf_atoms_bounds(1) by (simp add: valid_shape_def)
  have "c * cbuf_atoms s \<le> width s * cbuf_atoms s" using c by (intro mult_le_mono1)
  with a have le: "c * cbuf_atoms s \<le> 268435452" unfolding row_addressable_def by linarith
  define e where "e = div_ceil (c * cbuf_atoms s) 4"
  have "0 < e" using c atoms by (simp add: e_def)
  moreover have "e \<le> 67108863" unfolding e_def by (subst div_ceil_le_iff) (use le in simp_all)
  ultimately have "wrap32 (e * 64) = e * 64" "0 < e * 64" by simp_all
  then show ?thesis
    using d c le Surfaces
    by (simp add: max_tile_input_rows_for_width_and_data_banks_def cbuf_input_width_def hw_consts
        e_def [symmetric] mult.assoc Let_def)
next
  case Dense
  define ch where "ch = next_multiple_of c (channels_per_atom (precision s))"
  obtain b where b: "dense_cbuf_pixel_bytes s = Done b" "0 < b"
    "b \<le> 4 * (element_bits (precision s) div 8)" "b \<le> 16"
    using dense_pixel [OF v Dense] by blast
  have atoms: "0 < cbuf_atoms s" using v cbuf_atoms_bounds(1) by (simp add: valid_shape_def)
  then have "width s \<le> width s * cbuf_atoms s" by simp
  with a c have le: "c \<le> 268435452" unfolding row_addressable_def by linarith
  have "c \<le> ch" unfolding ch_def by (rule next_multiple_of_ge) simp
  with c have pos: "0 < ch" by simp
  have ch: "ch < c + channels_per_atom (precision s)"
    unfolding ch_def by (rule next_multiple_of_less) simp
  have "ch * b < 4294967296"
  proof (cases "precision s = Tf32")
    case True
    have "ch \<le> 268435452"
    proof -
      have "div_ceil c 4 \<le> 67108863" by (subst div_ceil_le_iff) (use le in simp_all)
      then show ?thesis by (simp add: ch_def True next_multiple_of_eq)
    qed
    then have "ch * b \<le> 268435452 * 16" using b by (intro mult_le_mono)
    then show ?thesis by simp
  next
    case False
    with b(3) dense_not_int4 [OF v Dense] have "b \<le> 8" by (cases "precision s") auto
    moreover have "ch \<le> 268435452 + 32"
      using ch le channels_per_atom_bounds [of "precision s"] by linarith
    ultimately have "ch * b \<le> (268435452 + 32) * 8" by (intro mult_le_mono)
    then show ?thesis by simp
  qed
  moreover have "ch < 4294967296"
    using ch le channels_per_atom_bounds [of "precision s"] by linarith
  moreover have "0 < ch * b" using pos b by simp
  ultimately show ?thesis
    using d c pos Dense b
    by (simp add: max_tile_input_rows_for_width_and_data_banks_def cbuf_input_width_def hw_consts
        ch_def [symmetric] Let_def)
qed

section \<open>Demand and partition\<close>

lemma bytes_for_total:
  assumes "p = Int4 \<Longrightarrow> even n"
  shows "bytes_for p n \<noteq> Panicked"
proof -
  have "(8::nat) dvd 2 ^ 32" by simp
  moreover have "8 dvd n * element_bits p"
    using assms by (cases p) (auto simp: dvd_def intro: exI [of _ "n * 2"] exI [of _ "n * 4"])
  ultimately have "8 dvd wrap32 (n * element_bits p)" by (simp add: wrap32_def dvd_mod)
  then show ?thesis by (simp add: bytes_for_def Let_def)
qed

lemma even_wrap32: "even (wrap32 n) \<longleftrightarrow> even n"
  by (simp add: wrap32_def dvd_mod_iff)

lemma weight_bytes_total:
  assumes g: "geometry s ks k"
  shows "weight_bytes s ks \<noteq> Panicked"
proof -
  have "even (wrap32 (weight_channels s * programmed_kernels s))"
    if "precision s = Int4" "\<not> depthwise s"
    using that next_multiple_of_dvd [of 2 "out_channels s"]
    by (simp add: programmed_kernels_def even_wrap32)
  moreover have "even (wrap32 (cbuf_atoms s * channels_per_atom (precision s)))"
    if "precision s = Int4"
    using that by (simp add: even_wrap32)
  ultimately show ?thesis
    unfolding weight_bytes_def kernel_prog_Done [OF g] obind.simps
    by (intro no_panic bytes_for_total) auto
qed

lemma data_bank_demand_total:
  assumes v: "valid_shape s"
  shows "data_bank_demand s \<noteq> Panicked"
  using dense_pixel [OF v] by (cases "layout s") (auto simp: data_bank_demand_def)

lemma weight_bank_demand_total: "geometry s ks k \<Longrightarrow> weight_bank_demand s ks \<noteq> Panicked"
  unfolding weight_bank_demand_def by (intro no_panic weight_bytes_total)

lemma streamed_preference_total: "streamed_weight_bank_preference c ks b \<noteq> Panicked"
proof -
  have "streamed_weight_bank_preference_for_group c ks g b \<noteq> Panicked" if "0 < g" for g
    unfolding streamed_weight_bank_preference_for_group_def Let_def by (intro no_panic that)
  then show ?thesis unfolding streamed_weight_bank_preference_def by (intro no_panic) simp_all
qed

lemma tile_split_total:
  "geometry s ks k \<Longrightarrow> 1 \<le> n \<Longrightarrow> n \<le> out_h s k \<Longrightarrow> tile_split s ks n \<noteq> Panicked"
  by (simp add: tile_split_def output_height_Done kernel_prog_Done)

lemma tile_whole_total:
  assumes g: "geometry s ks k"
  shows "tile_whole s ks \<noteq> Panicked"
proof -
  have "1 \<le> out_h s k" using out_h_pos [of s k] by linarith
  then have "\<exists>t. tile_split s ks 1 = Done [t]"
    by (simp add: tile_split_def output_height_Done [OF g] kernel_prog_Done [OF g] Let_def)
  then show ?thesis by (auto simp: tile_whole_def)
qed

lemma demand_based_total:
  assumes g: "geometry s ks k" and a: "row_addressable s"
  shows "try_demand_based_cbuf_partition s ks \<noteq> Panicked"
proof -
  have v: "valid_shape s" using g by (simp add: geometry_def)
  have w: "1 \<le> width s" using v by (simp add: valid_shape_def)
  have cap: "max_tile_input_rows_for_data_banks s d \<noteq> Panicked" if "1 \<le> d" "d < 12" for d
    unfolding max_tile_input_rows_for_data_banks_def
    by (rule capacity_total [OF v a that w]) simp
  have one: "1 \<le> d" if "data_bank_demand s = Done d" for d
    using that by (cases "layout s") (auto simp: data_bank_demand_def elim!: obind_DoneE)
  have granted: "max_tile_input_rows_for_data_banks s (min (max d 1) (12 - 1)) \<noteq> Panicked" for d
    by (rule cap) auto
  have whole: "1 \<le> d \<Longrightarrow> max_tile_input_rows_for_data_banks s (min d (12 - 1)) \<noteq> Panicked" for d
    by (rule cap) auto
  show ?thesis
    unfolding try_demand_based_cbuf_partition_def Let_def CBUF_BANKS_def
    by (intro no_panic data_bank_demand_total [OF v] weight_bank_demand_total [OF g]
        streamed_preference_total tile_whole_total [OF g] granted whole) (erule one)
qed

lemma unstarved_total: "unstarved_large_kernel_partition s ks c \<noteq> Panicked"
  unfolding unstarved_large_kernel_partition_def Let_def
  by (intro no_panic streamed_preference_total)

lemma large_kernel_case_total: "check_large_kernel_plan_case pol s e n \<noteq> Panicked"
  unfolding check_large_kernel_plan_case_def Let_def by (intro no_panic)

lemma even_square_total:
  "geometry s ks k \<Longrightarrow> row_addressable s \<Longrightarrow> even_square_cbuf_partition s ks \<noteq> Panicked"
  unfolding even_square_cbuf_partition_def
  by (intro no_panic weight_bank_demand_total demand_based_total)

lemma non_square_total:
  "geometry s ks k \<Longrightarrow> row_addressable s \<Longrightarrow> non_square_cbuf_partition s ks \<noteq> Panicked"
  unfolding non_square_cbuf_partition_def Let_def
  by (intro no_panic weight_bank_demand_total demand_based_total) (simp add: geometry_def)

lemma square_total:
  "geometry s ks k \<Longrightarrow> row_addressable s \<Longrightarrow> square_cbuf_partition pol s ks e \<noteq> Panicked"
  unfolding square_cbuf_partition_def Let_def
  by (intro no_panic weight_bank_demand_total demand_based_total even_square_total unstarved_total
      large_kernel_case_total)

section \<open>Rows\<close>

lemma dense_offset_total: "valid_shape s \<Longrightarrow> dense_feature_offset_safe s i \<noteq> Panicked"
  using dense_row_stride_Done [of s] by (auto simp: dense_feature_offset_safe_def)

lemma boundary_safe_total: "geometry s ks k \<Longrightarrow> boundary_safe s ks b \<noteq> Panicked"
  unfolding boundary_safe_def tile_in_first_def
  by (simp add: kernel_prog_Done [of s ks k] dense_offset_total, simp add: dense_offset_total geometry_def)

lemma search_total:
  assumes "\<And>b. safe b \<noteq> Panicked"
  shows "search_candidates safe lo hi cs \<noteq> Panicked"
    and "search_distances safe lo hi cur ds \<noteq> Panicked"
    and "realign_boundaries safe bs is \<noteq> Panicked"
proof -
  show cands: "search_candidates safe lo hi cs \<noteq> Panicked" for lo hi cs
  proof (induction cs)
    case (Cons c cs)
    then show ?case unfolding search_candidates.simps by (intro no_panic assms)
  qed simp
  show dists: "search_distances safe lo hi cur ds \<noteq> Panicked" for lo hi cur ds
  proof (induction ds)
    case (Cons d ds)
    then show ?case unfolding search_distances.simps by (intro no_panic cands)
  qed simp
  show "realign_boundaries safe bs is \<noteq> Panicked"
  proof (induction "is" arbitrary: bs)
    case (Cons i rest)
    then show ?case unfolding realign_boundaries.simps Let_def by (intro no_panic dists assms)
  qed simp
qed

lemma realign_total:
  assumes g: "geometry s ks k"
  shows "realign_dense_row_tiles s ks ts cap \<noteq> Panicked"
  unfolding realign_dense_row_tiles_def Let_def output_height_Done [OF g] kernel_prog_Done [OF g]
    obind.simps
  by (intro no_panic search_total boundary_safe_total [OF g])

lemma equal_split_fallback_total:
  assumes g: "geometry s ks k"
  shows "\<forall>n \<in> set counts. 1 \<le> n \<and> n \<le> out_h s k \<Longrightarrow> equal_split_fallback s ks cap counts \<noteq> Panicked"
proof (induction counts)
  case (Cons n counts)
  have "tile_split s ks n \<noteq> Panicked" using Cons.prems by (intro tile_split_total [OF g]) simp_all
  with Cons show ?case
    unfolding equal_split_fallback.simps by (intro no_panic realign_total [OF g]) simp_all
qed simp

lemma plan_column_rows_total:
  assumes g: "geometry s ks k"
  shows "plan_column_rows s ks cap \<noteq> Panicked"
proof -
  have "split_greedy_to_capacity s ks cap \<noteq> Panicked"
    unfolding split_greedy_to_capacity_def tile_from_bounds_def output_height_Done [OF g]
      kernel_prog_Done [OF g] obind.simps
    by (intro no_panic)
  then show ?thesis
    unfolding plan_column_rows_def output_height_Done [OF g] obind.simps
    by (intro no_panic realign_total [OF g] equal_split_fallback_total [OF g]) auto
qed

section \<open>Columns and grids\<close>

text \<open>Every column of a chain has a width the capacity computation accepts.\<close>

lemma chain_column_extent:
  assumes g: "geometry s ks k" and "col_chain s k f cs (out_w s k)" and "c \<in> set cs"
  shows "1 \<le> col_in_cols c" and "col_in_cols c \<le> width s"
proof -
  note m = col_chain_member [OF assms(2,3)]
  have "0 < col_in_cols c" "col_in_first c + col_in_cols c \<le> width s"
    using column_window(1,2) [OF g, of "col_out_cols c" "col_out_first c"] m by simp_all
  then show "1 \<le> col_in_cols c" "col_in_cols c \<le> width s" by linarith+
qed

lemma plan_columns_total:
  assumes g: "geometry s ks k" and a: "row_addressable s" and d: "1 \<le> d" "d < 12"
  shows "\<forall>c \<in> set cs. 1 \<le> col_in_cols c \<and> col_in_cols c \<le> width s \<Longrightarrow>
    plan_columns s ks d cs \<noteq> Panicked"
proof (induction cs)
  case (Cons c cs)
  have v: "valid_shape s" using g by (simp add: geometry_def)
  have "max_tile_input_rows_for_width_and_data_banks s (col_in_cols c) d \<noteq> Panicked"
    using Cons.prems by (intro capacity_total [OF v a d]) simp_all
  with Cons show ?case
    unfolding plan_columns.simps max_feature_grain_input_rows_Done [OF g] obind.simps
    by (intro no_panic plan_column_rows_total [OF g]) simp_all
qed simp

lemma column_split_total:
  assumes g: "geometry s ks k" and "ws \<noteq> []" and sum: "sum_list ws = out_w s k" and pos: "0 \<notin> set ws"
  shows "column_split s ks ws \<noteq> Panicked"
proof -
  have split_from: "column_split_from s ks f us \<noteq> Panicked"
    if "f + sum_list us = out_w s k" "0 \<notin> set us" for f us
    using that
  proof (induction us arbitrary: f)
    case (Cons u us)
    then have u: "0 < u" "f + u \<le> out_w s k" "wrap32 (f + u) = f + u"
      using out_w_small [OF g] by simp_all
    then have "column_from_output_range s ks f u \<noteq> Panicked"
      by (simp add: column_from_output_range_def output_width_Done [OF g] kernel_prog_Done [OF g])
    with Cons u show ?case
      unfolding column_split_from.simps by (intro no_panic) simp_all
  qed simp
  have "wrap32 (sum_list ws) = out_w s k" using sum out_w_small [OF g] by simp
  with split_from [of 0 ws] assms show ?thesis
    by (simp add: column_split_def output_width_Done [OF g])
qed

lemma plan_grid_total:
  assumes g: "geometry s ks k" and a: "row_addressable s" and d: "1 \<le> d" "d < 12"
    and "ws \<noteq> []" and sum: "sum_list ws = out_w s k" and pos: "0 \<notin> set ws"
  shows "plan_grid s ks ws d \<noteq> Panicked"
  unfolding plan_grid_def
proof (intro no_panic column_split_total [OF g] plan_columns_total [OF g a d] assms)
  fix cs
  assume "column_split s ks ws = Done cs"
  from column_split_chain(1) [OF g this sum]
  show "\<forall>c \<in> set cs. 1 \<le> col_in_cols c \<and> col_in_cols c \<le> width s"
    using chain_column_extent [OF g] by blast
qed

lemma balanced_positive:
  assumes "0 < n" and "n \<le> ow" and "ow < 4294967295"
  shows "0 \<notin> set (balanced_column_widths ow n)"
proof -
  have "1 \<le> ow div n" using assms by (simp add: div_greater_zero_iff Suc_le_eq)
  moreover have "ow div n + 1 < 4294967296" using assms div_le_dividend [of ow n] by linarith
  ultimately show ?thesis by (auto simp: balanced_column_widths_def Let_def)
qed

lemma search_column_counts_total:
  assumes g: "geometry s ks k" and a: "row_addressable s" and d: "1 \<le> fst banks" "fst banks < 12"
  shows "\<forall>n \<in> set counts. 0 < n \<and> n \<le> out_w s k \<Longrightarrow>
    search_column_counts s ks banks (out_w s k) counts \<noteq> Panicked"
proof (induction counts)
  case (Cons n counts)
  let ?ws = "balanced_column_widths (out_w s k) n"
  have n: "0 < n" "n \<le> out_w s k" using Cons.prems by simp_all
  note b = balanced_column_widths_sum [OF n(1) out_w_small [OF g]]
  have "?ws \<noteq> []" using b(2) n(1) by auto
  then have "plan_grid s ks ?ws (fst banks) \<noteq> Panicked"
    by (intro plan_grid_total [OF g a d] b balanced_positive n out_w_small [OF g])
  with Cons show ?case
    unfolding search_column_counts.simps Let_def by (intro no_panic) simp_all
qed simp

text \<open>The equal split of a captured column always has between one and all output rows.\<close>

lemma min_tiles_total:
  assumes g: "geometry s ks k" and a: "row_addressable s" and d: "1 \<le> d" "d < 12"
    and c: "1 \<le> c" "c \<le> width s"
  shows "min_tiles_for_width_and_data_banks s ks c d \<noteq> Panicked"
    and "min_tiles_for_width_and_data_banks s ks c d = Done n \<Longrightarrow> 1 \<le> n \<and> n \<le> out_h s k"
proof -
  have v: "valid_shape s" and st: "0 < stride s"
    using g by (simp_all add: geometry_def valid_shape_def)
  show "min_tiles_for_width_and_data_banks s ks c d \<noteq> Panicked"
    unfolding min_tiles_for_width_and_data_banks_def Let_def kernel_prog_Done [OF g] obind.simps
      max_feature_grain_input_rows_Done [OF g] output_height_Done [OF g]
    by (intro no_panic capacity_total [OF v a d c]) (use st in simp)
  assume "min_tiles_for_width_and_data_banks s ks c d = Done n"
  then obtain rows where n: "n = div_ceil (out_h s k) rows" and rows: "1 \<le> rows"
    unfolding min_tiles_for_width_and_data_banks_def Let_def kernel_prog_Done [OF g] obind.simps
      max_feature_grain_input_rows_Done [OF g] output_height_Done [OF g]
    by (auto simp: ensure_eq_Done elim!: obind_DoneE)
  have "div_ceil (out_h s k) rows \<le> out_h s k" using rows by (intro div_ceil_le_self) simp
  moreover have "0 < div_ceil (out_h s k) rows" using rows by simp
  ultimately show "1 \<le> n \<and> n \<le> out_h s k" by (simp add: n)
qed

lemma grid_columns_total:
  assumes g: "geometry s ks k" and a: "row_addressable s" and d: "1 \<le> d" "d < 12"
  shows "\<forall>c \<in> set cs. 1 \<le> col_in_cols c \<and> col_in_cols c \<le> width s \<Longrightarrow>
    grid_columns s ks d cs \<noteq> Panicked"
proof (induction cs)
  case (Cons c cs)
  then have c: "1 \<le> col_in_cols c" "col_in_cols c \<le> width s"
    and rest: "grid_columns s ks d cs \<noteq> Panicked" by simp_all
  show ?case
    unfolding grid_columns.simps
    by (intro no_panic min_tiles_total(1) [OF g a d c] tile_split_total [OF g] rest)
       (use min_tiles_total(2) [OF g a d c] in blast)+
qed simp

lemma grid_over_rows_small:
  assumes g: "geometry s ks k" and t: "t_rows t = tile_at s k f (out_rows (t_rows t))"
    "0 < out_rows (t_rows t)" "f + out_rows (t_rows t) \<le> out_h s k"
  shows "feature_grains ks (t_rows t) \<noteq> Panicked"
proof -
  have "in_first (t_rows t) + in_rows (t_rows t) \<le> height s"
    using tile_window(2) [OF g t(2,3)] t(1) by simp
  then have "in_rows (t_rows t) < 268435456" using geometry_bounds(5) [OF g] by linarith
  moreover have "pad_top (t_rows t) \<le> k_pad_top k" using t(1) pad_top_tile_at by metis
  ultimately show ?thesis by (simp add: feature_grains_eq [OF g])
qed

text \<open>Every tile of a captured grid is the tile of its own bounds, so checking it cannot panic.\<close>

lemma grid_columns_members:
  assumes g: "geometry s ks k"
  shows "grid_columns s ks d cs = Done ts \<Longrightarrow> t \<in> set ts \<Longrightarrow>
    t_columns t \<in> set cs \<and> t_rows t = tile_at s k (out_first (t_rows t)) (out_rows (t_rows t))
    \<and> 0 < out_rows (t_rows t) \<and> out_first (t_rows t) + out_rows (t_rows t) \<le> out_h s k"
proof (induction cs arbitrary: ts)
  case Nil
  then show ?case by simp
next
  case (Cons c cs)
  from Cons.prems(1) obtain n rows us where rows: "tile_split s ks n = Done rows"
    and us: "grid_columns s ks d cs = Done us"
    and ts: "ts = map (\<lambda>r. \<lparr>t_rows = r, t_columns = c\<rparr>) rows @ us"
    by (auto elim!: obind_DoneE)
  show ?case
  proof (cases "t \<in> set us")
    case True
    from Cons.IH [OF us this] show ?thesis by simp
  next
    case False
    with Cons.prems(2) ts obtain r where r: "r \<in> set rows" "t = \<lparr>t_rows = r, t_columns = c\<rparr>" by auto
    from row_chain_member [OF tile_split_chain(1) [OF g rows] r(1)] r(2) show ?thesis by simp
  qed
qed

lemma grid_fits_total:
  assumes g: "geometry s ks k" and a: "row_addressable s" and d: "1 \<le> d" "d < 12"
  shows "\<forall>t \<in> set ts. 1 \<le> col_in_cols (t_columns t) \<and> col_in_cols (t_columns t) \<le> width s
      \<and> feature_grains ks (t_rows t) \<noteq> Panicked \<Longrightarrow> grid_fits s ks ts d \<noteq> Panicked"
proof (induction ts)
  case (Cons t ts)
  have v: "valid_shape s" using g by (simp add: geometry_def)
  from Cons have t: "1 \<le> col_in_cols (t_columns t)" "col_in_cols (t_columns t) \<le> width s"
    "feature_grains ks (t_rows t) \<noteq> Panicked" and rest: "grid_fits s ks ts d \<noteq> Panicked"
    by simp_all
  show ?case
    unfolding grid_fits.simps by (intro no_panic capacity_total [OF v a d t(1,2)] t(3) rest)
qed simp

lemma captured_positive:
  "captured_column_partition s ks = Some ws \<Longrightarrow> ws \<noteq> [] \<and> 0 \<notin> set ws"
  by (auto simp: captured_column_partition_def Let_def simp del: not_None_eq split: if_splits)

lemma new_with_cbuf_partition_total:
  assumes g: "geometry s ks k" and a: "row_addressable s"
    and d: "1 \<le> fst banks" "fst banks < 12"
  shows "new_with_cbuf_partition s ks banks \<noteq> Panicked"
proof -
  let ?ow = "out_w s k"
  have whole: "plan_grid s ks [?ow] (fst banks) \<noteq> Panicked"
    by (rule plan_grid_total [OF g a d]) simp_all
  have search: "search_column_counts s ks banks ?ow [2..<Suc ?ow] \<noteq> Panicked"
    by (rule search_column_counts_total [OF g a d]) auto
  have captured: "tile2d_grid s ks ws (fst banks) \<noteq> Panicked"
    and fits: "tile2d_grid s ks ws (fst banks) = Done ts \<Longrightarrow> grid_fits s ks ts (fst banks) \<noteq> Panicked"
    if ws: "captured_column_partition s ks = Some ws" for ws ts
  proof -
    note sum = captured_column_partition_sum [OF g ws]
    have split: "column_split s ks ws \<noteq> Panicked"
      using captured_positive [OF ws] sum by (intro column_split_total [OF g]) simp_all
    have extent: "\<forall>c \<in> set cs. 1 \<le> col_in_cols c \<and> col_in_cols c \<le> width s"
      if "column_split s ks ws = Done cs" for cs
      using chain_column_extent [OF g column_split_chain(1) [OF g that sum]] by blast
    show "tile2d_grid s ks ws (fst banks) \<noteq> Panicked"
      unfolding tile2d_grid_def by (intro no_panic split grid_columns_total [OF g a d] extent)
    assume "tile2d_grid s ks ws (fst banks) = Done ts"
    then obtain cs where cs: "column_split s ks ws = Done cs"
      and grid: "grid_columns s ks (fst banks) cs = Done ts"
      unfolding tile2d_grid_def by (rule obind_DoneE)
    show "grid_fits s ks ts (fst banks) \<noteq> Panicked"
    proof (intro grid_fits_total [OF g a d] ballI)
      fix t
      assume "t \<in> set ts"
      from grid_columns_members [OF g grid this] extent [OF cs] grid_over_rows_small [OF g]
      show "1 \<le> col_in_cols (t_columns t) \<and> col_in_cols (t_columns t) \<le> width s
        \<and> feature_grains ks (t_rows t) \<noteq> Panicked" by blast
    qed
  qed
  show ?thesis
    unfolding new_with_cbuf_partition_def parity_padded_shape_def map_refused.simps obind.simps
      output_width_Done [OF g]
    by (intro no_panic whole search captured fits)
qed

lemma try_new_total:
  assumes v: "valid_shape s" and a: "row_addressable s"
  shows "try_new pol s ks \<noteq> Panicked"
proof -
  have prog: "try_kernel_programming s ks \<noteq> Panicked"
    unfolding try_kernel_programming_def try_kernel_programming_of_def Let_def
    by (cases ks; cases "padding s") (auto simp: refuse_unless_def split: prod.split)
  have banks: "1 \<le> fst b \<and> fst b < 12" if "banks_ok b" for b
    using that by (simp add: banks_ok_def)
  have rest: "(if k_height k \<noteq> k_width k
     then obind (non_square_cbuf_partition s ks) (\<lambda>banks. new_with_cbuf_partition s ks banks)
     else obind (square_cbuf_partition pol s ks (k_height k)) (\<lambda>banks.
          new_with_cbuf_partition s ks banks)) \<noteq> Panicked"
    if "try_kernel_programming s ks = Done k" "check_extents_against s k = Done u" for k u
  proof -
    note g = geometry_of_checks [OF v that]
    show ?thesis
      by (intro no_panic non_square_total [OF g a] square_total [OF g a]
          new_with_cbuf_partition_total [OF g a])
         (blast dest: banks non_square_banks square_banks)+
  qed
  show ?thesis
    unfolding try_new_def check_extents_against_def try_weight_bytes_def Let_def
    by (intro no_panic prog rest [unfolded check_extents_against_def Let_def])
qed

end
