(* ===== verification/ConvProgramProofs.thy ===== *)
theory ConvProgramProofs
  imports ConvTask PlanTotal
begin

text \<open>
  When the programs of a plan can be built: the values of a plan's tile in exact arithmetic, and the
  register widths they fit.
\<close>

section \<open>The setters that accept their values\<close>

abbreviation accepted :: "writes \<Rightarrow> bool" where
  "accepted ps \<equiv> \<forall>x \<in> set ps. \<exists>r. apply_setters (snd x) 0 = Done r"

lemma acc_vendor_part_unset: "env_var e = (\<lambda>_. None) \<Longrightarrow> \<not> acc_vendor_part e part"
  by (simp add: acc_vendor_part_def trim_def)

lemma no_overrides:
  assumes "env_var e = (\<lambda>_. None)"
  shows "env_u32 e name = None" "gated_u32 e gate name n = None" "int4_override e p name = None"
    "ow_src_override e = None" "bs_ow_op_value e q = 0" "\<not> acc_brdma_restore e"
    "grains_override_of e = None"
  using assms acc_vendor_part_unset [OF assms]
  by (simp_all add: env_u32_def gated_u32_def int4_override_def ow_src_override_def bs_ow_op_value_def
      cpend_from_configuration_def acc_brdma_restore_def grains_override_of_def)

lemma codes_fit:
  "data_code c < 8" "output_code o' < 8" "conv_mode s < 4" "flag b < 2" "bs_mul_shift e s < 64"
  "brdma_data_use e s < 16"
  by (cases c; simp) (cases o'; simp add: conv_mode_def bs_mul_shift_def BS_MUL_SHIFT_VALUE_def
    brdma_data_use_def BRDMA_DATA_USE_NONE_def BRDMA_DATA_USE_QUANTIZED_def BRDMA_DATA_USE_BIAS_def)+

lemma output_stage_fits:
  assumes "env_var e = (\<lambda>_. None)"
  shows "output_precision_bits e s < 8" "mc_surf_out e s < 2" "bs_ow_size_e e s < 8"
  using codes_fit(2)
  by (simp_all add: output_precision_bits_def mc_surf_out_def bs_ow_size_e_def bs_ow_size_e_override_def
      accumulator_mc_surf_out_override_def no_overrides [OF assms])

lemma bn_programming_fits:
  "fst (bn_programming a) < 2" "fst (snd (bn_programming a)) < 2" "fst (snd (snd (bn_programming a))) < 2"
  by (cases a; simp)+

text \<open>The registers a tile's values have to fit, one bound per field width.\<close>

definition values_fit :: "conv_env \<Rightarrow> shape \<Rightarrow> tile2d \<Rightarrow> conv_values \<Rightarrow> nat \<Rightarrow> nat \<Rightarrow> nat \<Rightarrow> bool" where
  "values_fit e s t v g db wb \<longleftrightarrow>
     db < 16 \<and> wb < 16 \<and> g < 1024 \<and> stride s < 8 \<and> cv_argb_in v < 16
     \<and> cv_input_width v < 2048 \<and> in_rows (t_rows t) < 2048 \<and> cv_padded_channels v < 65536
     \<and> 1 \<le> cv_out_width v \<and> cv_out_width v < 2048 \<and> 1 \<le> out_rows (t_rows t) \<and> out_rows (t_rows t) \<le> 2048
     \<and> wrap32 (cv_out_width v * out_rows (t_rows t)) < 4194304
     \<and> cv_weight_bytes_per_kernel v < 524288 \<and> cv_kernel_width v < 32 \<and> cv_kernel_height v < 32
     \<and> programmed_kernels s < 16384 \<and> cv_data_entries v < 32768
     \<and> pad_top (t_rows t) < 16 \<and> col_pad_left (t_columns t) < 16
     \<and> cv_line_stride v < 268435456 \<and> cv_surf_stride v < 268435456
     \<and> 1 \<le> cv_padded_out_channels v \<and> cv_padded_out_channels v \<le> 8192
     \<and> 1 \<le> out_channels s \<and> out_channels s \<le> 8192
     \<and> cv_output_surface_pixels v < 268435456 \<and> cv_output_notch v < 8192 \<and> surf_add e s t v < 268435456
     \<and> fst (snd (output_conversion s)) < 65536 \<and> snd (snd (output_conversion s)) < 4096"

lemma stored_extents:
  assumes "values_fit e s t v g db wb"
  shows "cv_out_width v - Suc 0 < 8192" "out_rows (t_rows t) - Suc 0 < 8192"
    "cv_padded_out_channels v - Suc 0 < 8192" "out_channels s - Suc 0 < 8192"
    "cv_out_width v - Suc 0 < 65536" "out_rows (t_rows t) - Suc 0 < 65536"
    "cv_padded_out_channels v - Suc 0 < 65536"
  using assms by (auto simp: values_fit_def)

lemma accepted_append: "accepted (xs @ ys) \<longleftrightarrow> accepted xs \<and> accepted ys"
  by auto

lemma preamble_accepted:
  assumes "values_fit e s t v g db wb"
  shows "accepted (preamble_commands s v db wb)"
  using assms codes_fit(1) unfolding values_fit_def
  by (cases "layout s")
     (simp_all add: preamble_commands_def cbuf_con0_def conv_con1_def cna_block_setters dpu_block_setters
        dpu_rdma_block_setters setter_steps conv_mode_def)

lemma cna_accepted:
  assumes "values_fit e s t v g db wb"
  shows "accepted (cna_commands s t v g db wb)"
  using assms codes_fit(1) unfolding values_fit_def
  by (cases "layout s")
     (simp_all add: cna_commands_defs cbuf_con0_def conv_con1_def cna_block_setters setter_steps
        conv_mode_def BURST_SIXTEEN_def less_imp_le [of "_ mod 64" 64, THEN le_less_trans])

lemma core_accepted:
  assumes "values_fit e s t v g db wb"
  shows "accepted (core_commands e s t v)"
  using assms codes_fit(1)
    stored_extents [OF assms]
  unfolding values_fit_def
  by (simp add: core_commands_def core_block_setters setter_steps)

lemma dpu_accepted:
  assumes "values_fit e s t v g db wb" and env: "env_var e = (\<lambda>_. None)"
  shows "accepted (dpu_commands e s t v)"
  using assms(1) codes_fit output_stage_fits [OF env] bn_programming_fits [of "activation s"]
    stored_extents [OF assms(1)]
  unfolding values_fit_def
  by (simp add: dpu_commands_defs Let_def case_prod_beta dpu_block_setters setter_steps
      BURST_SIXTEEN_def OUTPUT_EXTERNAL_MEMORY_def no_overrides [OF env] numeral_2_eq_2 [symmetric])

lemma dpu_rdma_accepted:
  assumes "values_fit e s t v g db wb"
  shows "accepted (dpu_rdma_commands e s t v)"
  using assms codes_fit
    stored_extents [OF assms]
  unfolding values_fit_def
  by (simp add: dpu_rdma_commands_def Let_def dpu_rdma_block_setters setter_steps BURST_SIXTEEN_def)

lemma program_accepted:
  assumes "values_fit e s t v g db wb" and "env_var e = (\<lambda>_. None)"
  shows "\<exists>cmds. write_all (conv_writes e s t v g db wb) = Done cmds"
proof (rule write_all_total)
  show "accepted (conv_writes e s t v g db wb)"
    unfolding conv_writes_def accepted_append
    by (intro conjI preamble_accepted [OF assms(1)] cna_accepted [OF assms(1)] core_accepted [OF assms(1)]
        dpu_accepted [OF assms] dpu_rdma_accepted [OF assms(1)])
qed

end
