(* ===== verification/ConvTileValues.thy ===== *)
theory ConvTileValues
  imports ConvProgram PlanTotal
begin

text \<open>
  The values a convolution program is built from, for a tile of a plan, in exact arithmetic: the
  fetch address and strides, the output address, its surface and notch, the data entries.
\<close>

section \<open>Addresses\<close>

definition input_pixel :: "shape \<Rightarrow> nat" where
  "input_pixel s =
     (case layout s of Dense \<Rightarrow> in_channels s * (element_bits (precision s) div 8) | Surfaces \<Rightarrow> 16)"

definition source_offset :: "shape \<Rightarrow> tile2d \<Rightarrow> nat" where
  "source_offset s t = (in_first (t_rows t) * width s + col_in_first (t_columns t)) * input_pixel s"

definition destination_offset :: "shape \<Rightarrow> kernel_programming \<Rightarrow> tile2d \<Rightarrow> nat" where
  "destination_offset s k t =
     (out_first (t_rows t) * out_w s k + col_out_first (t_columns t)) * output_channel_block_bytes s"

lemma pixel_index_less:
  fixes r c :: nat
  assumes "r < h" "c < w"
  shows "r * w + c < w * h"
proof -
  have "r * w + c < Suc r * w" using assms(2) by simp
  also have "\<dots> \<le> h * w" using assms(1) by (intro mult_le_mono1) simp
  finally show ?thesis by (simp add: mult.commute)
qed

lemma input_pixel_le: "input_pixel s \<le> 16"
proof (cases "layout s")
  case Dense
  then have "in_channels s \<le> 4" by (simp add: layout_def MAX_DENSE_CHANNELS_def split: if_splits)
  then have "in_channels s * (element_bits (precision s) div 8) \<le> 4 * 4"
    using element_bits_div_8_le by (intro mult_le_mono)
  then show ?thesis by (simp add: input_pixel_def Dense)
qed (simp add: input_pixel_def)

lemma wrapped_sum: "wrap32 (wrap32 (r * wrap32 (w * x)) + wrap32 (c * x)) = wrap32 ((r * w + c) * x)"
  by (simp add: wrap32_def mod_simps algebra_simps)

lemma tile_input_offset_exact:
  assumes v: "valid_shape s" and in_image: "in_first (t_rows t) < height s" "col_in_first (t_columns t) < width s"
  shows "tile2d_input_offset t s = Done (source_offset s t)"
    "source_offset s t < 2 ^ 32"
proof -
  have "in_first (t_rows t) * width s + col_in_first (t_columns t) < width s * height s"
    using in_image by (rule pixel_index_less)
  then have "source_offset s t \<le> width s * height s * 16"
    unfolding source_offset_def using input_pixel_le by (intro mult_le_mono) simp_all
  also have "\<dots> < 2 ^ 32" using v unfolding valid_shape_def by blast
  finally show small: "source_offset s t < 2 ^ 32" .
  show "tile2d_input_offset t s = Done (source_offset s t)"
  proof (cases "layout s")
    case Dense
    then have "element_bytes (precision s) = Done (element_bits (precision s) div 8)"
      using dense_not_int4 [OF v] by (intro element_bytes_Done)
    then have "tile2d_input_offset t s = Done (wrap32 (source_offset s t))"
      using wrapped_sum [of "in_first (t_rows t)" "width s" "in_channels s * (element_bits (precision s) div 8)"
          "col_in_first (t_columns t)"]
      by (simp add: tile2d_input_offset_def tile_input_offset_def column_input_offset_def
          input_row_stride_def Dense source_offset_def input_pixel_def mult.assoc)
    then show ?thesis using small by simp
  next
    case Surfaces
    then have "tile2d_input_offset t s = Done (wrap32 (source_offset s t))"
      using wrapped_sum [of "in_first (t_rows t)" "width s" 16 "col_in_first (t_columns t)"]
      by (simp add: tile2d_input_offset_def tile_input_offset_def column_input_offset_def
          input_row_stride_def source_offset_def input_pixel_def FEATURE_ATOM_BYTES_def)
    then show ?thesis using small by simp
  qed
qed

lemma output_channel_block_bytes_le: "output_channel_block_bytes s \<le> 128"
  by (cases "precision s")
     (simp_all add: output_channel_block_bytes_def precision_granule_def FEATURE_ATOM_BYTES_def)

lemma tile_output_offset_exact:
  assumes g: "geometry s ks k" and small: "out_w s k * out_h s k \<le> 4194304"
    and in_image: "out_first (t_rows t) < out_h s k" "col_out_first (t_columns t) < out_w s k"
  shows "tile2d_output_offset t s ks = Done (destination_offset s k t)"
    "destination_offset s k t < 2 ^ 32"
proof -
  have "out_first (t_rows t) * out_w s k + col_out_first (t_columns t) < out_w s k * out_h s k"
    using in_image by (rule pixel_index_less)
  then have "destination_offset s k t \<le> 4194304 * 128"
    unfolding destination_offset_def using small output_channel_block_bytes_le
    by (intro mult_le_mono) simp_all
  then show fits: "destination_offset s k t < 2 ^ 32" by simp
  have "tile2d_output_offset t s ks = Done (wrap32 (destination_offset s k t))"
    using wrapped_sum [of "out_first (t_rows t)" "out_w s k" "output_channel_block_bytes s" "col_out_first (t_columns t)"]
    by (simp add: tile2d_output_offset_def tile_output_offset_def column_output_offset_def
        output_row_stride_def output_width_Done [OF g] destination_offset_def)
  then show "tile2d_output_offset t s ks = Done (destination_offset s k t)" using fits by simp
qed

section \<open>Strides and entries\<close>

definition column_tiled :: "shape \<Rightarrow> kernel_programming \<Rightarrow> tile2d \<Rightarrow> bool" where
  "column_tiled s k t \<longleftrightarrow> col_out_first (t_columns t) \<noteq> 0 \<or> col_out_cols (t_columns t) \<noteq> out_w s k"

text \<open>The surface stride of an untiled surface layout is a 28-bit two's complement number.\<close>

definition source_strides :: "shape \<Rightarrow> kernel_programming \<Rightarrow> tile2d \<Rightarrow> nat \<times> nat" where
  "source_strides s k t =
     (case layout s of
        Dense \<Rightarrow> (width s, width s * (height s - 1))
      | Surfaces \<Rightarrow>
          if column_tiled s k t then (width s, width s * height s - col_in_cols (t_columns t))
          else (width s * 4, nat (int (width s) * (int (height s) - 4) mod 2 ^ 28)))"

definition tile_entries :: "shape \<Rightarrow> tile2d \<Rightarrow> nat" where
  "tile_entries s t =
     (case layout s of
        Dense \<Rightarrow> next_multiple_of (col_in_cols (t_columns t)) (channels_per_atom (precision s)) * in_rows (t_rows t)
      | Surfaces \<Rightarrow> row_entries s (col_in_cols (t_columns t)))"

lemma wrapped_surface_stride:
  assumes "h < 2 ^ 32"
  shows "wrap32 (w * sub32 h 4) mod 2 ^ 28 = nat (int w * (int h - 4) mod 2 ^ 28)"
proof -
  have "int (sub32 h 4) mod 2 ^ 28 = (int h - 4) mod 2 ^ 28"
  proof (cases "4 \<le> h")
    case False
    then have "h \<in> {0, 1, 2, 3}" by auto
    then show ?thesis by (auto simp: sub32_def)
  qed (simp add: of_nat_diff)
  then have "int (w * sub32 h 4) mod 2 ^ 28 = int w * (int h - 4) mod 2 ^ 28"
    by (metis mod_mult_right_eq of_nat_mult)
  moreover have "wrap32 (w * sub32 h 4) mod 2 ^ 28 = w * sub32 h 4 mod 2 ^ 28"
    unfolding wrap32_def by (rule mod_mod_cancel) simp
  ultimately show ?thesis by (simp add: zmod_int nat_eq_iff2)
qed

lemma fetch_geometry_exact:
  assumes v: "valid_shape s" and resident: "tile_resident s k d t"
    and r: "0 < in_rows (t_rows t)" and c: "col_in_cols (t_columns t) \<le> width s" "width s \<le> 2047"
  shows "fetch_geometry s (column_tiled s k t) (col_in_cols (t_columns t)) (in_rows (t_rows t)) =
    (fst (source_strides s k t), snd (source_strides s k t), tile_entries s t)"
    "tile_entries s t \<le> 32767" "fst (source_strides s k t) < 2 ^ 28" "snd (source_strides s k t) < 2 ^ 28"
proof -
  note e = valid_shape_extents [OF v]
  have v': "0 < width s" "0 < height s" "u32_shape s" using v by (simp_all add: valid_shape_def)
  have h32: "height s < 2 ^ 32" using e(2) by simp
  show lines: "fst (source_strides s k t) < 2 ^ 28"
    using c(2) by (simp add: source_strides_def split: feature_layout.split)
  have "width s * (height s - 1) \<le> width s * height s" by simp
  then have area: "width s * (height s - 1) < 268435456" using e(3) by linarith
  moreover have "width s * height s - col_in_cols (t_columns t) < 268435456" using e(3) by linarith
  ultimately show "snd (source_strides s k t) < 2 ^ 28"
    by (simp add: source_strides_def nat_less_iff split: feature_layout.split)
  have "fetch_geometry s (column_tiled s k t) (col_in_cols (t_columns t)) (in_rows (t_rows t)) =
    (fst (source_strides s k t), snd (source_strides s k t), tile_entries s t) \<and> tile_entries s t \<le> 32767"
  proof (cases "layout s")
    case Dense
    have "next_multiple_of (col_in_cols (t_columns t)) (channels_per_atom (precision s)) < 2 ^ 32"
      using next_multiple_of_less [OF channels_per_atom_pos, of "col_in_cols (t_columns t)" "precision s"]
        channels_per_atom_bounds [of "precision s"] c by simp
    moreover have "in_rows (t_rows t)
        * next_multiple_of (col_in_cols (t_columns t)) (channels_per_atom (precision s)) \<le> 32767"
      using resident by (simp add: tile_resident_def Dense Let_def)
    ultimately show ?thesis
      using v' area by (simp add: fetch_geometry_def source_strides_def tile_entries_def cbuf_input_width_def
          Dense mult.commute)
  next
    case Surfaces
    have slab: "col_in_cols (t_columns t) \<le> max_tile_input_width s"
      using resident by (simp add: tile_resident_def Surfaces)
    then have atoms: "col_in_cols (t_columns t) * cbuf_atoms s \<le> 139256"
      using slab_limit [OF v Surfaces] c by simp
    have "in_rows (t_rows t) * (row_entries s (col_in_cols (t_columns t)) * 64) \<le> 11 * 32768"
      using resident by (auto simp: tile_resident_def Surfaces)
    moreover have "row_entries s (col_in_cols (t_columns t)) * 64
        \<le> in_rows (t_rows t) * (row_entries s (col_in_cols (t_columns t)) * 64)"
      using r by simp
    ultimately have "row_entries s (col_in_cols (t_columns t)) * 64 \<le> 11 * 32768" by linarith
    then have "tile_entries s t \<le> 32767" by (simp add: tile_entries_def Surfaces)
    moreover have "wrap32 (col_in_cols (t_columns t) * cbuf_atoms s) = col_in_cols (t_columns t) * cbuf_atoms s"
      using atoms by simp
    moreover have "col_in_cols (t_columns t) \<le> width s * height s"
      using c(1) v'(2) mult_le_mono [of "col_in_cols (t_columns t)" "width s" 1 "height s"] by simp
    ultimately show ?thesis
      using v' c area e wrapped_surface_stride [OF h32, of "width s"]
      by (simp add: fetch_geometry_def source_strides_def tile_entries_def row_entries_def Surfaces
          CBUF_ATOMS_PER_ENTRY_def)
  qed
  then show "fetch_geometry s (column_tiled s k t) (col_in_cols (t_columns t)) (in_rows (t_rows t)) =
    (fst (source_strides s k t), snd (source_strides s k t), tile_entries s t)" "tile_entries s t \<le> 32767"
    by blast+
qed

section \<open>All the values of a tile\<close>

text \<open>
  What the registers can hold, in terms of the shape: rows and columns of eleven bits, strides of
  three, a coefficient count per kernel of nineteen, a requantizing multiplier of sixteen bits and
  a shift of twelve.
\<close>

definition register_envelope :: "shape \<Rightarrow> kernel_programming \<Rightarrow> bool" where
  "register_envelope s k \<longleftrightarrow>
     width s \<le> 2047 \<and> out_w s k \<le> 2047 \<and> out_h s k \<le> 2048 \<and> stride s \<le> 7
     \<and> in_channels s \<le> 4096 \<and> out_channels s \<le> 4096
     \<and> k_height k * k_width k * weight_channels s * element_bits (precision s) div 8 < 2 ^ 19
     \<and> (case quantization_of (precision s) of
          Some q \<Rightarrow> mul_scale (q_multiplier q) < 2 ^ 16 \<and> mul_shift (q_multiplier q) < 2 ^ 12
        | None \<Rightarrow> True)"

definition tile_values :: "shape \<Rightarrow> kernel_programming \<Rightarrow> nat \<Rightarrow> tile2d \<Rightarrow> conv_values" where
  "tile_values s k wb t =
     \<lparr>cv_padded_channels = padded_channels s, cv_padded_out_channels = padded_out_channels s,
      cv_input_width = col_in_cols (t_columns t), cv_out_width = col_out_cols (t_columns t),
      cv_full_out_width = out_w s k, cv_out_height = out_h s k,
      cv_horizontally_tiled = column_tiled s k t, cv_input_offset = source_offset s t,
      cv_output_base_offset = destination_offset s k t,
      cv_output_surface_pixels = out_w s k * out_h s k,
      cv_output_notch = out_w s k - col_out_cols (t_columns t),
      cv_line_stride = fst (source_strides s k t), cv_surf_stride = snd (source_strides s k t),
      cv_data_entries = tile_entries s t, cv_kernel_width = k_width k, cv_kernel_height = k_height k,
      cv_weight_bytes_per_kernel =
        k_height k * k_width k * weight_channels s * element_bits (precision s) div 8,
      cv_weight_bytes = wb,
      cv_argb_in = (case layout s of Dense \<Rightarrow> 7 + in_channels s | Surfaces \<Rightarrow> 0)\<rparr>"

text \<open>A tile of a plan, with everything the program builder checks of it.\<close>

definition emitted_tile :: "shape \<Rightarrow> kernel_programming \<Rightarrow> nat \<Rightarrow> tile2d \<Rightarrow> bool" where
  "emitted_tile s k d t \<longleftrightarrow> tile_resident s k d t
     \<and> 0 < out_rows (t_rows t) \<and> out_first (t_rows t) + out_rows (t_rows t) \<le> out_h s k
     \<and> 0 < col_out_cols (t_columns t) \<and> col_out_first (t_columns t) + col_out_cols (t_columns t) \<le> out_w s k
     \<and> 0 < in_rows (t_rows t) \<and> in_first (t_rows t) + in_rows (t_rows t) \<le> height s
     \<and> 0 < col_in_cols (t_columns t) \<and> col_in_first (t_columns t) + col_in_cols (t_columns t) \<le> width s
     \<and> pad_top (t_rows t) \<le> k_pad_top k \<and> col_pad_left (t_columns t) \<le> k_pad_left k"

lemma plan_tile_emitted:
  assumes g: "geometry s ks k" and ok: "plan_grid_ok s ks k b p" and t: "t \<in> set (plan_tiles p)"
  shows "emitted_tile s k (plan_data_banks p) t"
proof -
  note tile = plan_tile [OF ok t]
  note rows = tile_window(1,2) [OF g tile(3,4), folded tile(2)]
  note cols = column_window(1,2) [OF g tile(6,7), folded tile(5)]
  have "pad_top (t_rows t) \<le> k_pad_top k" using tile(2) pad_top_tile_at by metis
  moreover have "col_pad_left (t_columns t) \<le> k_pad_left k"
    by (subst tile(5)) (simp add: column_at_def Let_def saturating_sub_def)
  ultimately show ?thesis using tile(1,3,4,6,7) rows cols by (simp add: emitted_tile_def)
qed

lemma conv_values_exact:
  assumes g: "geometry s ks k" and env: "register_envelope s k" and t: "emitted_tile s k d t"
    and wb: "weight_bytes s ks = Done wb"
    and grains: "grains = in_rows (t_rows t) + k_height k + pad_top (t_rows t)"
  shows "conv_values_of s ks t grains SharedImage = Done (tile_values s k wb t)"
proof -
  have v: "valid_shape s" using g by (simp add: geometry_def)
  note dims = output_width_Done [OF g] output_height_Done [OF g] kernel_prog_Done [OF g]
  let ?iw = "col_in_cols (t_columns t)" and ?ow = "col_out_cols (t_columns t)"
  have resident: "tile_resident s k d t" and out: "0 < out_rows (t_rows t)"
    "out_first (t_rows t) + out_rows (t_rows t) \<le> out_h s k" "0 < ?ow"
    "col_out_first (t_columns t) + ?ow \<le> out_w s k"
    and window: "0 < in_rows (t_rows t)" "in_first (t_rows t) + in_rows (t_rows t) \<le> height s"
    "0 < ?iw" "col_in_first (t_columns t) + ?iw \<le> width s"
    using t by (simp_all add: emitted_tile_def)
  have small: "width s \<le> 2047" "out_w s k \<le> 2047" "out_h s k \<le> 2048"
    using env by (simp_all add: register_envelope_def)
  have area: "out_w s k * out_h s k \<le> 4194304"
    using mult_le_mono [OF small(2,3)] by simp
  have h32: "height s < 2 ^ 32" using valid_shape_extents(2) [OF v] by simp
  have slab: "?iw \<le> max_tile_input_width s" and grain: "grains \<le> MAX_FEATURE_GRAINS"
    using resident by (simp_all add: tile_resident_def grains MAX_FEATURE_GRAINS_def)
  have tiled: "(0 < col_out_first (t_columns t) \<or> ?ow \<noteq> out_w s k) = column_tiled s k t"
    by (simp add: column_tiled_def)
  have written: "output_geometry s ks t SharedImage (out_w s k) (out_h s k) =
      Done (destination_offset s k t, out_w s k * out_h s k, out_w s k - ?ow)"
    using tile_output_offset_exact(1) [OF g area] out area
    by (simp add: output_geometry_def)
  have charged: "in_rows (t_rows t) * cbuf_input_width s ?iw \<le> max_data_entries"
  proof (cases "layout s")
    case Dense
    have "wrap32 (next_multiple_of ?iw (channels_per_atom (precision s)))
        \<le> next_multiple_of ?iw (channels_per_atom (precision s))" by (rule wrap32_le)
    then have "in_rows (t_rows t) * wrap32 (next_multiple_of ?iw (channels_per_atom (precision s)))
        \<le> in_rows (t_rows t) * next_multiple_of ?iw (channels_per_atom (precision s))"
      by (rule mult_le_mono2)
    also have "\<dots> \<le> 32767" using resident by (simp add: tile_resident_def Dense Let_def)
    finally show ?thesis by (simp add: cbuf_input_width_def Dense max_data_entries_def MAX_DATA_ENTRIES_def)
  next
    case Surfaces
    then show ?thesis
      using resident by (simp add: tile_resident_def cbuf_input_width_def max_data_entries_def MAX_DATA_ENTRIES_def)
  qed
  have check: "check_tile s t grains (out_w s k) (out_h s k) = Done ()"
    using grain out window small h32 le_trans [OF wrap32_le charged] by (simp add: check_tile_def Let_def)
  have per_kernel: "wrap32 (k_height k * k_width k * weight_channels s * element_bits (precision s))
      = k_height k * k_width k * weight_channels s * element_bits (precision s)"
  proof (rule wrap32_id)
    have "x < 2 ^ 32" if "x div 8 < 2 ^ 19" for x :: nat
      using that by (simp add: div_less_iff_less_mult)
    then show "k_height k * k_width k * weight_channels s * element_bits (precision s) < 2 ^ 32"
      using env unfolding register_envelope_def by blast
  qed
  have argb: "(case layout s of Dense \<Rightarrow> argb_input_mode (in_channels s) | Surfaces \<Rightarrow> Done 0) =
      Done (case layout s of Dense \<Rightarrow> 7 + in_channels s | Surfaces \<Rightarrow> 0)"
    using v by (auto simp: argb_input_mode_def layout_def MAX_DENSE_CHANNELS_def valid_shape_def)
  have fetch: "fetch_geometry s (column_tiled s k t) ?iw (in_rows (t_rows t)) =
      (fst (source_strides s k t), snd (source_strides s k t), tile_entries s t)"
    using fetch_geometry_exact(1) [OF v resident window(1) _ small(1)] window by simp
  have source: "tile2d_input_offset t s = Done (source_offset s t)"
    using tile_input_offset_exact(1) [OF v] window by simp
  show ?thesis
    by (simp add: conv_values_of_def dims Let_def slab tiled written check fetch wb source argb per_kernel
        tile_values_def)
qed

end
