(* ===== verification/Samples.thy ===== *)
theory Samples
  imports PlanTotal
begin

text \<open>
  Concrete convolutions evaluated by the simplifier, for the witnesses: a pointwise convolution
  whose input does not fit the CBUF in one piece (two row tiles), planned stage by stage.
\<close>

definition pointwise :: shape where
  "pointwise = \<lparr>width = 8, height = 8, stride = 1, in_channels = 4096, out_channels = 8,
     precision = Fp16, padding = None, activation = NoActivation, depthwise = False\<rparr>"

definition unit_kernel :: kernels where
  "unit_kernel = (1, 1)"

definition pointwise_kernel :: kernel_programming where
  "pointwise_kernel = \<lparr>k_height = 1, k_width = 1, k_pad_top = 0, k_pad_left = 0\<rparr>"

definition pointwise_columns :: column_tile where
  "pointwise_columns = \<lparr>col_out_first = 0, col_out_cols = 8, col_in_first = 0, col_in_cols = 8,
     col_pad_left = 0\<rparr>"

definition pointwise_plan :: conv_plan where
  "pointwise_plan = \<lparr>plan_shape = pointwise, plan_kernels = unit_kernel, plan_data_banks = 10,
     plan_weight_banks = 2, plan_output_column_widths = [8],
     plan_tiles =
       [\<lparr>t_rows = \<lparr>out_first = 0, out_rows = 5, in_first = 0, in_rows = 5, pad_top = 0\<rparr>,
         t_columns = pointwise_columns\<rparr>,
        \<lparr>t_rows = \<lparr>out_first = 5, out_rows = 3, in_first = 5, in_rows = 3, pad_top = 0\<rparr>,
         t_columns = pointwise_columns\<rparr>]\<rparr>"

lemma pointwise_simps [simp]:
  "width pointwise = 8" "height pointwise = 8" "stride pointwise = 1" "in_channels pointwise = 4096"
  "out_channels pointwise = 8" "precision pointwise = Fp16" "padding pointwise = None"
  "activation pointwise = NoActivation" "\<not> depthwise pointwise"
  by (simp_all add: pointwise_def)

lemma pointwise_geometry: "geometry pointwise unit_kernel pointwise_kernel"
  by (simp add: geometry_def valid_shape_def u32_shape_def try_kernel_programming_def
      try_kernel_programming_of_def pointwise_kernel_def unit_kernel_def)

lemma pointwise_kernel_simps [simp]:
  "k_height pointwise_kernel = 1" "k_width pointwise_kernel = 1"
  "k_pad_top pointwise_kernel = 0" "k_pad_left pointwise_kernel = 0"
  by (simp_all add: pointwise_kernel_def)

lemma pointwise_valid: "valid_shape pointwise"
  using pointwise_geometry by (simp add: geometry_def)

lemma pointwise_extents:
  "output_width pointwise unit_kernel = Done 8" "output_height pointwise unit_kernel = Done 8"
  by (simp_all add: output_width_Done [OF pointwise_geometry] output_height_Done [OF pointwise_geometry]
      out_w_def out_h_def)

lemma pointwise_channels:
  "layout pointwise = Surfaces" "cbuf_atoms pointwise = 512" "weight_channels pointwise = 4096"
  "programmed_kernels pointwise = 8" "streamed_contraction_channels pointwise = 4096"
  by (simp_all add: layout_def cbuf_atoms_def feature_atoms_def weight_channels_def
      programmed_kernels_def shares_fp16_layout_def quad_atoms_def streamed_contraction_channels_def
      MAX_DENSE_CHANNELS_def div_ceil_def)

lemmas pointwise_prog = kernel_prog_Done [OF pointwise_geometry]

lemma pointwise_weights:
  "try_kernel_programming pointwise unit_kernel = Done pointwise_kernel"
  "check_extents_against pointwise pointwise_kernel = Done ()"
  "try_weight_bytes pointwise unit_kernel = Done 65536" "weight_bytes pointwise unit_kernel = Done 65536"
  using pointwise_geometry
  by (simp_all add: geometry_def check_extents_against_def try_weight_bytes_def weight_bytes_def
      pointwise_prog pointwise_channels bytes_for_def)

lemma pointwise_rows:
  "max_tile_input_width pointwise = 8"
  "max_tile_input_rows_for_width_and_data_banks pointwise 8 10 = Done 5"
  "max_feature_grain_input_rows pointwise unit_kernel = Done 1022"
  by (simp_all add: max_tile_input_width_def max_tile_input_rows_for_width_and_data_banks_def
      pointwise_channels cbuf_input_width_def hw_consts div_ceil_def
      max_feature_grain_input_rows_Done [OF pointwise_geometry])

lemma pointwise_tile_at:
  assumes "first + rows \<le> 8" and "0 < rows"
  shows "tile_at pointwise pointwise_kernel first rows =
    \<lparr>out_first = first, out_rows = rows, in_first = first, in_rows = rows, pad_top = 0\<rparr>"
proof -
  have "out_h pointwise pointwise_kernel = 8" by (simp add: out_h_def)
  with tile_at_eq(1) [OF pointwise_geometry assms(2), of first] assms
  show ?thesis by (simp add: min_def)
qed

lemma pointwise_partition: "try_demand_based_cbuf_partition pointwise unit_kernel = Done (10, 2)"
proof -
  have whole: "tile_whole pointwise unit_kernel =
      Done \<lparr>out_first = 0, out_rows = 8, in_first = 0, in_rows = 8, pad_top = 0\<rparr>"
    by (simp add: tile_whole_def tile_split_def pointwise_extents pointwise_prog pointwise_tile_at)
  have "data_bank_demand pointwise = Done 16" "weight_bank_demand pointwise unit_kernel = Done 2"
    by (simp_all add: data_bank_demand_def weight_bank_demand_def pointwise_channels pointwise_weights
        hw_consts div_ceil_def)
  moreover have "streamed_weight_bank_preference 4096 unit_kernel 16 = Done 8"
    by (simp add: streamed_weight_bank_preference_def streamed_weight_bank_preference_for_group_def unit_kernel_def
        hw_consts div_ceil_def)
  moreover have "max_tile_input_rows_for_data_banks pointwise 11 = Done 5"
    by (simp add: max_tile_input_rows_for_data_banks_def pointwise_channels cbuf_input_width_def
        max_tile_input_rows_for_width_and_data_banks_def hw_consts div_ceil_def)
  ultimately show ?thesis
    by (simp add: try_demand_based_cbuf_partition_def whole pointwise_channels pointwise_rows
        max_tile_input_rows_for_data_banks_def Let_def CBUF_BANKS_def saturating_sub_def
        weight_banks_floor_def)
qed

lemma pointwise_greedy:
  "split_greedy_to_capacity pointwise unit_kernel 5 = Done (Some
     [\<lparr>out_first = 0, out_rows = 5, in_first = 0, in_rows = 5, pad_top = 0\<rparr>,
      \<lparr>out_first = 5, out_rows = 3, in_first = 5, in_rows = 3, pad_top = 0\<rparr>])"
proof -
  have cand: "greedy_candidate pointwise pointwise_kernel 5 f r =
      (if r \<le> 5 then Some \<lparr>out_first = f, out_rows = r, in_first = f, in_rows = r, pad_top = 0\<rparr>
       else None)" if "f + r \<le> 8" "0 < r" for f r
    using that
    by (simp add: greedy_candidate_def pointwise_tile_at last_tap_row_def saturating_sub_def)
  show ?thesis
    by (simp add: split_greedy_to_capacity_def tile_from_bounds_def pointwise_prog pointwise_extents
        pointwise_tile_at greedy_from.simps upt_rec cand)
qed

lemma pointwise_planned: "try_new default_policy pointwise unit_kernel = Done pointwise_plan"
proof -
  have columns: "column_split pointwise unit_kernel [8] = Done [pointwise_columns]"
    by (simp add: column_split_def column_from_output_range_def pointwise_extents pointwise_prog
        column_at_def pointwise_columns_def saturating_sub_def)
  have "plan_column_rows pointwise unit_kernel 5 = split_greedy_to_capacity pointwise unit_kernel 5"
    by (simp add: plan_column_rows_def pointwise_greedy realign_dense_row_tiles_def pointwise_channels)
  then have "plan_grid pointwise unit_kernel [8] 10 = Done (Some (plan_tiles pointwise_plan))"
    by (simp add: plan_grid_def columns pointwise_rows pointwise_greedy pointwise_columns_def
        pointwise_plan_def)
  then show ?thesis
    by (simp add: try_new_def pointwise_weights square_cbuf_partition_def
        pointwise_partition new_with_cbuf_partition_def parity_padded_shape_def
        pointwise_extents make_plan_def pointwise_plan_def)
qed

section \<open>A dense convolution cut into two row tiles\<close>

definition wide_image :: shape where
  "wide_image = \<lparr>width = 4096, height = 4, stride = 1, in_channels = 4, out_channels = 8,
     precision = Fp16, padding = None, activation = NoActivation, depthwise = False\<rparr>"

definition wide_columns :: column_tile where
  "wide_columns = \<lparr>col_out_first = 0, col_out_cols = 4096, col_in_first = 0, col_in_cols = 4096,
     col_pad_left = 0\<rparr>"

definition upper_rows :: tile where
  "upper_rows = \<lparr>out_first = 0, out_rows = 2, in_first = 0, in_rows = 2, pad_top = 0\<rparr>"

definition lower_rows :: tile where
  "lower_rows = \<lparr>out_first = 2, out_rows = 2, in_first = 2, in_rows = 2, pad_top = 0\<rparr>"

definition wide_plan :: conv_plan where
  "wide_plan = \<lparr>plan_shape = wide_image, plan_kernels = unit_kernel, plan_data_banks = 11,
     plan_weight_banks = 1, plan_output_column_widths = [4096],
     plan_tiles = [\<lparr>t_rows = upper_rows, t_columns = wide_columns\<rparr>,
                   \<lparr>t_rows = lower_rows, t_columns = wide_columns\<rparr>]\<rparr>"

lemma wide_image_simps [simp]:
  "width wide_image = 4096" "height wide_image = 4" "stride wide_image = 1" "in_channels wide_image = 4"
  "out_channels wide_image = 8" "precision wide_image = Fp16" "padding wide_image = None"
  "\<not> depthwise wide_image"
  by (simp_all add: wide_image_def)

lemma wide_image_geometry: "geometry wide_image unit_kernel pointwise_kernel"
  by (simp add: geometry_def valid_shape_def u32_shape_def try_kernel_programming_def
      try_kernel_programming_of_def pointwise_kernel_def unit_kernel_def)

lemma wide_image_valid: "valid_shape wide_image"
  using wide_image_geometry by (simp add: geometry_def)

lemma wide_image_extents:
  "output_width wide_image unit_kernel = Done 4096" "output_height wide_image unit_kernel = Done 4"
  by (simp_all add: output_width_Done [OF wide_image_geometry]
      output_height_Done [OF wide_image_geometry] out_w_def out_h_def)

lemmas wide_image_prog = kernel_prog_Done [OF wide_image_geometry]

lemma wide_image_channels:
  "layout wide_image = Dense" "cbuf_atoms wide_image = 1" "weight_channels wide_image = 8"
  "programmed_kernels wide_image = 8" "streamed_contraction_channels wide_image = 8"
  "input_row_stride wide_image = Done 32768" "cbuf_input_width wide_image 4096 = 4096"
  by (simp_all add: layout_def cbuf_atoms_def feature_atoms_def weight_channels_def
      programmed_kernels_def shares_fp16_layout_def quad_atoms_def streamed_contraction_channels_def
      MAX_DENSE_CHANNELS_def div_ceil_def input_row_stride_def element_bytes_def cbuf_input_width_def
      next_multiple_of_def)

lemma wide_image_pixel: "dense_cbuf_pixel_bytes wide_image = Done 8"
proof -
  have "4 \<le> next_pow2_from 1 4" "next_pow2_from 1 4 \<le> 8"
    using next_pow2_from_bounds [of 1 4] by simp_all
  then have "min (next_power_of_two 4) 4 = 4" by (simp add: next_power_of_two_def)
  then show ?thesis by (simp add: dense_cbuf_pixel_bytes_def element_bytes_def)
qed

lemma wide_image_rows:
  "max_tile_input_width wide_image = 4096"
  "max_tile_input_rows_for_width_and_data_banks wide_image 4096 11 = Done 2"
  "max_feature_grain_input_rows wide_image unit_kernel = Done 1022"
  by (simp_all add: max_tile_input_width_def max_tile_input_rows_for_width_and_data_banks_def
      wide_image_channels wide_image_pixel hw_consts
      max_feature_grain_input_rows_Done [OF wide_image_geometry])

lemma wide_image_tile_at:
  assumes "first + rows \<le> 4" and "0 < rows"
  shows "tile_at wide_image pointwise_kernel first rows =
    \<lparr>out_first = first, out_rows = rows, in_first = first, in_rows = rows, pad_top = 0\<rparr>"
proof -
  have "out_h wide_image pointwise_kernel = 4" by (simp add: out_h_def)
  with tile_at_eq(1) [OF wide_image_geometry assms(2), of first] assms
  show ?thesis by (simp add: min_def)
qed

lemma wide_image_partition: "try_demand_based_cbuf_partition wide_image unit_kernel = Done (11, 1)"
proof -
  have "tile_whole wide_image unit_kernel =
      Done \<lparr>out_first = 0, out_rows = 4, in_first = 0, in_rows = 4, pad_top = 0\<rparr>"
    by (simp add: tile_whole_def tile_split_def wide_image_extents wide_image_prog wide_image_tile_at)
  moreover have "data_bank_demand wide_image = Done 16" "weight_bank_demand wide_image unit_kernel = Done 1"
    by (simp_all add: data_bank_demand_def weight_bank_demand_def wide_image_channels wide_image_pixel
        weight_bytes_def wide_image_prog bytes_for_def hw_consts div_ceil_def)
  moreover have "streamed_weight_bank_preference 8 unit_kernel 16 = Done 1"
    by (simp add: streamed_weight_bank_preference_def streamed_weight_bank_preference_for_group_def
        unit_kernel_def hw_consts div_ceil_def)
  ultimately show ?thesis
    by (simp add: try_demand_based_cbuf_partition_def wide_image_channels wide_image_rows
        max_tile_input_rows_for_data_banks_def Let_def CBUF_BANKS_def saturating_sub_def
        weight_banks_floor_def)
qed

lemma wide_image_greedy:
  "split_greedy_to_capacity wide_image unit_kernel 2 = Done (Some [upper_rows, lower_rows])"
proof -
  have cand: "greedy_candidate wide_image pointwise_kernel 2 f r =
      (if r \<le> 2 then Some \<lparr>out_first = f, out_rows = r, in_first = f, in_rows = r, pad_top = 0\<rparr>
       else None)" if "f + r \<le> 4" "0 < r" for f r
    using that
    by (simp add: greedy_candidate_def wide_image_tile_at last_tap_row_def saturating_sub_def)
  show ?thesis
    by (simp add: split_greedy_to_capacity_def tile_from_bounds_def wide_image_prog wide_image_extents
        wide_image_tile_at greedy_from.simps upt_rec cand upper_rows_def lower_rows_def)
qed

lemma wide_image_planned: "try_new default_policy wide_image unit_kernel = Done wide_plan"
proof -
  have weights: "try_kernel_programming wide_image unit_kernel = Done pointwise_kernel"
    "check_extents_against wide_image pointwise_kernel = Done ()"
    "try_weight_bytes wide_image unit_kernel = Done 128"
    using wide_image_geometry
    by (simp_all add: geometry_def check_extents_against_def try_weight_bytes_def wide_image_channels)
  have columns: "column_split wide_image unit_kernel [4096] = Done [wide_columns]"
    by (simp add: column_split_def column_from_output_range_def wide_image_extents wide_image_prog
        column_at_def wide_columns_def saturating_sub_def)
  have "boundary_safe wide_image unit_kernel 2 = Done True"
    by (simp add: boundary_safe_def tile_in_first_def wide_image_prog dense_feature_offset_safe_def
        wide_image_channels saturating_sub_def FEATURE_ATOM_BYTES_def)
  then have "realign_dense_row_tiles wide_image unit_kernel [upper_rows, lower_rows] 2 =
      Done (Some [upper_rows, lower_rows])"
    by (simp add: realign_dense_row_tiles_def wide_image_channels wide_image_extents wide_image_prog
        wide_image_tile_at upper_rows_def lower_rows_def)
  then have "plan_column_rows wide_image unit_kernel 2 = Done (Some [upper_rows, lower_rows])"
    by (simp add: plan_column_rows_def wide_image_greedy)
  then have "plan_grid wide_image unit_kernel [4096] 11 = Done (Some (plan_tiles wide_plan))"
    by (simp add: plan_grid_def columns wide_image_rows wide_columns_def wide_plan_def)
  then show ?thesis
    by (simp add: try_new_def weights square_cbuf_partition_def wide_image_partition
        new_with_cbuf_partition_def parity_padded_shape_def wide_image_extents make_plan_def
        wide_plan_def)
qed

section \<open>One row of 2^26 pixels\<close>

definition wide_row :: shape where
  "wide_row = \<lparr>width = 67108864, height = 1, stride = 1, in_channels = 32, out_channels = 8,
     precision = Fp16, padding = None, activation = NoActivation, depthwise = False\<rparr>"

lemma wide_row_simps [simp]:
  "width wide_row = 67108864" "height wide_row = 1" "stride wide_row = 1" "in_channels wide_row = 32"
  "out_channels wide_row = 8" "precision wide_row = Fp16" "padding wide_row = None"
  "\<not> depthwise wide_row"
  by (simp_all add: wide_row_def)

lemma wide_row_geometry: "geometry wide_row unit_kernel pointwise_kernel"
  by (simp add: geometry_def valid_shape_def u32_shape_def try_kernel_programming_def
      try_kernel_programming_of_def pointwise_kernel_def unit_kernel_def)

lemma wide_row_channels:
  "layout wide_row = Surfaces" "cbuf_atoms wide_row = 4" "weight_channels wide_row = 32"
  "programmed_kernels wide_row = 8" "streamed_contraction_channels wide_row = 32"
  by (simp_all add: layout_def cbuf_atoms_def feature_atoms_def weight_channels_def
      programmed_kernels_def shares_fp16_layout_def quad_atoms_def streamed_contraction_channels_def
      MAX_DENSE_CHANNELS_def div_ceil_def)

lemma wide_row_partition: "try_demand_based_cbuf_partition wide_row unit_kernel = Panicked"
proof -
  have "data_bank_demand wide_row = Done 131072"
    by (simp add: data_bank_demand_def wide_row_channels PIXELS_PER_BANK_STEP_def div_ceil_def)
  moreover have "weight_bank_demand wide_row unit_kernel = Done 1"
    by (simp add: weight_bank_demand_def weight_bytes_def kernel_prog_Done [OF wide_row_geometry]
        wide_row_channels bytes_for_def CBUF_BANK_BYTES_def div_ceil_def)
  moreover have "streamed_weight_bank_preference 32 unit_kernel 16 = Done 1"
    by (simp add: streamed_weight_bank_preference_def unit_kernel_def
        streamed_weight_bank_preference_for_group_def hw_consts div_ceil_def)
  moreover have "max_tile_input_rows_for_data_banks wide_row 11 = Panicked"
    by (simp add: max_tile_input_rows_for_data_banks_def wide_row_channels udiv_def
        max_tile_input_rows_for_width_and_data_banks_def cbuf_input_width_def hw_consts div_ceil_def
        wrap32_def)
  moreover obtain t where "tile_whole wide_row unit_kernel = Done t"
    using tile_whole_total [OF wide_row_geometry]
    by (cases "tile_whole wide_row unit_kernel :: tile plan_result")
       (auto simp: tile_whole_def tile_split_def output_height_Done [OF wide_row_geometry]
          kernel_prog_Done [OF wide_row_geometry] ensure_def split: if_splits)
  ultimately show ?thesis
    by (simp add: try_demand_based_cbuf_partition_def wide_row_channels Let_def CBUF_BANKS_def
        saturating_sub_def weight_banks_floor_def)
qed

section \<open>An accumulator convolution in one tile\<close>

definition no_quantization :: quantization where
  "no_quantization = \<lparr>input_zero_point = 0, output_zero_point = 0, weight_zero_point = 0,
     input_scale = 0, weights_scale = 0, q_multiplier = \<lparr>mul_scale = 16384, mul_shift = 14\<rparr>\<rparr>"

definition matmul :: shape where
  "matmul = \<lparr>width = 4, height = 4, stride = 1, in_channels = 32, out_channels = 8,
     precision = Int8Accumulator no_quantization, padding = None, activation = NoActivation,
     depthwise = False\<rparr>"

definition matmul_tile :: tile2d where
  "matmul_tile = \<lparr>
     t_rows = \<lparr>out_first = 0, out_rows = 4, in_first = 0, in_rows = 4, pad_top = 0\<rparr>,
     t_columns = \<lparr>col_out_first = 0, col_out_cols = 4, col_in_first = 0, col_in_cols = 4,
                  col_pad_left = 0\<rparr>\<rparr>"

definition matmul_plan :: conv_plan where
  "matmul_plan = \<lparr>plan_shape = matmul, plan_kernels = unit_kernel, plan_data_banks = 1,
     plan_weight_banks = 11, plan_output_column_widths = [4], plan_tiles = [matmul_tile]\<rparr>"

lemma matmul_simps [simp]:
  "width matmul = 4" "height matmul = 4" "stride matmul = 1" "in_channels matmul = 32"
  "out_channels matmul = 8" "precision matmul = Int8Accumulator no_quantization"
  "padding matmul = None" "\<not> depthwise matmul"
  by (simp_all add: matmul_def)

lemma matmul_geometry: "geometry matmul unit_kernel pointwise_kernel"
  by (simp add: geometry_def valid_shape_def u32_shape_def try_kernel_programming_def
      try_kernel_programming_of_def pointwise_kernel_def unit_kernel_def)

lemma matmul_valid: "valid_shape matmul"
  using matmul_geometry by (simp add: geometry_def)

lemma matmul_extents:
  "output_width matmul unit_kernel = Done 4" "output_height matmul unit_kernel = Done 4"
  by (simp_all add: output_width_Done [OF matmul_geometry] output_height_Done [OF matmul_geometry]
      out_w_def out_h_def)

lemmas matmul_prog = kernel_prog_Done [OF matmul_geometry]

lemma matmul_channels:
  "layout matmul = Surfaces" "cbuf_atoms matmul = 2" "weight_channels matmul = 32"
  "programmed_kernels matmul = 8" "streamed_contraction_channels matmul = 32"
  by (simp_all add: layout_def cbuf_atoms_def feature_atoms_def weight_channels_def padded_channels_def
      programmed_kernels_def shares_fp16_layout_def quad_atoms_def streamed_contraction_channels_def
      MAX_DENSE_CHANNELS_def div_ceil_def next_multiple_of_def)

lemma matmul_rows:
  "max_tile_input_width matmul = 4"
  "max_tile_input_rows_for_width_and_data_banks matmul 4 1 = Done 256"
  "max_feature_grain_input_rows matmul unit_kernel = Done 1022"
  by (simp_all add: max_tile_input_width_def max_tile_input_rows_for_width_and_data_banks_def
      matmul_channels cbuf_input_width_def hw_consts div_ceil_def
      max_feature_grain_input_rows_Done [OF matmul_geometry])

lemma matmul_tile_at: "tile_at matmul pointwise_kernel 0 4 = t_rows matmul_tile"
proof -
  have "out_h matmul pointwise_kernel = 4" by (simp add: out_h_def)
  with tile_at_eq(1) [OF matmul_geometry, of 4 0] show ?thesis by (simp add: matmul_tile_def min_def)
qed

lemma matmul_partition: "try_demand_based_cbuf_partition matmul unit_kernel = Done (1, 11)"
proof -
  have "tile_whole matmul unit_kernel = Done (t_rows matmul_tile)"
    by (simp add: tile_whole_def tile_split_def matmul_extents matmul_prog matmul_tile_at)
  moreover have "data_bank_demand matmul = Done 1" "weight_bank_demand matmul unit_kernel = Done 1"
    by (simp_all add: data_bank_demand_def weight_bank_demand_def matmul_channels weight_bytes_def
        matmul_prog bytes_for_def hw_consts div_ceil_def)
  moreover have "streamed_weight_bank_preference 32 unit_kernel 8 = Done 1"
    by (simp add: streamed_weight_bank_preference_def streamed_weight_bank_preference_for_group_def
        unit_kernel_def hw_consts div_ceil_def)
  ultimately show ?thesis
    by (simp add: try_demand_based_cbuf_partition_def matmul_channels matmul_rows [unfolded One_nat_def] matmul_tile_def
        max_tile_input_rows_for_data_banks_def Let_def CBUF_BANKS_def saturating_sub_def
        weight_banks_floor_def)
qed

lemma matmul_planned: "try_new default_policy matmul unit_kernel = Done matmul_plan"
proof -
  have weights: "try_kernel_programming matmul unit_kernel = Done pointwise_kernel"
    "check_extents_against matmul pointwise_kernel = Done ()"
    "try_weight_bytes matmul unit_kernel = Done 256"
    using matmul_geometry
    by (simp_all add: geometry_def check_extents_against_def try_weight_bytes_def matmul_channels)
  have columns: "column_split matmul unit_kernel [4] = Done [t_columns matmul_tile]"
    by (simp add: column_split_def column_from_output_range_def matmul_extents matmul_prog
        column_at_def matmul_tile_def saturating_sub_def)
  have "split_greedy_to_capacity matmul unit_kernel 256 = Done (Some [t_rows matmul_tile])"
    by (simp add: split_greedy_to_capacity_def tile_from_bounds_def matmul_prog matmul_extents
        matmul_tile_at) (simp add: matmul_tile_def)
  then have "plan_column_rows matmul unit_kernel 256 = Done (Some [t_rows matmul_tile])"
    by (simp add: plan_column_rows_def realign_dense_row_tiles_def)
  then have "plan_grid matmul unit_kernel [4] 1 = Done (Some (plan_tiles matmul_plan))"
    by (simp add: plan_grid_def columns matmul_rows [unfolded One_nat_def] matmul_tile_def matmul_plan_def)
  then show ?thesis
    by (simp add: try_new_def weights square_cbuf_partition_def matmul_partition
        new_with_cbuf_partition_def parity_padded_shape_def matmul_extents make_plan_def
        matmul_plan_def)
qed

end
