(* ===== verification/ConvProgramProperties.thy ===== *)
theory ConvProgramProperties
  imports ConvProgramProofs ConvTileValues Samples
begin

text \<open>
  The programs of a convolution plan: every tile inside the register envelope has a program, which
  reads back as that tile; and relocation adds the buffers' addresses to it.
\<close>

section \<open>The values fit their registers\<close>

text \<open>The surface stride of the output writer when no override is set.\<close>

definition surface_add_of :: "shape \<Rightarrow> kernel_programming \<Rightarrow> tile2d \<Rightarrow> nat" where
  "surface_add_of s k t =
     (let area = out_w s k * out_h s k in
      if writes_accumulators (precision s)
      then if depthwise s then 16 else col_out_cols (t_columns t) * out_rows (t_rows t) * 8
      else if writes_fp32_result (precision s) then area * 4
      else if precision s = Int4 then area * 8
      else area * (if depthwise s then 4 else 2))"

lemma channels_fit:
  assumes v: "valid_shape s" and c: "in_channels s \<le> 4096" "out_channels s \<le> 4096"
  shows "padded_channels s < 65536" "programmed_kernels s < 16384"
    "1 \<le> padded_out_channels s" "padded_out_channels s \<le> 8192"
proof -
  let ?cpa = "channels_per_atom (precision s)"
  note cpa = channels_per_atom_bounds [of "precision s"]
  have pos: "0 < in_channels s" "0 < out_channels s" using v by (simp_all add: valid_shape_def)
  have "div_ceil (in_channels s) ?cpa * ?cpa < in_channels s + ?cpa"
    by (rule div_ceil_mult_less) (use pos in simp_all)
  moreover have "1 \<le> div_ceil (in_channels s) ?cpa" using pos by (simp add: Suc_leI)
  then have "feature_atoms s = div_ceil (in_channels s) ?cpa" unfolding feature_atoms_def by (rule max_absorb1)
  ultimately have "feature_atoms s * ?cpa < 65536" using c cpa by simp
  then show "padded_channels s < 65536" unfolding padded_channels_def by (rule le_less_trans [OF wrap32_le])
  have "next_multiple_of (out_channels s) 2 < out_channels s + 2" by (rule next_multiple_of_less) simp
  then show "programmed_kernels s < 16384"
    using c wrap32_le [of "next_multiple_of (out_channels s) 2"] by (simp add: programmed_kernels_def)
  have granule: "0 < shape_granule s" "shape_granule s \<le> 128"
    using precision_granule_le [of "precision s"] by (simp_all add: shape_granule_def Let_def)
  have "next_multiple_of (out_channels s) (shape_granule s) < out_channels s + shape_granule s"
    by (rule next_multiple_of_less [OF granule(1)])
  then show "1 \<le> padded_out_channels s" "padded_out_channels s \<le> 8192"
    using c granule wrap32_le [of "next_multiple_of (out_channels s) (shape_granule s)"]
    by (simp_all add: padded_out_channels_def Let_def)
qed

lemma tile_values_fit:
  assumes g: "geometry s ks k" and env: "register_envelope s k" and t: "emitted_tile s k d t"
    and banks: "d < 16" "b < 16" and none: "env_var e = (\<lambda>_. None)"
    and grains: "grains = in_rows (t_rows t) + k_height k + pad_top (t_rows t)"
  shows "values_fit e s t (tile_values s k wb t) grains d b"
    "surf_add e s t (tile_values s k wb t) = surface_add_of s k t"
proof -
  have v: "valid_shape s" using g by (simp add: geometry_def)
  note kernel = geometry_kernel [OF g]
  have e: "width s \<le> 2047" "out_w s k \<le> 2047" "out_h s k \<le> 2048" "stride s \<le> 7"
    "in_channels s \<le> 4096" "out_channels s \<le> 4096"
    "k_height k * k_width k * weight_channels s * element_bits (precision s) div 8 < 524288"
    using env by (simp_all add: register_envelope_def)
  have conversion: "fst (snd (output_conversion s)) < 65536" "snd (snd (output_conversion s)) < 4096"
    using env by (auto simp: register_envelope_def output_conversion_def split: option.splits)
  have resident: "tile_resident s k d t" and out: "0 < out_rows (t_rows t)"
    "out_rows (t_rows t) \<le> 2048" "0 < col_out_cols (t_columns t)" "col_out_cols (t_columns t) \<le> 2047"
    and window: "0 < in_rows (t_rows t)" "col_in_cols (t_columns t) \<le> width s"
    and pads: "pad_top (t_rows t) < 16" "col_pad_left (t_columns t) < 16"
    using t e kernel by (auto simp: emitted_tile_def)
  have area: "out_w s k * out_h s k \<le> 2047 * 2048" using e(2,3) by (rule mult_le_mono)
  have tile_area: "col_out_cols (t_columns t) * out_rows (t_rows t) \<le> 2047 * 2048"
    using out(4,2) by (rule mult_le_mono)
  have grain: "grains < 1024" and rows: "in_rows (t_rows t) < 2048"
    using resident by (simp_all add: tile_resident_def grains)
  have argb: "cv_argb_in (tile_values s k wb t) < 16"
    by (simp add: tile_values_def layout_def MAX_DENSE_CHANNELS_def)
  note strides = fetch_geometry_exact(2-4) [OF v resident window(1,2) e(1), simplified]
  note channels = channels_fit [OF v e(5,6)]
  have exact: "wrap32 (out_w s k * out_h s k * n) = out_w s k * out_h s k * n"
    "wrap32 (n * (out_w s k * out_h s k)) = n * (out_w s k * out_h s k)" if "n \<le> 8" for n
    using mult_le_mono [OF area that] by (simp_all add: mult.commute)
  show add: "surf_add e s t (tile_values s k wb t) = surface_add_of s k t"
    using tile_area exact [of 2] exact [of 4] exact [of 8]
    by (simp add: surf_add_def surface_add_of_def tile_values_def accumulator_surf_mult_override_def
        accumulator_surf_add_override_def no_overrides [OF none] DENSE_ACCUMULATOR_SURF_MULT_def)
  have "out_h s k * out_w s k < 4194304" using area by (simp add: mult.commute)
  then have "surface_add_of s k t < 268435456"
    using area tile_area by (simp add: surface_add_of_def Let_def)
  moreover have "out_h s k * out_w s k < 4194304" using area by (simp add: mult.commute)
  ultimately show "values_fit e s t (tile_values s k wb t) grains d b"
    using v e banks out window pads grain rows argb strides channels conversion kernel area tile_area
    unfolding values_fit_def add by (simp add: tile_values_def valid_shape_def)
qed

section \<open>The task of a tile\<close>

text \<open>
  What the program of tile \<open>t\<close> has to say, with the buffers at \<open>b\<close>: the window and the output
  rectangle of the tile in every block that repeats them, whole channel granules, the kernel, the
  stride and the padding that is left at this tile's edge, the bank split of the plan, the tile's own
  source and destination pixels, and a notch that skips the other tiles' columns.
\<close>

definition task_of_conv_tile ::
  "conv_plan \<Rightarrow> kernel_programming \<Rightarrow> nat \<Rightarrow> dma_buffers \<Rightarrow> tile2d \<Rightarrow> conv_task" where
  "task_of_conv_tile p k wb b t =
     (let s = plan_shape p; cols = col_out_cols (t_columns t); rows = out_rows (t_rows t);
          window = (col_in_cols (t_columns t), in_rows (t_rows t));
          out_code = output_code (dpu_data_precision (precision s));
          in_code = data_code (data_precision (precision s))
      in \<lparr>ct_window = [window, window],
          ct_in_channels = ((in_channels s - 1) mod 64, padded_channels s, padded_channels s),
          ct_output_widths = replicate 5 cols, ct_output_heights = replicate 4 rows,
          ct_atomics = cols * rows,
          ct_out_channels = out_channels s # replicate 4 (padded_out_channels s),
          ct_kernel = (k_width k, k_height k, programmed_kernels s),
          ct_weight_bytes =
            (wb, k_height k * k_width k * weight_channels s * element_bits (precision s) div 8),
          ct_stride = (stride s, stride s),
          ct_pad = (pad_top (t_rows t), col_pad_left (t_columns t)),
          ct_pad_value = pad_value_of s,
          ct_grains = in_rows (t_rows t) + k_height k + pad_top (t_rows t),
          ct_banks = (plan_data_banks p, plan_weight_banks p),
          ct_entries = tile_entries s t,
          ct_source = input_buffer b + source_offset s t,
          ct_source_strides = source_strides s k t,
          ct_destination = output_buffer b + destination_offset s k t,
          ct_surface = out_w s k * out_h s k,
          ct_surface_add = surface_add_of s k t,
          ct_notch = (out_w s k - cols, out_w s k - cols),
          ct_modes = replicate 3 (conv_mode s),
          ct_precisions = [in_code, in_code, out_code, out_code,
            output_code (output_data_precision (precision s))],
          ct_conversion = output_conversion s,
          ct_coefficients_bias = (weights_buffer b, bias_buffer b)\<rparr>)"

definition no_buffers :: dma_buffers where
  "no_buffers = \<lparr>input_buffer = 0, weights_buffer = 0, bias_buffer = 0, output_buffer = 0\<rparr>"

lemma output_conversion_offset_fits: "fst (output_conversion s) < 2 ^ 32"
  by (simp add: output_conversion_def i32_bits_def nat_less_iff split: option.split)

lemma weight_bytes_less: "weight_bytes s ks = Done wb \<Longrightarrow> wb < 2 ^ 32"
  by (auto simp: weight_bytes_def obind_eq_Done wrap32_less [simplified] split: if_splits)

lemma tile_program_total:
  assumes g: "geometry s ks k" and env: "register_envelope s k" and p: "plan_shape p = s" "plan_kernels p = ks"
    and t: "emitted_tile s k (plan_data_banks p) t" and banks: "plan_data_banks p < 16" "plan_weight_banks p < 16"
    and none: "env_var e = (\<lambda>_. None)" and wb: "weight_bytes s ks = Done wb"
  shows "\<exists>program. plan_tile_program e p SharedImage t = Done program
    \<and> written_once (map cmd_address program) \<and> read_conv program = task_of_conv_tile p k wb no_buffers t"
proof -
  let ?grains = "in_rows (t_rows t) + k_height k + pad_top (t_rows t)"
  let ?v = "tile_values s k wb t"
  have v: "valid_shape s" using g by (simp add: geometry_def)
  have out: "0 < out_rows (t_rows t)" "0 < col_out_cols (t_columns t)" "col_out_cols (t_columns t) \<le> 2047"
    "out_rows (t_rows t) \<le> 2048" "out_first (t_rows t) < out_h s k" "col_out_first (t_columns t) < out_w s k"
    "in_first (t_rows t) < height s" "col_in_first (t_columns t) < width s" "in_rows (t_rows t) \<le> 1023"
    "pad_top (t_rows t) \<le> 1023" "k_height k \<le> 1023" "pad_top (t_rows t) \<le> k_pad_top k"
    using t env by (auto simp: emitted_tile_def register_envelope_def tile_resident_def)
  have grains: "feature_grains_planned e s ks (t_rows t) = Done ?grains"
    using feature_grains_eq [OF g, of "t_rows t"] out(9-12)
    by (simp add: feature_grains_planned_def no_overrides [OF none])
  have vals: "conv_values_of s ks t ?grains SharedImage = Done ?v"
    by (rule conv_values_exact [OF g env t wb refl])
  note fit = tile_values_fit [OF g env t banks none refl, of wb]
  obtain cmds where cmds: "write_all (conv_writes e s t ?v ?grains (plan_data_banks p) (plan_weight_banks p)) = Done cmds"
    using program_accepted [OF fit(1) none] by blast
  have built: "conv_2d_tile_program e s ks t ?grains (plan_data_banks p) (plan_weight_banks p) SharedImage
      = Done (cmds @ conv_trailer)"
    using vals cmds by (simp add: conv_2d_tile_program_def)
  then have program: "plan_tile_program e p SharedImage t = Done (cmds @ conv_trailer)"
    using grains by (simp add: plan_tile_program_def p)
  have area: "out_w s k * out_h s k \<le> 4194304"
    using mult_le_mono [of "out_w s k" 2047 "out_h s k" 2048] env by (simp add: register_envelope_def)
  have small: "cv_input_offset ?v < 2 ^ 32" "cv_output_base_offset ?v < 2 ^ 32" "cv_weight_bytes ?v < 2 ^ 32"
    using tile_input_offset_exact(2) [OF v out(7,8)] tile_output_offset_exact(2) [OF g area out(5,6)]
      weight_bytes_less [OF wb] by (simp_all add: tile_values_def)
  note reads = cna_read_back [OF cmds small(1,3)] core_read_back [OF cmds]
    dpu_read_back [OF cmds small(2) output_conversion_offset_fits] dpu_rdma_read_back [OF cmds]
  have stored: "sub32 (cv_out_width ?v) 1 + 1 = col_out_cols (t_columns t)"
    "sub32 (out_rows (t_rows t)) 1 + 1 = out_rows (t_rows t)"
    "sub32 (cv_padded_out_channels ?v) 1 + 1 = padded_out_channels s"
    "sub32 (out_channels s) 1 + 1 = out_channels s"
    "sub32 (in_channels s) 1 = in_channels s - 1"
    using out v channels_fit(3) [OF v] env by (simp_all add: tile_values_def valid_shape_def register_envelope_def)
  have atomics: "wrap32 (cv_out_width ?v * out_rows (t_rows t)) = col_out_cols (t_columns t) * out_rows (t_rows t)"
    using mult_le_mono [OF out(3,4)] by (simp add: tile_values_def)
  have precision: "output_precision_bits e s = output_code (output_data_precision (precision s))"
    by (simp add: output_precision_bits_def no_overrides [OF none])
  have "read_conv (cmds @ conv_trailer) = task_of_conv_tile p k wb no_buffers t"
    unfolding read_conv_def reads stored atomics fit(2) precision task_of_conv_tile_def p(1) Let_def no_buffers_def
    by (simp add: tile_values_def) (simp add: numeral_eq_Suc)
  then show ?thesis using program tile_program_addresses [OF built] by blast
qed

section \<open>Reading a relocated program\<close>

text \<open>The base that relocation adds to a register.\<close>

definition relocation_base :: "dma_buffers \<Rightarrow> nat \<times> nat \<Rightarrow> nat" where
  "relocation_base b a =
     (if a = reg_address CnaFeatureDataAddr then input_buffer b
      else if a = reg_address CnaDcompAddr0 then weights_buffer b
      else if a = reg_address DpuRdmaBsBaseAddr then bias_buffer b
      else if a = reg_address DpuDstBaseAddr then output_buffer b else 0)"

lemma relocated_word_fields:
  "cmd_address (relocated_word True b w) = cmd_address w"
  "cmd_value (relocated_word True b w) = word_of_nat (relocation_base b (cmd_address w)) + cmd_value w"
  by (auto simp: relocated_word_def relocation_base_def Let_def new_word_address address_registers_def)
     (auto simp: regcmd_new_fields address_register_defs)

lemma map_of_map_at:
  "map_of (map (\<lambda>w. (f w, h (f w) (v w))) ws) a = map_option (h a) (map_of (map (\<lambda>w. (f w, v w)) ws) a)"
  by (induction ws) auto

lemma register_value_relocated:
  "register_value (map (relocated_word True b) program) R =
   map_option (\<lambda>r. word_of_nat (relocation_base b (reg_address R)) + r) (register_value program R)"
  unfolding register_value_def reg_address_def [symmetric] cmd_address_def [symmetric] rev_map map_map comp_def
    relocated_word_fields
  by (rule map_of_map_at [where h = "\<lambda>a r. word_of_nat (relocation_base b a) + r"])

lemma field_at_relocated:
  assumes "relocation_base b (reg_address R) = 0"
  shows "field_at (map (relocated_word True b) program) R n sh = field_at program R n sh"
  using assms by (simp add: field_at_def field_value_def register_value_relocated option.map_comp comp_def)

lemma field_of_whole: "field_of 32 0 r = unat r"
  by (simp add: field_of_def take_bit_word_eq_self)

lemma address_at_relocated:
  assumes "register_value program R \<noteq> None"
    and "relocation_base b (reg_address R) + field_at program R 32 0 < 2 ^ 32"
  shows "field_at (map (relocated_word True b) program) R 32 0
    = relocation_base b (reg_address R) + field_at program R 32 0"
  using assms
  by (auto simp: field_at_def field_value_def register_value_relocated field_of_whole unat_word_ariths
      unat_of_nat)

lemma relocation_bases:
  "relocation_base b (reg_address CnaFeatureDataAddr) = input_buffer b"
  "relocation_base b (reg_address CnaDcompAddr0) = weights_buffer b"
  "relocation_base b (reg_address DpuRdmaBsBaseAddr) = bias_buffer b"
  "relocation_base b (reg_address DpuDstBaseAddr) = output_buffer b"
  by (simp_all add: relocation_base_def address_register_defs)

lemma other_registers_stay:
  "relocation_base b (reg_address CnaDataSize0) = 0"
  "relocation_base b (reg_address CnaFcDataSize0) = 0"
  "relocation_base b (reg_address CnaDataSize1) = 0"
  "relocation_base b (reg_address CnaFcDataSize1) = 0"
  "relocation_base b (reg_address CnaDataSize2) = 0"
  "relocation_base b (reg_address CoreDataoutSize0) = 0"
  "relocation_base b (reg_address DpuDataCubeWidth) = 0"
  "relocation_base b (reg_address DpuWdmaSize1) = 0"
  "relocation_base b (reg_address DpuRdmaDataCubeWidth) = 0"
  "relocation_base b (reg_address DpuDataCubeHeight) = 0"
  "relocation_base b (reg_address DpuRdmaDataCubeHeight) = 0"
  "relocation_base b (reg_address CnaDataSize3) = 0"
  "relocation_base b (reg_address DpuDataCubeChannel) = 0"
  "relocation_base b (reg_address CoreDataoutSize1) = 0"
  "relocation_base b (reg_address DpuWdmaSize0) = 0"
  "relocation_base b (reg_address DpuRdmaDataCubeChannel) = 0"
  "relocation_base b (reg_address CnaWeightSize2) = 0"
  "relocation_base b (reg_address CnaWeightSize0) = 0"
  "relocation_base b (reg_address CnaWeightSize1) = 0"
  "relocation_base b (reg_address CnaConvCon3) = 0"
  "relocation_base b (reg_address CnaPadCon0) = 0"
  "relocation_base b (reg_address CnaPadCon1) = 0"
  "relocation_base b (reg_address CnaConvCon2) = 0"
  "relocation_base b (reg_address CnaCbufCon0) = 0"
  "relocation_base b (reg_address CnaCbufCon1) = 0"
  "relocation_base b (reg_address CnaDmaCon1) = 0"
  "relocation_base b (reg_address CnaDmaCon2) = 0"
  "relocation_base b (reg_address DpuDstSurfStride) = 0"
  "relocation_base b (reg_address DpuSurfaceAdd) = 0"
  "relocation_base b (reg_address DpuDataCubeNotchAddr) = 0"
  "relocation_base b (reg_address CnaConvCon1) = 0"
  "relocation_base b (reg_address DpuFeatureModeCfg) = 0"
  "relocation_base b (reg_address DpuRdmaFeatureModeCfg) = 0"
  "relocation_base b (reg_address DpuDataFormat) = 0"
  "relocation_base b (reg_address DpuOutCvtOffset) = 0"
  "relocation_base b (reg_address DpuOutCvtScale) = 0"
  "relocation_base b (reg_address DpuOutCvtShift) = 0"
  by (simp_all add: relocation_base_def reg_address_def conv_block_registers domain_defs)

lemma register_value_None:
  "register_value cmds R = None \<longleftrightarrow> reg_address R \<notin> set (map cmd_address cmds)"
  by (auto simp: register_value_def reg_address_def cmd_address_def map_of_eq_None_iff image_iff)

lemma written_once_value:
  "written_once (map cmd_address cmds) \<Longrightarrow> R \<in> set address_registers \<Longrightarrow> register_value cmds R \<noteq> None"
  unfolding register_value_None written_once_def
  by (metis count_notin zero_neq_one)

lemma read_conv_relocated:
  assumes once: "written_once (map cmd_address program)"
    and fits: "input_buffer b + ct_source (read_conv program) < 2 ^ 32"
      "output_buffer b + ct_destination (read_conv program) < 2 ^ 32"
      "weights_buffer b + fst (ct_coefficients_bias (read_conv program)) < 2 ^ 32"
      "bias_buffer b + snd (ct_coefficients_bias (read_conv program)) < 2 ^ 32"
  shows "read_conv (map (relocated_word True b) program) = (read_conv program)
    \<lparr>ct_source := input_buffer b + ct_source (read_conv program),
     ct_destination := output_buffer b + ct_destination (read_conv program),
     ct_coefficients_bias := (weights_buffer b + fst (ct_coefficients_bias (read_conv program)),
       bias_buffer b + snd (ct_coefficients_bias (read_conv program)))\<rparr>"
proof -
  have written: "register_value program R \<noteq> None" if "R \<in> set address_registers" for R
    using written_once_value [OF once that] .
  have addresses: "field_at (map (relocated_word True b) program) CnaFeatureDataAddr 32 0
      = input_buffer b + field_at program CnaFeatureDataAddr 32 0"
    "field_at (map (relocated_word True b) program) DpuDstBaseAddr 32 0
      = output_buffer b + field_at program DpuDstBaseAddr 32 0"
    "field_at (map (relocated_word True b) program) CnaDcompAddr0 32 0
      = weights_buffer b + field_at program CnaDcompAddr0 32 0"
    "field_at (map (relocated_word True b) program) DpuRdmaBsBaseAddr 32 0
      = bias_buffer b + field_at program DpuRdmaBsBaseAddr 32 0"
    using fits by (auto simp: address_at_relocated written address_registers_def relocation_bases read_conv_def)
  show ?thesis
    unfolding read_conv_def addresses
    by (simp add: field_at_relocated other_registers_stay)
qed

section \<open>The programs of a plan\<close>

lemma map_tiles_total:
  assumes "\<forall>t \<in> set ts. \<exists>q. f t = Done q \<and> P t q"
  shows "\<exists>qs. map_tiles f ts = Done qs \<and> list_all2 P ts qs"
  using assms
proof (induction ts)
  case (Cons t ts)
  then obtain q qs where "f t = Done q" "P t q" "map_tiles f ts = Done qs" "list_all2 P ts qs" by auto
  then show ?case by simp
qed simp

lemma relocate_all_map:
  assumes "aligned_buffers b" "\<forall>q \<in> set qs. written_once (map cmd_address q)"
  shows "relocate_all b qs = Done (map (map (relocated_word True b)) qs)"
  using assms(2) by (induction qs) (simp_all add: relocate_def relocate_output_map assms(1))

lemma weight_bytes_Done:
  assumes "geometry s ks k"
  shows "\<exists>wb. weight_bytes s ks = Done wb"
  using weight_bytes_total [OF assms]
  by (auto simp: weight_bytes_def kernel_prog_Done [OF assms] bytes_for_def Let_def ensure_def split: if_splits)

lemma plan_programs_total:
  assumes v: "valid_shape s" and p: "try_new pol s ks = Done p" and k: "try_kernel_programming s ks = Done k"
    and env: "register_envelope s k" and none: "env_var e = (\<lambda>_. None)"
  shows "\<exists>wb programs. weight_bytes s ks = Done wb \<and> conv_programs e p = Done programs
    \<and> list_all2 (\<lambda>t q. emitted_tile s k (plan_data_banks p) t \<and> written_once (map cmd_address q)
         \<and> read_conv q = task_of_conv_tile p k wb no_buffers t) (plan_tiles p) programs"
proof -
  obtain k' banks where g: "geometry s ks k'" and ok: "plan_grid_ok s ks k' banks p" and "banks_ok banks"
    using try_new_grid [OF v p] by metis
  with k have kk: "k' = k" by (simp add: geometry_def)
  note g = g [unfolded kk] and ok = ok [unfolded kk]
  obtain wb where wb: "weight_bytes s ks = Done wb" using weight_bytes_Done [OF g] by blast
  have shape: "plan_shape p = s" "plan_kernels p = ks" and small: "plan_data_banks p < 16" "plan_weight_banks p < 16"
    using ok \<open>banks_ok banks\<close> by (auto simp: plan_grid_ok_def banks_ok_def)
  have "\<forall>t \<in> set (plan_tiles p). \<exists>q. plan_tile_program e p SharedImage t = Done q
      \<and> emitted_tile s k (plan_data_banks p) t \<and> written_once (map cmd_address q)
      \<and> read_conv q = task_of_conv_tile p k wb no_buffers t"
    using plan_tile_emitted [OF g ok] tile_program_total [OF g env shape _ small none wb] by blast
  from map_tiles_total [OF this] wb show ?thesis by (auto simp: conv_programs_def)
qed

text \<open>The first surface of the input and of the output is addressable from its buffer.\<close>

definition buffers_addressable :: "shape \<Rightarrow> kernel_programming \<Rightarrow> dma_buffers \<Rightarrow> bool" where
  "buffers_addressable s k b \<longleftrightarrow>
     input_buffer b + width s * height s * 16 \<le> 2 ^ 32
     \<and> output_buffer b + out_w s k * out_h s k * output_channel_block_bytes s \<le> 2 ^ 32
     \<and> weights_buffer b < 2 ^ 32 \<and> bias_buffer b < 2 ^ 32"

lemma offsets_inside:
  assumes "emitted_tile s k d t" "0 < in_channels s"
  shows "source_offset s t < width s * height s * 16"
    "destination_offset s k t < out_w s k * out_h s k * output_channel_block_bytes s"
proof -
  have "in_first (t_rows t) * width s + col_in_first (t_columns t) < width s * height s"
    using assms(1) by (intro pixel_index_less) (auto simp: emitted_tile_def)
  moreover have "source_offset s t \<le> (in_first (t_rows t) * width s + col_in_first (t_columns t)) * 16"
    unfolding source_offset_def using input_pixel_le by (intro mult_le_mono2)
  ultimately show "source_offset s t < width s * height s * 16"
    by (meson le_less_trans mult_less_mono1 zero_less_numeral)
  have "out_first (t_rows t) * out_w s k + col_out_first (t_columns t) < out_w s k * out_h s k"
    using assms(1) by (intro pixel_index_less) (auto simp: emitted_tile_def)
  moreover have "0 < output_channel_block_bytes s"
    by (cases "precision s") (simp_all add: output_channel_block_bytes_def FEATURE_ATOM_BYTES_def)
  ultimately show "destination_offset s k t < out_w s k * out_h s k * output_channel_block_bytes s"
    unfolding destination_offset_def by simp
qed

lemma bound_task:
  assumes q: "written_once (map cmd_address q)" "read_conv q = task_of_conv_tile p k wb no_buffers t"
    and s: "plan_shape p = s" "0 < in_channels s" and t: "emitted_tile s k d t" and b: "buffers_addressable s k b"
  shows "read_conv (map (relocated_word True b) q) = task_of_conv_tile p k wb b t"
  using read_conv_relocated [OF q(1), of b] offsets_inside [OF t s(2)] b
  by (simp add: q(2) task_of_conv_tile_def Let_def s(1) no_buffers_def buffers_addressable_def)

text \<open>
  C11. On a valid shape inside the register envelope, with no override set, every program of the plan
  can be built and bound to aligned, addressable buffers, one per tile in order, and each reads back
  as its tile: window, output rectangle, channels, kernel, strides, padding, banks, entries, source and
  destination of exactly that tile.
\<close>

theorem conv_programs_carry_their_tiles:
  assumes v: "valid_shape s" and p: "try_new pol s ks = Done p" and k: "try_kernel_programming s ks = Done k"
    and env: "register_envelope s k" and none: "env_var e = (\<lambda>_. None)"
    and b: "aligned_buffers b" "buffers_addressable s k b"
  shows "\<exists>wb programs. weight_bytes s ks = Done wb \<and> conv_programs_with_buffers e p b = Done programs
    \<and> list_all2 (\<lambda>t program. read_conv program = task_of_conv_tile p k wb b t) (plan_tiles p) programs"
proof -
  obtain wb programs where wb: "weight_bytes s ks = Done wb" and built: "conv_programs e p = Done programs"
    and all: "list_all2 (\<lambda>t q. emitted_tile s k (plan_data_banks p) t \<and> written_once (map cmd_address q)
         \<and> read_conv q = task_of_conv_tile p k wb no_buffers t) (plan_tiles p) programs"
    using plan_programs_total [OF v p k env none] by blast
  have shape: "plan_shape p = s" using try_new_grid [OF v p] by (metis plan_grid_ok_def)
  have "0 < in_channels s" using v by (simp add: valid_shape_def)
  note bound = bound_task [OF _ _ shape this _ b(2)]
  have "\<forall>q \<in> set programs. written_once (map cmd_address q)"
    using all by (auto simp: list_all2_conv_all_nth in_set_conv_nth)
  then have "conv_programs_with_buffers e p b = Done (map (map (relocated_word True b)) programs)"
    using built relocate_all_map [OF b(1)] by (simp add: conv_programs_with_buffers_def)
  moreover have "list_all2 (\<lambda>t program. read_conv program = task_of_conv_tile p k wb b t) (plan_tiles p)
      (map (map (relocated_word True b)) programs)"
    using all bound by (auto simp: list_all2_conv_all_nth)
  ultimately show ?thesis using wb by blast
qed

definition plain_env :: conv_env where
  "plain_env = \<lparr>env_var = (\<lambda>_. None), od_flag = False, bs_flag = False\<rparr>"

definition sample_buffers :: dma_buffers where
  "sample_buffers = \<lparr>input_buffer = 0x10000, weights_buffer = 0x40000, bias_buffer = 0x80000,
     output_buffer = 0x90000\<rparr>"

theorem conv_programs_carry_their_tiles_witness:
  "\<exists>programs. conv_programs_with_buffers plain_env pointwise_plan sample_buffers = Done programs
    \<and> length programs = 2 \<and> ct_source (read_conv (programs ! 1)) = 0x10000 + 5 * 8 * 16
    \<and> ct_output_heights (read_conv (programs ! 1)) = replicate 4 3"
proof -
  have envelope: "register_envelope pointwise pointwise_kernel"
    by (simp add: register_envelope_def out_w_def out_h_def pointwise_channels)
  have buffers: "aligned_buffers sample_buffers" "buffers_addressable pointwise pointwise_kernel sample_buffers"
    by (simp_all add: aligned_buffers_def buffers_addressable_def sample_buffers_def out_w_def out_h_def
        output_channel_block_bytes_def FEATURE_ATOM_BYTES_def)
  obtain wb programs where built: "conv_programs_with_buffers plain_env pointwise_plan sample_buffers = Done programs"
    and all: "list_all2 (\<lambda>t program. read_conv program
          = task_of_conv_tile pointwise_plan pointwise_kernel wb sample_buffers t) (plan_tiles pointwise_plan) programs"
    using conv_programs_carry_their_tiles [OF pointwise_valid pointwise_planned pointwise_weights(1)
        envelope _ buffers, of plain_env] by (auto simp: plain_env_def)
  have two: "length (plan_tiles pointwise_plan) = 2" by (simp add: pointwise_plan_def)
  then have "length programs = 2" using list_all2_lengthD [OF all] by simp
  moreover have "read_conv (programs ! 1) =
      task_of_conv_tile pointwise_plan pointwise_kernel wb sample_buffers (plan_tiles pointwise_plan ! 1)"
    using list_all2_nthD [OF all, of 1] two by simp
  then have "ct_source (read_conv (programs ! 1)) = 0x10000 + 5 * 8 * 16"
    "ct_output_heights (read_conv (programs ! 1)) = replicate 4 3"
    by (simp_all add: pointwise_plan_def task_of_conv_tile_def Let_def source_offset_def input_pixel_def
        pointwise_channels pointwise_columns_def sample_buffers_def)
  ultimately show ?thesis using built by blast
qed

text \<open>
  C22. Relocation of a program the builder built adds each buffer's address to the one word that holds
  it and changes no other word, in the exact variant replacing the output's; it panics exactly when a
  buffer is not aligned to sixteen bytes.
\<close>

theorem relocation_rebases_the_four_addresses:
  assumes "conv_2d_tile_program e s ks t grains db wb placement = Done program"
  shows "relocate b program = (if aligned_buffers b then Done (map (relocated_word True b) program) else Panicked)
    \<and> relocate_with_exact_output b program =
        (if aligned_buffers b then Done (map (relocated_word False b) program) else Panicked)"
  using relocate_output_map [OF tile_program_addresses [OF assms]]
  by (simp add: relocate_def relocate_with_exact_output_def)

theorem relocation_rebases_the_four_addresses_witness:
  "\<exists>q. plan_tile_program plain_env pointwise_plan SharedImage (hd (plan_tiles pointwise_plan)) = Done q
    \<and> relocate sample_buffers q = Done (map (relocated_word True sample_buffers) q)
    \<and> relocate (sample_buffers\<lparr>bias_buffer := 8\<rparr>) q = Panicked"
proof -
  let ?t = "hd (plan_tiles pointwise_plan)"
  have "register_envelope pointwise pointwise_kernel"
    by (simp add: register_envelope_def out_w_def out_h_def pointwise_channels)
  from plan_programs_total [OF pointwise_valid pointwise_planned pointwise_weights(1) this, of plain_env]
  obtain programs where "conv_programs plain_env pointwise_plan = Done programs" by (auto simp: plain_env_def)
  then obtain q where q: "plan_tile_program plain_env pointwise_plan SharedImage ?t = Done q"
    by (auto simp: conv_programs_def pointwise_plan_def obind_eq_Done)
  then obtain g where "conv_2d_tile_program plain_env pointwise unit_kernel ?t g 10 2 SharedImage = Done q"
    by (auto simp: plan_tile_program_def obind_eq_Done pointwise_plan_def)
  from relocation_rebases_the_four_addresses [OF this] q show ?thesis
    by (auto simp: aligned_buffers_def sample_buffers_def)
qed

section \<open>Plans without programs\<close>

lemma unbuildable_writes:
  assumes "2048 \<le> cv_input_width v \<or> 8 \<le> stride s"
  shows "write_all (conv_writes e s t v g db wb) \<noteq> Done cmds"
proof
  assume built: "write_all (conv_writes e s t v g db wb) = Done cmds"
  note written = conv_register_value [OF built subsetD [OF blocks_of_program(1)]]
  have "\<exists>r. register_value (cmds @ conv_trailer) CnaDataSize0 = Some r
    \<and> apply_setters [CnaDataSize0_datain_width (cv_input_width v), CnaDataSize0_datain_height (in_rows (t_rows t))] 0
      = Done r"
    by (rule written) (simp add: cna_commands_defs)
  moreover have "\<exists>r. register_value (cmds @ conv_trailer) CnaConvCon3 = Some r
    \<and> apply_setters [CnaConvCon3_conv_x_stride (stride s), CnaConvCon3_conv_y_stride (stride s)] 0 = Done r"
    by (rule written) (simp add: cna_commands_defs)
  ultimately show False using assms by (simp add: cna_block_setters setter_steps split: if_splits)
qed

lemma conv_values_input_width:
  "conv_values_of s ks t g placement = Done v \<Longrightarrow> cv_input_width v = col_in_cols (t_columns t)"
  by (auto simp: conv_values_of_def Let_def obind_eq_Done ensure_eq_Done case_prod_beta)

lemma map_tiles_member:
  "map_tiles f ts = Done qs \<Longrightarrow> t \<in> set ts \<Longrightarrow> \<exists>q. f t = Done q"
  by (induction ts arbitrary: qs) (auto simp: obind_eq_Done)

text \<open>
  C38. The planner's limits are not the registers': a plan with a tile whose window is 2048 columns wide
  or more, or whose stride is eight or more, has no program, whatever the settings; the builder ends in
  the assertion of the field that is too narrow.
\<close>

theorem plans_beyond_the_registers_have_no_program:
  assumes "t \<in> set (plan_tiles p)"
    and "2048 \<le> col_in_cols (t_columns t) \<or> 8 \<le> stride (plan_shape p)"
  shows "conv_programs e p \<noteq> Done programs"
proof
  assume "conv_programs e p = Done programs"
  then obtain q where "plan_tile_program e p SharedImage t = Done q"
    using map_tiles_member assms(1) unfolding conv_programs_def by metis
  then obtain g v cmds where "conv_values_of (plan_shape p) (plan_kernels p) t g SharedImage = Done v"
    and "write_all (conv_writes e (plan_shape p) t v g (plan_data_banks p) (plan_weight_banks p)) = Done cmds"
    by (auto simp: plan_tile_program_def conv_2d_tile_program_def obind_eq_Done)
  then show False using unbuildable_writes assms(2) conv_values_input_width by metis
qed

theorem plans_beyond_the_registers_have_no_program_witness:
  "try_new default_policy wide_image unit_kernel = Done wide_plan
    \<and> (\<forall>programs. conv_programs plain_env wide_plan \<noteq> Done programs)"
proof -
  have "\<lparr>t_rows = upper_rows, t_columns = wide_columns\<rparr> \<in> set (plan_tiles wide_plan)"
    by (simp add: wide_plan_def)
  then have "conv_programs plain_env wide_plan \<noteq> Done programs" for programs
    by (rule plans_beyond_the_registers_have_no_program) (simp add: wide_columns_def)
  then show ?thesis using wide_image_planned by blast
qed

end
