(* ===== verification/PlanProperties.thy ===== *)
theory PlanProperties
  imports Samples
begin

text \<open>
  What the convolution planner promises of a plan: a partition of the output, windows that hold
  every tap, tiles the CBUF and the register fields can hold, twelve banks, aligned dense tiles;
  and that it always ends in a plan or a typed refusal.
\<close>

section \<open>The constructors\<close>

lemma try_with_precision_valid:
  assumes "try_with_precision pol w h st cin cout p = Done s"
    and "w < 2 ^ 32" "h < 2 ^ 32" "st < 2 ^ 32" "cin < 2 ^ 32" "cout < 2 ^ 32"
  shows "valid_shape s \<and> padding s = None \<and> activation s = NoActivation \<and> \<not> depthwise s"
proof -
  from assms(1) have
    c: "0 < w \<and> 0 < h" "0 < st" "0 < cin \<and> 0 < cout"
      "p = Int4 \<longrightarrow> cin mod (FEATURE_ATOM_BYTES * 2) = 0"
    and px: "Option.bind (checked_mul32 w h) (\<lambda>pixels. checked_mul32 pixels FEATURE_ATOM_BYTES) \<noteq> None"
    and s: "s = \<lparr>width = w, height = h, stride = st, in_channels = cin, out_channels = cout,
           precision = p, padding = None, activation = NoActivation, depthwise = False\<rparr>"
    unfolding try_with_precision_def refuse_unless_eq_Done outcome.inject by blast+
  from px obtain b where "Option.bind (checked_mul32 w h) (\<lambda>pixels. checked_mul32 pixels FEATURE_ATOM_BYTES) = Some b"
    by (meson not_Some_eq)
  then have "w * h * 16 < 2 ^ 32" by (auto simp: bind_eq_Some_conv FEATURE_ATOM_BYTES_def ac_simps)
  then show ?thesis
    using c assms(2-) by (simp add: s valid_shape_def u32_shape_def FEATURE_ATOM_BYTES_def)
qed

lemma with_setters_valid:
  "valid_shape s \<Longrightarrow> try_with_padding s pads = Done s' \<Longrightarrow> valid_shape s'"
  "valid_shape s \<Longrightarrow> try_with_activation s a = Done s' \<Longrightarrow> valid_shape s'"
  "valid_shape s \<Longrightarrow> try_with_depthwise pol s = Done s' \<Longrightarrow> valid_shape s'"
  by (auto simp: try_with_padding_def try_with_activation_def try_with_depthwise_def
      refuse_unless_eq_Done valid_shape_def u32_shape_def)

text \<open>
  The optional calls on a shape, in any number and order: what each sets, and what each asks of the
  fields that none of them changes.
\<close>

datatype setter = SetPadding padding | SetActivation activation | SetDepthwise

fun with_setter :: "planning_policy \<Rightarrow> setter \<Rightarrow> shape \<Rightarrow> shape plan_result" where
  "with_setter pol (SetPadding pads) s = try_with_padding s pads"
| "with_setter pol (SetActivation a) s = try_with_activation s a"
| "with_setter pol SetDepthwise s = try_with_depthwise pol s"

fun with_setters :: "planning_policy \<Rightarrow> setter list \<Rightarrow> shape \<Rightarrow> shape plan_result" where
  "with_setters pol [] s = Done s"
| "with_setters pol (x # xs) s = obind (with_setter pol x s) (with_setters pol xs)"

fun set_field :: "setter \<Rightarrow> shape \<Rightarrow> shape" where
  "set_field (SetPadding pads) s = s\<lparr>padding := Some pads\<rparr>"
| "set_field (SetActivation a) s = s\<lparr>activation := a\<rparr>"
| "set_field SetDepthwise s = s\<lparr>depthwise := True\<rparr>"

fun allowed :: "planning_policy \<Rightarrow> shape \<Rightarrow> setter \<Rightarrow> bool" where
  "allowed pol s (SetPadding pads) = (fst pads \<le> 15 \<and> snd pads \<le> 15)"
| "allowed pol s (SetActivation a) = (\<not> writes_accumulators (precision s) \<or> a = NoActivation)"
| "allowed pol s SetDepthwise = (in_channels s = out_channels s
     \<and> (in_channels s \<le> MAX_DEPTHWISE_CHANNELS \<or> unbacked_channels_allowed pol)
     \<and> element_bits (precision s) \<in> {8, 16} \<and> \<not> writes_fp32_result (precision s))"

lemma with_setter_iff: "with_setter pol x s = Done s' \<longleftrightarrow> allowed pol s x \<and> s' = set_field x s"
  by (cases x) (auto simp: try_with_padding_def try_with_activation_def try_with_depthwise_def
      refuse_unless_eq_Done)

lemma allowed_set_field [simp]: "allowed pol (set_field x s) = allowed pol s"
  by (rule ext, rename_tac y, case_tac y; cases x) simp_all

lemma with_setters_iff:
  "with_setters pol xs s = Done s' \<longleftrightarrow> (\<forall>x \<in> set xs. allowed pol s x) \<and> s' = fold set_field xs s"
  by (induction xs arbitrary: s) (auto simp: obind_eq_Done with_setter_iff)

lemma set_field_kept:
  "width (fold set_field xs s) = width s" "height (fold set_field xs s) = height s"
  "stride (fold set_field xs s) = stride s" "in_channels (fold set_field xs s) = in_channels s"
  "out_channels (fold set_field xs s) = out_channels s" "precision (fold set_field xs s) = precision s"
proof -
  have "width (set_field x t) = width t \<and> height (set_field x t) = height t \<and> stride (set_field x t) = stride t
    \<and> in_channels (set_field x t) = in_channels t \<and> out_channels (set_field x t) = out_channels t
    \<and> precision (set_field x t) = precision t" for x t
    by (cases x) simp_all
  then show "width (fold set_field xs s) = width s" "height (fold set_field xs s) = height s"
    "stride (fold set_field xs s) = stride s" "in_channels (fold set_field xs s) = in_channels s"
    "out_channels (fold set_field xs s) = out_channels s" "precision (fold set_field xs s) = precision s"
    by (induction xs arbitrary: s) simp_all
qed

lemma set_field_padding:
  "padding (fold set_field xs s) = Some pads \<Longrightarrow> padding s = Some pads \<or> SetPadding pads \<in> set xs"
proof (induction xs arbitrary: s)
  case (Cons x xs)
  then have "padding (set_field x s) = Some pads \<or> SetPadding pads \<in> set xs" by simp
  then show ?case by (cases x) auto
qed simp

lemma set_field_activation:
  "activation (fold set_field xs s) = activation s \<or> SetActivation (activation (fold set_field xs s)) \<in> set xs"
proof (induction xs arbitrary: s)
  case (Cons x xs)
  from Cons.IH [of "set_field x s"] show ?case by (cases x) auto
qed simp

lemma set_field_depthwise: "depthwise (fold set_field xs s) \<longleftrightarrow> depthwise s \<or> SetDepthwise \<in> set xs"
proof (induction xs arbitrary: s)
  case (Cons x xs)
  from Cons.IH [of "set_field x s"] show ?case by (cases x) auto
qed simp

lemma whole_int4_atoms:
  assumes "in_channels s mod 32 = 0" "0 < in_channels s" "in_channels s < 2 ^ 32" "precision s = Int4"
  shows "padded_channels s = in_channels s"
proof -
  obtain n where n: "in_channels s = 32 * n" using assms(1) by (auto simp: mod_eq_0_iff_dvd)
  then have "0 < n" using assms(2) by simp
  then have "feature_atoms s = n" using n assms(4) by (simp add: feature_atoms_def div_ceil_def)
  with n assms(3,4) show ?thesis by (simp add: padded_channels_def)
qed



section \<open>The partition of the output\<close>

lemma grid_covers:
  assumes ok: "plan_grid_ok s ks k b p"
  shows "length (filter (covers r c) (plan_tiles p)) = (if r < out_h s k \<and> c < out_w s k then 1 else 0)"
proof -
  have "filter (covers r c) (plan_tiles p) = []" if "\<not> (r < out_h s k \<and> c < out_w s k)"
    unfolding filter_empty_conv
  proof (rule ballI)
    fix t
    assume "t \<in> set (plan_tiles p)"
    from plan_tile(4,7) [OF ok this] that show "\<not> covers r c t"
      by (auto simp: covers_def row_of_tile_def column_of_tile_def)
  qed
  with plan_covers_once [OF ok] show ?thesis by simp
qed

text \<open>
  C2 (correctness of tiling): the tiles of a plan partition the output image. Every output
  pixel lies in exactly one tile of \<open>try_new\<close>'s plan, and no tile reaches outside.
\<close>

theorem plan_tiles_partition_output:
  assumes v: "valid_shape s" and p: "try_new pol s ks = Done p"
    and h: "output_height s ks = Done oh" and w: "output_width s ks = Done ow"
  shows "length (filter (covers r c) (plan_tiles p)) = (if r < oh \<and> c < ow then 1 else 0)"
proof -
  obtain k b where ok: "plan_grid_ok s ks k b p" and "output_width s ks = Done (out_w s k)"
    and "output_height s ks = Done (out_h s k)"
    using try_new_grid [OF v p] by metis
  with h w grid_covers [OF ok] show ?thesis by simp
qed

theorem plan_tiles_partition_output_witness:
  "length (filter (covers 6 3) (plan_tiles pointwise_plan)) = 1"
  using plan_tiles_partition_output [OF pointwise_valid pointwise_planned pointwise_extents(2,1)]
  by simp

text \<open>
  C3 (halo): whatever tap of the kernel an output pixel of a tile reads, if the tap falls
  inside the image then it is inside the input window the tile is given, and the window is
  nonempty and lies inside the image. The tap position is that of a strided, zero-padded
  convolution.
\<close>

theorem tile_window_holds_every_tap:
  assumes v: "valid_shape s" and p: "try_new pol s ks = Done p"
    and k: "try_kernel_programming s ks = Done k"
    and t: "t \<in> set (plan_tiles p)" and px: "covers r c t"
    and tap: "dy < k_height k" "dx < k_width k"
    and y: "r * stride s + dy = y + k_pad_top k" "y < height s"
    and x: "c * stride s + dx = x + k_pad_left k" "x < width s"
  shows "in_first (t_rows t) \<le> y \<and> y < in_first (t_rows t) + in_rows (t_rows t)
    \<and> in_first (t_rows t) + in_rows (t_rows t) \<le> height s
    \<and> col_in_first (t_columns t) \<le> x \<and> x < col_in_first (t_columns t) + col_in_cols (t_columns t)
    \<and> col_in_first (t_columns t) + col_in_cols (t_columns t) \<le> width s"
proof -
  obtain k' b where g: "geometry s ks k'" and ok: "plan_grid_ok s ks k' b p"
    using try_new_grid [OF v p] by metis
  with k have "k' = k" by (simp add: geometry_def)
  note g = g [unfolded this] and ok = ok [unfolded this]
  note tile = plan_tile [OF ok t]
  have r: "out_first (t_rows t) \<le> r" "r < out_first (t_rows t) + out_rows (t_rows t)"
    and c: "col_out_first (t_columns t) \<le> c" "c < col_out_first (t_columns t) + col_out_cols (t_columns t)"
    using px by (simp_all add: covers_def row_of_tile_def column_of_tile_def)
  show ?thesis
    using tile_window(2) [OF g tile(3,4)] tile_window(4) [OF g tile(3,4) r tap(1) y]
      column_window(2) [OF g tile(6,7)] column_window(4) [OF g tile(6,7) c tap(2) x]
    unfolding tile(2) [symmetric] tile(5) [symmetric] by blast
qed

theorem tile_window_holds_every_tap_witness:
  "\<exists>t \<in> set (plan_tiles pointwise_plan). covers 6 3 t \<and> in_first (t_rows t) \<le> 6
     \<and> 6 < in_first (t_rows t) + in_rows (t_rows t)"
proof -
  let ?t = "\<lparr>t_rows = \<lparr>out_first = 5, out_rows = 3, in_first = 5, in_rows = 3, pad_top = 0\<rparr>,
         t_columns = pointwise_columns\<rparr>"
  have t: "?t \<in> set (plan_tiles pointwise_plan)" by (simp add: pointwise_plan_def)
  have c: "covers 6 3 ?t"
    by (simp add: covers_def row_of_tile_def column_of_tile_def pointwise_columns_def)
  from tile_window_holds_every_tap [OF pointwise_valid pointwise_planned pointwise_weights(1) t c,
      of 0 0 6 3]
  show ?thesis using t c by (intro bexI [of _ ?t]) simp_all
qed

section \<open>Fitting the hardware\<close>

text \<open>
  C4 (bounds): every tile of a plan is resident in the data banks the plan grants: its rows
  times the bytes the CBUF charges per row fit the granted banks, its entries fit the entry
  counter (0x7fff), its width the slab limit, and its rows plus kernel plus padding the grain
  counter (0x3ff). The demand is computed with exact arithmetic, so none of the planner's
  32-bit computations on the way wrapped.
\<close>

theorem plan_tiles_are_resident:
  assumes v: "valid_shape s" and p: "try_new pol s ks = Done p"
    and k: "try_kernel_programming s ks = Done k" and t: "t \<in> set (plan_tiles p)"
  shows "tile_resident s k (plan_data_banks p) t"
proof -
  obtain k' b where g: "geometry s ks k'" and ok: "plan_grid_ok s ks k' b p"
    using try_new_grid [OF v p] by metis
  with k have "k' = k" by (simp add: geometry_def)
  with plan_tile(1) [OF ok t] show ?thesis by simp
qed

theorem plan_tiles_are_resident_witness:
  "\<exists>t \<in> set (plan_tiles pointwise_plan). tile_resident pointwise pointwise_kernel 10 t"
proof -
  let ?t = "\<lparr>t_rows = \<lparr>out_first = 0, out_rows = 5, in_first = 0, in_rows = 5, pad_top = 0\<rparr>,
         t_columns = pointwise_columns\<rparr>"
  have t: "?t \<in> set (plan_tiles pointwise_plan)" by (simp add: pointwise_plan_def)
  have "plan_data_banks pointwise_plan = 10" by (simp add: pointwise_plan_def)
  with plan_tiles_are_resident [OF pointwise_valid pointwise_planned pointwise_weights(1) t] t
  show ?thesis by auto
qed

text \<open>
  The two bank counts of a plan are positive and add up to the twelve banks of
  the CBUF, whichever of the partition rules chose them.
\<close>

theorem plan_banks_partition_cbuf:
  assumes v: "valid_shape s" and p: "try_new pol s ks = Done p"
  shows "1 \<le> plan_data_banks p \<and> 1 \<le> plan_weight_banks p
    \<and> plan_data_banks p + plan_weight_banks p = CBUF_BANKS"
  using try_new_grid [OF v p] by (metis CBUF_BANKS_def banks_ok_def plan_grid_ok_def)

theorem plan_banks_partition_cbuf_witness:
  "plan_data_banks pointwise_plan + plan_weight_banks pointwise_plan = CBUF_BANKS"
  using plan_banks_partition_cbuf [OF pointwise_valid pointwise_planned] by simp

text \<open>
  When a plan cuts a dense (compact NHWC) column into more than one row tile,
  every tile of it starts on a 16-byte feature atom, which is where the DMA engine's
  leading-pixel defect does not strike.
\<close>

theorem dense_tiles_start_on_atoms:
  assumes v: "valid_shape s" and p: "try_new pol s ks = Done p" and l: "layout s = Dense"
    and t: "t \<in> set (plan_tiles p)" and u: "u \<in> set (plan_tiles p)"
    and other: "t_columns u = t_columns t" "t_rows u \<noteq> t_rows t"
    and row: "input_row_stride s = Done row"
  shows "16 dvd wrap32 (in_first (t_rows t) * row)"
proof -
  obtain k b where ok: "plan_grid_ok s ks k b p" using try_new_grid [OF v p] by metis
  from ok obtain cs where cs: "col_chain s k 0 cs (out_w s k)"
    and grid: "grid_over s k (fst b) cs (plan_tiles p)"
    by (auto simp: plan_grid_ok_def)
  have "dense_feature_offset_safe s (in_first (t_rows t)) = Done True"
    by (rule grid_over_aligned [OF cs grid l t u other])
  with row l show ?thesis
    by (auto simp: dense_feature_offset_safe_def FEATURE_ATOM_BYTES_def)
qed

theorem dense_tiles_start_on_atoms_witness:
  "16 dvd wrap32 (in_first (t_rows \<lparr>t_rows = lower_rows, t_columns = wide_columns\<rparr>) * 32768)"
  by (rule dense_tiles_start_on_atoms [OF wide_image_valid wide_image_planned wide_image_channels(1),
        of _ "\<lparr>t_rows = upper_rows, t_columns = wide_columns\<rparr>"])
     (simp_all add: wide_plan_def lower_rows_def upper_rows_def wide_image_channels)

section \<open>Totality\<close>

text \<open>
  C7 (liveness): on a valid shape whose input row is addressable the planner ends, and it ends
  in a plan or a typed refusal: no assertion, division by zero or out-of-range index in any
  branch of the partition rules, the tile cutting, the realignment or the column search.
\<close>

theorem planner_never_panics:
  assumes "valid_shape s" and "row_addressable s"
  shows "(\<exists>p. try_new pol s ks = Done p) \<or> (\<exists>e. try_new pol s ks = Refused e)"
  using try_new_total [OF assms, of pol ks] by (cases "try_new pol s ks") auto

theorem planner_never_panics_witness:
  "(\<exists>p. try_new default_policy pointwise (7, 5) = Done p)
   \<or> (\<exists>e. try_new default_policy pointwise (7, 5) = Refused e)"
  using planner_never_panics [OF pointwise_valid, of default_policy "(7, 5)"]
  by (simp add: row_addressable_def pointwise_channels)

text \<open>
  C8 (error): the bound of C7 is sharp. A shape the constructor accepts, one row of 2^26 pixels
  and 32 channels, makes the capacity computation's 32-bit row size wrap to zero, and planning
  it divides by zero instead of refusing.
\<close>

theorem planner_panics_past_the_bound:
  "try_with_precision default_policy 67108864 1 1 32 8 Fp16 = Done wide_row
   \<and> try_new default_policy wide_row (1, 1) = Panicked"
proof
  show "try_with_precision default_policy 67108864 1 1 32 8 Fp16 = Done wide_row"
    by (simp add: try_with_precision_def hw_consts checked_mul32_def wide_row_def)
next
  have "try_kernel_programming wide_row unit_kernel = Done pointwise_kernel"
    using wide_row_geometry by (simp add: geometry_def)
  then have "try_new default_policy wide_row unit_kernel = Panicked"
    by (simp add: try_new_def check_extents_against_def try_weight_bytes_def wide_row_channels
        square_cbuf_partition_def wide_row_partition)
  then show "try_new default_policy wide_row (1, 1) = Panicked" by (simp add: unit_kernel_def)
qed

section \<open>The accumulator scratch\<close>

text \<open>
  C9 (refinement of the allocation): on every plan of an accumulator shape the staged layout is
  an exact partition of the scratch buffer the shape allocates. The entries follow the plan's
  tiles, each starts where its predecessor ends and holds its tile's area times the padded bytes
  of a pixel, and the last one ends at the allocated size; the internal consistency check can
  never fire, and the only refusal is that of a total that exceeds 64 bits.
\<close>

theorem accumulator_layout_partitions_scratch:
  assumes v: "valid_shape s" and p: "try_new pol s ks = Done p"
    and acc: "writes_accumulators (precision s)"
  shows "(\<exists>L. accumulator_output_layout_of p = Done L
            \<and> entries_of (accumulator_pixel s) 0 (acc_tiles L) (plan_tiles p) (acc_scratch_bytes L)
            \<and> output_scratch_bytes s ks = Done (acc_scratch_bytes L))
    \<or> accumulator_output_layout_of p = Refused InvalidShape"
  by (rule accumulator_layout_exact [OF v p acc])

theorem accumulator_layout_partitions_scratch_witness:
  "\<exists>L. accumulator_output_layout_of matmul_plan = Done L \<and> acc_scratch_bytes L = 2048"
proof -
  have pad: "padded_out_channels matmul = 32" "output_atom_bytes matmul = 16"
    by (simp_all add: padded_out_channels_def shape_granule_def precision_granule_def
        next_multiple_of_def output_atom_bytes_def output_channel_block_bytes_def
        FEATURE_ATOM_BYTES_def)
  have px: "div_ceil 128 16 = (8::nat)" by (simp add: div_ceil_def)
  from accumulator_layout_partitions_scratch [OF matmul_valid matmul_planned]
  consider L where "accumulator_output_layout_of matmul_plan = Done L"
      "output_scratch_bytes matmul unit_kernel = Done (acc_scratch_bytes L)"
    | "accumulator_output_layout_of matmul_plan = Refused InvalidShape"
    by auto
  then show ?thesis
  proof cases
    case 1
    then show ?thesis
      by (auto simp: output_scratch_bytes_def matmul_extents pad px Let_def)
  next
    case 2
    then show ?thesis
      by (simp add: accumulator_output_layout_of_def matmul_plan_def matmul_tile_def pad px Let_def
          output_scratch_bytes_def matmul_extents checked_mul64_def checked_add64_def)
  qed
qed

section \<open>Explicit bank counts\<close>

text \<open>
  A plan made against an explicit CBUF split has the same guarantees: the
  split is used as given and sums to the twelve banks without wrap-around, the tiles partition
  the output, and each is resident in the data banks granted.
\<close>

theorem explicit_banks_plan_is_exact:
  assumes v: "valid_shape s" and u32: "d < 2 ^ 32" "w < 2 ^ 32"
    and p: "try_with_cbuf_banks s ks d w = Done p"
    and k: "try_kernel_programming s ks = Done k"
    and hw: "output_height s ks = Done oh" "output_width s ks = Done ow"
    and px: "r < oh" "c < ow"
  shows "d + w = 12 \<and> plan_data_banks p = d \<and> plan_weight_banks p = w
    \<and> length (filter (covers r c) (plan_tiles p)) = 1
    \<and> (\<forall>t \<in> set (plan_tiles p). tile_resident s k d t)"
proof -
  obtain k' where g: "geometry s ks k'" and b: "banks_ok (d, w)" and ok: "plan_grid_ok s ks k' (d, w) p"
    and e: "output_width s ks = Done (out_w s k')" "output_height s ks = Done (out_h s k')"
    by (rule try_with_cbuf_banks_grid [OF v p u32])
  from g k have "k' = k" by (simp add: geometry_def)
  with plan_tile(1) [OF ok] plan_covers_once [OF ok] b ok e hw px show ?thesis
    by (simp add: banks_ok_def plan_grid_ok_def)
qed

theorem explicit_banks_plan_is_exact_witness:
  "\<exists>p. try_with_cbuf_banks wide_image unit_kernel 11 1 = Done p \<and> plan_data_banks p = 11
     \<and> length (filter (covers 3 4095) (plan_tiles p)) = 1"
proof -
  have k: "try_kernel_programming wide_image unit_kernel = Done pointwise_kernel"
    using wide_image_geometry by (simp add: geometry_def)
  have "try_new default_policy wide_image unit_kernel = new_with_cbuf_partition wide_image unit_kernel (11, 1)"
    using k by (simp add: try_new_def check_extents_against_def try_weight_bytes_def wide_image_channels
        square_cbuf_partition_def wide_image_partition)
  then have p: "try_with_cbuf_banks wide_image unit_kernel 11 1 = Done wide_plan"
    using k wide_image_planned
    by (simp add: try_with_cbuf_banks_def check_extents_against_def try_weight_bytes_def
        wide_image_channels CBUF_BANKS_def)
  from explicit_banks_plan_is_exact [OF wide_image_valid _ _ p k wide_image_extents(2,1), of 3 4095] p
  show ?thesis by auto
qed

end
