(* ===== verification/SlotWrites.thy ===== *)
theory SlotWrites
  imports Prelude
begin

text \<open>
  The interface every packer of this program meets: a family of slots, each with a place and an
  extent in a buffer, no two overlapping. Writing the slots in any order, each its own value,
  leaves every slot holding its value and everything outside untouched. The tensor and weight
  packers interpret it with their own address computations.
\<close>

section \<open>Writing slots\<close>

fun write_slots :: "('k \<Rightarrow> nat) \<Rightarrow> ('k \<Rightarrow> 'a list) \<Rightarrow> 'k list \<Rightarrow> 'a list \<Rightarrow> 'a list" where
  "write_slots place val [] xs = xs"
| "write_slots place val (k # ks) xs = write_slots place val ks (overwrite xs (place k) (val k))"

lemma write_slots_append:
  "write_slots place val (ks @ ls) xs = write_slots place val ls (write_slots place val ks xs)"
  by (induction ks arbitrary: xs) simp_all

lemma length_write_slots:
  "\<forall>k \<in> set ks. place k + length (val k) \<le> length xs \<Longrightarrow>
   length (write_slots place val ks xs) = length xs"
  by (induction ks arbitrary: xs) simp_all

lemma write_slots_outside:
  "\<forall>k \<in> set ks. place k + length (val k) \<le> length xs \<Longrightarrow> i < length xs \<Longrightarrow>
   \<forall>k \<in> set ks. \<not> (place k \<le> i \<and> i < place k + length (val k)) \<Longrightarrow>
   write_slots place val ks xs ! i = xs ! i"
  by (induction ks arbitrary: xs) (auto simp add: nth_overwrite)

lemma write_slots_cong:
  "\<forall>k \<in> set ks. place k = place' k \<and> val k = val' k \<Longrightarrow>
   write_slots place val ks xs = write_slots place' val' ks xs"
  by (induction ks arbitrary: xs) simp_all

section \<open>The interface\<close>

locale placement =
  fixes place :: "'k \<Rightarrow> nat" and extent :: "'k \<Rightarrow> nat" and slots :: "'k set"
  assumes disjoint:
    "k \<in> slots \<Longrightarrow> l \<in> slots \<Longrightarrow> place k \<le> i \<Longrightarrow> i < place k + extent k \<Longrightarrow>
     place l \<le> i \<Longrightarrow> i < place l + extent l \<Longrightarrow> k = l"
begin

lemma written:
  assumes "set ks \<subseteq> slots"
    and "\<forall>k \<in> set ks. length (val k) = extent k \<and> place k + extent k \<le> length xs"
    and "k \<in> set ks" and "j < extent k"
  shows "write_slots place val ks xs ! (place k + j) = val k ! j"
  using assms
proof (induction ks arbitrary: xs)
  case Nil
  then show ?case by simp
next
  case (Cons l ks)
  let ?ys = "overwrite xs (place l) (val l)"
  have l: "length (val l) = extent l" "place l + extent l \<le> length xs" using Cons.prems(2) by simp_all
  then have len: "length ?ys = length xs" by simp
  have rest: "\<forall>k \<in> set ks. length (val k) = extent k \<and> place k + extent k \<le> length ?ys"
    using Cons.prems(2) len by simp
  show ?case
  proof (cases "k \<in> set ks")
    case True
    with Cons.IH [of ?ys] Cons.prems(1,4) rest show ?thesis by simp
  next
    case False
    with Cons.prems(3) have k: "k = l" by simp
    let ?i = "place k + j"
    have apart: "\<forall>m \<in> set ks. \<not> (place m \<le> ?i \<and> ?i < place m + length (val m))"
    proof
      fix m
      assume m: "m \<in> set ks"
      show "\<not> (place m \<le> ?i \<and> ?i < place m + length (val m))"
      proof
        assume "place m \<le> ?i \<and> ?i < place m + length (val m)"
        then have "m = k"
          using m rest Cons.prems(1,3,4) by (intro disjoint [of m k ?i]) auto
        with m False show False by simp
      qed
    qed
    have "write_slots place val ks ?ys ! ?i = ?ys ! ?i"
      using rest l k Cons.prems(4) apart len by (intro write_slots_outside) auto
    also have "\<dots> = val k ! j"
      using l k Cons.prems(4) by (simp add: nth_overwrite)
    finally show ?thesis by simp
  qed
qed

lemma untouched:
  assumes "\<forall>k \<in> set ks. length (val k) = extent k \<and> place k + extent k \<le> length xs"
    and "i < length xs" and "\<forall>k \<in> set ks. \<not> (place k \<le> i \<and> i < place k + extent k)"
  shows "write_slots place val ks xs ! i = xs ! i"
  using assms by (intro write_slots_outside) auto

text \<open>Two buffers that agree on every slot and outside are equal after the same writes.\<close>

lemma determined:
  assumes "set ks \<subseteq> slots"
    and "\<forall>k \<in> set ks. length (val k) = extent k \<and> place k + extent k \<le> length xs"
    and "length ys = length xs"
    and "\<And>k j. k \<in> set ks \<Longrightarrow> j < extent k \<Longrightarrow> ys ! (place k + j) = val k ! j"
    and "\<And>i. i < length xs \<Longrightarrow> \<forall>k \<in> set ks. \<not> (place k \<le> i \<and> i < place k + extent k) \<Longrightarrow>
           ys ! i = xs ! i"
  shows "write_slots place val ks xs = ys"
proof (rule nth_equalityI)
  show len: "length (write_slots place val ks xs) = length ys"
    using assms(2,3) by (simp add: length_write_slots)
  fix i
  assume "i < length (write_slots place val ks xs)"
  then have i: "i < length xs" using len assms(3) by simp
  show "write_slots place val ks xs ! i = ys ! i"
  proof (cases "\<exists>k \<in> set ks. place k \<le> i \<and> i < place k + extent k")
    case True
    then obtain k where k: "k \<in> set ks" "place k \<le> i" "i < place k + extent k" by blast
    then obtain j where j: "i = place k + j" "j < extent k" by (metis le_iff_add nat_add_left_cancel_less)
    show ?thesis using written [OF assms(1,2) k(1) j(2)] assms(4) [OF k(1) j(2)] j by simp
  next
    case False
    then show ?thesis using untouched [OF assms(2) i] assms(5) [OF i] by simp
  qed
qed

end

section \<open>Loops that may return early\<close>

text \<open>
  A loop body that answers whether the enclosing function returned; the flag stops the loop.
\<close>

fun until_stopped :: "'i list \<Rightarrow> ('i \<Rightarrow> 's \<Rightarrow> ('e, bool \<times> 's) outcome) \<Rightarrow> 's \<Rightarrow> ('e, bool \<times> 's) outcome"
where
  "until_stopped [] body s = Done (False, s)"
| "until_stopped (i # is) body s =
     obind (body i s) (\<lambda>(stop, t). if stop then Done (True, t) else until_stopped is body t)"

text \<open>When every body writes its own slots and goes on, the loop writes all of them.\<close>

lemma until_stopped_slots:
  assumes "\<And>i w xs. i \<in> set is \<Longrightarrow> length xs = n \<Longrightarrow>
      body i (xs, w) = Done (False, (write_slots place val (ks i) xs, w + inc i))"
    and "\<forall>i \<in> set is. \<forall>k \<in> set (ks i). place k + length (val k) \<le> n"
    and "length xs = n"
  shows "until_stopped is body (xs, w) =
    Done (False, (write_slots place val (concat (map ks is)) xs, w + sum_list (map inc is)))"
  using assms
proof (induction "is" arbitrary: xs w)
  case Nil
  then show ?case by simp
next
  case (Cons i rest)
  let ?ys = "write_slots place val (ks i) xs"
  have "length ?ys = n" using Cons.prems(2,3) by (simp add: length_write_slots)
  then have "until_stopped rest body (?ys, w + inc i) =
      Done (False, (write_slots place val (concat (map ks rest)) ?ys,
                    w + inc i + sum_list (map inc rest)))"
    using Cons.prems by (intro Cons.IH) simp_all
  moreover have "body i (xs, w) = Done (False, (?ys, w + inc i))"
    using Cons.prems(1) [of i xs w] Cons.prems(3) by simp
  ultimately show ?case by (simp add: write_slots_append add.assoc)
qed

end
