(* ===== verification/CubeLayout.thy ===== *)
theory CubeLayout
  imports ConvShape
begin

text \<open>
  The feature-cube layout contract (\<open>rocket-core/src/layout.rs\<close>): the geometry of an NC1HWC2
  cube, the identity under which one dispatch reads another's cube in place, and the layout word
  of a dispatch.
\<close>

unbundle bit_operations_syntax

section \<open>Cube geometry\<close>

datatype cube_kind = Conv | Matmul | Pooling | Elementwise

fun is_ppu :: "cube_kind \<Rightarrow> bool" where
  "is_ppu Pooling = True"
| "is_ppu kind = False"

record cube =
  pixel_count :: nat
  surface_pixel_count :: nat
  bytes_per_pixel :: nat
  packed_bytes_per_pixel :: nat

datatype chain_refusal =
    PartialAtom nat
  | ConsumerPadsChannels nat nat
  | PixelCount nat nat
  | SurfaceStride nat nat
  | PixelWidth nat nat

definition is_whole_atom :: "cube \<Rightarrow> bool" where
  "is_whole_atom g \<longleftrightarrow> bytes_per_pixel g \<noteq> 0 \<and> bytes_per_pixel g mod FEATURE_ATOM_BYTES = 0"

definition is_exact :: "cube \<Rightarrow> bool" where
  "is_exact g \<longleftrightarrow> is_whole_atom g \<and> packed_bytes_per_pixel g = bytes_per_pixel g"

definition packed_surfaces :: "cube \<Rightarrow> nat" where
  "packed_surfaces g = div_ceil (packed_bytes_per_pixel g) FEATURE_ATOM_BYTES"

definition storage_bytes :: "cube \<Rightarrow> nat plan_result" where
  "storage_bytes g =
     ok_or (Option.bind (checked_mul64 (surface_pixel_count g) (packed_surfaces g))
              (\<lambda>v. checked_mul64 v FEATURE_ATOM_BYTES)) HardwareLimit"

definition dense_bytes :: "cube \<Rightarrow> nat plan_result" where
  "dense_bytes g = ok_or (checked_mul64 (pixel_count g) (bytes_per_pixel g)) HardwareLimit"

definition can_chain :: "cube \<Rightarrow> (chain_refusal, unit) outcome" where
  "can_chain g =
     refuse_unless (is_whole_atom g) (PartialAtom (bytes_per_pixel g)) (
     refuse_unless (packed_bytes_per_pixel g = bytes_per_pixel g)
       (ConsumerPadsChannels (bytes_per_pixel g) (packed_bytes_per_pixel g)) (Done ()))"

definition lanes_per_atom :: "nat \<Rightarrow> nat" where
  "lanes_per_atom element = FEATURE_ATOM_BYTES div max element 1"

definition packed_channels :: "cube_kind \<Rightarrow> nat \<Rightarrow> nat \<Rightarrow> nat option" where
  "packed_channels kind element channels =
     (if is_ppu kind then checked_next_multiple_of32 channels (lanes_per_atom element)
      else checked_next_multiple_of32 (max channels 16) 16)"

definition cube_geometry :: "cube_kind \<Rightarrow> nat \<Rightarrow> nat \<Rightarrow> nat \<Rightarrow> nat \<Rightarrow> cube plan_result" where
  "cube_geometry kind element w h channels =
     (if element = 0 \<or> FEATURE_ATOM_BYTES mod element \<noteq> 0 then Refused InvalidShape
      else if w = 0 \<or> h = 0 \<or> channels = 0 then Refused InvalidShape
      else
        obind (ok_or (checked_mul64 w h) HardwareLimit) (\<lambda>pixels.
        obind (if is_ppu kind then ok_or (checked_next_multiple_of64 pixels 4) HardwareLimit
               else Done pixels) (\<lambda>surface_pixels.
        obind (ok_or (checked_mul64 channels element) HardwareLimit) (\<lambda>bpp.
        obind (ok_or (Option.bind (packed_channels kind element channels)
                        (\<lambda>lanes. checked_mul64 lanes element)) HardwareLimit) (\<lambda>packed_bpp.
        Done \<lparr>pixel_count = pixels, surface_pixel_count = surface_pixels,
              bytes_per_pixel = bpp, packed_bytes_per_pixel = packed_bpp\<rparr>)))))"

section \<open>Chaining\<close>

definition chain_identity :: "cube \<Rightarrow> cube \<Rightarrow> (chain_refusal, unit) outcome" where
  "chain_identity producer consumer =
     obind (can_chain consumer) (\<lambda>_.
     refuse_unless (pixel_count producer = pixel_count consumer)
       (PixelCount (pixel_count producer) (pixel_count consumer)) (
     refuse_unless (surface_pixel_count producer = surface_pixel_count consumer)
       (SurfaceStride (surface_pixel_count producer) (surface_pixel_count consumer)) (
     refuse_unless (bytes_per_pixel producer = bytes_per_pixel consumer)
       (PixelWidth (bytes_per_pixel producer) (bytes_per_pixel consumer)) (Done ()))))"

section \<open>The cubes of a convolution\<close>

fun result_ok :: "('e, 'a) outcome \<Rightarrow> ('f, 'a option) outcome" where
  "result_ok (Done x) = Done (Some x)"
| "result_ok (Refused e) = Done None"
| "result_ok Panicked = Panicked"

definition input_cube_geometry :: "shape \<Rightarrow> cube option plan_result" where
  "input_cube_geometry s =
     (if layout s = Dense \<or> element_bits (precision s) mod 8 \<noteq> 0 then Done None
      else obind (element_bytes (precision s)) (\<lambda>b.
           result_ok (cube_geometry Conv b (width s) (height s) (in_channels s))))"

definition output_cube_geometry :: "shape \<Rightarrow> kernels \<Rightarrow> cube option plan_result" where
  "output_cube_geometry s ks =
     (if output_atom_bytes s \<noteq> FEATURE_ATOM_BYTES then Done None
      else obind (output_width s ks) (\<lambda>w.
           obind (output_height s ks) (\<lambda>h.
           result_ok (cube_geometry Conv (output_element_bytes (precision s)) w h (out_channels s)))))"

section \<open>The layout word\<close>

record dispatch_layout =
  packed_inputs :: "16 word"
  packed_readers :: "16 word"

definition READERS_SHIFT :: nat where "READERS_SHIFT = 16"

definition from_word :: "32 word \<Rightarrow> dispatch_layout" where
  "from_word w = \<lparr>packed_inputs = ucast (w AND 0xFFFF), packed_readers = ucast (drop_bit READERS_SHIFT w)\<rparr>"

definition to_word :: "dispatch_layout \<Rightarrow> 32 word" where
  "to_word l = ucast (packed_inputs l) OR push_bit READERS_SHIFT (ucast (packed_readers l))"

definition input_packed :: "dispatch_layout \<Rightarrow> nat \<Rightarrow> bool" where
  "input_packed l index \<longleftrightarrow> index < 16 \<and> packed_inputs l AND push_bit index 1 \<noteq> 0"

section \<open>Facts\<close>

lemma cube_geometry_Done:
  assumes "cube_geometry kind element w h channels = Done g"
  shows "0 < element" "element dvd 16" "0 < w" "0 < h" "0 < channels"
    "pixel_count g = w * h"
    "surface_pixel_count g = (if is_ppu kind then next_multiple_of (w * h) 4 else w * h)"
    "bytes_per_pixel g = channels * element"
    "packed_bytes_per_pixel g =
       (if is_ppu kind then next_multiple_of channels (16 div element)
        else next_multiple_of (max channels 16) 16) * element"
    "w * h < 2 ^ 64" "channels * element < 2 ^ 64"
proof -
  have e: "element \<noteq> 0" "16 mod element = 0" and z: "w \<noteq> 0" "h \<noteq> 0" "channels \<noteq> 0"
    using assms by (simp_all add: cube_geometry_def FEATURE_ATOM_BYTES_def split: if_splits)
  from assms e z obtain pixels surface bpp lanes packed where
    pixels: "checked_mul64 w h = Some pixels"
    and surface: "(if is_ppu kind then ok_or (checked_next_multiple_of64 pixels 4) HardwareLimit
               else Done pixels) = Done surface"
    and bpp: "checked_mul64 channels element = Some bpp"
    and packed: "Option.bind (packed_channels kind element channels)
                        (\<lambda>lanes. checked_mul64 lanes element) = Some packed"
    and g: "g = \<lparr>pixel_count = pixels, surface_pixel_count = surface,
              bytes_per_pixel = bpp, packed_bytes_per_pixel = packed\<rparr>"
    by (simp add: cube_geometry_def FEATURE_ATOM_BYTES_def ok_or_eq_Done obind_eq_Done) metis
  show "0 < element" "element dvd 16" "0 < w" "0 < h" "0 < channels"
    using e z by (simp_all add: dvd_eq_mod_eq_0)
  show "pixel_count g = w * h" "bytes_per_pixel g = channels * element" "w * h < 2 ^ 64"
    "channels * element < 2 ^ 64"
    using pixels bpp by (simp_all add: g)
  show "surface_pixel_count g = (if is_ppu kind then next_multiple_of (w * h) 4 else w * h)"
    using surface pixels
    by (simp add: g ok_or_eq_Done checked_next_multiple_of64_def Let_def split: if_splits)
  from packed obtain lanes where lanes: "packed_channels kind element channels = Some lanes"
    "packed = lanes * element" by (auto simp: bind_eq_Some_conv)
  have "max element 1 = element" using e by simp
  with lanes show "packed_bytes_per_pixel g =
       (if is_ppu kind then next_multiple_of channels (16 div element)
        else next_multiple_of (max channels 16) 16) * element"
    by (simp add: g packed_channels_def lanes_per_atom_def checked_next_multiple_of32_def
        FEATURE_ATOM_BYTES_def Let_def split: if_splits)
qed

lemma bit_low16: "bit (65535 :: int) n \<longleftrightarrow> n < 16"
proof -
  have "(65535 :: int) = mask 16" by (simp add: mask_eq_exp_minus_1)
  then show ?thesis by (simp only: bit_mask_iff) simp
qed

lemma bit_to_word:
  "bit (to_word l) n \<longleftrightarrow> (if n < 16 then bit (packed_inputs l) n
                            else n < 32 \<and> bit (packed_readers l) (n - 16))"
  by (auto simp: to_word_def READERS_SHIFT_def bit_or_iff bit_push_bit_iff bit_ucast_iff
      dest: bit_imp_le_length)

lemma from_to_word: "from_word (to_word l) = l"
proof -
  have "packed_inputs (from_word (to_word l)) = packed_inputs l"
    by (rule bit_word_eqI)
       (simp add: from_word_def bit_ucast_iff bit_and_iff bit_to_word bit_low16)
  moreover have "packed_readers (from_word (to_word l)) = packed_readers l"
    by (rule bit_word_eqI)
       (simp add: from_word_def READERS_SHIFT_def bit_ucast_iff bit_drop_bit_eq bit_to_word)
  ultimately show ?thesis by simp
qed

lemma to_from_word: "to_word (from_word w) = w"
  by (rule bit_word_eqI)
     (auto simp: bit_to_word from_word_def READERS_SHIFT_def bit_ucast_iff bit_and_iff
        bit_drop_bit_eq bit_low16
        dest: bit_imp_le_length)

end
