(* ===== verification/TensorLayout.thy ===== *)
theory TensorLayout
  imports SlotWrites CubeLayout ConvPlan
begin

text \<open>
  Host transforms between dense NHWC bytes and NC1HWC2 feature surfaces
  (\<open>iree-rocket-hal/src/rocket/tensor_layout.rs\<close>). The packers check every product before they
  use it, so their offsets are exact; the compactors take unchecked sizes, and their offsets are
  64-bit.
\<close>

type_synonym 'a layout_result = "(string, 'a) outcome"

definition FEATURE_ATOMIC_BYTES :: nat where "FEATURE_ATOMIC_BYTES = 16"

section \<open>The fp16 bias stream\<close>

definition rocket_fp16_bias_storage_size :: "nat \<Rightarrow> nat layout_result" where
  "rocket_fp16_bias_storage_size padded =
     (if padded = 0 then Refused ''Rocket FP16 bias channel count must be nonzero''
      else ok_or (checked_mul64 padded 4) ''Rocket FP16 bias storage size overflows usize'')"

text \<open>The normalisation loop of a subnormal: shift left until bit 10 is set.\<close>

function normalize_subnormal :: "32 word \<Rightarrow> int \<Rightarrow> nat \<Rightarrow> 32 word \<times> int" where
  "normalize_subnormal n e fuel =
     (if n AND 0x0400 = 0 \<and> 0 < fuel then normalize_subnormal (push_bit 1 n) (e - 1) (fuel - 1)
      else (n, e))"
  by pat_completeness auto
termination
  by (relation "measure (\<lambda>(n, e, fuel). fuel)") auto

declare normalize_subnormal.simps [simp del]

definition fp16_to_fp32_bits :: "16 word \<Rightarrow> 32 word" where
  "fp16_to_fp32_bits v =
     (let sign = push_bit 16 (ucast v AND 0x8000 :: 32 word);
          exponent = drop_bit 10 v AND 0x1f;
          fraction = v AND 0x03ff
      in if exponent = 0 \<and> fraction = 0 then sign
         else if exponent = 0 then
           (let (normalized, e) = normalize_subnormal (ucast fraction) (-14) 10
            in sign OR push_bit 23 (of_int (e + 127)) OR push_bit 13 (normalized AND 0x03ff))
         else if exponent = 0x1f then sign OR 0x7f800000 OR push_bit 13 (ucast fraction)
         else sign OR push_bit 23 (ucast exponent + (127 - 15)) OR push_bit 13 (ucast fraction))"

definition le16 :: "byte \<Rightarrow> byte \<Rightarrow> 16 word" where
  "le16 lo hi = ucast lo OR push_bit 8 (ucast hi)"

definition le32_bytes :: "32 word \<Rightarrow> byte list" where
  "le32_bytes w = map (\<lambda>i. ucast (drop_bit (8 * i) w)) [0, 1, 2, 3]"

definition pack_fp16_bias_to_rocket ::
  "byte list \<Rightarrow> nat \<Rightarrow> nat \<Rightarrow> byte list \<Rightarrow> (byte list \<times> nat) layout_result" where
  "pack_fp16_bias_to_rocket dense channels padded packed =
     (if channels = 0 \<or> padded < channels
      then Refused ''invalid Rocket FP16 bias channel counts''
      else obind (ok_or (checked_mul64 channels 2)
                    ''dense FP16 bias storage size overflows usize'') (\<lambda>dense_len.
      if length dense < dense_len
      then Refused ''dense FP16 bias is smaller than its declared shape''
      else obind (rocket_fp16_bias_storage_size padded) (\<lambda>packed_len.
      if length packed < packed_len
      then Refused ''Rocket FP16 bias destination is smaller than its declared shape''
      else obind (fill_slice packed 0 packed_len 0) (\<lambda>packed.
      obind (for_each [0..<channels] (\<lambda>channel packed.
          obind (read_slice dense (channel * 2) 2) (\<lambda>pair.
          write_slice packed (channel * 4)
            (le32_bytes (fp16_to_fp32_bits (le16 (pair ! 0) (pair ! 1)))))) packed)
        (\<lambda>packed. Done (packed, packed_len))))))"

section \<open>Packing surfaces\<close>

definition nc1hwc2_storage_size :: "nat \<Rightarrow> nat \<Rightarrow> nat layout_result" where
  "nc1hwc2_storage_size pixels bpp =
     (if bpp = 0 then Refused ''NC1HWC2 bytes per pixel must be nonzero''
      else ok_or (Option.bind (checked_mul64 pixels (div_ceil bpp FEATURE_ATOMIC_BYTES))
                    (\<lambda>v. checked_mul64 v FEATURE_ATOMIC_BYTES))
             ''NC1HWC2 storage size overflows usize'')"

text \<open>The inner loop: one pixel's channel blocks, from byte \<open>copied\<close> on.\<close>

function pack_chunks ::
  "byte list \<Rightarrow> nat \<Rightarrow> nat \<Rightarrow> nat \<Rightarrow> nat \<Rightarrow> byte list \<Rightarrow> byte list layout_result" where
  "pack_chunks dense pixels bpp pixel copied packed =
     (if copied < bpp
      then let surface = copied div FEATURE_ATOMIC_BYTES;
               chunk_len = min (bpp - copied) FEATURE_ATOMIC_BYTES;
               src_offset = pixel * bpp + copied;
               dst_offset = surface * pixels * FEATURE_ATOMIC_BYTES + pixel * FEATURE_ATOMIC_BYTES
           in obind (read_slice dense src_offset chunk_len) (\<lambda>chunk.
              obind (write_slice packed dst_offset chunk) (\<lambda>packed.
              obind (if chunk_len < FEATURE_ATOMIC_BYTES
                     then fill_slice packed (dst_offset + chunk_len)
                            (dst_offset + FEATURE_ATOMIC_BYTES) 0
                     else Done packed) (\<lambda>packed.
              pack_chunks dense pixels bpp pixel (copied + chunk_len) packed)))
      else Done packed)"
  by pat_completeness auto
termination
  by (relation "measure (\<lambda>(dense, pixels, bpp, pixel, copied, packed). bpp - copied)")
     (auto simp: FEATURE_ATOMIC_BYTES_def)

declare pack_chunks.simps [simp del]

definition pack_nhwc_to_nc1hwc2_padded ::
  "byte list \<Rightarrow> nat \<Rightarrow> nat \<Rightarrow> nat \<Rightarrow> byte list \<Rightarrow> (byte list \<times> nat) layout_result" where
  "pack_nhwc_to_nc1hwc2_padded dense pixels bpp packed_bpp packed =
     (if packed_bpp < bpp
      then Refused ''packed NC1HWC2 pixel width is smaller than the dense pixel width''
      else obind (ok_or (checked_mul64 pixels bpp) ''dense NHWC storage size overflows usize'')
        (\<lambda>dense_len.
      if length dense < dense_len
      then Refused ''dense NHWC input is smaller than its declared shape''
      else obind (nc1hwc2_storage_size pixels packed_bpp) (\<lambda>packed_len.
      if length packed < packed_len
      then Refused ''NC1HWC2 destination is smaller than its declared shape''
      else let padding_start = div_ceil bpp FEATURE_ATOMIC_BYTES * pixels * FEATURE_ATOMIC_BYTES
           in obind (if padding_start < packed_len then fill_slice packed padding_start packed_len 0
                     else Done packed) (\<lambda>packed.
              obind (for_each [0..<pixels]
                       (\<lambda>pixel packed. pack_chunks dense pixels bpp pixel 0 packed) packed)
                (\<lambda>packed. Done (packed, packed_len))))))"

definition pack_nhwc_to_nc1hwc2 ::
  "byte list \<Rightarrow> nat \<Rightarrow> nat \<Rightarrow> byte list \<Rightarrow> (byte list \<times> nat) layout_result" where
  "pack_nhwc_to_nc1hwc2 dense pixels bpp packed =
     pack_nhwc_to_nc1hwc2_padded dense pixels bpp bpp packed"

section \<open>Compacting surfaces\<close>

text \<open>
  The inner loop the three compactors share: the blocks of one pixel, the first at \<open>base\<close> in the
  source and \<open>pitch\<close> apart, written consecutively from \<open>dst_base\<close>. The state is the destination
  and the bytes written so far; the answer says whether the compactor returned early.
\<close>

function compact_pixel ::
  "byte list \<Rightarrow> nat \<Rightarrow> nat \<Rightarrow> nat \<Rightarrow> nat \<Rightarrow> nat \<Rightarrow> nat \<Rightarrow> nat \<Rightarrow> byte list \<times> nat
   \<Rightarrow> (bool \<times> byte list \<times> nat) layout_result" where
  "compact_pixel scratch limit base pitch block bpp dst_base copied st =
     (if copied < bpp \<and> 0 < block
      then let surface = copied div block;
               chunk_len = min (bpp - copied) block;
               src_off = wrap64 (base + surface * pitch);
               dst_off = wrap64 (dst_base + copied)
           in if limit < wrap64 (src_off + chunk_len)
                 \<or> length (fst st) < wrap64 (dst_off + chunk_len)
              then Done (True, st)
              else obind (read_slice scratch src_off chunk_len) (\<lambda>chunk.
                   obind (write_slice (fst st) dst_off chunk) (\<lambda>dst.
                   compact_pixel scratch limit base pitch block bpp dst_base (copied + chunk_len)
                     (dst, snd st + chunk_len)))
      else Done (False, st))"
  by pat_completeness auto
termination
  by (relation "measure (\<lambda>(scratch, limit, base, pitch, block, bpp, dst_base, copied, st).
        bpp - copied)") auto

declare compact_pixel.simps [simp del]

definition compact_atomic_output ::
  "byte list \<Rightarrow> nat \<Rightarrow> nat \<Rightarrow> nat \<Rightarrow> nat \<Rightarrow> byte list \<Rightarrow> (byte list \<times> nat) layout_result" where
  "compact_atomic_output scratch source_pixels output_pixels bpp block dst =
     (if block = 0 then Done (dst, 0)
      else obind (until_stopped [0..<output_pixels] (\<lambda>pixel st.
             compact_pixel scratch (length scratch) (pixel * block) (source_pixels * block) block bpp
               (pixel * bpp) 0 st) (dst, 0)) (\<lambda>(_, st). Done st))"

text \<open>The row and column loops of a rectangle, in their order.\<close>

definition rectangle :: "nat \<Rightarrow> nat \<Rightarrow> nat \<Rightarrow> nat \<Rightarrow> (nat \<times> nat) list" where
  "rectangle first_row rows first_column columns =
     List.product [first_row..<first_row + rows] [first_column..<first_column + columns]"

definition compact_atomic_output_rect ::
  "byte list \<Rightarrow> nat \<Rightarrow> nat \<Rightarrow> nat \<Rightarrow> nat \<Rightarrow> nat \<Rightarrow> nat \<Rightarrow> nat \<Rightarrow> nat \<Rightarrow> byte list
   \<Rightarrow> (byte list \<times> nat) layout_result" where
  "compact_atomic_output_rect scratch source_pixels image_width first_row rows first_column columns
     bpp block dst =
     (if block = 0 \<or> image_width = 0 then Done (dst, 0)
      else obind (until_stopped (rectangle first_row rows first_column columns) (\<lambda>(row, column) st.
             let pixel = row * image_width + column
             in compact_pixel scratch (length scratch) (pixel * block) (source_pixels * block) block
                  bpp (pixel * bpp) 0 st) (dst, 0)) (\<lambda>(_, st). Done st))"

definition compact_tile ::
  "byte list \<Rightarrow> nat \<Rightarrow> nat \<Rightarrow> nat \<Rightarrow> accumulator_output_tile \<Rightarrow> byte list \<times> nat
   \<Rightarrow> (bool \<times> byte list \<times> nat) layout_result" where
  "compact_tile scratch image_width bpp block t st =
     (let tile_pixels = wrap64 (output_rows t * output_columns t)
      in case checked_add64 (scratch_offset t) (scratch_bytes t) of
           None \<Rightarrow> Done (True, st)
         | Some tile_end \<Rightarrow>
             if length scratch < tile_end then Done (True, st)
             else until_stopped (rectangle 0 (output_rows t) 0 (output_columns t))
                    (\<lambda>(row, column) st.
                    let local_pixel = row * output_columns t + column;
                        output_pixel = (output_row t + row) * image_width + output_column t + column
                    in compact_pixel scratch tile_end (scratch_offset t + local_pixel * block)
                         (tile_pixels * block) block bpp (output_pixel * bpp) 0 st) st)"

definition compact_tiled_accumulator_output ::
  "byte list \<Rightarrow> accumulator_output_tile list \<Rightarrow> nat \<Rightarrow> nat \<Rightarrow> nat \<Rightarrow> byte list
   \<Rightarrow> (byte list \<times> nat) layout_result" where
  "compact_tiled_accumulator_output scratch tiles image_width bpp block dst =
     (if block = 0 \<or> image_width = 0 then Done (dst, 0)
      else obind (until_stopped tiles (compact_tile scratch image_width bpp block) (dst, 0))
             (\<lambda>(_, st). Done st))"

end
