(* ===== verification/TensorProofs.thy ===== *)
theory TensorProofs
  imports TensorLayout
begin

text \<open>
  The packers and compactors as slot writes: the loops reduce to writing every slot of a
  placement, from which their functional behaviour and the two round trips follow.
\<close>

section \<open>The two placements\<close>

text \<open>
  Feature surfaces: slot \<open>(s, p)\<close> is the 16-byte atom of pixel \<open>p\<close> in surface \<open>s\<close>.
\<close>

definition atom_place :: "nat \<Rightarrow> nat \<times> nat \<Rightarrow> nat" where
  "atom_place pixels k = fst k * pixels * 16 + snd k * 16"

lemma div_mod_unique:
  fixes b :: nat
  assumes "0 < b" "q * b \<le> i" "i < q * b + b"
  shows "i div b = q"
  using assms by (metis add.commute div_nat_eqI mult.commute mult_Suc)

interpretation atoms: placement "atom_place pixels" "\<lambda>_. 16" "{(s, p). p < pixels}" for pixels
proof unfold_locales
  fix k l :: "nat \<times> nat" and i :: nat
  assume k: "k \<in> {(s, p). p < pixels}" and l: "l \<in> {(s, p). p < pixels}"
    and i: "atom_place pixels k \<le> i" "i < atom_place pixels k + 16"
      "atom_place pixels l \<le> i" "i < atom_place pixels l + 16"
  have form: "atom_place pixels m = (fst m * pixels + snd m) * 16" for m
    by (simp add: atom_place_def algebra_simps)
  have "i div 16 = fst k * pixels + snd k" "i div 16 = fst l * pixels + snd l"
    using i by (auto simp: form intro!: div_mod_unique)
  then have eq: "fst k * pixels + snd k = fst l * pixels + snd l" by simp
  have "0 < pixels" "snd k < pixels" "snd l < pixels" using k l by auto
  then have "(fst k * pixels + snd k) div pixels = fst k" "(fst l * pixels + snd l) div pixels = fst l"
    "(fst k * pixels + snd k) mod pixels = snd k" "(fst l * pixels + snd l) mod pixels = snd l"
    by simp_all
  with eq show "k = l" by (metis prod.collapse)
qed

text \<open>
  Dense pixels: slot \<open>(p, s)\<close> is block \<open>s\<close> of pixel \<open>p\<close>, the last one possibly partial.
\<close>

definition block_len :: "nat \<Rightarrow> nat \<Rightarrow> nat \<Rightarrow> nat" where
  "block_len bpp block s = min (bpp - s * block) block"

definition dense_place :: "nat \<Rightarrow> nat \<Rightarrow> nat \<times> nat \<Rightarrow> nat" where
  "dense_place bpp block k = fst k * bpp + snd k * block"

lemma block_inside:
  assumes "j < block_len bpp block s"
  shows "s * block + j < bpp" and "j < block"
  using assms by (auto simp: block_len_def)

interpretation dense: placement "dense_place bpp block" "\<lambda>k. block_len bpp block (snd k)" UNIV
  for bpp block
proof unfold_locales
  fix k l :: "nat \<times> nat" and i :: nat
  assume i: "dense_place bpp block k \<le> i" "i < dense_place bpp block k + block_len bpp block (snd k)"
    "dense_place bpp block l \<le> i" "i < dense_place bpp block l + block_len bpp block (snd l)"
  have split: "i div bpp = fst m \<and> (i mod bpp) div block = snd m"
    if m: "dense_place bpp block m \<le> i" "i < dense_place bpp block m + block_len bpp block (snd m)" for m
  proof -
    obtain j where j: "i = fst m * bpp + (snd m * block + j)" "j < block_len bpp block (snd m)"
      using m by (metis add.assoc dense_place_def le_iff_add nat_add_left_cancel_less)
    from block_inside [OF j(2)] have lt: "snd m * block + j < bpp" "j < block" by simp_all
    then have "i div bpp = fst m" "i mod bpp = snd m * block + j" by (simp_all add: j(1))
    moreover have "(snd m * block + j) div block = snd m" using lt by simp
    ultimately show ?thesis by simp
  qed
  from split [OF i(1,2)] split [OF i(3,4)] show "k = l" by (metis prod.collapse)
qed

section \<open>Packing\<close>

text \<open>The content of an atom after packing: the channel bytes, then zeros.\<close>

definition padded_block :: "byte list \<Rightarrow> nat \<Rightarrow> nat \<times> nat \<Rightarrow> byte list" where
  "padded_block dense bpp k =
     (let len = block_len bpp 16 (fst k)
      in take len (drop (snd k * bpp + fst k * 16) dense) @ replicate (16 - len) 0)"

lemma overwrite_then_fill:
  assumes "length ys = n" "off + 16 \<le> length xs" "n \<le> 16"
  shows "overwrite (overwrite xs off ys) (off + n) (replicate (16 - n) v) =
    overwrite xs off (ys @ replicate (16 - n) v)"
  using assms by (intro nth_equalityI) (auto simp: nth_overwrite nth_append)

lemma pack_chunks_slots:
  assumes "pixel < pixels" and "pixels * bpp \<le> length dense"
    and "div_ceil bpp 16 * pixels * 16 \<le> length packed" and "s \<le> div_ceil bpp 16"
  shows "pack_chunks dense pixels bpp pixel (min (s * 16) bpp) packed =
    Done (write_slots (atom_place pixels) (padded_block dense bpp)
            (map (\<lambda>s. (s, pixel)) [s..<div_ceil bpp 16]) packed)"
  using assms(3,4)
proof (induction "div_ceil bpp 16 - s" arbitrary: s packed)
  case 0
  then have "bpp \<le> s * 16" using div_ceil_le_iff [of 16 bpp s] by simp
  then have m: "min (s * 16) bpp = bpp" by (rule min_absorb2)
  from 0 have e: "[s..<div_ceil bpp 16] = []" by simp
  show ?case unfolding m e by (simp add: pack_chunks.simps)
next
  case (Suc n)
  let ?S = "div_ceil bpp 16"
  have s: "s < ?S" using Suc.hyps(2) by simp
  then have lt: "s * 16 < bpp" using div_ceil_le_iff [of 16 bpp s] by simp
  let ?len = "block_len bpp 16 s" and ?dst = "s * pixels * 16 + pixel * 16"
  have len: "0 < ?len" "?len \<le> 16" "s * 16 + ?len \<le> bpp" using lt by (auto simp: block_len_def)
  have "pixel * bpp + bpp \<le> pixels * bpp"
    using assms(1) by (metis Suc_leI add.commute mult_Suc mult_le_mono1)
  then have src: "pixel * bpp + s * 16 + ?len \<le> length dense" using assms(2) len by linarith
  have "?dst + 16 \<le> ?S * pixels * 16"
  proof -
    have "s * pixels + pixel + 1 \<le> s * pixels + pixels" using assms(1) by simp
    also have "\<dots> = Suc s * pixels" by simp
    also have "\<dots> \<le> ?S * pixels" using s by (intro mult_le_mono1) simp
    finally show ?thesis by (simp add: algebra_simps)
  qed
  then have dst: "?dst + 16 \<le> length packed" using Suc.prems(1) by linarith
  let ?chunk = "take ?len (drop (pixel * bpp + s * 16) dense)"
  have chunk: "length ?chunk = ?len" using src by simp
  let ?packed = "overwrite packed ?dst (padded_block dense bpp (s, pixel))"
  have val: "padded_block dense bpp (s, pixel) = ?chunk @ replicate (16 - ?len) 0"
    by (simp add: padded_block_def Let_def)
  have step: "pack_chunks dense pixels bpp pixel (s * 16) packed =
      pack_chunks dense pixels bpp pixel (s * 16 + ?len) ?packed"
  proof (cases "?len < 16")
    case True
    then show ?thesis
      using lt src dst chunk len overwrite_then_fill [OF chunk dst len(2), of 0]
      by (subst pack_chunks.simps)
         (simp add: FEATURE_ATOMIC_BYTES_def block_len_def [symmetric] val Let_def add.assoc)
  next
    case False
    then have "?len = 16" using len by simp
    then show ?thesis
      using lt src dst chunk
      by (subst pack_chunks.simps)
         (simp add: FEATURE_ATOMIC_BYTES_def block_len_def [symmetric] val Let_def add.assoc)
  qed
  have next_s: "s * 16 + ?len = min (Suc s * 16) bpp" using lt by (auto simp: block_len_def min_def)
  have "length (padded_block dense bpp (s, pixel)) = 16" using chunk len by (simp add: val)
  then have "?S * pixels * 16 \<le> length ?packed" using Suc.prems(1) dst by simp
  then have "pack_chunks dense pixels bpp pixel (min (Suc s * 16) bpp) ?packed =
    Done (write_slots (atom_place pixels) (padded_block dense bpp)
            (map (\<lambda>s. (s, pixel)) [Suc s..<?S]) ?packed)"
    using Suc.hyps(2) s by (intro Suc.hyps(1)) simp_all
  moreover have "[s..<?S] = s # [Suc s..<?S]" using s by (simp add: upt_conv_Cons)
  moreover have "min (s * 16) bpp = s * 16" using lt by simp
  ultimately show ?case using step by (simp add: next_s atom_place_def)
qed

lemma for_each_slots:
  assumes "\<And>i xs. i \<in> set is \<Longrightarrow> length xs = n \<Longrightarrow> body i xs = Done (write_slots place val (ks i) xs)"
    and "\<forall>i \<in> set is. \<forall>k \<in> set (ks i). place k + length (val k) \<le> n"
    and "length xs = n"
  shows "for_each is body xs = Done (write_slots place val (concat (map ks is)) xs)"
  using assms
proof (induction "is" arbitrary: xs)
  case Nil
  then show ?case by simp
next
  case (Cons i rest)
  let ?ys = "write_slots place val (ks i) xs"
  have "length ?ys = n" using Cons.prems(2,3) by (simp add: length_write_slots)
  then have "for_each rest body ?ys = Done (write_slots place val (concat (map ks rest)) ?ys)"
    using Cons.prems by (intro Cons.IH) simp_all
  moreover have "body i xs = Done ?ys" using Cons.prems(1) [of i xs] Cons.prems(3) by simp
  ultimately show ?case by (simp add: write_slots_append)
qed

definition atom_keys :: "nat \<Rightarrow> nat \<Rightarrow> (nat \<times> nat) list" where
  "atom_keys pixels surfaces = concat (map (\<lambda>p. map (\<lambda>s. (s, p)) [0..<surfaces]) [0..<pixels])"

lemma set_atom_keys: "set (atom_keys pixels surfaces) = {(s, p). s < surfaces \<and> p < pixels}"
  by (auto simp: atom_keys_def)

lemma atom_fits:
  assumes "s < surfaces" and "p < pixels"
  shows "atom_place pixels (s, p) + 16 \<le> surfaces * pixels * 16"
proof -
  have "s * pixels + p + 1 \<le> Suc s * pixels" using assms(2) by simp
  also have "\<dots> \<le> surfaces * pixels" using assms(1) by (intro mult_le_mono1) simp
  finally show ?thesis by (simp add: atom_place_def algebra_simps)
qed

lemma length_padded_block:
  assumes "s < div_ceil bpp 16" and "p < pixels" and "pixels * bpp \<le> length dense"
  shows "length (padded_block dense bpp (s, p)) = 16"
proof -
  have lt: "s * 16 < bpp" using assms(1) div_ceil_le_iff [of 16 bpp s] by simp
  have "p * bpp + bpp \<le> pixels * bpp"
    using assms(2) by (metis Suc_leI add.commute mult_Suc mult_le_mono1)
  with assms(3) lt show ?thesis by (auto simp: padded_block_def Let_def block_len_def)
qed

lemma nth_padded_block:
  assumes "s < div_ceil bpp 16" and "p < pixels" and "pixels * bpp \<le> length dense" and "j < 16"
  shows "padded_block dense bpp (s, p) ! j = (if s * 16 + j < bpp then dense ! (p * bpp + s * 16 + j) else 0)"
proof -
  have lt: "s * 16 < bpp" using assms(1) div_ceil_le_iff [of 16 bpp s] by simp
  have "p * bpp + bpp \<le> pixels * bpp"
    using assms(2) by (metis Suc_leI add.commute mult_Suc mult_le_mono1)
  with assms(3,4) lt show ?thesis
    by (auto simp: padded_block_def Let_def block_len_def nth_append add.assoc)
qed

lemma atom_slots_ok:
  assumes "pixels * bpp \<le> length dense" and "div_ceil bpp 16 * pixels * 16 \<le> n"
    and "k \<in> set (atom_keys pixels (div_ceil bpp 16))"
  shows "length (padded_block dense bpp k) = 16 \<and> atom_place pixels k + 16 \<le> n"
proof -
  obtain s p where k: "k = (s, p)" by (cases k)
  with assms(3) have "s < div_ceil bpp 16" "p < pixels" by (simp_all add: set_atom_keys)
  from length_padded_block [OF this assms(1)] atom_fits [OF this] assms(2) k
  show ?thesis by simp
qed

text \<open>The conditions under which packing succeeds: exactly the checks of the source.\<close>

definition pack_ok :: "byte list \<Rightarrow> nat \<Rightarrow> nat \<Rightarrow> nat \<Rightarrow> byte list \<Rightarrow> bool" where
  "pack_ok dense pixels bpp packed_bpp packed \<longleftrightarrow>
     bpp \<le> packed_bpp \<and> 0 < packed_bpp \<and> pixels * bpp < 2 ^ 64 \<and> pixels * bpp \<le> length dense
     \<and> pixels * div_ceil packed_bpp 16 * 16 < 2 ^ 64
     \<and> pixels * div_ceil packed_bpp 16 * 16 \<le> length packed"

lemma nc1hwc2_storage_size_Done:
  "nc1hwc2_storage_size pixels bpp = Done n \<longleftrightarrow>
     0 < bpp \<and> n = pixels * div_ceil bpp 16 * 16 \<and> pixels * div_ceil bpp 16 * 16 < 2 ^ 64"
  by (auto simp: nc1hwc2_storage_size_def FEATURE_ATOMIC_BYTES_def ok_or_eq_Done bind_eq_Some_conv)

text \<open>What packing computes, as slot writes over the zeroed padding surfaces.\<close>

definition zero_padding :: "nat \<Rightarrow> nat \<Rightarrow> byte list \<Rightarrow> byte list" where
  "zero_padding lo hi packed = (if lo < hi then overwrite packed lo (replicate (hi - lo) 0) else packed)"

lemma length_zero_padding [simp]: "hi \<le> length packed \<Longrightarrow> length (zero_padding lo hi packed) = length packed"
  by (simp add: zero_padding_def)

lemma pack_padded_slots:
  assumes "pack_ok dense pixels bpp packed_bpp packed"
  shows "pack_nhwc_to_nc1hwc2_padded dense pixels bpp packed_bpp packed =
    Done (write_slots (atom_place pixels) (padded_block dense bpp) (atom_keys pixels (div_ceil bpp 16))
            (zero_padding (div_ceil bpp 16 * pixels * 16) (pixels * div_ceil packed_bpp 16 * 16) packed),
          pixels * div_ceil packed_bpp 16 * 16)"
proof -
  let ?S = "div_ceil bpp 16" and ?len = "pixels * div_ceil packed_bpp 16 * 16"
  let ?zeroed = "zero_padding (?S * pixels * 16) ?len packed"
  from assms have c: "bpp \<le> packed_bpp" "0 < packed_bpp" "pixels * bpp < 2 ^ 64" "pixels * bpp \<le> length dense"
    "?len < 2 ^ 64" "?len \<le> length packed"
    by (simp_all add: pack_ok_def)
  have "bpp \<le> div_ceil packed_bpp 16 * 16"
    using c(1) div_ceil_mult_ge [of 16 packed_bpp] by simp
  then have "?S \<le> div_ceil packed_bpp 16" by (simp add: div_ceil_le_iff)
  then have "pixels * ?S \<le> pixels * div_ceil packed_bpp 16" by (rule mult_le_mono2)
  then have start: "?S * pixels * 16 \<le> ?len" by (simp add: mult.commute)
  have zeroed: "(if ?S * pixels * 16 < ?len then fill_slice packed (?S * pixels * 16) ?len 0 else Done packed)
      = (Done ?zeroed :: byte list layout_result)"
    using c(6) by (simp add: zero_padding_def)
  have "for_each [0..<pixels] (\<lambda>pixel packed. pack_chunks dense pixels bpp pixel 0 packed) ?zeroed =
      Done (write_slots (atom_place pixels) (padded_block dense bpp)
              (concat (map (\<lambda>p. map (\<lambda>s. (s, p)) [0..<?S]) [0..<pixels])) ?zeroed)"
  proof (rule for_each_slots [where n = "length packed"])
    fix pixel and xs :: "byte list"
    assume "pixel \<in> set [0..<pixels]" "length xs = length packed"
    then show "pack_chunks dense pixels bpp pixel 0 xs = Done (write_slots (atom_place pixels)
        (padded_block dense bpp) (map (\<lambda>s. (s, pixel)) [0..<?S]) xs)"
      using pack_chunks_slots [of pixel pixels bpp dense xs 0] c start by simp
  next
    show "\<forall>p \<in> set [0..<pixels]. \<forall>k \<in> set (map (\<lambda>s. (s, p)) [0..<?S]).
        atom_place pixels k + length (padded_block dense bpp k) \<le> length packed"
    proof (intro ballI)
      fix p k
      assume "p \<in> set [0..<pixels]" "k \<in> set (map (\<lambda>s. (s, p)) [0..<?S])"
      then have "k \<in> set (atom_keys pixels ?S)" by (auto simp: set_atom_keys)
      from atom_slots_ok [OF c(4) order_trans [OF start c(6)] this]
      show "atom_place pixels k + length (padded_block dense bpp k) \<le> length packed" by simp
    qed
  qed (simp add: c)
  then show ?thesis
    using c zeroed
    by (simp add: pack_nhwc_to_nc1hwc2_padded_def nc1hwc2_storage_size_Done [THEN iffD2]
        FEATURE_ATOMIC_BYTES_def atom_keys_def Let_def checked_mul64_def)
qed

text \<open>The functional behaviour, byte by byte.\<close>

lemma pack_padded_bytes:
  assumes ok: "pack_ok dense pixels bpp packed_bpp packed"
  shows "\<exists>out. pack_nhwc_to_nc1hwc2_padded dense pixels bpp packed_bpp packed =
      Done (out, pixels * div_ceil packed_bpp 16 * 16)
    \<and> length out = length packed
    \<and> (\<forall>s p j. s < div_ceil packed_bpp 16 \<longrightarrow> p < pixels \<longrightarrow> j < 16 \<longrightarrow>
         out ! (atom_place pixels (s, p) + j) =
           (if s * 16 + j < bpp then dense ! (p * bpp + s * 16 + j) else 0))
    \<and> (\<forall>i. pixels * div_ceil packed_bpp 16 * 16 \<le> i \<longrightarrow> i < length packed \<longrightarrow> out ! i = packed ! i)"
proof -
  let ?S = "div_ceil bpp 16" and ?P = "div_ceil packed_bpp 16"
  let ?len = "pixels * ?P * 16"
  let ?zeroed = "zero_padding (?S * pixels * 16) ?len packed"
  let ?out = "write_slots (atom_place pixels) (padded_block dense bpp) (atom_keys pixels ?S) ?zeroed"
  from ok have c: "bpp \<le> packed_bpp" "pixels * bpp \<le> length dense" "?len \<le> length packed"
    by (simp_all add: pack_ok_def)
  have "bpp \<le> ?P * 16" using c(1) div_ceil_mult_ge [of 16 packed_bpp] by simp
  then have SP: "?S \<le> ?P" by (simp add: div_ceil_le_iff)
  then have "pixels * ?S \<le> pixels * ?P" by (rule mult_le_mono2)
  then have start: "?S * pixels * 16 \<le> ?len" by (simp add: mult.commute)
  have slots: "\<forall>k \<in> set (atom_keys pixels ?S). length (padded_block dense bpp k) = 16
      \<and> atom_place pixels k + 16 \<le> length ?zeroed"
  proof
    fix k
    assume "k \<in> set (atom_keys pixels ?S)"
    from atom_slots_ok [OF c(2) order_trans [OF start c(3)] this] c(3)
    show "length (padded_block dense bpp k) = 16 \<and> atom_place pixels k + 16 \<le> length ?zeroed" by simp
  qed
  have below: "i < ?S * pixels * 16" if "k \<in> set (atom_keys pixels ?S)" "i < atom_place pixels k + 16" for k i
    using that atom_fits [of "fst k" ?S "snd k" pixels] by (auto simp: set_atom_keys)
  have "?out ! (atom_place pixels (s, p) + j) =
      (if s * 16 + j < bpp then dense ! (p * bpp + s * 16 + j) else 0)"
    if sp: "s < ?P" "p < pixels" "j < 16" for s p j
  proof (cases "s < ?S")
    case True
    have "?out ! (atom_place pixels (s, p) + j) = padded_block dense bpp (s, p) ! j"
      using sp True slots by (intro atoms.written) (auto simp: set_atom_keys)
    then show ?thesis using nth_padded_block [OF True sp(2) c(2) sp(3)] by simp
  next
    case False
    let ?i = "atom_place pixels (s, p) + j"
    have hi: "?i < ?len" using atom_fits [OF sp(1,2)] sp(3) by (simp add: mult.commute)
    have "?S * pixels \<le> s * pixels" using False by (intro mult_le_mono1) simp
    then have lo: "?S * pixels * 16 \<le> ?i" unfolding atom_place_def fst_conv snd_conv by linarith
    have "?out ! ?i = ?zeroed ! ?i"
      using slots hi c(3) lo below by (intro atoms.untouched) fastforce+
    also have "\<dots> = 0"
    proof -
      have gap: "?S * pixels * 16 < ?len" using lo hi by linarith
      have "?zeroed ! ?i = overwrite packed (?S * pixels * 16) (replicate (?len - ?S * pixels * 16) 0) ! ?i"
        by (simp only: zero_padding_def if_P [OF gap])
      then show ?thesis using lo hi c(3) gap by (simp add: nth_overwrite)
    qed
    finally have "?out ! ?i = 0" .
    moreover have "bpp \<le> s * 16" using False div_ceil_le_iff [of 16 bpp s] by simp
    ultimately show ?thesis by simp
  qed
  moreover have "?out ! i = packed ! i" if "?len \<le> i" "i < length packed" for i
  proof -
    have "?out ! i = ?zeroed ! i"
      using slots that start below by (intro atoms.untouched) fastforce+
    also have "\<dots> = packed ! i" using that c(3) by (simp add: zero_padding_def nth_overwrite)
    finally show ?thesis .
  qed
  moreover have "length ?out = length packed" using slots c(3) by (simp add: length_write_slots)
  ultimately show ?thesis using pack_padded_slots [OF ok] by blast
qed

section \<open>Compacting\<close>

text \<open>What block \<open>s\<close> of a pixel reads: \<open>block_len\<close> bytes at \<open>base + s * pitch\<close>.\<close>

definition source_block :: "byte list \<Rightarrow> nat \<Rightarrow> nat \<Rightarrow> nat \<Rightarrow> nat \<Rightarrow> nat \<Rightarrow> byte list" where
  "source_block scratch bpp block base pitch s = take (block_len bpp block s) (drop (base + s * pitch) scratch)"

lemma compact_pixel_slots:
  assumes block: "0 < block" and limit: "limit \<le> length scratch" "limit < 2 ^ 64" "length dst < 2 ^ 64"
    and src: "\<And>s. s < div_ceil bpp block \<Longrightarrow> base + s * pitch + block_len bpp block s \<le> limit"
    and dst: "p * bpp + bpp \<le> length dst"
    and val: "\<And>s. val (p, s) = source_block scratch bpp block base pitch s"
    and s: "s \<le> div_ceil bpp block"
  shows "compact_pixel scratch limit base pitch block bpp (p * bpp) (min (s * block) bpp) (dst, w) =
    Done (False, (write_slots (dense_place bpp block) val (map (Pair p) [s..<div_ceil bpp block]) dst,
                  w + (bpp - min (s * block) bpp)))"
  using s dst limit(3)
proof (induction "div_ceil bpp block - s" arbitrary: s dst w)
  case 0
  then have "bpp \<le> s * block" using div_ceil_le_iff [OF block, of bpp s] by simp
  then have m: "min (s * block) bpp = bpp" by (rule min_absorb2)
  from 0 have e: "[s..<div_ceil bpp block] = []" by simp
  show ?case unfolding m e by (simp add: compact_pixel.simps)
next
  case (Suc n)
  let ?S = "div_ceil bpp block"
  have s: "s < ?S" using Suc.hyps(2) by simp
  then have lt: "s * block < bpp" using div_ceil_le_iff [OF block, of bpp s] by simp
  let ?len = "block_len bpp block s"
  have len: "0 < ?len" "s * block + ?len \<le> bpp" using lt block by (auto simp: block_len_def)
  have from_src: "base + s * pitch + ?len \<le> limit" by (rule src [OF s])
  have to_dst: "p * bpp + s * block + ?len \<le> length dst" using Suc.prems(2) len by linarith
  let ?chunk = "source_block scratch bpp block base pitch s"
  let ?dst = "overwrite dst (p * bpp + s * block) ?chunk"
  have chunk: "length ?chunk = ?len" using from_src limit(1) by (simp add: source_block_def)
  have w1: "wrap64 (base + s * pitch) = base + s * pitch" "wrap64 (base + s * pitch + ?len) = base + s * pitch + ?len"
    using from_src limit(2) by simp_all
  have w2: "wrap64 (p * bpp + s * block) = p * bpp + s * block"
    "wrap64 (p * bpp + s * block + ?len) = p * bpp + s * block + ?len"
    using to_dst Suc.prems(3) by simp_all
  have fetch: "read_slice scratch (base + s * pitch) ?len = (Done ?chunk :: byte list layout_result)"
    using from_src limit(1) by (simp add: source_block_def)
  have store: "write_slice dst (p * bpp + s * block) ?chunk = (Done ?dst :: byte list layout_result)"
    using to_dst chunk by simp
  have step: "compact_pixel scratch limit base pitch block bpp (p * bpp) (s * block) (dst, w) =
      compact_pixel scratch limit base pitch block bpp (p * bpp) (s * block + ?len) (?dst, w + ?len)"
    using lt block from_src to_dst
    by (subst compact_pixel.simps)
       (simp add: Let_def block_len_def [symmetric] w1 w2 fetch store)
  have next_s: "s * block + ?len = min (Suc s * block) bpp" using lt by (auto simp: block_len_def min_def)
  have length: "length ?dst = length dst" using to_dst chunk by simp
  have "compact_pixel scratch limit base pitch block bpp (p * bpp) (min (Suc s * block) bpp) (?dst, w + ?len) =
    Done (False, (write_slots (dense_place bpp block) val (map (Pair p) [Suc s..<?S]) ?dst,
                  w + ?len + (bpp - min (Suc s * block) bpp)))"
    using Suc.hyps(2) s Suc.prems(2,3) length by (intro Suc.hyps(1)) simp_all
  moreover have "[s..<?S] = s # [Suc s..<?S]" using s by (simp add: upt_conv_Cons)
  moreover have m: "min (s * block) bpp = s * block" using lt by simp
  moreover have "w + ?len + (bpp - min (Suc s * block) bpp) = w + (bpp - s * block)"
    using len next_s by linarith
  ultimately show ?case using step by (simp add: next_s dense_place_def val)
qed

text \<open>One pixel from its first block.\<close>

lemma compact_pixel_whole:
  assumes "0 < block" "limit \<le> length scratch" "limit < 2 ^ 64" "length dst < 2 ^ 64"
    and "\<And>s. s < div_ceil bpp block \<Longrightarrow> base + s * pitch + block_len bpp block s \<le> limit"
    and "p * bpp + bpp \<le> length dst"
    and "\<And>s. val (p, s) = source_block scratch bpp block base pitch s"
  shows "compact_pixel scratch limit base pitch block bpp (p * bpp) 0 (dst, w) =
    Done (False, (write_slots (dense_place bpp block) val (map (Pair p) [0..<div_ceil bpp block]) dst, w + bpp))"
  using compact_pixel_slots [OF assms, of 0 w] by simp

definition pixel_keys :: "nat \<Rightarrow> nat \<Rightarrow> nat list \<Rightarrow> (nat \<times> nat) list" where
  "pixel_keys bpp block ps = concat (map (\<lambda>p. map (Pair p) [0..<div_ceil bpp block]) ps)"

lemma set_pixel_keys: "set (pixel_keys bpp block ps) = set ps \<times> {s. s < div_ceil bpp block}"
  by (auto simp: pixel_keys_def)

lemma dense_slot_fits:
  assumes "p * bpp + bpp \<le> n" and "s < div_ceil bpp block" and "0 < block"
  shows "dense_place bpp block (p, s) + block_len bpp block s \<le> n"
proof -
  have "s * block < bpp" using assms(2,3) div_ceil_le_iff [of block bpp s] by simp
  then have "s * block + block_len bpp block s \<le> bpp" by (simp add: block_len_def)
  with assms(1) show ?thesis by (simp add: dense_place_def)
qed

text \<open>When the source and destination hold all pixels, compaction writes them all.\<close>

lemma compact_atomic_output_slots:
  assumes block: "0 < block" and sizes: "length scratch < 2 ^ 64" "length dst < 2 ^ 64"
    and src: "source_pixels * div_ceil bpp block * block \<le> length scratch" "output_pixels \<le> source_pixels"
    and dst: "output_pixels * bpp \<le> length dst"
  defines "val \<equiv> \<lambda>k. source_block scratch bpp block (fst k * block) (source_pixels * block) (snd k)"
  shows "compact_atomic_output scratch source_pixels output_pixels bpp block dst =
    Done (write_slots (dense_place bpp block) val (pixel_keys bpp block [0..<output_pixels]) dst,
          output_pixels * bpp)"
proof -
  let ?S = "div_ceil bpp block"
  have pixel: "p * bpp + bpp \<le> output_pixels * bpp" if "p < output_pixels" for p
    using that by (metis Suc_leI add.commute mult_Suc mult_le_mono1)
  have fit: "p * block + s * (source_pixels * block) + block_len bpp block s \<le> length scratch"
    if "p < output_pixels" "s < ?S" for p s
  proof -
    have "p + 1 \<le> source_pixels" using that(1) src(2) by simp
    then have "s * source_pixels + (p + 1) \<le> Suc s * source_pixels" by simp
    also have "\<dots> \<le> ?S * source_pixels" using that(2) by (intro mult_le_mono1) simp
    finally have "(s * source_pixels + (p + 1)) * block \<le> ?S * source_pixels * block"
      by (rule mult_le_mono1)
    moreover have "block_len bpp block s \<le> block" by (simp add: block_len_def)
    ultimately show ?thesis using src(1) by (simp add: algebra_simps)
  qed
  have "until_stopped [0..<output_pixels] (\<lambda>pixel st.
      compact_pixel scratch (length scratch) (pixel * block) (source_pixels * block) block bpp
        (pixel * bpp) 0 st) (dst, 0) =
    (Done (False, (write_slots (dense_place bpp block) val
        (concat (map (\<lambda>p. map (Pair p) [0..<?S]) [0..<output_pixels])) dst,
      0 + sum_list (map (\<lambda>_. bpp) [0..<output_pixels]))) :: (bool \<times> byte list \<times> nat) layout_result)"
  proof (rule until_stopped_slots [where n = "length dst"])
    fix i w and xs :: "byte list"
    assume i: "i \<in> set [0..<output_pixels]" and len: "length xs = length dst"
    then show "compact_pixel scratch (length scratch) (i * block) (source_pixels * block) block bpp
        (i * bpp) 0 (xs, w) =
      Done (False, (write_slots (dense_place bpp block) val (map (Pair i) [0..<?S]) xs, w + bpp))"
      using pixel [of i] dst fit [of i] sizes
      by (intro compact_pixel_whole [OF block]) (auto simp: val_def)
  next
    show "\<forall>i \<in> set [0..<output_pixels]. \<forall>k \<in> set (map (Pair i) [0..<?S]).
        dense_place bpp block k + length (val k) \<le> length dst"
    proof (intro ballI)
      fix i k
      assume "i \<in> set [0..<output_pixels]" "k \<in> set (map (Pair i) [0..<?S])"
      then obtain s where k: "k = (i, s)" "s < ?S" "i < output_pixels" by auto
      have "length (val k) \<le> block_len bpp block s" by (simp add: val_def source_block_def k)
      with dense_slot_fits [OF order_trans [OF pixel dst] k(2) block] k
      show "dense_place bpp block k + length (val k) \<le> length dst" by fastforce
    qed
  qed simp
  then show ?thesis
    using block by (simp add: compact_atomic_output_def pixel_keys_def sum_list_triv)
qed

lemma source_block_nth:
  assumes "base + s * pitch + block_len bpp block s \<le> length scratch" and "j < block_len bpp block s"
  shows "source_block scratch bpp block base pitch s ! j = scratch ! (base + s * pitch + j)"
  using assms by (simp add: source_block_def)

lemma atomic_source_fits:
  assumes "p < source_pixels" and "s < n" and "n * source_pixels * block \<le> len"
  shows "p * block + s * (source_pixels * block) + block \<le> (len::nat)"
proof -
  have "s * source_pixels + (p + 1) \<le> Suc s * source_pixels" using assms(1) by simp
  also have "\<dots> \<le> n * source_pixels" using assms(2) by (intro mult_le_mono1) simp
  finally have "(s * source_pixels + (p + 1)) * block \<le> n * source_pixels * block" by (rule mult_le_mono1)
  with assms(3) show ?thesis by (simp add: algebra_simps)
qed

text \<open>The bytes compaction leaves in the destination.\<close>

lemma compact_atomic_output_bytes:
  assumes block: "0 < block" and sizes: "length scratch < 2 ^ 64" "length dst < 2 ^ 64"
    and src: "source_pixels * div_ceil bpp block * block \<le> length scratch" "output_pixels \<le> source_pixels"
    and dst: "output_pixels * bpp \<le> length dst"
  shows "\<exists>out. compact_atomic_output scratch source_pixels output_pixels bpp block dst =
      Done (out, output_pixels * bpp)
    \<and> length out = length dst
    \<and> (\<forall>p i. p < output_pixels \<longrightarrow> i < bpp \<longrightarrow>
         out ! (p * bpp + i) = scratch ! (i div block * (source_pixels * block) + p * block + i mod block))
    \<and> (\<forall>i. output_pixels * bpp \<le> i \<longrightarrow> i < length dst \<longrightarrow> out ! i = dst ! i)"
proof -
  let ?val = "\<lambda>k. source_block scratch bpp block (fst k * block) (source_pixels * block) (snd k)"
  let ?keys = "pixel_keys bpp block [0..<output_pixels]"
  let ?out = "write_slots (dense_place bpp block) ?val ?keys dst"
  have fits: "p * block + s * (source_pixels * block) + block_len bpp block s \<le> length scratch"
    if "p < output_pixels" "s < div_ceil bpp block" for p s
  proof -
    have "p * block + s * (source_pixels * block) + block \<le> length scratch"
      using that src by (intro atomic_source_fits [of p source_pixels s "div_ceil bpp block"])
        (simp_all add: mult.commute mult.left_commute)
    then show ?thesis by (simp add: block_len_def)
  qed
  have pixel: "p * bpp + bpp \<le> output_pixels * bpp" if "p < output_pixels" for p
    using that by (metis Suc_leI add.commute mult_Suc mult_le_mono1)
  have slots: "\<forall>k \<in> set ?keys. length (?val k) = block_len bpp block (snd k)
      \<and> dense_place bpp block k + block_len bpp block (snd k) \<le> length dst"
  proof
    fix k
    assume "k \<in> set ?keys"
    then obtain p s where k: "k = (p, s)" "p < output_pixels" "s < div_ceil bpp block"
      by (auto simp: set_pixel_keys)
    from fits [OF k(2,3)] dense_slot_fits [OF order_trans [OF pixel [OF k(2)] dst] k(3) block] k(1)
    show "length (?val k) = block_len bpp block (snd k)
      \<and> dense_place bpp block k + block_len bpp block (snd k) \<le> length dst"
      by (simp add: source_block_def)
  qed
  have "?out ! (p * bpp + i) = scratch ! (i div block * (source_pixels * block) + p * block + i mod block)"
    if p: "p < output_pixels" and i: "i < bpp" for p i
  proof -
    let ?s = "i div block" and ?j = "i mod block"
    have s: "?s < div_ceil bpp block"
    proof (rule ccontr)
      assume "\<not> ?s < div_ceil bpp block"
      then have "bpp \<le> ?s * block" using div_ceil_le_iff [OF block, of bpp ?s] by simp
      with i show False using div_times_less_eq_dividend [of i block] by linarith
    qed
    have j: "?j < block_len bpp block ?s"
    proof -
      have "?s * block + ?j < bpp" "?j < block" using i block by simp_all
      then show ?thesis unfolding block_len_def by linarith
    qed
    have "?out ! (dense_place bpp block (p, ?s) + ?j) = ?val (p, ?s) ! ?j"
      using slots p s j by (intro dense.written) (auto simp: set_pixel_keys)
    also have "\<dots> = scratch ! (p * block + ?s * (source_pixels * block) + ?j)"
      using source_block_nth [OF fits [OF p s] j] by simp
    also have "dense_place bpp block (p, ?s) + ?j = p * bpp + i"
      by (simp add: dense_place_def)
    finally show ?thesis by (simp add: ac_simps)
  qed
  moreover have "?out ! i = dst ! i" if "output_pixels * bpp \<le> i" "i < length dst" for i
  proof (rule dense.untouched)
    show "\<forall>k \<in> set ?keys. \<not> (dense_place bpp block k \<le> i \<and> i < dense_place bpp block k + block_len bpp block (snd k))"
    proof
      fix k
      assume "k \<in> set ?keys"
      then obtain p s where k: "k = (p, s)" "p < output_pixels" "s < div_ceil bpp block"
        by (auto simp: set_pixel_keys)
      from dense_slot_fits [OF pixel [OF k(2)] k(3) block] k(1) that
      show "\<not> (dense_place bpp block k \<le> i \<and> i < dense_place bpp block k + block_len bpp block (snd k))"
        by simp
    qed
  qed (use slots that in auto)
  moreover have "length ?out = length dst" using slots by (simp add: length_write_slots)
  ultimately show ?thesis using compact_atomic_output_slots [OF assms] by blast
qed

section \<open>The two round trips\<close>

lemma compact_of_pack:
  assumes ok: "pack_ok dense pixels bpp packed_bpp packed" and bpp: "0 < bpp"
    and sizes: "length packed < 2 ^ 64" "length dst < 2 ^ 64" and dst: "length dst = pixels * bpp"
    and pack: "pack_nhwc_to_nc1hwc2_padded dense pixels bpp packed_bpp packed = Done (cube_bytes, n)"
  shows "compact_atomic_output cube_bytes pixels pixels bpp 16 dst = Done (take (pixels * bpp) dense, pixels * bpp)"
proof -
  let ?P = "div_ceil packed_bpp 16"
  from pack_padded_bytes [OF ok] pack have len: "length cube_bytes = length packed"
    and bytes: "\<And>s p j. s < ?P \<Longrightarrow> p < pixels \<Longrightarrow> j < 16 \<Longrightarrow>
         cube_bytes ! (atom_place pixels (s, p) + j) =
           (if s * 16 + j < bpp then dense ! (p * bpp + s * 16 + j) else 0)"
    by auto
  have "bpp \<le> ?P * 16"
    using ok div_ceil_mult_ge [of 16 packed_bpp] by (simp add: pack_ok_def)
  then have SP: "div_ceil bpp 16 \<le> ?P" by (simp add: div_ceil_le_iff)
  then have "pixels * div_ceil bpp 16 \<le> pixels * ?P" by (rule mult_le_mono2)
  moreover have "pixels * ?P * 16 \<le> length cube_bytes" using ok len by (simp only: pack_ok_def)
  ultimately have "pixels * div_ceil bpp 16 * 16 \<le> length cube_bytes" by linarith
  from compact_atomic_output_bytes [OF _ _ sizes(2) this, of pixels] sizes(1) len dst
  obtain out where out: "compact_atomic_output cube_bytes pixels pixels bpp 16 dst = Done (out, pixels * bpp)"
    "length out = length dst"
    "\<And>p i. p < pixels \<Longrightarrow> i < bpp \<Longrightarrow>
       out ! (p * bpp + i) = cube_bytes ! (i div 16 * (pixels * 16) + p * 16 + i mod 16)"
    by auto
  have "out = take (pixels * bpp) dense"
  proof (rule nth_equalityI)
    show "length out = length (take (pixels * bpp) dense)"
      using out(2) dst ok by (simp add: pack_ok_def)
    fix q
    assume "q < length out"
    then have q: "q < pixels * bpp" using out(2) dst by simp
    define p i where "p = q div bpp" and "i = q mod bpp"
    have pi: "q = p * bpp + i" "i < bpp" using bpp by (simp_all add: p_def i_def)
    have p: "p < pixels" using q by (simp add: p_def less_mult_imp_div_less)
    have i16: "i div 16 * 16 + i mod 16 = i" by simp
    have "i div 16 < ?P"
    proof (rule ccontr)
      assume "\<not> i div 16 < ?P"
      with SP have "div_ceil bpp 16 \<le> i div 16" by simp
      then have "bpp \<le> i div 16 * 16" by (simp add: div_ceil_le_iff)
      with pi(2) show False by simp
    qed
    from bytes [OF this p, of "i mod 16"] pi(2) i16
    have "cube_bytes ! (i div 16 * (pixels * 16) + p * 16 + i mod 16) = dense ! (p * bpp + i)"
      by (simp add: atom_place_def add.assoc mult.assoc)
    with out(3) [OF p pi(2)] q show "out ! q = take (pixels * bpp) dense ! q" by (simp add: pi(1))
  qed
  with out(1) show ?thesis by simp
qed

lemma pack_of_compact:
  assumes bpp: "0 < bpp" "16 dvd bpp" and len: "length cube_bytes = pixels * bpp" "length dst = pixels * bpp"
    "length packed = pixels * bpp" "pixels * bpp < 2 ^ 64"
  shows "\<exists>dense. compact_atomic_output cube_bytes pixels pixels bpp 16 dst = Done (dense, pixels * bpp)
    \<and> pack_nhwc_to_nc1hwc2_padded dense pixels bpp bpp packed = Done (cube_bytes, pixels * bpp)"
proof -
  from bpp(2) obtain n where n: "bpp = n * 16" by (metis dvd_def mult.commute)
  have S: "div_ceil bpp 16 = n" by (simp add: n)
  have size: "pixels * div_ceil bpp 16 * 16 = pixels * bpp" by (simp add: S n mult.assoc)
  from compact_atomic_output_bytes [of 16 cube_bytes dst pixels bpp pixels] len size
  obtain dense where dense: "compact_atomic_output cube_bytes pixels pixels bpp 16 dst = Done (dense, pixels * bpp)"
    "length dense = length dst"
    "\<And>p i. p < pixels \<Longrightarrow> i < bpp \<Longrightarrow>
       dense ! (p * bpp + i) = cube_bytes ! (i div 16 * (pixels * 16) + p * 16 + i mod 16)"
    by auto
  have ok: "pack_ok dense pixels bpp bpp packed"
    using bpp len dense(2) unfolding pack_ok_def size by simp
  from pack_padded_bytes [OF ok] size obtain out where
    out: "pack_nhwc_to_nc1hwc2_padded dense pixels bpp bpp packed = Done (out, pixels * bpp)"
    "length out = length packed"
    "\<And>s p j. s < n \<Longrightarrow> p < pixels \<Longrightarrow> j < 16 \<Longrightarrow>
       out ! (atom_place pixels (s, p) + j) =
         (if s * 16 + j < bpp then dense ! (p * bpp + s * 16 + j) else 0)"
    unfolding S by auto
  have "out = cube_bytes"
  proof (rule nth_equalityI)
    show "length out = length cube_bytes" using out(2) len by simp
    fix q
    assume "q < length out"
    then have q: "q < n * pixels * 16" using out(2) len by (simp add: n mult.commute mult.left_commute)
    define j where "j = q mod 16"
    define p where "p = q div 16 mod pixels"
    define t where "t = q div 16 div pixels"
    have "q div 16 < n * pixels" using q by (simp add: less_mult_imp_div_less)
    then have pos: "0 < pixels" and t: "t < n" by (auto simp: t_def less_mult_imp_div_less intro: Nat.gr0I)
    have p: "p < pixels" using pos by (simp add: p_def)
    have qd: "q div 16 = t * pixels + p" by (simp add: t_def p_def)
    have "q = q div 16 * 16 + j" by (simp add: j_def)
    then have q_eq: "q = (t * pixels + p) * 16 + j" unfolding qd .
    then have place: "q = atom_place pixels (t, p) + j" by (simp add: atom_place_def algebra_simps)
    have j: "j < 16" by (simp add: j_def)
    have inside: "t * 16 + j < bpp" using t j by (simp add: n)
    have "dense ! (p * bpp + (t * 16 + j)) =
        cube_bytes ! ((t * 16 + j) div 16 * (pixels * 16) + p * 16 + (t * 16 + j) mod 16)"
      by (rule dense(3) [OF p inside])
    moreover have "(t * 16 + j) div 16 = t" "(t * 16 + j) mod 16 = j" using j by simp_all
    moreover have "t * (pixels * 16) + p * 16 + j = q" by (simp add: q_eq algebra_simps)
    ultimately show "out ! q = cube_bytes ! q"
      using out(3) [OF t p j] inside by (simp add: place [symmetric] add.assoc)
  qed
  with out(1) dense(1) show ?thesis by blast
qed

end
