(* ===== verification/TiledOutput.thy ===== *)
theory TiledOutput
  imports TensorProofs PlanProofs
begin

text \<open>
  The planner and the compactor together: when the tiles of a plan write their accumulators into
  the scratch ranges of the staged layout, the tiled compaction gathers the whole output image,
  each byte from the range of the one tile that owns its pixel.
\<close>

section \<open>Entries\<close>

definition entry_covers :: "nat \<Rightarrow> nat \<Rightarrow> accumulator_output_tile \<Rightarrow> bool" where
  "entry_covers r c e \<longleftrightarrow> output_row e \<le> r \<and> r < output_row e + output_rows e
     \<and> output_column e \<le> c \<and> c < output_column e + output_columns e"

definition entry_area :: "accumulator_output_tile \<Rightarrow> nat" where
  "entry_area e = output_rows e * output_columns e"

lemma entries_cover:
  "entries_of px off es ts stop \<Longrightarrow>
   length (filter (entry_covers r c) es) = length (filter (covers r c) ts)"
  by (induction px off es ts stop rule: entries_of.induct)
     (auto simp: entry_covers_def covers_def row_of_tile_def column_of_tile_def)

lemma entries_range:
  "entries_of px off es ts stop \<Longrightarrow> e \<in> set es \<Longrightarrow>
   scratch_bytes e = entry_area e * px \<and> scratch_offset e + scratch_bytes e \<le> stop
   \<and> (\<exists>t \<in> set ts. output_row e = out_first (t_rows t) \<and> output_rows e = out_rows (t_rows t)
        \<and> output_column e = col_out_first (t_columns t) \<and> output_columns e = col_out_cols (t_columns t))"
proof (induction px off es ts stop rule: entries_of.induct)
  case (2 pixel off e' es t ts stop)
  have le: "off + scratch_bytes e' \<le> stop" if "entries_of pixel (off + scratch_bytes e') es ts stop"
    using that
  proof (induction pixel "off + scratch_bytes e'" es ts stop arbitrary: off e' rule: entries_of.induct)
    case (2 pixel f es t ts stop)
    then show ?case by fastforce
  qed simp_all
  show ?case
  proof (cases "e = e'")
    case True
    with "2.prems" le show ?thesis by (auto simp: tile_area_def entry_area_def)
  next
    case False
    with 2 show ?thesis by auto
  qed
qed simp_all

lemma entries_sum:
  "entries_of px off es ts stop \<Longrightarrow> sum_list (map entry_area es) = sum_list (map tile_area ts)"
  by (induction px off es ts stop rule: entries_of.induct) (auto simp: tile_area_def entry_area_def)

lemma unique_filter:
  "length (filter P xs) = 1 \<Longrightarrow> x \<in> set xs \<Longrightarrow> y \<in> set xs \<Longrightarrow> P x \<Longrightarrow> P y \<Longrightarrow> x = y"
proof -
  assume l: "length (filter P xs) = 1" and xy: "x \<in> set xs" "y \<in> set xs" "P x" "P y"
  from l obtain z where "filter P xs = [z]" by (auto simp: length_Suc_conv)
  moreover from xy have "x \<in> set (filter P xs)" "y \<in> set (filter P xs)" by simp_all
  ultimately show "x = y" by simp
qed

section \<open>One tile\<close>

text \<open>The output pixels of an entry, in the order of the loops.\<close>

definition entry_pixels :: "nat \<Rightarrow> accumulator_output_tile \<Rightarrow> nat list" where
  "entry_pixels ow e = map (\<lambda>(r, c). (output_row e + r) * ow + output_column e + c)
     (rectangle 0 (output_rows e) 0 (output_columns e))"

text \<open>What block \<open>s\<close> of output pixel \<open>(r, c)\<close> of an entry reads.\<close>

definition entry_block :: "byte list \<Rightarrow> nat \<Rightarrow> nat \<Rightarrow> accumulator_output_tile \<Rightarrow> nat \<Rightarrow> nat \<Rightarrow> nat \<Rightarrow> byte list" where
  "entry_block scratch bpp block e r c s =
     source_block scratch bpp block
       (scratch_offset e + ((r - output_row e) * output_columns e + (c - output_column e)) * block)
       (entry_area e * block) s"

lemma local_pixel_bound:
  assumes "r < rows" and "c < (cols::nat)"
  shows "r * cols + c < rows * cols"
proof -
  have "r * cols + c < Suc r * cols" using assms(2) by simp
  also have "\<dots> \<le> rows * cols" using assms(1) by (intro mult_le_mono1) simp
  finally show ?thesis .
qed

lemma compact_tile_slots:
  assumes block: "0 < block" and area: "entry_area e < 2 ^ 64"
    and bytes: "scratch_bytes e = entry_area e * (blocks * block)"
    and range: "scratch_offset e + scratch_bytes e \<le> length scratch"
    and sizes: "length scratch < 2 ^ 64" "length dst < 2 ^ 64"
    and image: "output_row e + output_rows e \<le> oh" "output_column e + output_columns e \<le> ow"
      "length dst = oh * ow * bpp"
    and blocks: "div_ceil bpp block \<le> blocks"
    and val: "\<And>r c s. entry_covers r c e \<Longrightarrow> val (r * ow + c, s) = entry_block scratch bpp block e r c s"
  shows "compact_tile scratch ow bpp block e (dst, w) =
    Done (False, (write_slots (dense_place bpp block) val (pixel_keys bpp block (entry_pixels ow e)) dst,
                  w + entry_area e * bpp))"
proof -
  let ?S = "div_ceil bpp block" and ?stop = "scratch_offset e + scratch_bytes e"
  let ?rect = "rectangle 0 (output_rows e) 0 (output_columns e)"
  let ?pix = "\<lambda>(r, c). (output_row e + r) * ow + output_column e + c"
  have inside: "?pix (r, c) * bpp + bpp \<le> oh * ow * bpp" and
    "?pix (r, c) < oh * ow" if "r < output_rows e" "c < output_columns e" for r c
  proof -
    have "(output_row e + r) * ow + (output_column e + c) < oh * ow"
      using that image by (intro local_pixel_bound) simp_all
    then have lt: "?pix (r, c) < oh * ow" by (simp add: add.assoc)
    then show "?pix (r, c) < oh * ow" .
    from lt have "(?pix (r, c) + 1) * bpp \<le> oh * ow * bpp" by (intro mult_le_mono1) simp
    then show "?pix (r, c) * bpp + bpp \<le> oh * ow * bpp" by simp
  qed
  have body: "(case rc of (row, column) \<Rightarrow> \<lambda>st. compact_pixel scratch ?stop
        (scratch_offset e + (row * output_columns e + column) * block) (entry_area e * block) block bpp
        (?pix (row, column) * bpp) 0 st) (xs, w) =
      Done (False, (write_slots (dense_place bpp block) val (map (Pair (?pix rc)) [0..<?S]) xs, w + bpp))"
    if rc: "rc \<in> set ?rect" and len: "length xs = length dst" for rc w and xs :: "byte list"
  proof -
    obtain r c where rc_eq: "rc = (r, c)" and r: "r < output_rows e" and c: "c < output_columns e"
      using rc by (auto simp: rectangle_def)
    have cov: "entry_covers (output_row e + r) (output_column e + c) e"
      using r c by (simp add: entry_covers_def)
    have "r * output_columns e + c < entry_area e"
      using local_pixel_bound [OF r c] by (simp add: entry_area_def)
    then have fit: "(r * output_columns e + c) * block + s * (entry_area e * block) + block
        \<le> entry_area e * (blocks * block)" if "s < ?S" for s
      using that blocks by (intro atomic_source_fits [of _ _ s blocks]) (simp_all add: ac_simps)
    show ?thesis
      unfolding rc_eq prod.case
    proof (rule compact_pixel_whole [OF block])
      show "?stop \<le> length scratch" "?stop < 2 ^ 64" "length xs < 2 ^ 64"
        using range sizes len by simp_all
      show "((output_row e + r) * ow + output_column e + c) * bpp + bpp \<le> length xs"
        using inside [OF r c] image(3) len by simp
      fix s
      show "val ((output_row e + r) * ow + output_column e + c, s) =
        source_block scratch bpp block (scratch_offset e + (r * output_columns e + c) * block)
          (entry_area e * block) s"
        using val [OF cov, of s] by (simp add: entry_block_def add.assoc)
      assume "s < ?S"
      from fit [OF this]
      show "scratch_offset e + (r * output_columns e + c) * block + s * (entry_area e * block)
        + block_len bpp block s \<le> ?stop"
        by (simp add: bytes block_len_def)
    qed
  qed
  have len_val: "length (val (?pix (r, c), s)) \<le> block_len bpp block s"
    if "r < output_rows e" "c < output_columns e" for r c s
  proof -
    have "entry_covers (output_row e + r) (output_column e + c) e"
      using that by (simp add: entry_covers_def)
    from val [OF this, of s] show ?thesis
      by (simp add: entry_block_def source_block_def add.assoc)
  qed
  have "until_stopped ?rect (\<lambda>rc. case rc of (row, column) \<Rightarrow> \<lambda>st. compact_pixel scratch ?stop
        (scratch_offset e + (row * output_columns e + column) * block) (entry_area e * block) block bpp
        (?pix (row, column) * bpp) 0 st) (dst, w) =
    (Done (False, (write_slots (dense_place bpp block) val
        (concat (map (\<lambda>rc. map (Pair (?pix rc)) [0..<?S]) ?rect)) dst,
      w + sum_list (map (\<lambda>_. bpp) ?rect))) :: (bool \<times> byte list \<times> nat) layout_result)"
  proof (rule until_stopped_slots [where n = "length dst", OF body])
    show "\<forall>rc \<in> set ?rect. \<forall>k \<in> set (map (Pair (?pix rc)) [0..<?S]).
        dense_place bpp block k + length (val k) \<le> length dst"
    proof (intro ballI)
      fix rc k
      assume "rc \<in> set ?rect" "k \<in> set (map (Pair (?pix rc)) [0..<?S])"
      then obtain r c s where k: "k = (?pix (r, c), s)" "s < ?S" and rc: "r < output_rows e" "c < output_columns e"
        by (auto simp: rectangle_def)
      have "?pix (r, c) * bpp + bpp \<le> length dst" using inside [OF rc] image(3) by simp
      from dense_slot_fits [OF this k(2) block] len_val [OF rc, of s] k(1)
      show "dense_place bpp block k + length (val k) \<le> length dst" by fastforce
    qed
  qed simp_all
  moreover have "wrap64 (output_rows e * output_columns e) = entry_area e"
    using area by (simp add: entry_area_def)
  moreover have "checked_add64 (scratch_offset e) (scratch_bytes e) = Some ?stop"
    using range sizes by (simp add: checked_add64_def)
  moreover have "sum_list (map (\<lambda>_. bpp) ?rect) = entry_area e * bpp"
    by (simp add: sum_list_triv rectangle_def entry_area_def)
  moreover have "concat (map (\<lambda>rc. map (Pair (?pix rc)) [0..<?S]) ?rect) =
      pixel_keys bpp block (entry_pixels ow e)"
    by (simp add: pixel_keys_def entry_pixels_def comp_def)
  ultimately show ?thesis
    using range by (simp add: compact_tile_def Let_def case_prod_unfold del: checked_add64_Some)
qed

section \<open>The whole image\<close>

lemma entry_pixel_cases:
  assumes "q \<in> set (entry_pixels ow e)"
  obtains r c where "entry_covers r c e" and "q = r * ow + c"
proof -
  from assms obtain a b where "a < output_rows e" "b < output_columns e"
    "q = (output_row e + a) * ow + output_column e + b"
    by (auto simp: entry_pixels_def rectangle_def)
  then show thesis
    by (intro that [of "output_row e + a" "output_column e + b"]) (simp_all add: entry_covers_def)
qed

lemma entry_pixel_member:
  assumes "entry_covers r c e"
  shows "r * ow + c \<in> set (entry_pixels ow e)"
proof -
  have "(r - output_row e, c - output_column e) \<in> set (rectangle 0 (output_rows e) 0 (output_columns e))"
    using assms by (auto simp: entry_covers_def rectangle_def)
  moreover have "r * ow + c = (output_row e + (r - output_row e)) * ow + output_column e + (c - output_column e)"
    using assms by (simp add: entry_covers_def)
  ultimately show ?thesis unfolding entry_pixels_def by force
qed

lemma compact_tiled_entries:
  assumes block: "0 < block" and ow: "0 < ow"
    and entries: "entries_of (blocks * block) 0 es ts stop"
    and stop: "stop \<le> length scratch" "length scratch < 2 ^ 64"
    and dst: "length dst = oh * ow * bpp" "length dst < 2 ^ 64"
    and inside: "\<forall>e \<in> set es. output_row e + output_rows e \<le> oh \<and> output_column e + output_columns e \<le> ow
      \<and> entry_area e < 2 ^ 64"
    and once: "\<And>r c. r < oh \<Longrightarrow> c < ow \<Longrightarrow> length (filter (entry_covers r c) es) = 1"
    and area: "sum_list (map entry_area es) = oh * ow"
    and blocks: "div_ceil bpp block \<le> blocks"
  shows "\<exists>out. compact_tiled_accumulator_output scratch es ow bpp block dst = Done (out, oh * ow * bpp)
    \<and> length out = length dst
    \<and> (\<forall>r c e i. e \<in> set es \<longrightarrow> entry_covers r c e \<longrightarrow> i < bpp \<longrightarrow>
         out ! ((r * ow + c) * bpp + i) =
           scratch ! (scratch_offset e + i div block * (entry_area e * block)
             + ((r - output_row e) * output_columns e + (c - output_column e)) * block + i mod block))"
proof -
  let ?S = "div_ceil bpp block"
  define val where "val = (\<lambda>k. case find (entry_covers (fst k div ow) (fst k mod ow)) es of
      Some e \<Rightarrow> entry_block scratch bpp block e (fst k div ow) (fst k mod ow) (snd k) | None \<Rightarrow> [])"
  have cov: "r < oh \<and> c < ow" if "e \<in> set es" "entry_covers r c e" for e r c
  proof -
    from inside that(1) have "output_row e + output_rows e \<le> oh" "output_column e + output_columns e \<le> ow"
      by blast+
    with that(2) show ?thesis unfolding entry_covers_def by linarith
  qed
  have val_eq: "val (r * ow + c, s) = entry_block scratch bpp block e r c s"
    if e: "e \<in> set es" "entry_covers r c e" for e r c s
  proof -
    have rc: "r < oh" "c < ow" using cov [OF e] by simp_all
    have "find (entry_covers r c) es = Some e"
    proof (cases "find (entry_covers r c) es")
      case None
      with e show ?thesis by (auto simp: find_None_iff)
    next
      case (Some e')
      then have "e' \<in> set es" "entry_covers r c e'" by (auto simp: find_Some_iff)
      with unique_filter [OF once [OF rc] this(1) e(1)] e(2) Some show ?thesis by simp
    qed
    with rc show ?thesis by (simp add: val_def)
  qed
  note range = entries_range [OF entries]
  have "until_stopped es (compact_tile scratch ow bpp block) (dst, 0) =
    (Done (False, (write_slots (dense_place bpp block) val
        (concat (map (\<lambda>e. pixel_keys bpp block (entry_pixels ow e)) es)) dst,
      0 + sum_list (map (\<lambda>e. entry_area e * bpp) es))) :: (bool \<times> byte list \<times> nat) layout_result)"
  proof (rule until_stopped_slots [where n = "length dst"])
    fix e w and xs :: "byte list"
    assume e: "e \<in> set es" and len: "length xs = length dst"
    show "compact_tile scratch ow bpp block e (xs, w) =
      Done (False, (write_slots (dense_place bpp block) val (pixel_keys bpp block (entry_pixels ow e)) xs,
                    w + entry_area e * bpp))"
      using range [OF e] stop dst len inside e blocks val_eq [OF e]
      by (intro compact_tile_slots [OF block, of e blocks, where oh = oh]) auto
  next
    show "\<forall>e \<in> set es. \<forall>k \<in> set (pixel_keys bpp block (entry_pixels ow e)).
        dense_place bpp block k + length (val k) \<le> length dst"
    proof (intro ballI)
      fix e k
      assume e: "e \<in> set es" and k: "k \<in> set (pixel_keys bpp block (entry_pixels ow e))"
      obtain q s where ks: "k = (q, s)" by (cases k)
      with k have q: "q \<in> set (entry_pixels ow e)" and s: "s < ?S" by (simp_all add: set_pixel_keys)
      from q obtain r c where rc: "entry_covers r c e" "q = r * ow + c" by (rule entry_pixel_cases)
      have "(r * ow + c + 1) * bpp \<le> oh * ow * bpp"
        using local_pixel_bound [of r oh c ow] cov [OF e rc(1)] by (intro mult_le_mono1) simp
      then have "q * bpp + bpp \<le> length dst" by (simp add: rc(2) dst(1))
      from dense_slot_fits [OF this s block]
      have "dense_place bpp block k + block_len bpp block s \<le> length dst" by (simp add: ks)
      moreover have "length (val k) \<le> block_len bpp block s"
        using val_eq [OF e rc(1), of s] by (simp add: ks rc(2) entry_block_def source_block_def)
      ultimately show "dense_place bpp block k + length (val k) \<le> length dst" by simp
    qed
  qed simp
  moreover have "sum_list (map (\<lambda>e. entry_area e * bpp) es) = oh * ow * bpp"
    using area by (metis sum_list_mult_const)
  ultimately have result: "compact_tiled_accumulator_output scratch es ow bpp block dst =
    Done (write_slots (dense_place bpp block) val
        (concat (map (\<lambda>e. pixel_keys bpp block (entry_pixels ow e)) es)) dst, oh * ow * bpp)"
    using block ow by (simp add: compact_tiled_accumulator_output_def)
  let ?keys = "concat (map (\<lambda>e. pixel_keys bpp block (entry_pixels ow e)) es)"
  let ?out = "write_slots (dense_place bpp block) val ?keys dst"
  have fits: "scratch_offset e + ((r - output_row e) * output_columns e + (c - output_column e)) * block
      + s * (entry_area e * block) + block_len bpp block s \<le> length scratch"
    if e: "e \<in> set es" "entry_covers r c e" and s: "s < ?S" for e r c s
  proof -
    have "(r - output_row e) * output_columns e + (c - output_column e) < entry_area e"
      using e(2) unfolding entry_area_def entry_covers_def by (intro local_pixel_bound) linarith+
    then have "((r - output_row e) * output_columns e + (c - output_column e)) * block
        + s * (entry_area e * block) + block \<le> entry_area e * (blocks * block)"
      using s blocks by (intro atomic_source_fits [of _ _ s blocks]) (simp_all add: ac_simps)
    moreover have "block_len bpp block s \<le> block" by (simp add: block_len_def)
    ultimately show ?thesis using range [OF e(1)] stop(1) by linarith
  qed
  have slots: "\<forall>k \<in> set ?keys. length (val k) = block_len bpp block (snd k)
      \<and> dense_place bpp block k + block_len bpp block (snd k) \<le> length dst"
  proof
    fix k
    assume "k \<in> set ?keys"
    then obtain e q s where e: "e \<in> set es" and q: "q \<in> set (entry_pixels ow e)" and s: "s < ?S"
      and ks: "k = (q, s)" by (auto simp: set_pixel_keys)
    from q obtain r c where rc: "entry_covers r c e" "q = r * ow + c" by (rule entry_pixel_cases)
    have "(r * ow + c + 1) * bpp \<le> oh * ow * bpp"
      using local_pixel_bound [of r oh c ow] cov [OF e rc(1)] by (intro mult_le_mono1) simp
    then have "q * bpp + bpp \<le> length dst" by (simp add: rc(2) dst(1))
    from dense_slot_fits [OF this s block] fits [OF e rc(1) s] val_eq [OF e rc(1), of s]
    show "length (val k) = block_len bpp block (snd k)
      \<and> dense_place bpp block k + block_len bpp block (snd k) \<le> length dst"
      by (simp add: ks rc(2) entry_block_def source_block_def)
  qed
  have "?out ! ((r * ow + c) * bpp + i) =
      scratch ! (scratch_offset e + i div block * (entry_area e * block)
        + ((r - output_row e) * output_columns e + (c - output_column e)) * block + i mod block)"
    if e: "e \<in> set es" "entry_covers r c e" and i: "i < bpp" for r c e i
  proof -
    let ?s = "i div block" and ?j = "i mod block" and ?q = "r * ow + c"
    have s: "?s < ?S"
    proof (rule ccontr)
      assume "\<not> ?s < ?S"
      then have "bpp \<le> ?s * block" using div_ceil_le_iff [OF block, of bpp ?s] by simp
      with i show False using div_times_less_eq_dividend [of i block] by linarith
    qed
    have j: "?j < block_len bpp block ?s"
    proof -
      have "?s * block + ?j < bpp" "?j < block" using i block by simp_all
      then show ?thesis unfolding block_len_def by linarith
    qed
    have "(?q, ?s) \<in> set ?keys"
      using e entry_pixel_member [OF e(2)] s by (auto simp: set_pixel_keys)
    then have "?out ! (dense_place bpp block (?q, ?s) + ?j) = val (?q, ?s) ! ?j"
      using slots j by (intro dense.written) auto
    also have "\<dots> = scratch ! (scratch_offset e + ((r - output_row e) * output_columns e
        + (c - output_column e)) * block + ?s * (entry_area e * block) + ?j)"
      unfolding val_eq [OF e] entry_block_def by (rule source_block_nth [OF fits [OF e s] j])
    also have "dense_place bpp block (?q, ?s) + ?j = ?q * bpp + i" by (simp add: dense_place_def)
    finally show ?thesis by (simp add: ac_simps)
  qed
  moreover have "length ?out = length dst" using slots by (simp add: length_write_slots)
  ultimately show ?thesis using result by blast
qed

end
