(* ===== verification/Fp16Widening.thy ===== *)
theory Fp16Widening
  imports TensorLayout
begin

text \<open>
  What \<open>fp16_to_fp32_bits\<close> computes: the same number. A finite binary16 or binary32 word stands
  for a sign and a magnitude, a multiple of the format's smallest subnormal (2^-24 and 2^-149),
  and those are compared as natural numbers.
\<close>

section \<open>Fields and magnitudes\<close>

definition fraction16 :: "16 word \<Rightarrow> nat" where "fraction16 v = unat (v AND 0x03ff)"

definition exponent16 :: "16 word \<Rightarrow> nat" where "exponent16 v = unat (drop_bit 10 v AND 0x1f)"

definition magnitude16 :: "16 word \<Rightarrow> nat" where
  "magnitude16 v = (if exponent16 v = 0 then fraction16 v
                    else (1024 + fraction16 v) * 2 ^ (exponent16 v - 1))"

definition fraction32 :: "32 word \<Rightarrow> nat" where "fraction32 w = unat (w AND 0x7fffff)"

definition exponent32 :: "32 word \<Rightarrow> nat" where "exponent32 w = unat (drop_bit 23 w AND 0xff)"

definition magnitude32 :: "32 word \<Rightarrow> nat" where
  "magnitude32 w = (if exponent32 w = 0 then fraction32 w
                    else (2 ^ 23 + fraction32 w) * 2 ^ (exponent32 w - 1))"

lemma push32: "bit (push_bit k (x :: 32 word)) n \<longleftrightarrow> k \<le> n \<and> n < 32 \<and> bit x (n - k)"
  by (auto simp: bit_push_bit_iff)

text \<open>The masks of the source, bit by bit.\<close>

lemma bit_masks:
  "bit (0x03ff :: 16 word) n \<longleftrightarrow> n < 10" "bit (0x1f :: 16 word) n \<longleftrightarrow> n < 5"
  "bit (0x7fffff :: 32 word) n \<longleftrightarrow> n < 23" "bit (0xff :: 32 word) n \<longleftrightarrow> n < 8"
  "bit (0x03ff :: 32 word) n \<longleftrightarrow> n < 10" "bit (0x0400 :: 32 word) n \<longleftrightarrow> n = 10"
  "bit (0x8000 :: 32 word) n \<longleftrightarrow> n = 15" "bit (0x7f800000 :: 32 word) n \<longleftrightarrow> 23 \<le> n \<and> n < 31"
proof -
  have m: "(0x03ff :: 16 word) = mask 10" "(0x1f :: 16 word) = mask 5" "(0x7fffff :: 32 word) = mask 23"
    "(0xff :: 32 word) = mask 8" "(0x03ff :: 32 word) = mask 10" "(0x400 :: 32 word) = 2 ^ 10"
    "(0x8000 :: 32 word) = 2 ^ 15" "(0x7f800000 :: 32 word) = push_bit 23 (mask 8)"
    by (simp_all add: mask_eq_exp_minus_1 push_bit_eq_mult)
  show "bit (0x03ff :: 16 word) n \<longleftrightarrow> n < 10" "bit (0x1f :: 16 word) n \<longleftrightarrow> n < 5"
    "bit (0x7fffff :: 32 word) n \<longleftrightarrow> n < 23" "bit (0xff :: 32 word) n \<longleftrightarrow> n < 8"
    "bit (0x03ff :: 32 word) n \<longleftrightarrow> n < 10"
    unfolding m by (simp_all only: bit_mask_iff) auto
  show "bit (0x0400 :: 32 word) n \<longleftrightarrow> n = 10" "bit (0x8000 :: 32 word) n \<longleftrightarrow> n = 15"
    "bit (0x7f800000 :: 32 word) n \<longleftrightarrow> 23 \<le> n \<and> n < 31"
    unfolding m by (auto simp only: bit_exp_iff push32 bit_mask_iff possible_bit_word) simp_all
qed

section \<open>Assembling a word\<close>

lemma high_bits:
  fixes w :: "'a::len word"
  assumes "unat w < 2 ^ m" and "m \<le> n"
  shows "\<not> bit w n"
proof -
  have "(2::nat) ^ m \<le> 2 ^ n" using assms(2) by simp
  then have "unat w < 2 ^ n" using assms(1) by (rule less_le_trans [rotated])
  then have "unat w div 2 ^ n = 0" by (rule div_less)
  then have "\<not> bit (unat w) n" by (simp add: bit_iff_odd)
  then show ?thesis using bit_imp_le_length [of w n] by (auto simp: bit_unsigned_iff)
qed

lemma assembled_fields:
  fixes v :: "16 word" and E F :: "32 word"
  assumes E: "unat E < 256" and F: "unat F < 1024"
  defines "r \<equiv> push_bit 16 (ucast v AND 0x8000) OR push_bit 23 E OR push_bit 13 F"
  shows "exponent32 r = unat E" "fraction32 r = unat F * 2 ^ 13" "bit r 31 = bit v 15"
proof -
  have E': "\<not> bit E n" if "8 \<le> n" for n using high_bits [of E 8 n] E that by simp
  have F': "\<not> bit F n" if "10 \<le> n" for n using high_bits [of F 10 n] F that by simp
  have bits: "bit r n \<longleftrightarrow> n = 31 \<and> bit v 15 \<or> 23 \<le> n \<and> n < 31 \<and> bit E (n - 23)
      \<or> 13 \<le> n \<and> n < 23 \<and> bit F (n - 13)" for n
  proof -
    have "bit (push_bit 16 (ucast v AND 0x8000) :: 32 word) n \<longleftrightarrow> n = 31 \<and> bit v 15"
    proof -
      have sign: "bit (ucast v AND 0x8000 :: 32 word) m \<longleftrightarrow> m = 15 \<and> bit v 15" for m
        by (simp only: bit_and_iff bit_masks bit_ucast_iff) auto
      show ?thesis unfolding push32 sign by auto
    qed
    moreover have "bit (push_bit 23 E) n \<longleftrightarrow> 23 \<le> n \<and> n < 31 \<and> bit E (n - 23)"
      using E' [of "n - 23"] by (cases "n < 31") (auto simp: bit_push_bit_iff)
    moreover have "bit (push_bit 13 F) n \<longleftrightarrow> 13 \<le> n \<and> n < 23 \<and> bit F (n - 13)"
      using F' [of "n - 13"] by (cases "n < 23") (auto simp: bit_push_bit_iff)
    ultimately show ?thesis unfolding r_def bit_or_iff by blast
  qed
  have "drop_bit 23 r AND 0xff = E"
  proof (rule bit_word_eqI)
    fix n
    assume "n < LENGTH(32)"
    have "bit (drop_bit 23 r AND 0xff) n \<longleftrightarrow> n < 8 \<and> bit r (23 + n)"
      by (simp only: bit_and_iff bit_drop_bit_eq bit_masks o_apply conj_commute add.commute)
    also have "\<dots> \<longleftrightarrow> bit E n" using E' [of n] by (cases "n < 8") (auto simp: bits)
    finally show "bit (drop_bit 23 r AND 0xff) n \<longleftrightarrow> bit E n" .
  qed
  then show "exponent32 r = unat E" by (simp add: exponent32_def)
  have "r AND 0x7fffff = push_bit 13 F"
  proof (rule bit_word_eqI)
    fix n
    assume "n < LENGTH(32)"
    then have "bit (push_bit 13 F) n \<longleftrightarrow> 13 \<le> n \<and> bit F (n - 13)" by (auto simp: bit_push_bit_iff)
    moreover have "bit (r AND 0x7fffff) n \<longleftrightarrow> n < 23 \<and> bit r n" 
      by (simp only: bit_and_iff bit_masks conj_commute)
    moreover have "n < 23" if "bit F (n - 13)" using F' [of "n - 13"] that by linarith
    ultimately show "bit (r AND 0x7fffff) n \<longleftrightarrow> bit (push_bit 13 F) n" by (auto simp: bits)
  qed
  moreover have "unat (push_bit 13 F) = unat F * 2 ^ 13"
    using F by (simp add: push_bit_eq_mult unat_word_ariths)
  ultimately show "fraction32 r = unat F * 2 ^ 13" by (simp add: fraction32_def)
  show "bit r 31 = bit v 15" by (simp add: bits)
qed


section \<open>Normalising a subnormal\<close>

lemma leading_bit:
  assumes "m < 2048"
  shows "(of_nat m :: 32 word) AND 0x0400 = 0 \<longleftrightarrow> m < 1024"
proof -
  let ?w = "of_nat m :: 32 word"
  have b: "bit (?w AND 0x0400) n \<longleftrightarrow> bit ?w n \<and> n = 10" for n
    by (simp only: bit_and_iff bit_masks)
  have "?w AND 0x0400 = 0 \<longleftrightarrow> \<not> bit ?w 10"
  proof
    assume zero: "?w AND 0x0400 = 0"
    show "\<not> bit ?w 10" using b [of 10] unfolding zero by simp
  next
    assume "\<not> bit ?w 10"
    then show "?w AND 0x0400 = 0" by (intro bit_word_eqI) (simp only: b bit_0_eq bot_apply bot_bool_def, blast)
  qed
  also have "bit ?w 10 \<longleftrightarrow> bit m 10" by (simp add: bit_of_nat_iff)
  also have "bit m 10 \<longleftrightarrow> odd (m div 1024)" by (simp add: bit_iff_odd)
  also have "(\<not> odd (m div 1024)) \<longleftrightarrow> m < 1024"
  proof -
    have "m div 1024 < 2" using assms by (simp add: less_mult_imp_div_less)
    then consider "m div 1024 = 0" | "m div 1024 = 1" by linarith
    then show ?thesis by cases auto
  qed
  finally show ?thesis .
qed

text \<open>Ten rounds are enough: the loop always ends with the leading bit in place.\<close>

lemma normalize_subnormal_exact:
  assumes "0 < m" "m < 2048" "1024 \<le> m * 2 ^ fuel"
  shows "\<exists>k. normalize_subnormal (of_nat m) e fuel = (of_nat (m * 2 ^ k), e - int k)
    \<and> 1024 \<le> m * 2 ^ k \<and> m * 2 ^ k < 2048 \<and> k \<le> fuel"
  using assms
proof (induction fuel arbitrary: m e)
  case 0
  then show ?case
    by (intro exI [of _ 0]) (simp add: normalize_subnormal.simps [of _ _ 0])
next
  case (Suc fuel)
  show ?case
  proof (cases "m < 1024")
    case False
    then have "normalize_subnormal (of_nat m) e (Suc fuel) = (of_nat m, e)"
      using leading_bit [OF Suc.prems(2)] by (simp add: normalize_subnormal.simps [of _ _ "Suc fuel"])
    with False Suc.prems show ?thesis by (intro exI [of _ 0]) simp
  next
    case True
    then have step: "normalize_subnormal (of_nat m) e (Suc fuel) = normalize_subnormal (of_nat (2 * m)) (e - 1) fuel"
      using leading_bit [OF Suc.prems(2)]
      by (simp add: normalize_subnormal.simps [of _ _ "Suc fuel"] push_bit_eq_mult mult.commute)
    from Suc.IH [of "2 * m" "e - 1"] True Suc.prems obtain k where
      k: "normalize_subnormal (of_nat (2 * m)) (e - 1) fuel = (of_nat (2 * m * 2 ^ k), e - 1 - int k)"
        "1024 \<le> 2 * m * 2 ^ k" "2 * m * 2 ^ k < 2048" "k \<le> fuel"
      by (auto simp: mult.commute mult.left_commute)
    have p: "m * 2 ^ Suc k = 2 * m * 2 ^ k" by simp
    show ?thesis
      by (rule exI [of _ "Suc k"], unfold step p k(1)) (use k(2-4) in simp)
  qed
qed

lemma unat_widen: "unat (ucast (w :: 16 word) :: 32 word) = unat w"
proof -
  have "unat w < 2 ^ 16" using unsigned_less [of w] by simp
  then have "take_bit 32 (unat w) = unat w" by (intro take_bit_nat_eq_self) simp
  then show ?thesis by (simp add: unsigned_ucast_eq)
qed

lemma low_fraction:
  assumes "n < 2048"
  shows "unat (of_nat n AND 0x03ff :: 32 word) = n mod 1024"
proof -
  have "(of_nat n AND 0x03ff :: 32 word) = take_bit 10 (of_nat n)"
    by (simp add: take_bit_eq_mask mask_eq_exp_minus_1)
  then have "unat (of_nat n AND 0x03ff :: 32 word) = take_bit 10 (unat (of_nat n :: 32 word))"
    by (simp only: unsigned_take_bit_eq)
  also have "unat (of_nat n :: 32 word) = n" using assms by (simp add: unat_of_nat)
  finally show ?thesis by (simp add: take_bit_eq_mod)
qed

lemma normal_magnitude:
  fixes f e :: nat
  assumes "0 < e"
  shows "(2 ^ 23 + f * 2 ^ 13) * 2 ^ (e + 112 - 1) = (1024 + f) * 2 ^ (e - 1) * 2 ^ 125"
proof -
  from assms obtain n where e: "e = Suc n" by (cases e) simp_all
  have "(2::nat) ^ 13 * 2 ^ (e + 112 - 1) = 2 ^ (e - 1) * 2 ^ 125"
    unfolding power_add [symmetric] by (simp add: e)
  moreover have "2 ^ 23 + f * 2 ^ 13 = (1024 + f) * 2 ^ 13" by simp
  ultimately show ?thesis by (simp only: mult.assoc)
qed

section \<open>The widening is exact\<close>

lemma fp16_exact:
  defines "r \<equiv> \<lambda>v. fp16_to_fp32_bits v"
  shows "bit (r v) 31 = bit v 15
    \<and> (if exponent16 v = 31 then exponent32 (r v) = 255 \<and> fraction32 (r v) = fraction16 v * 2 ^ 13
       else magnitude32 (r v) = magnitude16 v * 2 ^ 125)"
proof -
  let ?e = "drop_bit 10 v AND 0x1f" and ?f = "v AND 0x03ff"
  let ?sign = "push_bit 16 (ucast v AND 0x8000) :: 32 word"
  have e: "unat ?e < 32" and f: "unat ?f < 1024"
  proof -
    have "?e \<le> 0x1f" "?f \<le> 0x03ff" by (rule word_and_le1)+
    then show "unat ?e < 32" "unat ?f < 1024" by (simp_all add: word_le_nat_alt)
  qed
  have uf: "unat (ucast ?f :: 32 word) = unat ?f" and ue: "unat (ucast ?e :: 32 word) = unat ?e"
    by (simp_all add: unat_widen)
  note fields = assembled_fields [where v = v]
  show ?thesis
  proof (cases "unat ?e = 0")
    case zero: True
    then have e0: "?e = 0" by (simp add: unat_eq_0)
    show ?thesis
    proof (cases "unat ?f = 0")
      case True
      then have f0: "?f = 0" by (simp add: unat_eq_0)
      have "r v = ?sign OR push_bit 23 0 OR push_bit 13 0"
        by (simp add: r_def fp16_to_fp32_bits_def e0 f0)
      with fields [of 0 0] show ?thesis
        by (simp add: magnitude32_def magnitude16_def exponent16_def fraction16_def e0 f0)
    next
      case False
      then obtain k where k: "normalize_subnormal (of_nat (unat ?f)) (- 14) 10 =
          (of_nat (unat ?f * 2 ^ k), - 14 - int k)"
        "1024 \<le> unat ?f * 2 ^ k" "unat ?f * 2 ^ k < 2048" "k \<le> 10"
        using normalize_subnormal_exact [of "unat ?f" 10 "- 14"] f by auto
      let ?n = "unat ?f * 2 ^ k"
      let ?E = "of_int (- 14 - int k + 127) :: 32 word" and ?F = "of_nat ?n AND 0x03ff :: 32 word"
      have "- 14 - int k + 127 = int (113 - k)" using k(4) by simp
      then have E': "?E = of_nat (113 - k)" by (simp only: of_int_of_nat_eq)
      have E: "unat ?E = 113 - k" unfolding E' by (simp add: unat_of_nat)
      have "unat ?F = ?n mod 1024" by (rule low_fraction [OF k(3)])
      then have F: "unat ?F = ?n - 1024" using k(2,3) by (simp add: mod_if)
      have nf: "of_nat (unat ?f) = (ucast ?f :: 32 word)"
        by (simp only: of_nat_unat)
      have f0: "(?f = 0) = False" using False by (simp only: flip: unat_eq_0)
      have "r v = ?sign OR push_bit 23 ?E OR push_bit 13 ?F"
        by (simp only: r_def fp16_to_fp32_bits_def Let_def e0 f0 simp_thms if_True if_False
            k(1) [unfolded nf] prod.case)
      with fields [of ?E ?F] E F k(3,4) have "bit (r v) 31 = bit v 15" "exponent32 (r v) = 113 - k"
        "fraction32 (r v) = (?n - 1024) * 2 ^ 13"
        by simp_all
      moreover have "(2 ^ 23 + (?n - 1024) * 2 ^ 13) * 2 ^ (113 - k - 1) = unat ?f * 2 ^ 125"
      proof -
        have "2 ^ 23 + (?n - 1024) * 2 ^ 13 = ?n * 2 ^ 13" using k(2) by (simp add: diff_mult_distrib)
        moreover have "(2::nat) ^ k * 2 ^ 13 * 2 ^ (113 - k - 1) = 2 ^ (k + 13 + (113 - k - 1))"
          by (simp only: power_add)
        moreover have "k + 13 + (113 - k - 1) = 125" using k(4) by simp
        ultimately show ?thesis by (simp only: mult.assoc)
      qed
      ultimately show ?thesis
        using zero k(4) by (simp add: magnitude32_def magnitude16_def exponent16_def fraction16_def e0)
    qed
  next
    case nonzero: False
    then have e0: "?e \<noteq> 0" by (metis unat_0)
    show ?thesis
    proof (cases "unat ?e = 31")
      case True
      have e31: "?e = 31" by (rule unsigned_word_eqI [where 'a = nat]) (simp add: True) 
      have "r v = ?sign OR push_bit 23 0xff OR push_bit 13 (ucast ?f)"
        by (simp add: r_def fp16_to_fp32_bits_def e31)
      with fields [of "0xff" "ucast ?f"] f uf True show ?thesis
        by (simp add: exponent16_def fraction16_def)
    next
      case False
      then have e31: "?e \<noteq> 31" by auto
      let ?E = "ucast ?e + (127 - 15) :: 32 word"
      have "r v = ?sign OR push_bit 23 ?E OR push_bit 13 (ucast ?f)"
        using e0 e31 by (simp add: r_def fp16_to_fp32_bits_def Let_def)
      moreover have "unat ?E = unat ?e + 112" using e ue by (simp add: unat_word_ariths)
      ultimately have "bit (r v) 31 = bit v 15" "exponent32 (r v) = unat ?e + 112"
        "fraction32 (r v) = unat ?f * 2 ^ 13"
        using fields [of ?E "ucast ?f"] f uf e by simp_all
      moreover have "(2 ^ 23 + unat ?f * 2 ^ 13) * 2 ^ (unat ?e + 112 - 1)
          = (1024 + unat ?f) * 2 ^ (unat ?e - 1) * 2 ^ 125"
        using nonzero by (intro normal_magnitude) simp
      ultimately show ?thesis
        using nonzero False
        by (simp only: magnitude32_def magnitude16_def exponent16_def fraction16_def if_False
            add_is_0 zero_neq_numeral simp_thms)
    qed
  qed
qed

end
