(* ===== verification/TensorProperties.thy ===== *)
theory TensorProperties
  imports TiledOutput Fp16Widening Samples
begin

text \<open>
  What the layout contract and the host transforms promise: the layout word round-trips, packing
  puts every byte where the hardware reads it, compaction undoes it, chaining is exactly the
  identity \<open>pack(compact(cube)) = cube\<close>, the tiled gather rebuilds the image, the bias stream
  holds the same numbers.
\<close>

section \<open>The layout word\<close>

text \<open>
  Round trip: a dispatch's layout word and its two halves carry the same information, and
  the per-input flag is the corresponding bit of the word; past the sixteenth input it is false.
\<close>

theorem layout_word_round_trips:
  "from_word (to_word l) = l \<and> to_word (from_word w) = w
   \<and> (input_packed (from_word w) i \<longleftrightarrow> i < 16 \<and> bit w i)"
proof -
  have "bit (packed_inputs (from_word w)) i \<longleftrightarrow> i < 16 \<and> bit w i"
    by (auto simp: from_word_def bit_ucast_iff bit_and_iff bit_low16 dest: bit_imp_le_length)
  then have "input_packed (from_word w) i \<longleftrightarrow> i < 16 \<and> bit w i"
    unfolding input_packed_def bit_iff_and_push_bit_not_eq_0 [symmetric] by blast
  then show ?thesis by (simp add: from_to_word to_from_word)
qed

section \<open>Packing\<close>

lemma pack_refuses:
  assumes "\<not> pack_ok dense pixels bpp packed_bpp packed"
  shows "\<exists>e. pack_nhwc_to_nc1hwc2_padded dense pixels bpp packed_bpp packed = Refused e"
  using assms
  by (auto simp: pack_nhwc_to_nc1hwc2_padded_def pack_ok_def nc1hwc2_storage_size_def
      FEATURE_ATOMIC_BYTES_def checked_mul64_def bind_eq_Some_conv
      split: Option.bind_splits if_splits)

text \<open>
  C12 (functional): packing succeeds exactly when the declared sizes fit, refusing otherwise and
  never panicking. When it succeeds, byte \<open>j\<close> of pixel \<open>p\<close>'s atom in surface \<open>s\<close> is the dense
  byte \<open>16 s + j\<close> of that pixel, zero past the pixel's width, and bytes past the packed size are
  left alone.
\<close>

theorem packing_is_exact:
  "if pack_ok dense pixels bpp packed_bpp packed
   then \<exists>out. pack_nhwc_to_nc1hwc2_padded dense pixels bpp packed_bpp packed =
          Done (out, pixels * div_ceil packed_bpp 16 * 16)
      \<and> length out = length packed
      \<and> (\<forall>s p j. s < div_ceil packed_bpp 16 \<longrightarrow> p < pixels \<longrightarrow> j < 16 \<longrightarrow>
           out ! ((s * pixels + p) * 16 + j) =
             (if s * 16 + j < bpp then dense ! (p * bpp + s * 16 + j) else 0))
      \<and> (\<forall>i. pixels * div_ceil packed_bpp 16 * 16 \<le> i \<longrightarrow> i < length packed \<longrightarrow> out ! i = packed ! i)
   else \<exists>e. pack_nhwc_to_nc1hwc2_padded dense pixels bpp packed_bpp packed = Refused e"
proof -
  have place: "atom_place pixels (s, p) = (s * pixels + p) * 16" for s p
    by (simp add: atom_place_def algebra_simps)
  show ?thesis
    using pack_padded_bytes [of dense pixels bpp packed_bpp packed]
      pack_refuses [of dense pixels bpp packed_bpp packed]
    unfolding place by simp
qed

theorem packing_is_exact_witness:
  "\<exists>out. pack_nhwc_to_nc1hwc2 [1, 2, 3, 4, 5, 6] 2 3 (replicate 40 9) = Done (out, 32)
     \<and> out ! 17 = 5 \<and> out ! 3 = 0 \<and> out ! 35 = 9"
proof -
  have d: "div_ceil 3 16 = 1" by (simp add: div_ceil_def)
  let ?dense = "[1, 2, 3, 4, 5, 6] :: byte list" and ?packed = "replicate 40 9 :: byte list"
  have ok: "pack_ok ?dense 2 3 3 ?packed" by (simp add: pack_ok_def d)
  from packing_is_exact [of ?dense 2 3 3 ?packed] obtain out where
    out: "pack_nhwc_to_nc1hwc2_padded ?dense 2 3 3 ?packed = Done (out, 32)"
    and body: "\<And>s p j. s < 1 \<Longrightarrow> p < 2 \<Longrightarrow> j < 16 \<Longrightarrow> out ! ((s * 2 + p) * 16 + j) =
             (if s * 16 + j < 3 then ?dense ! (p * 3 + s * 16 + j) else 0)"
    and rest: "\<And>i. 32 \<le> i \<Longrightarrow> i < 40 \<Longrightarrow> out ! i = ?packed ! i"
    unfolding if_P [OF ok] d by (auto)
  have "out ! 17 = 5" using body [of 0 1 1] by simp
  moreover have "out ! 3 = 0" using body [of 0 0 3] by simp
  moreover have "out ! 35 = 9" using rest [of 35] by (simp add: nth_replicate)
  ultimately show ?thesis using out by (auto simp: pack_nhwc_to_nc1hwc2_def)
qed

text \<open>
  C13 (round trip): compacting a packed cube over as many pixels gives back the dense bytes, for
  every dense width, every padded width and whatever the destinations held.
\<close>

theorem compaction_undoes_packing:
  assumes "pack_nhwc_to_nc1hwc2_padded dense pixels bpp packed_bpp packed = Done (cube_bytes, n)"
    and "0 < bpp" and "length packed < 2 ^ 64" and "length dst = pixels * bpp"
  shows "compact_atomic_output cube_bytes pixels pixels bpp 16 dst =
    Done (take (pixels * bpp) dense, pixels * bpp)"
proof -
  have ok: "pack_ok dense pixels bpp packed_bpp packed"
    using pack_refuses [of dense pixels bpp packed_bpp packed] assms(1) by fastforce
  then have "pixels * bpp < 2 ^ 64" by (simp add: pack_ok_def)
  with assms ok show ?thesis by (intro compact_of_pack) simp_all
qed

theorem compaction_undoes_packing_witness:
  "\<exists>cube_bytes. pack_nhwc_to_nc1hwc2 [1, 2, 3, 4, 5, 6] 2 3 (replicate 40 9) = Done (cube_bytes, 32)
     \<and> compact_atomic_output cube_bytes 2 2 3 16 (replicate 6 0) = Done ([1, 2, 3, 4, 5, 6], 6)"
proof -
  have d: "div_ceil 3 16 = 1" by (simp add: div_ceil_def)
  let ?dense = "[1, 2, 3, 4, 5, 6] :: byte list" and ?packed = "replicate 40 9 :: byte list"
  have "pack_ok ?dense 2 3 3 ?packed" by (simp add: pack_ok_def d)
  from pack_padded_bytes [OF this] obtain out where
    out: "pack_nhwc_to_nc1hwc2_padded ?dense 2 3 3 ?packed = Done (out, 32)"
    by (auto simp: d)
  from compaction_undoes_packing [OF this, of "replicate 6 0"] out show ?thesis
    by (auto simp: pack_nhwc_to_nc1hwc2_def)
qed

section \<open>Chaining\<close>

lemma dense_cube_geometry:
  assumes "cube_geometry kind element w h channels = Done g" and "\<not> is_ppu kind"
  shows "surface_pixel_count g = pixel_count g" "0 < pixel_count g" "0 < bytes_per_pixel g"
    "bytes_per_pixel g \<le> packed_bytes_per_pixel g"
  using cube_geometry_Done [OF assms(1)] assms(2)
    next_multiple_of_ge [of 16 "max channels 16"] by (auto intro: mult_le_mono1 le_trans)

lemma storage_bytes_Done:
  assumes "storage_bytes g = Done n"
  shows "n = surface_pixel_count g * div_ceil (packed_bytes_per_pixel g) 16 * 16" "n < 2 ^ 64"
proof -
  from assms obtain v where "checked_mul64 (surface_pixel_count g) (packed_surfaces g) = Some v"
    "checked_mul64 v FEATURE_ATOM_BYTES = Some n"
    by (auto simp: storage_bytes_def ok_or_eq_Done bind_eq_Some_conv simp del: checked_mul64_Some)
  then show "n = surface_pixel_count g * div_ceil (packed_bytes_per_pixel g) 16 * 16" "n < 2 ^ 64"
    unfolding checked_mul64_Some by (simp_all add: packed_surfaces_def FEATURE_ATOM_BYTES_def)
qed

lemma can_chain_iff:
  "can_chain g = Done u \<longleftrightarrow> is_whole_atom g \<and> packed_bytes_per_pixel g = bytes_per_pixel g"
  by (simp add: can_chain_def refuse_unless_eq_Done)

text \<open>
  C14 (equivalence): for a reader other than the PPU, \<open>can_chain\<close> holds exactly when every img
  of the reader's packed size is the packing of some dense tensor. So a reader that may chain can
  read any producer's bytes as they are, and one that is refused would see bytes its repack
  zeroes.
\<close>

theorem can_chain_iff_every_image_is_packed:
  assumes g: "cube_geometry kind element w h channels = Done g" and k: "\<not> is_ppu kind"
    and n: "storage_bytes g = Done n"
  shows "can_chain g = Done () \<longleftrightarrow>
    (\<forall>img. length img = n \<longrightarrow>
       (\<exists>dense. length dense = pixel_count g * bytes_per_pixel g
          \<and> pack_nhwc_to_nc1hwc2_padded dense (pixel_count g) (bytes_per_pixel g)
               (packed_bytes_per_pixel g) (replicate n 0) = Done (img, n)))"
proof -
  let ?px = "pixel_count g" and ?b = "bytes_per_pixel g" and ?pb = "packed_bytes_per_pixel g"
  note geo = dense_cube_geometry [OF g k]
  have size: "n = ?px * div_ceil ?pb 16 * 16" "n < 2 ^ 64"
    using storage_bytes_Done [OF n] geo(1) by simp_all
  show ?thesis
  proof
    assume "can_chain g = Done ()"
    then have eq: "?pb = ?b" and whole: "16 dvd ?b"
      by (simp_all add: can_chain_iff is_whole_atom_def FEATURE_ATOM_BYTES_def dvd_eq_mod_eq_0)
    from whole have S: "div_ceil ?b 16 * 16 = ?b" by (auto simp: mult.commute [of 16] elim!: dvdE)
    then have n': "n = ?px * ?b" using eq by (simp add: size(1) mult.assoc)
    show "\<forall>img. length img = n \<longrightarrow>
       (\<exists>dense. length dense = ?px * ?b
          \<and> pack_nhwc_to_nc1hwc2_padded dense ?px ?b ?pb (replicate n 0) = Done (img, n))"
    proof (intro allI impI)
      fix img :: "byte list"
      assume len: "length img = n"
      from pack_of_compact [OF geo(3) whole, of img ?px "replicate n 0" "replicate n 0"] len n' size(2)
      obtain dense where d: "compact_atomic_output img ?px ?px ?b 16 (replicate n 0) = Done (dense, ?px * ?b)"
        "pack_nhwc_to_nc1hwc2_padded dense ?px ?b ?b (replicate n 0) = Done (img, ?px * ?b)"
        by auto
      moreover have "length dense = n"
        using compact_atomic_output_bytes [of 16 img "replicate n 0" ?px ?b ?px] d(1) len n' size(2) S
        by (auto simp: mult.assoc)
      ultimately show "\<exists>dense. length dense = ?px * ?b
          \<and> pack_nhwc_to_nc1hwc2_padded dense ?px ?b ?pb (replicate n 0) = Done (img, n)"
        using n' eq by auto
    qed
  next
    assume all: "\<forall>img. length img = n \<longrightarrow>
       (\<exists>dense. length dense = ?px * ?b
          \<and> pack_nhwc_to_nc1hwc2_padded dense ?px ?b ?pb (replicate n 0) = Done (img, n))"
    show "can_chain g = Done ()"
    proof (rule ccontr)
      assume "can_chain g \<noteq> Done ()"
      with geo(3) have "?b mod 16 \<noteq> 0 \<or> ?pb \<noteq> ?b"
        by (auto simp: can_chain_iff is_whole_atom_def FEATURE_ATOM_BYTES_def)
      moreover have "?pb \<le> div_ceil ?pb 16 * 16" by (rule div_ceil_mult_ge) simp
      ultimately have less: "?b < div_ceil ?pb 16 * 16" 
      proof -
        let ?D = "div_ceil ?pb 16"
        have False if "?b = ?D * 16"
        proof -
          have "?pb = ?b" using that geo(4) \<open>?pb \<le> ?D * 16\<close> by linarith
          moreover have "?b mod 16 = 0" unfolding that by simp
          ultimately show False using \<open>?b mod 16 \<noteq> 0 \<or> ?pb \<noteq> ?b\<close> by simp
        qed
        then have "?b \<noteq> ?D * 16" by blast
        then show ?thesis using geo(4) \<open>?pb \<le> ?D * 16\<close> by linarith
      qed
      let ?s = "?b div 16" and ?j = "?b mod 16"
      have s: "?s < div_ceil ?pb 16" using less by (simp add: less_mult_imp_div_less)
      from all obtain dense where d: "length dense = ?px * ?b"
        "pack_nhwc_to_nc1hwc2_padded dense ?px ?b ?pb (replicate n 0) = Done (replicate n 1, n)"
        by (metis length_replicate)
      have ok: "pack_ok dense ?px ?b ?pb (replicate n 0)"
        using pack_refuses [of dense ?px ?b ?pb "replicate n 0"] d(2) by fastforce
      from pack_padded_bytes [OF ok] d(2)
      have "replicate n (1::byte) ! (atom_place ?px (?s, 0) + ?j) =
          (if ?s * 16 + ?j < ?b then dense ! (0 * ?b + ?s * 16 + ?j) else 0)"
        using s geo(2) by auto
      moreover have "atom_place ?px (?s, 0) + ?j < n"
        using atom_fits [OF s geo(2)] size(1) by (simp add: mult.commute mult.left_commute)
      ultimately show False by simp
    qed
  qed
qed

theorem can_chain_iff_every_image_is_packed_witness:
  "\<exists>g dense. cube_geometry Conv 2 3 5 32 = Done g \<and> length dense = 960
     \<and> pack_nhwc_to_nc1hwc2_padded dense 15 64 64 (replicate 960 0) = Done (replicate 960 7, 960)"
proof -
  let ?g = "\<lparr>pixel_count = 15, surface_pixel_count = 15, bytes_per_pixel = 64,
     packed_bytes_per_pixel = 64\<rparr>"
  have g: "cube_geometry Conv 2 3 5 32 = Done ?g"
    by (simp add: cube_geometry_def FEATURE_ATOM_BYTES_def checked_mul64_def packed_channels_def
        checked_next_multiple_of32_def next_multiple_of_def)
  have n: "storage_bytes ?g = Done 960"
    by (simp add: storage_bytes_def packed_surfaces_def FEATURE_ATOM_BYTES_def checked_mul64_def
        div_ceil_def)
  have "can_chain ?g = Done ()"
    by (simp add: can_chain_def is_whole_atom_def FEATURE_ATOM_BYTES_def)
  with can_chain_iff_every_image_is_packed [OF g _ n]
  have "\<exists>dense. length dense = 15 * 64
     \<and> pack_nhwc_to_nc1hwc2_padded dense 15 64 64 (replicate 960 0) = Done (replicate 960 7, 960)"
    by (metis cube.select_convs(1,3,4) is_ppu.simps(2) length_replicate)
  then show ?thesis using g by auto
qed

text \<open>
  When \<open>chain_identity\<close> accepts a producer and a reader other than the PPU, compacting
  the producer's cube under the producer's geometry and packing the result under the reader's
  gives the producer's bytes back: the reader may take them in place.
\<close>

theorem chained_cube_is_its_own_repack:
  assumes g: "cube_geometry kind element w h channels = Done reader" and k: "\<not> is_ppu kind"
    and c: "chain_identity producer reader = Done ()"
    and n: "storage_bytes reader = Done n" and img: "length img = n"
  shows "dense_bytes reader = Done n \<and>
    (\<exists>dense. compact_atomic_output img (surface_pixel_count producer) (pixel_count producer)
         (bytes_per_pixel producer) 16 (replicate n 0) = Done (dense, n)
       \<and> pack_nhwc_to_nc1hwc2_padded dense (pixel_count reader) (bytes_per_pixel reader)
         (packed_bytes_per_pixel reader) (replicate n 0) = Done (img, n))"
proof -
  note geo = dense_cube_geometry [OF g k]
  from c have same: "pixel_count producer = pixel_count reader"
    "surface_pixel_count producer = surface_pixel_count reader"
    "bytes_per_pixel producer = bytes_per_pixel reader" "can_chain reader = Done ()"
    by (auto simp: chain_identity_def refuse_unless_eq_Done elim!: obind_DoneE)
  then have eq: "packed_bytes_per_pixel reader = bytes_per_pixel reader"
    and whole: "16 dvd bytes_per_pixel reader"
    by (simp_all add: can_chain_iff is_whole_atom_def FEATURE_ATOM_BYTES_def dvd_eq_mod_eq_0)
  from whole have "div_ceil (bytes_per_pixel reader) 16 * 16 = bytes_per_pixel reader"
    by (auto simp: mult.commute [of 16] elim!: dvdE)
  then have size: "n = pixel_count reader * bytes_per_pixel reader" "n < 2 ^ 64"
    using storage_bytes_Done [OF n] geo(1) by (simp_all add: eq mult.assoc)
  have "dense_bytes reader = Done n" using size by (simp add: dense_bytes_def checked_mul64_def)
  with pack_of_compact [OF geo(3) whole, of img "pixel_count reader" "replicate n 0" "replicate n 0"]
  show ?thesis using img size geo(1) by (simp add: same eq)
qed

theorem chained_cube_is_its_own_repack_witness:
  "\<exists>g dense. cube_geometry Matmul 1 4 1 16 = Done g \<and> chain_identity g g = Done ()
     \<and> compact_atomic_output (replicate 64 7) 4 4 16 16 (replicate 64 0) = Done (dense, 64)
     \<and> pack_nhwc_to_nc1hwc2_padded dense 4 16 16 (replicate 64 0) = Done (replicate 64 7, 64)"
proof -
  let ?g = "\<lparr>pixel_count = 4, surface_pixel_count = 4, bytes_per_pixel = 16,
     packed_bytes_per_pixel = 16\<rparr>"
  have g: "cube_geometry Matmul 1 4 1 16 = Done ?g"
    by (simp add: cube_geometry_def FEATURE_ATOM_BYTES_def checked_mul64_def packed_channels_def
        checked_next_multiple_of32_def next_multiple_of_def)
  have n: "storage_bytes ?g = Done 64"
    by (simp add: storage_bytes_def packed_surfaces_def FEATURE_ATOM_BYTES_def checked_mul64_def
        div_ceil_def)
  have c: "chain_identity ?g ?g = Done ()"
    by (simp add: chain_identity_def can_chain_def is_whole_atom_def FEATURE_ATOM_BYTES_def)
  from chained_cube_is_its_own_repack [OF g _ c n, of "replicate 64 7"] g c show ?thesis by auto
qed

section \<open>The tiled gather\<close>

lemma pixel_blocks:
  assumes "out_channels s \<le> 2 ^ 31"
  shows "out_channels s \<le> padded_out_channels s"
proof -
  have g: "0 < shape_granule s" "shape_granule s \<le> 2 ^ 30"
    using precision_granule_pos [of "precision s"] precision_granule_le [of "precision s"]
    by (simp_all add: shape_granule_def Let_def)
  then have "next_multiple_of (out_channels s) (shape_granule s) < 2 ^ 32"
    using next_multiple_of_less [of "shape_granule s" "out_channels s"] assms by simp
  then show ?thesis
    using next_multiple_of_ge [of "shape_granule s" "out_channels s"] g
    by (simp add: padded_out_channels_def Let_def)
qed

text \<open>
  C16 (refinement): the planner, its accumulator layout and the host gather agree. Whatever the
  tiles of a plan left in their scratch ranges, the tiled compaction fills the whole output image:
  each byte of each pixel comes from the range of the tile that owns the pixel, at the pixel's
  place in that tile.
\<close>

theorem tiled_gather_rebuilds_the_image:
  assumes v: "valid_shape s" and p: "try_new pol s ks = Done p"
    and acc: "writes_accumulators (precision s)" and cout: "out_channels s \<le> 2 ^ 31"
    and l: "accumulator_output_layout_of p = Done l"
    and hw: "output_height s ks = Done oh" "output_width s ks = Done ow"
    and scratch: "acc_scratch_bytes l \<le> length scratch" "length scratch < 2 ^ 64"
    and dst: "length dst = oh * ow * bpp" "length dst < 2 ^ 64"
    and bpp: "bpp = out_channels s * output_element_bytes (precision s)"
  defines "block \<equiv> output_atom_bytes s"
  shows "\<exists>out. compact_tiled_accumulator_output scratch (acc_tiles l) ow bpp block dst =
      Done (out, oh * ow * bpp)
    \<and> (\<forall>r < oh. \<forall>c < ow. \<forall>i < bpp. \<exists>e \<in> set (acc_tiles l). entry_covers r c e
        \<and> out ! ((r * ow + c) * bpp + i) =
            scratch ! (scratch_offset e + i div block * (entry_area e * block)
              + ((r - output_row e) * output_columns e + (c - output_column e)) * block + i mod block))"
proof -
  obtain k b where ok: "plan_grid_ok s ks k b p"
    and e: "output_width s ks = Done (out_w s k)" "output_height s ks = Done (out_h s k)"
    using try_new_grid [OF v p] by metis
  have dims: "oh = out_h s k" "ow = out_w s k" using e hw by simp_all
  from accumulator_layout_exact [OF v p acc] l
  have entries: "entries_of (accumulator_pixel s) 0 (acc_tiles l) (plan_tiles p) (acc_scratch_bytes l)"
    by auto
  have block: "0 < block" using output_atom_bytes_bounds [of s] by (simp add: block_def)
  let ?full = "padded_out_channels s * output_element_bytes (precision s)"
  have px: "accumulator_pixel s = div_ceil ?full block * block"
    by (simp add: accumulator_pixel_def block_def)
  have "bpp \<le> ?full" using pixel_blocks [OF cout] by (simp add: bpp mult_le_mono1)
  also have "\<dots> \<le> div_ceil ?full block * block" using block by (rule div_ceil_mult_ge)
  finally have blocks: "div_ceil bpp block \<le> div_ceil ?full block"
    using block by (simp add: div_ceil_le_iff)
  have once: "length (filter (entry_covers r c) (acc_tiles l)) = 1" if "r < oh" "c < ow" for r c
    using entries_cover [OF entries] plan_covers_once [OF ok] that by (simp add: dims)
  have inside: "\<forall>t \<in> set (acc_tiles l). output_row t + output_rows t \<le> oh
      \<and> output_column t + output_columns t \<le> ow \<and> entry_area t < 2 ^ 64"
  proof
    fix t
    assume t: "t \<in> set (acc_tiles l)"
    from entries_range [OF entries t] obtain u where u: "u \<in> set (plan_tiles p)"
      "output_row t = out_first (t_rows u)" "output_rows t = out_rows (t_rows u)"
      "output_column t = col_out_first (t_columns u)" "output_columns t = col_out_cols (t_columns u)"
      and range: "entry_area t * accumulator_pixel s \<le> acc_scratch_bytes l" by auto
    have "0 < accumulator_pixel s"
      using block bpp \<open>bpp \<le> ?full\<close> v output_element_bytes_bounds [of "precision s"] blocks
      by (auto simp: px valid_shape_def div_ceil_pos intro!: div_ceil_pos Nat.gr0I)
    then have "entry_area t \<le> entry_area t * accumulator_pixel s" by simp
    with range scratch have "entry_area t < 2 ^ 64" by linarith
    with plan_tile [OF ok u(1)] show "output_row t + output_rows t \<le> oh
      \<and> output_column t + output_columns t \<le> ow \<and> entry_area t < 2 ^ 64"
      by (simp add: u dims)
  qed
  have area: "sum_list (map entry_area (acc_tiles l)) = oh * ow"
    using entries_sum [OF entries] plan_area [OF ok] by (simp add: dims)
  have "0 < ow" by (simp add: dims)
  from compact_tiled_entries [OF block this entries [unfolded px] scratch dst inside once area blocks]
  obtain out where out: "compact_tiled_accumulator_output scratch (acc_tiles l) ow bpp block dst =
      Done (out, oh * ow * bpp)"
    and bytes: "\<And>r c t i. t \<in> set (acc_tiles l) \<Longrightarrow> entry_covers r c t \<Longrightarrow> i < bpp \<Longrightarrow>
      out ! ((r * ow + c) * bpp + i) =
        scratch ! (scratch_offset t + i div block * (entry_area t * block)
          + ((r - output_row t) * output_columns t + (c - output_column t)) * block + i mod block)"
    by blast
  have "\<exists>t \<in> set (acc_tiles l). entry_covers r c t" if "r < oh" "c < ow" for r c
    using once [OF that] by (metis filter_False length_0_conv zero_neq_one)
  with out bytes show ?thesis by blast
qed

lemma matmul_layout:
  "accumulator_output_layout_of matmul_plan = Done \<lparr>
     acc_tiles = [\<lparr>scratch_offset = 0, scratch_bytes = 2048, output_row = 0, output_column = 0,
                   output_rows = 4, output_columns = 4\<rparr>],
     acc_scratch_bytes = 2048\<rparr>"
proof -
  have pad: "padded_out_channels matmul = 32" "output_atom_bytes matmul = 16"
    by (simp_all add: padded_out_channels_def shape_granule_def precision_granule_def
        next_multiple_of_def output_atom_bytes_def output_channel_block_bytes_def
        FEATURE_ATOM_BYTES_def)
  have px: "div_ceil 128 16 = (8::nat)" by (simp add: div_ceil_def)
  show ?thesis
    by (simp add: accumulator_output_layout_of_def matmul_plan_def matmul_tile_def pad px Let_def
        checked_mul64_def checked_add64_def output_scratch_bytes_def matmul_extents
        del: checked_mul64_Some checked_add64_Some)
qed

theorem tiled_gather_rebuilds_the_image_witness:
  "\<exists>l out. accumulator_output_layout_of matmul_plan = Done l
     \<and> compact_tiled_accumulator_output (replicate 2048 7) (acc_tiles l) 4 32 16 (replicate 512 0) =
         Done (out, 512) \<and> out ! 0 = 7"
proof -
  have block: "output_atom_bytes matmul = 16"
    by (simp add: output_atom_bytes_def output_channel_block_bytes_def FEATURE_ATOM_BYTES_def)
  have acc: "writes_accumulators (precision matmul)" by simp
  obtain l where l: "accumulator_output_layout_of matmul_plan = Done l" "acc_scratch_bytes l = 2048"
    "acc_tiles l = [\<lparr>scratch_offset = 0, scratch_bytes = 2048, output_row = 0, output_column = 0,
                   output_rows = 4, output_columns = 4\<rparr>]"
    by (rule that [OF matmul_layout]) simp_all
  let ?scratch = "replicate 2048 7 :: byte list" and ?dst = "replicate 512 0 :: byte list"
  have "\<exists>out. compact_tiled_accumulator_output ?scratch (acc_tiles l) 4 32 16 ?dst = Done (out, 4 * 4 * 32)
    \<and> (\<forall>r < 4. \<forall>c < 4. \<forall>i < 32. \<exists>e \<in> set (acc_tiles l). entry_covers r c e
        \<and> out ! ((r * 4 + c) * 32 + i) =
            ?scratch ! (scratch_offset e + i div 16 * (entry_area e * 16)
              + ((r - output_row e) * output_columns e + (c - output_column e)) * 16 + i mod 16))"
    by (rule tiled_gather_rebuilds_the_image [OF matmul_valid matmul_planned acc _ l(1)
          matmul_extents(2,1), unfolded block]) (simp_all add: l(2))
  then obtain out where "compact_tiled_accumulator_output ?scratch (acc_tiles l) 4 32 16 ?dst = Done (out, 512)"
    and "out ! ((0 * 4 + 0) * 32 + 0) = ?scratch ! 0"
    by (fastforce simp: l(3))
  with l(1) show ?thesis by (intro exI [of _ l] exI [of _ out]) simp
qed

section \<open>The bias stream\<close>

lemma le32_bytes_length [simp]: "length (le32_bytes w) = 4"
  by (simp add: le32_bytes_def)

interpretation bias: placement "\<lambda>c :: nat. c * 4" "\<lambda>_. 4" UNIV
  by unfold_locales (metis add.commute div_mod_unique zero_less_numeral)

text \<open>
  The bias stream of a dispatch: word \<open>c\<close> is the widened half-precision bias of
  channel \<open>c\<close>, little-endian on both sides, and every channel the unit is programmed for beyond
  the logical ones reads zero.
\<close>

theorem bias_stream_is_exact:
  assumes channels: "0 < channels" "channels \<le> padded" "padded * 4 < 2 ^ 64"
    and dense: "channels * 2 \<le> length dense" and packed: "padded * 4 \<le> length packed"
  shows "\<exists>out. pack_fp16_bias_to_rocket dense channels padded packed = Done (out, padded * 4)
    \<and> length out = length packed
    \<and> (\<forall>c j. c < padded \<longrightarrow> j < 4 \<longrightarrow> out ! (c * 4 + j) =
         (if c < channels
          then le32_bytes (fp16_to_fp32_bits (le16 (dense ! (c * 2)) (dense ! (c * 2 + 1)))) ! j
          else 0))"
proof -
  let ?word = "\<lambda>c. le32_bytes (fp16_to_fp32_bits (le16 (dense ! (c * 2)) (dense ! (c * 2 + 1))))"
  let ?zeroed = "overwrite packed 0 (replicate (padded * 4) 0)"
  let ?out = "write_slots (\<lambda>c. c * 4) ?word [0..<channels] ?zeroed"
  have len: "length ?zeroed = length packed" using packed by simp
  have body: "obind (read_slice dense (c * 2) 2) (\<lambda>pair. write_slice xs (c * 4)
        (le32_bytes (fp16_to_fp32_bits (le16 (pair ! 0) (pair ! 1))))) =
      (Done (write_slots (\<lambda>c. c * 4) ?word [c] xs) :: byte list layout_result)"
    if "c \<in> set [0..<channels]" "length xs = length packed" for c xs
  proof -
    have "c * 2 + 2 \<le> length dense" "c * 4 + 4 \<le> length xs" using that channels dense packed by auto
    then show ?thesis by simp
  qed
  have "for_each [0..<channels] (\<lambda>c packed. obind (read_slice dense (c * 2) 2)
      (\<lambda>pair. write_slice packed (c * 4)
        (le32_bytes (fp16_to_fp32_bits (le16 (pair ! 0) (pair ! 1)))))) ?zeroed =
    (Done (write_slots (\<lambda>c. c * 4) ?word (concat (map (\<lambda>c. [c]) [0..<channels])) ?zeroed) :: byte list layout_result)"
    using channels packed by (intro for_each_slots [where n = "length packed"] body len) auto
  moreover have "concat (map (\<lambda>c. [c]) [0..<channels]) = [0..<channels]" by simp
  ultimately have loop: "for_each [0..<channels] (\<lambda>c packed. obind (read_slice dense (c * 2) 2)
      (\<lambda>pair. write_slice packed (c * 4)
        (le32_bytes (fp16_to_fp32_bits (le16 (pair ! 0) (pair ! 1)))))) ?zeroed =
    (Done ?out :: byte list layout_result)"
    by (simp only:)
  have run: "pack_fp16_bias_to_rocket dense channels padded packed = Done (?out, padded * 4)"
  proof -
    have calls: "checked_mul64 channels 2 = Some (channels * 2)"
      "rocket_fp16_bias_storage_size padded = (Done (padded * 4) :: nat layout_result)"
      "fill_slice packed 0 (padded * 4) 0 = (Done ?zeroed :: byte list layout_result)"
      using channels packed
      by (simp_all add: rocket_fp16_bias_storage_size_def checked_mul64_def fill_slice_def)
    have guards: "(channels = 0 \<or> padded < channels) = False" "(length dense < channels * 2) = False"
      "(length packed < padded * 4) = False"
      using channels dense packed by auto
    show ?thesis
      by (simp only: pack_fp16_bias_to_rocket_def guards calls if_False ok_or.simps obind.simps loop)
  qed
  have fits: "\<forall>c \<in> set [0..<channels]. length (?word c) = 4 \<and> c * 4 + 4 \<le> length ?zeroed"
    using channels packed by auto
  have out_len: "length ?out = length packed" using fits len by (simp add: length_write_slots)
  have "?out ! (c * 4 + j) = (if c < channels then ?word c ! j else 0)" if c: "c < padded" "j < 4" for c j
  proof (cases "c < channels")
    case True
    then show ?thesis using bias.written [OF _ fits, of c j] that by simp
  next
    case False
    have inside: "c * 4 + j < padded * 4" using c by linarith
    have "?out ! (c * 4 + j) = ?zeroed ! (c * 4 + j)"
      using False c packed inside fits by (intro bias.untouched) auto
    then show ?thesis using False inside packed by (simp add: nth_overwrite)
  qed
  with run out_len show ?thesis by blast
qed

theorem bias_stream_is_exact_witness:
  "\<exists>out. pack_fp16_bias_to_rocket [0, 0x3c] 1 2 (replicate 8 9) = Done (out, 8) \<and> out ! 5 = 0"
proof -
  have "padded * 4 < 2 ^ 64" if "padded = 2" for padded :: nat using that by simp
  from bias_stream_is_exact [of 1 2 "[0, 0x3c]" "replicate 8 9"] obtain out where
    out: "pack_fp16_bias_to_rocket [0, 0x3c] 1 2 (replicate 8 9) = Done (out, 2 * 4)"
    and zero: "\<And>c j. c < 2 \<Longrightarrow> j < 4 \<Longrightarrow> \<not> c < 1 \<Longrightarrow> out ! (c * 4 + j) = 0"
    by (fastforce simp del: One_nat_def)
  from zero [of 1 1] have "out ! 5 = 0" by simp
  with out show ?thesis by auto
qed

text \<open>
  C18 (equivalence): the widening denotes the same number. The sign bit is carried over; a finite
  value keeps its magnitude exactly, subnormals included (both are counted in units of their
  format's smallest subnormal, 2^-24 and 2^-149); an infinity stays one and a NaN keeps its
  payload.
\<close>

theorem widening_is_exact:
  "bit (fp16_to_fp32_bits v) 31 = bit v 15
   \<and> (if exponent16 v = 31
      then exponent32 (fp16_to_fp32_bits v) = 255
        \<and> fraction32 (fp16_to_fp32_bits v) = fraction16 v * 2 ^ 13
      else magnitude32 (fp16_to_fp32_bits v) = magnitude16 v * 2 ^ 125)"
  by (rule fp16_exact)

end
