(* ===== verification/FullyConnected.thy ===== *)
theory FullyConnected
  imports ConvPlan
begin

text \<open>
  The fully-connected lowering (\<open>rocket-core/src/fc.rs\<close>): \<open>[M,K] x [K,N]\<close> is the 1x1
  convolution of an image one row high, \<open>M\<close> wide and \<open>K\<close> deep.
\<close>

definition KERNELS :: kernels where "KERNELS = (1, 1)"

record fc_shape =
  fc_m :: nat
  fc_k :: nat
  fc_n :: nat
  fc_precision :: precision
  fc_activation :: activation

definition try_as_conv_shape :: "planning_policy \<Rightarrow> fc_shape \<Rightarrow> shape plan_result" where
  "try_as_conv_shape pol f =
     obind (try_with_precision pol (fc_m f) 1 1 (fc_k f) (fc_n f) (fc_precision f)) (\<lambda>s.
     obind (try_with_padding s (0, 0)) (\<lambda>s.
     try_with_activation s (fc_activation f)))"

definition as_conv_shape :: "planning_policy \<Rightarrow> fc_shape \<Rightarrow> shape plan_result" where
  "as_conv_shape pol f = unwrap (try_as_conv_shape pol f)"

definition fc_try_new ::
  "planning_policy \<Rightarrow> nat \<Rightarrow> nat \<Rightarrow> nat \<Rightarrow> precision \<Rightarrow> fc_shape plan_result" where
  "fc_try_new pol m k n p =
     (let f = \<lparr>fc_m = m, fc_k = k, fc_n = n, fc_precision = p, fc_activation = NoActivation\<rparr>
      in obind (try_as_conv_shape pol f) (\<lambda>_. Done f))"

definition fc_new ::
  "planning_policy \<Rightarrow> nat \<Rightarrow> nat \<Rightarrow> nat \<Rightarrow> precision \<Rightarrow> fc_shape plan_result" where
  "fc_new pol m k n p = unwrap (fc_try_new pol m k n p)"

definition with_activation :: "fc_shape \<Rightarrow> activation \<Rightarrow> fc_shape" where
  "with_activation f a = f\<lparr>fc_activation := a\<rparr>"

record fc_plan =
  fc_plan_shape :: fc_shape
  fc_conv :: conv_plan

definition fc_plan_try_new :: "planning_policy \<Rightarrow> fc_shape \<Rightarrow> fc_plan plan_result" where
  "fc_plan_try_new pol f =
     obind (try_as_conv_shape pol f) (\<lambda>s.
     obind (try_new pol s KERNELS) (\<lambda>plan.
     Done \<lparr>fc_plan_shape = f, fc_conv = plan\<rparr>))"

definition fc_plan_new :: "planning_policy \<Rightarrow> fc_shape \<Rightarrow> fc_plan plan_result" where
  "fc_plan_new pol f = unwrap (fc_plan_try_new pol f)"

end
