(* ===== verification/WeightLayout.thy ===== *)
theory WeightLayout
  imports FullyConnected SlotWrites CubeLayout
begin

text \<open>
  The blocked coefficient layout and its packers (\<open>rocket-core/src/weights.rs\<close>): the dimensions
  of the coefficient order, the order itself as the list of visits the packers share, the byte
  and nibble packers, the depthwise packer, and \<open>WeightPlan\<close>, which selects one for a shape. The
  offsets of the HWCF and depthwise packers stay below the checked sizes and are exact; the int4
  feature packer computes with unchecked sizes, and its offsets are 64-bit.
\<close>

type_synonym 'a weight_result = "(string, 'a) outcome"

definition WEIGHT_ATOMIC_BYTES :: nat where "WEIGHT_ATOMIC_BYTES = 32"
definition WEIGHT_INPUT_GROUP_CHANNELS :: nat where "WEIGHT_INPUT_GROUP_CHANNELS = 32"
definition TF32_WEIGHT_INPUT_GROUP_CHANNELS :: nat where "TF32_WEIGHT_INPUT_GROUP_CHANNELS = 16"
definition TF32_WEIGHT_OUTPUT_BLOCK_CHANNELS :: nat where "TF32_WEIGHT_OUTPUT_BLOCK_CHANNELS = 16"
definition DEPTHWISE_GROUP_BYTES :: nat where "DEPTHWISE_GROUP_BYTES = 64"

section \<open>The coefficient order\<close>

record weight_layout =
  output_block_channels :: nat
  input_group_channels :: nat
  padded_input_channels :: nat
  programmed_output_channels :: nat
  input_groups :: nat
  output_blocks :: nat

definition weight_layout_new :: "nat \<Rightarrow> nat \<Rightarrow> nat \<Rightarrow> weight_layout weight_result" where
  "weight_layout_new cin cout bits =
     (if cin = 0 \<or> cout = 0 \<or> bits \<notin> {4, 8, 16, 32}
      then Refused ''invalid Rocket convolution filter shape''
      else let per_atom = FEATURE_ATOM_BYTES * 8 div bits;
               input_atoms = div_ceil cin per_atom;
               padded_input_atoms =
                 (if bits = 16 \<and> input_atoms mod 4 = 3 then input_atoms + 1 else input_atoms);
               padded_input = wrap64 (padded_input_atoms * per_atom);
               programmed_output = (if bits < 16 then wrap64 (next_multiple_of cout 2) else cout);
               (block, grp) =
                 (if bits = 32
                  then (TF32_WEIGHT_OUTPUT_BLOCK_CHANNELS, TF32_WEIGHT_INPUT_GROUP_CHANNELS)
                  else (WEIGHT_ATOMIC_BYTES * 8 div bits, WEIGHT_INPUT_GROUP_CHANNELS))
           in Done \<lparr>output_block_channels = block, input_group_channels = grp,
                    padded_input_channels = padded_input,
                    programmed_output_channels = programmed_output,
                    input_groups = div_ceil padded_input grp,
                    output_blocks = div_ceil programmed_output block\<rparr>)"

text \<open>
  The visits of \<open>visit_slots\<close> in order: the logical HWCF element a slot carries, if any, and its
  output channel. The running slot counter is the position in the list.
\<close>

definition slot_sources ::
  "weight_layout \<Rightarrow> nat \<Rightarrow> nat \<Rightarrow> nat \<Rightarrow> nat \<Rightarrow> (nat option \<times> nat) list" where
  "slot_sources l fh fw cin cout =
     [ (if oc < cout \<and> ic < cin
        then Some (((fy * fw + fx) * cin + ic) * cout + oc) else None, oc).
       output_block \<leftarrow> [0..<output_blocks l],
       input_group \<leftarrow> [0..<input_groups l],
       fy \<leftarrow> [0..<fh],
       fx \<leftarrow> [0..<fw],
       output_lane \<leftarrow> [0..<output_block_channels l],
       oc \<leftarrow> [output_block * output_block_channels l + output_lane],
       oc < programmed_output_channels l,
       input_lane \<leftarrow> [0..<input_group_channels l],
       ic \<leftarrow> [input_group * input_group_channels l + input_lane],
       ic < padded_input_channels l ]"

definition visit_slots ::
  "weight_layout \<Rightarrow> nat \<Rightarrow> nat \<Rightarrow> nat \<Rightarrow> nat \<Rightarrow> (nat \<times> nat option \<times> nat) list" where
  "visit_slots l fh fw cin cout = enumerate 0 (slot_sources l fh fw cin cout)"

section \<open>Storage sizes\<close>

definition rocket_weight_storage_size_bits ::
  "nat \<Rightarrow> nat \<Rightarrow> nat \<Rightarrow> nat \<Rightarrow> nat \<Rightarrow> nat weight_result" where
  "rocket_weight_storage_size_bits fh fw cin cout bits =
     obind (weight_layout_new cin cout bits) (\<lambda>l.
     if fh = 0 \<or> fw = 0 then Refused ''invalid Rocket convolution filter shape''
     else ok_or (map_option (\<lambda>b. b div 8)
            (Option.bind (checked_mul64 fh fw) (\<lambda>v.
             Option.bind (checked_mul64 v (padded_input_channels l)) (\<lambda>v.
             Option.bind (checked_mul64 v (programmed_output_channels l)) (\<lambda>v.
             checked_mul64 v bits)))))
            ''Rocket convolution filter storage size overflows usize'')"

definition rocket_weight_storage_size ::
  "nat \<Rightarrow> nat \<Rightarrow> nat \<Rightarrow> nat \<Rightarrow> nat \<Rightarrow> nat weight_result" where
  "rocket_weight_storage_size fh fw cin cout elem =
     (if elem \<notin> {1, 2, 4} then Refused ''invalid Rocket convolution filter shape''
      else rocket_weight_storage_size_bits fh fw cin cout (elem * 8))"

section \<open>Packing byte-wide coefficients\<close>

definition pack_hwcf_to_rocket_weights_impl ::
  "byte list \<Rightarrow> nat \<Rightarrow> nat \<Rightarrow> nat \<Rightarrow> nat \<Rightarrow> nat \<Rightarrow> nat \<Rightarrow> byte list option \<Rightarrow> byte list
   \<Rightarrow> (byte list \<times> nat) weight_result" where
  "pack_hwcf_to_rocket_weights_impl dense fh fw cin cout padded_cout elem zero_points packed =
     (if padded_cout < cout
      then Refused ''padded output channel count is smaller than the logical one''
      else obind (ok_or (Option.bind (checked_mul64 fh fw) (\<lambda>v.
                         Option.bind (checked_mul64 v cin) (\<lambda>v.
                         Option.bind (checked_mul64 v cout) (\<lambda>v. checked_mul64 v elem))))
                    ''dense HWCF storage size overflows usize'') (\<lambda>dense_len.
      if length dense < dense_len
      then Refused ''dense HWCF filter is smaller than its declared shape''
      else obind (rocket_weight_storage_size fh fw cin padded_cout elem) (\<lambda>packed_len.
      if length packed < packed_len
      then Refused ''Rocket weight destination is smaller than its declared shape''
      else obind (fill_slice packed 0 packed_len 0) (\<lambda>packed.
      obind (weight_layout_new cin padded_cout (elem * 8)) (\<lambda>l.
      obind (for_each (visit_slots l fh fw cin cout) (\<lambda>(slot, source, oc) packed.
          let dst_offset = slot * elem in
          case source of
            Some source \<Rightarrow>
              obind (read_slice dense (source * elem) elem) (\<lambda>element.
              write_slice packed dst_offset element)
          | None \<Rightarrow>
              (case zero_points of
                 Some zps \<Rightarrow>
                   if oc < cout then ensure (oc < length zps) (write_slice packed dst_offset [zps ! oc])
                   else Done packed
               | None \<Rightarrow> Done packed)) packed)
        (\<lambda>packed. Done (packed, packed_len)))))))"

definition pack_hwcf_to_rocket_weights ::
  "byte list \<Rightarrow> nat \<Rightarrow> nat \<Rightarrow> nat \<Rightarrow> nat \<Rightarrow> nat \<Rightarrow> byte list \<Rightarrow> (byte list \<times> nat) weight_result" where
  "pack_hwcf_to_rocket_weights dense fh fw cin cout elem packed =
     pack_hwcf_to_rocket_weights_impl dense fh fw cin cout cout elem None packed"

definition pack_hwcf_to_rocket_weights_padded ::
  "byte list \<Rightarrow> nat \<Rightarrow> nat \<Rightarrow> nat \<Rightarrow> nat \<Rightarrow> nat \<Rightarrow> nat \<Rightarrow> byte list
   \<Rightarrow> (byte list \<times> nat) weight_result" where
  "pack_hwcf_to_rocket_weights_padded dense fh fw cin cout padded_cout elem packed =
     pack_hwcf_to_rocket_weights_impl dense fh fw cin cout padded_cout elem None packed"

definition pack_hwcf_to_rocket_weights_affine_i8 ::
  "byte list \<Rightarrow> nat \<Rightarrow> nat \<Rightarrow> nat \<Rightarrow> nat \<Rightarrow> byte list \<Rightarrow> byte list
   \<Rightarrow> (byte list \<times> nat) weight_result" where
  "pack_hwcf_to_rocket_weights_affine_i8 dense fh fw cin cout zero_points packed =
     (if length zero_points \<noteq> cout
      then Refused ''int8 weight zero-point count does not match output channels''
      else pack_hwcf_to_rocket_weights_impl dense fh fw cin cout cout 1 (Some zero_points) packed)"

section \<open>Packing nibbles\<close>

definition is_int4 :: "byte \<Rightarrow> bool" where
  "is_int4 v \<longleftrightarrow> -8 \<le> sint v \<and> sint v \<le> 7"

text \<open>The read-modify-write both int4 packers make: even slots take the low nibble.\<close>

definition store_nibble :: "byte list \<Rightarrow> nat \<Rightarrow> bool \<Rightarrow> byte \<Rightarrow> byte list weight_result" where
  "store_nibble packed i low v =
     (let nibble = v AND 0xf in
      ensure (i < length packed)
        (Done (packed[i := if low then (packed ! i AND 0xf0) OR nibble
                           else (packed ! i AND 0x0f) OR push_bit 4 nibble])))"

definition pack_hwcf_to_rocket_weights_int4_padded ::
  "byte list \<Rightarrow> nat \<Rightarrow> nat \<Rightarrow> nat \<Rightarrow> nat \<Rightarrow> nat \<Rightarrow> byte list \<Rightarrow> (byte list \<times> nat) weight_result" where
  "pack_hwcf_to_rocket_weights_int4_padded dense fh fw cin cout padded_cout packed =
     (if padded_cout < cout
      then Refused ''padded output channel count is smaller than the logical one''
      else obind (ok_or (Option.bind (checked_mul64 fh fw) (\<lambda>v.
                         Option.bind (checked_mul64 v cin) (\<lambda>v. checked_mul64 v cout)))
                    ''dense HWCF storage size overflows usize'') (\<lambda>dense_len.
      if length dense < dense_len
      then Refused ''dense HWCF filter is smaller than its declared shape''
      else if \<exists>v \<in> set (take dense_len dense). \<not> is_int4 v
      then Refused ''int4 coefficient is outside -8..=7''
      else obind (rocket_weight_storage_size_bits fh fw cin padded_cout 4) (\<lambda>packed_len.
      if length packed < packed_len
      then Refused ''Rocket weight destination is smaller than its declared shape''
      else obind (fill_slice packed 0 packed_len 0) (\<lambda>packed.
      obind (weight_layout_new cin padded_cout 4) (\<lambda>l.
      obind (for_each (visit_slots l fh fw cin cout) (\<lambda>(slot, source, _) packed.
          case source of
            None \<Rightarrow> Done packed
          | Some source \<Rightarrow>
              ensure (source < length dense)
                (store_nibble packed (slot div 2) (slot mod 2 = 0) (dense ! source))) packed)
        (\<lambda>packed. Done (packed, packed_len)))))))"

definition pack_hwcf_to_rocket_weights_int4 ::
  "byte list \<Rightarrow> nat \<Rightarrow> nat \<Rightarrow> nat \<Rightarrow> nat \<Rightarrow> byte list \<Rightarrow> (byte list \<times> nat) weight_result" where
  "pack_hwcf_to_rocket_weights_int4 dense fh fw cin cout packed =
     pack_hwcf_to_rocket_weights_int4_padded dense fh fw cin cout cout packed"

definition pack_nhwc_to_nc1hwc2_int4 ::
  "byte list \<Rightarrow> nat \<Rightarrow> nat \<Rightarrow> byte list \<Rightarrow> (byte list \<times> nat) weight_result" where
  "pack_nhwc_to_nc1hwc2_int4 dense pixels channels packed =
     (let per_atom = FEATURE_ATOM_BYTES * 2;
          dense_len = wrap64 (pixels * channels)
      in
      if channels = 0 \<or> channels mod 2 \<noteq> 0
      then Refused ''int4 channel count must be a nonzero multiple of two''
      else if length dense < dense_len
      then Refused ''dense NHWC feature map is smaller than its declared shape''
      else if \<exists>v \<in> set (take dense_len dense). \<not> is_int4 v
      then Refused ''int4 feature value is outside -8..=7''
      else let written = wrap64 (div_ceil channels per_atom * pixels * FEATURE_ATOM_BYTES)
      in if length packed < written
      then Refused ''NC1HWC2 destination is smaller than its declared shape''
      else obind (fill_slice packed 0 written 0) (\<lambda>packed.
      obind (for_each (List.product [0..<pixels] [0..<channels]) (\<lambda>(pixel, channel) packed.
          let surface = channel div per_atom;
              lane = channel mod per_atom;
              offset = wrap64 ((surface * pixels + pixel) * FEATURE_ATOM_BYTES + lane div 2);
              source = wrap64 (pixel * channels + channel)
          in ensure (source < length dense)
               (store_nibble packed offset (lane mod 2 = 0) (dense ! source))) packed)
        (\<lambda>packed. Done (packed, written))))"

section \<open>Packing depthwise coefficients\<close>

definition pack_depthwise_to_rocket_weights ::
  "byte list \<Rightarrow> nat \<Rightarrow> nat \<Rightarrow> nat \<Rightarrow> nat \<Rightarrow> nat \<Rightarrow> byte list \<Rightarrow> (byte list \<times> nat) weight_result" where
  "pack_depthwise_to_rocket_weights dense fh fw channels padded elem packed =
     (if fh = 0 \<or> fw = 0 \<or> channels = 0 \<or> padded < channels \<or> elem \<notin> {1, 2}
      then Refused ''invalid Rocket depthwise filter shape''
      else obind (ok_or (Option.bind (checked_mul64 fh fw) (\<lambda>v.
                         Option.bind (checked_mul64 v channels) (\<lambda>v. checked_mul64 v elem)))
                    ''depthwise filter storage size overflows usize'') (\<lambda>dense_len.
      if length dense < dense_len
      then Refused ''dense depthwise filter is smaller than its declared shape''
      else obind (ok_or (Option.bind (checked_mul64 fh fw) (\<lambda>v.
                         Option.bind (checked_mul64 v padded) (\<lambda>v. checked_mul64 v elem)))
                    ''packed depthwise filter storage size overflows usize'') (\<lambda>packed_len.
      if length packed < packed_len
      then Refused ''packed depthwise filter buffer is too small''
      else obind (fill_slice packed 0 packed_len 0) (\<lambda>packed.
      let group_channels = DEPTHWISE_GROUP_BYTES div elem;
          full_groups = padded div group_channels;
          tail_width = padded - full_groups * group_channels
      in obind (for_each [0..<channels] (\<lambda>channel.
          let grp = channel div group_channels;
              channel_in_group = channel mod group_channels;
              group_width = (if grp < full_groups then group_channels else tail_width);
              group_base = grp * fh * fw * group_channels
          in for_each (List.product [0..<fh] [0..<fw]) (\<lambda>(ky, kx) packed.
               obind (read_slice dense (((channel * fh + ky) * fw + kx) * elem) elem) (\<lambda>element.
               write_slice packed ((group_base + (ky * fw + kx) * group_width + channel_in_group) * elem)
                 element))) packed)
        (\<lambda>packed. Done (packed, packed_len))))))"

section \<open>The packer a shape takes\<close>

record weight_plan =
  wp_shape :: shape
  wp_kernels :: kernels
  wp_zero_point :: "byte option"

definition for_conv :: "shape \<Rightarrow> kernels \<Rightarrow> weight_plan" where
  "for_conv s ks = \<lparr>wp_shape = s, wp_kernels = ks,
     wp_zero_point = map_option (\<lambda>q. of_int (weight_zero_point q)) (quantization_of (precision s))\<rparr>"

definition for_matmul :: "planning_policy \<Rightarrow> fc_shape \<Rightarrow> weight_plan plan_result" where
  "for_matmul pol f =
     obind (try_as_conv_shape pol f) (\<lambda>s.
     Done \<lparr>wp_shape = s, wp_kernels = KERNELS, wp_zero_point = None\<rparr>)"

definition wp_element_bytes :: "weight_plan \<Rightarrow> nat plan_result" where
  "wp_element_bytes w =
     (let bits = element_bits (precision (wp_shape w))
      in if bits mod 8 \<noteq> 0 then Refused UnsupportedSemantics else Done (bits div 8))"

definition wp_dense_bytes :: "weight_plan \<Rightarrow> nat plan_result" where
  "wp_dense_bytes w =
     (let (kh, kw) = wp_kernels w; s = wp_shape w in
      obind (ok_or (Option.bind (checked_mul64 kh kw) (\<lambda>v.
                    Option.bind (checked_mul64 v (in_channels s)) (\<lambda>v.
                    if depthwise s then Some v else checked_mul64 v (out_channels s))))
               HardwareLimit) (\<lambda>elements.
      obind (wp_element_bytes w) (\<lambda>b.
      ok_or (checked_mul64 elements b) HardwareLimit)))"

definition wp_programmed_out_channels :: "weight_plan \<Rightarrow> nat plan_result" where
  "wp_programmed_out_channels w =
     map_refused (\<lambda>_. InvalidShape)
       (obind (parity_padded_shape (wp_shape w) (wp_kernels w)) (\<lambda>s. Done (out_channels s)))"

definition wp_packed_bytes :: "weight_plan \<Rightarrow> nat plan_result" where
  "wp_packed_bytes w =
     (if depthwise (wp_shape w) then try_weight_bytes (wp_shape w) (wp_kernels w)
      else let (kh, kw) = wp_kernels w in
           obind (wp_programmed_out_channels w) (\<lambda>cout.
           obind (wp_element_bytes w) (\<lambda>b.
           map_refused (\<lambda>_. InvalidShape)
             (rocket_weight_storage_size kh kw (in_channels (wp_shape w)) cout b))))"

definition wp_pack :: "weight_plan \<Rightarrow> byte list \<Rightarrow> byte list \<Rightarrow> (byte list \<times> nat) plan_result" where
  "wp_pack w dense packed =
     obind (wp_dense_bytes w) (\<lambda>dense_len.
     obind (wp_packed_bytes w) (\<lambda>packed_len.
     if length dense \<noteq> dense_len then Refused InvalidShape
     else if length packed < packed_len then Refused InvalidShape
     else let (kh, kw) = wp_kernels w;
              cin = in_channels (wp_shape w);
              cout = out_channels (wp_shape w)
          in obind (wp_element_bytes w) (\<lambda>b.
             if depthwise (wp_shape w)
             then map_refused (\<lambda>_. InvalidShape)
                    (pack_depthwise_to_rocket_weights dense kh kw cin
                       (depthwise_padded_channels (wp_shape w)) b packed)
             else (case wp_zero_point w of
                 Some zp \<Rightarrow>
                   obind (wp_programmed_out_channels w) (\<lambda>programmed.
                   map_refused (\<lambda>_. InvalidShape)
                     (if cout < programmed
                      then if zp \<noteq> 0
                           then Refused ''programmed Cout padding requires symmetric accumulator weights''
                           else pack_hwcf_to_rocket_weights_padded dense kh kw cin cout programmed b packed
                      else pack_hwcf_to_rocket_weights_affine_i8 dense kh kw cin cout
                             (replicate cout zp) packed))
               | None \<Rightarrow>
                   map_refused (\<lambda>_. InvalidShape)
                     (pack_hwcf_to_rocket_weights dense kh kw cin cout b packed)))))"

end
