(* ===== verification/WeightProofs.thy ===== *)
theory WeightProofs
  imports WeightLayout
begin

text \<open>
  The coefficient order in closed form. The loop nest of \<open>visit_slots\<close> is a concatenation of runs,
  so the position of a coefficient is the sum of the lengths of the runs before it; every logical
  coefficient has exactly one, and the packers write its bytes there.
\<close>

section \<open>Concatenated runs\<close>

lemma length_uniform_runs:
  "(\<And>k. k < n \<Longrightarrow> length (f k) = len) \<Longrightarrow> length (concat (map f [0..<n])) = n * len"
  by (induction n) simp_all

lemma nth_runs:
  assumes full: "\<And>k. k < i \<Longrightarrow> length (f k) = len" and i: "i < n" and j: "j < length (f i)"
  shows "concat (map f [0..<n]) ! (i * len + j) = f i ! j"
proof -
  have "[0..<n] = [0..<i] @ i # [Suc i..<n]"
    using i by (metis upt_conv_Cons upt_add_eq_append zero_le le_add_diff_inverse less_imp_le_nat)
  then have "concat (map f [0..<n]) = concat (map f [0..<i]) @ f i @ concat (map f [Suc i..<n])"
    by simp
  moreover have "length (concat (map f [0..<i])) = i * len" using full by (rule length_uniform_runs)
  ultimately show ?thesis using j by (simp add: nth_append)
qed

text \<open>The \<open>continue\<close> of a padded lane cuts the loop short.\<close>

lemma guarded_run:
  "concat (map (\<lambda>i. if b + i < p then f i else []) [0..<n]) = concat (map f [0..<min n (p - b)])"
proof -
  let ?m = "min n (p - b)"
  have split: "[0..<n] = [0..<?m] @ [?m..<n]"
    by (metis le_add_diff_inverse min.cobounded1 upt_add_eq_append zero_le)
  have "concat (map (\<lambda>i. if b + i < p then f i else []) [?m..<n]) = []" by auto
  moreover have "map (\<lambda>i. if b + i < p then f i else []) [0..<?m] = map f [0..<?m]"
    by (intro map_cong refl) auto
  ultimately show ?thesis unfolding split map_append concat_append by (simp only: append_Nil2)
qed

lemma sum_cut_blocks:
  fixes b :: nat
  assumes "0 < b"
  shows "sum_list (map (\<lambda>i. min b (p - i * b)) [0..<n]) = min (n * b) p"
proof (induction n)
  case 0
  then show ?case by simp
next
  case (Suc n)
  then show ?case by (simp add: min_def) linarith
qed

lemma cut_blocks_whole:
  fixes b :: nat
  assumes "0 < b"
  shows "sum_list (map (\<lambda>i. min b (p - i * b)) [0..<div_ceil p b]) = p"
  using sum_cut_blocks [OF assms, of p "div_ceil p b"] div_ceil_mult_ge [OF assms, of p] by simp

section \<open>The runs of the coefficient order\<close>

definition rows_in :: "weight_layout \<Rightarrow> nat \<Rightarrow> nat" where
  "rows_in l ob = min (output_block_channels l) (programmed_output_channels l - ob * output_block_channels l)"

definition lanes_in :: "weight_layout \<Rightarrow> nat \<Rightarrow> nat" where
  "lanes_in l ig = min (input_group_channels l) (padded_input_channels l - ig * input_group_channels l)"

definition slot_value :: "nat \<Rightarrow> nat \<Rightarrow> nat \<Rightarrow> nat \<Rightarrow> nat \<Rightarrow> nat \<Rightarrow> nat \<Rightarrow> nat option \<times> nat" where
  "slot_value fw cin cout fy fx oc ic =
     (if oc < cout \<and> ic < cin then Some (((fy * fw + fx) * cin + ic) * cout + oc) else None, oc)"

definition lane_run where
  "lane_run l fw cin cout ob ig fy fx ol =
     map (\<lambda>il. slot_value fw cin cout fy fx (ob * output_block_channels l + ol)
                (ig * input_group_channels l + il)) [0..<lanes_in l ig]"

definition tap_run where
  "tap_run l fw cin cout ob ig fy fx = concat (map (lane_run l fw cin cout ob ig fy fx) [0..<rows_in l ob])"

definition row_run where
  "row_run l fw cin cout ob ig fy = concat (map (tap_run l fw cin cout ob ig fy) [0..<fw])"

definition group_run where
  "group_run l fh fw cin cout ob ig = concat (map (row_run l fw cin cout ob ig) [0..<fh])"

definition block_run where
  "block_run l fh fw cin cout ob = concat (map (group_run l fh fw cin cout ob) [0..<input_groups l])"

lemmas run_defs = lane_run_def tap_run_def row_run_def group_run_def block_run_def

lemma slot_sources_runs:
  "slot_sources l fh fw cin cout = concat (map (block_run l fh fw cin cout) [0..<output_blocks l])"
proof -
  have lane: "concat (map (\<lambda>il. if ig * input_group_channels l + il < padded_input_channels l
        then [f il] else []) [0..<input_group_channels l]) = map f [0..<lanes_in l ig]"
    for ig and f :: "nat \<Rightarrow> nat option \<times> nat"
    using guarded_run [of "ig * input_group_channels l" "padded_input_channels l" "\<lambda>il. [f il]"]
    by (simp add: lanes_in_def)
  show ?thesis
    by (simp add: slot_sources_def lane guarded_run run_defs [abs_def] slot_value_def rows_in_def
        lanes_in_def [abs_def])
qed

lemma length_lane_run [simp]: "length (lane_run l fw cin cout ob ig fy fx ol) = lanes_in l ig"
  by (simp add: lane_run_def)

lemma length_tap_run [simp]:
  "length (tap_run l fw cin cout ob ig fy fx) = rows_in l ob * lanes_in l ig"
  unfolding tap_run_def by (rule length_uniform_runs) simp

lemma length_row_run [simp]:
  "length (row_run l fw cin cout ob ig fy) = fw * (rows_in l ob * lanes_in l ig)"
  unfolding row_run_def by (rule length_uniform_runs) simp

lemma length_group_run [simp]:
  "length (group_run l fh fw cin cout ob ig) = fh * (fw * (rows_in l ob * lanes_in l ig))"
  unfolding group_run_def by (rule length_uniform_runs) simp

text \<open>A layout whose loop bounds are the ceilings of its extents, as \<open>WeightLayout::new\<close> makes them.\<close>

definition layout_ok :: "weight_layout \<Rightarrow> bool" where
  "layout_ok l \<longleftrightarrow> 0 < output_block_channels l \<and> 0 < input_group_channels l
     \<and> input_groups l = div_ceil (padded_input_channels l) (input_group_channels l)
     \<and> output_blocks l = div_ceil (programmed_output_channels l) (output_block_channels l)"

lemma weight_layout_new_ok: "weight_layout_new cin cout bits = Done l \<Longrightarrow> layout_ok l"
  by (auto simp: weight_layout_new_def layout_ok_def Let_def TF32_WEIGHT_OUTPUT_BLOCK_CHANNELS_def
      TF32_WEIGHT_INPUT_GROUP_CHANNELS_def WEIGHT_ATOMIC_BYTES_def WEIGHT_INPUT_GROUP_CHANNELS_def
      split: if_splits)

lemma length_block_run:
  assumes "layout_ok l"
  shows "length (block_run l fh fw cin cout ob) = rows_in l ob * (fh * fw * padded_input_channels l)"
proof -
  have "length (block_run l fh fw cin cout ob) =
      sum_list (map (\<lambda>ig. fh * fw * rows_in l ob * lanes_in l ig) [0..<input_groups l])"
    by (simp add: block_run_def length_concat comp_def ac_simps)
  also have "\<dots> = fh * fw * rows_in l ob * sum_list (map (lanes_in l) [0..<input_groups l])"
    by (rule sum_list_const_mult)
  also have "sum_list (map (lanes_in l) [0..<input_groups l]) = padded_input_channels l"
    using assms cut_blocks_whole by (simp add: lanes_in_def [abs_def] layout_ok_def)
  finally show ?thesis by (simp add: ac_simps)
qed

lemma length_slot_sources:
  assumes "layout_ok l"
  shows "length (slot_sources l fh fw cin cout) =
    programmed_output_channels l * (fh * fw * padded_input_channels l)"
proof -
  have "length (slot_sources l fh fw cin cout) =
      sum_list (map (\<lambda>ob. rows_in l ob * (fh * fw * padded_input_channels l)) [0..<output_blocks l])"
    using assms by (simp add: slot_sources_runs length_concat comp_def length_block_run)
  also have "\<dots> = sum_list (map (rows_in l) [0..<output_blocks l]) * (fh * fw * padded_input_channels l)"
    by (rule sum_list_mult_const)
  also have "sum_list (map (rows_in l) [0..<output_blocks l]) = programmed_output_channels l"
    using assms cut_blocks_whole by (simp add: rows_in_def [abs_def] layout_ok_def)
  finally show ?thesis .
qed

section \<open>The address of a coefficient\<close>

text \<open>
  The slot of tap \<open>(fy, fx)\<close>, input channel \<open>ic\<close> and kernel \<open>oc\<close>: whole blocks before its block,
  whole groups before its group, then taps, kernels and lanes at the widths of its own block and
  group, which are shorter when they are the last.
\<close>

definition weight_slot :: "weight_layout \<Rightarrow> nat \<Rightarrow> nat \<Rightarrow> nat \<Rightarrow> nat \<Rightarrow> nat \<Rightarrow> nat \<Rightarrow> nat" where
  "weight_slot l fh fw fy fx ic oc =
     (let b = output_block_channels l; g = input_group_channels l;
          ob = oc div b; ig = ic div g; rows = rows_in l ob; lanes = lanes_in l ig
      in ob * (b * (fh * fw * padded_input_channels l))
       + (ig * (fh * (fw * (rows * g)))
       + (fy * (fw * (rows * lanes))
       + (fx * (rows * lanes)
       + (oc mod b * lanes + ic mod g)))))"

lemma cut_block_member:
  fixes b :: nat
  assumes "0 < b" "i < p"
  shows "i mod b < min b (p - i div b * b)" "i div b < div_ceil p b"
    "k < i div b \<Longrightarrow> min b (p - k * b) = b"
proof -
  have split: "i = i div b * b + i mod b" by simp
  have "i mod b < p - i div b * b" using split assms(2) by linarith
  then show "i mod b < min b (p - i div b * b)" using assms(1) by simp
  show "i div b < div_ceil p b"
  proof (rule ccontr)
    assume "\<not> i div b < div_ceil p b"
    then have "p \<le> i div b * b" using div_ceil_le_iff [OF assms(1), of p "i div b"] by linarith
    then show False using split assms(2) by linarith
  qed
  assume "k < i div b"
  then have "k * b + b \<le> i div b * b" by (metis Suc_leI add.commute mult_Suc mult_le_mono1)
  then show "min b (p - k * b) = b" using split assms(2) by linarith
qed

lemma slot_at:
  assumes l: "layout_ok l" and oc: "oc < programmed_output_channels l"
    and ic: "ic < padded_input_channels l" and f: "fy < fh" "fx < fw"
  shows "weight_slot l fh fw fy fx ic oc < length (slot_sources l fh fw cin cout)"
    "slot_sources l fh fw cin cout ! weight_slot l fh fw fy fx ic oc = slot_value fw cin cout fy fx oc ic"
proof -
  let ?b = "output_block_channels l" and ?g = "input_group_channels l"
  let ?ob = "oc div ?b" and ?ol = "oc mod ?b" and ?ig = "ic div ?g" and ?il = "ic mod ?g"
  let ?rows = "rows_in l ?ob" and ?lanes = "lanes_in l ?ig"
  have pos: "0 < ?b" "0 < ?g" using l by (simp_all add: layout_ok_def)
  note o = cut_block_member [OF pos(1) oc] and i = cut_block_member [OF pos(2) ic]
  have ol: "?ol < ?rows" and il: "?il < ?lanes" using o(1) i(1) by (simp_all add: rows_in_def lanes_in_def)
  define j1 where "j1 = ?ol * ?lanes + ?il"
  define j2 where "j2 = fx * (?rows * ?lanes) + j1"
  define j3 where "j3 = fy * (fw * (?rows * ?lanes)) + j2"
  define j4 where "j4 = ?ig * (fh * (fw * (?rows * ?g))) + j3"
  have place: "weight_slot l fh fw fy fx ic oc = ?ob * (?b * (fh * fw * padded_input_channels l)) + j4"
    by (simp add: weight_slot_def j1_def j2_def j3_def j4_def Let_def)
  have step: "a * n + x < m * n" if "a < m" "x < n" for a m x n :: nat
  proof -
    have "a * n + x < Suc a * n" using that(2) by simp
    also have "\<dots> \<le> m * n" using that(1) by (intro mult_le_mono1) simp
    finally show ?thesis .
  qed
  let ?lane = "lane_run l fw cin cout ?ob ?ig fy fx" and ?tap = "tap_run l fw cin cout ?ob ?ig fy"
  let ?row = "row_run l fw cin cout ?ob ?ig" and ?group = "group_run l fh fw cin cout ?ob"
  have j1: "j1 < ?rows * ?lanes" unfolding j1_def using ol il by (rule step)
  have j2: "j2 < fw * (?rows * ?lanes)" unfolding j2_def using f(2) j1 by (rule step)
  have j3: "j3 < fh * (fw * (?rows * ?lanes))" unfolding j3_def using f(1) j2 by (rule step)
  have "?lane ?ol ! ?il = slot_value fw cin cout fy fx oc ic"
    using il by (simp add: lane_run_def)
  moreover have "?tap fx ! j1 = ?lane ?ol ! ?il"
    unfolding tap_run_def j1_def using ol il by (intro nth_runs) simp_all
  moreover have "?row fy ! j2 = ?tap fx ! j1"
    unfolding row_run_def j2_def using f(2) j1 by (intro nth_runs) simp_all
  moreover have "?group ?ig ! j3 = ?row fy ! j2"
    unfolding group_run_def j3_def using f(1) j2 by (intro nth_runs) simp_all
  moreover have "block_run l fh fw cin cout ?ob ! j4 = ?group ?ig ! j3"
    unfolding block_run_def j4_def
  proof (rule nth_runs)
    show "?ig < input_groups l" using i(2) l by (simp add: layout_ok_def)
    show "j3 < length (?group ?ig)" using j3 by simp
    fix k
    assume "k < ?ig"
    then show "length (?group k) = fh * (fw * (?rows * ?g))" using i(3) by (simp add: lanes_in_def)
  qed
  moreover have "j4 < ?rows * (fh * fw * padded_input_channels l)"
  proof -
    have "?ig * ?g + ?lanes \<le> padded_input_channels l" using i(1) by (simp only: lanes_in_def)
    then have "fh * (fw * ?rows) * (?ig * ?g + ?lanes) \<le> fh * (fw * ?rows) * padded_input_channels l"
      by (rule mult_le_mono2)
    with j3 show ?thesis unfolding j4_def by (simp add: algebra_simps)
  qed
  moreover have "slot_sources l fh fw cin cout ! weight_slot l fh fw fy fx ic oc =
      block_run l fh fw cin cout ?ob ! j4"
    unfolding slot_sources_runs place
  proof (rule nth_runs)
    show "?ob < output_blocks l" using o(2) l by (simp add: layout_ok_def)
    show "j4 < length (block_run l fh fw cin cout ?ob)"
      using \<open>j4 < _\<close> l by (simp add: length_block_run)
    fix k
    assume "k < ?ob"
    then show "length (block_run l fh fw cin cout k) = ?b * (fh * fw * padded_input_channels l)"
      using o(3) l by (simp add: length_block_run rows_in_def)
  qed
  ultimately show "slot_sources l fh fw cin cout ! weight_slot l fh fw fy fx ic oc =
      slot_value fw cin cout fy fx oc ic" by simp
  have "?ob * ?b + ?rows \<le> programmed_output_channels l" using o(1) by (simp only: rows_in_def)
  then have "(?ob * ?b + ?rows) * (fh * fw * padded_input_channels l)
      \<le> programmed_output_channels l * (fh * fw * padded_input_channels l)" by (rule mult_le_mono1)
  with \<open>j4 < _\<close> show "weight_slot l fh fw fy fx ic oc < length (slot_sources l fh fw cin cout)"
    unfolding place length_slot_sources [OF l] by (simp add: algebra_simps)
qed

section \<open>What the packing loop leaves\<close>

lemma for_each_fill:
  assumes len: "\<And>v. v \<in> set vs \<Longrightarrow> length (val v) = e"
    and body: "\<And>i xs. i < length vs \<Longrightarrow> length xs = length vs * e + length rest
      \<Longrightarrow> \<forall>j < e. xs ! (i * e + j) = 0
      \<Longrightarrow> body (i, vs ! i) xs = Done (overwrite xs (i * e) (val (vs ! i)))"
  shows "for_each (enumerate 0 vs) body (replicate (length vs * e) 0 @ rest) =
    Done (concat (map val vs) @ rest)"
proof -
  have "for_each (enumerate 0 (take m vs)) body (replicate (length vs * e) 0 @ rest) =
      Done (concat (map val (take m vs)) @ replicate ((length vs - m) * e) 0 @ rest)"
    if "m \<le> length vs" for m
    using that
  proof (induction m)
    case 0
    then show ?case by simp
  next
    case (Suc m)
    then have m: "m < length vs" by simp
    let ?done = "concat (map val (take m vs))"
    let ?xs = "?done @ replicate ((length vs - m) * e) 0 @ rest"
    have done_len: "length ?done = m * e"
      using len m set_take_subset [of m vs] by (induction m) (simp_all add: take_Suc_conv_app_nth subset_iff)
    have left: "(length vs - m) * e = e + (length vs - Suc m) * e"
      using m by (metis Suc_diff_Suc mult_Suc)
    have "m * e + (length vs - m) * e = length vs * e" using m by (simp flip: add_mult_distrib)
    then have "length ?xs = length vs * e + length rest" using done_len by simp
    moreover have "\<forall>j < e. ?xs ! (m * e + j) = 0" using done_len left by (simp add: nth_append)
    ultimately have "body (m, vs ! m) ?xs = Done (overwrite ?xs (m * e) (val (vs ! m)))"
      by (rule body [OF m])
    also have "overwrite ?xs (m * e) (val (vs ! m)) =
        ?done @ val (vs ! m) @ replicate ((length vs - Suc m) * e) 0 @ rest"
      using done_len len [of "vs ! m"] m unfolding left replicate_add by (simp add: overwrite_def)
    finally show ?case
      using Suc.IH m
      by (simp add: take_Suc_conv_app_nth enumerate_append_eq for_each_append)
  qed
  from this [of "length vs"] show ?thesis by simp
qed

lemma nth_concat_fill:
  assumes "\<And>v. v \<in> set vs \<Longrightarrow> length (val v) = e" and "i < length vs" and "j < e"
  shows "concat (map val vs) ! (i * e + j) = val (vs ! i) ! j"
proof -
  have "map val vs = map (\<lambda>k. val (vs ! k)) [0..<length vs]"
    by (simp add: map_nth flip: map_map [of val "nth vs", unfolded comp_def])
  then show ?thesis using assms by (simp only: nth_runs nth_mem)
qed

section \<open>The dimensions of a layout\<close>

lemma mult_bound: "a < m \<Longrightarrow> x < n \<Longrightarrow> a * n + x < m * (n :: nat)"
  by (metis add.commute mod_less_divisor mult.commute mult_Suc not_less nat_neq_iff add_less_cancel_left
      Suc_leI less_le_trans mult_le_mono1)

lemma weight_layout_dims:
  assumes l: "weight_layout_new cin cout bits = Done l" and cin: "cin < 2 ^ 63" and cout: "cout < 2 ^ 63"
  defines "per \<equiv> 128 div bits"
  defines "atoms \<equiv> div_ceil cin per"
  shows "0 < cin" "0 < cout" "bits \<in> {4, 8, 16, 32}"
    "padded_input_channels l = (if bits = 16 \<and> atoms mod 4 = 3 then atoms + 1 else atoms) * per"
    "programmed_output_channels l = (if bits < 16 then next_multiple_of cout 2 else cout)"
    "cin \<le> padded_input_channels l" "cout \<le> programmed_output_channels l"
proof -
  show pos: "0 < cin" "0 < cout" "bits \<in> {4, 8, 16, 32}"
    using l by (auto simp: weight_layout_new_def split: if_splits)
  have per: "0 < per" "per \<le> 32" using pos(3) by (auto simp: per_def)
  have "atoms * per < cin + per" unfolding atoms_def using per pos by (intro div_ceil_mult_less)
  then have small: "(if bits = 16 \<and> atoms mod 4 = 3 then atoms + 1 else atoms) * per < 2 ^ 64"
    using cin per by (simp add: algebra_simps)
  have "next_multiple_of cout 2 < 2 ^ 64" using next_multiple_of_less [of 2 cout] cout by simp
  with small l pos show pad: "padded_input_channels l =
      (if bits = 16 \<and> atoms mod 4 = 3 then atoms + 1 else atoms) * per"
    and prog: "programmed_output_channels l = (if bits < 16 then next_multiple_of cout 2 else cout)"
    by (auto simp: weight_layout_new_def Let_def FEATURE_ATOM_BYTES_def per_def atoms_def
        split: if_splits)
  have "cin \<le> atoms * per" unfolding atoms_def using per by (intro div_ceil_mult_ge)
  then show "cin \<le> padded_input_channels l" unfolding pad by (auto intro: le_trans)
  show "cout \<le> programmed_output_channels l" unfolding prog by (auto intro: next_multiple_of_ge)
qed

lemma storage_size_bits_Done:
  assumes "rocket_weight_storage_size_bits fh fw cin cout bits = Done n"
  obtains l where "weight_layout_new cin cout bits = Done l" "0 < fh" "0 < fw"
    "n = programmed_output_channels l * (fh * fw * padded_input_channels l) * bits div 8"
    "programmed_output_channels l * (fh * fw * padded_input_channels l) * bits < 2 ^ 64"
proof -
  from assms obtain l where l: "weight_layout_new cin cout bits = Done l" and f: "fh \<noteq> 0" "fw \<noteq> 0"
    and s: "map_option (\<lambda>b. b div 8)
            (Option.bind (checked_mul64 fh fw) (\<lambda>v.
             Option.bind (checked_mul64 v (padded_input_channels l)) (\<lambda>v.
             Option.bind (checked_mul64 v (programmed_output_channels l)) (\<lambda>v.
             checked_mul64 v bits)))) = Some n"
    by (auto simp: rocket_weight_storage_size_bits_def ok_or_eq_Done elim!: obind_DoneE split: if_splits)
  from s have "n = fh * fw * padded_input_channels l * programmed_output_channels l * bits div 8"
    "fh * fw * padded_input_channels l * programmed_output_channels l * bits < 2 ^ 64"
    by (auto simp: bind_eq_Some_conv)
  with that [OF l] f show thesis by (simp add: ac_simps)
qed

lemma storage_size_Done:
  assumes "rocket_weight_storage_size fh fw cin cout e = Done n"
  obtains l where "weight_layout_new cin cout (e * 8) = Done l" "0 < fh" "0 < fw" "e \<in> {1, 2, 4}"
    "n = length (slot_sources l fh fw cin' cout') * e"
    "n = programmed_output_channels l * (fh * fw * padded_input_channels l) * e" "n < 2 ^ 61"
proof -
  from assms have e: "e \<in> {1, 2, 4}"
    and b: "rocket_weight_storage_size_bits fh fw cin cout (e * 8) = Done n"
    by (auto simp: rocket_weight_storage_size_def split: if_splits)
  from b obtain l where l: "weight_layout_new cin cout (e * 8) = Done l" "0 < fh" "0 < fw"
    and n: "n = programmed_output_channels l * (fh * fw * padded_input_channels l) * (e * 8) div 8"
    and lt: "programmed_output_channels l * (fh * fw * padded_input_channels l) * (e * 8) < 2 ^ 64"
    by (rule storage_size_bits_Done)
  have "n = programmed_output_channels l * (fh * fw * padded_input_channels l) * e"
    using n by (simp flip: mult.assoc)
  moreover from this lt have "n * 8 < 2 ^ 64" by (simp only: mult.assoc)
  then have "n < 2 ^ 61" by simp
  ultimately show thesis
    using that [OF l e] length_slot_sources [OF weight_layout_new_ok [OF l(1)]] by simp
qed

section \<open>The byte packer\<close>

lemma slot_source_bounds:
  assumes "(Some src, oc) \<in> set (slot_sources l fh fw cin cout)"
  shows "src < fh * fw * cin * cout" "oc < cout"
proof -
  from assms obtain fy fx ic where b: "fy < fh" "fx < fw" and ic: "ic < cin" and oc: "oc < cout"
    and src: "src = ((fy * fw + fx) * cin + ic) * cout + oc"
    unfolding slot_sources_def
    by (fastforce split: if_splits)
  show "oc < cout" by (rule oc)
  from b have "fy * fw + fx < fh * fw" by (rule mult_bound)
  from this ic have "(fy * fw + fx) * cin + ic < fh * fw * cin" by (rule mult_bound)
  from this oc show "src < fh * fw * cin * cout" unfolding src by (rule mult_bound)
qed

lemma slot_none_reached:
  "(None, oc) \<in> set (slot_sources l fh fw cin cout) \<Longrightarrow> oc < programmed_output_channels l"
  by (auto simp: slot_sources_def split: if_splits)

definition slot_bytes :: "byte list \<Rightarrow> nat \<Rightarrow> nat \<Rightarrow> byte list option \<Rightarrow> nat option \<times> nat \<Rightarrow> byte list" where
  "slot_bytes dense e cout zero_points v =
     (case v of
        (Some source, oc) \<Rightarrow> take e (drop (source * e) dense)
      | (None, oc) \<Rightarrow>
          (case zero_points of
             Some zps \<Rightarrow> if oc < cout then [zps ! oc] else replicate e 0
           | None \<Rightarrow> replicate e 0))"

text \<open>The lengths and zero points under which the byte packer is entered.\<close>

definition filter_ok :: "byte list \<Rightarrow> nat \<Rightarrow> nat \<Rightarrow> nat \<Rightarrow> nat \<Rightarrow> nat \<Rightarrow> byte list option \<Rightarrow> bool" where
  "filter_ok dense fh fw cin cout e zero_points \<longleftrightarrow>
     0 < cout \<and> fh * fw * cin * cout * e \<le> length dense \<and> length dense < 2 ^ 63
     \<and> (case zero_points of None \<Rightarrow> True | Some zps \<Rightarrow> length zps = cout \<and> e = 1)"

lemma length_slot_bytes:
  assumes ok: "filter_ok dense fh fw cin cout e zero_points"
    and v: "v \<in> set (slot_sources l fh fw cin cout)"
  shows "length (slot_bytes dense e cout zero_points v) = e"
proof (cases v)
  case (Pair source oc)
  show ?thesis
  proof (cases source)
    case None
    then show ?thesis using ok by (auto simp: Pair slot_bytes_def filter_ok_def split: option.splits)
  next
    case (Some src)
    then have "src < fh * fw * cin * cout" using slot_source_bounds v Pair by blast
    then have "(src + 1) * e \<le> fh * fw * cin * cout * e" by (intro mult_le_mono1) simp
    moreover have "fh * fw * cin * cout * e \<le> length dense" using ok by (simp add: filter_ok_def)
    ultimately have "src * e + e \<le> length dense" by simp
    then show ?thesis by (simp add: Pair Some slot_bytes_def)
  qed
qed

lemma pack_impl_exact:
  assumes ok: "filter_ok dense fh fw cin cout e zero_points" and pc: "cout \<le> pc"
    and n: "rocket_weight_storage_size fh fw cin pc e = Done n" and packed: "n \<le> length packed"
    and l: "weight_layout_new cin pc (e * 8) = Done l"
  shows "pack_hwcf_to_rocket_weights_impl dense fh fw cin cout pc e zero_points packed =
    Done (concat (map (slot_bytes dense e cout zero_points) (slot_sources l fh fw cin cout)) @ drop n packed, n)"
proof -
  let ?vs = "slot_sources l fh fw cin cout"
  from n l have nn: "n = length ?vs * e" and f: "0 < fh" "0 < fw" and e: "0 < e"
    by (auto elim!: storage_size_Done [where cin' = cin and cout' = cout])
  have cin: "0 < cin" using l by (auto simp: weight_layout_new_def split: if_splits)
  have cout: "0 < cout" "fh * fw * cin * cout * e \<le> length dense" "length dense < 9223372036854775808"
    using ok by (simp_all add: filter_ok_def)
  have "fh * fw \<le> fh * fw * cin" "fh * fw * cin \<le> fh * fw * cin * cout"
    "fh * fw * cin * cout \<le> fh * fw * cin * cout * e" using cin cout(1) e by simp_all
  then have small: "fh * fw < 18446744073709551616" "fh * fw * cin < 18446744073709551616"
    "fh * fw * cin * cout < 18446744073709551616" "fh * fw * cin * cout * e < 18446744073709551616"
    using cout by linarith+
  then have dense_len: "Option.bind (checked_mul64 fh fw) (\<lambda>v. Option.bind (checked_mul64 v cin)
      (\<lambda>v. Option.bind (checked_mul64 v cout) (\<lambda>v. checked_mul64 v e))) = Some (fh * fw * cin * cout * e)"
    by (simp add: bind_eq_Some_conv)
  have fill: "fill_slice packed 0 n 0 = Done (replicate n 0 @ drop n packed)"
    using packed by (simp add: fill_slice_def overwrite_def)
  let ?body = "\<lambda>(slot, source, oc) packed.
          (let dst_offset = slot * e in
          case source of
            Some source \<Rightarrow>
              obind (read_slice dense (source * e) e) (\<lambda>element.
              write_slice packed dst_offset element)
          | None \<Rightarrow>
              (case zero_points of
                 Some zps \<Rightarrow>
                   if oc < cout then ensure (oc < length zps) (write_slice packed dst_offset [zps ! oc])
                   else Done packed
               | None \<Rightarrow> Done packed)) :: byte list weight_result"
  have "for_each (enumerate 0 ?vs) ?body (replicate (length ?vs * e) 0 @ drop n packed) =
    Done (concat (map (slot_bytes dense e cout zero_points) ?vs) @ drop n packed)"
  proof (rule for_each_fill)
    fix i and xs :: "byte list"
    assume i: "i < length ?vs" and len: "length xs = length ?vs * e + length (drop n packed)"
      and zero: "\<forall>j < e. xs ! (i * e + j) = 0"
    obtain source oc where v: "?vs ! i = (source, oc)" by (cases "?vs ! i")
    have mem: "(source, oc) \<in> set ?vs" using i v by (metis nth_mem)
    have "(i + 1) * e \<le> length ?vs * e" using i by (intro mult_le_mono1) simp
    then have fit: "i * e + e \<le> length xs" using len by simp
    have keep: "overwrite xs (i * e) (replicate e 0) = xs"
      using fit zero by (intro nth_equalityI) (auto simp: nth_overwrite le_iff_add)
    show "?body (i, ?vs ! i) xs = Done (overwrite xs (i * e) (slot_bytes dense e cout zero_points (?vs ! i)))"
    proof (cases source)
      case None
      then show ?thesis
        using fit keep ok e by (auto simp: v slot_bytes_def filter_ok_def split: option.splits)
    next
      case (Some src)
      have "src < fh * fw * cin * cout" using slot_source_bounds(1) mem Some by blast
      then have "(src + 1) * e \<le> fh * fw * cin * cout * e" by (intro mult_le_mono1) simp
      then have "src * e + e \<le> length dense" using cout(2) by simp
      then show ?thesis using fit by (simp add: v Some slot_bytes_def)
    qed
  qed (rule length_slot_bytes [OF ok])
  then have loop: "for_each (visit_slots l fh fw cin cout) ?body (replicate n 0 @ drop n packed) =
    Done (concat (map (slot_bytes dense e cout zero_points) ?vs) @ drop n packed)"
    by (simp only: visit_slots_def nn)
  have guards: "(pc < cout) = False" "(length dense < fh * fw * cin * cout * e) = False"
    "(length packed < n) = False" using pc cout packed by auto
  show ?thesis
    by (simp only: pack_hwcf_to_rocket_weights_impl_def guards if_False dense_len ok_or.simps
        obind.simps n fill l loop)
qed

end
