(* ===== verification/NibbleStore.thy ===== *)
theory NibbleStore
  imports WeightLayout
begin

text \<open>
  A buffer of two four-bit cells to a byte, as both int4 packers use it: an interface of cells
  with a read and a write, and the byte buffer as its model.
\<close>

section \<open>Cells\<close>

locale cells =
  fixes get :: "'s \<Rightarrow> nat \<Rightarrow> 'v" and put :: "'s \<Rightarrow> nat \<Rightarrow> 'v \<Rightarrow> 's" and room :: "'s \<Rightarrow> nat"
    and kept :: "'v \<Rightarrow> 'v"
  assumes get_put: "i < room s \<Longrightarrow> get (put s i v) i = kept v"
    and get_other: "i < room s \<Longrightarrow> j < room s \<Longrightarrow> i \<noteq> j \<Longrightarrow> get (put s i v) j = get s j"
    and room_put: "i < room s \<Longrightarrow> room (put s i v) = room s"
begin

text \<open>
  A loop whose every round writes at most one cell, all rounds agreeing on what a cell is to hold:
  written cells hold their value, the others are as before.
\<close>

lemma for_each_puts:
  assumes body: "\<And>x s. x \<in> set xs \<Longrightarrow> room s = n \<Longrightarrow>
      body x s = Done (case w x of None \<Rightarrow> s | Some (i, v) \<Rightarrow> put s i v)"
    and inside: "\<And>x i v. x \<in> set xs \<Longrightarrow> w x = Some (i, v) \<Longrightarrow> i < n"
    and agree: "\<And>x y i u v. x \<in> set xs \<Longrightarrow> y \<in> set xs \<Longrightarrow> w x = Some (i, u) \<Longrightarrow> w y = Some (i, v) \<Longrightarrow> u = v"
    and s: "room s = n"
  shows "\<exists>t. for_each xs body s = Done t \<and> room t = n
    \<and> (\<forall>x i v. x \<in> set xs \<longrightarrow> w x = Some (i, v) \<longrightarrow> get t i = kept v)
    \<and> (\<forall>i < n. (\<forall>x v. x \<in> set xs \<longrightarrow> w x \<noteq> Some (i, v)) \<longrightarrow> get t i = get s i)"
proof (rule for_each_invariant)
  show "room s = n
    \<and> (\<forall>x i v. x \<in> set [] \<longrightarrow> w x = Some (i, v) \<longrightarrow> get s i = kept v)
    \<and> (\<forall>i < n. (\<forall>x v. x \<in> set [] \<longrightarrow> w x \<noteq> Some (i, v)) \<longrightarrow> get s i = get s i)"
    using s by simp
next
  fix seen x rest t
  assume xs: "xs = seen @ x # rest"
    and inv: "room t = n
      \<and> (\<forall>x i v. x \<in> set seen \<longrightarrow> w x = Some (i, v) \<longrightarrow> get t i = kept v)
      \<and> (\<forall>i < n. (\<forall>x v. x \<in> set seen \<longrightarrow> w x \<noteq> Some (i, v)) \<longrightarrow> get t i = get s i)"
  let ?t = "case w x of None \<Rightarrow> t | Some (i, v) \<Rightarrow> put t i v"
  have b: "body x t = Done ?t" using body [of x t] xs inv by simp
  have "room ?t = n
      \<and> (\<forall>y i v. y \<in> set (seen @ [x]) \<longrightarrow> w y = Some (i, v) \<longrightarrow> get ?t i = kept v)
      \<and> (\<forall>i < n. (\<forall>y v. y \<in> set (seen @ [x]) \<longrightarrow> w y \<noteq> Some (i, v)) \<longrightarrow> get ?t i = get s i)"
  proof (cases "w x")
    case None
    then show ?thesis using inv by auto
  next
    case (Some iv)
    obtain i v where iv: "iv = (i, v)" by (cases iv)
    have i: "i < room t" using inside [of x i v] Some iv xs inv by simp
    have "get (put t i v) k = kept u" if y: "y \<in> set (seen @ [x])" "w y = Some (k, u)" for y k u
    proof (cases "k = i")
      case True
      then have "u = v" using agree [of y x i u v] y Some iv xs by auto
      with True i show ?thesis by (simp add: get_put)
    next
      case False
      then have "y \<in> set seen" using y Some iv by auto
      moreover have "k < room t" using inside [of y k u] y xs inv by auto
      ultimately show ?thesis using False i y inv by (simp add: get_other)
    qed
    moreover have "get (put t i v) k = get s k"
      if k: "k < n" "\<forall>y u. y \<in> set (seen @ [x]) \<longrightarrow> w y \<noteq> Some (k, u)" for k
    proof -
      have "k \<noteq> i" using k(2) Some iv by auto
      then show ?thesis using k i inv by (simp add: get_other)
    qed
    ultimately show ?thesis using i inv by (simp add: Some iv room_put)
  qed
  with b show "\<exists>t'. body x t = Done t' \<and> (room t' = n
      \<and> (\<forall>y i v. y \<in> set (seen @ [x]) \<longrightarrow> w y = Some (i, v) \<longrightarrow> get t' i = kept v)
      \<and> (\<forall>i < n. (\<forall>y v. y \<in> set (seen @ [x]) \<longrightarrow> w y \<noteq> Some (i, v)) \<longrightarrow> get t' i = get s i))"
    by blast
qed

end

section \<open>Nibbles of a byte buffer\<close>

definition nibble :: "byte list \<Rightarrow> nat \<Rightarrow> byte" where
  "nibble xs i = (if i mod 2 = 0 then xs ! (i div 2) AND 0xf else drop_bit 4 (xs ! (i div 2)))"

definition put_nibble :: "byte list \<Rightarrow> nat \<Rightarrow> byte \<Rightarrow> byte list" where
  "put_nibble xs i v =
     xs[i div 2 := if i mod 2 = 0 then (xs ! (i div 2) AND 0xf0) OR (v AND 0xf)
                   else (xs ! (i div 2) AND 0x0f) OR push_bit 4 (v AND 0xf)]"

lemma byte_masks:
  "bit (0xf :: byte) n \<longleftrightarrow> n < 4" "bit (0xf0 :: byte) n \<longleftrightarrow> 4 \<le> n \<and> n < 8"
proof -
  have m: "(0xf :: byte) = mask 4" "(0xf0 :: byte) = push_bit 4 (mask 4)"
    by (simp_all add: mask_eq_exp_minus_1 push_bit_eq_mult)
  show "bit (0xf :: byte) n \<longleftrightarrow> n < 4" unfolding m(1) by (simp only: bit_mask_iff) auto
  show "bit (0xf0 :: byte) n \<longleftrightarrow> 4 \<le> n \<and> n < 8"
    unfolding m(2) by (simp only: bit_push_bit_iff bit_mask_iff) auto
qed

lemma nibble_merge:
  fixes b v :: byte
  shows "((b AND 0xf0) OR (v AND 0xf)) AND 0xf = v AND 0xf"
    "drop_bit 4 ((b AND 0xf0) OR (v AND 0xf)) = drop_bit 4 b"
    "((b AND 0x0f) OR push_bit 4 (v AND 0xf)) AND 0xf = b AND 0xf"
    "drop_bit 4 ((b AND 0x0f) OR push_bit 4 (v AND 0xf)) = v AND 0xf"
  by (rule bit_word_eqI;
      simp only: bit_and_iff bit_or_iff bit_drop_bit_eq bit_push_bit_iff byte_masks o_apply;
      use bit_imp_le_length in fastforce)+

lemma store_nibble_put:
  assumes "i < 2 * length xs"
  shows "store_nibble xs (i div 2) (i mod 2 = 0) v = Done (put_nibble xs i v)"
proof -
  have "i div 2 < length xs" using assms by linarith
  then show ?thesis by (simp add: store_nibble_def put_nibble_def Let_def)
qed

lemma length_put_nibble [simp]: "length (put_nibble xs i v) = length xs"
  by (simp add: put_nibble_def)

interpretation nibbles: cells nibble put_nibble "\<lambda>xs. 2 * length xs" "\<lambda>v. v AND 0xf"
proof
  fix i j and xs :: "byte list" and v
  assume i: "i < 2 * length xs"
  then have d: "i div 2 < length xs" by linarith
  show "nibble (put_nibble xs i v) i = v AND 0xf"
    by (cases "i mod 2 = 0")
      (simp_all only: nibble_def put_nibble_def if_True if_False nth_list_update_eq [OF d] nibble_merge
        simp_thms)
  show "2 * length (put_nibble xs i v) = 2 * length xs" by simp
  assume j: "j < 2 * length xs" and ij: "i \<noteq> j"
  show "nibble (put_nibble xs i v) j = nibble xs j"
  proof (cases "i div 2 = j div 2")
    case False
    then show ?thesis by (simp add: nibble_def put_nibble_def)
  next
    case True
    then have "i mod 2 \<noteq> j mod 2" using ij by (metis div_mult_mod_eq)
    then have "i mod 2 = 0 \<and> j mod 2 = 1 \<or> i mod 2 = 1 \<and> j mod 2 = 0" by linarith
    then show ?thesis
    proof
      assume p: "i mod 2 = 0 \<and> j mod 2 = 1"
      then have "(i mod 2 = 0) = True" "(j mod 2 = 0) = False" by simp_all
      then show ?thesis
        by (simp only: nibble_def put_nibble_def True [symmetric] if_True if_False
            nth_list_update_eq [OF d] nibble_merge)
    next
      assume p: "i mod 2 = 1 \<and> j mod 2 = 0"
      then have "(i mod 2 = 0) = False" "(j mod 2 = 0) = True" by simp_all
      then show ?thesis
        by (simp only: nibble_def put_nibble_def True [symmetric] if_True if_False
            nth_list_update_eq [OF d] nibble_merge)
    qed
  qed
qed

lemma nibble_replicate: "i < 2 * n \<Longrightarrow> nibble (replicate n 0 @ xs) i = 0"
  by (simp add: nibble_def nth_append) linarith

end
