(* ===== verification/WeightPackers.thy ===== *)
theory WeightPackers
  imports WeightProofs NibbleStore TensorProofs
begin

text \<open>
  The coefficient order is a bijection of coefficients and slots; what the nibble packers and the
  depthwise packer leave in their destination.
\<close>

section \<open>Slots and coefficients\<close>

lemma radix_inj:
  fixes n :: nat
  assumes "a * n + x = b * n + y" "x < n" "y < n"
  shows "a = b" "x = y"
proof -
  have "(a * n + x) div n = a" "(b * n + y) div n = b" "(a * n + x) mod n = x" "(b * n + y) mod n = y"
    using assms(2,3) by simp_all
  with assms(1) show "a = b" "x = y" by metis+
qed

definition coefficients :: "weight_layout \<Rightarrow> nat \<Rightarrow> nat \<Rightarrow> (nat \<times> nat \<times> nat \<times> nat) set" where
  "coefficients l fh fw =
     {..<fh} \<times> {..<fw} \<times> {..<padded_input_channels l} \<times> {..<programmed_output_channels l}"

definition slot_of :: "weight_layout \<Rightarrow> nat \<Rightarrow> nat \<Rightarrow> nat \<times> nat \<times> nat \<times> nat \<Rightarrow> nat" where
  "slot_of l fh fw = (\<lambda>(fy, fx, ic, oc). weight_slot l fh fw fy fx ic oc)"

lemma slot_of_inj:
  assumes "layout_ok l"
  shows "inj_on (slot_of l fh fw) (coefficients l fh fw)"
proof (rule inj_onI)
  fix x y
  assume x: "x \<in> coefficients l fh fw" and y: "y \<in> coefficients l fh fw"
    and eq: "slot_of l fh fw x = slot_of l fh fw y"
  let ?q = "padded_input_channels l" and ?p = "programmed_output_channels l"
  obtain fy fx ic oc where xs: "x = (fy, fx, ic, oc)" by (cases x)
  obtain gy gx jc pc where ys: "y = (gy, gx, jc, pc)" by (cases y)
  from x y have b: "fy < fh" "fx < fw" "ic < ?q" "oc < ?p" "gy < fh" "gx < fw" "jc < ?q" "pc < ?p"
    by (simp_all add: coefficients_def xs ys)
  have sv: "slot_value fw ?q ?p fy fx oc ic = slot_value fw ?q ?p gy gx pc jc"
    using slot_at(2) [OF assms b(4,3,1,2), of ?q ?p] slot_at(2) [OF assms b(8,7,5,6), of ?q ?p] eq
    by (simp add: slot_of_def xs ys)
  from arg_cong [OF sv, of "\<lambda>v. the (fst v)"] have e: "((fy * fw + fx) * ?q + ic) * ?p + oc = ((gy * fw + gx) * ?q + jc) * ?p + pc"
    by (simp only: slot_value_def b simp_thms if_True fst_conv option.sel)
  note e1 = radix_inj [OF e b(4,8)]
  note e2 = radix_inj [OF e1(1) b(3,7)]
  note e3 = radix_inj [OF e2(1) b(2,6)]
  show "x = y" using e1(2) e2(2) e3 by (simp add: xs ys)
qed

lemma slot_of_bij:
  assumes "layout_ok l"
  shows "bij_betw (slot_of l fh fw) (coefficients l fh fw)
    {..<programmed_output_channels l * (fh * fw * padded_input_channels l)}"
proof -
  let ?n = "programmed_output_channels l * (fh * fw * padded_input_channels l)"
  have "slot_of l fh fw ` coefficients l fh fw \<subseteq> {..<?n}"
    using slot_at(1) [OF assms] length_slot_sources [OF assms]
    by (auto simp: coefficients_def slot_of_def)
  moreover have "card (slot_of l fh fw ` coefficients l fh fw) = ?n"
    using slot_of_inj [OF assms] by (simp add: card_image coefficients_def card_cartesian_product ac_simps)
  ultimately have "slot_of l fh fw ` coefficients l fh fw = {..<?n}"
    by (intro card_subset_eq) simp_all
  with slot_of_inj [OF assms] show ?thesis by (simp add: bij_betw_def)
qed

section \<open>Nibbles of a filter\<close>

text \<open>The checks of the int4 packer.\<close>

definition int4_filter_ok :: "byte list \<Rightarrow> nat \<Rightarrow> nat \<Rightarrow> nat \<Rightarrow> nat \<Rightarrow> bool" where
  "int4_filter_ok dense fh fw cin cout \<longleftrightarrow>
     0 < cout \<and> fh * fw * cin * cout \<le> length dense \<and> length dense < 2 ^ 63
     \<and> (\<forall>v \<in> set (take (fh * fw * cin * cout) dense). is_int4 v)"

lemma nth_enumerate_member: "(i, x) \<in> set (enumerate 0 xs) \<longleftrightarrow> i < length xs \<and> xs ! i = x"
  by (auto simp: in_set_conv_nth nth_enumerate_eq)

lemma pack_int4_nibbles:
  assumes ok: "int4_filter_ok dense fh fw cin cout" and pc: "cout \<le> pc"
    and n: "rocket_weight_storage_size_bits fh fw cin pc 4 = Done n" and packed: "n \<le> length packed"
    and l: "weight_layout_new cin pc 4 = Done l"
  defines "vs \<equiv> slot_sources l fh fw cin cout"
  shows "\<exists>out. pack_hwcf_to_rocket_weights_int4_padded dense fh fw cin cout pc packed = Done (out, n)
    \<and> length out = length packed \<and> length vs = 2 * n
    \<and> (\<forall>i < 2 * n. nibble out i =
         (case vs ! i of (Some src, oc) \<Rightarrow> dense ! src AND 0xf | (None, oc) \<Rightarrow> 0))
    \<and> (\<forall>i. 2 * n \<le> i \<longrightarrow> i < 2 * length packed \<longrightarrow> nibble out i = nibble packed i)"
proof -
  note lok = weight_layout_new_ok [OF l]
  let ?slots = "programmed_output_channels l * (fh * fw * padded_input_channels l)"
  from n l have nn: "n = ?slots * 4 div 8" and f: "0 < fh" "0 < fw"
    by (auto elim!: storage_size_bits_Done)
  have size: "length vs = ?slots" unfolding vs_def by (rule length_slot_sources [OF lok])
  have even: "2 dvd padded_input_channels l"
    using l by (auto simp: weight_layout_new_def FEATURE_ATOM_BYTES_def Let_def wrap64_def
        intro!: dvd_mod dvd_mult split: if_splits)
  then have "2 dvd ?slots" by simp
  then have len: "length vs = 2 * n" by (auto simp: size nn elim!: dvdE)
  have cin: "0 < cin" using l by (auto simp: weight_layout_new_def split: if_splits)
  have cout: "0 < cout" "fh * fw * cin * cout \<le> length dense" "length dense < 9223372036854775808"
    and dense4: "\<forall>v \<in> set (take (fh * fw * cin * cout) dense). is_int4 v"
    using ok by (simp_all add: int4_filter_ok_def)
  have "fh * fw \<le> fh * fw * cin" "fh * fw * cin \<le> fh * fw * cin * cout" using cin cout(1) by simp_all
  then have small: "fh * fw < 18446744073709551616" "fh * fw * cin < 18446744073709551616"
    "fh * fw * cin * cout < 18446744073709551616"
    using cout by linarith+
  then have dense_len: "Option.bind (checked_mul64 fh fw) (\<lambda>v. Option.bind (checked_mul64 v cin)
      (\<lambda>v. checked_mul64 v cout)) = Some (fh * fw * cin * cout)"
    by (simp add: bind_eq_Some_conv)
  let ?zeroed = "replicate n 0 @ drop n packed"
  have fill: "fill_slice packed 0 n 0 = Done ?zeroed"
    using packed by (simp add: fill_slice_def overwrite_def)
  let ?body = "\<lambda>(slot, source, _) packed.
          (case source of
            None \<Rightarrow> Done packed
          | Some source \<Rightarrow>
              ensure (source < length dense)
                (store_nibble packed (slot div 2) (slot mod 2 = 0) (dense ! source))) :: byte list weight_result"
  let ?w = "\<lambda>(slot, source, oc :: nat). map_option (\<lambda>src. (slot, dense ! src)) source"
  have loop: "\<exists>t. for_each (visit_slots l fh fw cin cout) ?body ?zeroed = Done t \<and> 2 * length t = 2 * length packed
    \<and> (\<forall>x i v. x \<in> set (visit_slots l fh fw cin cout) \<longrightarrow> ?w x = Some (i, v) \<longrightarrow> nibble t i = v AND 0xf)
    \<and> (\<forall>i < 2 * length packed. (\<forall>x v. x \<in> set (visit_slots l fh fw cin cout) \<longrightarrow> ?w x \<noteq> Some (i, v))
         \<longrightarrow> nibble t i = nibble ?zeroed i)"
  proof (rule nibbles.for_each_puts)
    fix x and s :: "byte list"
    assume x: "x \<in> set (visit_slots l fh fw cin cout)" and s: "2 * length s = 2 * length packed"
    obtain i source oc where xs: "x = (i, source, oc)" by (cases x)
    from x have i: "i < length vs" and v: "vs ! i = (source, oc)"
      by (simp_all add: visit_slots_def xs vs_def nth_enumerate_member)
    show "?body x s = Done (case ?w x of None \<Rightarrow> s | Some (i, v) \<Rightarrow> put_nibble s i v)"
    proof (cases source)
      case (Some src)
      have "(Some src, oc) \<in> set vs" using i v Some by (metis nth_mem)
      then have "src < fh * fw * cin * cout" unfolding vs_def by (rule slot_source_bounds(1))
      then have "src < length dense" using cout(2) by simp
      moreover have "i < 2 * length s" using i s len packed by simp
      ultimately show ?thesis by (simp add: xs Some store_nibble_put)
    qed (simp add: xs)
  next
    fix x i v
    assume x: "x \<in> set (visit_slots l fh fw cin cout)" and w: "?w x = Some (i, v)"
    then have "i < length vs" by (auto simp: visit_slots_def vs_def nth_enumerate_member split: prod.splits)
    then show "i < 2 * length packed" using len packed by simp
  next
    fix x y i u v
    assume "x \<in> set (visit_slots l fh fw cin cout)" "y \<in> set (visit_slots l fh fw cin cout)"
      "?w x = Some (i, u)" "?w y = Some (i, v)"
    then show "u = v" by (auto simp: visit_slots_def nth_enumerate_member split: prod.splits)
  qed (use packed in simp)
  obtain out where run: "for_each (visit_slots l fh fw cin cout) ?body ?zeroed = Done out"
    and out_len: "length out = length packed"
    and hit: "\<And>x i v. x \<in> set (visit_slots l fh fw cin cout) \<Longrightarrow> ?w x = Some (i, v) \<Longrightarrow> nibble out i = v AND 0xf"
    and miss: "\<And>i. i < 2 * length packed \<Longrightarrow> (\<And>x v. x \<in> set (visit_slots l fh fw cin cout) \<Longrightarrow> ?w x \<noteq> Some (i, v))
         \<Longrightarrow> nibble out i = nibble ?zeroed i"
  proof (rule exE [OF loop], elim conjE)
    fix t
    assume t: "for_each (visit_slots l fh fw cin cout) ?body ?zeroed = Done t" "2 * length t = 2 * length packed"
      "\<forall>x i v. x \<in> set (visit_slots l fh fw cin cout) \<longrightarrow> ?w x = Some (i, v) \<longrightarrow> nibble t i = v AND 0xf"
      "\<forall>i < 2 * length packed. (\<forall>x v. x \<in> set (visit_slots l fh fw cin cout) \<longrightarrow> ?w x \<noteq> Some (i, v))
         \<longrightarrow> nibble t i = nibble ?zeroed i"
    show thesis
    proof (rule that [of t])
      show "length t = length packed" using t(2) by simp
    qed (rule t(1) t(3) [rule_format] t(4) [rule_format]; assumption)+
  qed
  have guards: "(pc < cout) = False" "(length dense < fh * fw * cin * cout) = False"
    "(\<exists>v \<in> set (take (fh * fw * cin * cout) dense). \<not> is_int4 v) = False"
    "(length packed < n) = False" using pc cout packed dense4 by auto
  have "pack_hwcf_to_rocket_weights_int4_padded dense fh fw cin cout pc packed = Done (out, n)"
    by (simp only: pack_hwcf_to_rocket_weights_int4_padded_def guards if_False dense_len ok_or.simps
        obind.simps n fill l run)
  moreover have "nibble out i = (case vs ! i of (Some src, oc) \<Rightarrow> dense ! src AND 0xf | (None, oc) \<Rightarrow> 0)"
    if i: "i < 2 * n" for i
  proof (cases "vs ! i")
    case (Pair source oc)
    have mem: "(i, source, oc) \<in> set (visit_slots l fh fw cin cout)"
      using i len Pair by (simp add: visit_slots_def vs_def nth_enumerate_member)
    show ?thesis
    proof (cases source)
      case (Some src)
      then show ?thesis using hit [OF mem, of i "dense ! src"] by (simp add: Pair)
    next
      case None
      have "nibble out i = nibble ?zeroed i"
        using i packed None Pair
        by (intro miss) (auto simp: visit_slots_def vs_def nth_enumerate_member split: prod.splits)
      then show ?thesis using i None Pair by (simp add: nibble_replicate)
    qed
  qed
  moreover have "nibble out i = nibble packed i" if i: "2 * n \<le> i" "i < 2 * length packed" for i
  proof -
    have "nibble out i = nibble ?zeroed i"
      using i len by (intro miss) (auto simp: visit_slots_def vs_def nth_enumerate_member split: prod.splits)
    also have "?zeroed ! (i div 2) = packed ! (i div 2)"
    proof -
      have "n \<le> i div 2" using i by linarith
      then show ?thesis using packed i by (simp add: nth_append)
    qed
    then have "nibble ?zeroed i = nibble packed i" by (simp add: nibble_def)
    finally show ?thesis .
  qed
  ultimately show ?thesis using out_len len by blast
qed

section \<open>Nibbles of a feature map\<close>

definition int4_features_ok :: "byte list \<Rightarrow> nat \<Rightarrow> nat \<Rightarrow> byte list \<Rightarrow> bool" where
  "int4_features_ok dense pixels channels packed \<longleftrightarrow>
     0 < channels \<and> channels mod 2 = 0 \<and> pixels * channels \<le> length dense \<and> length dense < 2 ^ 63
     \<and> (\<forall>v \<in> set (take (pixels * channels) dense). is_int4 v)
     \<and> div_ceil channels 32 * pixels * 16 \<le> length packed \<and> length packed < 2 ^ 63"

lemma pack_int4_features:
  assumes ok: "int4_features_ok dense pixels channels packed"
  defines "n \<equiv> div_ceil channels 32 * pixels * 16"
  shows "\<exists>out. pack_nhwc_to_nc1hwc2_int4 dense pixels channels packed = Done (out, n)
    \<and> length out = length packed
    \<and> (\<forall>s p lane. s < div_ceil channels 32 \<longrightarrow> p < pixels \<longrightarrow> lane < 32 \<longrightarrow>
         nibble out ((s * pixels + p) * 32 + lane) =
           (if s * 32 + lane < channels then dense ! (p * channels + s * 32 + lane) AND 0xf else 0))
    \<and> (\<forall>i. 2 * n \<le> i \<longrightarrow> i < 2 * length packed \<longrightarrow> nibble out i = nibble packed i)"
proof -
  let ?S = "div_ceil channels 32"
  have c: "0 < channels" "channels mod 2 = 0" "pixels * channels \<le> length dense"
    "length dense < 9223372036854775808" "\<forall>v \<in> set (take (pixels * channels) dense). is_int4 v"
    "n \<le> length packed" "length packed < 9223372036854775808"
    using ok by (simp_all add: int4_features_ok_def n_def)
  let ?zeroed = "replicate n 0 @ drop n packed"
  let ?xs = "List.product [0..<pixels] [0..<channels]"
  let ?cell = "\<lambda>(p, ch). (ch div 32 * pixels + p) * 32 + ch mod 32"
  let ?w = "\<lambda>(p, ch). Some (?cell (p, ch), dense ! (p * channels + ch))"
  let ?body = "\<lambda>(pixel, channel) packed.
          (let surface = channel div 32;
              lane = channel mod 32;
              offset = wrap64 ((surface * pixels + pixel) * FEATURE_ATOM_BYTES + lane div 2);
              source = wrap64 (pixel * channels + channel)
          in ensure (source < length dense)
               (store_nibble packed offset (lane mod 2 = 0) (dense ! source))) :: byte list weight_result"
  have surface: "ch div 32 < ?S" if "ch < channels" for ch
    using cut_block_member(2) [of 32 ch channels] that by simp
  have cell: "?cell (p, ch) < 2 * n" if "p < pixels" "ch < channels" for p ch
  proof -
    have "ch div 32 * pixels + p < ?S * pixels" using surface [OF that(2)] that(1) by (rule mult_bound)
    then have "(ch div 32 * pixels + p) * 32 + ch mod 32 < ?S * pixels * 32" by (rule mult_bound) simp
    then show ?thesis by (simp add: n_def)
  qed
  have loop: "\<exists>t. for_each ?xs ?body ?zeroed = Done t \<and> 2 * length t = 2 * length packed
    \<and> (\<forall>x i v. x \<in> set ?xs \<longrightarrow> ?w x = Some (i, v) \<longrightarrow> nibble t i = v AND 0xf)
    \<and> (\<forall>i < 2 * length packed. (\<forall>x v. x \<in> set ?xs \<longrightarrow> ?w x \<noteq> Some (i, v)) \<longrightarrow> nibble t i = nibble ?zeroed i)"
  proof (rule nibbles.for_each_puts)
    fix x and xs :: "byte list"
    assume x: "x \<in> set ?xs" and len: "2 * length xs = 2 * length packed"
    obtain p ch where xs: "x = (p, ch)" by (cases x)
    with x have b: "p < pixels" "ch < channels" by auto
    let ?i = "?cell (p, ch)"
    have i: "?i < 2 * length xs" using cell [OF b] len c(6) by simp
    have half: "?i div 2 = (ch div 32 * pixels + p) * 16 + ch mod 32 div 2"
      "(?i mod 2 = 0) = (ch mod 32 mod 2 = 0)" by simp_all presburger+
    have "?i div 2 < 18446744073709551616" using i len c(7) by linarith
    then have off: "wrap64 ((ch div 32 * pixels + p) * FEATURE_ATOM_BYTES + ch mod 32 div 2) = ?i div 2"
      unfolding half FEATURE_ATOM_BYTES_def by simp
    have src: "p * channels + ch < pixels * channels" using b by (rule mult_bound)
    then have "p * channels + ch < 18446744073709551616" using c(3,4) by linarith
    then have src': "wrap64 (p * channels + ch) = p * channels + ch" by simp
    have inb: "(p * channels + ch < length dense) = True" using src c(3) by simp
    have "?body x xs = store_nibble xs (?i div 2) (?i mod 2 = 0) (dense ! (p * channels + ch))"
      unfolding xs prod.case Let_def src' off inb ensure_simps by (simp only: half(2) [unfolded prod.case])
    also have "\<dots> = Done (put_nibble xs ?i (dense ! (p * channels + ch)))"
      using i by (rule store_nibble_put)
    finally show "?body x xs = Done (case ?w x of None \<Rightarrow> xs | Some (i, v) \<Rightarrow> put_nibble xs i v)"
      by (simp only: xs prod.case option.case)
  next
    fix x i v
    assume "x \<in> set ?xs" "?w x = Some (i, v)"
    then show "i < 2 * length packed" using cell c(6) by fastforce
  next
    fix x y i u v
    assume x: "x \<in> set ?xs" "?w x = Some (i, u)" and y: "y \<in> set ?xs" "?w y = Some (i, v)"
    obtain p ch q dh where xy: "x = (p, ch)" "y = (q, dh)" by (cases x, cases y)
    from x y have b: "p < pixels" "q < pixels" and e: "?cell (p, ch) = ?cell (q, dh)"
      and uv: "u = dense ! (p * channels + ch)" "v = dense ! (q * channels + dh)" by (auto simp: xy)
    from e have e': "(ch div 32 * pixels + p) * 32 + ch mod 32 = (dh div 32 * pixels + q) * 32 + dh mod 32"
      by simp
    from radix_inj [OF e'] have "ch div 32 * pixels + p = dh div 32 * pixels + q" "ch mod 32 = dh mod 32"
      by simp_all
    with radix_inj [OF this(1) b] have "p = q" "ch = dh" by (simp_all, metis div_mult_mod_eq)
    then show "u = v" by (simp add: uv)
  qed (use c in simp)
  obtain out where run: "for_each ?xs ?body ?zeroed = Done out"
    and out_len: "length out = length packed"
    and hit: "\<And>x i v. x \<in> set ?xs \<Longrightarrow> ?w x = Some (i, v) \<Longrightarrow> nibble out i = v AND 0xf"
    and miss: "\<And>i. i < 2 * length packed \<Longrightarrow> (\<And>x v. x \<in> set ?xs \<Longrightarrow> ?w x \<noteq> Some (i, v))
         \<Longrightarrow> nibble out i = nibble ?zeroed i"
  proof (rule exE [OF loop], elim conjE)
    fix t
    assume t: "for_each ?xs ?body ?zeroed = Done t" "2 * length t = 2 * length packed"
      "\<forall>x i v. x \<in> set ?xs \<longrightarrow> ?w x = Some (i, v) \<longrightarrow> nibble t i = v AND 0xf"
      "\<forall>i < 2 * length packed. (\<forall>x v. x \<in> set ?xs \<longrightarrow> ?w x \<noteq> Some (i, v)) \<longrightarrow> nibble t i = nibble ?zeroed i"
    show thesis
    proof (rule that [of t])
      show "length t = length packed" using t(2) by simp
    qed (rule t(1) t(3) [rule_format] t(4) [rule_format]; assumption)+
  qed
  have sizes: "wrap64 (pixels * channels) = pixels * channels"
    "wrap64 (?S * pixels * FEATURE_ATOM_BYTES) = n" "FEATURE_ATOM_BYTES * 2 = 32"
  proof -
    have "pixels * channels < 18446744073709551616" "n < 18446744073709551616" using c by linarith+
    then show "wrap64 (pixels * channels) = pixels * channels"
      "wrap64 (?S * pixels * FEATURE_ATOM_BYTES) = n"
      by (simp_all add: n_def FEATURE_ATOM_BYTES_def)
  qed (simp add: FEATURE_ATOM_BYTES_def)
  have guards: "(channels = 0 \<or> channels mod 2 \<noteq> 0) = False" "(length dense < pixels * channels) = False"
    "(\<exists>v \<in> set (take (pixels * channels) dense). \<not> is_int4 v) = False" "(length packed < n) = False"
    using c by auto
  have fill: "fill_slice packed 0 n 0 = Done ?zeroed"
    using c(6) by (simp add: fill_slice_def overwrite_def)
  have "pack_nhwc_to_nc1hwc2_int4 dense pixels channels packed = Done (out, n)"
    by (simp only: pack_nhwc_to_nc1hwc2_int4_def Let_def sizes guards if_False fill obind.simps
        run [unfolded Let_def])
  moreover have "nibble out ((s * pixels + p) * 32 + lane) =
      (if s * 32 + lane < channels then dense ! (p * channels + s * 32 + lane) AND 0xf else 0)"
    if b: "s < ?S" "p < pixels" "lane < 32" for s p lane
  proof (cases "s * 32 + lane < channels")
    case True
    have "?cell (p, s * 32 + lane) = (s * pixels + p) * 32 + lane" using b(3) by simp
    then show ?thesis
      using hit [of "(p, s * 32 + lane)" "(s * pixels + p) * 32 + lane"] b True by (simp add: add.assoc)
  next
    case False
    have "s * pixels + p < ?S * pixels" using b(1,2) by (rule mult_bound)
    from this b(3) have "(s * pixels + p) * 32 + lane < ?S * pixels * 32" by (rule mult_bound)
    then have i: "(s * pixels + p) * 32 + lane < 2 * n" by (simp add: n_def)
    have "nibble out ((s * pixels + p) * 32 + lane) = nibble ?zeroed ((s * pixels + p) * 32 + lane)"
    proof (rule miss)
      show "(s * pixels + p) * 32 + lane < 2 * length packed" using i c(6) by simp
      fix x v
      assume x: "x \<in> set ?xs"
      obtain q ch where xs: "x = (q, ch)" by (cases x)
      show "?w x \<noteq> Some ((s * pixels + p) * 32 + lane, v)"
      proof
        assume "?w x = Some ((s * pixels + p) * 32 + lane, v)"
        then have "(ch div 32 * pixels + q) * 32 + ch mod 32 = (s * pixels + p) * 32 + lane"
          by (simp add: xs)
        from radix_inj [OF this] b(3) have "ch div 32 * pixels + q = s * pixels + p" "ch mod 32 = lane"
          by simp_all
        with radix_inj(1) [OF this(1)] x b(2) have "ch div 32 = s" "ch mod 32 = lane" by (auto simp: xs)
        then have "ch = s * 32 + lane" by (metis div_mult_mod_eq)
        with False x show False by (simp add: xs)
      qed
    qed
    then show ?thesis using False i by (simp add: nibble_replicate)
  qed
  moreover have "nibble out i = nibble packed i" if i: "2 * n \<le> i" "i < 2 * length packed" for i
  proof -
    have "nibble out i = nibble ?zeroed i"
      using i cell by (intro miss) fastforce+
    moreover have "?zeroed ! (i div 2) = packed ! (i div 2)"
    proof -
      have "n \<le> i div 2" using i by linarith
      then show ?thesis using c(6) i by (simp add: nth_append)
    qed
    ultimately show ?thesis by (simp add: nibble_def)
  qed
  ultimately show ?thesis using out_len by blast
qed

section \<open>Depthwise coefficients\<close>

text \<open>The slot of a channel's tap: whole groups first, then taps at the width of its own group.\<close>

definition depthwise_slot :: "nat \<Rightarrow> nat \<Rightarrow> nat \<Rightarrow> nat \<Rightarrow> nat \<times> nat \<times> nat \<Rightarrow> nat" where
  "depthwise_slot fh fw padded e = (\<lambda>(c, ky, kx).
     let g = 64 div e; grp = c div g;
         w = (if grp < padded div g then g else padded - padded div g * g)
     in grp * fh * fw * g + (ky * fw + kx) * w + c mod g)"

definition depthwise_keys :: "nat \<Rightarrow> nat \<Rightarrow> nat \<Rightarrow> nat \<Rightarrow> (nat \<times> nat \<times> nat) set" where
  "depthwise_keys fh fw padded e = {(c, ky, kx). (e = 1 \<or> e = 2) \<and> c < padded \<and> ky < fh \<and> kx < fw}"

lemma depthwise_parts:
  assumes k: "(c, ky, kx) \<in> depthwise_keys fh fw padded e"
  defines "g \<equiv> 64 div e"
  defines "w \<equiv> if c div g < padded div g then g else padded - padded div g * g"
  shows "0 < g" "c mod g < w" "w \<le> g"
    "(ky * fw + kx) * w + c mod g < fh * fw * w"
    "c div g * (fh * fw * g) + fh * fw * w \<le> fh * fw * padded"
    "depthwise_slot fh fw padded e (c, ky, kx) = c div g * (fh * fw * g) + ((ky * fw + kx) * w + c mod g)"
proof -
  from k have e: "e = 1 \<or> e = 2" and b: "c < padded" "ky < fh" "kx < fw" by (auto simp: depthwise_keys_def)
  show g: "0 < g" using e by (auto simp: g_def)
  have le: "c div g \<le> padded div g" using b(1) by (intro div_le_mono) simp
  have tail: "padded - padded div g * g = padded mod g" by (simp add: minus_div_mult_eq_mod)
  show lane: "c mod g < w"
  proof (cases "c div g < padded div g")
    case True
    then show ?thesis using g by (simp add: w_def)
  next
    case False
    then have "c div g = padded div g" using le by simp
    then have "c mod g < padded mod g" using b(1) by (metis div_mult_mod_eq nat_add_left_cancel_less)
    then show ?thesis using False by (simp add: w_def tail)
  qed
  show "w \<le> g" using g by (auto simp: w_def tail intro: less_imp_le)
  from b(2,3) have "ky * fw + kx < fh * fw" by (rule mult_bound)
  from this lane show "(ky * fw + kx) * w + c mod g < fh * fw * w" by (rule mult_bound)
  have "c div g * g + w \<le> padded"
  proof (cases "c div g < padded div g")
    case True
    then have "(c div g + 1) * g \<le> padded div g * g" by (intro mult_le_mono1) simp
    also have "\<dots> \<le> padded" by simp
    finally show ?thesis using True by (simp add: w_def)
  next
    case False
    then have "c div g = padded div g" using le by simp
    then show ?thesis by (simp add: w_def)
  qed
  then have "fh * fw * (c div g * g + w) \<le> fh * fw * padded" by (rule mult_le_mono2)
  then show "c div g * (fh * fw * g) + fh * fw * w \<le> fh * fw * padded" by (simp add: algebra_simps)
  show "depthwise_slot fh fw padded e (c, ky, kx) = c div g * (fh * fw * g) + ((ky * fw + kx) * w + c mod g)"
    by (simp add: depthwise_slot_def w_def g_def Let_def)
qed

lemma depthwise_slot_inj:
  assumes x: "x \<in> depthwise_keys fh fw padded e" and y: "y \<in> depthwise_keys fh fw padded e"
    and eq: "depthwise_slot fh fw padded e x = depthwise_slot fh fw padded e y"
  shows "x = y"
proof -
  obtain c ky kx where xs: "x = (c, ky, kx)" by (cases x)
  obtain d ly lx where ys: "y = (d, ly, lx)" by (cases y)
  note p = depthwise_parts [OF x [unfolded xs]] and q = depthwise_parts [OF y [unfolded ys]]
  let ?g = "64 div e"
  let ?w = "\<lambda>c. if c div ?g < padded div ?g then ?g else padded - padded div ?g * ?g"
  have small: "(ky * fw + kx) * ?w c + c mod ?g < fh * fw * ?g" "(ly * fw + lx) * ?w d + d mod ?g < fh * fw * ?g"
    using p(4) q(4) mult_le_mono2 [OF p(3), of "fh * fw"] mult_le_mono2 [OF q(3), of "fh * fw"] by linarith+
  from eq have "c div ?g * (fh * fw * ?g) + ((ky * fw + kx) * ?w c + c mod ?g)
      = d div ?g * (fh * fw * ?g) + ((ly * fw + lx) * ?w d + d mod ?g)"
    unfolding xs ys p(6) q(6) .
  note r = radix_inj [OF this small]
  have w: "?w d = ?w c" using r(1) by simp
  from r(2) have taps: "(ky * fw + kx) * ?w c + c mod ?g = (ly * fw + lx) * ?w c + d mod ?g"
    unfolding w .
  note t = radix_inj [OF taps p(2) q(2) [unfolded w]]
  have kx: "kx < fw" "lx < fw" using x y by (auto simp: xs ys depthwise_keys_def)
  from radix_inj [OF t(1) kx] have "ky = ly" "kx = lx" .
  moreover have "c = d" using r(1) t(2) by (metis div_mult_mod_eq)
  ultimately show ?thesis by (simp add: xs ys)
qed

interpretation depthwise: placement "\<lambda>k. depthwise_slot fh fw padded e k * e" "\<lambda>_. e"
  "depthwise_keys fh fw padded e" for fh fw padded e
proof
  fix k l and i :: nat
  assume k: "k \<in> depthwise_keys fh fw padded e" and l: "l \<in> depthwise_keys fh fw padded e"
    and i: "depthwise_slot fh fw padded e k * e \<le> i" "i < depthwise_slot fh fw padded e k * e + e"
      "depthwise_slot fh fw padded e l * e \<le> i" "i < depthwise_slot fh fw padded e l * e + e"
  have "0 < e" using i by simp
  then have "i div e = depthwise_slot fh fw padded e k" "i div e = depthwise_slot fh fw padded e l"
    using i by (auto intro: div_mod_unique)
  then have "depthwise_slot fh fw padded e k = depthwise_slot fh fw padded e l" by simp
  with k l show "k = l" by (rule depthwise_slot_inj)
qed

lemma depthwise_slot_fits:
  assumes "k \<in> depthwise_keys fh fw padded e"
  shows "depthwise_slot fh fw padded e k * e + e \<le> fh * fw * padded * e"
proof -
  obtain c ky kx where ks: "k = (c, ky, kx)" by (cases k)
  note p = depthwise_parts [OF assms [unfolded ks]]
  have "depthwise_slot fh fw padded e k < fh * fw * padded" unfolding ks p(6) using p(4,5) by linarith
  then have "(depthwise_slot fh fw padded e k + 1) * e \<le> fh * fw * padded * e" by (intro mult_le_mono1) simp
  then show ?thesis by simp
qed

definition depthwise_filter_ok :: "byte list \<Rightarrow> nat \<Rightarrow> nat \<Rightarrow> nat \<Rightarrow> nat \<Rightarrow> nat \<Rightarrow> byte list \<Rightarrow> bool" where
  "depthwise_filter_ok dense fh fw channels padded e packed \<longleftrightarrow>
     0 < fh \<and> 0 < fw \<and> 0 < channels \<and> channels \<le> padded \<and> (e = 1 \<or> e = 2)
     \<and> fh * fw * channels * e \<le> length dense \<and> length dense < 2 ^ 63
     \<and> fh * fw * padded * e \<le> length packed \<and> length packed < 2 ^ 63"

definition depthwise_element :: "byte list \<Rightarrow> nat \<Rightarrow> nat \<Rightarrow> nat \<Rightarrow> nat \<times> nat \<times> nat \<Rightarrow> byte list" where
  "depthwise_element dense fh fw e = (\<lambda>(c, ky, kx). take e (drop (((c * fh + ky) * fw + kx) * e) dense))"

definition channel_keys :: "nat \<Rightarrow> nat \<Rightarrow> nat \<Rightarrow> (nat \<times> nat \<times> nat) list" where
  "channel_keys fh fw c = map (\<lambda>(ky, kx). (c, ky, kx)) (List.product [0..<fh] [0..<fw])"

lemma pack_depthwise_slots:
  assumes ok: "depthwise_filter_ok dense fh fw channels padded e packed"
  defines "n \<equiv> fh * fw * padded * e"
  defines "keys \<equiv> concat (map (channel_keys fh fw) [0..<channels])"
  shows "pack_depthwise_to_rocket_weights dense fh fw channels padded e packed =
    Done (write_slots (\<lambda>k. depthwise_slot fh fw padded e k * e) (depthwise_element dense fh fw e) keys
            (replicate n 0 @ drop n packed), n)"
    and "set keys = {(c, ky, kx). c < channels \<and> ky < fh \<and> kx < fw}"
    and "\<forall>k \<in> set keys. k \<in> depthwise_keys fh fw padded e
      \<and> length (depthwise_element dense fh fw e k) = e
      \<and> depthwise_slot fh fw padded e k * e + e \<le> n"
proof -
  have c: "0 < fh" "0 < fw" "0 < channels" "channels \<le> padded" "e = 1 \<or> e = 2"
    "fh * fw * channels * e \<le> length dense" "length dense < 9223372036854775808"
    "n \<le> length packed" "length packed < 9223372036854775808"
    using ok by (simp_all add: depthwise_filter_ok_def n_def)
  show keys: "set keys = {(c, ky, kx). c < channels \<and> ky < fh \<and> kx < fw}"
    by (auto simp: keys_def channel_keys_def)
  have src: "((c * fh + ky) * fw + kx) * e + e \<le> length dense" if "c < channels" "ky < fh" "kx < fw" for c ky kx
  proof -
    from that(1,2) have "c * fh + ky < channels * fh" by (rule mult_bound)
    from this that(3) have "(c * fh + ky) * fw + kx < channels * fh * fw" by (rule mult_bound)
    then have "((c * fh + ky) * fw + kx + 1) * e \<le> channels * fh * fw * e" by (intro mult_le_mono1) simp
    then show ?thesis using \<open>fh * fw * channels * e \<le> length dense\<close> by (simp add: ac_simps)
  qed
  show all: "\<forall>k \<in> set keys. k \<in> depthwise_keys fh fw padded e
      \<and> length (depthwise_element dense fh fw e k) = e
      \<and> depthwise_slot fh fw padded e k * e + e \<le> n"
  proof
    fix k
    assume "k \<in> set keys"
    then obtain ch ky kx where k: "k = (ch, ky, kx)" "ch < channels" "ky < fh" "kx < fw"
      unfolding keys by auto
    then have mem: "k \<in> depthwise_keys fh fw padded e" using c(4,5) by (simp add: depthwise_keys_def)
    then show "k \<in> depthwise_keys fh fw padded e \<and> length (depthwise_element dense fh fw e k) = e
      \<and> depthwise_slot fh fw padded e k * e + e \<le> n"
      using src [OF k(2-4)] depthwise_slot_fits [OF mem] by (simp add: k(1) depthwise_element_def n_def)
  qed
  let ?place = "\<lambda>k. depthwise_slot fh fw padded e k * e" and ?val = "depthwise_element dense fh fw e"
  let ?g = "DEPTHWISE_GROUP_BYTES div e"
  let ?inner = "\<lambda>channel. for_each (List.product [0..<fh] [0..<fw]) (\<lambda>(ky, kx) packed.
               obind (read_slice dense (((channel * fh + ky) * fw + kx) * e) e) (\<lambda>element.
               write_slice packed ((channel div ?g * fh * fw * ?g + (ky * fw + kx)
                   * (if channel div ?g < padded div ?g then ?g else padded - padded div ?g * ?g)
                   + channel mod ?g) * e) element))
     :: byte list \<Rightarrow> byte list weight_result"
  have inner: "?inner ch xs = Done (write_slots ?place ?val (channel_keys fh fw ch) xs)"
    if ch: "ch \<in> set [0..<channels]" and len: "length xs = length packed" for ch xs
  proof -
    have "?inner ch xs = Done (write_slots ?place ?val
        (concat (map (\<lambda>(ky, kx). [(ch, ky, kx)]) (List.product [0..<fh] [0..<fw]))) xs)"
    proof (rule for_each_slots [where n = "length packed"])
      fix i and ys :: "byte list"
      assume i: "i \<in> set (List.product [0..<fh] [0..<fw])" and ys: "length ys = length packed"
      obtain ky kx where iq: "i = (ky, kx)" by (cases i)
      from i ch have k: "(ch, ky, kx) \<in> set keys" unfolding keys by (simp add: iq)
      have "((ch * fh + ky) * fw + kx) * e + e \<le> length dense" using i ch by (intro src) (auto simp: iq)
      moreover have "?place (ch, ky, kx) + e \<le> length ys" using all k ys c(8) by fastforce
      moreover have "(ch div ?g * fh * fw * ?g + (ky * fw + kx)
                   * (if ch div ?g < padded div ?g then ?g else padded - padded div ?g * ?g)
                   + ch mod ?g) = depthwise_slot fh fw padded e (ch, ky, kx)"
        by (simp add: depthwise_slot_def DEPTHWISE_GROUP_BYTES_def Let_def)
      ultimately show "(case i of (ky, kx) \<Rightarrow> \<lambda>packed.
               obind (read_slice dense (((ch * fh + ky) * fw + kx) * e) e) (\<lambda>element.
               write_slice packed ((ch div ?g * fh * fw * ?g + (ky * fw + kx)
                   * (if ch div ?g < padded div ?g then ?g else padded - padded div ?g * ?g)
                   + ch mod ?g) * e) element)) ys =
          Done (write_slots ?place ?val (case i of (ky, kx) \<Rightarrow> [(ch, ky, kx)]) ys)"
        by (simp only: iq prod.case) (simp add: depthwise_element_def)
    next
      show "\<forall>i \<in> set (List.product [0..<fh] [0..<fw]). \<forall>k \<in> set (case i of (ky, kx) \<Rightarrow> [(ch, ky, kx)]).
          ?place k + length (?val k) \<le> length packed"
      proof (intro ballI)
        fix i k
        assume "i \<in> set (List.product [0..<fh] [0..<fw])" "k \<in> set (case i of (ky, kx) \<Rightarrow> [(ch, ky, kx)])"
        then have "k \<in> set keys" using ch unfolding keys by (auto split: prod.splits)
        with all c(8) show "?place k + length (?val k) \<le> length packed" by fastforce
      qed
    qed (rule len)
    also have "concat (map (\<lambda>(ky, kx). [(ch, ky, kx)]) (List.product [0..<fh] [0..<fw])) = channel_keys fh fw ch"
      unfolding channel_keys_def by (induction "List.product [0..<fh] [0..<fw]") (auto split: prod.splits)
    finally show ?thesis .
  qed
  have zeroed: "length (replicate n 0 @ drop n packed) = length packed" using c(8) by simp
  have loop: "for_each [0..<channels] ?inner (replicate n 0 @ drop n packed) =
      Done (write_slots ?place ?val keys (replicate n 0 @ drop n packed))"
    unfolding keys_def
  proof (rule for_each_slots [where n = "length packed", OF inner _ zeroed])
    show "\<forall>ch \<in> set [0..<channels]. \<forall>k \<in> set (channel_keys fh fw ch). ?place k + length (?val k) \<le> length packed"
    proof (intro ballI)
      fix ch k
      assume "ch \<in> set [0..<channels]" "k \<in> set (channel_keys fh fw ch)"
      then have "k \<in> set keys" by (auto simp: keys_def)
      with all c(8) show "?place k + length (?val k) \<le> length packed" by fastforce
    qed
  qed
  have e: "0 < e" using c(5) by auto
  have "fh * fw \<le> fh * fw * channels" "fh * fw * channels \<le> fh * fw * channels * e"
    "fh * fw * padded \<le> fh * fw * padded * e" using c(3) e by simp_all
  then have small: "fh * fw < 18446744073709551616" "fh * fw * channels < 18446744073709551616"
    "fh * fw * channels * e < 18446744073709551616" "fh * fw * padded < 18446744073709551616"
    "fh * fw * padded * e < 18446744073709551616"
    using c n_def by linarith+
  have lens: "Option.bind (checked_mul64 fh fw) (\<lambda>v. Option.bind (checked_mul64 v channels)
      (\<lambda>v. checked_mul64 v e)) = Some (fh * fw * channels * e)"
    "Option.bind (checked_mul64 fh fw) (\<lambda>v. Option.bind (checked_mul64 v padded)
      (\<lambda>v. checked_mul64 v e)) = Some n"
    using small by (simp_all add: bind_eq_Some_conv n_def)
  have guards: "(fh = 0 \<or> fw = 0 \<or> channels = 0 \<or> padded < channels \<or> e \<notin> {1, 2}) = False"
    "(length dense < fh * fw * channels * e) = False" "(length packed < n) = False"
    using c by auto
  have fill: "fill_slice packed 0 n 0 = Done (replicate n 0 @ drop n packed)"
    using c(8) by (simp add: fill_slice_def overwrite_def)
  show "pack_depthwise_to_rocket_weights dense fh fw channels padded e packed =
    Done (write_slots ?place ?val keys (replicate n 0 @ drop n packed), n)"
    by (simp only: pack_depthwise_to_rocket_weights_def guards if_False lens ok_or.simps obind.simps
        fill Let_def loop)
qed

end
