(* ===== verification/WeightProperties.thy ===== *)
theory WeightProperties
  imports WeightPackers PlanProofs Samples
begin

text \<open>
  What the coefficient layout and its packers promise: slots and coefficients correspond one to
  one, each packer writes each coefficient in its slot and the neutral value everywhere else, and
  the buffer the planner charges the CBUF for is the buffer the packer fills.
\<close>

section \<open>The coefficient order\<close>

text \<open>
  For every layout \<open>WeightLayout::new\<close> makes, the address function maps the padded
  coefficients one to one onto the slots \<open>visit_slots\<close> counts, and the visit of a slot names that
  coefficient: its element of the logical filter, or none when it is padding.
\<close>

theorem coefficients_fill_the_slots:
  assumes l: "weight_layout_new cin cout bits = Done l"
  shows "bij_betw (slot_of l fh fw) (coefficients l fh fw) {..<length (visit_slots l fh fw c k)}
    \<and> (\<forall>(fy, fx, ic, oc) \<in> coefficients l fh fw.
         visit_slots l fh fw c k ! slot_of l fh fw (fy, fx, ic, oc) =
           (slot_of l fh fw (fy, fx, ic, oc),
            if oc < k \<and> ic < c then Some (((fy * fw + fx) * c + ic) * k + oc) else None, oc))"
proof -
  note ok = weight_layout_new_ok [OF l]
  have len: "length (visit_slots l fh fw c k) =
      programmed_output_channels l * (fh * fw * padded_input_channels l)"
    by (simp add: visit_slots_def length_slot_sources [OF ok])
  have "visit_slots l fh fw c k ! slot_of l fh fw (fy, fx, ic, oc) =
           (slot_of l fh fw (fy, fx, ic, oc),
            if oc < k \<and> ic < c then Some (((fy * fw + fx) * c + ic) * k + oc) else None, oc)"
    if "(fy, fx, ic, oc) \<in> coefficients l fh fw" for fy fx ic oc
    using that slot_at [OF ok, of oc ic fy fh fx fw c k]
    by (simp add: coefficients_def slot_of_def visit_slots_def nth_enumerate_eq slot_value_def)
  then show ?thesis using slot_of_bij [OF ok] by (auto simp: len)
qed

theorem coefficients_fill_the_slots_witness:
  "\<exists>l. weight_layout_new 3 5 8 = Done l \<and> length (visit_slots l 3 3 3 5) = 864
     \<and> bij_betw (slot_of l 3 3) (coefficients l 3 3) {..<864}"
proof -
  obtain l where l: "weight_layout_new 3 5 8 = Done l" "padded_input_channels l = 16"
    "programmed_output_channels l = 6"
    by (simp add: weight_layout_new_def FEATURE_ATOM_BYTES_def div_ceil_def next_multiple_of_def
        WEIGHT_ATOMIC_BYTES_def WEIGHT_INPUT_GROUP_CHANNELS_def)
  have "length (visit_slots l 3 3 3 5) = 864"
    using length_slot_sources [OF weight_layout_new_ok [OF l(1)]] l by (simp add: visit_slots_def)
  with coefficients_fill_the_slots [OF l(1), of 3 3 3 5] l show ?thesis by auto
qed

section \<open>Packed filters\<close>

lemma length_filter_body:
  assumes "filter_ok dense fh fw cin cout e zero_points"
  shows "length (concat (map (slot_bytes dense e cout zero_points) (slot_sources l fh fw cin cout))) =
    length (slot_sources l fh fw cin cout) * e"
  using length_slot_bytes [OF assms, of _ l]
  by (simp add: length_concat comp_def sum_list_triv cong: map_cong)

lemma packed_impl_length:
  assumes ok: "filter_ok dense fh fw cin cout e zero_points" and pc: "cout \<le> pc"
    and n: "rocket_weight_storage_size fh fw cin pc e = Done n" and packed: "n \<le> length packed"
    and l: "weight_layout_new cin pc (e * 8) = Done l"
  shows "\<exists>out. pack_hwcf_to_rocket_weights_impl dense fh fw cin cout pc e zero_points packed = Done (out, n)
    \<and> length out = length packed"
proof -
  from n l have "n = length (slot_sources l fh fw cin cout) * e"
    by (auto elim!: storage_size_Done [where cin' = cin and cout' = cout])
  with pack_impl_exact [OF ok pc n packed l] length_filter_body [OF ok, of l] packed show ?thesis by simp
qed

lemma packed_depthwise:
  assumes "depthwise_filter_ok dense fh fw channels padded e packed"
  shows "\<exists>out. pack_depthwise_to_rocket_weights dense fh fw channels padded e packed =
      Done (out, fh * fw * padded * e)
    \<and> length out = length packed"
proof -
  let ?n = "fh * fw * padded * e"
  have n: "?n \<le> length packed" using assms by (simp add: depthwise_filter_ok_def)
  note s = pack_depthwise_slots [OF assms]
  have "length (write_slots (\<lambda>k. depthwise_slot fh fw padded e k * e) (depthwise_element dense fh fw e)
      (concat (map (channel_keys fh fw) [0..<channels])) (replicate ?n 0 @ drop ?n packed)) = length packed"
    using s(3) n by (subst length_write_slots) fastforce+
  with s(1) show ?thesis by blast
qed

text \<open>
  C20 (functional): the byte packer. When the sizes fit it writes exactly the packed size, every
  coefficient's bytes at its slot; a padded input lane of a real kernel holds the kernel's zero
  point (zero when packing symmetrically) and a padded kernel holds zero. Bytes past the packed
  size are left alone.
\<close>

theorem packed_filter_bytes:
  assumes ok: "filter_ok dense fh fw cin cout e zero_points" and pc: "cout \<le> pc"
    and n: "rocket_weight_storage_size fh fw cin pc e = Done n" and packed: "n \<le> length packed"
    and l: "weight_layout_new cin pc (e * 8) = Done l"
  shows "\<exists>out. pack_hwcf_to_rocket_weights_impl dense fh fw cin cout pc e zero_points packed = Done (out, n)
    \<and> length out = length packed \<and> drop n out = drop n packed
    \<and> (\<forall>(fy, fx, ic, oc) \<in> coefficients l fh fw. \<forall>j < e.
         slot_of l fh fw (fy, fx, ic, oc) * e + j < n
         \<and> out ! (slot_of l fh fw (fy, fx, ic, oc) * e + j) =
             (if oc < cout \<and> ic < cin
              then dense ! ((((fy * fw + fx) * cin + ic) * cout + oc) * e + j)
              else case zero_points of Some zps \<Rightarrow> if oc < cout then zps ! oc else 0 | None \<Rightarrow> 0))"
proof -
  let ?vs = "slot_sources l fh fw cin cout"
  let ?val = "slot_bytes dense e cout zero_points"
  let ?body = "concat (map ?val ?vs)"
  note lok = weight_layout_new_ok [OF l]
  from n l have nn: "n = length ?vs * e"
    by (auto elim!: storage_size_Done [where cin' = cin and cout' = cout])
  have len: "length ?body = n"
    unfolding nn by (rule length_filter_body [OF ok])
  have at: "?body ! (slot_of l fh fw (fy, fx, ic, oc) * e + j) =
        (if oc < cout \<and> ic < cin
         then dense ! ((((fy * fw + fx) * cin + ic) * cout + oc) * e + j)
         else case zero_points of Some zps \<Rightarrow> if oc < cout then zps ! oc else 0 | None \<Rightarrow> 0)
      \<and> slot_of l fh fw (fy, fx, ic, oc) * e + j < n"
    if k: "(fy, fx, ic, oc) \<in> coefficients l fh fw" and j: "j < e" for fy fx ic oc j
  proof -
    let ?i = "slot_of l fh fw (fy, fx, ic, oc)" and ?src = "((fy * fw + fx) * cin + ic) * cout + oc"
    from k have b: "fy < fh" "fx < fw" "ic < padded_input_channels l" "oc < programmed_output_channels l"
      by (simp_all add: coefficients_def)
    note s = slot_at [OF lok b(4,3,1,2), of cin cout]
    have i: "?i < length ?vs" "?vs ! ?i = slot_value fw cin cout fy fx oc ic"
      using s by (simp_all add: slot_of_def)
    have "?body ! (?i * e + j) = ?val (?vs ! ?i) ! j"
      by (rule nth_concat_fill [OF length_slot_bytes [OF ok] i(1) j])
    moreover have "?i * e + j < n" unfolding nn using i(1) j by (rule mult_bound)
    moreover have "?val (?vs ! ?i) ! j =
        (if oc < cout \<and> ic < cin then dense ! (?src * e + j)
         else case zero_points of Some zps \<Rightarrow> if oc < cout then zps ! oc else 0 | None \<Rightarrow> 0)"
    proof (cases "oc < cout \<and> ic < cin")
      case True
      then have v: "?vs ! ?i = (Some ?src, oc)" using i(2) by (simp add: slot_value_def)
      then have "(Some ?src, oc) \<in> set ?vs" using i(1) by (metis nth_mem)
      then have "?src < fh * fw * cin * cout" by (rule slot_source_bounds)
      then have "(?src + 1) * e \<le> fh * fw * cin * cout * e" by (intro mult_le_mono1) simp
      moreover have "fh * fw * cin * cout * e \<le> length dense" using ok by (simp add: filter_ok_def)
      ultimately have "?src * e + e \<le> length dense" by simp
      then show ?thesis using True j by (simp add: v slot_bytes_def)
    next
      case False
      then have v: "?vs ! ?i = (None, oc)" using i(2) by (simp add: slot_value_def)
      show ?thesis
        using False j ok by (auto simp: v slot_bytes_def filter_ok_def split: option.splits)
    qed
    ultimately show ?thesis by simp
  qed
  have "(?body @ drop n packed) ! i = ?body ! i" if "i < n" for i
    using that len by (simp add: nth_append)
  with at show ?thesis
    using pack_impl_exact [OF ok pc n packed l] len packed by fastforce
qed

lemma small_layouts:
  "weight_layout_new 3 3 8 = Done \<lparr>output_block_channels = 32, input_group_channels = 32,
     padded_input_channels = 16, programmed_output_channels = 4, input_groups = 1, output_blocks = 1\<rparr>"
  "weight_layout_new 3 3 4 = Done \<lparr>output_block_channels = 64, input_group_channels = 32,
     padded_input_channels = 32, programmed_output_channels = 4, input_groups = 1, output_blocks = 1\<rparr>"
  by (simp_all add: weight_layout_new_def FEATURE_ATOM_BYTES_def div_ceil_def next_multiple_of_def
      WEIGHT_ATOMIC_BYTES_def WEIGHT_INPUT_GROUP_CHANNELS_def)

theorem packed_filter_bytes_witness:
  "\<exists>out. pack_hwcf_to_rocket_weights_affine_i8 (replicate 81 5) 3 3 3 3 [3, 4, 6] (replicate 600 9) =
       Done (out, 576)
     \<and> out ! 546 = 5 \<and> out ! 548 = 6 \<and> out ! 562 = 0"
proof -
  obtain l where l: "weight_layout_new 3 3 8 = Done l" and dims: "output_block_channels l = 32"
    "input_group_channels l = 32" "padded_input_channels l = 16" "programmed_output_channels l = 4"
    by (rule that [OF small_layouts(1)]) simp_all
  have n: "rocket_weight_storage_size 3 3 3 3 1 = Done 576"
    using l dims by (simp add: rocket_weight_storage_size_def rocket_weight_storage_size_bits_def
        checked_mul64_def)
  let ?dense = "replicate 81 5 :: byte list"
  have ok: "filter_ok ?dense 3 3 3 3 1 (Some [3, 4, 6])" by (simp add: filter_ok_def)
  have l1: "weight_layout_new 3 3 (1 * 8) = Done l" using l by simp
  from packed_filter_bytes [OF ok order.refl n _ l1, of "replicate 600 9"] obtain out where
    out: "pack_hwcf_to_rocket_weights_impl ?dense 3 3 3 3 3 1 (Some [3, 4, 6]) (replicate 600 9) = Done (out, 576)"
    and at: "\<forall>(fy, fx, ic, oc) \<in> coefficients l 3 3. \<forall>j < 1. slot_of l 3 3 (fy, fx, ic, oc) * 1 + j < 576
         \<and> out ! (slot_of l 3 3 (fy, fx, ic, oc) * 1 + j) =
             (if oc < 3 \<and> ic < 3 then ?dense ! ((((fy * 3 + fx) * 3 + ic) * 3 + oc) * 1 + j)
              else case Some [3, 4, 6] of Some zps \<Rightarrow> if oc < 3 then zps ! oc else 0 | None \<Rightarrow> 0)"
    by force
  have mem: "(2, 2, 2, 2) \<in> coefficients l 3 3" "(2, 2, 4, 2) \<in> coefficients l 3 3"
    "(2, 2, 2, 3) \<in> coefficients l 3 3" by (simp_all add: coefficients_def dims)
  have slot: "slot_of l 3 3 (2, 2, 2, 2) = 546" "slot_of l 3 3 (2, 2, 4, 2) = 548"
    "slot_of l 3 3 (2, 2, 2, 3) = 562"
    by (simp_all add: slot_of_def weight_slot_def dims rows_in_def lanes_in_def Let_def)
  from bspec [OF at mem(1)] bspec [OF at mem(2)] bspec [OF at mem(3)]
  have "out ! 546 = 5 \<and> out ! 548 = 6 \<and> out ! 562 = 0" by (simp add: slot)
  with out show ?thesis by (auto simp: pack_hwcf_to_rocket_weights_affine_i8_def)
qed

text \<open>
  The int4 packer stores every coefficient's low four bits in its slot's nibble,
  even slots low, and zero in every padded nibble; nibbles past the packed size are left alone.
\<close>

theorem packed_filter_nibbles:
  assumes ok: "int4_filter_ok dense fh fw cin cout" and pc: "cout \<le> pc"
    and n: "rocket_weight_storage_size_bits fh fw cin pc 4 = Done n" and packed: "n \<le> length packed"
    and l: "weight_layout_new cin pc 4 = Done l"
  shows "\<exists>out. pack_hwcf_to_rocket_weights_int4_padded dense fh fw cin cout pc packed = Done (out, n)
    \<and> length out = length packed
    \<and> (\<forall>(fy, fx, ic, oc) \<in> coefficients l fh fw. nibble out (slot_of l fh fw (fy, fx, ic, oc)) =
         (if oc < cout \<and> ic < cin then dense ! (((fy * fw + fx) * cin + ic) * cout + oc) AND 0xf else 0))
    \<and> (\<forall>i. 2 * n \<le> i \<longrightarrow> i < 2 * length packed \<longrightarrow> nibble out i = nibble packed i)"
proof -
  note lok = weight_layout_new_ok [OF l]
  let ?vs = "slot_sources l fh fw cin cout"
  from pack_int4_nibbles [OF ok pc n packed l] obtain out where
    out: "pack_hwcf_to_rocket_weights_int4_padded dense fh fw cin cout pc packed = Done (out, n)"
      "length out = length packed" "length ?vs = 2 * n"
    and hit: "\<And>i. i < 2 * n \<Longrightarrow> nibble out i =
         (case ?vs ! i of (Some src, oc) \<Rightarrow> dense ! src AND 0xf | (None, oc) \<Rightarrow> 0)"
    and miss: "\<forall>i. 2 * n \<le> i \<longrightarrow> i < 2 * length packed \<longrightarrow> nibble out i = nibble packed i" by blast
  have "nibble out (slot_of l fh fw (fy, fx, ic, oc)) =
      (if oc < cout \<and> ic < cin then dense ! (((fy * fw + fx) * cin + ic) * cout + oc) AND 0xf else 0)"
    if "(fy, fx, ic, oc) \<in> coefficients l fh fw" for fy fx ic oc
    using that slot_at [OF lok, of oc ic fy fh fx fw cin cout] hit out(3)
    by (simp add: coefficients_def slot_of_def slot_value_def)
  with out miss show ?thesis by blast
qed

theorem packed_filter_nibbles_witness:
  "\<exists>out. pack_hwcf_to_rocket_weights_int4 (replicate 81 255) 3 3 3 3 (replicate 600 9) = Done (out, 576)
     \<and> nibble out 1090 = 15 \<and> nibble out 1092 = 0"
proof -
  obtain l where l: "weight_layout_new 3 3 4 = Done l" and dims: "output_block_channels l = 64"
    "input_group_channels l = 32" "padded_input_channels l = 32" "programmed_output_channels l = 4"
    by (rule that [OF small_layouts(2)]) simp_all
  have n: "rocket_weight_storage_size_bits 3 3 3 3 4 = Done 576"
    using l dims by (simp add: rocket_weight_storage_size_bits_def checked_mul64_def)
  let ?dense = "replicate 81 255 :: byte list"
  have ok: "int4_filter_ok ?dense 3 3 3 3" by (simp add: int4_filter_ok_def is_int4_def)
  from packed_filter_nibbles [OF ok order.refl n _ l, of "replicate 600 9"] obtain out where
    out: "pack_hwcf_to_rocket_weights_int4_padded ?dense 3 3 3 3 3 (replicate 600 9) = Done (out, 576)"
    and at: "\<forall>(fy, fx, ic, oc) \<in> coefficients l 3 3. nibble out (slot_of l 3 3 (fy, fx, ic, oc)) =
         (if oc < 3 \<and> ic < 3 then ?dense ! (((fy * 3 + fx) * 3 + ic) * 3 + oc) AND 0xf else 0)"
    by force
  have mem: "(2, 2, 2, 2) \<in> coefficients l 3 3" "(2, 2, 4, 2) \<in> coefficients l 3 3"
    by (simp_all add: coefficients_def dims)
  have slot: "slot_of l 3 3 (2, 2, 2, 2) = 1090" "slot_of l 3 3 (2, 2, 4, 2) = 1092"
    by (simp_all add: slot_of_def weight_slot_def dims rows_in_def lanes_in_def Let_def)
  from bspec [OF at mem(1)] bspec [OF at mem(2)] have "nibble out 1090 = 15 \<and> nibble out 1092 = 0"
    by (simp add: slot)
  with out show ?thesis by (auto simp: pack_hwcf_to_rocket_weights_int4_def)
qed

text \<open>
  The int4 feature packer: channel \<open>32 s + lane\<close> of a pixel is the nibble
  \<open>lane\<close> of the pixel's atom in surface \<open>s\<close>, and padded lanes are zero.
\<close>

theorem packed_feature_nibbles:
  assumes ok: "int4_features_ok dense pixels channels packed"
  shows "\<exists>out. pack_nhwc_to_nc1hwc2_int4 dense pixels channels packed =
      Done (out, div_ceil channels 32 * pixels * 16)
    \<and> length out = length packed
    \<and> (\<forall>s p lane. s < div_ceil channels 32 \<longrightarrow> p < pixels \<longrightarrow> lane < 32 \<longrightarrow>
         nibble out ((s * pixels + p) * 32 + lane) =
           (if s * 32 + lane < channels then dense ! (p * channels + s * 32 + lane) AND 0xf else 0))"
  using pack_int4_features [OF ok] by blast

theorem packed_feature_nibbles_witness:
  "\<exists>out. pack_nhwc_to_nc1hwc2_int4 [1, 2, 3, 255] 2 2 (replicate 32 9) = Done (out, 32)
     \<and> nibble out 33 = 15 \<and> nibble out 40 = 0"
proof -
  have d: "div_ceil 2 32 = 1" by (simp add: div_ceil_def)
  have ok: "int4_features_ok [1, 2, 3, 255] 2 2 (replicate 32 9)"
    by (simp add: int4_features_ok_def is_int4_def d)
  from packed_feature_nibbles [OF ok] obtain out where
    out: "pack_nhwc_to_nc1hwc2_int4 [1, 2, 3, 255] 2 2 (replicate 32 9) = Done (out, 32)"
    and at: "\<And>s p lane. s < 1 \<Longrightarrow> p < 2 \<Longrightarrow> lane < 32 \<Longrightarrow> nibble out ((s * 2 + p) * 32 + lane) =
       (if s * 32 + lane < 2 then [1, 2, 3, 255] ! (p * 2 + s * 32 + lane) AND 0xf else 0)"
    unfolding d by auto
  from at [of 0 1 1] at [of 0 1 8] out show ?thesis by auto
qed

text \<open>
  The depthwise packer writes tap \<open>(ky, kx)\<close> of channel \<open>c\<close> at its tap-major slot
  of the channel's 64-byte group, the last group being only as wide as the channels left; every
  other byte of the packed size is zero and the rest is left alone.
\<close>

theorem packed_depthwise_bytes:
  assumes ok: "depthwise_filter_ok dense fh fw channels padded e packed"
  defines "n \<equiv> fh * fw * padded * e"
  shows "\<exists>out. pack_depthwise_to_rocket_weights dense fh fw channels padded e packed = Done (out, n)
    \<and> length out = length packed
    \<and> (\<forall>c ky kx j. c < channels \<longrightarrow> ky < fh \<longrightarrow> kx < fw \<longrightarrow> j < e \<longrightarrow>
         out ! (depthwise_slot fh fw padded e (c, ky, kx) * e + j) =
           dense ! (((c * fh + ky) * fw + kx) * e + j))
    \<and> (\<forall>i < length packed. (\<forall>c ky kx. c < channels \<longrightarrow> ky < fh \<longrightarrow> kx < fw \<longrightarrow>
           i div e \<noteq> depthwise_slot fh fw padded e (c, ky, kx)) \<longrightarrow>
         out ! i = (if i < n then 0 else packed ! i))"
proof -
  let ?place = "\<lambda>k. depthwise_slot fh fw padded e k * e" and ?val = "depthwise_element dense fh fw e"
  let ?keys = "concat (map (channel_keys fh fw) [0..<channels])"
  let ?zeroed = "replicate n 0 @ drop n packed"
  let ?out = "write_slots ?place ?val ?keys ?zeroed"
  note s = pack_depthwise_slots [OF ok, folded n_def]
  have c: "e = 1 \<or> e = 2" "fh * fw * channels * e \<le> length dense" "n \<le> length packed"
    using ok by (simp_all add: depthwise_filter_ok_def n_def)
  have e: "0 < e" using c(1) by auto
  have zlen: "length ?zeroed = length packed" using c(3) by simp
  have fits: "\<forall>k \<in> set ?keys. length (?val k) = e \<and> ?place k + e \<le> length ?zeroed"
    using s(3) c(3) zlen by fastforce
  have keys: "set ?keys \<subseteq> depthwise_keys fh fw padded e" using s(3) by blast
  have len: "length ?out = length packed" using fits zlen by (simp add: length_write_slots)
  have hit: "?out ! (?place (ch, ky, kx) + j) = dense ! (((ch * fh + ky) * fw + kx) * e + j)"
    if b: "ch < channels" "ky < fh" "kx < fw" "j < e" for ch ky kx j
  proof -
    have k: "(ch, ky, kx) \<in> set ?keys" unfolding s(2) using b by simp
    have "?out ! (?place (ch, ky, kx) + j) = ?val (ch, ky, kx) ! j"
      by (rule depthwise.written [OF keys fits k b(4)])
    moreover have "length (?val (ch, ky, kx)) = e" using fits k by blast
    ultimately show ?thesis using b(4) by (simp add: depthwise_element_def)
  qed
  have miss: "?out ! i = (if i < n then 0 else packed ! i)"
    if i: "i < length packed" and none: "\<forall>ch ky kx. ch < channels \<longrightarrow> ky < fh \<longrightarrow> kx < fw \<longrightarrow>
           i div e \<noteq> depthwise_slot fh fw padded e (ch, ky, kx)" for i
  proof -
    have "\<forall>k \<in> set ?keys. \<not> (?place k \<le> i \<and> i < ?place k + e)"
    proof (intro ballI notI)
      fix k
      assume "k \<in> set ?keys" and at: "?place k \<le> i \<and> i < ?place k + e"
      then obtain ch ky kx where k: "k = (ch, ky, kx)" "ch < channels" "ky < fh" "kx < fw"
        unfolding s(2) by blast
      have "i div e = depthwise_slot fh fw padded e k" using e at by (intro div_mod_unique) simp_all
      with none k show False by blast
    qed
    then have "?out ! i = ?zeroed ! i" using fits i zlen by (intro depthwise.untouched) simp_all
    then show ?thesis using c(3) by (simp add: nth_append)
  qed
  show ?thesis using s(1) len hit miss by (intro exI [of _ ?out]) blast
qed

theorem packed_depthwise_bytes_witness:
  "\<exists>out. pack_depthwise_to_rocket_weights (replicate 54 7) 3 3 3 8 2 (replicate 150 9) = Done (out, 144)
     \<and> out ! 132 = 7"
proof -
  have ok: "depthwise_filter_ok (replicate 54 7) 3 3 3 8 2 (replicate 150 9)"
    by (simp add: depthwise_filter_ok_def)
  have slot: "depthwise_slot 3 3 8 2 (2, 2, 2) = 66" by (simp add: depthwise_slot_def)
  from packed_depthwise_bytes [OF ok] obtain out where
    out: "pack_depthwise_to_rocket_weights (replicate 54 7) 3 3 3 8 2 (replicate 150 9) = Done (out, 144)"
    and at: "\<And>c ky kx j. c < 3 \<Longrightarrow> ky < 3 \<Longrightarrow> kx < 3 \<Longrightarrow> j < 2 \<Longrightarrow>
       out ! (depthwise_slot 3 3 8 2 (c, ky, kx) * 2 + j) = replicate 54 7 ! (((c * 3 + ky) * 3 + kx) * 2 + j)"
    by auto
  from at [of 2 2 2 0] out show ?thesis by (simp add: slot)
qed

section \<open>The plan and the packer\<close>

text \<open>Shapes far inside the integer range; the planner's own channel ceilings are below 2^13.\<close>

definition moderate :: "shape \<Rightarrow> bool" where
  "moderate s \<longleftrightarrow> valid_shape s \<and> in_channels s \<le> 2 ^ 24 \<and> out_channels s \<le> 2 ^ 24 \<and> precision s \<noteq> Int4"

lemma moderate_bits: "moderate s \<Longrightarrow> element_bits (precision s) = 8 * (element_bits (precision s) div 8)
    \<and> element_bits (precision s) div 8 \<in> {1, 2, 4}"
  by (cases "precision s") (auto simp: moderate_def)

lemma moderate_atoms:
  assumes "moderate s"
  defines "a \<equiv> div_ceil (in_channels s) (channels_per_atom (precision s))"
  shows "feature_atoms s = a" "a * channels_per_atom (precision s) < in_channels s + channels_per_atom (precision s)"
    "a \<le> 2 ^ 24" "0 < a"
proof -
  have cin: "0 < in_channels s" "in_channels s \<le> 2 ^ 24"
    using assms(1) by (simp_all add: moderate_def valid_shape_def)
  show "0 < a" using cin by (simp add: a_def)
  then show "feature_atoms s = a" unfolding feature_atoms_def a_def [symmetric] by simp
  show "a * channels_per_atom (precision s) < in_channels s + channels_per_atom (precision s)"
    unfolding a_def using cin by (intro div_ceil_mult_less) simp_all
  have "a \<le> in_channels s" unfolding a_def by (rule div_ceil_le_self) simp
  then show "a \<le> 2 ^ 24" using cin by linarith
qed

lemma quad_atoms_exact:
  "a \<le> 2 ^ 24 \<Longrightarrow> quad_atoms a = (if a mod 4 = 3 then a + 1 else a)"
  by (simp add: quad_atoms_def)

lemma layout_of_shape:
  assumes m: "moderate s" and dw: "\<not> depthwise s"
  obtains l where "weight_layout_new (in_channels s) (out_channels s) (element_bits (precision s)) = Done l"
    "padded_input_channels l = weight_channels s" "programmed_output_channels l = programmed_kernels s"
    "weight_channels s < 33554432" "programmed_kernels s < 33554432"
proof -
  let ?bits = "element_bits (precision s)" and ?c = "channels_per_atom (precision s)"
  note a = moderate_atoms [OF m]
  have pos: "0 < in_channels s" "0 < out_channels s" "in_channels s \<le> 16777216" "out_channels s \<le> 16777216"
    using m by (simp_all add: moderate_def valid_shape_def)
  have bits: "?bits \<in> {8, 16, 32}" using m by (cases "precision s") (auto simp: moderate_def)
  have per: "FEATURE_ATOM_BYTES * 8 div ?bits = ?c" by (simp add: channels_per_atom_def)
  obtain l where l: "weight_layout_new (in_channels s) (out_channels s) ?bits = Done l"
    using pos bits by (auto simp: weight_layout_new_def Let_def split: prod.splits)
  have small: "in_channels s < 2 ^ 63" "out_channels s < 2 ^ 63" using pos by simp_all
  note d = weight_layout_dims [OF l small]
  have c: "128 div ?bits = ?c" using per by (simp add: FEATURE_ATOM_BYTES_def)
  have c32: "?c \<le> 32" using channels_per_atom_bounds by blast
  let ?a = "div_ceil (in_channels s) ?c"
  let ?q = "(if ?bits = 16 \<and> ?a mod 4 = 3 then ?a + 1 else ?a) * ?c"
  have q: "?q < 33554432" using a(2) pos c32 by (auto simp: algebra_simps)
  have "weight_channels s = ?q"
    using q by (auto simp: weight_channels_def shares_fp16_layout_def padded_channels_def a(1)
        quad_atoms_exact [OF a(3)])
  moreover have "programmed_kernels s = (if ?bits < 16 then next_multiple_of (out_channels s) 2 else out_channels s)"
    using dw pos next_multiple_of_less [of 2 "out_channels s"] by (auto simp: programmed_kernels_def)
  ultimately show thesis
    using that [OF l] d(4,5) q pos next_multiple_of_less [of 2 "out_channels s"] unfolding c by simp
qed

lemma byte_count_exact:
  assumes bits: "bits = 8 * b" and b: "b \<le> 4" and x: "x < 2251799813685248" and taps: "h * w \<le> 121"
  shows "wrap64 (wrap64 (x * bits) div 8 * h * w) = h * w * x * (b :: nat)"
proof -
  have "x * b \<le> 2251799813685248 * 4" using x b by (intro mult_le_mono) simp_all
  then have xb: "x * b \<le> 9007199254740992" by simp
  have eq: "x * bits = x * b * 8" by (simp add: bits)
  have "x * b * 8 < 18446744073709551616" using xb by linarith
  then have "wrap64 (x * bits) div 8 = x * b" unfolding eq by simp
  moreover have "x * b * (h * w) \<le> 9007199254740992 * 121" using xb taps by (rule mult_le_mono)
  ultimately show ?thesis by (simp add: ac_simps)
qed

lemma try_weight_bytes_Done:
  assumes m: "moderate s" and n: "try_weight_bytes s ks = Done n"
  shows "1 \<le> fst ks" "fst ks \<le> 11" "1 \<le> snd ks" "snd ks \<le> 11" "n < 2 ^ 32"
    "\<not> depthwise s \<Longrightarrow> n = fst ks * snd ks * weight_channels s * programmed_kernels s
       * (element_bits (precision s) div 8)"
    "depthwise s \<Longrightarrow> n = fst ks * snd ks * depthwise_padded_channels s * (element_bits (precision s) div 8)
       \<and> in_channels s \<le> depthwise_padded_channels s"
proof -
  let ?b = "element_bits (precision s) div 8" and ?c = "channels_per_atom (precision s)"
  let ?elements = "if depthwise s then cbuf_atoms s * ?c else weight_channels s * programmed_kernels s"
  from n obtain k where k: "try_kernel_programming s ks = Done k"
    and b: "wrap64 (wrap64 (?elements * element_bits (precision s)) div 8 * k_height k * k_width k) = n"
    and small: "n < 2 ^ 32"
    by (auto simp: try_weight_bytes_def Let_def refuse_unless_eq_Done elim!: obind_DoneE)
  note kp = kernel_programming_bounds [OF k]
  show "1 \<le> fst ks" "fst ks \<le> 11" "1 \<le> snd ks" "snd ks \<le> 11" "n < 2 ^ 32" using kp small by simp_all
  have b4: "?b \<le> 4" and bits: "element_bits (precision s) = 8 * ?b" using moderate_bits [OF m] by auto
  have taps: "fst ks * snd ks \<le> 121" using mult_le_mono [OF kp(2,4)] kp(7,8) by simp
  have total: "n = fst ks * snd ks * ?elements * ?b" if e: "?elements < 2251799813685248"
    using byte_count_exact [OF bits b4 e taps] b kp(7,8) by simp
  show "n = fst ks * snd ks * weight_channels s * programmed_kernels s * ?b" if dw: "\<not> depthwise s"
  proof -
    obtain q: "weight_channels s < 33554432" "programmed_kernels s < 33554432"
      using layout_of_shape [OF m dw] by blast
    then have "weight_channels s * programmed_kernels s < 33554432 * 33554432"
      by (intro mult_strict_mono) simp_all
    then show ?thesis using total dw by (simp add: ac_simps)
  qed
  show "n = fst ks * snd ks * depthwise_padded_channels s * ?b \<and> in_channels s \<le> depthwise_padded_channels s"
    if dw: "depthwise s"
  proof -
    note a = moderate_atoms [OF m]
    let ?a = "div_ceil (in_channels s) ?c"
    have c32: "?c \<le> 32" "0 < ?c" using channels_per_atom_bounds by simp_all
    have cb: "cbuf_atoms s = (if ?a mod 4 = 3 then ?a + 1 else ?a)"
      by (simp add: cbuf_atoms_def a(1) quad_atoms_exact [OF a(3)])
    have cin: "in_channels s \<le> 16777216" using m by (simp add: moderate_def)
    have lt: "cbuf_atoms s * ?c < 33554432" unfolding cb using a(2) cin c32 by (auto simp: algebra_simps)
    have "in_channels s \<le> ?a * ?c" using c32 by (intro div_ceil_mult_ge)
    also have "\<dots> \<le> cbuf_atoms s * ?c" by (intro mult_le_mono1) (simp add: cb)
    finally show ?thesis using total dw lt by (simp add: depthwise_padded_channels_def)
  qed
qed

lemma size_agrees:
  assumes m: "moderate s" and n: "try_weight_bytes s ks = Done n"
  shows "wp_packed_bytes (for_conv s ks) = Done n"
proof (cases "depthwise s")
  case True
  then show ?thesis using n by (simp add: wp_packed_bytes_def for_conv_def)
next
  case False
  let ?b = "element_bits (precision s) div 8"
  note t = try_weight_bytes_Done [OF m n]
  obtain l where l: "weight_layout_new (in_channels s) (out_channels s) (element_bits (precision s)) = Done l"
    "padded_input_channels l = weight_channels s" "programmed_output_channels l = programmed_kernels s"
    "weight_channels s < 33554432" "programmed_kernels s < 33554432"
    using m False by (rule layout_of_shape)
  have b: "?b \<in> {1, 2, 4}" "element_bits (precision s) = ?b * 8" using moderate_bits [OF m] by auto
  have eb: "wp_element_bytes (for_conv s ks) = Done ?b"
    using b by (auto simp: wp_element_bytes_def for_conv_def Let_def)
  let ?q = "weight_channels s" and ?p = "programmed_kernels s"
  have total: "fst ks * snd ks * ?q * ?p * (?b * 8) = n * 8"
    using t(6) [OF False] by (simp add: ac_simps)
  have pos: "0 < ?p" "0 < ?b"
    using weight_layout_dims(2,7) [OF l(1)] m b(1) l(3) by (auto simp: moderate_def)
  have "fst ks * snd ks \<le> 11 * 11" using t(2,4) by (rule mult_le_mono)
  moreover have "fst ks * snd ks * ?q \<le> 121 * 33554432"
    using \<open>fst ks * snd ks \<le> 11 * 11\<close> l(4) by (intro mult_le_mono) simp_all
  moreover have "fst ks * snd ks * ?q * ?p \<le> fst ks * snd ks * ?q * ?p * (?b * 8)" using pos by simp
  moreover have "n * 8 < 34359738368" using t(5) by simp
  ultimately have products: "fst ks * snd ks < 2 ^ 64" "fst ks * snd ks * ?q < 2 ^ 64"
    "fst ks * snd ks * ?q * ?p < 2 ^ 64" "fst ks * snd ks * ?q * ?p * (?b * 8) < 2 ^ 64"
    unfolding total by simp_all
  have "rocket_weight_storage_size (fst ks) (snd ks) (in_channels s) (out_channels s) ?b = Done n"
    using l(1) t(1,3) b(1) products total
    by (auto simp: rocket_weight_storage_size_def rocket_weight_storage_size_bits_def l(2,3)
        checked_mul64_def simp flip: b(2))
  moreover obtain kh kw where "ks = (kh, kw)" by (cases ks)
  ultimately show ?thesis
    using False eb
    by (simp add: wp_packed_bytes_def wp_programmed_out_channels_def parity_padded_shape_def for_conv_def)
qed

text \<open>
  The two spellings of the coefficient byte count agree: the size the planner
  charges, \<open>Shape::try_weight_bytes\<close>, is the size the coefficient packer needs for the shape's
  weight plan.
\<close>

theorem planned_and_packed_sizes_agree:
  assumes "moderate s" and "try_weight_bytes s ks = Done n"
  shows "wp_packed_bytes (for_conv s ks) = Done n"
  using assms by (rule size_agrees)

theorem planned_and_packed_sizes_agree_witness:
  "\<exists>n. try_weight_bytes matmul unit_kernel = Done n \<and> wp_packed_bytes (for_conv matmul unit_kernel) = Done n"
proof -
  have m: "moderate matmul" using matmul_valid by (simp add: moderate_def)
  have "\<exists>n. try_weight_bytes matmul unit_kernel = Done n"
    using matmul_geometry
    by (auto simp: try_weight_bytes_def geometry_def weight_channels_def shares_fp16_layout_def
        padded_channels_def feature_atoms_def programmed_kernels_def div_ceil_def next_multiple_of_def
        refuse_unless_def pointwise_kernel_def wrap64_def)
  with planned_and_packed_sizes_agree [OF m] show ?thesis by blast
qed

text \<open>
  Packing a weight plan ends. For a shape and filter whose planned size is \<open>n\<close>, a
  dense filter of exactly the logical size and a destination of at least \<open>n\<close> bytes, \<open>pack\<close>
  returns, having written \<open>n\<close> bytes: no selected packer refuses or panics, depthwise or dense,
  symmetric or with a zero point.
\<close>

theorem weight_plan_packs:
  assumes m: "moderate s" and n: "try_weight_bytes s ks = Done n"
    and dw: "depthwise s \<Longrightarrow> element_bits (precision s) \<in> {8, 16}"
    and d: "wp_dense_bytes (for_conv s ks) = Done (length dense)"
    and packed: "n \<le> length packed" "length packed < 2 ^ 63" and dense: "length dense < 2 ^ 63"
  shows "\<exists>out. wp_pack (for_conv s ks) dense packed = Done (out, n) \<and> length out = length packed"
proof -
  let ?b = "element_bits (precision s) div 8" and ?w = "for_conv s ks"
  obtain kh kw where ks: "ks = (kh, kw)" by (cases ks)
  note t = try_weight_bytes_Done [OF m n, unfolded ks fst_conv snd_conv]
  have b: "?b \<in> {1, 2, 4}" "element_bits (precision s) = ?b * 8" using moderate_bits [OF m] by auto
  have pos: "0 < in_channels s" "0 < out_channels s" using m by (simp_all add: moderate_def valid_shape_def)
  have eb: "wp_element_bytes ?w = Done ?b"
    using b by (auto simp: wp_element_bytes_def for_conv_def Let_def)
  have packed_bytes: "wp_packed_bytes ?w = Done n" using m n by (rule size_agrees)
  have dense_len: "length dense = kh * kw * in_channels s * (if depthwise s then 1 else out_channels s) * ?b"
    using d eb by (auto simp: wp_dense_bytes_def for_conv_def ks ok_or_eq_Done bind_eq_Some_conv
        elim!: obind_DoneE split: if_splits)
  have prog: "wp_programmed_out_channels ?w = Done (out_channels s)"
    by (simp add: wp_programmed_out_channels_def parity_padded_shape_def for_conv_def)
  have fields: "wp_shape ?w = s" "wp_kernels ?w = (kh, kw)" by (simp_all add: for_conv_def ks)
  show ?thesis
  proof (cases "depthwise s")
    case True
    have e: "?b = 1 \<or> ?b = 2" using dw [OF True] by auto
    have ok: "depthwise_filter_ok dense kh kw (in_channels s) (depthwise_padded_channels s) ?b packed"
      unfolding depthwise_filter_ok_def
      using t(1,3) t(7) [OF True] pos e dense_len dense packed True by simp
    obtain out where "pack_depthwise_to_rocket_weights dense kh kw (in_channels s)
        (depthwise_padded_channels s) ?b packed = Done (out, n)" "length out = length packed"
      using packed_depthwise [OF ok] t(7) [OF True] by auto
    then have "wp_pack ?w dense packed = Done (out, n)"
      using True packed d eb packed_bytes by (simp add: wp_pack_def fields)
    with \<open>length out = length packed\<close> show ?thesis by blast
  next
    case False
    have size: "rocket_weight_storage_size kh kw (in_channels s) (out_channels s) ?b = Done n"
      using packed_bytes eb False prog by (simp add: wp_packed_bytes_def fields map_refused_eq_Done)
    then obtain l where l: "weight_layout_new (in_channels s) (out_channels s) (?b * 8) = Done l"
      by (rule storage_size_Done)
    have ok: "filter_ok dense kh kw (in_channels s) (out_channels s) ?b zps"
      if "zps = None \<or> (\<exists>z. zps = Some (replicate (out_channels s) z) \<and> ?b = 1)" for zps
      using that dense_len dense False pos by (auto simp: filter_ok_def)
    have impl: "\<exists>out. pack_hwcf_to_rocket_weights_impl dense kh kw (in_channels s) (out_channels s)
        (out_channels s) ?b zps packed = Done (out, n) \<and> length out = length packed"
      if z: "zps = None \<or> (\<exists>z. zps = Some (replicate (out_channels s) z) \<and> ?b = 1)" for zps
      using packed_impl_length [OF ok [OF z] order.refl size packed(1) l] by blast
    show ?thesis
    proof (cases "wp_zero_point ?w")
      case None
      with impl [of None] obtain out where "pack_hwcf_to_rocket_weights dense kh kw (in_channels s)
          (out_channels s) ?b packed = Done (out, n)" "length out = length packed"
        by (auto simp: pack_hwcf_to_rocket_weights_def)
      then have "wp_pack ?w dense packed = Done (out, n)"
        using False packed d eb packed_bytes None by (simp add: wp_pack_def fields)
      with \<open>length out = length packed\<close> show ?thesis by blast
    next
      case (Some z)
      then have b1: "?b = 1" by (cases "precision s") (auto simp: for_conv_def)
      with impl [of "Some (replicate (out_channels s) z)"] obtain out where
        out: "pack_hwcf_to_rocket_weights_affine_i8 dense kh kw (in_channels s) (out_channels s)
          (replicate (out_channels s) z) packed = Done (out, n)" "length out = length packed"
        by (auto simp: pack_hwcf_to_rocket_weights_affine_i8_def)
      then have "wp_pack ?w dense packed = Done (out, n)"
        using False packed d eb packed_bytes Some prog by (simp add: wp_pack_def fields)
      with out(2) show ?thesis by blast
    qed
  qed
qed

theorem weight_plan_packs_witness:
  "\<exists>n out. try_weight_bytes matmul unit_kernel = Done n
     \<and> wp_pack (for_conv matmul unit_kernel) (replicate 256 1) (replicate 4096 0) = Done (out, n)"
proof -
  have m: "moderate matmul" using matmul_valid by (simp add: moderate_def)
  have n: "try_weight_bytes matmul unit_kernel = Done 256"
    using matmul_geometry
    by (auto simp: try_weight_bytes_def geometry_def weight_channels_def shares_fp16_layout_def
        padded_channels_def feature_atoms_def programmed_kernels_def div_ceil_def next_multiple_of_def
        refuse_unless_def pointwise_kernel_def wrap64_def)
  have d: "wp_dense_bytes (for_conv matmul unit_kernel) = Done 256"
    by (simp add: wp_dense_bytes_def for_conv_def unit_kernel_def checked_mul64_def wp_element_bytes_def)
  from weight_plan_packs [OF m n, of "replicate 256 1" "replicate 4096 0"] d n show ?thesis by auto
qed

end
