(* ===== verification/Admission.thy ===== *)
theory Admission
  imports ConvTypes
begin

text \<open>
  The compiler's admission envelope (\<open>rocket-core/src/admission.rs\<close>): the shape classes the
  corpus and the board measurements cover, indexed by precision, kernel, stride and channel
  counts only.
\<close>

record channel_ceilings =
  ceil_in_channels :: nat
  ceil_out_channels :: nat
  min_out_channels :: nat

definition MAX_ADMITTED_STRIDE :: nat where "MAX_ADMITTED_STRIDE = 4"

record conv_admission =
  adm_precision :: precision
  adm_depthwise :: bool
  adm_kernel_height :: nat
  adm_kernel_width :: nat
  adm_stride :: nat
  adm_in_channels :: nat
  adm_out_channels :: nat

record matmul_admission =
  mm_precision :: precision
  mm_m :: nat
  mm_k :: nat
  mm_n :: nat

datatype precision_class = ClassFp16 | ClassInt8Accumulator | ClassInt8Requant

fun precision_class_of :: "precision \<Rightarrow> precision_class option" where
  "precision_class_of Fp16 = Some ClassFp16"
| "precision_class_of (Int8Accumulator q) = Some ClassInt8Accumulator"
| "precision_class_of (Int8 q) = Some ClassInt8Requant"
| "precision_class_of p = None"

definition ceilings :: "nat \<Rightarrow> nat \<Rightarrow> channel_ceilings option" where
  "ceilings cin cout =
     Some \<lparr>ceil_in_channels = cin, ceil_out_channels = cout, min_out_channels = 1\<rparr>"

definition conv_ceilings :: "precision \<Rightarrow> bool \<Rightarrow> nat \<Rightarrow> nat \<Rightarrow> channel_ceilings option" where
  "conv_ceilings p dw k st =
     (case precision_class_of p of
        None \<Rightarrow> None
      | Some cls \<Rightarrow>
          if st = 0 \<or> MAX_ADMITTED_STRIDE < st then None
          else (case (cls, dw) of
              (ClassFp16, True) \<Rightarrow> if k = 1 \<or> k = 3 then ceilings 1536 1536 else None
            | (ClassFp16, False) \<Rightarrow>
                if k = 1 \<and> st \<le> 2 then ceilings MAX_INPUT_CHANNELS MAX_OUTPUT_CHANNELS
                else if k = 3 \<and> st \<le> 2 then ceilings 1152 MAX_OUTPUT_CHANNELS
                else if k = 1 \<or> k = 3 then ceilings 512 512
                else None
            | (ClassInt8Accumulator, False) \<Rightarrow>
                if k = 1 then ceilings MAX_INT8_INPUT_CHANNELS MAX_INT8_OUTPUT_CHANNELS
                else if k = 3 then ceilings 1152 512
                else None
            | (ClassInt8Accumulator, True) \<Rightarrow>
                if k = 1 \<or> k = 3 then ceilings 1344 1344 else None
            | (ClassInt8Requant, False) \<Rightarrow>
                if k = 1 then Some \<lparr>ceil_in_channels = 1344, ceil_out_channels = 1792,
                                    min_out_channels = 16\<rparr>
                else if k = 3 then Some \<lparr>ceil_in_channels = 768, ceil_out_channels = 768,
                                         min_out_channels = 16\<rparr>
                else None
            | (ClassInt8Requant, True) \<Rightarrow>
                if k = 1 \<or> k = 3 then ceilings 1344 1344 else None))"

definition admit_conv :: "conv_admission \<Rightarrow> unit plan_result" where
  "admit_conv a =
     (case precision_class_of (adm_precision a) of
        None \<Rightarrow> Refused UnvalidatedConfiguration
      | Some cls \<Rightarrow>
          if adm_kernel_height a \<noteq> adm_kernel_width a then Refused UnvalidatedConfiguration
          else if adm_stride a = 0 \<or> MAX_ADMITTED_STRIDE < adm_stride a
          then Refused UnvalidatedConfiguration
          else (case conv_ceilings (adm_precision a) (adm_depthwise a) (adm_kernel_height a)
                       (adm_stride a) of
              None \<Rightarrow> Refused UnvalidatedConfiguration
            | Some c \<Rightarrow>
                if adm_in_channels a = 0 \<or> adm_out_channels a = 0 then Refused InvalidShape
                else if ceil_in_channels c < adm_in_channels a then Refused UnvalidatedConfiguration
                else if adm_out_channels a < min_out_channels c then Refused UnvalidatedConfiguration
                else if ceil_out_channels c < adm_out_channels a then Refused UnvalidatedConfiguration
                else if adm_depthwise a \<and> adm_in_channels a \<noteq> adm_out_channels a
                then Refused UnsupportedSemantics
                else Done ()))"

definition MAX_ADMITTED_MATMUL_M :: nat where "MAX_ADMITTED_MATMUL_M = 4096"

definition admit_matmul :: "matmul_admission \<Rightarrow> unit plan_result" where
  "admit_matmul a =
     (case precision_class_of (mm_precision a) of
        None \<Rightarrow> Refused UnvalidatedConfiguration
      | Some cls \<Rightarrow>
          if cls \<noteq> ClassFp16 then Refused UnvalidatedConfiguration
          else if mm_m a = 0 \<or> mm_k a = 0 \<or> mm_n a = 0 then Refused InvalidShape
          else if MAX_ADMITTED_MATMUL_M < mm_m a then Refused UnvalidatedConfiguration
          else if MAX_INPUT_CHANNELS < mm_k a then Refused UnvalidatedConfiguration
          else if MAX_OUTPUT_CHANNELS < mm_n a then Refused UnvalidatedConfiguration
          else Done ())"

end
