(* ===== verification/AdmissionProperties.thy ===== *)
theory AdmissionProperties
  imports Admission FullyConnected PlanProperties
begin

text \<open>
  The admission envelope against the planner: what the compiler admits, the planner's constructors
  accept, under any planning policy; and the fully-connected lowering covers the matmul it stands
  for.
\<close>

section \<open>Convolutions\<close>

text \<open>The envelope is inside the planner's own channel ceilings.\<close>

lemma conv_ceilings_cases:
  assumes "conv_ceilings p dw k st = Some c"
  shows "precision_class_of p \<noteq> None \<and> 0 < st \<and> st \<le> 4 \<and> (k = 1 \<or> k = 3)
    \<and> (dw \<longrightarrow> ceil_in_channels c \<le> 1536 \<and> ceil_out_channels c \<le> 1536)
    \<and> ceil_in_channels c \<le> 4096 \<and> ceil_out_channels c \<le> 4096"
proof (cases "precision_class_of p")
  case None
  then show ?thesis using assms by (simp add: conv_ceilings_def)
next
  case (Some cls)
  then show ?thesis
    using assms
    by (cases cls; cases dw)
       (auto simp: conv_ceilings_def ceilings_def hw_consts MAX_ADMITTED_STRIDE_def split: if_splits)
qed

lemma conv_ceilings_inside:
  assumes "conv_ceilings p dw k st = Some c"
  shows "k = 1 \<or> k = 3" "0 < st" "st \<le> 4" "dw \<Longrightarrow> ceil_in_channels c \<le> 1536"
    "ceil_in_channels c \<le> 4096" "ceil_out_channels c \<le> 4096"
    "max_in_channels p = 4096" "max_out_channels p = 4096" "element_bits p \<in> {8, 16}" "\<not> writes_fp32_result p"
proof -
  note c = conv_ceilings_cases [OF assms]
  from c show "k = 1 \<or> k = 3" "0 < st" "st \<le> 4" "dw \<Longrightarrow> ceil_in_channels c \<le> 1536"
    "ceil_in_channels c \<le> 4096" "ceil_out_channels c \<le> 4096" by simp_all
  from c have "precision_class_of p \<noteq> None" by blast
  then show "max_in_channels p = 4096" "max_out_channels p = 4096" "element_bits p \<in> {8, 16}"
    "\<not> writes_fp32_result p"
    by (cases p; simp add: hw_consts)+
qed

lemma admit_conv_Done:
  assumes "admit_conv a = Done ()"
  obtains c where "conv_ceilings (adm_precision a) (adm_depthwise a) (adm_kernel_height a) (adm_stride a) = Some c"
    "adm_kernel_width a = adm_kernel_height a" "0 < adm_in_channels a" "0 < adm_out_channels a"
    "adm_in_channels a \<le> ceil_in_channels c" "adm_out_channels a \<le> ceil_out_channels c"
    "adm_depthwise a \<longrightarrow> adm_in_channels a = adm_out_channels a"
proof -
  show thesis
  proof (cases "conv_ceilings (adm_precision a) (adm_depthwise a) (adm_kernel_height a) (adm_stride a)")
    case None
    then show thesis using assms by (auto simp: admit_conv_def split: option.splits if_splits)
  next
    case (Some c)
    then show thesis
      using assms that [OF Some]
      by (auto simp: admit_conv_def not_less split: option.splits if_splits)
  qed
qed

lemma small_weight_bytes:
  assumes v: "valid_shape s" and c: "in_channels s \<le> 4096" "out_channels s \<le> 4096"
    and p: "element_bits (precision s) \<in> {8, 16}" and k: "try_kernel_programming s ks = Done k"
    and ks: "fst ks \<le> 3" "snd ks \<le> 3"
  shows "\<exists>n. try_weight_bytes s ks = Done n"
proof -
  let ?c = "channels_per_atom (precision s)" and ?bits = "element_bits (precision s)"
  let ?elements = "if depthwise s then cbuf_atoms s * ?c else weight_channels s * programmed_kernels s"
  have c16: "?c \<le> 16" "0 < ?c" using p by (cases "precision s"; simp)+
  let ?a = "div_ceil (in_channels s) ?c"
  have pos: "0 < in_channels s" using v by (simp add: valid_shape_def)
  have a: "?a * ?c < in_channels s + ?c" using c16 pos by (intro div_ceil_mult_less)
  have "?a \<le> in_channels s" using c16 by (intro div_ceil_le_self)
  then have a_small: "?a \<le> 4096" using c(1) by linarith
  have "0 < ?a" using pos c16 by simp
  then have "max ?a 1 = ?a" by linarith
  then have fa: "feature_atoms s = ?a" by (simp only: feature_atoms_def)
  have q: "quad_atoms ?a \<le> ?a + 1" by (rule quad_atoms_le)
  have "(?a + 1) * ?c \<le> 4128" using a c16 c(1) by (simp add: algebra_simps)
  then have quad: "quad_atoms ?a * ?c \<le> 4128" using mult_le_mono1 [OF q, of ?c] by linarith
  have "?a * ?c \<le> 4128" using \<open>(?a + 1) * ?c \<le> 4128\<close> by (simp add: algebra_simps)
  then have wc: "weight_channels s \<le> 4128"
    using quad wrap32_le le_trans by (auto simp: weight_channels_def padded_channels_def fa)
  have "next_multiple_of (out_channels s) 2 \<le> 4097"
    using next_multiple_of_less [of 2 "out_channels s"] c(2) by simp
  then have pk: "programmed_kernels s \<le> 4128"
    using c(2) wrap32_le le_trans by (auto simp: programmed_kernels_def)
  have "weight_channels s * programmed_kernels s \<le> 4128 * 4128" using wc pk by (rule mult_le_mono)
  then have e: "?elements \<le> 17040384" using quad by (auto simp: cbuf_atoms_def fa)
  have bits: "?bits \<le> 16" using p by auto
  from e bits have eb: "?elements * ?bits \<le> 17040384 * 16" by (rule mult_le_mono)
  then have "?elements * ?bits div 8 \<le> 34080768" by simp
  note kp = kernel_programming_bounds [OF k]
  have "?elements * ?bits div 8 * k_height k * k_width k \<le> 34080768 * 3 * 3"
    using \<open>?elements * ?bits div 8 \<le> 34080768\<close> kp(7,8) ks by (intro mult_le_mono) simp_all
  then show ?thesis
    using eb by (auto simp: try_weight_bytes_def k Let_def refuse_unless_def wrap64_def)
qed

text \<open>The one thing of the quantization the constructors ask for and the admission does not.\<close>

definition symmetric :: "precision \<Rightarrow> bool" where
  "symmetric p = (case p of Int8Accumulator q \<Rightarrow>
       input_zero_point q = 0 \<and> output_zero_point q = 0 \<and> weight_zero_point q = 0
     | _ \<Rightarrow> True)"

lemma admitted_convolution_shape:
  assumes adm: "admit_conv a = Done ()"
    and extents: "0 < w" "0 < h" "w * h * 16 < 2 ^ 32"
  shows "try_with_precision pol w h (adm_stride a) (adm_in_channels a) (adm_out_channels a) (adm_precision a) =
    (if symmetric (adm_precision a)
     then Done \<lparr>width = w, height = h, stride = adm_stride a, in_channels = adm_in_channels a,
       out_channels = adm_out_channels a, precision = adm_precision a, padding = None,
       activation = NoActivation, depthwise = False\<rparr>
     else Refused UnsupportedSemantics)"
proof -
  obtain c where ceil: "conv_ceilings (adm_precision a) (adm_depthwise a) (adm_kernel_height a) (adm_stride a) = Some c"
    and a: "adm_kernel_width a = adm_kernel_height a" "0 < adm_in_channels a" "0 < adm_out_channels a"
      "adm_in_channels a \<le> ceil_in_channels c" "adm_out_channels a \<le> ceil_out_channels c"
      "adm_depthwise a \<longrightarrow> adm_in_channels a = adm_out_channels a"
    using adm by (rule admit_conv_Done)
  note i = conv_ceilings_inside [OF ceil]
  have px: "Option.bind (checked_mul32 w h) (\<lambda>pixels. checked_mul32 pixels FEATURE_ATOM_BYTES) \<noteq> None"
  proof -
    have "w * h < 2 ^ 32" using extents(3) by linarith
    then have "checked_mul32 w h = Some (w * h)" by (simp only: checked_mul32_Some)
    moreover have "checked_mul32 (w * h) FEATURE_ATOM_BYTES = Some (w * h * 16)"
      unfolding FEATURE_ATOM_BYTES_def checked_mul32_Some using extents(3) by blast
    ultimately show ?thesis by (simp del: checked_mul32_Some not_None_eq)
  qed
  have not4: "adm_precision a \<noteq> Int4" using i(9) by auto
  show ?thesis
    using extents i a px not4
    by (auto simp: try_with_precision_def refuse_unless_def symmetric_def split: precision.split)
qed

lemma admitted_convolution_details:
  fixes w h :: nat
  assumes adm: "admit_conv a = Done ()"
    and extents: "0 < w" "0 < h" "w * h * 16 < 2 ^ 32" "w < 2 ^ 32" "h < 2 ^ 32"
  defines "ks \<equiv> (adm_kernel_height a, adm_kernel_width a)"
    and "s \<equiv> \<lparr>width = w, height = h, stride = adm_stride a, in_channels = adm_in_channels a,
       out_channels = adm_out_channels a, precision = adm_precision a, padding = None,
       activation = NoActivation, depthwise = False\<rparr>"
  shows "(adm_depthwise a \<longrightarrow> try_with_depthwise pol s = Done (s\<lparr>depthwise := True\<rparr>))
    \<and> (\<exists>k. try_kernel_programming s ks = Done k)
    \<and> (\<exists>n. try_weight_bytes (s\<lparr>depthwise := adm_depthwise a\<rparr>) ks = Done n)"
proof -
  obtain c where ceil: "conv_ceilings (adm_precision a) (adm_depthwise a) (adm_kernel_height a) (adm_stride a) = Some c"
    and a: "adm_kernel_width a = adm_kernel_height a" "0 < adm_in_channels a" "0 < adm_out_channels a"
      "adm_in_channels a \<le> ceil_in_channels c" "adm_out_channels a \<le> ceil_out_channels c"
      "adm_depthwise a \<longrightarrow> adm_in_channels a = adm_out_channels a"
    using adm by (rule admit_conv_Done)
  note i = conv_ceilings_inside [OF ceil]
  have not4: "adm_precision a \<noteq> Int4" using i(9) by auto
  have dw: "try_with_depthwise pol s = Done (s\<lparr>depthwise := True\<rparr>)" if "adm_depthwise a"
    using that i a by (auto simp: s_def try_with_depthwise_def refuse_unless_def MAX_DEPTHWISE_CHANNELS_def)
  have "\<exists>k. try_kernel_programming s ks = Done k"
    using i(1) a(1) by (auto simp: s_def ks_def try_kernel_programming_def try_kernel_programming_of_def)
  moreover have "\<exists>n. try_weight_bytes (s\<lparr>depthwise := adm_depthwise a\<rparr>) ks = Done n"
  proof -
    let ?t = "s\<lparr>depthwise := adm_depthwise a\<rparr>"
    obtain k where k: "try_kernel_programming ?t ks = Done k"
      using i(1) a(1) by (auto simp: s_def ks_def try_kernel_programming_def try_kernel_programming_of_def)
    have "valid_shape ?t"
      using extents i a not4 by (auto simp: s_def valid_shape_def u32_shape_def)
    from small_weight_bytes [OF this _ _ _ k] i a show ?thesis by (auto simp: s_def ks_def)
  qed
  ultimately show ?thesis using dw by blast
qed

text \<open>
  C26 (refinement): take a convolution the compiler admits, at any positive extents whose feature
  surface fits 32 bits, under any policy. Unless it is an accumulator with a nonzero zero point, which
  the constructors refuse by name, it is one the planner can describe: the shape constructors accept
  it, depthwise included, its kernel is programmable with its default padding, and its coefficients
  fit the 32-bit byte count.
\<close>

theorem admitted_convolutions_are_constructible:
  assumes adm: "admit_conv a = Done ()"
    and extents: "0 < w" "0 < h" "w * h * 16 < 2 ^ 32" "w < 2 ^ 32" "h < 2 ^ 32"
  defines "ks \<equiv> (adm_kernel_height a, adm_kernel_width a)"
  shows "if symmetric (adm_precision a)
    then \<exists>s. try_with_precision pol w h (adm_stride a) (adm_in_channels a) (adm_out_channels a) (adm_precision a) = Done s
      \<and> (adm_depthwise a \<longrightarrow> try_with_depthwise pol s = Done (s\<lparr>depthwise := True\<rparr>))
      \<and> (\<exists>k. try_kernel_programming s ks = Done k)
      \<and> (\<exists>n. try_weight_bytes (s\<lparr>depthwise := adm_depthwise a\<rparr>) ks = Done n)
    else try_with_precision pol w h (adm_stride a) (adm_in_channels a) (adm_out_channels a) (adm_precision a)
      = Refused UnsupportedSemantics"
  unfolding ks_def admitted_convolution_shape [OF adm extents(1-3)]
  using admitted_convolution_details [OF adm extents, of pol] by simp

theorem admitted_convolutions_are_constructible_witness:
  "\<exists>s. try_with_precision default_policy 7 7 2 96 96 Fp16 = Done s
    \<and> try_with_depthwise default_policy s = Done (s\<lparr>depthwise := True\<rparr>)
    \<and> (\<exists>n. try_weight_bytes (s\<lparr>depthwise := True\<rparr>) (3, 3) = Done n)"
proof -
  let ?a = "\<lparr>adm_precision = Fp16, adm_depthwise = True, adm_kernel_height = 3, adm_kernel_width = 3,
     adm_stride = 2, adm_in_channels = 96, adm_out_channels = 96\<rparr>"
  have "admit_conv ?a = Done ()"
    by (simp add: admit_conv_def conv_ceilings_def ceilings_def MAX_ADMITTED_STRIDE_def)
  from admitted_convolutions_are_constructible [OF this, of 7 7 default_policy] show ?thesis
    by (auto simp: symmetric_def)
qed

section \<open>Matrix multiplications\<close>

lemma admit_matmul_Done:
  assumes "admit_matmul a = Done ()"
  shows "mm_precision a = Fp16 \<and> 0 < mm_m a \<and> mm_m a \<le> 4096 \<and> 0 < mm_k a \<and> mm_k a \<le> 4096
    \<and> 0 < mm_n a \<and> mm_n a \<le> 4096"
proof -
  have "precision_class_of (mm_precision a) = Some ClassFp16"
    using assms by (auto simp: admit_matmul_def split: option.splits if_splits)
  then have "mm_precision a = Fp16" by (cases "mm_precision a") simp_all
  with assms show ?thesis
    by (auto simp: admit_matmul_def MAX_ADMITTED_MATMUL_M_def hw_consts split: if_splits)
qed

text \<open>
  C27 (composition): every matrix multiplication the compiler admits lowers to a 1x1 convolution
  the constructors accept, planning it (with any fused activation) ends in a plan or a typed
  refusal under any policy, and in a plan each of the \<open>m\<close> result rows belongs to exactly one tile.
\<close>

theorem admitted_matmuls_lower:
  assumes adm: "admit_matmul a = Done ()"
  shows "\<exists>f. fc_try_new pol (mm_m a) (mm_k a) (mm_n a) (mm_precision a) = Done f
    \<and> (case fc_plan_try_new pol (with_activation f act) of
         Done plan \<Rightarrow> \<forall>r c. length (filter (covers r c) (plan_tiles (fc_conv plan))) =
           (if r = 0 \<and> c < mm_m a then 1 else 0)
       | Refused e \<Rightarrow> True
       | Panicked \<Rightarrow> False)"
proof -
  let ?f = "\<lparr>fc_m = mm_m a, fc_k = mm_k a, fc_n = mm_n a, fc_precision = Fp16, fc_activation = NoActivation\<rparr>"
  let ?s = "\<lambda>act. \<lparr>width = mm_m a, height = 1, stride = 1, in_channels = mm_k a, out_channels = mm_n a,
     precision = Fp16, padding = Some (0, 0), activation = act, depthwise = False\<rparr>"
  from adm have b: "mm_precision a = Fp16" "0 < mm_m a" "mm_m a \<le> 4096" "0 < mm_k a" "mm_k a \<le> 4096"
    "0 < mm_n a" "mm_n a \<le> 4096" by (auto dest: admit_matmul_Done)
  have shape: "try_as_conv_shape pol (with_activation ?f act) = Done (?s act)" for act
    using b by (simp add: try_as_conv_shape_def try_with_precision_def try_with_padding_def
        try_with_activation_def with_activation_def hw_consts checked_mul32_def)
  have v: "valid_shape (?s act)" using b by (simp add: valid_shape_def u32_shape_def)
  have "fc_try_new pol (mm_m a) (mm_k a) (mm_n a) (mm_precision a) = Done ?f"
    using shape [of NoActivation] b by (simp add: fc_try_new_def with_activation_def)
  moreover have "try_new pol (?s act) KERNELS \<noteq> Panicked"
  proof (rule try_new_total [OF v])
    have "div_ceil (mm_k a) 8 \<le> 512" using b by (simp add: div_ceil_le_iff)
    then have "cbuf_atoms (?s act) \<le> 513"
      using quad_atoms_le [of "feature_atoms (?s act)"] by (simp add: cbuf_atoms_def feature_atoms_def)
    then have "mm_m a * cbuf_atoms (?s act) \<le> 4096 * 513" using b(3) by (intro mult_le_mono) simp_all
    then show "row_addressable (?s act)" by (simp add: row_addressable_def)
  qed
  moreover have "length (filter (covers r c) (plan_tiles p)) = (if r = 0 \<and> c < mm_m a then 1 else 0)"
    if p: "try_new pol (?s act) KERNELS = Done p" for p r c
  proof -
    obtain k banks where ok: "plan_grid_ok (?s act) KERNELS k banks p" and g: "geometry (?s act) KERNELS k"
      using try_new_grid [OF v p] by metis
    have "out_h (?s act) k = 1" "out_w (?s act) k = mm_m a"
      using b g by (auto simp: geometry_def try_kernel_programming_def try_kernel_programming_of_def
          KERNELS_def out_h_def out_w_def refuse_unless_eq_Done)
    with grid_covers [OF ok, of r c] show ?thesis by simp
  qed
  ultimately show ?thesis
    by (cases "try_new pol (?s act) KERNELS") (auto simp: fc_plan_try_new_def shape)
qed

theorem admitted_matmuls_lower_witness:
  "\<exists>f. fc_try_new default_policy 5 64 24 Fp16 = Done f
    \<and> fc_plan_try_new default_policy (with_activation f Relu) \<noteq> Panicked"
  using admitted_matmuls_lower [of "\<lparr>mm_precision = Fp16, mm_m = 5, mm_k = 64, mm_n = 24\<rparr>" default_policy Relu]
  by (auto simp: admit_matmul_def MAX_ADMITTED_MATMUL_M_def hw_consts)

end
