(* ===== verification/FormatProperties.thy ===== *)
theory FormatProperties
  imports ExecutableFormat PlanProperties
begin

text \<open>
  The wire format: its round trip, an exact account of what the decoder accepts and how it
  refuses, and the validation of a decoded shape as the gate before the planner.
\<close>

section \<open>Fields\<close>

lemma length_to_le_bytes [simp]: "length (to_le_bytes n) = 4"
  by (simp add: to_le_bytes_def)

lemma from_to_le_bytes: "from_le_bytes (to_le_bytes n) = wrap32 n"
proof -
  have byte: "unat (of_nat k :: byte) = k mod 256" for k
    by (simp add: unat_of_nat)
  have "wrap32 n = n mod 256 + 256 * (n div 256 mod 256) + 256 ^ 2 * (n div 256 ^ 2 mod 256)
      + 256 ^ 3 * (n div 256 ^ 3 mod 256)"
    using mod_mult2_eq [of n 256 "256 ^ 3"] mod_mult2_eq [of "n div 256" 256 "256 ^ 2"]
      mod_mult2_eq [of "n div 256 ^ 2" 256 256]
    by (simp add: wrap32_def div_mult2_eq [symmetric])
  then show ?thesis by (simp add: to_le_bytes_def byte)
qed

lemma read_u32_field [simp]: "read_u32 (to_le_bytes n @ rest) = Done (wrap32 n, rest)"
  by (simp add: read_u32_def from_to_le_bytes)

lemma read_u32_last [simp]: "read_u32 (to_le_bytes n) = Done (wrap32 n, [])"
  using read_u32_field [of n "[]"] by simp

lemma from_le_bytes_bound: "from_le_bytes bs < 256 ^ length bs"
proof (induction bs)
  case (Cons b bs)
  have "unat b < 256" using unsigned_less [of b] by simp
  with Cons show ?case by simp
qed simp

lemma byte_of_from_le_bytes: "k < length bs \<Longrightarrow> of_nat (from_le_bytes bs div 256 ^ k) = bs ! k"
proof (induction bs arbitrary: k)
  case (Cons b bs)
  have lt: "unat b < 256" using unsigned_less [of b] by simp
  have wraps: "(256 :: byte) = 0" by simp
  show ?case
  proof (cases k)
    case 0
    show ?thesis unfolding 0 by (simp add: wraps)
  next
    case (Suc m)
    have "from_le_bytes (b # bs) div 256 ^ k = from_le_bytes bs div 256 ^ m"
      using lt by (simp add: Suc div_mult2_eq)
    then show ?thesis using Cons by (simp add: Suc)
  qed
qed simp

lemma to_from_le_bytes:
  assumes "length bs = 4"
  shows "to_le_bytes (from_le_bytes bs) = bs"
proof -
  have indices: "[0, 1, 2, 3] = [0..<4::nat]" by code_simp
  have "to_le_bytes (from_le_bytes bs) = map (\<lambda>i. bs ! i) [0..<4]"
    unfolding to_le_bytes_def indices using byte_of_from_le_bytes assms by (intro map_cong) simp_all
  then show ?thesis using map_nth [of bs] assms by simp
qed

section \<open>What the decoder does\<close>

text \<open>A payload of the right length is the concatenation of its 21 fields.\<close>

definition field_at :: "byte list \<Rightarrow> nat \<Rightarrow> nat" where
  "field_at payload i = from_le_bytes (take 4 (drop (4 * i) payload))"

lemma field_at_bound: "field_at payload i < 2 ^ 32"
proof -
  have "field_at payload i < 256 ^ length (take 4 (drop (4 * i) payload))"
    unfolding field_at_def by (rule from_le_bytes_bound)
  also have "\<dots> \<le> 256 ^ 4" by (rule power_increasing) simp_all
  finally show ?thesis by simp
qed

lemma fields_of_payload:
  assumes "length payload = 4 * n"
  shows "payload = concat (map (\<lambda>i. to_le_bytes (field_at payload i)) [0..<n])"
  using assms
proof (induction n arbitrary: payload)
  case (Suc n)
  have "to_le_bytes (field_at payload 0) = take 4 payload"
    using Suc.prems by (simp add: field_at_def to_from_le_bytes)
  moreover have "drop 4 payload = concat (map (\<lambda>i. to_le_bytes (field_at (drop 4 payload) i)) [0..<n])"
    using Suc.prems by (intro Suc.IH) simp
  moreover have "field_at (drop 4 payload) i = field_at payload (Suc i)" for i
    by (simp add: field_at_def add.commute)
  ultimately have "payload = to_le_bytes (field_at payload 0)
      @ concat (map (\<lambda>i. to_le_bytes (field_at payload (Suc i))) [0..<n])"
    by (metis (no_types, lifting) append_take_drop_id map_eq_conv)
  also have "\<dots> = concat (map (\<lambda>i. to_le_bytes (field_at payload i)) [0..<Suc n])"
    by (simp add: upt_conv_Cons map_Suc_upt [symmetric] comp_def del: upt_Suc)
  finally show ?case .
qed simp

definition fields_shape :: "(nat \<Rightarrow> nat) \<Rightarrow> activation \<Rightarrow> precision \<Rightarrow> shape \<times> kernels" where
  "fields_shape f act p =
     (\<lparr>width = f 1, height = f 2, stride = f 7, in_channels = f 3, out_channels = f 4, precision = p,
       padding = Some (f 9, f 10), activation = act, depthwise = f 8 \<noteq> 0\<rparr>, (f 6, f 5))"

definition fields_quantization :: "(nat \<Rightarrow> nat) \<Rightarrow> quantization" where
  "fields_quantization f =
     \<lparr>input_zero_point = as_i32 (f 11), output_zero_point = as_i32 (f 12),
      weight_zero_point = as_i32 (f 13), input_scale = f 14, weights_scale = f 15,
      q_multiplier = \<lparr>mul_scale = f 16, mul_shift = f 17\<rparr>\<rparr>"

lemma decode_fields:
  assumes "\<And>i. f i < 2 ^ 32"
  shows "decode_conv_shape_v1 (concat (map (\<lambda>i. to_le_bytes (f i)) [0..<21])) =
    (if f 0 \<noteq> 4 then Refused (UnsupportedVersion (f 0))
     else obind (decode_activation (f 18) (f 19)) (\<lambda>act.
          obind (decode_precision (f 20) (fields_quantization f)) (\<lambda>p.
          Done (fields_shape f act p))))"
proof -
  have w: "wrap32 (f i) = f i" for i using assms by simp
  have indices: "[0..<21] = [0, 1, 2, 3, 4, 5, 6, 7, 8, 9, 10, 11, 12, 13, 14, 15, 16, 17, 18, 19, 20]"
    by code_simp
  show ?thesis
    unfolding indices
    by (simp add: decode_conv_shape_v1_def PAYLOAD_LEN_def FIELD_COUNT_U32_def
        CONV2D_V1_FORMAT_VERSION_def w fields_shape_def fields_quantization_def
        del: decode_activation.simps decode_precision.simps)
qed

lemma decode_payload:
  "decode_conv_shape_v1 payload =
    (if length payload \<noteq> 84 then Refused (WrongLength 84 (length payload))
     else if field_at payload 0 \<noteq> 4 then Refused (UnsupportedVersion (field_at payload 0))
     else obind (decode_activation (field_at payload 18) (field_at payload 19)) (\<lambda>act.
          obind (decode_precision (field_at payload 20) (fields_quantization (field_at payload))) (\<lambda>p.
          Done (fields_shape (field_at payload) act p))))"
proof (cases "length payload = 84")
  case True
  then have "payload = concat (map (\<lambda>i. to_le_bytes (field_at payload i)) [0..<21])"
    by (intro fields_of_payload) simp
  with decode_fields [of "field_at payload", OF field_at_bound] True show ?thesis by simp
next
  case False
  then show ?thesis
    by (simp add: decode_conv_shape_v1_def PAYLOAD_LEN_def FIELD_COUNT_U32_def)
qed

section \<open>The round trip\<close>

text \<open>What fits the fields: the integer types of the struct, and 32 bits of each \<open>usize\<close>.\<close>

definition fits_u32 :: "nat \<Rightarrow> bool" where "fits_u32 n \<longleftrightarrow> n < 2 ^ 32"
definition fits_i32 :: "int \<Rightarrow> bool" where "fits_i32 z \<longleftrightarrow> - (2 ^ 31) \<le> z \<and> z < 2 ^ 31"

definition fits_quantization :: "quantization \<Rightarrow> bool" where
  "fits_quantization q \<longleftrightarrow> fits_i32 (input_zero_point q) \<and> fits_i32 (output_zero_point q)
     \<and> fits_i32 (weight_zero_point q) \<and> fits_u32 (input_scale q) \<and> fits_u32 (weights_scale q)
     \<and> fits_u32 (mul_scale (q_multiplier q)) \<and> fits_u32 (mul_shift (q_multiplier q))"

definition fits_wire :: "shape \<Rightarrow> kernels \<Rightarrow> bool" where
  "fits_wire s ks \<longleftrightarrow> u32_shape s \<and> fits_u32 (fst ks) \<and> fits_u32 (snd ks)
     \<and> pred_option (\<lambda>p. fits_u32 (fst p) \<and> fits_u32 (snd p)) (padding s)
     \<and> (case activation s of Clamped cmp \<Rightarrow> fits_u32 cmp | _ \<Rightarrow> True)
     \<and> pred_option fits_quantization (quantization_of (precision s))"

lemma as_i32_bits: "fits_i32 z \<Longrightarrow> as_i32 (wrap32 (i32_bits z)) = z"
proof -
  assume "fits_i32 z"
  then have z: "- 2147483648 \<le> z" "z < 2147483648" by (simp_all add: fits_i32_def)
  have "z mod 4294967296 = (if 0 \<le> z then z else z + 4294967296)"
  proof (cases "0 \<le> z")
    case False
    have "z mod 4294967296 = (z + 4294967296) mod 4294967296" by simp
    also have "\<dots> = z + 4294967296" using z False by (intro mod_pos_pos_trivial) simp_all
    finally show ?thesis using False by simp
  qed (use z in simp)
  with z show ?thesis by (auto simp: as_i32_def i32_bits_def wrap32_def)
qed

lemma encoded_shape_of_wire:
  assumes "fits_wire s ks"
  shows "decode_conv_shape_v1 (encode_conv_shape_v1 s ks) =
    Done (s\<lparr>padding := Some (case padding s of Some p \<Rightarrow> p | None \<Rightarrow> (0, 0))\<rparr>, ks)"
proof -
  have w: "wrap32 n = n" if "fits_u32 n" for n using that by (simp add: fits_u32_def)
  have u: "fits_u32 (width s)" "fits_u32 (height s)" "fits_u32 (stride s)" "fits_u32 (in_channels s)"
    "fits_u32 (out_channels s)" "fits_u32 (fst ks)" "fits_u32 (snd ks)"
    using assms by (simp_all add: fits_wire_def u32_shape_def fits_u32_def)
  define q where "q = snd (precision_fields (precision s))"
  define pads where "pads = (case padding s of Some p \<Rightarrow> p | None \<Rightarrow> (0, 0))"
  define acts where "acts = activation_fields (activation s)"
  have "fits_quantization uncalibrated"
    by (simp add: fits_quantization_def uncalibrated_def fits_i32_def fits_u32_def)
  then have q: "fits_quantization q"
    using assms by (cases "precision s") (simp_all add: fits_wire_def q_def)
  have pads: "fits_u32 (fst pads)" "fits_u32 (snd pads)"
    using assms by (auto simp: fits_wire_def pads_def fits_u32_def split: option.splits)
  have acts: "fits_u32 (fst acts)" "fits_u32 (snd acts)" "decode_activation (fst acts) (snd acts) = Done (activation s)"
    using assms by (cases "activation s"; simp add: fits_wire_def acts_def fits_u32_def)+
  have tag: "fits_u32 (fst (precision_fields (precision s)))"
    "decode_precision (fst (precision_fields (precision s))) q = Done (precision s)"
    by (cases "precision s"; simp add: q_def fits_u32_def)+
  have whole: "\<lparr>input_zero_point = input_zero_point q, output_zero_point = output_zero_point q,
      weight_zero_point = weight_zero_point q, input_scale = input_scale q, weights_scale = weights_scale q,
      q_multiplier = \<lparr>mul_scale = mul_scale (q_multiplier q), mul_shift = mul_shift (q_multiplier q)\<rparr>\<rparr> = q"
    by simp
  show ?thesis
    using q
    by (simp add: decode_conv_shape_v1_def encode_conv_shape_v1_def PAYLOAD_LEN_def FIELD_COUNT_U32_def
        CONV2D_V1_FORMAT_VERSION_def prod.case_eq_if Let_def q_def [symmetric] pads_def [symmetric]
        acts_def [symmetric] w u pads acts tag as_i32_bits whole fits_quantization_def
        del: decode_activation.simps decode_precision.simps)
qed

text \<open>
  Decoding an encoded shape gives the shape back, padding made explicit: a shape
  that left its padding to the default decodes as unpadded.
\<close>

theorem encoded_shapes_decode:
  assumes "fits_wire s ks"
  shows "decode_conv_shape_v1 (encode_conv_shape_v1 s ks) =
    Done (s\<lparr>padding := Some (case padding s of Some p \<Rightarrow> p | None \<Rightarrow> (0, 0))\<rparr>, ks)"
  using assms by (rule encoded_shape_of_wire)

theorem encoded_shapes_decode_witness:
  "decode_conv_shape_v1 (encode_conv_shape_v1 (pointwise\<lparr>precision := Int8 no_quantization\<rparr>) (3, 5)) =
    Done (pointwise\<lparr>precision := Int8 no_quantization, padding := Some (0, 0)\<rparr>, (3, 5))"
  using encoded_shapes_decode [of "pointwise\<lparr>precision := Int8 no_quantization\<rparr>" "(3, 5)"]
  by (simp add: fits_wire_def u32_shape_def fits_u32_def fits_quantization_def fits_i32_def
      no_quantization_def pointwise_def)

section \<open>What the decoder accepts\<close>

lemma as_i32_fits: "n < 2 ^ 32 \<Longrightarrow> fits_i32 (as_i32 n)"
  by (auto simp: fits_i32_def as_i32_def)

lemma decoded_fits:
  assumes "decode_conv_shape_v1 payload = Done (s, ks)"
  shows "fits_wire s ks" and "padding s \<noteq> None"
proof -
  let ?f = "field_at payload"
  have f: "?f i < 4294967296" for i using field_at_bound by simp
  from assms obtain act p where act: "decode_activation (?f 18) (?f 19) = Done act"
    and p: "decode_precision (?f 20) (fields_quantization ?f) = Done p"
    and s: "(s, ks) = fields_shape ?f act p"
    unfolding decode_payload by (auto elim!: obind_DoneE split: if_splits)
  have q: "fits_quantization (fields_quantization ?f)"
    by (simp add: fits_quantization_def fields_quantization_def as_i32_fits fits_u32_def f)
  then have "pred_option fits_quantization (quantization_of p)"
    using p by (auto split: if_splits)
  moreover have "case act of Clamped cmp \<Rightarrow> fits_u32 cmp | _ \<Rightarrow> True"
    using act f by (auto simp: fits_u32_def split: if_splits)
  ultimately show "fits_wire s ks" "padding s \<noteq> None"
    using s f by (auto simp: fields_shape_def fits_wire_def u32_shape_def fits_u32_def)
qed

text \<open>
  C29 (error behaviour): the decoder never panics. It accepts a payload exactly when it has 84
  bytes, version 4 and known tags, and then the result encodes to a payload with the same meaning;
  otherwise it names the first fault, in the order length, version, activation, precision.
\<close>

theorem decoder_accepts_exactly_known_payloads:
  "case decode_conv_shape_v1 payload of
     Done (s, ks) \<Rightarrow> length payload = 84 \<and> field_at payload 0 = 4 \<and> field_at payload 18 \<le> 2
       \<and> field_at payload 20 \<le> 7 \<and> decode_conv_shape_v1 (encode_conv_shape_v1 s ks) = Done (s, ks)
   | Refused (WrongLength expected actual) \<Rightarrow> expected = 84 \<and> actual = length payload \<and> actual \<noteq> 84
   | Refused (UnsupportedVersion v) \<Rightarrow> length payload = 84 \<and> v = field_at payload 0 \<and> v \<noteq> 4
   | Refused (InvalidActivationTag t) \<Rightarrow> length payload = 84 \<and> field_at payload 0 = 4
       \<and> t = field_at payload 18 \<and> 2 < t
   | Refused (InvalidPrecisionTag t) \<Rightarrow> length payload = 84 \<and> field_at payload 0 = 4
       \<and> field_at payload 18 \<le> 2 \<and> t = field_at payload 20 \<and> 7 < t
   | Panicked \<Rightarrow> False"
proof (cases "decode_conv_shape_v1 payload")
  case (Done sk)
  obtain s ks where sk: "sk = (s, ks)" by (cases sk)
  from decoded_fits [OF Done [unfolded sk]] obtain pads where pads: "padding s = Some pads"
    and fits: "fits_wire s ks" by auto
  from pads have "s\<lparr>padding := Some (case padding s of Some p \<Rightarrow> p | None \<Rightarrow> (0, 0))\<rparr> = s" by simp
  with encoded_shape_of_wire [OF fits] have "decode_conv_shape_v1 (encode_conv_shape_v1 s ks) = Done (s, ks)" by simp
  moreover have "length payload = 84 \<and> field_at payload 0 = 4 \<and> field_at payload 18 \<le> 2 \<and> field_at payload 20 \<le> 7"
    using Done unfolding decode_payload by (auto elim!: obind_DoneE split: if_splits)
  ultimately show ?thesis unfolding Done sk by simp
next
  case (Refused e)
  then show ?thesis
    unfolding decode_payload by (auto simp: obind_eq_Refused split: if_splits)
next
  case Panicked
  then show ?thesis
    unfolding decode_payload by (auto simp: obind_eq_Panicked split: if_splits)
qed

section \<open>Validation\<close>

text \<open>When no constructor refuses, the rebuilt shape is the decoded one, so it is what is planned.\<close>

lemma rebuild_gives_the_shape:
  assumes u: "u32_shape s"
  obtains e where "rebuild_and_plan pol s ks = Refused e"
  | "valid_shape s" "rebuild_and_plan pol s ks = obind (try_new pol s ks) (\<lambda>_. Done ())"
proof -
  let ?r0 = "try_with_precision pol (width s) (height s) (stride s) (in_channels s) (out_channels s) (precision s)"
  let ?r1 = "\<lambda>r. case padding s of Some p \<Rightarrow> try_with_padding r p | None \<Rightarrow> Done r"
  let ?r2 = "\<lambda>r. try_with_activation r (activation s)"
  let ?r3 = "\<lambda>r. if depthwise s then try_with_depthwise pol r else Done r"
  let ?chain = "obind ?r0 (\<lambda>r. obind (?r1 r) (\<lambda>r. obind (?r2 r) ?r3))"
  have split: "rebuild_and_plan pol s ks = obind ?chain (\<lambda>r. obind (try_new pol r ks) (\<lambda>_. Done ()))"
    by (simp add: rebuild_and_plan_def parity_padded_shape_def obind_assoc)
  have "?chain \<noteq> Panicked"
    unfolding try_with_precision_def try_with_padding_def try_with_activation_def try_with_depthwise_def
    by (intro no_panic)
  then consider e where "?chain = Refused e" | r3 where "?chain = Done r3" by (cases ?chain) auto
  then show thesis
  proof cases
    case 1
    then show thesis using that(1) by (simp add: split)
  next
    case 2
    then obtain r0 r1 r2 where r0: "?r0 = Done r0" and r1: "?r1 r0 = Done r1" and r2: "?r2 r1 = Done r2"
      and r3: "?r3 r2 = Done r3" by (auto elim!: obind_DoneE)
    have "valid_shape r0" using try_with_precision_valid [OF r0] u by (simp add: u32_shape_def)
    then have v1: "valid_shape r1" using r1 by (auto intro: with_setters_valid split: option.splits)
    then have "valid_shape r2" using r2 by (rule with_setters_valid)
    then have v: "valid_shape r3" using r3 by (auto intro: with_setters_valid split: if_splits)
    have "r3 = s"
      using r0 r1 r2 r3
      by (auto simp: try_with_precision_def refuse_unless_eq_Done try_with_padding_def
          try_with_activation_def try_with_depthwise_def split: option.splits if_splits)
    with v 2 show thesis using that(2) by (simp add: split)
  qed
qed

text \<open>
  A decoded payload that validation accepts is planned, and the plan partitions
  the output image; validation never unwinds, and on a shape with addressable rows every refusal
  is the constructors' or the planner's own, never the backstop that catches a panic.
\<close>

theorem validated_payloads_are_planned:
  assumes "decode_conv_shape_v1 payload = Done (s, ks)"
  shows "case validate_conv_shape pol s ks of
     Done u \<Rightarrow> \<exists>plan oh ow. try_new pol s ks = Done plan
       \<and> output_height s ks = Done oh \<and> output_width s ks = Done ow
       \<and> (\<forall>r c. length (filter (covers r c) (plan_tiles plan)) = (if r < oh \<and> c < ow then 1 else 0))
   | Refused e \<Rightarrow> row_addressable s \<longrightarrow> rebuild_and_plan pol s ks = Refused e
   | Panicked \<Rightarrow> False"
proof -
  have "u32_shape s" using decoded_fits [OF assms] by (simp add: fits_wire_def)
  then show ?thesis
  proof (cases rule: rebuild_gives_the_shape [where pol = pol and ks = ks])
    case (1 e)
    then show ?thesis by (simp add: validate_conv_shape_def)
  next
    case 2
    show ?thesis
    proof (cases "try_new pol s ks")
      case (Done plan)
      obtain k b where "plan_grid_ok s ks k b plan" and "output_width s ks = Done (out_w s k)"
        and "output_height s ks = Done (out_h s k)"
        using try_new_grid [OF 2(1) Done] by metis
      with grid_covers show ?thesis by (simp add: validate_conv_shape_def 2(2) Done)
    next
      case (Refused e)
      then show ?thesis by (simp add: validate_conv_shape_def 2(2))
    next
      case Panicked
      with try_new_total [OF 2(1), of pol ks] show ?thesis by (auto simp: validate_conv_shape_def 2(2))
    qed
  qed
qed

theorem validated_payloads_are_planned_witness:
  "\<exists>payload s. decode_conv_shape_v1 payload = Done (s, unit_kernel)
     \<and> validate_conv_shape default_policy s unit_kernel \<noteq> Panicked"
proof -
  have "fits_wire pointwise unit_kernel"
    by (simp add: fits_wire_def u32_shape_def fits_u32_def unit_kernel_def)
  from encoded_shape_of_wire [OF this] have d: "decode_conv_shape_v1 (encode_conv_shape_v1 pointwise unit_kernel) =
      Done (pointwise\<lparr>padding := Some (0, 0)\<rparr>, unit_kernel)" by simp
  from validated_payloads_are_planned [OF d, of default_policy]
  have "validate_conv_shape default_policy (pointwise\<lparr>padding := Some (0, 0)\<rparr>) unit_kernel \<noteq> Panicked" by auto
  with d show ?thesis by blast
qed

end
