(* ===== verification/WeightCache.thy ===== *)
theory WeightCache
  imports Prelude "HOL-Library.AList"
begin

text \<open>
  The cross-inference cache of packed coefficients (\<open>rocket-hal-driver/src/weight_cache.rs\<close>).

  The \<open>HashMap\<close> is an association list with distinct keys: \<open>get\<close> is \<open>map_of\<close>, \<open>remove\<close>
  \<open>AList.delete\<close>, \<open>insert\<close> a cons on the list without the key; no operation depends on the
  iteration order. A shared buffer is immutable once published, so an \<open>Arc\<close> of one is its value,
  of any type. The settings read once from the environment, \<open>enabled()\<close> and \<open>budget_bytes()\<close>, are
  arguments; the mutex makes every operation one atomic step.
\<close>

definition MAX_CONTEXTS :: nat where "MAX_CONTEXTS = 8"

record packing_geometry =
  filter_height :: nat
  filter_width :: nat
  pg_input_channels :: nat
  pg_output_channels :: nat
  pg_programmed_output_channels :: nat
  element_size :: nat
  pg_depthwise :: bool
  pg_padded_channels :: nat
  pg_weight_zero_point :: "int option"
  scratch_length :: nat

record cache_key =
  key_buffer :: nat
  key_offset :: nat
  key_length :: nat
  key_geometry :: packing_geometry
  key_context :: nat

record 'b cache_entry =
  entry_generation :: nat
  entry_buffer :: 'b
  entry_bytes :: nat

record 'b cache =
  entries :: "(cache_key \<times> 'b cache_entry) list"
  cache_bytes :: nat
  peak_bytes :: nat
  hits :: nat
  misses_absent :: nat
  misses_stale :: nat
  refused_recorded_writer :: nat
  refused_budget :: nat
  copied :: nat

definition empty_cache :: "'b cache" where
  "empty_cache = \<lparr>entries = [], cache_bytes = 0, peak_bytes = 0, hits = 0, misses_absent = 0,
     misses_stale = 0, refused_recorded_writer = 0, refused_budget = 0, copied = 0\<rparr>"

section \<open>Settings\<close>

text \<open>\<open>setting\<close> is the environment variable, the empty string when unset.\<close>

definition cache_enabled :: "string \<Rightarrow> bool" where
  "cache_enabled setting \<longleftrightarrow> setting \<noteq> ''0''"

definition verifying :: "string \<Rightarrow> bool" where
  "verifying setting \<longleftrightarrow> setting = ''verify''"

text \<open>
  The parsed \<open>ROCKET_WEIGHT_CACHE_MB\<close>, if it is set and a number, else 256 MiB per context; the
  multiplication saturates.
\<close>

definition set_contexts :: "nat \<Rightarrow> nat" where
  "set_contexts contexts = max contexts 1"

definition budget_bytes :: "nat option \<Rightarrow> nat \<Rightarrow> nat" where
  "budget_bytes parsed contexts =
     min ((case parsed of Some mb \<Rightarrow> mb | None \<Rightarrow> wrap64 (256 * contexts)) * (1024 * 1024)) (2 ^ 64 - 1)"

section \<open>Operations\<close>

definition cache_lookup :: "bool \<Rightarrow> cache_key \<Rightarrow> nat \<Rightarrow> 'b cache \<Rightarrow> 'b option \<times> 'b cache" where
  "cache_lookup on key generation c =
     (if \<not> on then (None, c)
      else case map_of (entries c) key of
        Some e \<Rightarrow>
          if entry_generation e = generation
          then (Some (entry_buffer e), c\<lparr>hits := wrap64 (hits c + 1)\<rparr>)
          else (None, c\<lparr>entries := AList.delete key (entries c),
                        cache_bytes := saturating_sub (cache_bytes c) (entry_bytes e),
                        misses_stale := wrap64 (misses_stale c + 1)\<rparr>)
      | None \<Rightarrow> (None, c\<lparr>misses_absent := wrap64 (misses_absent c + 1)\<rparr>))"

definition lookup_other_context ::
  "bool \<Rightarrow> cache_key \<Rightarrow> nat \<Rightarrow> 'b cache \<Rightarrow> 'b option \<times> 'b cache" where
  "lookup_other_context on key generation c =
     (if \<not> on then (None, c)
      else let found = find_map (\<lambda>context.
             case map_of (entries c) (key\<lparr>key_context := context\<rparr>) of
               Some e \<Rightarrow> if entry_generation e = generation then Some (entry_buffer e) else None
             | None \<Rightarrow> None)
             (filter (\<lambda>context. context \<noteq> key_context key) [0..<MAX_CONTEXTS])
           in (found, if found \<noteq> None then c\<lparr>copied := wrap64 (copied c + 1)\<rparr> else c))"

definition note_recorded_writer :: "bool \<Rightarrow> 'b cache \<Rightarrow> 'b cache" where
  "note_recorded_writer on c =
     (if \<not> on then c
      else c\<lparr>refused_recorded_writer := wrap64 (refused_recorded_writer c + 1)\<rparr>)"

definition publish ::
  "bool \<Rightarrow> nat \<Rightarrow> cache_key \<Rightarrow> nat \<Rightarrow> 'b \<Rightarrow> nat \<Rightarrow> 'b cache \<Rightarrow> 'b cache" where
  "publish on budget key generation buffer n c =
     (if \<not> on then c
      else let previous = map_of (entries c) key;
               c = c\<lparr>entries := AList.delete key (entries c)\<rparr>;
               c = (case previous of
                      Some e \<Rightarrow> c\<lparr>cache_bytes := saturating_sub (cache_bytes c) (entry_bytes e)\<rparr>
                    | None \<Rightarrow> c)
           in if budget < min (cache_bytes c + n) (2 ^ 64 - 1)
              then c\<lparr>refused_budget := wrap64 (refused_budget c + 1)\<rparr>
              else let held = wrap64 (cache_bytes c + n)
                   in c\<lparr>cache_bytes := held, peak_bytes := max (peak_bytes c) held,
                        entries := (key, \<lparr>entry_generation = generation, entry_buffer = buffer,
                                          entry_bytes = n\<rparr>) # entries c\<rparr>)"

definition forget :: "bool \<Rightarrow> nat \<Rightarrow> 'b cache \<Rightarrow> 'b cache" where
  "forget on address c =
     (if \<not> on then c
      else let freed = wrap64 (sum_list (map (\<lambda>(k, e). entry_bytes e)
                         (filter (\<lambda>(k, e). key_buffer k = address) (entries c))))
           in c\<lparr>entries := filter (\<lambda>(k, e). key_buffer k \<noteq> address) (entries c),
                cache_bytes := saturating_sub (cache_bytes c) freed\<rparr>)"

definition clear_cache :: "'b cache \<Rightarrow> 'b cache" where
  "clear_cache c = c\<lparr>entries := [], cache_bytes := 0\<rparr>"

text \<open>\<open>Generation\<close>: the write counter of one buffer.\<close>

definition bump :: "nat \<Rightarrow> nat" where
  "bump generation = wrap64 (generation + 1)"

section \<open>What each operation does to a lookup\<close>

definition packing_at :: "'b cache \<Rightarrow> cache_key \<Rightarrow> (nat \<times> 'b) option" where
  "packing_at c key = map_option (\<lambda>e. (entry_generation e, entry_buffer e)) (map_of (entries c) key)"

lemma map_of_filter_key:
  "map_of (filter (\<lambda>(k, e). P k) es) key = (if P key then map_of es key else None)"
  by (induction es) auto

lemma lookup_hit:
  "fst (cache_lookup on key g c) = Some b \<Longrightarrow> packing_at c key = Some (g, b)"
  by (auto simp: cache_lookup_def packing_at_def split: if_splits option.splits)

lemma packing_at_lookup:
  "packing_at (snd (cache_lookup on key g c)) key' = packing_at c key'
   \<or> packing_at (snd (cache_lookup on key g c)) key' = None"
  by (auto simp: cache_lookup_def packing_at_def AList.delete_conv' split: option.splits)

lemma packing_at_publish:
  "packing_at (publish on budget key g b n c) key' \<in>
     {packing_at c key', None} \<union> (if key' = key then {Some (g, b)} else {})"
  by (auto simp: publish_def packing_at_def Let_def AList.delete_conv' split: option.splits)

lemma packing_at_forget:
  "packing_at (forget True address c) key =
     (if key_buffer key = address then None else packing_at c key)"
  by (simp add: forget_def packing_at_def Let_def map_of_filter_key)

lemma lookup_other_hit:
  assumes "fst (lookup_other_context on key g c) = Some b"
  shows "\<exists>x. packing_at c (key\<lparr>key_context := x\<rparr>) = Some (g, b)"
proof -
  from assms have "find_map (\<lambda>context.
      case map_of (entries c) (key\<lparr>key_context := context\<rparr>) of
        Some e \<Rightarrow> if entry_generation e = g then Some (entry_buffer e) else None
      | None \<Rightarrow> None) (filter (\<lambda>context. context \<noteq> key_context key) [0..<MAX_CONTEXTS]) = Some b"
    by (simp add: lookup_other_context_def Let_def split: if_splits)
  from find_map_SomeD [OF this] show ?thesis
    by (fastforce simp: packing_at_def split: option.splits if_splits)
qed

lemma entries_lookup_other [simp]: "entries (snd (lookup_other_context on key g c)) = entries c"
  by (simp add: lookup_other_context_def Let_def)

section \<open>Byte accounting\<close>

definition resident :: "(cache_key \<times> 'b cache_entry) list \<Rightarrow> nat" where
  "resident es = sum_list (map (\<lambda>(k, e). entry_bytes e) es)"

text \<open>One entry per key; the byte count is that of the entries, within budget and peak.\<close>

definition cache_ok :: "nat \<Rightarrow> 'b cache \<Rightarrow> bool" where
  "cache_ok budget c \<longleftrightarrow> distinct (map fst (entries c)) \<and> cache_bytes c = resident (entries c)
     \<and> cache_bytes c \<le> budget \<and> cache_bytes c \<le> peak_bytes c \<and> peak_bytes c \<le> budget"

lemma resident_delete:
  "distinct (map fst es) \<Longrightarrow> map_of es key = Some e \<Longrightarrow>
   resident (AList.delete key es) = resident es - entry_bytes e \<and> entry_bytes e \<le> resident es"
proof (induction es)
  case (Cons p es)
  obtain k x where p: "p = (k, x)" by (cases p)
  show ?case
  proof (cases "k = key")
    case True
    then have "AList.delete key es = es" using Cons.prems by (simp add: p AList.delete_id)
    with True Cons.prems show ?thesis by (simp add: p resident_def)
  next
    case False
    with Cons show ?thesis by (auto simp: p resident_def)
  qed
qed simp

lemma resident_filter: "resident (filter P es) = resident es - resident (filter (\<lambda>x. \<not> P x) es)"
  "resident (filter P es) \<le> resident es"
proof -
  have "resident es = resident (filter P es) + resident (filter (\<lambda>x. \<not> P x) es)"
    by (induction es) (auto simp: resident_def)
  then show "resident (filter P es) = resident es - resident (filter (\<lambda>x. \<not> P x) es)"
    "resident (filter P es) \<le> resident es" by simp_all
qed

lemma delete_ok:
  assumes ok: "cache_ok budget c" and e: "map_of (entries c) key = Some e"
  shows "cache_ok budget (c\<lparr>entries := AList.delete key (entries c),
            cache_bytes := saturating_sub (cache_bytes c) (entry_bytes e)\<rparr>)"
proof -
  from ok have d: "distinct (map fst (entries c))" by (simp add: cache_ok_def)
  from resident_delete [OF d e] ok show ?thesis
    by (auto simp: cache_ok_def saturating_sub_def AList.distinct_delete)
qed

end
