(* ===== verification/CacheProperties.thy ===== *)
theory CacheProperties
  imports WeightCache
begin

text \<open>
  When a cached packing may be used. The driver's use of the cache
  (\<open>stage_weights\<close>, \<open>build_replicas\<close> and \<open>apply_ops\<close> in \<open>command_buffer.rs\<close>, \<open>note_write\<close> in
  \<open>buffer.rs\<close>, \<open>destroy\<close> there and in \<open>device.rs\<close>) is a step relation over the live buffers, the
  cache, and the work recorded but not yet executed: every place that looks up or publishes a
  packing is a step, the replicas of a fanned-out dispatch included. A hit is exact in every
  reachable state in which no buffer was written while a copy of its packing was outstanding.
  Without that condition a copy, staged or fanned out, is published under a generation it was not
  packed at.
\<close>

record source =
  source_bytes :: "byte list"
  source_generation :: nat

type_synonym packer = "packing_geometry \<Rightarrow> byte list \<Rightarrow> byte list"

definition packed_of :: "packer \<Rightarrow> cache_key \<Rightarrow> source \<Rightarrow> byte list" where
  "packed_of pk key s =
     pk (key_geometry key) (take (key_length key) (drop (key_offset key) (source_bytes s)))"

section \<open>The contract of a packing store\<close>

text \<open>
  \<open>exact\<close>: a stored packing belongs to a live buffer, is no newer than it, and when its generation
  is the buffer's it is what packing the buffer now would give.
\<close>

definition exact ::
  "packer \<Rightarrow> (nat \<rightharpoonup> source) \<Rightarrow> (cache_key \<Rightarrow> (nat \<times> byte list) option) \<Rightarrow> bool" where
  "exact pk live found \<longleftrightarrow> (\<forall>key g b. found key = Some (g, b) \<longrightarrow>
     (\<exists>s. live (key_buffer key) = Some s \<and> g \<le> source_generation s
        \<and> (g = source_generation s \<longrightarrow> b = packed_of pk key s)))"

lemma exactD:
  "exact pk live found \<Longrightarrow> found key = Some (g, b) \<Longrightarrow>
   \<exists>s. live (key_buffer key) = Some s \<and> g \<le> source_generation s
     \<and> (g = source_generation s \<longrightarrow> b = packed_of pk key s)"
  unfolding exact_def by blast

locale packing_store =
  fixes found :: "'c \<Rightarrow> cache_key \<Rightarrow> (nat \<times> byte list) option"
    and look :: "cache_key \<Rightarrow> nat \<Rightarrow> 'c \<Rightarrow> 'c"
    and put :: "cache_key \<Rightarrow> nat \<Rightarrow> byte list \<Rightarrow> nat \<Rightarrow> 'c \<Rightarrow> 'c"
    and evict :: "nat \<Rightarrow> 'c \<Rightarrow> 'c"
  assumes found_look: "found (look key g c) k = found c k \<or> found (look key g c) k = None"
    and found_put: "found (put key g b n c) k \<in> {found c k, None} \<union> (if k = key then {Some (g, b)} else {})"
    and found_evict: "found (evict a c) k = (if key_buffer k = a then None else found c k)"
begin

lemma exact_look:
  assumes "exact pk live (found c)"
  shows "exact pk live (found (look key g c))"
proof -
  have "found (look key g c) k = Some p \<Longrightarrow> found c k = Some p" for k p
    using found_look [of key g c k] by auto
  with assms show ?thesis unfolding exact_def by blast
qed

lemma exact_put:
  assumes "exact pk live (found c)" and "live (key_buffer key) = Some s" "g \<le> source_generation s"
    and "g = source_generation s \<Longrightarrow> b = packed_of pk key s"
  shows "exact pk live (found (put key g b n c))"
proof -
  have "found c k = Some p \<or> k = key \<and> p = (g, b)" if "found (put key g b n c) k = Some p" for k p
    using that found_put [of key g b n c k] by (auto split: if_splits)
  with assms show ?thesis unfolding exact_def by (metis prod.inject)
qed

lemma exact_evict:
  assumes "exact pk live (found c)"
  shows "exact pk (live(a := None)) (found (evict a c))"
  using assms by (auto simp: exact_def found_evict split: if_splits)

end

text \<open>Writing moves the generation past every packing; a buffer at a fresh address has none.\<close>

lemma exact_write:
  assumes "exact pk live found" and "live a = Some s" and "source_generation s < 2 ^ 64 - 1"
  shows "exact pk (live(a \<mapsto> \<lparr>source_bytes = bs, source_generation = bump (source_generation s)\<rparr>)) found"
  unfolding exact_def
proof (intro allI impI)
  fix key g b
  assume "found key = Some (g, b)"
  from exactD [OF assms(1) this] assms(2,3)
  show "\<exists>t. (live(a \<mapsto> \<lparr>source_bytes = bs, source_generation = bump (source_generation s)\<rparr>)) (key_buffer key) = Some t
      \<and> g \<le> source_generation t \<and> (g = source_generation t \<longrightarrow> b = packed_of pk key t)"
    by (auto simp: bump_def)
qed

lemma exact_create:
  assumes "exact pk live found" and "live a = None"
  shows "exact pk (live(a \<mapsto> s)) found"
  unfolding exact_def
proof (intro allI impI)
  fix key g b
  assume "found key = Some (g, b)"
  from exactD [OF assms(1) this] assms(2)
  show "\<exists>t. (live(a \<mapsto> s)) (key_buffer key) = Some t
      \<and> g \<le> source_generation t \<and> (g = source_generation t \<longrightarrow> b = packed_of pk key t)"
    by auto
qed

interpretation cached: packing_store packing_at "\<lambda>key g c. snd (cache_lookup True key g c)"
    "publish True budget" "forget True" for budget
  by (unfold_locales; rule packing_at_lookup packing_at_publish packing_at_forget)

section \<open>The driver over the cache\<close>

text \<open>
  \<open>packings\<close>: dispatches that have read the generation and are packing, with the sibling contexts
  they fan out to. \<open>copies\<close>: packed bytes a recorded or executing dispatch will copy to the context of
  the key, each time it is executed. \<open>landing\<close>: copies that have read the generation they will be
  published under.
\<close>

record world =
  live :: "nat \<rightharpoonup> source"
  store :: "byte list cache"
  packings :: "(cache_key \<times> nat \<times> nat list) set"
  copies :: "(cache_key \<times> byte list) set"
  landing :: "(cache_key \<times> nat \<times> byte list) set"

definition held :: "world \<Rightarrow> nat \<Rightarrow> bool" where
  "held w a \<longleftrightarrow> (\<exists>(key, g, xs) \<in> packings w. key_buffer key = a) \<or> (\<exists>(key, b) \<in> copies w. key_buffer key = a)
     \<or> (\<exists>(key, g, b) \<in> landing w. key_buffer key = a)"

text \<open>A copy of a buffer's packing is outstanding: recorded, or the packing it will be taken from runs.\<close>

definition copy_pending :: "world \<Rightarrow> nat \<Rightarrow> bool" where
  "copy_pending w a \<longleftrightarrow> (\<exists>(key, b) \<in> copies w. key_buffer key = a)
     \<or> (\<exists>(key, g, xs) \<in> packings w. xs \<noteq> [] \<and> key_buffer key = a)"

text \<open>The replicas of a dispatch with packed bytes \<open>b\<close>, on the contexts \<open>xs\<close>.\<close>

definition fan_out :: "cache_key \<Rightarrow> byte list \<Rightarrow> nat list \<Rightarrow> (cache_key \<times> byte list) set" where
  "fan_out key b xs = (\<lambda>x. (key\<lparr>key_context := x\<rparr>, b)) ` set xs"

text \<open>
  A write bumps the counter (the 64-bit counter never wraps within a run); with \<open>quiet\<close> it does not
  hit a buffer of which a copy is outstanding, nor come between a dispatch's reading of the
  generation and the lookup at it. A dispatch retains its bindings, so a buffer is not destroyed
  while one is recorded. A packing that raced with a write is any bytes, published under the
  generation read before it began. A replica of a home hit, of a home copy and of a home packing
  reads the generation when it is executed, after its bytes were settled. A command buffer may be
  executed any number of times before it is released.
\<close>

inductive driver_step :: "bool \<Rightarrow> nat \<Rightarrow> packer \<Rightarrow> world \<Rightarrow> world \<Rightarrow> bool"
  for quiet budget pk where
  create: "live w a = None \<Longrightarrow> driver_step quiet budget pk w
     (w\<lparr>live := (live w)(a \<mapsto> \<lparr>source_bytes = bs, source_generation = 0\<rparr>)\<rparr>)"
| note_write: "live w a = Some s \<Longrightarrow> source_generation s < 2 ^ 64 - 1 \<Longrightarrow>
     quiet \<longrightarrow> \<not> copy_pending w a \<Longrightarrow> driver_step quiet budget pk w
     (w\<lparr>live := (live w)(a \<mapsto> \<lparr>source_bytes = bs, source_generation = bump (source_generation s)\<rparr>)\<rparr>)"
| destroy: "live w a = Some s \<Longrightarrow> \<not> held w a \<Longrightarrow> driver_step quiet budget pk w
     (w\<lparr>live := (live w)(a := None), store := forget True a (store w)\<rparr>)"
| clear_all: "driver_step quiet budget pk w (w\<lparr>store := clear_cache (store w)\<rparr>)"
| look_up: "live w (key_buffer key) = Some s \<Longrightarrow> g \<le> source_generation s \<Longrightarrow> driver_step quiet budget pk w
     (w\<lparr>store := snd (cache_lookup True key g (store w))\<rparr>)"
| recorded_writer: "driver_step quiet budget pk w (w\<lparr>store := note_recorded_writer True (store w)\<rparr>)"
| home_hit: "live w (key_buffer key) = Some s \<Longrightarrow> g \<le> source_generation s \<Longrightarrow>
     quiet \<longrightarrow> g = source_generation s \<Longrightarrow> cache_lookup True key g (store w) = (Some b, c) \<Longrightarrow>
     driver_step quiet budget pk w (w\<lparr>store := c, copies := fan_out key b xs \<union> copies w\<rparr>)"
| begin_copy: "live w (key_buffer key) = Some s \<Longrightarrow> g \<le> source_generation s \<Longrightarrow>
     quiet \<longrightarrow> g = source_generation s \<Longrightarrow> lookup_other_context True key g (store w) = (Some b, c) \<Longrightarrow>
     driver_step quiet budget pk w (w\<lparr>store := c, copies := fan_out key b (key_context key # xs) \<union> copies w\<rparr>)"
| land_copy: "(key, b) \<in> copies w \<Longrightarrow> live w (key_buffer key) = Some s \<Longrightarrow>
     driver_step quiet budget pk w (w\<lparr>landing := insert (key, source_generation s, b) (landing w)\<rparr>)"
| finish_copy: "(key, g, b) \<in> landing w \<Longrightarrow> driver_step quiet budget pk w
     (w\<lparr>store := publish True budget key g b n (store w), landing := landing w - {(key, g, b)}\<rparr>)"
| release: "driver_step quiet budget pk w (w\<lparr>copies := copies w - {(key, b)}\<rparr>)"
| begin_pack: "live w (key_buffer key) = Some s \<Longrightarrow> driver_step quiet budget pk w
     (w\<lparr>packings := insert (key, source_generation s, xs) (packings w)\<rparr>)"
| finish_pack: "(key, g, xs) \<in> packings w \<Longrightarrow> live w (key_buffer key) = Some s \<Longrightarrow>
     source_generation s = g \<longrightarrow> b = packed_of pk key s \<Longrightarrow> driver_step quiet budget pk w
     (w\<lparr>store := publish True budget key g b n (store w), packings := packings w - {(key, g, xs)},
        copies := fan_out key b xs \<union> copies w\<rparr>)"

definition boot :: world where
  "boot = \<lparr>live = (\<lambda>_. None), store = empty_cache, packings = {}, copies = {}, landing = {}\<rparr>"

definition reaches :: "bool \<Rightarrow> nat \<Rightarrow> packer \<Rightarrow> world \<Rightarrow> bool" where
  "reaches quiet budget pk = (driver_step quiet budget pk)\<^sup>*\<^sup>* boot"

section \<open>Hits are exact\<close>

text \<open>What is known of a packing under way, of a copy still to be made and of one about to be published.\<close>

definition packing_sound :: "(nat \<rightharpoonup> source) \<Rightarrow> cache_key \<times> nat \<times> nat list \<Rightarrow> bool" where
  "packing_sound l = (\<lambda>(key, g, xs). \<exists>s. l (key_buffer key) = Some s \<and> g \<le> source_generation s
     \<and> (xs \<noteq> [] \<longrightarrow> g = source_generation s))"

definition copy_sound :: "packer \<Rightarrow> (nat \<rightharpoonup> source) \<Rightarrow> cache_key \<times> byte list \<Rightarrow> bool" where
  "copy_sound pk l = (\<lambda>(key, b). \<exists>s. l (key_buffer key) = Some s \<and> b = packed_of pk key s)"

definition landing_sound :: "packer \<Rightarrow> (nat \<rightharpoonup> source) \<Rightarrow> cache_key \<times> nat \<times> byte list \<Rightarrow> bool" where
  "landing_sound pk l = (\<lambda>(key, g, b). \<exists>s. l (key_buffer key) = Some s \<and> g \<le> source_generation s
     \<and> (g = source_generation s \<longrightarrow> b = packed_of pk key s))"

lemmas in_flight_defs = packing_sound_def copy_sound_def landing_sound_def

definition sound :: "packer \<Rightarrow> world \<Rightarrow> bool" where
  "sound pk w \<longleftrightarrow> exact pk (live w) (packing_at (store w)) \<and> (\<forall>p \<in> packings w. packing_sound (live w) p)
     \<and> (\<forall>p \<in> copies w. copy_sound pk (live w) p) \<and> (\<forall>p \<in> landing w. landing_sound pk (live w) p)"

lemma packing_at_entries:
  "entries c = entries c' \<Longrightarrow> packing_at c = packing_at c'"
  by (auto simp: packing_at_def fun_eq_iff)

lemma packed_of_context [simp]: "packed_of pk (key\<lparr>key_context := x\<rparr>) s = packed_of pk key s"
  by (simp add: packed_of_def)

lemma fan_out_sound:
  "l (key_buffer key) = Some s \<Longrightarrow> b = packed_of pk key s \<Longrightarrow> p \<in> fan_out key b xs \<Longrightarrow> copy_sound pk l p"
  by (auto simp: fan_out_def copy_sound_def)

text \<open>Creating a buffer at a fresh address, and writing one, as seen by the work in flight.\<close>

lemma in_flight_create:
  assumes "l a = None"
  shows "packing_sound l p \<Longrightarrow> packing_sound (l(a \<mapsto> s)) p"
    and "copy_sound pk l c \<Longrightarrow> copy_sound pk (l(a \<mapsto> s)) c"
    and "landing_sound pk l d \<Longrightarrow> landing_sound pk (l(a \<mapsto> s)) d"
  using assms by (auto simp: in_flight_defs split: prod.splits)

lemma in_flight_write:
  assumes "l a = Some s" and "source_generation t = source_generation s + 1"
  shows "packing_sound l (key, g, xs) \<Longrightarrow> xs = [] \<or> key_buffer key \<noteq> a \<Longrightarrow> packing_sound (l(a \<mapsto> t)) (key, g, xs)"
    and "copy_sound pk l (key, b) \<Longrightarrow> key_buffer key \<noteq> a \<Longrightarrow> copy_sound pk (l(a \<mapsto> t)) (key, b)"
    and "landing_sound pk l (key, g, b) \<Longrightarrow> landing_sound pk (l(a \<mapsto> t)) (key, g, b)"
  using assms by (cases "key_buffer key = a"; auto simp: in_flight_defs)+

lemma in_flight_destroy:
  "packing_sound l (key, g, xs) \<Longrightarrow> key_buffer key \<noteq> a \<Longrightarrow> packing_sound (l(a := None)) (key, g, xs)"
  "copy_sound pk l (key, b) \<Longrightarrow> key_buffer key \<noteq> a \<Longrightarrow> copy_sound pk (l(a := None)) (key, b)"
  "landing_sound pk l (key, g, b) \<Longrightarrow> key_buffer key \<noteq> a \<Longrightarrow> landing_sound pk (l(a := None)) (key, g, b)"
  by (simp_all add: in_flight_defs)

lemma write_sound:
  assumes "sound pk w" and a: "live w a = Some s" and g: "source_generation s < 2 ^ 64 - 1"
    and quiet: "\<not> copy_pending w a"
  shows "sound pk (w\<lparr>live := (live w)(a \<mapsto> \<lparr>source_bytes = bs, source_generation = bump (source_generation s)\<rparr>)\<rparr>)"
proof -
  let ?t = "\<lparr>source_bytes = bs, source_generation = bump (source_generation s)\<rparr>"
  have t: "source_generation ?t = source_generation s + 1" using g by (simp add: bump_def)
  note w = in_flight_write [of "live w", OF a t]
  have "packing_sound ((live w)(a \<mapsto> ?t)) (key, g', xs)" if "(key, g', xs) \<in> packings w" for key g' xs
  proof (rule w(1))
    show "packing_sound (live w) (key, g', xs)" using that assms(1) by (simp add: sound_def)
    show "xs = [] \<or> key_buffer key \<noteq> a" using that quiet by (auto simp: copy_pending_def)
  qed
  moreover have "copy_sound pk ((live w)(a \<mapsto> ?t)) (key, b)" if "(key, b) \<in> copies w" for key b
  proof (rule w(2))
    show "copy_sound pk (live w) (key, b)" using that assms(1) by (simp add: sound_def)
    show "key_buffer key \<noteq> a" using that quiet by (auto simp: copy_pending_def)
  qed
  moreover have "landing_sound pk ((live w)(a \<mapsto> ?t)) (key, g', b)" if "(key, g', b) \<in> landing w" for key g' b
    using that assms(1) by (intro w(3)) (simp add: sound_def)
  ultimately show ?thesis
    using exact_write [of pk "live w" "packing_at (store w)" a s bs] assms(1) a g by (auto simp: sound_def)
qed

lemma destroy_sound:
  assumes "sound pk w" and free: "\<not> held w a"
  shows "sound pk (w\<lparr>live := (live w)(a := None), store := forget True a (store w)\<rparr>)"
proof -
  have "packing_sound ((live w)(a := None)) (key, g, xs)" if "(key, g, xs) \<in> packings w" for key g xs
    using that assms by (intro in_flight_destroy(1)) (auto simp: sound_def held_def)
  moreover have "copy_sound pk ((live w)(a := None)) (key, b)" if "(key, b) \<in> copies w" for key b
    using that assms by (intro in_flight_destroy(2)) (auto simp: sound_def held_def)
  moreover have "landing_sound pk ((live w)(a := None)) (key, g, b)" if "(key, g, b) \<in> landing w" for key g b
    using that assms by (intro in_flight_destroy(3)) (auto simp: sound_def held_def)
  ultimately show ?thesis
    using cached.exact_evict [of pk "live w" "store w" a] assms(1) by (auto simp: sound_def)
qed

lemma step_sound:
  assumes "driver_step True budget pk w w'" and ok: "sound pk w"
  shows "sound pk w'"
  using assms(1)
proof (cases rule: driver_step.cases)
  case (create a bs)
  with ok exact_create [of pk "live w" "packing_at (store w)" a] show ?thesis
    by (simp add: sound_def in_flight_create)
next
  case (note_write a s bs)
  with write_sound [OF ok] show ?thesis by simp
next
  case (destroy a s)
  with destroy_sound [OF ok] show ?thesis by simp
next
  case clear_all
  with ok show ?thesis by (simp add: sound_def exact_def packing_at_def clear_cache_def)
next
  case (look_up key s g)
  with ok cached.exact_look [of pk "live w" "store w" key g] show ?thesis by (simp add: sound_def)
next
  case recorded_writer
  with ok packing_at_entries [of "store w" "note_recorded_writer True (store w)"] show ?thesis
    by (simp add: sound_def note_recorded_writer_def)
next
  case (home_hit key s g b c xs)
  then have c: "c = snd (cache_lookup True key g (store w))" by simp
  from home_hit lookup_hit [of True key g "store w" b]
  have "packing_at (store w) key = Some (source_generation s, b)" by simp
  with exactD [of pk "live w" "packing_at (store w)"] ok home_hit(2)
  have "b = packed_of pk key s" by (fastforce simp: sound_def)
  with fan_out_sound [of "live w" key s b pk _ xs] home_hit(2) ok
    cached.exact_look [of pk "live w" "store w" key g]
  show ?thesis unfolding home_hit(1) c by (auto simp: sound_def)
next
  case (begin_copy key s g b c xs)
  then have "c = snd (lookup_other_context True key g (store w))" by simp
  then have same: "packing_at c = packing_at (store w)"
    by (intro packing_at_entries) (simp only: entries_lookup_other)
  from begin_copy lookup_other_hit [of True key g "store w" b]
  obtain x where "packing_at (store w) (key\<lparr>key_context := x\<rparr>) = Some (source_generation s, b)" by auto
  with exactD [of pk "live w" "packing_at (store w)"] ok begin_copy(2)
  have "b = packed_of pk key s" by (fastforce simp: sound_def)
  with fan_out_sound [of "live w" key s b pk _ "key_context key # xs"] begin_copy(2) ok
  show ?thesis unfolding begin_copy(1) by (auto simp: sound_def same)
next
  case (land_copy key b s)
  then have "copy_sound pk (live w) (key, b)" using ok by (simp add: sound_def)
  with land_copy(3) have "landing_sound pk (live w) (key, source_generation s, b)"
    by (auto simp: in_flight_defs)
  with land_copy(1) ok show ?thesis by (simp add: sound_def)
next
  case (finish_copy key g b n)
  then have "landing_sound pk (live w) (key, g, b)" using ok by (simp add: sound_def)
  then obtain s where "live w (key_buffer key) = Some s" "g \<le> source_generation s"
    "g = source_generation s \<longrightarrow> b = packed_of pk key s" by (auto simp: landing_sound_def)
  with finish_copy(1) ok cached.exact_put [of pk "live w" "store w" key s g b budget n]
  show ?thesis by (simp add: sound_def)
next
  case (release key b)
  with ok show ?thesis by (simp add: sound_def)
next
  case (begin_pack key s xs)
  then have "packing_sound (live w) (key, source_generation s, xs)" by (simp add: packing_sound_def)
  with begin_pack(1) ok show ?thesis by (simp add: sound_def)
next
  case (finish_pack key g xs s b n)
  then have "packing_sound (live w) (key, g, xs)" using ok by (simp add: sound_def)
  with finish_pack(3) have g: "g \<le> source_generation s" "xs \<noteq> [] \<longrightarrow> g = source_generation s"
    by (auto simp: packing_sound_def)
  have "copy_sound pk (live w) p" if "p \<in> fan_out key b xs" for p
  proof -
    have "xs \<noteq> []" using that by (auto simp: fan_out_def)
    with g(2) finish_pack(4) fan_out_sound [of "live w", OF finish_pack(3) _ that] show ?thesis by simp
  qed
  with finish_pack(1,3,4) g(1) ok cached.exact_put [of pk "live w" "store w" key s g b budget n]
  show ?thesis by (auto simp: sound_def)
qed

lemma reaches_sound: "reaches True budget pk w \<Longrightarrow> sound pk w"
  unfolding reaches_def
proof (induction rule: rtranclp_induct)
  case base
  show ?case by (simp add: sound_def boot_def exact_def packing_at_def empty_cache_def)
next
  case (step w w')
  then show ?case by (blast intro: step_sound)
qed

section \<open>A small run, and a copy over an intervening write\<close>

definition small_key :: "nat \<Rightarrow> cache_key" where
  "small_key context = \<lparr>key_buffer = 64, key_offset = 0, key_length = 2,
     key_geometry = \<lparr>filter_height = 1, filter_width = 1, pg_input_channels = 1, pg_output_channels = 2,
       pg_programmed_output_channels = 2, element_size = 1, pg_depthwise = False, pg_padded_channels = 16,
       pg_weight_zero_point = None, scratch_length = 2\<rparr>, key_context = context\<rparr>"

definition raw_packer :: packer where "raw_packer = (\<lambda>_ bs. bs)"

definition held_by :: "nat \<Rightarrow> byte list \<Rightarrow> byte list cache_entry" where
  "held_by g bs = \<lparr>entry_generation = g, entry_buffer = bs, entry_bytes = 2\<rparr>"

definition world_at :: "byte list \<Rightarrow> nat \<Rightarrow> byte list cache \<Rightarrow> (cache_key \<times> nat \<times> nat list) set
    \<Rightarrow> (cache_key \<times> byte list) set \<Rightarrow> (cache_key \<times> nat \<times> byte list) set \<Rightarrow> world" where
  "world_at bs g c ps cs ls =
     \<lparr>live = (\<lambda>_. None)(64 \<mapsto> \<lparr>source_bytes = bs, source_generation = g\<rparr>), store = c, packings = ps,
       copies = cs, landing = ls\<rparr>"

lemma small_keys [simp]: "key_buffer (small_key x) = 64" "small_key x = small_key y \<longleftrightarrow> x = y"
  "(small_key x)\<lparr>key_context := y\<rparr> = small_key y" "key_context (small_key x) = x"
  by (auto simp: small_key_def)

definition once_packed :: "byte list cache" where
  "once_packed = publish True 1024 (small_key 0) 0 [7, 8] 2 empty_cache"

lemma once_packed_other:
  "lookup_other_context True (small_key 1) 0 once_packed = (Some [7, 8], once_packed\<lparr>copied := 1\<rparr>)"
  by (simp add: lookup_other_context_def once_packed_def publish_def empty_cache_def MAX_CONTEXTS_def
      upt_rec)

lemma packed_run: "reaches quiet 1024 raw_packer (world_at [7, 8] 0 once_packed {} {} {})"
proof -
  let ?S = "driver_step quiet 1024 raw_packer" and ?w = "world_at [7, 8] 0"
  have 1: "?S boot (?w empty_cache {} {} {})"
    using driver_step.create [of boot 64 quiet 1024 raw_packer "[7, 8]"] by (simp add: boot_def world_at_def)
  have 2: "?S (?w empty_cache {} {} {}) (?w empty_cache {(small_key 0, 0, [])} {} {})"
    using driver_step.begin_pack [of "?w empty_cache {} {} {}" "small_key 0" _ quiet 1024 raw_packer "[]"]
    by (simp add: world_at_def)
  have 3: "?S (?w empty_cache {(small_key 0, 0, [])} {} {}) (?w once_packed {} {} {})"
    using driver_step.finish_pack [of "small_key 0" 0 "[]" "?w empty_cache {(small_key 0, 0, [])} {} {}" _ "[7, 8]" raw_packer quiet 1024 2]
    by (simp add: world_at_def once_packed_def packed_of_def raw_packer_def small_key_def fan_out_def)
  show ?thesis
    unfolding reaches_def
    by (rule rtranclp.rtrancl_into_rtrancl [OF rtranclp.rtrancl_into_rtrancl [OF
          r_into_rtranclp [of ?S, OF 1] 2] 3])
qed

text \<open>A copy of \<open>[7, 8]\<close> held for context 1 while the buffer becomes \<open>[9, 9]\<close>, executed and released.\<close>

definition republished :: "byte list cache \<Rightarrow> byte list cache" where
  "republished c = publish True 1024 (small_key 1) 1 [7, 8] 2 c"

lemma overwritten_copy_run:
  assumes "reaches False 1024 raw_packer (world_at [7, 8] 0 c {} {(small_key 1, [7, 8])} {})"
  shows "reaches False 1024 raw_packer (world_at [9, 9] 1 (republished c) {} {} {})"
proof -
  let ?S = "driver_step False 1024 raw_packer" and ?w = "world_at [7, 8] 0" and ?v = "world_at [9, 9] 1"
  let ?cs = "{(small_key 1, [7, 8])}" and ?ls = "{(small_key 1, 1, [7, 8])}"
  have 1: "?S (?w c {} ?cs {}) (?v c {} ?cs {})"
    using driver_step.note_write [of "?w c {} ?cs {}" 64 _ False 1024 raw_packer "[9, 9]"]
    by (simp add: world_at_def bump_def)
  have 2: "?S (?v c {} ?cs {}) (?v c {} ?cs ?ls)"
    using driver_step.land_copy [of "small_key 1" "[7, 8]" "?v c {} ?cs {}" _ False 1024 raw_packer]
    by (simp add: world_at_def)
  have 3: "?S (?v c {} ?cs ?ls) (?v (republished c) {} ?cs {})"
    using driver_step.finish_copy [of "small_key 1" 1 "[7, 8]" "?v c {} ?cs ?ls" False 1024 raw_packer 2]
    by (simp add: world_at_def republished_def)
  have 4: "?S (?v (republished c) {} ?cs {}) (?v (republished c) {} {} {})"
    using driver_step.release [of False 1024 raw_packer "?v (republished c) {} ?cs {}" "small_key 1" "[7, 8]"]
    by (simp add: world_at_def)
  show ?thesis
    unfolding reaches_def
    by (rule rtranclp.rtrancl_into_rtrancl [OF rtranclp.rtrancl_into_rtrancl [OF rtranclp.rtrancl_into_rtrancl
          [OF rtranclp.rtrancl_into_rtrancl [OF assms [unfolded reaches_def] 1] 2] 3] 4])
qed

lemma stale_run:
  "reaches False 1024 raw_packer (world_at [9, 9] 1 (republished (once_packed\<lparr>copied := 1\<rparr>)) {} {} {})"
proof -
  have "driver_step False 1024 raw_packer (world_at [7, 8] 0 once_packed {} {} {})
      (world_at [7, 8] 0 (once_packed\<lparr>copied := 1\<rparr>) {} {(small_key 1, [7, 8])} {})"
    using driver_step.begin_copy [of "world_at [7, 8] 0 once_packed {} {} {}" "small_key 1" _ 0 False "[7, 8]" _ 1024 raw_packer "[]"] once_packed_other
    by (simp add: world_at_def fan_out_def)
  from rtranclp.rtrancl_into_rtrancl [OF packed_run [unfolded reaches_def] this]
  show ?thesis by (intro overwritten_copy_run) (simp add: reaches_def)
qed

lemma stale_fan_out_run:
  "reaches False 1024 raw_packer (world_at [9, 9] 1 (republished (once_packed\<lparr>hits := 1\<rparr>)) {} {} {})"
proof -
  have "cache_lookup True (small_key 0) 0 once_packed = (Some [7, 8], once_packed\<lparr>hits := 1\<rparr>)"
    by (simp add: cache_lookup_def once_packed_def publish_def empty_cache_def)
  then have "driver_step False 1024 raw_packer (world_at [7, 8] 0 once_packed {} {} {})
      (world_at [7, 8] 0 (once_packed\<lparr>hits := 1\<rparr>) {} {(small_key 1, [7, 8])} {})"
    using driver_step.home_hit [of "world_at [7, 8] 0 once_packed {} {} {}" "small_key 0" _ 0 False "[7, 8]" _ 1024 raw_packer "[1]"]
    by (simp add: world_at_def fan_out_def)
  from rtranclp.rtrancl_into_rtrancl [OF packed_run [unfolded reaches_def] this]
  show ?thesis by (intro overwritten_copy_run) (simp add: reaches_def)
qed

text \<open>
  C31 (safety): whatever the driver has done since it started, as long as no buffer is written
  while a copy of its packing is outstanding (from the recording of a dispatch that copies a cached
  packing to its own or a sibling context, or from the start of a packing that is fanned out, until
  the copy is released, and between a generation and the lookup at it), a cache hit at a buffer's
  current generation, on the dispatch's context or another, is exactly what packing the buffer's
  present contents would give.
\<close>

theorem cache_hits_are_exact:
  assumes "reaches True budget pk w" and "live w (key_buffer key) = Some s"
    and "fst (cache_lookup True key (source_generation s) (store w)) = Some b
       \<or> fst (lookup_other_context True key (source_generation s) (store w)) = Some b"
  shows "b = packed_of pk key s"
proof -
  have ex: "exact pk (live w) (packing_at (store w))"
    using reaches_sound [OF assms(1)] by (simp add: sound_def)
  obtain x where "packing_at (store w) (key\<lparr>key_context := x\<rparr>) = Some (source_generation s, b)"
  proof (cases "fst (cache_lookup True key (source_generation s) (store w)) = Some b")
    case True
    from lookup_hit [OF this] that [of "key_context key"] show thesis by simp
  next
    case False
    with assms(3) have "fst (lookup_other_context True key (source_generation s) (store w)) = Some b" by simp
    from lookup_other_hit [OF this] that show thesis by blast
  qed
  with exactD [OF ex] assms(2) show ?thesis by (fastforce simp: packed_of_def)
qed

theorem cache_hits_are_exact_witness:
  "fst (cache_lookup True (small_key 0) 0 once_packed) = Some [7, 8]
   \<and> packed_of raw_packer (small_key 0) \<lparr>source_bytes = [7, 8], source_generation = 0\<rparr> = [7, 8]"
proof -
  have hit: "fst (cache_lookup True (small_key 0) 0 once_packed) = Some [7, 8]"
    by (simp add: once_packed_def publish_def empty_cache_def cache_lookup_def)
  have "[7, 8] = packed_of raw_packer (small_key 0) \<lparr>source_bytes = [7, 8], source_generation = 0\<rparr>"
    by (rule cache_hits_are_exact [OF packed_run]) (use hit in \<open>simp_all add: world_at_def\<close>)
  with hit show ?thesis by simp
qed

lemma republished_hit:
  assumes "entries c = entries once_packed" and "cache_bytes c \<le> 1022"
  shows "fst (cache_lookup True (small_key 1) 1 (republished c)) = Some [7, 8]"
    and "packed_of raw_packer (small_key 1) \<lparr>source_bytes = [9, 9], source_generation = 1\<rparr> = [9, 9]"
  using assms
  by (simp_all add: republished_def once_packed_def publish_def empty_cache_def cache_lookup_def
      packed_of_def raw_packer_def small_key_def)

text \<open>
  C32 (error): the condition of C31 is needed, also in a program of one thread. Record on context 1
  a dispatch that copies context 0's packing, write the weights, execute: the copy is published
  under the new generation, and from then on every lookup on context 1 hits the old coefficients.
\<close>

theorem copied_packing_can_be_stale:
  "\<exists>w s b. reaches False 1024 raw_packer w \<and> copies w = {} \<and> packings w = {}
     \<and> live w (key_buffer (small_key 1)) = Some s
     \<and> fst (cache_lookup True (small_key 1) (source_generation s) (store w)) = Some b
     \<and> b \<noteq> packed_of raw_packer (small_key 1) s"
proof -
  let ?w = "world_at [9, 9] 1 (republished (once_packed\<lparr>copied := 1\<rparr>)) {} {} {}"
  have "cache_bytes once_packed \<le> 1022" by (simp add: once_packed_def publish_def empty_cache_def)
  then show ?thesis
    using stale_run republished_hit [of "once_packed\<lparr>copied := 1\<rparr>"]
    by (intro exI [of _ ?w] exI [of _ "\<lparr>source_bytes = [9, 9], source_generation = 1\<rparr>"] exI [of _ "[7, 8]"])
       (simp add: world_at_def)
qed

text \<open>
  A fan-out has the same fault, against the comment in \<open>apply_ops\<close> that a write would have made the
  home miss: the home was looked up when the dispatch was recorded, the replica reads the generation
  when it is executed.
\<close>

lemma fanned_out_packing_can_be_stale:
  "\<exists>w s b. reaches False 1024 raw_packer w \<and> copies w = {} \<and> packings w = {} \<and> landing w = {}
     \<and> copied (store w) = 0 \<and> live w (key_buffer (small_key 1)) = Some s
     \<and> fst (cache_lookup True (small_key 1) (source_generation s) (store w)) = Some b
     \<and> b \<noteq> packed_of raw_packer (small_key 1) s"
proof -
  let ?w = "world_at [9, 9] 1 (republished (once_packed\<lparr>hits := 1\<rparr>)) {} {} {}"
  have "cache_bytes once_packed \<le> 1022" "copied (store ?w) = 0"
    by (simp_all add: once_packed_def publish_def empty_cache_def republished_def world_at_def)
  then show ?thesis
    using stale_fan_out_run republished_hit [of "once_packed\<lparr>hits := 1\<rparr>"]
    by (intro exI [of _ ?w] exI [of _ "\<lparr>source_bytes = [9, 9], source_generation = 1\<rparr>"] exI [of _ "[7, 8]"])
       (simp add: world_at_def)
qed

section \<open>Accounting\<close>

lemma publish_ok:
  assumes ok: "cache_ok budget c" and b: "budget < 2 ^ 64 - 1"
  shows "cache_ok budget (publish True budget key g buf n c)"
proof -
  define c' where "c' = (case map_of (entries c) key of
     Some e \<Rightarrow> c\<lparr>entries := AList.delete key (entries c),
                 cache_bytes := saturating_sub (cache_bytes c) (entry_bytes e)\<rparr>
   | None \<Rightarrow> c\<lparr>entries := AList.delete key (entries c)\<rparr>)"
  have ok': "cache_ok budget c'"
  proof (cases "map_of (entries c) key")
    case None
    then have "AList.delete key (entries c) = entries c"
      by (simp add: AList.delete_id map_of_eq_None_iff)
    with ok None show ?thesis by (simp add: c'_def cache_ok_def)
  qed (use ok delete_ok in \<open>simp add: c'_def\<close>)
  have gone: "key \<notin> fst ` set (entries c')"
    by (auto simp: c'_def AList.delete_eq split: option.splits)
  have "publish True budget key g buf n c =
      (if budget < min (cache_bytes c' + n) (2 ^ 64 - 1)
       then c'\<lparr>refused_budget := wrap64 (refused_budget c' + 1)\<rparr>
       else c'\<lparr>cache_bytes := wrap64 (cache_bytes c' + n),
               peak_bytes := max (peak_bytes c') (wrap64 (cache_bytes c' + n)),
               entries := (key, \<lparr>entry_generation = g, entry_buffer = buf, entry_bytes = n\<rparr>) # entries c'\<rparr>)"
    by (auto simp: publish_def c'_def Let_def split: option.splits)
  with ok' gone b show ?thesis
    by (auto simp: cache_ok_def resident_def)
qed

lemma cache_ok_counters:
  "entries c' = entries c \<Longrightarrow> cache_bytes c' = cache_bytes c \<Longrightarrow> peak_bytes c' = peak_bytes c \<Longrightarrow>
   cache_ok budget c' = cache_ok budget c"
  by (simp add: cache_ok_def)

lemma lookup_ok:
  assumes ok: "cache_ok budget c"
  shows "cache_ok budget (snd (cache_lookup True key g c))"
proof (cases "map_of (entries c) key")
  case None
  then show ?thesis using ok by (simp add: cache_lookup_def cache_ok_def)
next
  case (Some e)
  show ?thesis
  proof (cases "entry_generation e = g")
    case True
    then show ?thesis using ok Some by (simp add: cache_lookup_def cache_ok_def)
  next
    case False
    with Some delete_ok [OF ok Some] show ?thesis
      by (simp add: cache_lookup_def cache_ok_def)
  qed
qed

lemma lookup_other_ok: "cache_ok budget c \<Longrightarrow> cache_ok budget (snd (lookup_other_context True key g c))"
  by (simp add: lookup_other_context_def Let_def cache_ok_def)

lemma forget_ok:
  assumes "cache_ok budget c" and b: "budget < 2 ^ 64 - 1"
  shows "cache_ok budget (forget True a c)"
proof -
  let ?gone = "filter (\<lambda>(k, e). key_buffer k = a) (entries c)"
  have "resident ?gone \<le> resident (entries c)" by (rule resident_filter(2))
  with assms have "wrap64 (resident ?gone) = resident ?gone" by (simp add: cache_ok_def)
  moreover have "filter (\<lambda>x. \<not> (case x of (k, e) \<Rightarrow> key_buffer k \<noteq> a)) (entries c) = ?gone"
    by (rule filter_cong) auto
  ultimately show ?thesis
    using assms resident_filter(1) [of "\<lambda>(k, e). key_buffer k \<noteq> a" "entries c"]
      resident_filter(2) [of "\<lambda>(k, e). key_buffer k \<noteq> a" "entries c"]
    by (auto simp: cache_ok_def forget_def Let_def saturating_sub_def resident_def [symmetric] distinct_map_filter)
qed

lemma step_ok:
  assumes "driver_step quiet budget pk w w'" and "cache_ok budget (store w)" and "budget < 2 ^ 64 - 1"
  shows "cache_ok budget (store w')"
  using assms(1)
proof (cases rule: driver_step.cases)
  case (begin_copy key s g b c xs)
  then have "c = snd (lookup_other_context True key g (store w))" by simp
  then have "cache_ok budget c" using assms(2) by (simp only: lookup_other_ok)
  with begin_copy show ?thesis by simp
next
  case (home_hit key s g b c xs)
  then have "c = snd (cache_lookup True key g (store w))" by simp
  then have "cache_ok budget c" using assms(2) by (simp only: lookup_ok)
  with home_hit show ?thesis by simp
next
  case clear_all
  with assms(2) show ?thesis by (simp add: clear_cache_def cache_ok_def resident_def)
next
  case recorded_writer
  with assms(2) show ?thesis by (simp add: note_recorded_writer_def cache_ok_def)
next
  case (look_up key s g)
  with lookup_ok [OF assms(2)] show ?thesis by simp
next
  case (finish_copy key g b n)
  with publish_ok [OF assms(2,3)] show ?thesis by simp
next
  case (finish_pack key g xs s b n)
  with publish_ok [OF assms(2,3)] show ?thesis by simp
next
  case (destroy a s)
  with forget_ok [OF assms(2,3)] show ?thesis by simp
qed (use assms(2) in simp_all)

text \<open>
  C33 (invariant): in every reachable state, quiet or not, the cache holds one entry per key, its
  byte count is the sum over the entries, and neither it nor its peak exceeds the budget.
\<close>

theorem cache_stays_within_budget:
  assumes "reaches quiet budget pk w" and "budget < 2 ^ 64 - 1"
  shows "cache_ok budget (store w)"
  using assms(1) unfolding reaches_def
proof (induction rule: rtranclp_induct)
  case base
  show ?case by (simp add: boot_def cache_ok_def empty_cache_def resident_def)
next
  case (step w w')
  then show ?case using step_ok assms(2) by blast
qed

theorem cache_stays_within_budget_witness: "cache_ok 1024 once_packed"
  using cache_stays_within_budget [OF packed_run [of True]] by (simp add: world_at_def)

end
