(* ===== verification/ScratchPool.thy ===== *)
theory ScratchPool
  imports Prelude "HOL-Library.AList"
begin

text \<open>
  The pool of scratch GEM buffers (\<open>rocket-hal-driver/src/scratch_pool.rs\<close>): size classes, the
  free lists keyed on file and class, and the byte budget, with the theorem that no buffer is ever
  handed out twice.

  The free lists are an association list with distinct keys. Allocating and closing a GEM buffer
  are calls to the kernel: the buffer an allocation returns is an argument, and what a call closes
  is part of its result. \<open>enabled()\<close> and \<open>budget_bytes()\<close>, read once from the environment, are
  arguments; the mutex makes every operation one atomic step.
\<close>

type_synonym pool_key = "nat \<times> nat"

record pool =
  free :: "(pool_key \<times> nat list) list"
  pool_bytes :: nat
  reused :: nat
  allocated :: nat

record scratch_buffer =
  sb_buffer :: nat
  sb_fd :: nat
  sb_class :: nat

definition empty_pool :: pool where
  "empty_pool = \<lparr>free = [], pool_bytes = 0, reused = 0, allocated = 0\<rparr>"

definition pool_enabled :: "string option \<Rightarrow> bool" where
  "pool_enabled setting = (case setting of Some value \<Rightarrow> value \<noteq> ''0'' | None \<Rightarrow> True)"

definition pool_budget_bytes :: "nat option \<Rightarrow> nat \<Rightarrow> nat" where
  "pool_budget_bytes parsed contexts =
     min ((case parsed of Some mb \<Rightarrow> mb | None \<Rightarrow> wrap64 (256 * contexts)) * (1024 * 1024)) (2 ^ 64 - 1)"

definition class_step :: "nat \<Rightarrow> nat" where
  "class_step bytes =
     (let KIB = 1024
      in if bytes < 64 * KIB then 4 * KIB
         else if bytes < 256 * KIB then 64 * KIB
         else if bytes < 4096 * KIB then 256 * KIB
         else 1024 * KIB)"

definition class_of :: "nat \<Rightarrow> nat" where
  "class_of bytes = wrap64 (div_ceil (max bytes 1) (class_step bytes) * class_step bytes)"

text \<open>\<open>Vec::pop\<close> of the class's free list, or a fresh allocation.\<close>

definition scratch_new :: "bool \<Rightarrow> nat \<Rightarrow> nat \<Rightarrow> nat \<Rightarrow> pool \<Rightarrow> scratch_buffer \<times> pool" where
  "scratch_new on fd bytes fresh p =
     (let class = class_of bytes
      in if on
         then case map_of (free p) (fd, class) of
             Some (v # vs) \<Rightarrow>
               (\<lparr>sb_buffer = last (v # vs), sb_fd = fd, sb_class = class\<rparr>,
                p\<lparr>free := AList.update (fd, class) (butlast (v # vs)) (free p),
                  pool_bytes := saturating_sub (pool_bytes p) class, reused := wrap64 (reused p + 1)\<rparr>)
           | _ \<Rightarrow> (\<lparr>sb_buffer = fresh, sb_fd = fd, sb_class = class\<rparr>,
                   p\<lparr>allocated := wrap64 (allocated p + 1)\<rparr>)
         else (\<lparr>sb_buffer = fresh, sb_fd = fd, sb_class = class\<rparr>, p))"

text \<open>\<open>Drop\<close>: back to its free list when the budget allows, else closed.\<close>

definition scratch_drop :: "bool \<Rightarrow> nat \<Rightarrow> scratch_buffer \<Rightarrow> pool \<Rightarrow> nat list \<times> pool" where
  "scratch_drop on budget sb p =
     (if on \<and> wrap64 (pool_bytes p + sb_class sb) \<le> budget
      then let key = (sb_fd sb, sb_class sb);
               idle = (case map_of (free p) key of Some vs \<Rightarrow> vs | None \<Rightarrow> [])
           in ([], p\<lparr>pool_bytes := wrap64 (pool_bytes p + sb_class sb),
                     free := AList.update key (idle @ [sb_buffer sb]) (free p)\<rparr>)
      else ([sb_buffer sb], p))"

definition clear_pool :: "pool \<Rightarrow> nat list \<times> pool" where
  "clear_pool p = (concat (map snd (free p)), p\<lparr>free := [], pool_bytes := 0\<rparr>)"

definition pool_stats :: "pool \<Rightarrow> nat \<times> nat" where
  "pool_stats p = (reused p, allocated p)"

section \<open>Size classes\<close>

lemma class_step_pos: "0 < class_step bytes"
  by (simp add: class_step_def Let_def)

lemma class_step_le: "class_step bytes \<le> 1048576"
  by (simp add: class_step_def Let_def)

lemma class_of_exact:
  assumes "bytes < 2 ^ 63"
  shows "class_of bytes = div_ceil (max bytes 1) (class_step bytes) * class_step bytes"
    and "bytes \<le> class_of bytes" and "class_of bytes < max bytes 1 + class_step bytes"
proof -
  have "div_ceil (max bytes 1) (class_step bytes) * class_step bytes < max bytes 1 + class_step bytes"
    by (rule div_ceil_mult_less [OF class_step_pos]) simp
  with assms class_step_le [of bytes]
  show *: "class_of bytes = div_ceil (max bytes 1) (class_step bytes) * class_step bytes"
    and "class_of bytes < max bytes 1 + class_step bytes"
    by (simp_all add: class_of_def)
  have "max bytes 1 \<le> div_ceil (max bytes 1) (class_step bytes) * class_step bytes"
    by (rule div_ceil_mult_ge [OF class_step_pos])
  then show "bytes \<le> class_of bytes" unfolding * by simp
qed

section \<open>The pool and the buffers handed out\<close>

text \<open>
  \<open>created\<close> is what each existing buffer was created with: its file and its size. A step takes a
  buffer, drops one that is out, or clears the free lists; the kernel returns a buffer that does
  not exist yet.
\<close>

record scratch_world =
  sw_pool :: pool
  sw_live :: "scratch_buffer list"
  created :: "nat \<rightharpoonup> nat \<times> nat"

definition idle_buffers :: "pool \<Rightarrow> nat list" where
  "idle_buffers p = concat (map snd (free p))"

definition forget_all :: "nat list \<Rightarrow> (nat \<rightharpoonup> 'a) \<Rightarrow> (nat \<rightharpoonup> 'a)" where
  "forget_all bs m = (\<lambda>b. if b \<in> set bs then None else m b)"

lemma forget_none [simp]: "forget_all [] m = m"
  by (simp add: forget_all_def)

inductive scratch_step :: "bool \<Rightarrow> nat \<Rightarrow> scratch_world \<Rightarrow> scratch_world \<Rightarrow> bool" for on budget where
  take_one: "created w fresh = None \<Longrightarrow> bytes < 2 ^ 62 \<Longrightarrow>
     scratch_new on fd bytes fresh (sw_pool w) = (sb, p) \<Longrightarrow>
     m = (if sb_buffer sb = fresh then (created w)(fresh \<mapsto> (fd, class_of bytes)) else created w) \<Longrightarrow>
     scratch_step on budget w (w\<lparr>sw_pool := p, sw_live := sb # sw_live w, created := m\<rparr>)"
| drop_one: "sw_live w = xs @ sb # ys \<Longrightarrow> scratch_drop on budget sb (sw_pool w) = (closed, p) \<Longrightarrow>
     scratch_step on budget w
       (w\<lparr>sw_pool := p, sw_live := xs @ ys, created := forget_all closed (created w)\<rparr>)"
| clear_all: "clear_pool (sw_pool w) = (closed, p) \<Longrightarrow>
     scratch_step on budget w (w\<lparr>sw_pool := p, created := forget_all closed (created w)\<rparr>)"

definition scratch_boot :: scratch_world where
  "scratch_boot = \<lparr>sw_pool = empty_pool, sw_live = [], created = (\<lambda>_. None)\<rparr>"

definition pooled :: "(pool_key \<times> nat list) list \<Rightarrow> nat" where
  "pooled fs = sum_list (map (\<lambda>((fd, class), vs). class * length vs) fs)"

definition scratch_ok :: "nat \<Rightarrow> scratch_world \<Rightarrow> bool" where
  "scratch_ok budget w \<longleftrightarrow>
     distinct (map sb_buffer (sw_live w) @ idle_buffers (sw_pool w))
     \<and> distinct (map fst (free (sw_pool w)))
     \<and> pool_bytes (sw_pool w) = pooled (free (sw_pool w)) \<and> pool_bytes (sw_pool w) \<le> budget
     \<and> (\<forall>sb \<in> set (sw_live w). created w (sb_buffer sb) = Some (sb_fd sb, sb_class sb) \<and> sb_class sb < 2 ^ 63)
     \<and> (\<forall>(key, vs) \<in> set (free (sw_pool w)). \<forall>b \<in> set vs. created w b = Some key)"

section \<open>Every step keeps the pool well formed\<close>

lemma update_present:
  "distinct (map fst fs) \<Longrightarrow> map_of fs k = Some vs \<Longrightarrow>
   \<exists>as bs. fs = as @ (k, vs) # bs \<and> (\<forall>v. AList.update k v fs = as @ (k, v) # bs)"
proof (induction fs)
  case (Cons f fs)
  show ?case
  proof (cases "fst f = k")
    case True
    then show ?thesis using Cons.prems by (intro exI [of _ "[]"] exI [of _ fs]) (cases f, simp)
  next
    case False
    then obtain as bs where "fs = as @ (k, vs) # bs" "\<forall>v. AList.update k v fs = as @ (k, v) # bs"
      using Cons by (cases f) auto
    then show ?thesis using False by (intro exI [of _ "f # as"] exI [of _ bs]) (cases f, simp)
  qed
qed simp

lemma update_absent: "map_of fs k = None \<Longrightarrow> AList.update k v fs = fs @ [(k, v)]"
  by (induction fs) (auto split: if_splits)

lemma idle_of_present:
  assumes "free p = as @ (k, vs) # bs"
  shows "idle_buffers p = concat (map snd as) @ vs @ concat (map snd bs)"
  by (simp add: idle_buffers_def assms)

text \<open>Taking the last buffer of a free list, putting one at its end.\<close>

lemma take_idle_ok:
  assumes ok: "scratch_ok budget w" and found: "map_of (free (sw_pool w)) (fd, class) = Some (v # vs)"
    and small: "class < 2 ^ 63"
  defines "sb \<equiv> \<lparr>sb_buffer = last (v # vs), sb_fd = fd, sb_class = class\<rparr>"
  defines "p \<equiv> (sw_pool w)\<lparr>free := AList.update (fd, class) (butlast (v # vs)) (free (sw_pool w)),
      pool_bytes := saturating_sub (pool_bytes (sw_pool w)) class, reused := wrap64 (reused (sw_pool w) + 1)\<rparr>"
  shows "scratch_ok budget (w\<lparr>sw_pool := p, sw_live := sb # sw_live w\<rparr>)"
    and "created w (sb_buffer sb) = Some (fd, class)"
proof -
  define us u where "us = butlast (v # vs)" and "u = last (v # vs)"
  have vs: "v # vs = us @ [u]" by (simp add: us_def u_def)
  from ok have d: "distinct (map fst (free (sw_pool w)))" by (simp add: scratch_ok_def)
  from update_present [OF d found] obtain as bs where
    f: "free (sw_pool w) = as @ ((fd, class), us @ [u]) # bs"
    and up: "AList.update (fd, class) us (free (sw_pool w)) = as @ ((fd, class), us) # bs"
    unfolding vs by blast
  have p: "free p = as @ ((fd, class), us) # bs" "pool_bytes p = pool_bytes (sw_pool w) - class"
    using up by (simp_all add: p_def us_def saturating_sub_def)
  have sb: "sb_buffer sb = u" "sb_fd sb = fd" "sb_class sb = class" by (simp_all add: sb_def u_def)
  show c: "created w (sb_buffer sb) = Some (fd, class)"
    using ok by (auto simp: scratch_ok_def f sb)
  show "scratch_ok budget (w\<lparr>sw_pool := p, sw_live := sb # sw_live w\<rparr>)"
    using ok c small
    by (auto simp: scratch_ok_def p sb f idle_of_present [OF p(1)] idle_of_present [OF f] pooled_def)
qed

lemma put_idle_ok:
  assumes ok: "scratch_ok budget w" and live: "sw_live w = xs @ sb # ys"
    and budget: "wrap64 (pool_bytes (sw_pool w) + sb_class sb) \<le> budget" "budget < 2 ^ 63"
  defines "key \<equiv> (sb_fd sb, sb_class sb)"
  defines "p \<equiv> (sw_pool w)\<lparr>pool_bytes := wrap64 (pool_bytes (sw_pool w) + sb_class sb),
     free := AList.update key ((case map_of (free (sw_pool w)) key of Some vs \<Rightarrow> vs | None \<Rightarrow> []) @ [sb_buffer sb])
               (free (sw_pool w))\<rparr>"
  shows "scratch_ok budget (w\<lparr>sw_pool := p, sw_live := xs @ ys\<rparr>)"
proof -
  from ok have d: "distinct (map fst (free (sw_pool w)))"
    and small: "sb_class sb < 2 ^ 63" "pool_bytes (sw_pool w) \<le> budget"
    and c: "created w (sb_buffer sb) = Some key" by (simp_all add: scratch_ok_def live key_def)
  have bytes: "wrap64 (pool_bytes (sw_pool w) + sb_class sb) = pool_bytes (sw_pool w) + sb_class sb"
    using small budget(2) by simp
  show ?thesis
  proof (cases "map_of (free (sw_pool w)) key")
    case None
    then have p: "free p = free (sw_pool w) @ [(key, [sb_buffer sb])]"
      "pool_bytes p = pool_bytes (sw_pool w) + sb_class sb"
      by (simp_all add: p_def update_absent bytes)
    have "key \<notin> fst ` set (free (sw_pool w))" using None by (simp add: map_of_eq_None_iff)
    then show ?thesis
      using ok c budget(1) [unfolded bytes]
      by (auto simp: scratch_ok_def p live idle_buffers_def pooled_def key_def)
  next
    case (Some vs)
    from update_present [OF d Some] obtain as bs where f: "free (sw_pool w) = as @ (key, vs) # bs"
      and up: "AList.update key (vs @ [sb_buffer sb]) (free (sw_pool w)) = as @ (key, vs @ [sb_buffer sb]) # bs"
      by blast
    have p: "free p = as @ (key, vs @ [sb_buffer sb]) # bs"
      "pool_bytes p = pool_bytes (sw_pool w) + sb_class sb"
      using up by (simp_all add: p_def Some bytes)
    show ?thesis
      using ok c budget(1) [unfolded bytes]
      by (auto simp: scratch_ok_def p live f idle_of_present [OF p(1)] idle_of_present [OF f] pooled_def
          key_def algebra_simps)
  qed
qed

text \<open>What \<open>new\<close> returns: the last idle buffer of the class, or the fresh allocation.\<close>

lemma scratch_new_cases:
  assumes "scratch_new on fd bytes fresh p = (sb, p')"
  obtains v vs where "on" "map_of (free p) (fd, class_of bytes) = Some (v # vs)"
    "sb = \<lparr>sb_buffer = last (v # vs), sb_fd = fd, sb_class = class_of bytes\<rparr>"
    "p' = p\<lparr>free := AList.update (fd, class_of bytes) (butlast (v # vs)) (free p),
            pool_bytes := saturating_sub (pool_bytes p) (class_of bytes), reused := wrap64 (reused p + 1)\<rparr>"
  | "sb = \<lparr>sb_buffer = fresh, sb_fd = fd, sb_class = class_of bytes\<rparr>"
    "free p' = free p" "pool_bytes p' = pool_bytes p"
proof (cases "on \<and> (\<exists>v vs. map_of (free p) (fd, class_of bytes) = Some (v # vs))")
  case True
  then obtain v vs where "on" "map_of (free p) (fd, class_of bytes) = Some (v # vs)" by blast
  with assms show thesis by (intro that(1)) (auto simp: scratch_new_def Let_def)
next
  case False
  with assms show thesis
    by (intro that(2)) (auto simp: scratch_new_def Let_def split: if_splits option.splits list.splits)
qed

lemma class_of_small: "bytes < 2 ^ 62 \<Longrightarrow> bytes \<le> class_of bytes \<and> class_of bytes < 2 ^ 63"
  using class_of_exact(2,3) [of bytes] class_step_le [of bytes] by simp

lemma scratch_new_ok:
  assumes ok: "scratch_ok budget w" and fresh: "created w fresh = None" and bytes: "bytes < 2 ^ 62"
    and new: "scratch_new on fd bytes fresh (sw_pool w) = (sb, p)"
  defines "m \<equiv> if sb_buffer sb = fresh then (created w)(fresh \<mapsto> (fd, class_of bytes)) else created w"
  shows "scratch_ok budget (w\<lparr>sw_pool := p, sw_live := sb # sw_live w, created := m\<rparr>)"
    and "sb_fd sb = fd" and "sb_class sb = class_of bytes"
    and "sb_buffer sb = fresh \<or> created w (sb_buffer sb) = Some (fd, class_of bytes)"
proof -
  have unused: "fresh \<notin> set (map sb_buffer (sw_live w))" "fresh \<notin> set (idle_buffers (sw_pool w))"
    using ok fresh by (auto simp: scratch_ok_def idle_buffers_def)
  have small: "class_of bytes < 2 ^ 63" using class_of_small [OF bytes] by simp
  from new have "scratch_ok budget (w\<lparr>sw_pool := p, sw_live := sb # sw_live w, created := m\<rparr>)
      \<and> sb_fd sb = fd \<and> sb_class sb = class_of bytes
      \<and> (sb_buffer sb = fresh \<or> created w (sb_buffer sb) = Some (fd, class_of bytes))"
  proof (cases rule: scratch_new_cases)
    case (1 v vs)
    note t = take_idle_ok [OF ok 1(2) small]
    then have "sb_buffer sb \<noteq> fresh" using fresh by (auto simp: 1)
    then have "m = created w" by (simp add: m_def)
    with t show ?thesis by (simp add: 1)
  next
    case 2
    have "idle_buffers p = idle_buffers (sw_pool w)" by (simp add: idle_buffers_def 2)
    with ok unused small show ?thesis
      by (auto simp: scratch_ok_def 2 m_def idle_buffers_def)
  qed
  then show "scratch_ok budget (w\<lparr>sw_pool := p, sw_live := sb # sw_live w, created := m\<rparr>)"
    and "sb_fd sb = fd" and "sb_class sb = class_of bytes"
    and "sb_buffer sb = fresh \<or> created w (sb_buffer sb) = Some (fd, class_of bytes)" by blast+
qed

lemma scratch_drop_ok:
  assumes ok: "scratch_ok budget w" and live: "sw_live w = xs @ sb # ys" and b: "budget < 2 ^ 63"
    and dropped: "scratch_drop on budget sb (sw_pool w) = (closed, p)"
  shows "scratch_ok budget (w\<lparr>sw_pool := p, sw_live := xs @ ys, created := forget_all closed (created w)\<rparr>)"
proof (cases "on \<and> wrap64 (pool_bytes (sw_pool w) + sb_class sb) \<le> budget")
  case True
  then have "closed = []" using dropped by (auto simp: scratch_drop_def Let_def)
  then have "forget_all closed (created w) = created w" by (simp add: forget_all_def)
  with put_idle_ok [OF ok live _ b] True dropped show ?thesis
    by (auto simp: scratch_drop_def Let_def)
next
  case False
  then have "closed = [sb_buffer sb]" "p = sw_pool w" using dropped by (auto simp: scratch_drop_def)
  moreover have "sb_buffer x \<noteq> sb_buffer sb" if "x \<in> set xs \<union> set ys" for x
  proof -
    have "sb_buffer sb \<notin> sb_buffer ` (set xs \<union> set ys)" using ok by (auto simp: scratch_ok_def live)
    with that show ?thesis by (metis imageI)
  qed
  ultimately show ?thesis using ok by (auto simp: scratch_ok_def live forget_all_def idle_buffers_def)
qed

lemma scratch_step_ok:
  assumes "scratch_step on budget w w'" and ok: "scratch_ok budget w" and b: "budget < 2 ^ 63"
  shows "scratch_ok budget w'"
  using assms(1)
proof (cases rule: scratch_step.cases)
  case (take_one fresh bytes fd sb p m)
  with scratch_new_ok(1) [OF ok] show ?thesis by simp
next
  case (drop_one xs sb ys closed p)
  with scratch_drop_ok [OF ok _ b] show ?thesis by simp
next
  case (clear_all closed p)
  with ok show ?thesis
    by (auto simp: scratch_ok_def clear_pool_def idle_buffers_def forget_all_def pooled_def)
qed

text \<open>
  C34 (safety): in every state the pool can reach, no buffer is out twice, idle twice, or both, and
  the byte count is that of the idle buffers and within budget; so the buffer the next request gets
  is not one in use, is on the request's file, and holds at least the bytes asked for, less than a
  class step more.
\<close>

theorem scratch_buffers_are_never_shared:
  assumes "(scratch_step on budget)\<^sup>*\<^sup>* scratch_boot w" and b: "budget < 2 ^ 63"
    and "created w fresh = None" and bytes: "bytes < 2 ^ 62"
    and new: "scratch_new on fd bytes fresh (sw_pool w) = (sb, p)"
  shows "distinct (map sb_buffer (sw_live w) @ idle_buffers (sw_pool w))
    \<and> pool_bytes (sw_pool w) = pooled (free (sw_pool w)) \<and> pool_bytes (sw_pool w) \<le> budget
    \<and> sb_buffer sb \<notin> set (map sb_buffer (sw_live w) @ idle_buffers p) \<and> sb_fd sb = fd
    \<and> (sb_buffer sb = fresh \<or> created w (sb_buffer sb) = Some (fd, sb_class sb))
    \<and> bytes \<le> sb_class sb \<and> sb_class sb < max bytes 1 + class_step bytes"
proof -
  have ok: "scratch_ok budget w"
    using assms(1)
  proof (induction rule: rtranclp_induct)
    case base
    show ?case by (simp add: scratch_ok_def scratch_boot_def empty_pool_def idle_buffers_def pooled_def)
  next
    case (step w w')
    then show ?case using scratch_step_ok [OF _ _ b] by blast
  qed
  note n = scratch_new_ok [OF ok assms(3) bytes new]
  have "bytes < 2 ^ 63" using bytes by simp
  with n ok class_of_exact(2,3) [of bytes] show ?thesis by (auto simp: scratch_ok_def)
qed

text \<open>Witness: take a buffer, drop it, take one of the same class: the first is reused.\<close>

definition reuse_world :: scratch_world where
  "reuse_world = \<lparr>sw_pool = \<lparr>free = [((3, 8192), [11])], pool_bytes = 8192, reused = 0, allocated = 1\<rparr>,
     sw_live = [], created = (\<lambda>_. None)(11 \<mapsto> (3, 8192))\<rparr>"

lemma class_of_samples: "class_of 5000 = 8192" "class_of 6000 = 8192" "class_of 65537 = 131072"
  by (simp_all add: class_of_def class_step_def div_ceil_def)

lemma reuse_run: "(scratch_step True 65536)\<^sup>*\<^sup>* scratch_boot reuse_world"
proof -
  let ?sb = "\<lparr>sb_buffer = 11, sb_fd = 3, sb_class = 8192\<rparr>"
  let ?w = "\<lparr>sw_pool = \<lparr>free = [], pool_bytes = 0, reused = 0, allocated = 1\<rparr>, sw_live = [?sb],
     created = (\<lambda>_. None)(11 \<mapsto> (3, 8192))\<rparr>"
  have "scratch_new True 3 5000 11 (sw_pool scratch_boot) = (?sb, sw_pool ?w)"
    by (simp add: scratch_new_def scratch_boot_def empty_pool_def class_of_samples)
  from scratch_step.take_one [OF _ _ this] have 1: "scratch_step True 65536 scratch_boot ?w"
    by (simp add: scratch_boot_def class_of_samples)
  have "scratch_drop True 65536 ?sb (sw_pool ?w) = ([], sw_pool reuse_world)"
    by (simp add: scratch_drop_def reuse_world_def)
  from scratch_step.drop_one [of ?w "[]" ?sb "[]", OF _ this] have 2: "scratch_step True 65536 ?w reuse_world"
    by (simp add: reuse_world_def)
  from 1 2 show ?thesis by (rule rtranclp.rtrancl_into_rtrancl [OF r_into_rtranclp])
qed

theorem scratch_buffers_are_never_shared_witness:
  "\<exists>sb p. scratch_new True 3 6000 12 (sw_pool reuse_world) = (sb, p) \<and> sb_buffer sb = 11
     \<and> sb_buffer sb \<notin> set (idle_buffers p) \<and> 6000 \<le> sb_class sb"
proof -
  let ?r = "scratch_new True 3 6000 12 (sw_pool reuse_world)"
  have r: "?r = (\<lparr>sb_buffer = 11, sb_fd = 3, sb_class = 8192\<rparr>, snd ?r)"
    by (simp add: scratch_new_def reuse_world_def class_of_samples)
  from scratch_buffers_are_never_shared [OF reuse_run _ _ _ r]
  have "11 \<notin> set (idle_buffers (snd ?r))" by (simp add: reuse_world_def)
  with r show ?thesis
    by (intro exI [of _ "\<lparr>sb_buffer = 11, sb_fd = 3, sb_class = 8192\<rparr>"] exI [of _ "snd ?r"]) simp
qed

end
