(* ===== verification/WorkerPool.thy ===== *)
theory WorkerPool
  imports HostText
begin

text \<open>
  The NPU worker pool (\<open>rocket-hal-driver/src/pool.rs\<close>): how many contexts, where a command buffer
  goes, and the queue each worker drains.

  A unit of work is its submission number and its two semaphore lists. The semaphores are IREE's:
  their state is what a wait on each payload value would answer now, and the effect of signalling
  and failing a list is a parameter. So is what a unit's work may do: the set of statuses it may
  return (0 for success) and whether it may panic, empty when it never returns. The profile record
  and the thread's CPU pinning leave this state alone. \<open>npu_core_count\<close> reads a directory: its
  result is an argument.
\<close>

section \<open>Contexts and placement\<close>

definition MAX_POOL_CONTEXTS :: nat where "MAX_POOL_CONTEXTS = 8"

definition requested_contexts :: "string option \<Rightarrow> nat \<Rightarrow> nat" where
  "requested_contexts setting core_count =
     (case setting of
        None \<Rightarrow> 1
      | Some value \<Rightarrow>
          if value = ''auto'' then min (max core_count 1) MAX_POOL_CONTEXTS
          else (case parse_usize value of
                  Some n \<Rightarrow> if 1 \<le> n \<and> n \<le> MAX_POOL_CONTEXTS then n else 1
                | None \<Rightarrow> 1))"

text \<open>\<open>RoundRobin\<close>: the atomic counter wraps at 64 bits.\<close>

definition round_robin_new :: nat where "round_robin_new = 0"

definition place :: "nat \<Rightarrow> nat \<Rightarrow> nat \<times> nat" where
  "place workers next_one = (next_one mod workers, wrap64 (next_one + 1))"

definition siblings :: "nat \<Rightarrow> nat \<Rightarrow> nat list" where
  "siblings count home = map (\<lambda>step. wrap64 (home + step) mod count) [1..<count]"

section \<open>Semaphores\<close>

text \<open>
  A fence is a semaphore and the payload value waited for or signalled. \<open>waits a f\<close> is the answer of
  \<open>iree_hal_semaphore_wait\<close> with an infinite timeout: \<open>None\<close> while it blocks, the status it returns
  otherwise.
\<close>

type_synonym fence = "nat \<times> nat"
type_synonym answers = "fence \<Rightarrow> nat option"

definition covers :: "fence list \<Rightarrow> fence \<Rightarrow> bool" where
  "covers fs f \<longleftrightarrow> (\<exists>(semaphore, v) \<in> set fs. semaphore = fst f \<and> snd f \<le> v)"

text \<open>
  What the pool relies on: a semaphore that has reached a value or failed stays so, and no wait on a
  payload covered by a list that was signalled or failed is left blocked.
\<close>

definition timeline_semaphores ::
  "(fence list \<Rightarrow> answers \<Rightarrow> answers) \<Rightarrow> (fence list \<Rightarrow> nat \<Rightarrow> answers \<Rightarrow> answers) \<Rightarrow> bool" where
  "timeline_semaphores sg fl \<longleftrightarrow> (\<forall>fs st a f.
     (a f \<noteq> None \<or> covers fs f \<longrightarrow> sg fs a f \<noteq> None) \<and> (a f \<noteq> None \<or> covers fs f \<longrightarrow> fl fs st a f \<noteq> None))"

lemma timelineD:
  assumes "timeline_semaphores sg fl" and "a f \<noteq> None \<or> covers fs f"
  shows "sg fs a f \<noteq> None" and "fl fs st a f \<noteq> None"
  using assms unfolding timeline_semaphores_def by blast+

section \<open>Workers\<close>

record job =
  job_id :: nat
  waits :: "fence list"
  signals :: "fence list"

datatype resolution = Signalled | Failed nat | Unreported nat

datatype phase = Receiving | Waiting job "fence list" | Running job | Exited | Crashed job

text \<open>
  \<open>sender\<close>: the pool still holds the channel's sender. \<open>accepted\<close> and \<open>resolved\<close> record, for the
  statements below, what was enqueued, and for each unit that ended the status of its wait or its
  work and how it was reported.
\<close>

record worker =
  context_id :: nat
  sender :: bool
  queue :: "job list"
  phase :: phase
  accepted :: "job list"
  resolved :: "(job \<times> nat \<times> resolution) list"

definition new_worker :: "nat \<Rightarrow> worker" where
  "new_worker ctx = \<lparr>context_id = ctx, sender = True, queue = [], phase = Receiving, accepted = [],
     resolved = []\<rparr>"

definition pool_new :: "nat list \<Rightarrow> ('e, worker list) outcome" where
  "pool_new contexts =
     ensure (contexts \<noteq> [] \<and> length contexts \<le> MAX_POOL_CONTEXTS) (Done (map new_worker contexts))"

text \<open>
  How a unit whose wait or work has ended with a status is reported: \<open>signal_all\<close>, \<open>fail_all\<close>, or,
  without a signal semaphore, to nobody (\<open>fail_all\<close> on the empty list, or the message).
\<close>

definition resolve :: "job \<Rightarrow> nat \<Rightarrow> resolution" where
  "resolve u st =
     (if st = 0 then Signalled else if signals u = [] then Unreported st else Failed st)"

definition report :: "(fence list \<Rightarrow> answers \<Rightarrow> answers) \<Rightarrow> (fence list \<Rightarrow> nat \<Rightarrow> answers \<Rightarrow> answers)
    \<Rightarrow> job \<Rightarrow> nat \<Rightarrow> answers \<Rightarrow> answers" where
  "report sg fl u st a = (case resolve u st of
     Signalled \<Rightarrow> sg (signals u) a | Failed st \<Rightarrow> fl (signals u) st a | Unreported st \<Rightarrow> a)"

definition finish :: "job \<Rightarrow> nat \<Rightarrow> worker \<Rightarrow> worker" where
  "finish u st w = w\<lparr>phase := Receiving, resolved := resolved w @ [(u, st, resolve u st)]\<rparr>"

text \<open>
  One step of \<open>worker_main\<close> over the semaphores: \<open>recv\<close>, or its error when the sender is gone and the
  queue empty; the loop of \<open>wait_all\<close>, which has no step while the next fence blocks; the work, which
  has none when it never returns. A panic of the work unwinds the thread and drops the receiver,
  and the unit's semaphores are left as they are.
\<close>

inductive worker_step :: "(fence list \<Rightarrow> answers \<Rightarrow> answers) \<Rightarrow> (fence list \<Rightarrow> nat \<Rightarrow> answers \<Rightarrow> answers)
    \<Rightarrow> (job \<Rightarrow> nat option set) \<Rightarrow> answers \<times> worker \<Rightarrow> answers \<times> worker \<Rightarrow> bool"
  for sg fl works where
  receive: "phase w = Receiving \<Longrightarrow> queue w = u # q \<Longrightarrow>
     worker_step sg fl works (a, w) (a, w\<lparr>phase := Waiting u (waits u), queue := q\<rparr>)"
| hang_up: "phase w = Receiving \<Longrightarrow> queue w = [] \<Longrightarrow> \<not> sender w \<Longrightarrow>
     worker_step sg fl works (a, w) (a, w\<lparr>phase := Exited\<rparr>)"
| wait_next: "phase w = Waiting u (f # fs) \<Longrightarrow> a f = Some 0 \<Longrightarrow>
     worker_step sg fl works (a, w) (a, w\<lparr>phase := Waiting u fs\<rparr>)"
| wait_fails: "phase w = Waiting u (f # fs) \<Longrightarrow> a f = Some st \<Longrightarrow> st \<noteq> 0 \<Longrightarrow>
     worker_step sg fl works (a, w) (report sg fl u st a, finish u st w)"
| wait_ends: "phase w = Waiting u [] \<Longrightarrow> worker_step sg fl works (a, w) (a, w\<lparr>phase := Running u\<rparr>)"
| work_ends: "phase w = Running u \<Longrightarrow> Some st \<in> works u \<Longrightarrow>
     worker_step sg fl works (a, w) (report sg fl u st a, finish u st w)"
| work_panics: "phase w = Running u \<Longrightarrow> None \<in> works u \<Longrightarrow>
     worker_step sg fl works (a, w) (a, w\<lparr>phase := Crashed u\<rparr>)"

inductive_cases worker_stepE: "worker_step sg fl works (a, w) s'"

section \<open>The pool's operations\<close>

text \<open>\<open>send\<close> fails when the receiver is gone: the thread has exited or crashed.\<close>

fun receiving_end :: "phase \<Rightarrow> bool" where
  "receiving_end Exited = False"
| "receiving_end (Crashed u) = False"
| "receiving_end p = True"

datatype enqueue_status = Enqueued | Unavailable

definition enqueue_on :: "nat \<Rightarrow> job \<Rightarrow> worker list \<Rightarrow> enqueue_status \<times> worker list" where
  "enqueue_on ctx u ws =
     (let index = min ctx (length ws - 1);
          w = ws ! index
      in if sender w \<and> receiving_end (phase w)
         then (Enqueued, ws[index := w\<lparr>queue := queue w @ [u], accepted := accepted w @ [u]\<rparr>])
         else (Unavailable, ws))"

text \<open>The first loop of \<open>shutdown\<close>; the second joins the threads, which is waiting for them to exit.\<close>

definition close_senders :: "worker list \<Rightarrow> worker list" where
  "close_senders ws = map (\<lambda>w. w\<lparr>sender := False\<rparr>) ws"

text \<open>\<open>others\<close>: the host or another queue reaches or fails a semaphore.\<close>

inductive pool_step :: "(fence list \<Rightarrow> answers \<Rightarrow> answers) \<Rightarrow> (fence list \<Rightarrow> nat \<Rightarrow> answers \<Rightarrow> answers)
    \<Rightarrow> (job \<Rightarrow> nat option set) \<Rightarrow> answers \<times> worker list \<Rightarrow> answers \<times> worker list \<Rightarrow> bool"
  for sg fl works where
  run: "i < length ws \<Longrightarrow> worker_step sg fl works (a, ws ! i) (a', w) \<Longrightarrow>
     pool_step sg fl works (a, ws) (a', ws[i := w])"
| enqueue: "enqueue_on ctx u ws = (st, ws') \<Longrightarrow> pool_step sg fl works (a, ws) (a, ws')"
| shutdown: "pool_step sg fl works (a, ws) (a, close_senders ws)"
| others: "(\<And>f. a f \<noteq> None \<Longrightarrow> a' f \<noteq> None) \<Longrightarrow> pool_step sg fl works (a, ws) (a', ws)"

section \<open>What a worker has done with what it accepted\<close>

fun in_hand :: "phase \<Rightarrow> job list" where
  "in_hand (Waiting u fs) = [u]"
| "in_hand (Running u) = [u]"
| "in_hand (Crashed u) = [u]"
| "in_hand p = []"

fun still_waited :: "phase \<Rightarrow> fence list" where
  "still_waited (Waiting u fs) = fs"
| "still_waited p = []"

definition in_order :: "worker \<Rightarrow> bool" where
  "in_order w \<longleftrightarrow> accepted w = map fst (resolved w) @ in_hand (phase w) @ queue w
     \<and> (phase w = Exited \<longrightarrow> queue w = [] \<and> \<not> sender w)
     \<and> (\<forall>u fs. phase w = Waiting u fs \<longrightarrow> set fs \<subseteq> set (waits u))"

text \<open>
  A unit is signalled exactly when the status is 0; otherwise it is failed with the status on its own
  list, and left unreported only when it has none.
\<close>

definition resolution_ok :: "job \<times> nat \<times> resolution \<Rightarrow> bool" where
  "resolution_ok = (\<lambda>(u, st, r). case r of Signalled \<Rightarrow> st = 0 | Failed st' \<Rightarrow> st' = st \<and> st \<noteq> 0 \<and> signals u \<noteq> []
     | Unreported st' \<Rightarrow> st' = st \<and> st \<noteq> 0 \<and> signals u = [])"

definition worker_ok :: "worker \<Rightarrow> bool" where
  "worker_ok w \<longleftrightarrow> in_order w \<and> list_all resolution_ok (resolved w)"

lemma worker_step_ok: "worker_step sg fl works (a, w) (a', w') \<Longrightarrow> worker_ok w \<Longrightarrow> worker_ok w'"
  by (erule worker_stepE)
     (auto simp: worker_ok_def in_order_def finish_def resolve_def resolution_ok_def)

lemma enqueue_ok:
  assumes ws: "list_all worker_ok ws" and enq: "enqueue_on ctx u ws = (st, ws')"
  shows "list_all worker_ok ws'"
proof (cases "ws = []")
  case True
  then show ?thesis using enq by (auto simp: enqueue_on_def Let_def split: if_splits)
next
  case False
  let ?w = "ws ! min ctx (length ws - 1)"
  have "min ctx (length ws - 1) < length ws" using False by (simp add: min_less_iff_disj)
  then have "worker_ok ?w" using ws by (simp add: list_all_length)
  then have "worker_ok (?w\<lparr>queue := queue ?w @ [u], accepted := accepted ?w @ [u]\<rparr>)"
    if "receiving_end (phase ?w)"
    using that by (auto simp: worker_ok_def in_order_def)
  with ws enq show ?thesis
    by (auto simp: enqueue_on_def Let_def list_all_length nth_list_update split: if_splits)
qed

lemma close_senders_ok: "list_all worker_ok ws \<Longrightarrow> list_all worker_ok (close_senders ws)"
  by (auto simp: close_senders_def list_all_iff worker_ok_def in_order_def)

lemma pool_step_ok:
  "pool_step sg fl works (a, ws) (a', ws') \<Longrightarrow> list_all worker_ok ws \<Longrightarrow> list_all worker_ok ws'"
proof (induction "(a, ws)" "(a', ws')" rule: pool_step.induct)
  case (run i w)
  then have "worker_ok w" using worker_step_ok by (auto simp: list_all_length)
  with run show ?case by (auto simp: list_all_length nth_list_update)
qed (auto intro: enqueue_ok close_senders_ok)

lemma pool_step_contexts:
  assumes "pool_step sg fl works (a, ws) (a', ws')"
  shows "map context_id ws' = map context_id ws"
  using assms
proof (cases rule: pool_step.cases)
  case (run i w)
  from run(3) have "context_id w = context_id (ws ! i)"
    by (rule worker_stepE) (simp_all add: finish_def)
  with run show ?thesis by (simp add: map_update list_update_same_conv)
next
  case (enqueue ctx u st)
  then show ?thesis
    by (auto simp: enqueue_on_def Let_def map_update split: if_splits)
       (simp add: map_update [symmetric])
qed (simp_all add: close_senders_def comp_def)

lemma pool_run_ok:
  assumes "(pool_step sg fl works)\<^sup>*\<^sup>* s s'" and "list_all worker_ok (snd s)"
  shows "list_all worker_ok (snd s') \<and> map context_id (snd s') = map context_id (snd s)"
  using assms
proof (induction rule: rtranclp_induct)
  case (step s1 s2)
  obtain a1 ws1 a2 ws2 where eq: "s1 = (a1, ws1)" "s2 = (a2, ws2)" by (cases s1, cases s2)
  with step pool_step_ok [of sg fl works a1 ws1 a2 ws2] pool_step_contexts [of sg fl works a1 ws1 a2 ws2]
  show ?case by simp
qed simp

lemma pool_reach_ok:
  assumes "pool_new contexts = Done ws" and "(pool_step sg fl works)\<^sup>*\<^sup>* (a, ws) (a', ws')"
  shows "list_all worker_ok ws'" and "map context_id ws' = contexts"
proof -
  have new: "ws = map new_worker contexts"
    using assms(1) by (simp add: pool_new_def ensure_eq_Done)
  have "list_all worker_ok ws" "map context_id ws = contexts"
    by (auto simp: new list_all_iff worker_ok_def in_order_def new_worker_def comp_def)
  with pool_run_ok [OF assms(2)] show "list_all worker_ok ws'" and "map context_id ws' = contexts" by simp_all
qed

section \<open>Draining\<close>

fun phase_weight :: "phase \<Rightarrow> nat" where
  "phase_weight Receiving = 1"
| "phase_weight (Waiting u fs) = 3 + length fs"
| "phase_weight (Running u) = 2"
| "phase_weight Exited = 0"
| "phase_weight (Crashed u) = 0"

definition drain_weight :: "worker \<Rightarrow> nat" where
  "drain_weight w = (\<Sum>u\<leftarrow>queue w. 4 + length (waits u)) + phase_weight (phase w)"

definition pool_weight :: "worker list \<Rightarrow> nat" where
  "pool_weight ws = sum_list (map drain_weight ws)"

definition closed :: "worker list \<Rightarrow> bool" where
  "closed ws \<longleftrightarrow> (\<forall>w \<in> set ws. \<not> sender w)"

lemma worker_step_drains:
  "worker_step sg fl works (a, w) (a', w') \<Longrightarrow> drain_weight w' < drain_weight w"
  by (erule worker_stepE) (auto simp: drain_weight_def finish_def)

lemma worker_step_keeps:
  "worker_step sg fl works (a, w) (a', w') \<Longrightarrow> accepted w' = accepted w \<and> sender w' = sender w"
  by (erule worker_stepE) (auto simp: finish_def)

lemma pool_weight_update:
  assumes "i < length ws" and "drain_weight w < drain_weight (ws ! i)"
  shows "pool_weight (ws[i := w]) < pool_weight ws"
  using assms elem_le_sum_list [of i "map drain_weight ws"]
  by (simp add: pool_weight_def map_update sum_list_update)

text \<open>A closed channel takes nothing more.\<close>

lemma closed_refuses:
  assumes "closed ws" and "ws \<noteq> []"
  shows "enqueue_on ctx u ws = (Unavailable, ws)"
proof -
  have "min ctx (length ws - 1) < length ws" using assms(2) by (simp add: min_less_iff_disj)
  with assms(1) show ?thesis by (simp add: enqueue_on_def Let_def closed_def)
qed

lemma closed_step:
  assumes "pool_step sg fl works (a, ws) (a', ws')" and "closed ws" and "ws \<noteq> []"
  shows "closed ws' \<and> map accepted ws' = map accepted ws \<and> (ws' = ws \<or> pool_weight ws' < pool_weight ws)"
  using assms(1)
proof (cases rule: pool_step.cases)
  case (run i w)
  with worker_step_keeps [OF run(3)] pool_weight_update [OF run(2) worker_step_drains [OF run(3)]] assms(2)
  show ?thesis
    by (auto simp: closed_def map_update list_update_same_conv dest: set_update_subset_insert [THEN subsetD])
next
  case (enqueue ctx u st)
  with closed_refuses [OF assms(2,3), of ctx u] assms(2) show ?thesis by simp
next
  case shutdown
  have "close_senders ws = ws"
    using assms(2) by (auto simp: close_senders_def closed_def intro: map_idI)
  with shutdown assms(2) show ?thesis by simp
qed (use assms(2) in simp)

lemma closed_run:
  assumes "(pool_step sg fl works)\<^sup>*\<^sup>* (a, ws) s" and "closed ws" and "ws \<noteq> []"
  shows "closed (snd s) \<and> map accepted (snd s) = map accepted ws"
  using assms(1)
proof (induction rule: rtranclp_induct)
  case base
  with assms(2) show ?case by simp
next
  case (step s1 s2)
  obtain a1 ws1 a2 ws2 where eq: "s1 = (a1, ws1)" "s2 = (a2, ws2)" by (cases s1, cases s2)
  with step have "ws1 \<noteq> []" using assms(3) by auto
  with step eq closed_step [of sg fl works a1 ws1 a2 ws2] show ?case by simp
qed

section \<open>No wait is left behind\<close>

text \<open>Whatever a resolved unit was to signal has been signalled or failed.\<close>

definition settled :: "answers \<Rightarrow> worker list \<Rightarrow> bool" where
  "settled a ws \<longleftrightarrow> (\<forall>w \<in> set ws. \<forall>p \<in> set (resolved w). \<forall>f. covers (signals (fst p)) f \<longrightarrow> a f \<noteq> None)"

lemma settledD:
  "settled a ws \<Longrightarrow> w \<in> set ws \<Longrightarrow> u \<in> fst ` set (resolved w) \<Longrightarrow> covers (signals u) f \<Longrightarrow> a f \<noteq> None"
  unfolding settled_def by blast

lemma settled_mono:
  "settled a ws \<Longrightarrow> (\<And>f. a f \<noteq> None \<Longrightarrow> a' f \<noteq> None) \<Longrightarrow> settled a' ws"
  unfolding settled_def by blast

lemma report_answers:
  assumes "timeline_semaphores sg fl"
  shows "a f \<noteq> None \<Longrightarrow> report sg fl u st a f \<noteq> None"
    and "covers (signals u) f \<Longrightarrow> report sg fl u st a f \<noteq> None"
proof -
  show "report sg fl u st a f \<noteq> None" if "a f \<noteq> None"
    using timelineD [OF assms, of a f] that by (simp add: report_def split: resolution.splits)
  show "report sg fl u st a f \<noteq> None" if "covers (signals u) f"
  proof -
    have "signals u \<noteq> []" using that by (auto simp: covers_def)
    with timelineD [OF assms, of a f "signals u"] that show ?thesis by (simp add: report_def resolve_def)
  qed
qed

lemma worker_step_settles:
  assumes "timeline_semaphores sg fl" and "worker_step sg fl works (a, w) (a', w')"
  shows "(a f \<noteq> None \<longrightarrow> a' f \<noteq> None) \<and> (\<forall>p \<in> set (resolved w'). p \<in> set (resolved w)
    \<or> (covers (signals (fst p)) f \<longrightarrow> a' f \<noteq> None))"
  using assms(2) by (rule worker_stepE) (use report_answers [OF assms(1)] in \<open>auto simp: finish_def\<close>)

lemma pool_step_settled:
  assumes "timeline_semaphores sg fl" and "pool_step sg fl works (a, ws) (a', ws')" and "settled a ws"
  shows "settled a' ws'"
  using assms(2)
proof (cases rule: pool_step.cases)
  case (run i w)
  note keep = worker_step_settles [OF assms(1) run(3)]
  have "settled a' ws" using settled_mono [OF assms(3)] keep by blast
  moreover have "\<forall>p \<in> set (resolved w). \<forall>f. covers (signals (fst p)) f \<longrightarrow> a' f \<noteq> None"
    using keep \<open>settled a' ws\<close> nth_mem [OF run(2)] unfolding settled_def by blast
  ultimately show ?thesis
    unfolding settled_def run(1) using set_update_subset_insert [of ws i w] by blast
next
  case (enqueue ctx u st)
  have "resolved ` set ws' \<subseteq> resolved ` set ws" if "ws \<noteq> []"
  proof -
    have "min ctx (length ws - 1) < length ws" using that by (simp add: min_less_iff_disj)
    with enqueue show ?thesis
      by (auto simp: enqueue_on_def Let_def split: if_splits
            dest!: set_update_subset_insert [THEN subsetD])
  qed
  moreover have "ws' = []" if "ws = []"
    using that enqueue by (auto simp: enqueue_on_def Let_def split: if_splits)
  ultimately show ?thesis
    using assms(3) enqueue unfolding settled_def by (metis (no_types, lifting) imageE imageI subsetD)
next
  case shutdown
  with assms(3) show ?thesis by (auto simp: settled_def close_senders_def)
next
  case others
  with settled_mono [OF assms(3), of a'] show ?thesis by blast
qed

lemma pool_run_settled:
  assumes "timeline_semaphores sg fl" and "(pool_step sg fl works)\<^sup>*\<^sup>* s s'" and "settled (fst s) (snd s)"
  shows "settled (fst s') (snd s')"
  using assms(2,3)
proof (induction rule: rtranclp_induct)
  case (step s1 s2)
  then show ?case using pool_step_settled [OF assms(1), of works "fst s1" "snd s1" "fst s2" "snd s2"] by simp
qed simp

text \<open>
  The order \<open>pool.rs\<close> relies on: the units of a worker were submitted in the order of their numbers,
  and a unit waits only for what an earlier submission signals or for what is answered anyway.
\<close>

definition in_submission_order :: "answers \<Rightarrow> job list list \<Rightarrow> bool" where
  "in_submission_order a submitted \<longleftrightarrow> (\<forall>us \<in> set submitted. sorted_wrt (\<lambda>u v. job_id u < job_id v) us)
     \<and> (\<forall>us \<in> set submitted. \<forall>u \<in> set us. \<forall>f \<in> set (waits u). a f \<noteq> None
          \<or> (\<exists>vs \<in> set submitted. \<exists>v \<in> set vs. job_id v < job_id u \<and> covers (signals v) f))"

definition worker_stuck :: "(fence list \<Rightarrow> answers \<Rightarrow> answers) \<Rightarrow> (fence list \<Rightarrow> nat \<Rightarrow> answers \<Rightarrow> answers)
    \<Rightarrow> (job \<Rightarrow> nat option set) \<Rightarrow> answers \<Rightarrow> worker \<Rightarrow> bool" where
  "worker_stuck sg fl works a w \<longleftrightarrow> (\<forall>s. \<not> worker_step sg fl works (a, w) s)"

lemma stuck_phase:
  assumes "worker_stuck sg fl works a w" and "\<not> sender w" and "\<forall>u \<in> set (accepted w). works u \<noteq> {}"
    and "worker_ok w"
  shows "phase w = Exited \<or> (\<exists>u. phase w = Crashed u) \<or> (\<exists>u f fs. phase w = Waiting u (f # fs) \<and> a f = None)"
proof (cases "phase w")
  case Receiving
  with assms(1,2) worker_step.receive [of w _ _ sg fl works a] worker_step.hang_up [of w sg fl works a]
  show ?thesis unfolding worker_stuck_def by (cases "queue w") blast+
next
  case (Waiting u fs)
  show ?thesis
  proof (cases fs)
    case Nil
    with Waiting assms(1) worker_step.wait_ends [of w u sg fl works a] show ?thesis
      unfolding worker_stuck_def by blast
  next
    case (Cons f fs')
    have "a f \<noteq> Some st" for st
      using Waiting Cons assms(1) worker_step.wait_next [of w u f fs' a sg fl works]
        worker_step.wait_fails [of w u f fs' a st sg fl works]
      unfolding worker_stuck_def by (cases "st = 0") blast+
    with Waiting Cons show ?thesis by auto
  qed
next
  case (Running u)
  with assms(4) have "u \<in> set (accepted w)" by (simp add: worker_ok_def in_order_def)
  with assms(3) obtain r where "r \<in> works u" by blast
  with Running assms(1) worker_step.work_ends [of w u _ works sg fl a] worker_step.work_panics [of w u works sg fl a]
  show ?thesis unfolding worker_stuck_def by (cases r) blast+
qed simp_all

lemma stuck_pool:
  assumes stuck: "\<forall>w \<in> set ws. worker_stuck sg fl works a w" and ok: "list_all worker_ok ws" and "closed ws"
    and "settled a ws" and works: "\<forall>w \<in> set ws. \<forall>u \<in> set (accepted w). works u \<noteq> {}"
    and order: "in_submission_order a (map accepted ws)" and "\<forall>w \<in> set ws. \<forall>u. phase w \<noteq> Crashed u"
  shows "\<forall>w \<in> set ws. phase w = Exited"
proof -
  have phases: "phase w = Exited \<or> (\<exists>u f fs. phase w = Waiting u (f # fs) \<and> a f = None)" if "w \<in> set ws" for w
    using stuck_phase [of sg fl works a w] that assms unfolding closed_def list_all_iff by blast
  have "w \<in> set ws \<Longrightarrow> phase w \<noteq> Waiting u fs" if "job_id u = n" for w u fs n
    using that
  proof (induction n arbitrary: w u fs rule: less_induct)
    case (less n)
    show ?case
    proof
      assume "phase w = Waiting u fs"
      with phases [OF less.prems(1)] obtain f fs' where fs: "phase w = Waiting u (f # fs')" "a f = None" by auto
      have w: "worker_ok w" using ok less.prems(1) by (simp add: list_all_iff)
      with fs have "f \<in> set (waits u)" "u \<in> set (accepted w)" by (auto simp: worker_ok_def in_order_def)
      with order less.prems(1) fs(2) obtain w' u' where
        u': "w' \<in> set ws" "u' \<in> set (accepted w')" "job_id u' < job_id u" "covers (signals u') f"
        unfolding in_submission_order_def by fastforce
      have w': "worker_ok w'" using ok u'(1) by (simp add: list_all_iff)
      have unresolved: "u' \<notin> fst ` set (resolved w')"
        using settledD [OF \<open>settled a ws\<close> u'(1) _ u'(4)] fs(2) by blast
      from phases [OF u'(1)] show False
      proof (elim disjE exE conjE)
        assume "phase w' = Exited"
        with w' u'(2) unresolved show False by (auto simp: worker_ok_def in_order_def)
      next
        fix v g gs
        assume v: "phase w' = Waiting v (g # gs)" "a g = None"
        then have "accepted w' = map fst (resolved w') @ v # queue w'"
          using w' by (simp add: worker_ok_def in_order_def)
        moreover have "sorted_wrt (\<lambda>u v. job_id u < job_id v) (accepted w')"
          using order u'(1) unfolding in_submission_order_def by auto
        ultimately have "job_id v \<le> job_id u'"
          using u'(2) unresolved by (auto simp: sorted_wrt_append)
        with u'(3) less.prems(2) have "job_id v < n" by simp
        from less.IH [OF this u'(1) refl] v(1) show False by blast
      qed
    qed
  qed
  with phases show ?thesis by blast
qed

lemma stuck_workers:
  assumes "\<forall>s. pool_step sg fl works (a, ws) s \<longrightarrow> snd s = ws" and "w \<in> set ws"
  shows "worker_stuck sg fl works a w"
  unfolding worker_stuck_def
proof (intro allI notI)
  fix s
  assume step: "worker_step sg fl works (a, w) s"
  obtain a' w' where s: "s = (a', w')" by (cases s)
  obtain i where i: "i < length ws" "ws ! i = w" using assms(2) by (auto simp: in_set_conv_nth)
  from step s i pool_step.run [of i ws sg fl works a a' w'] assms(1) have "ws[i := w'] = ws" by force
  with i have "w' = w" by (metis nth_list_update_eq)
  with worker_step_drains [of sg fl works a w a' w'] step s show False by simp
qed

section \<open>Placement\<close>

text \<open>
  \<open>trait Placement\<close>: a policy names one of the workers. Whatever the policy, \<open>WorkerPool::place\<close>
  gives a context the pool has, and a unit for it goes to that context's own worker.
\<close>

locale placement_policy =
  fixes pick :: "nat \<Rightarrow> 's \<Rightarrow> nat \<times> 's"
  assumes chosen: "0 < n \<Longrightarrow> fst (pick n s) < n"
begin

lemma place_is_a_context:
  assumes "pool_new contexts = Done ws" and "(pool_step sg fl works)\<^sup>*\<^sup>* (a, ws) (a', ws')"
  shows "map context_id ws' ! fst (pick (length ws') s) = contexts ! fst (pick (length ws') s)
    \<and> fst (pick (length ws') s) < length contexts"
proof -
  note ids = pool_reach_ok(2) [OF assms]
  then have "length ws' = length contexts" by (metis length_map)
  moreover have "0 < length contexts" using assms(1) by (auto simp: pool_new_def ensure_eq_Done)
  ultimately show ?thesis using chosen ids by simp
qed

lemma enqueued_where_placed:
  assumes "ws \<noteq> []" and "enqueue_on (fst (pick (length ws) s)) u ws = (Enqueued, ws')"
  shows "last (accepted (ws' ! fst (pick (length ws) s))) = u"
proof -
  let ?i = "fst (pick (length ws) s)"
  have "?i < length ws" using assms(1) chosen by simp
  then have "min ?i (length ws - 1) = ?i" by linarith
  with assms(2) \<open>?i < length ws\<close> show ?thesis
    by (auto simp: enqueue_on_def Let_def split: if_splits)
qed

end

interpretation round_robin: placement_policy place
  by unfold_locales (simp add: place_def)

text \<open>The workers of \<open>n\<close> commands placed in turn.\<close>

fun place_all :: "nat \<Rightarrow> nat \<Rightarrow> nat \<Rightarrow> nat list" where
  "place_all workers 0 s = []"
| "place_all workers (Suc n) s = fst (place workers s) # place_all workers n (snd (place workers s))"

lemma place_all_eq: "s + n \<le> 2 ^ 64 \<Longrightarrow> place_all k n s = map (\<lambda>i. (s + i) mod k) [0..<n]"
proof (induction n arbitrary: s)
  case (Suc n)
  have "wrap64 (s + 1) = s + 1 \<or> n = 0" using Suc.prems by (cases n) auto
  moreover have "map (\<lambda>i. (s + i) mod k) [0..<Suc n] = (s mod k) # map (\<lambda>i. (s + 1 + i) mod k) [0..<n]"
    by (simp add: upt_conv_Cons map_Suc_upt [symmetric] comp_def del: upt_Suc)
  ultimately show ?case using Suc by (auto simp: place_def)
qed simp

lemma siblings_eq:
  assumes "home < count" and "count \<le> MAX_POOL_CONTEXTS"
  shows "siblings count home = map (\<lambda>i. i mod count) [home + 1..<home + count]"
proof -
  have "siblings count home = map (\<lambda>step. (home + step) mod count) [1..<count]"
    using assms unfolding siblings_def MAX_POOL_CONTEXTS_def by (intro map_cong) auto
  also have "\<dots> = map (\<lambda>i. i mod count) (map (\<lambda>i. i + home) [1..<count])" by (simp add: add.commute)
  also have "map (\<lambda>i. i + home) [1..<count] = [home + 1..<home + count]"
    by (rule nth_equalityI) simp_all
  finally show ?thesis .
qed

lemma siblings_are_the_others:
  assumes "home < count" and "count \<le> MAX_POOL_CONTEXTS"
  shows "distinct (siblings count home)" and "set (siblings count home) = {..<count} - {home}"
proof -
  have fold: "i mod count = (if i < count then i else i - count)" if "i < 2 * count" for i
    using that by (simp add: mod_if)
  show "distinct (siblings count home)"
    unfolding siblings_eq [OF assms] distinct_map
    using assms(1) by (auto simp: inj_on_def fold split: if_splits)
  have "i \<in> (\<lambda>i. i mod count) ` {home + 1..<home + count}" if "i < count" "i \<noteq> home" for i
  proof (cases "home < i")
    case True
    then have "i mod count = i" "i \<in> {home + 1..<home + count}" using that by simp_all
    then show ?thesis by (metis imageI)
  next
    case False
    then have "(i + count) mod count = i" "i + count \<in> {home + 1..<home + count}" using that assms(1) by simp_all
    then show ?thesis by (metis imageI)
  qed
  moreover have "i mod count < count \<and> i mod count \<noteq> home" if "i \<in> {home + 1..<home + count}" for i
    using that assms(1) by (auto simp: fold)
  ultimately show "set (siblings count home) = {..<count} - {home}"
    unfolding siblings_eq [OF assms] set_map set_upt by blast
qed

section \<open>Small pools\<close>

text \<open>A concrete timeline, and a pool of one worker on context 5.\<close>

definition signal_list :: "fence list \<Rightarrow> answers \<Rightarrow> answers" where
  "signal_list fs a = (\<lambda>f. if a f = None \<and> covers fs f then Some 0 else a f)"

definition fail_list :: "fence list \<Rightarrow> nat \<Rightarrow> answers \<Rightarrow> answers" where
  "fail_list fs st a = (\<lambda>f. if a f = None \<and> covers fs f then Some st else a f)"

lemma signal_list_timeline: "timeline_semaphores signal_list fail_list"
  by (auto simp: timeline_semaphores_def signal_list_def fail_list_def)

definition unit_of :: "nat \<Rightarrow> fence list \<Rightarrow> fence list \<Rightarrow> job" where
  "unit_of n fs gs = \<lparr>job_id = n, waits = fs, signals = gs\<rparr>"

definition holding :: "phase \<Rightarrow> job list \<Rightarrow> job list \<Rightarrow> worker" where
  "holding p q us = (new_worker 5)\<lparr>phase := p, queue := q, accepted := us\<rparr>"

lemma pool_new_one: "pool_new [5] = Done [holding Receiving [] []]"
  by (simp add: pool_new_def MAX_POOL_CONTEXTS_def holding_def new_worker_def)

lemma accept_one:
  "pool_step sg fl works (a, [holding Receiving q us]) (a, [holding Receiving (q @ [u]) (us @ [u])])"
  using pool_step.enqueue [of 0 u "[holding Receiving q us]" Enqueued "[holding Receiving (q @ [u]) (us @ [u])]"]
  by (simp add: enqueue_on_def holding_def new_worker_def)

lemma receive_one:
  "pool_step sg fl works (a, [holding Receiving (u # q) us]) (a, [holding (Waiting u (waits u)) q us])"
  using pool_step.run [of 0 "[holding Receiving (u # q) us]"]
    worker_step.receive [of "holding Receiving (u # q) us" u q]
  by (simp add: holding_def new_worker_def)

text \<open>
  The order matters: a unit that waits for what the next unit of its own queue signals is never
  done, also once the pool is closed.
\<close>

lemma waiting_on_a_later_unit_blocks:
  fixes works
  defines "u \<equiv> unit_of 1 [(3, 1)] []" and "v \<equiv> unit_of 2 [] [(3, 1)]"
  shows "(pool_step sg fl works)\<^sup>*\<^sup>* (Map.empty, [holding Receiving [] []])
      (Map.empty, close_senders [holding (Waiting u [(3, 1)]) [v] [u, v]])
    \<and> worker_stuck sg fl works Map.empty (holding (Waiting u [(3, 1)]) [v] [u, v]\<lparr>sender := False\<rparr>)"
proof
  let ?S = "pool_step sg fl works" and ?h = "\<lambda>p q us. (Map.empty :: answers, [holding p q us])"
  have 1: "?S (?h Receiving [] []) (?h Receiving [u] [u])"
    using accept_one [where q = "[]" and us = "[]"] by simp
  have 2: "?S (?h Receiving [u] [u]) (?h Receiving [u, v] [u, v])"
    using accept_one [where q = "[u]" and us = "[u]"] by simp
  have 3: "?S (?h Receiving [u, v] [u, v]) (?h (Waiting u [(3, 1)]) [v] [u, v])"
    using receive_one [of sg fl works Map.empty u "[v]"] by (simp add: u_def unit_of_def)
  show "?S\<^sup>*\<^sup>* (?h Receiving [] []) (Map.empty, close_senders [holding (Waiting u [(3, 1)]) [v] [u, v]])"
    by (rule rtranclp.rtrancl_into_rtrancl [OF rtranclp.rtrancl_into_rtrancl [OF
          rtranclp.rtrancl_into_rtrancl [OF r_into_rtranclp [of ?S, OF 1] 2] 3] pool_step.shutdown])
  show "worker_stuck sg fl works Map.empty (holding (Waiting u [(3, 1)]) [v] [u, v]\<lparr>sender := False\<rparr>)"
    unfolding worker_stuck_def by (auto elim!: worker_stepE simp: holding_def)
qed

section \<open>Properties\<close>




text \<open>
  C36 (termination): once \<open>shutdown\<close> has closed the channels the pool accepts no unit, every step of
  a worker decreases the work left, and a pool whose workers can no longer move has drained: every
  thread has exited with everything it accepted resolved. The hypotheses are those of \<open>pool.rs\<close>: the
  semaphores keep their contract, the work of every accepted unit returns or panics, and each fence
  a unit waits for is answered by others or signalled by a unit submitted before it. A panic ends
  the conclusion: what its unit was to signal is never answered.
\<close>

theorem closed_workers_drain:
  assumes "pool_new contexts = Done ws" and "(pool_step sg fl works)\<^sup>*\<^sup>* (a, ws) (a1, ws1)"
    and "(pool_step sg fl works)\<^sup>*\<^sup>* (a1, close_senders ws1) (a2, ws2)"
    and "timeline_semaphores sg fl" and "\<forall>w \<in> set ws1. \<forall>u \<in> set (accepted w). works u \<noteq> {}"
    and "in_submission_order a2 (map accepted ws1)"
  shows "map accepted ws2 = map accepted ws1 \<and> (\<forall>ctx u. enqueue_on ctx u ws2 = (Unavailable, ws2))
    \<and> (\<forall>a3 ws3. pool_step sg fl works (a2, ws2) (a3, ws3) \<longrightarrow> ws3 = ws2 \<or> pool_weight ws3 < pool_weight ws2)
    \<and> ((\<forall>s. pool_step sg fl works (a2, ws2) s \<longrightarrow> snd s = ws2) \<longrightarrow>
         (\<forall>w \<in> set ws2. phase w = Exited \<and> accepted w = map fst (resolved w)) \<or> (\<exists>w \<in> set ws2. \<exists>u. phase w = Crashed u))"
proof -
  let ?S = "pool_step sg fl works"
  have "?S\<^sup>*\<^sup>* (a, ws) (a1, close_senders ws1)"
    using assms(2) pool_step.shutdown by (rule rtranclp.rtrancl_into_rtrancl)
  with assms(3) have reach: "?S\<^sup>*\<^sup>* (a, ws) (a2, ws2)" by (meson rtranclp_trans)
  have ok: "list_all worker_ok ws2" and ids: "map context_id ws2 = contexts"
    using pool_reach_ok [OF assms(1) reach] .
  have ne: "contexts \<noteq> []" using assms(1) by (auto simp: pool_new_def ensure_eq_Done)
  then have ne1: "close_senders ws1 \<noteq> []" and ne2: "ws2 \<noteq> []"
    using pool_reach_ok(2) [OF assms(1,2)] ids by (auto simp: close_senders_def)
  have "closed (close_senders ws1)" by (auto simp: closed_def close_senders_def)
  from closed_run [OF assms(3) this ne1] have cl: "closed ws2" and "map accepted ws2 = map accepted (close_senders ws1)"
    by simp_all
  then have acc: "map accepted ws2 = map accepted ws1" by (simp add: close_senders_def comp_def)
  then have sets: "accepted ` set ws2 = accepted ` set ws1" by (metis image_set)
  have "settled (fst (a, ws)) (snd (a, ws))"
    using assms(1) by (auto simp: settled_def pool_new_def ensure_eq_Done new_worker_def)
  from pool_run_settled [OF assms(4) reach this] have set: "settled a2 ws2" by simp
  have works: "\<forall>w \<in> set ws2. \<forall>u \<in> set (accepted w). works u \<noteq> {}"
    using assms(5) sets by (metis (no_types, lifting) imageE imageI)
  have order: "in_submission_order a2 (map accepted ws2)" using assms(6) acc by simp
  have "(\<forall>w \<in> set ws2. phase w = Exited \<and> accepted w = map fst (resolved w)) \<or> (\<exists>w \<in> set ws2. \<exists>u. phase w = Crashed u)"
    if "\<forall>s. ?S (a2, ws2) s \<longrightarrow> snd s = ws2"
    using stuck_pool [OF _ ok cl set works order] stuck_workers [OF that] ok
    by (fastforce simp: list_all_iff worker_ok_def in_order_def)
  with acc closed_refuses [OF cl ne2] closed_step [OF _ cl ne2] show ?thesis by blast
qed

theorem closed_workers_drain_witness:
  "\<exists>ws. enqueue_on 0 (unit_of 3 [] []) ws = (Unavailable, ws)
     \<and> map accepted ws = [[unit_of 1 [] [(3, 1)], unit_of 2 [(3, 1)] []]]"
proof -
  let ?u = "unit_of 1 [] [(3, 1)]" and ?v = "unit_of 2 [(3, 1)] []"
  let ?S = "pool_step signal_list fail_list (\<lambda>_. {Some 0})"
  let ?h = "\<lambda>p q us. (Map.empty :: answers, [holding p q us])"
  have 1: "?S (?h Receiving [] []) (?h Receiving [?u] [?u])"
    using accept_one [where q = "[]" and us = "[]"] by simp
  have 2: "?S (?h Receiving [?u] [?u]) (?h Receiving [?u, ?v] [?u, ?v])"
    using accept_one [where q = "[?u]" and us = "[?u]"] by simp
  have run: "?S\<^sup>*\<^sup>* (?h Receiving [] []) (?h Receiving [?u, ?v] [?u, ?v])"
    using r_into_rtranclp [where r = ?S, OF 1] 2 by (rule rtranclp.rtrancl_into_rtrancl)
  have "in_submission_order Map.empty (map accepted [holding Receiving [?u, ?v] [?u, ?v]])"
    by (simp add: in_submission_order_def holding_def unit_of_def covers_def)
  from closed_workers_drain [OF pool_new_one run rtranclp.rtrancl_refl signal_list_timeline _ this]
  show ?thesis
    by (intro exI [of _ "close_senders [holding Receiving [?u, ?v] [?u, ?v]]"])
       (simp add: holding_def)
qed

text \<open>
  Round robin hands out the workers in turn until its 64-bit counter wraps, every
  choice is a context of the pool, and the siblings of a context are every other context, once.
\<close>

theorem placement_is_fair:
  assumes "pool_new contexts = Done ws" and "(pool_step sg fl works)\<^sup>*\<^sup>* (a, ws) (a', ws')" and "home < length ws'"
    and "s + n \<le> 2 ^ 64"
  shows "place_all (length ws') n s = map (\<lambda>i. (s + i) mod length ws') [0..<n]
    \<and> fst (place (length ws') s) < length contexts
    \<and> distinct (siblings (length ws') home) \<and> set (siblings (length ws') home) = {..<length ws'} - {home}"
proof -
  have len: "length ws' = length contexts" using pool_reach_ok(2) [OF assms(1,2)] by (metis length_map)
  then have "length ws' \<le> MAX_POOL_CONTEXTS" using assms(1) by (simp add: pool_new_def ensure_eq_Done)
  with siblings_are_the_others [OF assms(3)] place_all_eq [OF assms(4)]
    round_robin.place_is_a_context [OF assms(1,2)] show ?thesis by blast
qed

theorem placement_is_fair_witness:
  "place_all 3 7 0 = map (\<lambda>i. i mod 3) [0..<7] \<and> set (siblings 3 1) = {0, 2}"
proof -
  have new: "pool_new [4, 5, 6] = Done (map new_worker [4, 5, 6])"
    by (simp add: pool_new_def MAX_POOL_CONTEXTS_def)
  have three: "length (map new_worker [4, 5, 6]) = 3" by simp
  from placement_is_fair [OF new rtranclp.rtrancl_refl, of 1 0 7, unfolded three]
  have "place_all 3 7 0 = map (\<lambda>i. (0 + i) mod 3) [0..<7]" and "set (siblings 3 1) = {..<3} - {1}"
    by simp_all
  moreover have "{..<3} - {1} = {0, 2 :: nat}" by auto
  ultimately show ?thesis by (simp only: add_0)
qed

end
