(* ===== verification/PoolingPlan.thy ===== *)
theory PoolingPlan
  imports CubeLayout
begin

text \<open>
  Direct pooling (\<open>iree-rocket-hal/src/rocket/pooling.rs\<close>): the shape and its validation, the
  measured width limits, and the plan that cuts a wide image into column tiles. Every check is an
  assertion, so a rejected shape is a panic.
\<close>

type_synonym 'a ppu_result = "(string, 'a) outcome"

datatype pooling_method = MaxPool | MinPool | AvgPool

fun method_bits :: "pooling_method \<Rightarrow> nat" where
  "method_bits AvgPool = 0"
| "method_bits MaxPool = 1"
| "method_bits MinPool = 2"

datatype pooling_precision = PoolInt8 | PoolFp16

fun pad_fill_value :: "pooling_method \<Rightarrow> pooling_precision \<Rightarrow> nat option" where
  "pad_fill_value AvgPool p = Some 0"
| "pad_fill_value MaxPool PoolFp16 = Some 0xFC00"
| "pad_fill_value MaxPool PoolInt8 = None"
| "pad_fill_value MinPool p = None"

definition required_pad_fill :: "pooling_method \<Rightarrow> pooling_precision \<Rightarrow> bool \<Rightarrow> nat option" where
  "required_pad_fill m p padded =
     (case pad_fill_value m p of
        Some v \<Rightarrow> Some v
      | None \<Rightarrow> if padded then None else Some 0)"

fun pool_channels_per_atom :: "pooling_precision \<Rightarrow> nat" where
  "pool_channels_per_atom PoolInt8 = 16"
| "pool_channels_per_atom PoolFp16 = 8"

definition pool_element_bytes :: "pooling_precision \<Rightarrow> nat" where
  "pool_element_bytes p = FEATURE_ATOM_BYTES div pool_channels_per_atom p"

fun ppu_precision :: "pooling_precision \<Rightarrow> nat" where
  "ppu_precision PoolInt8 = 0"
| "ppu_precision PoolFp16 = 2"

fun rdma_precision :: "pooling_precision \<Rightarrow> nat" where
  "rdma_precision PoolInt8 = 1"
| "rdma_precision PoolFp16 = 2"

record pooling_shape =
  input_width :: nat
  input_height :: nat
  input_channels :: nat
  output_width :: nat
  output_height :: nat
  output_channels :: nat
  pool_precision :: pooling_precision
  kernel_width :: nat
  kernel_height :: nat
  stride_x :: nat
  stride_y :: nat
  pool_method :: pooling_method
  pad_left :: nat
  pad_top :: nat
  pad_right :: nat
  pad_bottom :: nat
  pad_value :: nat

section \<open>Limits\<close>

definition MAX_PPU_EXTENT :: nat where "MAX_PPU_EXTENT = 8192"
definition MAX_PPU_KERNEL_OR_STRIDE :: nat where "MAX_PPU_KERNEL_OR_STRIDE = 16"
definition MAX_PPU_PADDING :: nat where "MAX_PPU_PADDING = 7"
definition MAX_DIRECT_KERNEL :: nat where "MAX_DIRECT_KERNEL = 8"
definition DEFAULT_MAX_DIRECT_INPUT_WIDTH :: nat where "DEFAULT_MAX_DIRECT_INPUT_WIDTH = 129"
definition DEFAULT_MAX_DIRECT_OUTPUT_WIDTH :: nat where "DEFAULT_MAX_DIRECT_OUTPUT_WIDTH = 64"
definition K2S2_FP16_MAX_DIRECT_INPUT_WIDTH :: nat where "K2S2_FP16_MAX_DIRECT_INPUT_WIDTH = 256"
definition K2S2_FP16_MAX_DIRECT_OUTPUT_WIDTH :: nat where "K2S2_FP16_MAX_DIRECT_OUTPUT_WIDTH = 128"
definition K2S2_INT8_MAX_DIRECT_INPUT_WIDTH :: nat where "K2S2_INT8_MAX_DIRECT_INPUT_WIDTH = 130"
definition K2S2_INT8_MAX_DIRECT_OUTPUT_WIDTH :: nat where "K2S2_INT8_MAX_DIRECT_OUTPUT_WIDTH = 65"

lemmas ppu_consts =
  MAX_PPU_EXTENT_def MAX_PPU_KERNEL_OR_STRIDE_def MAX_PPU_PADDING_def MAX_DIRECT_KERNEL_def
  DEFAULT_MAX_DIRECT_INPUT_WIDTH_def DEFAULT_MAX_DIRECT_OUTPUT_WIDTH_def
  K2S2_FP16_MAX_DIRECT_INPUT_WIDTH_def K2S2_FP16_MAX_DIRECT_OUTPUT_WIDTH_def
  K2S2_INT8_MAX_DIRECT_INPUT_WIDTH_def K2S2_INT8_MAX_DIRECT_OUTPUT_WIDTH_def

definition overlapping_window_width_limits :: "nat \<Rightarrow> nat \<Rightarrow> (nat \<times> nat) option" where
  "overlapping_window_width_limits kh sy =
     (if kh \<le> 2 then None
      else if (kh = 3 \<or> kh = 4) \<and> sy = 1 then Some (34, 31)
      else if kh = 3 \<or> kh = 4 then None
      else if sy < kh then Some (20, 13)
      else None)"

definition unpadded_k2s2 :: "pooling_shape \<Rightarrow> bool" where
  "unpadded_k2s2 s \<longleftrightarrow> kernel_width s = 2 \<and> kernel_height s = 2 \<and> stride_x s = 2 \<and> stride_y s = 2
     \<and> pad_left s = 0 \<and> pad_top s = 0 \<and> pad_right s = 0 \<and> pad_bottom s = 0"

definition direct_width_limits :: "pooling_shape \<Rightarrow> nat \<times> nat" where
  "direct_width_limits s =
     (if unpadded_k2s2 s
      then (case pool_precision s of
              PoolFp16 \<Rightarrow> (K2S2_FP16_MAX_DIRECT_INPUT_WIDTH, K2S2_FP16_MAX_DIRECT_OUTPUT_WIDTH)
            | PoolInt8 \<Rightarrow> (K2S2_INT8_MAX_DIRECT_INPUT_WIDTH, K2S2_INT8_MAX_DIRECT_OUTPUT_WIDTH))
      else case overlapping_window_width_limits (kernel_height s) (stride_y s) of
             Some limits \<Rightarrow> limits
           | None \<Rightarrow> (DEFAULT_MAX_DIRECT_INPUT_WIDTH, DEFAULT_MAX_DIRECT_OUTPUT_WIDTH))"

section \<open>Validation\<close>

definition output_extent :: "nat \<Rightarrow> nat \<Rightarrow> nat \<Rightarrow> nat \<Rightarrow> nat \<Rightarrow> nat ppu_result" where
  "output_extent input k st before after =
     (case Option.bind (checked_add32 input before) (\<lambda>v. checked_add32 v after) of
        None \<Rightarrow> Panicked
      | Some padded \<Rightarrow>
          ensure (k \<le> padded) (
          obind (udiv (padded - k) st) (\<lambda>q. Done (wrap32 (q + 1)))))"

definition required_trailing_padding :: "nat \<Rightarrow> nat \<Rightarrow> nat \<Rightarrow> nat \<Rightarrow> nat \<Rightarrow> nat" where
  "required_trailing_padding input output k st leading =
     saturating_sub (wrap32 (sub32 output 1 * st + k)) (wrap32 (input + leading))"

definition validate_direct_kernel :: "nat \<Rightarrow> nat \<Rightarrow> unit ppu_result" where
  "validate_direct_kernel kw kh =
     ensure (kw \<le> MAX_DIRECT_KERNEL \<and> kh \<le> MAX_DIRECT_KERNEL) (Done ())"

definition validate_pooling_geometry :: "pooling_shape \<Rightarrow> unit ppu_result" where
  "validate_pooling_geometry s =
     ensure (list_all (\<lambda>v. 1 \<le> v \<and> v \<le> MAX_PPU_EXTENT)
       [input_width s, input_height s, input_channels s, output_width s, output_height s,
        output_channels s]) (
     ensure (list_all (\<lambda>v. 1 \<le> v \<and> v \<le> MAX_PPU_KERNEL_OR_STRIDE)
       [kernel_width s, kernel_height s, stride_x s, stride_y s]) (
     ensure (list_all (\<lambda>v. v \<le> MAX_PPU_PADDING)
       [pad_left s, pad_top s, pad_right s, pad_bottom s]) (
     ensure (input_channels s = output_channels s) (
     obind (output_extent (input_width s) (kernel_width s) (stride_x s) (pad_left s) (pad_right s)) (\<lambda>w.
     ensure (output_width s = w) (
     obind (output_extent (input_height s) (kernel_height s) (stride_y s) (pad_top s) (pad_bottom s)) (\<lambda>h.
     ensure (output_height s = h) (Done ()))))))))"

definition validate :: "pooling_shape \<Rightarrow> unit ppu_result" where
  "validate s =
     obind (validate_pooling_geometry s) (\<lambda>_.
     validate_direct_kernel (kernel_width s) (kernel_height s))"

section \<open>Channels\<close>

definition programmed_channels :: "pooling_shape \<Rightarrow> nat ppu_result" where
  "programmed_channels s =
     (case packed_channels Pooling (pool_element_bytes (pool_precision s)) (input_channels s) of
        Some c \<Rightarrow> Done c
      | None \<Rightarrow> Panicked)"

definition pool_packed_bytes_per_pixel :: "pooling_shape \<Rightarrow> nat ppu_result" where
  "pool_packed_bytes_per_pixel s =
     obind (programmed_channels s) (\<lambda>c. Done (wrap32 (c * pool_element_bytes (pool_precision s))))"

definition logical_bytes_per_pixel :: "pooling_shape \<Rightarrow> nat" where
  "logical_bytes_per_pixel s = wrap32 (input_channels s * pool_element_bytes (pool_precision s))"

section \<open>The plan\<close>

record pooling_tile =
  pt_input_first :: nat
  pt_input_width :: nat
  pt_output_first :: nat
  pt_output_width :: nat
  pt_pad_left :: nat
  pt_pad_right :: nat

record pooling_plan =
  pp_shape :: pooling_shape
  pp_tiles :: "pooling_tile list"

text \<open>The window of a tile, in \<open>i64\<close>.\<close>

definition pooling_tile_at :: "pooling_shape \<Rightarrow> nat \<Rightarrow> nat \<Rightarrow> pooling_tile" where
  "pooling_tile_at s first cols =
     (let raw_first = int (wrap32 (first * stride_x s)) - int (pad_left s);
          raw_stop = int (wrap32 (sub32 (wrap32 (first + cols)) 1 * stride_x s + kernel_width s))
                     - int (pad_left s);
          input_first = nat (max raw_first 0);
          input_stop = nat (max (min raw_stop (int (input_width s))) 0)
      in \<lparr>pt_input_first = input_first, pt_input_width = sub32 input_stop input_first,
          pt_output_first = first, pt_output_width = cols,
          pt_pad_left = nat (max (- raw_first) 0),
          pt_pad_right = nat (max (raw_stop - int (input_width s)) 0)\<rparr>)"

fun pooling_tiles ::
  "pooling_shape \<Rightarrow> nat \<times> nat \<Rightarrow> (nat \<Rightarrow> nat) \<Rightarrow> nat \<Rightarrow> nat list \<Rightarrow> pooling_tile list ppu_result" where
  "pooling_tiles s limits cols first [] = Done []"
| "pooling_tiles s limits cols first (index # rest) =
     (let t = pooling_tile_at s first (cols index)
      in ensure (pt_input_width t \<le> fst limits \<and> pt_output_width t \<le> snd limits) (
         obind (pooling_tiles s limits cols (wrap32 (first + cols index)) rest) (\<lambda>ts.
         Done (t # ts))))"

definition avoid_equal_int8_k2_tiles :: "pooling_shape \<Rightarrow> nat \<Rightarrow> nat \<Rightarrow> nat \<Rightarrow> bool" where
  "avoid_equal_int8_k2_tiles s count wider base \<longleftrightarrow>
     pool_precision s = PoolInt8 \<and> unpadded_k2s2 s \<and> count = 2 \<and> wider = 0 \<and> base = 64"

definition pooling_plan_new :: "pooling_shape \<Rightarrow> pooling_plan ppu_result" where
  "pooling_plan_new s =
     obind (validate s) (\<lambda>_.
     let limits = direct_width_limits s;
         tile_count = div_ceil (output_width s) (snd limits)
     in obind (udiv (output_width s) tile_count) (\<lambda>base_width.
        let wider_tiles = output_width s mod tile_count;
            first_wider = tile_count - wider_tiles;
            cols = (\<lambda>index. if avoid_equal_int8_k2_tiles s tile_count wider_tiles base_width
                            then wrap32 (sub32 base_width 1 + 2 * index)
                            else wrap32 (base_width + (if first_wider \<le> index then 1 else 0)))
        in obind (pooling_tiles s limits cols 0 [0..<tile_count]) (\<lambda>ts.
           Done \<lparr>pp_shape = s, pp_tiles = ts\<rparr>)))"

section \<open>Average reciprocals\<close>

text \<open>
  \<open>(n as f32).to_bits()\<close> for an integer exactly representable in single precision: the exponent is
  the position of the leading one.
\<close>

fun leading_bit :: "nat \<Rightarrow> nat" where
  "leading_bit n = (if n < 2 then 0 else Suc (leading_bit (n div 2)))"

declare leading_bit.simps [simp del]

definition f32_bits_of_nat :: "nat \<Rightarrow> nat" where
  "f32_bits_of_nat n =
     (if n = 0 then 0
      else (127 + leading_bit n) * 2 ^ 23 + (n * 2 ^ (23 - leading_bit n) - 2 ^ 23))"

text \<open>
  \<open>fp16_bits\<close> on the bits of a non-negative value: sign, exponent and mantissa occupy disjoint bits,
  so the disjunctions are sums.
\<close>

definition fp16_bits :: "nat \<Rightarrow> nat ppu_result" where
  "fp16_bits bits =
     (let sign = (bits div 2 ^ 31) * 2 ^ 15;
          exponent = int (bits div 2 ^ 23 mod 256) - 127 + 15;
          mantissa = bits mod 2 ^ 23;
          half = sign + nat exponent * 2 ^ 10 + mantissa div 2 ^ 13;
          remainder = mantissa mod 2 ^ 13
      in ensure (1 \<le> exponent \<and> exponent \<le> 30)
           (Done (if remainder > 0x1000 \<or> remainder = 0x1000 \<and> odd half
                  then (half + 1) mod 2 ^ 16 else half)))"

definition average_reciprocal :: "nat \<Rightarrow> pooling_precision \<Rightarrow> nat ppu_result" where
  "average_reciprocal k p =
     ensure (1 \<le> k) (
     let fixed_point = 2 ^ 16 div k
     in case p of
          PoolInt8 \<Rightarrow> Done (wrap32 fixed_point)
        | PoolFp16 \<Rightarrow> ensure (2 \<le> k) (fp16_bits (f32_bits_of_nat fixed_point)))"

text \<open>The values of the vendor's captures: \<open>0x8000\<close> at int8, \<open>0x7800\<close> and \<open>0x7555\<close> at fp16.\<close>

lemma reciprocal_bits:
  "f32_bits_of_nat 32768 = 0x47000000"
  "f32_bits_of_nat 21845 = 0x46AAAA00"
  "f32_bits_of_nat 16384 = 0x46800000"
  "f32_bits_of_nat 13107 = 0x464CCC00"
  "f32_bits_of_nat 10922 = 0x462AA800"
  "f32_bits_of_nat 9362 = 0x46124800"
  "f32_bits_of_nat 8192 = 0x46000000"
  by (simp_all add: f32_bits_of_nat_def leading_bit.simps)

lemma reciprocal_halves:
  "fp16_bits 0x47000000 = Done 0x7800"
  "fp16_bits 0x46AAAA00 = Done 0x7555"
  "fp16_bits 0x46800000 = Done 0x7400"
  "fp16_bits 0x464CCC00 = Done 0x7266"
  "fp16_bits 0x462AA800 = Done 0x7155"
  "fp16_bits 0x46124800 = Done 0x7092"
  "fp16_bits 0x46000000 = Done 0x7000"
  by (simp_all add: fp16_bits_def Let_def ensure_def)

lemmas reciprocal_steps = reciprocal_bits reciprocal_halves

lemma captured_reciprocals:
  "average_reciprocal 2 PoolInt8 = Done 0x8000"
  "average_reciprocal 2 PoolFp16 = Done 0x7800" "average_reciprocal 3 PoolFp16 = Done 0x7555"
  by (simp_all add: average_reciprocal_def ensure_def reciprocal_steps)

section \<open>Proofs\<close>

lemma output_extent_Done:
  assumes "output_extent input k st before after = Done extent"
    and "input \<le> 8192" "before \<le> 7" "after \<le> 7" "1 \<le> st"
  shows "k \<le> input + before + after" "extent = (input + before + after - k) div st + 1"
proof -
  have sum: "checked_add32 input before = Some (input + before)"
    "checked_add32 (input + before) after = Some (input + before + after)"
    using assms by (simp_all add: checked_add32_def)
  have "(input + before + after - k) div st \<le> input + before + after"
    by (rule le_trans [OF div_le_dividend diff_le_self])
  then have "wrap32 ((input + before + after - k) div st + 1) = (input + before + after - k) div st + 1"
    using assms by simp
  then show "k \<le> input + before + after" "extent = (input + before + after - k) div st + 1"
    using assms(1,5) by (simp_all add: output_extent_def sum ensure_eq_Done udiv_def)
qed

lemma validate_extents:
  assumes "validate s = Done ()"
  shows "\<forall>v \<in> {input_width s, input_height s, input_channels s, output_width s, output_height s}.
      1 \<le> v \<and> v \<le> 8192"
    "\<forall>v \<in> {kernel_width s, kernel_height s}. 1 \<le> v \<and> v \<le> 8"
    "\<forall>v \<in> {stride_x s, stride_y s}. 1 \<le> v \<and> v \<le> 16"
    "\<forall>v \<in> {pad_left s, pad_right s, pad_top s, pad_bottom s}. v \<le> 7"
    "output_extent (input_width s) (kernel_width s) (stride_x s) (pad_left s) (pad_right s) = Done (output_width s)"
    "output_extent (input_height s) (kernel_height s) (stride_y s) (pad_top s) (pad_bottom s) = Done (output_height s)"
  using assms
  by (auto simp: validate_def validate_pooling_geometry_def validate_direct_kernel_def ensure_eq_Done ppu_consts
      obind_eq_Done)

lemma validate_Done:
  assumes "validate s = Done ()"
  shows "1 \<le> input_width s" "input_width s \<le> 8192" "1 \<le> output_width s" "output_width s \<le> 8192"
    "1 \<le> kernel_width s" "kernel_width s \<le> 8" "kernel_height s \<le> 8" "1 \<le> stride_x s" "stride_x s \<le> 16"
    "pad_left s \<le> 7" "pad_right s \<le> 7" "kernel_width s \<le> input_width s + pad_left s + pad_right s"
    "output_width s = (input_width s + pad_left s + pad_right s - kernel_width s) div stride_x s + 1"
  using validate_extents [OF assms] output_extent_Done [OF validate_extents(5) [OF assms]] by auto

lemma validate_rows:
  assumes "validate s = Done ()"
  shows "kernel_height s \<le> input_height s + pad_top s + pad_bottom s"
    "output_height s = (input_height s + pad_top s + pad_bottom s - kernel_height s) div stride_y s + 1"
  using validate_extents [OF assms] output_extent_Done [OF validate_extents(6) [OF assms]] by auto

text \<open>The last window a tile reads ends inside the padded image, and nothing wraps.\<close>

lemma tile_reach:
  assumes v: "validate s = Done ()" and t: "0 < cols" "first + cols \<le> output_width s"
  shows "(first + cols - 1) * stride_x s + kernel_width s \<le> input_width s + pad_left s + pad_right s"
    and "first * stride_x s < 2 ^ 32" and "(first + cols - 1) * stride_x s + kernel_width s < 2 ^ 32"
proof -
  note v = validate_Done [OF v]
  have "first + cols - 1 \<le> (input_width s + pad_left s + pad_right s - kernel_width s) div stride_x s"
    using t v(13) by linarith
  then have "(first + cols - 1) * stride_x s \<le> input_width s + pad_left s + pad_right s - kernel_width s"
    using v(8) by (metis div_times_less_eq_dividend le_trans mult_le_mono1)
  then show reach: "(first + cols - 1) * stride_x s + kernel_width s \<le> input_width s + pad_left s + pad_right s"
    using v(12) by linarith
  moreover have "input_width s + pad_left s + pad_right s < 2 ^ 32" using v(2,10,11) by simp
  ultimately show small: "(first + cols - 1) * stride_x s + kernel_width s < 2 ^ 32"
    by (rule le_less_trans)
  have "first * stride_x s \<le> (first + cols - 1) * stride_x s" using t by (intro mult_le_mono1) simp
  then have "first * stride_x s \<le> (first + cols - 1) * stride_x s + kernel_width s"
    by (rule trans_le_add1)
  then show "first * stride_x s < 2 ^ 32" using small by (rule le_less_trans)
qed

lemma pooling_tile_at_eq:
  assumes v: "validate s = Done ()" and t: "0 < cols" "first + cols \<le> output_width s"
  shows "pooling_tile_at s first cols =
    (let lo = int (first * stride_x s) - int (pad_left s);
         hi = int ((first + cols - 1) * stride_x s + kernel_width s) - int (pad_left s)
     in \<lparr>pt_input_first = nat (max lo 0),
         pt_input_width = sub32 (nat (max (min hi (int (input_width s))) 0)) (nat (max lo 0)),
         pt_output_first = first, pt_output_width = cols,
         pt_pad_left = nat (max (- lo) 0), pt_pad_right = nat (max (hi - int (input_width s)) 0)\<rparr>)"
proof -
  note r = tile_reach [OF assms]
  have "wrap32 (first + cols) = first + cols" using t validate_Done(4) [OF v] by simp
  then have sub: "sub32 (wrap32 (first + cols)) 1 = first + cols - 1" using t by simp
  show ?thesis
    by (simp only: pooling_tile_at_def sub wrap32_id [OF r(2)] wrap32_id [OF r(3)] Let_def)
qed

end
