(* ===== verification/PpuRegisters.thy ===== *)
theory PpuRegisters
  imports RegisterWords
begin

text \<open>
  The registers of the planar processing unit (pooling) and of its reader, and their field setters
  (\<open>builders/ppu.rs\<close>, \<open>builders/ppu_rdma.rs\<close>); masks and shifts are those of \<open>rkt_registers.h\<close>.
\<close>

section \<open>The planar processing unit\<close>

definition PpuSStatus :: register_meta where
  "PpuSStatus = \<lparr>reg_domain = DOMAIN_PPU, reg_offset = 0x6000\<rparr>"

definition PpuSStatus_status_0 :: setter where
  "PpuSStatus_status_0 = field_setter 2 0x00000003 0"

definition PpuSStatus_status_1 :: setter where
  "PpuSStatus_status_1 = field_setter 2 0x00030000 16"

definition PpuSPointer :: register_meta where
  "PpuSPointer = \<lparr>reg_domain = DOMAIN_PPU, reg_offset = 0x6004\<rparr>"

definition PpuSPointer_pointer :: setter where
  "PpuSPointer_pointer = field_setter 1 0x00000001 0"

definition PpuSPointer_pointer_pp_en :: setter where
  "PpuSPointer_pointer_pp_en = field_setter 1 0x00000002 1"

definition PpuSPointer_executer_pp_en :: setter where
  "PpuSPointer_executer_pp_en = field_setter 1 0x00000004 2"

definition PpuSPointer_pointer_pp_mode :: setter where
  "PpuSPointer_pointer_pp_mode = field_setter 1 0x00000008 3"

definition PpuSPointer_pointer_pp_clear :: setter where
  "PpuSPointer_pointer_pp_clear = field_setter 1 0x00000010 4"

definition PpuSPointer_executer_pp_clear :: setter where
  "PpuSPointer_executer_pp_clear = field_setter 1 0x00000020 5"

definition PpuSPointer_executer :: setter where
  "PpuSPointer_executer = field_setter 1 0x00010000 16"

definition PpuOperationEnable :: register_meta where
  "PpuOperationEnable = \<lparr>reg_domain = DOMAIN_PPU, reg_offset = 0x6008\<rparr>"

definition PpuOperationEnable_op_en :: setter where
  "PpuOperationEnable_op_en = field_setter 1 0x00000001 0"

definition PpuDataCubeInWidth :: register_meta where
  "PpuDataCubeInWidth = \<lparr>reg_domain = DOMAIN_PPU, reg_offset = 0x600c\<rparr>"

definition PpuDataCubeInWidth_cube_in_width :: setter where
  "PpuDataCubeInWidth_cube_in_width = field_setter 13 0x00001fff 0"

definition PpuDataCubeInHeight :: register_meta where
  "PpuDataCubeInHeight = \<lparr>reg_domain = DOMAIN_PPU, reg_offset = 0x6010\<rparr>"

definition PpuDataCubeInHeight_cube_in_height :: setter where
  "PpuDataCubeInHeight_cube_in_height = field_setter 13 0x00001fff 0"

definition PpuDataCubeInChannel :: register_meta where
  "PpuDataCubeInChannel = \<lparr>reg_domain = DOMAIN_PPU, reg_offset = 0x6014\<rparr>"

definition PpuDataCubeInChannel_cube_in_channel :: setter where
  "PpuDataCubeInChannel_cube_in_channel = field_setter 13 0x00001fff 0"

definition PpuDataCubeOutWidth :: register_meta where
  "PpuDataCubeOutWidth = \<lparr>reg_domain = DOMAIN_PPU, reg_offset = 0x6018\<rparr>"

definition PpuDataCubeOutWidth_cube_out_width :: setter where
  "PpuDataCubeOutWidth_cube_out_width = field_setter 13 0x00001fff 0"

definition PpuDataCubeOutHeight :: register_meta where
  "PpuDataCubeOutHeight = \<lparr>reg_domain = DOMAIN_PPU, reg_offset = 0x601c\<rparr>"

definition PpuDataCubeOutHeight_cube_out_height :: setter where
  "PpuDataCubeOutHeight_cube_out_height = field_setter 13 0x00001fff 0"

definition PpuDataCubeOutChannel :: register_meta where
  "PpuDataCubeOutChannel = \<lparr>reg_domain = DOMAIN_PPU, reg_offset = 0x6020\<rparr>"

definition PpuDataCubeOutChannel_cube_out_channel :: setter where
  "PpuDataCubeOutChannel_cube_out_channel = field_setter 13 0x00001fff 0"

definition PpuOperationModeCfg :: register_meta where
  "PpuOperationModeCfg = \<lparr>reg_domain = DOMAIN_PPU, reg_offset = 0x6024\<rparr>"

definition PpuOperationModeCfg_pooling_method :: setter where
  "PpuOperationModeCfg_pooling_method = field_setter 2 0x00000003 0"

definition PpuOperationModeCfg_flying_mode :: setter where
  "PpuOperationModeCfg_flying_mode = field_setter 1 0x00000010 4"

definition PpuOperationModeCfg_use_cnt :: setter where
  "PpuOperationModeCfg_use_cnt = field_setter 3 0x000000e0 5"

definition PpuOperationModeCfg_notch_addr :: setter where
  "PpuOperationModeCfg_notch_addr = field_setter 13 0x1fff0000 16"

definition PpuOperationModeCfg_index_en :: setter where
  "PpuOperationModeCfg_index_en = field_setter 1 0x40000000 30"

definition PpuPoolingKernelCfg :: register_meta where
  "PpuPoolingKernelCfg = \<lparr>reg_domain = DOMAIN_PPU, reg_offset = 0x6034\<rparr>"

definition PpuPoolingKernelCfg_kernel_width :: setter where
  "PpuPoolingKernelCfg_kernel_width = field_setter 4 0x0000000f 0"

definition PpuPoolingKernelCfg_kernel_height :: setter where
  "PpuPoolingKernelCfg_kernel_height = field_setter 4 0x00000f00 8"

definition PpuPoolingKernelCfg_kernel_stride_width :: setter where
  "PpuPoolingKernelCfg_kernel_stride_width = field_setter 4 0x000f0000 16"

definition PpuPoolingKernelCfg_kernel_stride_height :: setter where
  "PpuPoolingKernelCfg_kernel_stride_height = field_setter 4 0x00f00000 20"

definition PpuRecipKernelWidth :: register_meta where
  "PpuRecipKernelWidth = \<lparr>reg_domain = DOMAIN_PPU, reg_offset = 0x6038\<rparr>"

definition PpuRecipKernelWidth_recip_kernel_width :: setter where
  "PpuRecipKernelWidth_recip_kernel_width = field_setter 17 0x0001ffff 0"

definition PpuRecipKernelHeight :: register_meta where
  "PpuRecipKernelHeight = \<lparr>reg_domain = DOMAIN_PPU, reg_offset = 0x603c\<rparr>"

definition PpuRecipKernelHeight_recip_kernel_height :: setter where
  "PpuRecipKernelHeight_recip_kernel_height = field_setter 17 0x0001ffff 0"

definition PpuPoolingPaddingCfg :: register_meta where
  "PpuPoolingPaddingCfg = \<lparr>reg_domain = DOMAIN_PPU, reg_offset = 0x6040\<rparr>"

definition PpuPoolingPaddingCfg_pad_left :: setter where
  "PpuPoolingPaddingCfg_pad_left = field_setter 3 0x00000007 0"

definition PpuPoolingPaddingCfg_pad_top :: setter where
  "PpuPoolingPaddingCfg_pad_top = field_setter 3 0x00000070 4"

definition PpuPoolingPaddingCfg_pad_right :: setter where
  "PpuPoolingPaddingCfg_pad_right = field_setter 3 0x00000700 8"

definition PpuPoolingPaddingCfg_pad_bottom :: setter where
  "PpuPoolingPaddingCfg_pad_bottom = field_setter 3 0x00007000 12"

definition PpuPaddingValue1Cfg :: register_meta where
  "PpuPaddingValue1Cfg = \<lparr>reg_domain = DOMAIN_PPU, reg_offset = 0x6044\<rparr>"

definition PpuPaddingValue1Cfg_pad_value_0 :: setter where
  "PpuPaddingValue1Cfg_pad_value_0 = field_setter 32 0xffffffff 0"

definition PpuPaddingValue2Cfg :: register_meta where
  "PpuPaddingValue2Cfg = \<lparr>reg_domain = DOMAIN_PPU, reg_offset = 0x6048\<rparr>"

definition PpuPaddingValue2Cfg_pad_value_1 :: setter where
  "PpuPaddingValue2Cfg_pad_value_1 = field_setter 3 0x00000007 0"

definition PpuDstBaseAddr :: register_meta where
  "PpuDstBaseAddr = \<lparr>reg_domain = DOMAIN_PPU, reg_offset = 0x6070\<rparr>"

definition PpuDstBaseAddr_dst_base_addr :: setter where
  "PpuDstBaseAddr_dst_base_addr = field_setter 28 0xfffffff0 4"

definition PpuDstSurfStride :: register_meta where
  "PpuDstSurfStride = \<lparr>reg_domain = DOMAIN_PPU, reg_offset = 0x607c\<rparr>"

definition PpuDstSurfStride_dst_surf_stride :: setter where
  "PpuDstSurfStride_dst_surf_stride = field_setter 28 0xfffffff0 4"

definition PpuDataFormat :: register_meta where
  "PpuDataFormat = \<lparr>reg_domain = DOMAIN_PPU, reg_offset = 0x6084\<rparr>"

definition PpuDataFormat_proc_precision :: setter where
  "PpuDataFormat_proc_precision = field_setter 3 0x00000007 0"

definition PpuDataFormat_dpu_flyin :: setter where
  "PpuDataFormat_dpu_flyin = field_setter 1 0x00000008 3"

definition PpuDataFormat_index_add :: setter where
  "PpuDataFormat_index_add = field_setter 28 0xfffffff0 4"

definition PpuMiscCtrl :: register_meta where
  "PpuMiscCtrl = \<lparr>reg_domain = DOMAIN_PPU, reg_offset = 0x60dc\<rparr>"

definition PpuMiscCtrl_burst_len :: setter where
  "PpuMiscCtrl_burst_len = field_setter 4 0x0000000f 0"

definition PpuMiscCtrl_nonalign :: setter where
  "PpuMiscCtrl_nonalign = field_setter 1 0x00000080 7"

definition PpuMiscCtrl_mc_surf_out :: setter where
  "PpuMiscCtrl_mc_surf_out = field_setter 1 0x00000100 8"

definition PpuMiscCtrl_surf_len :: setter where
  "PpuMiscCtrl_surf_len = field_setter 16 0xffff0000 16"

text \<open>Every register of the block with its setters, their widths and shifts.\<close>

definition ppu_block :: "(register_meta \<times> (setter \<times> nat \<times> nat) list) list" where
  "ppu_block =
     [(PpuSStatus, [
        (PpuSStatus_status_0, 2, 0), (PpuSStatus_status_1, 2, 16)]),
      (PpuSPointer, [
        (PpuSPointer_pointer, 1, 0), (PpuSPointer_pointer_pp_en, 1, 1),
        (PpuSPointer_executer_pp_en, 1, 2), (PpuSPointer_pointer_pp_mode, 1, 3),
        (PpuSPointer_pointer_pp_clear, 1, 4), (PpuSPointer_executer_pp_clear, 1, 5),
        (PpuSPointer_executer, 1, 16)]),
      (PpuOperationEnable, [
        (PpuOperationEnable_op_en, 1, 0)]),
      (PpuDataCubeInWidth, [
        (PpuDataCubeInWidth_cube_in_width, 13, 0)]),
      (PpuDataCubeInHeight, [
        (PpuDataCubeInHeight_cube_in_height, 13, 0)]),
      (PpuDataCubeInChannel, [
        (PpuDataCubeInChannel_cube_in_channel, 13, 0)]),
      (PpuDataCubeOutWidth, [
        (PpuDataCubeOutWidth_cube_out_width, 13, 0)]),
      (PpuDataCubeOutHeight, [
        (PpuDataCubeOutHeight_cube_out_height, 13, 0)]),
      (PpuDataCubeOutChannel, [
        (PpuDataCubeOutChannel_cube_out_channel, 13, 0)]),
      (PpuOperationModeCfg, [
        (PpuOperationModeCfg_pooling_method, 2, 0), (PpuOperationModeCfg_flying_mode, 1, 4),
        (PpuOperationModeCfg_use_cnt, 3, 5), (PpuOperationModeCfg_notch_addr, 13, 16),
        (PpuOperationModeCfg_index_en, 1, 30)]),
      (PpuPoolingKernelCfg, [
        (PpuPoolingKernelCfg_kernel_width, 4, 0), (PpuPoolingKernelCfg_kernel_height, 4, 8),
        (PpuPoolingKernelCfg_kernel_stride_width, 4, 16),
        (PpuPoolingKernelCfg_kernel_stride_height, 4, 20)]),
      (PpuRecipKernelWidth, [
        (PpuRecipKernelWidth_recip_kernel_width, 17, 0)]),
      (PpuRecipKernelHeight, [
        (PpuRecipKernelHeight_recip_kernel_height, 17, 0)]),
      (PpuPoolingPaddingCfg, [
        (PpuPoolingPaddingCfg_pad_left, 3, 0), (PpuPoolingPaddingCfg_pad_top, 3, 4),
        (PpuPoolingPaddingCfg_pad_right, 3, 8), (PpuPoolingPaddingCfg_pad_bottom, 3, 12)]),
      (PpuPaddingValue1Cfg, [
        (PpuPaddingValue1Cfg_pad_value_0, 32, 0)]),
      (PpuPaddingValue2Cfg, [
        (PpuPaddingValue2Cfg_pad_value_1, 3, 0)]),
      (PpuDstBaseAddr, [
        (PpuDstBaseAddr_dst_base_addr, 28, 4)]),
      (PpuDstSurfStride, [
        (PpuDstSurfStride_dst_surf_stride, 28, 4)]),
      (PpuDataFormat, [
        (PpuDataFormat_proc_precision, 3, 0), (PpuDataFormat_dpu_flyin, 1, 3),
        (PpuDataFormat_index_add, 28, 4)]),
      (PpuMiscCtrl, [
        (PpuMiscCtrl_burst_len, 4, 0), (PpuMiscCtrl_nonalign, 1, 7),
        (PpuMiscCtrl_mc_surf_out, 1, 8), (PpuMiscCtrl_surf_len, 16, 16)])]"

lemmas ppu_block_registers =
  PpuSStatus_def PpuSPointer_def PpuOperationEnable_def PpuDataCubeInWidth_def
  PpuDataCubeInHeight_def PpuDataCubeInChannel_def PpuDataCubeOutWidth_def
  PpuDataCubeOutHeight_def PpuDataCubeOutChannel_def PpuOperationModeCfg_def
  PpuPoolingKernelCfg_def PpuRecipKernelWidth_def PpuRecipKernelHeight_def
  PpuPoolingPaddingCfg_def PpuPaddingValue1Cfg_def PpuPaddingValue2Cfg_def PpuDstBaseAddr_def
  PpuDstSurfStride_def PpuDataFormat_def PpuMiscCtrl_def

lemmas ppu_block_setters =
  PpuSStatus_status_0_def PpuSStatus_status_1_def PpuSPointer_pointer_def
  PpuSPointer_pointer_pp_en_def PpuSPointer_executer_pp_en_def PpuSPointer_pointer_pp_mode_def
  PpuSPointer_pointer_pp_clear_def PpuSPointer_executer_pp_clear_def PpuSPointer_executer_def
  PpuOperationEnable_op_en_def PpuDataCubeInWidth_cube_in_width_def
  PpuDataCubeInHeight_cube_in_height_def PpuDataCubeInChannel_cube_in_channel_def
  PpuDataCubeOutWidth_cube_out_width_def PpuDataCubeOutHeight_cube_out_height_def
  PpuDataCubeOutChannel_cube_out_channel_def PpuOperationModeCfg_pooling_method_def
  PpuOperationModeCfg_flying_mode_def PpuOperationModeCfg_use_cnt_def
  PpuOperationModeCfg_notch_addr_def PpuOperationModeCfg_index_en_def
  PpuPoolingKernelCfg_kernel_width_def PpuPoolingKernelCfg_kernel_height_def
  PpuPoolingKernelCfg_kernel_stride_width_def PpuPoolingKernelCfg_kernel_stride_height_def
  PpuRecipKernelWidth_recip_kernel_width_def PpuRecipKernelHeight_recip_kernel_height_def
  PpuPoolingPaddingCfg_pad_left_def PpuPoolingPaddingCfg_pad_top_def
  PpuPoolingPaddingCfg_pad_right_def PpuPoolingPaddingCfg_pad_bottom_def
  PpuPaddingValue1Cfg_pad_value_0_def PpuPaddingValue2Cfg_pad_value_1_def
  PpuDstBaseAddr_dst_base_addr_def PpuDstSurfStride_dst_surf_stride_def
  PpuDataFormat_proc_precision_def PpuDataFormat_dpu_flyin_def PpuDataFormat_index_add_def
  PpuMiscCtrl_burst_len_def PpuMiscCtrl_nonalign_def PpuMiscCtrl_mc_surf_out_def
  PpuMiscCtrl_surf_len_def

section \<open>Its reader\<close>

definition PpuRdmaSStatus :: register_meta where
  "PpuRdmaSStatus = \<lparr>reg_domain = DOMAIN_PPU_RDMA, reg_offset = 0x7000\<rparr>"

definition PpuRdmaSStatus_status_0 :: setter where
  "PpuRdmaSStatus_status_0 = field_setter 2 0x00000003 0"

definition PpuRdmaSStatus_status_1 :: setter where
  "PpuRdmaSStatus_status_1 = field_setter 2 0x00030000 16"

definition PpuRdmaSPointer :: register_meta where
  "PpuRdmaSPointer = \<lparr>reg_domain = DOMAIN_PPU_RDMA, reg_offset = 0x7004\<rparr>"

definition PpuRdmaSPointer_pointer :: setter where
  "PpuRdmaSPointer_pointer = field_setter 1 0x00000001 0"

definition PpuRdmaSPointer_pointer_pp_en :: setter where
  "PpuRdmaSPointer_pointer_pp_en = field_setter 1 0x00000002 1"

definition PpuRdmaSPointer_executer_pp_en :: setter where
  "PpuRdmaSPointer_executer_pp_en = field_setter 1 0x00000004 2"

definition PpuRdmaSPointer_pointer_pp_mode :: setter where
  "PpuRdmaSPointer_pointer_pp_mode = field_setter 1 0x00000008 3"

definition PpuRdmaSPointer_pointer_pp_clear :: setter where
  "PpuRdmaSPointer_pointer_pp_clear = field_setter 1 0x00000010 4"

definition PpuRdmaSPointer_executer_pp_clear :: setter where
  "PpuRdmaSPointer_executer_pp_clear = field_setter 1 0x00000020 5"

definition PpuRdmaSPointer_executer :: setter where
  "PpuRdmaSPointer_executer = field_setter 1 0x00010000 16"

definition PpuRdmaOperationEnable :: register_meta where
  "PpuRdmaOperationEnable = \<lparr>reg_domain = DOMAIN_PPU_RDMA, reg_offset = 0x7008\<rparr>"

definition PpuRdmaOperationEnable_op_en :: setter where
  "PpuRdmaOperationEnable_op_en = field_setter 1 0x00000001 0"

definition PpuRdmaCubeInWidth :: register_meta where
  "PpuRdmaCubeInWidth = \<lparr>reg_domain = DOMAIN_PPU_RDMA, reg_offset = 0x700c\<rparr>"

definition PpuRdmaCubeInWidth_cube_in_width :: setter where
  "PpuRdmaCubeInWidth_cube_in_width = field_setter 13 0x00001fff 0"

definition PpuRdmaCubeInHeight :: register_meta where
  "PpuRdmaCubeInHeight = \<lparr>reg_domain = DOMAIN_PPU_RDMA, reg_offset = 0x7010\<rparr>"

definition PpuRdmaCubeInHeight_cube_in_height :: setter where
  "PpuRdmaCubeInHeight_cube_in_height = field_setter 13 0x00001fff 0"

definition PpuRdmaCubeInChannel :: register_meta where
  "PpuRdmaCubeInChannel = \<lparr>reg_domain = DOMAIN_PPU_RDMA, reg_offset = 0x7014\<rparr>"

definition PpuRdmaCubeInChannel_cube_in_channel :: setter where
  "PpuRdmaCubeInChannel_cube_in_channel = field_setter 13 0x00001fff 0"

definition PpuRdmaSrcBaseAddr :: register_meta where
  "PpuRdmaSrcBaseAddr = \<lparr>reg_domain = DOMAIN_PPU_RDMA, reg_offset = 0x701c\<rparr>"

definition PpuRdmaSrcBaseAddr_src_base_addr :: setter where
  "PpuRdmaSrcBaseAddr_src_base_addr = field_setter 32 0xffffffff 0"

definition PpuRdmaSrcLineStride :: register_meta where
  "PpuRdmaSrcLineStride = \<lparr>reg_domain = DOMAIN_PPU_RDMA, reg_offset = 0x7024\<rparr>"

definition PpuRdmaSrcLineStride_src_line_stride :: setter where
  "PpuRdmaSrcLineStride_src_line_stride = field_setter 28 0xfffffff0 4"

definition PpuRdmaSrcSurfStride :: register_meta where
  "PpuRdmaSrcSurfStride = \<lparr>reg_domain = DOMAIN_PPU_RDMA, reg_offset = 0x7028\<rparr>"

definition PpuRdmaSrcSurfStride_src_surf_stride :: setter where
  "PpuRdmaSrcSurfStride_src_surf_stride = field_setter 28 0xfffffff0 4"

definition PpuRdmaDataFormat :: register_meta where
  "PpuRdmaDataFormat = \<lparr>reg_domain = DOMAIN_PPU_RDMA, reg_offset = 0x7030\<rparr>"

definition PpuRdmaDataFormat_in_precision :: setter where
  "PpuRdmaDataFormat_in_precision = field_setter 2 0x00000003 0"

text \<open>Every register of the block with its setters, their widths and shifts.\<close>

definition ppu_rdma_block :: "(register_meta \<times> (setter \<times> nat \<times> nat) list) list" where
  "ppu_rdma_block =
     [(PpuRdmaSStatus, [
        (PpuRdmaSStatus_status_0, 2, 0), (PpuRdmaSStatus_status_1, 2, 16)]),
      (PpuRdmaSPointer, [
        (PpuRdmaSPointer_pointer, 1, 0), (PpuRdmaSPointer_pointer_pp_en, 1, 1),
        (PpuRdmaSPointer_executer_pp_en, 1, 2), (PpuRdmaSPointer_pointer_pp_mode, 1, 3),
        (PpuRdmaSPointer_pointer_pp_clear, 1, 4), (PpuRdmaSPointer_executer_pp_clear, 1, 5),
        (PpuRdmaSPointer_executer, 1, 16)]),
      (PpuRdmaOperationEnable, [
        (PpuRdmaOperationEnable_op_en, 1, 0)]),
      (PpuRdmaCubeInWidth, [
        (PpuRdmaCubeInWidth_cube_in_width, 13, 0)]),
      (PpuRdmaCubeInHeight, [
        (PpuRdmaCubeInHeight_cube_in_height, 13, 0)]),
      (PpuRdmaCubeInChannel, [
        (PpuRdmaCubeInChannel_cube_in_channel, 13, 0)]),
      (PpuRdmaSrcBaseAddr, [
        (PpuRdmaSrcBaseAddr_src_base_addr, 32, 0)]),
      (PpuRdmaSrcLineStride, [
        (PpuRdmaSrcLineStride_src_line_stride, 28, 4)]),
      (PpuRdmaSrcSurfStride, [
        (PpuRdmaSrcSurfStride_src_surf_stride, 28, 4)]),
      (PpuRdmaDataFormat, [
        (PpuRdmaDataFormat_in_precision, 2, 0)])]"

lemmas ppu_rdma_block_registers =
  PpuRdmaSStatus_def PpuRdmaSPointer_def PpuRdmaOperationEnable_def PpuRdmaCubeInWidth_def
  PpuRdmaCubeInHeight_def PpuRdmaCubeInChannel_def PpuRdmaSrcBaseAddr_def
  PpuRdmaSrcLineStride_def PpuRdmaSrcSurfStride_def PpuRdmaDataFormat_def

lemmas ppu_rdma_block_setters =
  PpuRdmaSStatus_status_0_def PpuRdmaSStatus_status_1_def PpuRdmaSPointer_pointer_def
  PpuRdmaSPointer_pointer_pp_en_def PpuRdmaSPointer_executer_pp_en_def
  PpuRdmaSPointer_pointer_pp_mode_def PpuRdmaSPointer_pointer_pp_clear_def
  PpuRdmaSPointer_executer_pp_clear_def PpuRdmaSPointer_executer_def
  PpuRdmaOperationEnable_op_en_def PpuRdmaCubeInWidth_cube_in_width_def
  PpuRdmaCubeInHeight_cube_in_height_def PpuRdmaCubeInChannel_cube_in_channel_def
  PpuRdmaSrcBaseAddr_src_base_addr_def PpuRdmaSrcLineStride_src_line_stride_def
  PpuRdmaSrcSurfStride_src_surf_stride_def PpuRdmaDataFormat_in_precision_def

end
