(* ===== verification/PoolingProgram.thy ===== *)
theory PoolingProgram
  imports PoolingPlan PpuRegisters
begin

text \<open>
  The command program of a pooling tile (\<open>build_pooling_tile_task\<close> and \<open>programs_with_buffers\<close> of
  \<open>rocket/pooling.rs\<close>), register by register in the order the code pushes them.
\<close>

definition push_ppu_kick :: "reg_cmd list \<Rightarrow> reg_cmd list" where
  "push_ppu_kick cmds =
     (let kicked = push_kick cmds (MASK_PPU OR MASK_PPU_RDMA)
      in kicked @ replicate ((4 - length kicked mod 4) mod 4) alignment_padding)"

section \<open>The values computed before the program\<close>

definition ATOMIC_K_SIZE :: nat where "ATOMIC_K_SIZE = 16"
definition FEATURE_ATOMIC_SIZE :: nat where "FEATURE_ATOMIC_SIZE = 16"

definition src_line_stride :: "pooling_shape \<Rightarrow> nat" where
  "src_line_stride s = wrap32 (input_width s * ATOMIC_K_SIZE) div FEATURE_ATOMIC_SIZE"

definition src_surf_stride :: "pooling_shape \<Rightarrow> nat" where
  "src_surf_stride s =
     wrap32 (next_multiple_of
       (wrap32 (input_width s * ATOMIC_K_SIZE * input_height s) div FEATURE_ATOMIC_SIZE) 4)"

definition dst_surf_stride :: "pooling_shape \<Rightarrow> nat" where
  "dst_surf_stride s =
     wrap32 (next_multiple_of
       (wrap32 (output_width s * ATOMIC_K_SIZE * output_height s) div FEATURE_ATOMIC_SIZE) 4)"

definition task_channels :: "pooling_shape \<Rightarrow> nat" where
  "task_channels s =
     wrap32 (next_multiple_of (input_channels s) (pool_channels_per_atom (pool_precision s)))"

definition reciprocals :: "pooling_shape \<Rightarrow> (nat \<times> nat) ppu_result" where
  "reciprocals s =
     (case pool_method s of
        AvgPool \<Rightarrow>
          obind (average_reciprocal (kernel_width s) (pool_precision s)) (\<lambda>w.
          obind (average_reciprocal (kernel_height s) (pool_precision s)) (\<lambda>h. Done (w, h)))
      | MaxPool \<Rightarrow> Done (0, 0)
      | MinPool \<Rightarrow> Done (0, 0))"

definition programmed_pad_bottom :: "pooling_shape \<Rightarrow> nat" where
  "programmed_pad_bottom s =
     required_trailing_padding (input_height s) (output_height s) (kernel_height s) (stride_y s)
       (pad_top s)"

section \<open>The three blocks of the program\<close>

definition pointer_commands :: writes where
  "pointer_commands =
     [(PpuSPointer,
        [PpuSPointer_pointer_pp_mode 1, PpuSPointer_executer_pp_en 1, PpuSPointer_pointer_pp_en 1,
         PpuSPointer_pointer_pp_clear 1, PpuSPointer_executer_pp_clear 1]),
      (PpuRdmaSPointer,
        [PpuRdmaSPointer_pointer_pp_mode 1, PpuRdmaSPointer_executer_pp_en 1,
         PpuRdmaSPointer_pointer_pp_en 1, PpuRdmaSPointer_pointer_pp_clear 1,
         PpuRdmaSPointer_executer_pp_clear 1])]"

definition ppu_commands ::
  "pooling_shape \<Rightarrow> pooling_tile \<Rightarrow> nat \<Rightarrow> nat \<times> nat \<Rightarrow> writes" where
  "ppu_commands s t output_addr recips =
     [(PpuDataCubeInWidth,
        [PpuDataCubeInWidth_cube_in_width (sub32 (pt_input_width t) 1)]),
      (PpuDataCubeInHeight,
        [PpuDataCubeInHeight_cube_in_height (sub32 (input_height s) 1)]),
      (PpuDataCubeInChannel,
        [PpuDataCubeInChannel_cube_in_channel (sub32 (task_channels s) 1)]),
      (PpuDataCubeOutWidth,
        [PpuDataCubeOutWidth_cube_out_width (sub32 (pt_output_width t) 1)]),
      (PpuDataCubeOutHeight,
        [PpuDataCubeOutHeight_cube_out_height (sub32 (output_height s) 1)]),
      (PpuDataCubeOutChannel,
        [PpuDataCubeOutChannel_cube_out_channel (sub32 (task_channels s) 1)]),
      (PpuOperationModeCfg,
        [PpuOperationModeCfg_pooling_method (method_bits (pool_method s)),
         PpuOperationModeCfg_flying_mode 1, PpuOperationModeCfg_index_en 0,
         PpuOperationModeCfg_use_cnt 0,
         PpuOperationModeCfg_notch_addr (sub32 (output_width s) (pt_output_width t))]),
      (PpuPoolingKernelCfg,
        [PpuPoolingKernelCfg_kernel_width (sub32 (kernel_width s) 1),
         PpuPoolingKernelCfg_kernel_height (sub32 (kernel_height s) 1),
         PpuPoolingKernelCfg_kernel_stride_width (sub32 (stride_x s) 1),
         PpuPoolingKernelCfg_kernel_stride_height (sub32 (stride_y s) 1)]),
      (PpuRecipKernelWidth, [PpuRecipKernelWidth_recip_kernel_width (fst recips)]),
      (PpuRecipKernelHeight, [PpuRecipKernelHeight_recip_kernel_height (snd recips)]),
      (PpuPoolingPaddingCfg,
        [PpuPoolingPaddingCfg_pad_left (pt_pad_left t), PpuPoolingPaddingCfg_pad_top (pad_top s),
         PpuPoolingPaddingCfg_pad_right (pt_pad_right t),
         PpuPoolingPaddingCfg_pad_bottom (programmed_pad_bottom s)]),
      (PpuPaddingValue1Cfg, [PpuPaddingValue1Cfg_pad_value_0 (pad_value s)]),
      (PpuPaddingValue2Cfg, []),
      (PpuDstBaseAddr, [PpuDstBaseAddr_dst_base_addr (output_addr div 16)]),
      (PpuDstSurfStride, [PpuDstSurfStride_dst_surf_stride (dst_surf_stride s)]),
      (PpuDataFormat,
        [PpuDataFormat_proc_precision (ppu_precision (pool_precision s)), PpuDataFormat_dpu_flyin 0,
         PpuDataFormat_index_add (dst_surf_stride s)]),
      (PpuMiscCtrl,
        [PpuMiscCtrl_burst_len 3, PpuMiscCtrl_nonalign 0, PpuMiscCtrl_mc_surf_out 0,
         PpuMiscCtrl_surf_len 0])]"

definition ppu_rdma_commands ::
  "pooling_shape \<Rightarrow> pooling_tile \<Rightarrow> nat \<Rightarrow> writes" where
  "ppu_rdma_commands s t input_addr =
     [(PpuRdmaCubeInWidth,
        [PpuRdmaCubeInWidth_cube_in_width (sub32 (pt_input_width t) 1)]),
      (PpuRdmaCubeInHeight,
        [PpuRdmaCubeInHeight_cube_in_height (sub32 (input_height s) 1)]),
      (PpuRdmaCubeInChannel,
        [PpuRdmaCubeInChannel_cube_in_channel (sub32 (task_channels s) 1)]),
      (PpuRdmaSrcBaseAddr, [PpuRdmaSrcBaseAddr_src_base_addr input_addr]),
      (PpuRdmaSrcLineStride,
        [PpuRdmaSrcLineStride_src_line_stride (src_line_stride s)]),
      (PpuRdmaSrcSurfStride,
        [PpuRdmaSrcSurfStride_src_surf_stride (src_surf_stride s)]),
      (PpuRdmaDataFormat,
        [PpuRdmaDataFormat_in_precision (rdma_precision (pool_precision s))])]"

section \<open>The task of a tile, the programs of a plan\<close>

definition expect_add32 :: "nat \<Rightarrow> nat \<Rightarrow> nat ppu_result" where
  "expect_add32 a b = (case checked_add32 a b of Some v \<Rightarrow> Done v | None \<Rightarrow> Panicked)"

definition build_pooling_tile_task ::
  "pooling_shape \<Rightarrow> pooling_tile \<Rightarrow> nat \<Rightarrow> nat \<Rightarrow> reg_cmd list ppu_result" where
  "build_pooling_tile_task s t input_addr output_addr =
     obind (validate s) (\<lambda>_.
     let limits = direct_width_limits s
     in ensure (pt_input_width t \<le> fst limits \<and> pt_output_width t \<le> snd limits) (
        obind (expect_add32 input_addr (wrap32 (pt_input_first t * 16))) (\<lambda>input_addr.
        ensure (output_addr mod 16 = 0) (
        obind (reciprocals s) (\<lambda>recips.
        obind (write_all (pointer_commands @ ppu_commands s t output_addr recips
                         @ ppu_rdma_commands s t input_addr)) (\<lambda>cmds.
        Done (push_ppu_kick cmds)))))))"

fun programs_of_tiles ::
  "pooling_shape \<Rightarrow> nat \<Rightarrow> nat \<Rightarrow> pooling_tile list \<Rightarrow> reg_cmd list list ppu_result" where
  "programs_of_tiles s input_addr output_addr [] = Done []"
| "programs_of_tiles s input_addr output_addr (t # ts) =
     obind (expect_add32 output_addr (wrap32 (pt_output_first t * 16))) (\<lambda>addr.
     obind (build_pooling_tile_task s t input_addr addr) (\<lambda>p.
     obind (programs_of_tiles s input_addr output_addr ts) (\<lambda>ps. Done (p # ps))))"

definition programs_with_buffers :: "pooling_plan \<Rightarrow> nat \<Rightarrow> nat \<Rightarrow> reg_cmd list list ppu_result" where
  "programs_with_buffers plan input_addr output_addr =
     programs_of_tiles (pp_shape plan) input_addr output_addr (pp_tiles plan)"

end
