(* ===== verification/PoolingProperties.thy ===== *)
theory PoolingProperties
  imports PoolingPlan
begin

text \<open>
  The pooling plan's contract: the tiles of \<open>PoolingPlan::new\<close> cover the output columns once, in
  order, and each reads exactly the window its columns need; and a condition on a validated shape
  under which the constructor returns.
\<close>

section \<open>Column widths\<close>

definition columns_of :: "pooling_shape \<Rightarrow> nat \<Rightarrow> nat" where
  "columns_of s = (let n = div_ceil (output_width s) (snd (direct_width_limits s));
                       base = output_width s div n; wider = output_width s mod n
                   in (\<lambda>index. if avoid_equal_int8_k2_tiles s n wider base
                               then wrap32 (sub32 base 1 + 2 * index)
                               else wrap32 (base + (if n - wider \<le> index then 1 else 0))))"

lemma direct_width_limits_range:
  "13 \<le> snd (direct_width_limits s)" "snd (direct_width_limits s) \<le> 128"
  "fst (direct_width_limits s) \<le> 256"
  by (auto simp: direct_width_limits_def ppu_consts overlapping_window_width_limits_def
      split: pooling_precision.splits option.splits if_splits)

lemma pooling_plan_new_eq:
  assumes "validate s = Done ()" and "0 < div_ceil (output_width s) (snd (direct_width_limits s))"
  shows "pooling_plan_new s =
    obind (pooling_tiles s (direct_width_limits s) (columns_of s) 0
      [0..<div_ceil (output_width s) (snd (direct_width_limits s))])
      (\<lambda>ts. Done \<lparr>pp_shape = s, pp_tiles = ts\<rparr>)"
  using assms by (simp add: pooling_plan_new_def columns_of_def Let_def udiv_def)

lemma pooling_plan_new_Done:
  assumes "pooling_plan_new s = Done plan"
  shows "validate s = Done ()" "pp_shape plan = s"
    and "pooling_tiles s (direct_width_limits s) (columns_of s) 0
           [0..<div_ceil (output_width s) (snd (direct_width_limits s))] = Done (pp_tiles plan)"
  using assms by (auto simp: pooling_plan_new_def columns_of_def Let_def udiv_def elim!: obind_DoneE split: if_splits)

lemma sum_with_wider:
  "w < n \<Longrightarrow> (\<Sum>i\<leftarrow>[0..<n]. base + (if n - w \<le> i then 1 else 0)) = base * n + (w::nat)"
proof (induction n arbitrary: w)
  case (Suc n)
  show ?case
  proof (cases w)
    case 0
    have "(\<Sum>i\<leftarrow>[0..<n]. base + (if Suc n \<le> i then 1 else 0)) = (\<Sum>i\<leftarrow>[0..<n]. base)"
      by (intro arg_cong [where f = sum_list] map_cong) auto
    then show ?thesis using 0 by (simp add: sum_list_triv)
  next
    case (Suc v)
    have "(\<Sum>i\<leftarrow>[0..<n]. base + (if n - v \<le> i then 1 else 0)) = base * n + v"
      using Suc.IH [of v] Suc Suc.prems by simp
    then show ?thesis using Suc by simp
  qed
qed simp

lemma columns_cover:
  assumes v: "validate s = Done ()"
  defines "L \<equiv> snd (direct_width_limits s)"
  shows "sum_list (map (columns_of s) [0..<div_ceil (output_width s) L]) = output_width s"
    and "i < div_ceil (output_width s) L \<Longrightarrow> 0 < columns_of s i \<and> columns_of s i \<le> L"
proof -
  define n where "n = div_ceil (output_width s) L"
  let ?ow = "output_width s" let ?base = "?ow div n" and ?w = "?ow mod n"
  have L: "0 < L" using direct_width_limits_range(1) [of s] by (simp add: L_def)
  have n: "0 < n" "n \<le> ?ow" "?ow \<le> n * L"
    using validate_Done(3) [OF v] L by (auto simp: n_def div_ceil_le_self div_ceil_mult_ge)
  have split: "?ow = ?base * n + ?w" by simp
  have w: "?w < n" using n(1) by simp
  have base: "0 < ?base" "?base \<le> 8192"
    using n validate_Done(4) [OF v] by (auto simp: div_greater_zero_iff intro: le_trans [OF div_le_dividend])
  have cols: "columns_of s = (\<lambda>i. if avoid_equal_int8_k2_tiles s n ?w ?base
      then wrap32 (sub32 ?base 1 + 2 * i) else wrap32 (?base + (if n - ?w \<le> i then 1 else 0)))"
    unfolding columns_of_def L_def [symmetric] n_def [symmetric] Let_def by (rule refl)
  have "sum_list (map (columns_of s) [0..<n]) = ?ow \<and> (\<forall>i<n. 0 < columns_of s i \<and> columns_of s i \<le> L)"
  proof (cases "avoid_equal_int8_k2_tiles s n ?w ?base")
    case True
    then have k: "n = 2" "?w = 0" "?base = 64" "L = 65"
      by (auto simp: avoid_equal_int8_k2_tiles_def L_def direct_width_limits_def ppu_consts)
    have "columns_of s = (\<lambda>i. wrap32 (63 + 2 * i))" using True k(3) by (simp add: cols)
    moreover from k have "?ow mod 2 = 0" "?ow div 2 = 64" by auto
    then have "?ow = 128" by presburger
    ultimately show ?thesis using k(1,4) by (auto simp: upt_rec less_2_cases_iff)
  next
    case False
    have c: "columns_of s = (\<lambda>i. ?base + (if n - ?w \<le> i then 1 else 0))"
      using False base(2) by (auto simp: cols)
    have "?base + (if n - ?w \<le> i then 1 else 0) \<le> L" if "i < n" for i
    proof (cases "?w = 0")
      case True
      have "?base * n \<le> L * n" using n(3) split True by (simp add: mult.commute)
      then show ?thesis using True that n(1) by simp
    next
      case False
      moreover have "?base * n + ?w \<le> L * n" using n(3) by (simp add: mult.commute)
      ultimately have "?base * n < L * n" by linarith
      then show ?thesis by simp
    qed
    then show ?thesis using sum_with_wider [OF w, of ?base] base(1) by (simp add: c)
  qed
  then show "sum_list (map (columns_of s) [0..<div_ceil ?ow L]) = ?ow"
    and "i < div_ceil ?ow L \<Longrightarrow> 0 < columns_of s i \<and> columns_of s i \<le> L"
    by (auto simp: n_def)
qed

section \<open>The tiles\<close>

definition columns_of_tile :: "pooling_tile \<Rightarrow> nat list" where
  "columns_of_tile t = [pt_output_first t..<pt_output_first t + pt_output_width t]"

lemma pooling_tiles_cover:
  assumes "pooling_tiles s limits cols first idx = Done ts"
    and "first + sum_list (map cols idx) < 2 ^ 32"
  shows "concat (map columns_of_tile ts) = [first..<first + sum_list (map cols idx)]"
  using assms
proof (induction idx arbitrary: first ts)
  case (Cons i idx)
  then obtain rest where rest: "pooling_tiles s limits cols (wrap32 (first + cols i)) idx = Done rest"
    and ts: "ts = pooling_tile_at s first (cols i) # rest"
    by (auto simp: Let_def ensure_eq_Done obind_eq_Done)
  have w: "wrap32 (first + cols i) = first + cols i" using Cons.prems(2) by simp
  have "columns_of_tile (pooling_tile_at s first (cols i)) = [first..<first + cols i]"
    by (simp add: columns_of_tile_def pooling_tile_at_def Let_def)
  moreover have "concat (map columns_of_tile rest) = [first + cols i..<first + cols i + sum_list (map cols idx)]"
    using Cons.IH [OF rest] Cons.prems(2) w by (simp add: add.assoc)
  ultimately show ?case
    using upt_add_eq_append [of first "first + cols i" "sum_list (map cols idx)"]
    by (simp add: ts add.assoc)
qed simp

lemma pooling_tiles_members:
  assumes "pooling_tiles s limits cols first idx = Done ts" and "t \<in> set ts"
    and "first + sum_list (map cols idx) \<le> output_width s" "output_width s < 2 ^ 32"
    and "\<forall>i\<in>set idx. 0 < cols i"
  shows "\<exists>f c. t = pooling_tile_at s f c \<and> 0 < c \<and> f + c \<le> output_width s
    \<and> pt_input_width t \<le> fst limits \<and> c \<le> snd limits"
  using assms
proof (induction idx arbitrary: first ts)
  case (Cons i idx)
  then obtain rest where rest: "pooling_tiles s limits cols (wrap32 (first + cols i)) idx = Done rest"
    and ts: "ts = pooling_tile_at s first (cols i) # rest"
    and lim: "pt_input_width (pooling_tile_at s first (cols i)) \<le> fst limits"
      "pt_output_width (pooling_tile_at s first (cols i)) \<le> snd limits"
    by (auto simp: Let_def ensure_eq_Done obind_eq_Done)
  have w: "wrap32 (first + cols i) = first + cols i" using Cons.prems(3,4) by simp
  show ?case
  proof (cases "t \<in> set rest")
    case True
    show ?thesis by (rule Cons.IH [OF rest True]) (use Cons.prems w in auto)
  next
    case False
    then have "t = pooling_tile_at s first (cols i)" using Cons.prems(2) by (simp add: ts)
    moreover have "pt_output_width (pooling_tile_at s first (cols i)) = cols i"
      by (simp add: pooling_tile_at_def Let_def)
    ultimately show ?thesis using lim Cons.prems(3,5) by (intro exI [of _ first] exI [of _ "cols i"]) auto
  qed
qed simp

lemma pooling_tile_window:
  assumes v: "validate s = Done ()" and t: "t = pooling_tile_at s f c" and c: "0 < c" "f + c \<le> output_width s"
    and lim: "pt_input_width t \<le> 256"
  shows "pt_input_first t + pt_input_width t \<le> input_width s"
    and "pt_input_first t + pad_left s = f * stride_x s + pt_pad_left t"
    and "pt_output_first t = f" "pt_output_width t = c" "pt_pad_left t \<le> 7" "pt_pad_right t \<le> 7"
    and "0 < pt_input_width t \<Longrightarrow>
      pt_pad_left t + pt_input_width t + pt_pad_right t = (c - 1) * stride_x s + kernel_width s"
    and "f \<le> x \<Longrightarrow> x < f + c \<Longrightarrow> k < kernel_width s \<Longrightarrow> pad_left s \<le> x * stride_x s + k \<Longrightarrow>
      x * stride_x s + k - pad_left s < input_width s \<Longrightarrow>
      pt_input_first t \<le> x * stride_x s + k - pad_left s
      \<and> x * stride_x s + k - pad_left s < pt_input_first t + pt_input_width t"
proof -
  define a where "a = f * stride_x s"
  define b where "b = (f + c - 1) * stride_x s + kernel_width s"
  define lo where "lo = nat (max (int a - int (pad_left s)) 0)"
  define hi where "hi = nat (max (min (int b - int (pad_left s)) (int (input_width s))) 0)"
  note bounds = validate_Done [OF v]
  have reach: "b \<le> input_width s + pad_left s + pad_right s"
    using tile_reach(1) [OF v c] by (simp add: b_def)
  have "(f + c - 1) * stride_x s = a + (c - 1) * stride_x s"
    using c by (simp add: a_def add_mult_distrib [symmetric])
  then have b: "b = a + (c - 1) * stride_x s + kernel_width s" by (simp add: b_def)
  have tile: "t = \<lparr>pt_input_first = lo, pt_input_width = sub32 hi lo, pt_output_first = f, pt_output_width = c,
      pt_pad_left = nat (max (- (int a - int (pad_left s))) 0),
      pt_pad_right = nat (max (int b - int (pad_left s) - int (input_width s)) 0)\<rparr>"
    using pooling_tile_at_eq [OF v c] by (simp add: t Let_def a_def b_def lo_def hi_def)
  have lohi: "lo \<le> hi" and sub: "sub32 hi lo = hi - lo"
  proof -
    have small: "lo \<le> 20000" "hi \<le> 20000" using reach b bounds by (auto simp: lo_def hi_def)
    show "lo \<le> hi"
    proof (rule ccontr)
      assume "\<not> lo \<le> hi"
      then have "256 < sub32 hi lo" using small by (simp add: sub32_def)
      then show False using lim by (simp add: tile)
    qed
    then show "sub32 hi lo = hi - lo" using small by simp
  qed
  show "pt_input_first t + pt_input_width t \<le> input_width s"
    using lohi by (simp add: tile sub hi_def)
  show "pt_input_first t + pad_left s = f * stride_x s + pt_pad_left t"
    by (simp add: tile lo_def a_def [symmetric])
  show "pt_output_first t = f" "pt_output_width t = c" by (simp_all add: tile)
  show "pt_pad_left t \<le> 7" "pt_pad_right t \<le> 7" using reach bounds by (auto simp: tile)
  show "pt_pad_left t + pt_input_width t + pt_pad_right t = (c - 1) * stride_x s + kernel_width s"
    if "0 < pt_input_width t"
  proof -
    have "lo < hi" using that lohi by (simp add: tile sub)
    then have "int hi = min (int b - int (pad_left s)) (int (input_width s))"
      and "int lo = max (int a - int (pad_left s)) 0" by (auto simp: hi_def lo_def)
    then have "nat (max (- (int a - int (pad_left s))) 0) + (hi - lo)
        + nat (max (int b - int (pad_left s) - int (input_width s)) 0) = b - a"
      using \<open>lo < hi\<close> by linarith
    then show ?thesis by (simp add: tile sub b)
  qed
  show "pt_input_first t \<le> x * stride_x s + k - pad_left s
      \<and> x * stride_x s + k - pad_left s < pt_input_first t + pt_input_width t"
    if x: "f \<le> x" "x < f + c" and k: "k < kernel_width s" and im: "pad_left s \<le> x * stride_x s + k"
      "x * stride_x s + k - pad_left s < input_width s"
  proof -
    have "a \<le> x * stride_x s" using x by (simp add: a_def)
    moreover have "x * stride_x s \<le> (f + c - 1) * stride_x s" using x by (intro mult_le_mono1) simp
    then have "x * stride_x s + k < b" unfolding b_def using k by (rule add_le_less_mono)
    ultimately show ?thesis using im lohi by (auto simp: tile sub lo_def hi_def)
  qed
qed

lemma clipped:
  "nat (max (int a - int p) 0) = a - p" "nat (max (min (int b - int p) (int w)) 0) = min (b - p) w"
  by linarith+

section \<open>The plan\<close>

lemma pooling_plan_tile:
  assumes p: "pooling_plan_new s = Done plan" and t: "t \<in> set (pp_tiles plan)"
  obtains f c where "t = pooling_tile_at s f c" "0 < c" "f + c \<le> output_width s"
    "pt_input_width t \<le> fst (direct_width_limits s)" "c \<le> snd (direct_width_limits s)"
proof -
  note d = pooling_plan_new_Done [OF p]
  have "\<exists>f c. t = pooling_tile_at s f c \<and> 0 < c \<and> f + c \<le> output_width s
      \<and> pt_input_width t \<le> fst (direct_width_limits s) \<and> c \<le> snd (direct_width_limits s)"
    by (rule pooling_tiles_members [OF d(3) t])
      (use columns_cover [OF d(1)] validate_Done(4) [OF d(1)] in auto)
  then show thesis using that by blast
qed

lemma pooling_tiles_total:
  assumes "\<And>f c. 0 < c \<Longrightarrow> f + c \<le> output_width s \<Longrightarrow> c \<le> snd limits \<Longrightarrow>
      pt_input_width (pooling_tile_at s f c) \<le> fst limits"
    and "\<forall>i\<in>set idx. 0 < cols i \<and> cols i \<le> snd limits"
    and "first + sum_list (map cols idx) \<le> output_width s" "output_width s < 2 ^ 32"
  shows "\<exists>ts. pooling_tiles s limits cols first idx = Done ts"
  using assms(2-)
proof (induction idx arbitrary: first)
  case (Cons i idx)
  have w: "wrap32 (first + cols i) = first + cols i" using Cons.prems(2,3) by simp
  obtain ts where "pooling_tiles s limits cols (first + cols i) idx = Done ts"
    using Cons.IH [of "first + cols i"] Cons.prems by (auto simp: add.assoc)
  moreover have "pt_output_width (pooling_tile_at s first (cols i)) = cols i"
    by (simp add: pooling_tile_at_def Let_def)
  ultimately show ?case using assms(1) [of "cols i" first] Cons.prems w by (simp add: Let_def)
qed simp

lemma pooling_tile_inside:
  assumes "pooling_plan_new s = Done plan" "t \<in> set (pp_tiles plan)"
  shows "pt_output_first t + pt_output_width t \<le> output_width s"
  using assms(2)
  by (rule pooling_plan_tile [OF assms(1)])
     (simp only: pooling_tile_at_def Let_def pooling_tile.select_convs)

lemma plan_tiles_cover:
  assumes "pooling_plan_new s = Done plan"
  shows "concat (map (\<lambda>t. [pt_output_first t..<pt_output_first t + pt_output_width t]) (pp_tiles plan))
           = [0..<output_width s] \<and>
    (\<forall>t\<in>set (pp_tiles plan).
       pt_input_width t \<le> fst (direct_width_limits s) \<and> pt_output_width t \<le> snd (direct_width_limits s)
       \<and> 0 < pt_output_width t \<and> pt_input_first t + pt_input_width t \<le> input_width s
       \<and> pt_pad_left t \<le> 7 \<and> pt_pad_right t \<le> 7
       \<and> pt_input_first t + pad_left s = pt_output_first t * stride_x s + pt_pad_left t
       \<and> (0 < pt_input_width t \<longrightarrow> pt_pad_left t + pt_input_width t + pt_pad_right t
            = (pt_output_width t - 1) * stride_x s + kernel_width s)
       \<and> (\<forall>x k. pt_output_first t \<le> x \<and> x < pt_output_first t + pt_output_width t \<and> k < kernel_width s
            \<and> pad_left s \<le> x * stride_x s + k \<and> x * stride_x s + k - pad_left s < input_width s \<longrightarrow>
            pt_input_first t \<le> x * stride_x s + k - pad_left s
            \<and> x * stride_x s + k - pad_left s < pt_input_first t + pt_input_width t))"
proof (intro conjI ballI)
  note d = pooling_plan_new_Done [OF assms]
  show "concat (map (\<lambda>t. [pt_output_first t..<pt_output_first t + pt_output_width t]) (pp_tiles plan))
      = [0..<output_width s]"
    using pooling_tiles_cover [OF d(3)] columns_cover(1) [OF d(1)] validate_Done(4) [OF d(1)]
    by (simp add: columns_of_tile_def [abs_def])
  fix t
  assume "t \<in> set (pp_tiles plan)"
  then obtain f c where t: "t = pooling_tile_at s f c" "0 < c" "f + c \<le> output_width s"
    and lim: "pt_input_width t \<le> fst (direct_width_limits s)" "c \<le> snd (direct_width_limits s)"
    by (rule pooling_plan_tile [OF assms])
  have "pt_input_width t \<le> 256" using lim(1) direct_width_limits_range(3) by (rule le_trans)
  note w = pooling_tile_window [OF d(1) t this]
  show "pt_input_width t \<le> fst (direct_width_limits s)" by (rule lim)
  show "pt_output_width t \<le> snd (direct_width_limits s)" "0 < pt_output_width t" using lim t(2) w(4) by simp_all
  show "pt_input_first t + pt_input_width t \<le> input_width s" "pt_pad_left t \<le> 7" "pt_pad_right t \<le> 7"
    by (rule w)+
  show "pt_input_first t + pad_left s = pt_output_first t * stride_x s + pt_pad_left t" using w(2,3) by simp
  show "0 < pt_input_width t \<longrightarrow> pt_pad_left t + pt_input_width t + pt_pad_right t
      = (pt_output_width t - 1) * stride_x s + kernel_width s" using w(4,7) by simp
  show "\<forall>x k. pt_output_first t \<le> x \<and> x < pt_output_first t + pt_output_width t \<and> k < kernel_width s
      \<and> pad_left s \<le> x * stride_x s + k \<and> x * stride_x s + k - pad_left s < input_width s \<longrightarrow>
      pt_input_first t \<le> x * stride_x s + k - pad_left s
      \<and> x * stride_x s + k - pad_left s < pt_input_first t + pt_input_width t" using w(3,4,8) by simp
qed

text \<open>
  C37. The tiles of a pooling plan partition the output columns from left to right; each is within
  the direct width limits and inside the image, places its window so that its own left padding plus
  its first input column is the first tap of its first output column, and holds every tap that
  falls inside the image; a nonempty window and its padding are as wide as its columns need.
\<close>

theorem pooling_tiles_cover_the_image:
  assumes "pooling_plan_new s = Done plan"
  shows "concat (map (\<lambda>t. [pt_output_first t..<pt_output_first t + pt_output_width t]) (pp_tiles plan))
           = [0..<output_width s] \<and>
    (\<forall>t\<in>set (pp_tiles plan).
       pt_input_width t \<le> fst (direct_width_limits s) \<and> pt_output_width t \<le> snd (direct_width_limits s)
       \<and> 0 < pt_output_width t \<and> pt_input_first t + pt_input_width t \<le> input_width s
       \<and> pt_pad_left t \<le> 7 \<and> pt_pad_right t \<le> 7
       \<and> pt_input_first t + pad_left s = pt_output_first t * stride_x s + pt_pad_left t
       \<and> (0 < pt_input_width t \<longrightarrow> pt_pad_left t + pt_input_width t + pt_pad_right t
            = (pt_output_width t - 1) * stride_x s + kernel_width s)
       \<and> (\<forall>x k. pt_output_first t \<le> x \<and> x < pt_output_first t + pt_output_width t \<and> k < kernel_width s
            \<and> pad_left s \<le> x * stride_x s + k \<and> x * stride_x s + k - pad_left s < input_width s \<longrightarrow>
            pt_input_first t \<le> x * stride_x s + k - pad_left s
            \<and> x * stride_x s + k - pad_left s < pt_input_first t + pt_input_width t))"
  by (rule plan_tiles_cover [OF assms])

text \<open>
  A validated shape whose right padding is smaller than the kernel, and whose widest allowed
  tile reads no more than the input limit, always gets a plan.
\<close>

theorem pooling_plans_exist:
  assumes "validate s = Done ()" and "pad_right s < kernel_width s"
    and "(snd (direct_width_limits s) - 1) * stride_x s + kernel_width s \<le> fst (direct_width_limits s)"
  shows "\<exists>plan. pooling_plan_new s = Done plan"
proof -
  let ?L = "direct_width_limits s" and ?n = "div_ceil (output_width s) (snd (direct_width_limits s))"
  note v = assms(1) and cover = columns_cover [OF assms(1)]
  have "pt_input_width (pooling_tile_at s f c) \<le> fst ?L"
    if c: "0 < c" "f + c \<le> output_width s" "c \<le> snd ?L" for f c
  proof -
    have reach: "f * stride_x s + ((c - 1) * stride_x s + kernel_width s) \<le> input_width s + pad_left s + pad_right s"
      using tile_reach(1) [OF v c(1,2)] c(1) by (simp add: add_mult_distrib [symmetric] add.assoc [symmetric])
    have width: "(c - 1) * stride_x s + kernel_width s \<le> fst ?L"
      using mult_le_mono1 [of "c - 1" "snd ?L - 1" "stride_x s"] c(3) assms(3) by linarith
    define d where "d = (c - 1) * stride_x s"
    define a where "a = f * stride_x s"
    have eq: "(f + c - 1) * stride_x s + kernel_width s = a + d + kernel_width s"
      using c by (simp add: a_def d_def add_mult_distrib [symmetric])
    let ?hi = "min (a + d + kernel_width s - pad_left s) (input_width s)" and ?lo = "a - pad_left s"
    have "?lo \<le> ?hi" using reach assms(2) unfolding a_def [symmetric] d_def [symmetric]
      by (intro min.boundedI) linarith+
    moreover have "?hi - ?lo \<le> d + kernel_width s" by (simp add: min_def) linarith
    moreover have "pt_input_width (pooling_tile_at s f c) = sub32 ?hi ?lo"
      unfolding pooling_tile_at_eq [OF v c(1,2)] Let_def eq a_def [symmetric] clipped by simp
    ultimately show ?thesis using width by (simp add: d_def)
  qed
  then obtain ts where "pooling_tiles s ?L (columns_of s) 0 [0..<?n] = Done ts"
    using pooling_tiles_total [of s ?L "[0..<?n]" "columns_of s" 0] cover validate_Done(4) [OF v] by auto
  moreover have "0 < ?n" using direct_width_limits_range(1) [of s] validate_Done(3) [OF v] by simp
  ultimately show ?thesis using v by (simp add: pooling_plan_new_eq)
qed

section \<open>Samples\<close>

text \<open>A 256-column 3x3 max pool with stride 2, which the vendor splits into 63 and 64 columns.\<close>

definition wide_pool :: pooling_shape where
  "wide_pool = \<lparr>input_width = 256, input_height = 9, input_channels = 16, output_width = 127,
     output_height = 4, output_channels = 16, pool_precision = PoolInt8, kernel_width = 3, kernel_height = 3,
     stride_x = 2, stride_y = 2, pool_method = MaxPool, pad_left = 0, pad_top = 0, pad_right = 0,
     pad_bottom = 0, pad_value = 0\<rparr>"

definition wide_tiles :: "pooling_tile list" where
  "wide_tiles =
     [\<lparr>pt_input_first = 0, pt_input_width = 127, pt_output_first = 0, pt_output_width = 63,
       pt_pad_left = 0, pt_pad_right = 0\<rparr>,
      \<lparr>pt_input_first = 126, pt_input_width = 129, pt_output_first = 63, pt_output_width = 64,
       pt_pad_left = 0, pt_pad_right = 0\<rparr>]"

lemma wide_pool_validates: "validate wide_pool = Done ()"
  by (simp add: wide_pool_def validate_def validate_pooling_geometry_def validate_direct_kernel_def
      ppu_consts output_extent_def checked_add32_def udiv_def)

lemma wide_pool_limits: "direct_width_limits wide_pool = (129, 64)"
  by (simp add: wide_pool_def direct_width_limits_def unpadded_k2s2_def
      overlapping_window_width_limits_def ppu_consts)

lemma wide_pool_tiles:
  "pooling_tile_at wide_pool 0 63 = wide_tiles ! 0" "pooling_tile_at wide_pool 63 64 = wide_tiles ! 1"
  by (simp_all add: pooling_tile_at_def wide_pool_def wide_tiles_def Let_def)

lemma wide_pool_plan: "pooling_plan_new wide_pool = Done \<lparr>pp_shape = wide_pool, pp_tiles = wide_tiles\<rparr>"
proof -
  have fields: "output_width wide_pool = 127" "kernel_width wide_pool = 3"
    by (simp_all add: wide_pool_def)
  have two: "[0..<2] = [0, 1 :: nat]" and n: "div_ceil 127 64 = 2"
    by (simp_all add: upt_rec div_ceil_def numeral_2_eq_2)
  have "columns_of wide_pool = (\<lambda>index. wrap32 (63 + (if 1 \<le> index then 1 else 0)))"
    by (simp add: columns_of_def wide_pool_limits fields n Let_def
        avoid_equal_int8_k2_tiles_def unpadded_k2s2_def)
  then have "pooling_tiles wide_pool (129, 64) (columns_of wide_pool) 0 [0, 1] = Done wide_tiles"
    by (simp add: wide_pool_tiles [simplified]) (simp add: wide_tiles_def)
  then show ?thesis
    by (simp add: pooling_plan_new_eq wide_pool_validates wide_pool_limits fields n two)
qed

theorem pooling_tiles_cover_the_image_witness:
  "pooling_plan_new wide_pool = Done \<lparr>pp_shape = wide_pool, pp_tiles = wide_tiles\<rparr> \<and>
   concat (map (\<lambda>t. [pt_output_first t..<pt_output_first t + pt_output_width t]) wide_tiles) = [0..<127]"
  using pooling_tiles_cover_the_image [OF wide_pool_plan] wide_pool_plan by (simp add: wide_pool_def)

theorem pooling_plans_exist_witness: "\<exists>plan. pooling_plan_new wide_pool = Done plan"
  by (rule pooling_plans_exist) (simp_all add: wide_pool_validates wide_pool_limits, simp_all add: wide_pool_def)

text \<open>
  The tile count looks only at the output width, so a validated 3x3 pool with strides 2 and 1 gets
  one tile of 63 input columns, past the 34 the device is known to read, and the constructor panics.
\<close>

lemma validated_shape_without_plan:
  "validate (wide_pool\<lparr>input_width := 63, output_width := 31, stride_y := 1, output_height := 7\<rparr>) = Done ()"
  "pooling_plan_new (wide_pool\<lparr>input_width := 63, output_width := 31, stride_y := 1, output_height := 7\<rparr>)
     = Panicked"
proof -
  let ?s = "wide_pool\<lparr>input_width := 63, output_width := 31, stride_y := 1, output_height := 7\<rparr>"
  show v: "validate ?s = Done ()"
    by (simp add: wide_pool_def validate_def validate_pooling_geometry_def validate_direct_kernel_def
        ppu_consts output_extent_def checked_add32_def udiv_def)
  have l: "direct_width_limits ?s = (34, 31)"
    by (simp add: wide_pool_def direct_width_limits_def unpadded_k2s2_def
        overlapping_window_width_limits_def ppu_consts)
  have "output_width ?s = 31" "stride_x ?s = 2" "kernel_width ?s = 3" "input_width ?s = 63" "pad_left ?s = 0"
    "stride_y ?s = 1"
    by (simp_all add: wide_pool_def)
  then show "pooling_plan_new ?s = Panicked"
    unfolding pooling_plan_new_def v l
    by (simp add: Let_def div_ceil_def udiv_def avoid_equal_int8_k2_tiles_def unpadded_k2s2_def upt_rec
        pooling_tile_at_def)
qed

end
