(* ===== verification/PoolingProgramProperties.thy ===== *)
theory PoolingProgramProperties
  imports PoolingProgram PoolingProperties
begin

text \<open>
  What the program of a pooling tile says once read back as the device reads it: the geometry,
  addresses and strides of exactly that tile, and when the programs of a plan can be built.
\<close>

section \<open>A task as the device reads it\<close>

text \<open>Extents and strides are stored less one, addresses and strides in units of sixteen bytes.\<close>

record ppu_task =
  task_input :: "nat \<times> nat"
  task_reader :: "nat \<times> nat"
  task_channels_in_out :: "nat \<times> nat \<times> nat"
  task_output :: "nat \<times> nat"
  task_notch :: nat
  task_method :: nat
  task_kernel :: "nat \<times> nat"
  task_stride :: "nat \<times> nat"
  task_pad_left_right :: "nat \<times> nat"
  task_pad_top_bottom :: "nat \<times> nat"
  task_source :: nat
  task_destination :: nat
  task_source_line :: nat
  task_source_surface :: nat
  task_destination_surface :: nat
  task_reciprocals :: "nat \<times> nat"

definition read_task :: "reg_cmd list \<Rightarrow> ppu_task" where
  "read_task p =
     \<lparr>task_input = (field_at p PpuDataCubeInWidth 13 0 + 1, field_at p PpuDataCubeInHeight 13 0 + 1),
      task_reader = (field_at p PpuRdmaCubeInWidth 13 0 + 1, field_at p PpuRdmaCubeInHeight 13 0 + 1),
      task_channels_in_out = (field_at p PpuDataCubeInChannel 13 0 + 1,
        field_at p PpuDataCubeOutChannel 13 0 + 1, field_at p PpuRdmaCubeInChannel 13 0 + 1),
      task_output = (field_at p PpuDataCubeOutWidth 13 0 + 1, field_at p PpuDataCubeOutHeight 13 0 + 1),
      task_notch = field_at p PpuOperationModeCfg 13 16,
      task_method = field_at p PpuOperationModeCfg 2 0,
      task_kernel = (field_at p PpuPoolingKernelCfg 4 0 + 1, field_at p PpuPoolingKernelCfg 4 8 + 1),
      task_stride = (field_at p PpuPoolingKernelCfg 4 16 + 1, field_at p PpuPoolingKernelCfg 4 20 + 1),
      task_pad_left_right = (field_at p PpuPoolingPaddingCfg 3 0, field_at p PpuPoolingPaddingCfg 3 8),
      task_pad_top_bottom = (field_at p PpuPoolingPaddingCfg 3 4, field_at p PpuPoolingPaddingCfg 3 12),
      task_source = field_at p PpuRdmaSrcBaseAddr 32 0,
      task_destination = 16 * field_at p PpuDstBaseAddr 28 4,
      task_source_line = field_at p PpuRdmaSrcLineStride 28 4,
      task_source_surface = field_at p PpuRdmaSrcSurfStride 28 4,
      task_destination_surface = field_at p PpuDstSurfStride 28 4,
      task_reciprocals = (field_at p PpuRecipKernelWidth 17 0, field_at p PpuRecipKernelHeight 17 0)\<rparr>"

section \<open>The registers of a task\<close>

definition task_writes ::
  "pooling_shape \<Rightarrow> pooling_tile \<Rightarrow> nat \<Rightarrow> nat \<Rightarrow> nat \<times> nat \<Rightarrow> writes" where
  "task_writes s t ia oa recips = pointer_commands @ ppu_commands s t oa recips @ ppu_rdma_commands s t ia"

lemmas task_writes_defs =
  task_writes_def pointer_commands_def ppu_commands_def ppu_rdma_commands_def

lemma task_writes_in_range:
  "\<forall>(R, fs) \<in> set (task_writes s t ia oa recips). reg_domain R < 2 ^ 16 \<and> reg_offset R < 2 ^ 16"
  by (simp add: task_writes_defs ppu_block_registers ppu_rdma_block_registers domain_defs)

lemma task_writes_once: "distinct (map (reg_address \<circ> fst) (task_writes s t ia oa recips))"
  by (simp add: task_writes_defs reg_address_def ppu_block_registers ppu_rdma_block_registers domain_defs)

lemma task_writes_domain:
  "\<forall>x \<in> set (map (reg_address \<circ> fst) (task_writes s t ia oa recips)). fst x \<in> {0x4001, 0x8001}"
  by (simp add: task_writes_defs reg_address_def ppu_block_registers ppu_rdma_block_registers domain_defs)

lemma push_ppu_kick_trail:
  "\<exists>trail. push_ppu_kick cmds = cmds @ trail \<and> (\<forall>w \<in> set trail. fst (cmd_address w) \<in> {0, 0x41, 0x81, 0x101})"
  by (auto simp: push_ppu_kick_def push_kick_def Let_def cmd_address_def trailer_fields zero_register_def
      build_fields PCRegisterAmounts_def domain_defs)

lemma task_value:
  assumes "write_all (task_writes s t ia oa recips) = Done cmds"
    and "(R, fs) \<in> set (task_writes s t ia oa recips)"
  shows "\<exists>r. register_value (push_ppu_kick cmds) R = Some r \<and> apply_setters fs 0 = Done r"
proof -
  obtain trail where trail: "push_ppu_kick cmds = cmds @ trail"
    and low: "\<forall>w \<in> set trail. fst (cmd_address w) \<in> {0, 0x41, 0x81, 0x101}"
    using push_ppu_kick_trail [of cmds] by blast
  have "cmd_address w \<notin> set (map (reg_address \<circ> fst) (task_writes s t ia oa recips))" if "w \<in> set trail" for w
  proof
    assume "cmd_address w \<in> set (map (reg_address \<circ> fst) (task_writes s t ia oa recips))"
    then have "fst (cmd_address w) \<in> {0x4001, 0x8001}" using task_writes_domain by blast
    then show False using low that by auto
  qed
  then show ?thesis
    unfolding trail
    using write_all_value [OF assms(1) task_writes_in_range task_writes_once _ assms(2)] by blast
qed

lemma task_registers:
  assumes "write_all (task_writes s t ia oa recips) = Done cmds"
  shows "\<forall>x \<in> set (task_writes s t ia oa recips).
    \<exists>r. register_value (push_ppu_kick cmds) (fst x) = Some r \<and> apply_setters (snd x) 0 = Done r"
  using task_value [OF assms] by (metis prod.collapse)

text \<open>The bounds are what the builder's \<open>Bits\<close> assertions enforced.\<close>

lemma task_read_back:
  assumes "write_all (task_writes s t ia oa recips) = Done cmds"
  shows "read_task (push_ppu_kick cmds) =
     \<lparr>task_input = (sub32 (pt_input_width t) 1 + 1, sub32 (input_height s) 1 + 1),
      task_reader = (sub32 (pt_input_width t) 1 + 1, sub32 (input_height s) 1 + 1),
      task_channels_in_out = (sub32 (task_channels s) 1 + 1, sub32 (task_channels s) 1 + 1,
        sub32 (task_channels s) 1 + 1),
      task_output = (sub32 (pt_output_width t) 1 + 1, sub32 (output_height s) 1 + 1),
      task_notch = sub32 (output_width s) (pt_output_width t),
      task_method = method_bits (pool_method s),
      task_kernel = (sub32 (kernel_width s) 1 + 1, sub32 (kernel_height s) 1 + 1),
      task_stride = (sub32 (stride_x s) 1 + 1, sub32 (stride_y s) 1 + 1),
      task_pad_left_right = (pt_pad_left t, pt_pad_right t),
      task_pad_top_bottom = (pad_top s, programmed_pad_bottom s),
      task_source = (if ia < 2 ^ 32 then ia else field_at (push_ppu_kick cmds) PpuRdmaSrcBaseAddr 32 0),
      task_destination = 16 * (oa div 16),
      task_source_line = src_line_stride s,
      task_source_surface = src_surf_stride s,
      task_destination_surface = dst_surf_stride s,
      task_reciprocals = recips\<rparr>"
    "sub32 (pt_input_width t) 1 < 2 ^ 13" "sub32 (pt_output_width t) 1 < 2 ^ 13" "oa div 16 < 2 ^ 28"
  using task_registers [OF assms]
  by (simp_all add: task_writes_defs ppu_block_setters ppu_rdma_block_setters setter_steps
      read_task_def field_at_def field_value_def split: if_splits)

section \<open>Building the program\<close>

lemma average_reciprocal_Done:
  assumes "1 \<le> k" "k \<le> 8" "p = PoolFp16 \<Longrightarrow> 2 \<le> k"
  shows "\<exists>r. average_reciprocal k p = Done r \<and> r < 2 ^ 17"
proof (cases p)
  case PoolInt8
  have "(65536::nat) div k \<le> 65536" by simp
  then have "(65536::nat) div k < 131072" by linarith
  then show ?thesis using assms(1) by (simp add: PoolInt8 average_reciprocal_def)
next
  case PoolFp16
  then have "k \<in> {2, 3, 4, 5, 6, 7, 8}" using assms(2,3) by auto
  then show ?thesis by (elim insertE emptyE) (simp_all add: PoolFp16 average_reciprocal_def reciprocal_steps)
qed

lemma reciprocals_Done:
  assumes "validate s = Done ()"
    and "pool_method s = AvgPool \<Longrightarrow> pool_precision s = PoolFp16 \<Longrightarrow> 2 \<le> kernel_width s \<and> 2 \<le> kernel_height s"
  shows "\<exists>w h. reciprocals s = Done (w, h) \<and> w < 2 ^ 17 \<and> h < 2 ^ 17"
proof (cases "pool_method s")
  case AvgPool
  have "1 \<le> kernel_width s" "kernel_width s \<le> 8" "1 \<le> kernel_height s" "kernel_height s \<le> 8"
    using validate_extents(2) [OF assms(1)] by auto
  then obtain w h where "average_reciprocal (kernel_width s) (pool_precision s) = Done w" "w < 2 ^ 17"
    "average_reciprocal (kernel_height s) (pool_precision s) = Done h" "h < 2 ^ 17"
    using average_reciprocal_Done assms(2) [OF AvgPool] by metis
  then show ?thesis by (simp add: reciprocals_def AvgPool)
qed (simp_all add: reciprocals_def)

text \<open>The quantities of a validated shape, without the wrap-around.\<close>

lemma shape_quantities:
  assumes "validate s = Done ()"
  shows "src_line_stride s = input_width s"
    "src_surf_stride s = next_multiple_of (input_width s * input_height s) 4"
    "dst_surf_stride s = next_multiple_of (output_width s * output_height s) 4"
    "task_channels s = next_multiple_of (input_channels s) (pool_channels_per_atom (pool_precision s))"
    "programmed_pad_bottom s =
      (output_height s - 1) * stride_y s + kernel_height s - (input_height s + pad_top s)"
    "programmed_pad_bottom s \<le> pad_bottom s"
    "src_surf_stride s < 2 ^ 28" "dst_surf_stride s < 2 ^ 28"
    "1 \<le> task_channels s" "task_channels s \<le> 8192"
proof -
  let ?iw = "input_width s" and ?ih = "input_height s" and ?ow = "output_width s" and ?oh = "output_height s"
  note e = validate_extents [OF assms]
  have area: "?iw * ?ih \<le> 8192 * 8192" "?ow * ?oh \<le> 8192 * 8192"
    by (rule mult_le_mono; use e(1) in simp)+
  have up: "next_multiple_of a 4 < a + 4" for a :: nat by (rule next_multiple_of_less) simp
  have "wrap32 (?iw * 16 * ?ih) = ?iw * ?ih * 16" "wrap32 (?ow * 16 * ?oh) = ?ow * ?oh * 16"
    using area by (simp_all add: mult.commute mult.left_commute)
  then show surf: "src_surf_stride s = next_multiple_of (?iw * ?ih) 4"
    "dst_surf_stride s = next_multiple_of (?ow * ?oh) 4"
    using area up [of "?iw * ?ih"] up [of "?ow * ?oh"]
    by (simp_all add: src_surf_stride_def dst_surf_stride_def ATOMIC_K_SIZE_def FEATURE_ATOMIC_SIZE_def)
  show "src_surf_stride s < 2 ^ 28" "dst_surf_stride s < 2 ^ 28"
    using area up [of "?iw * ?ih"] up [of "?ow * ?oh"] by (simp_all add: surf)
  show "src_line_stride s = ?iw"
    using e(1) by (simp add: src_line_stride_def ATOMIC_K_SIZE_def FEATURE_ATOMIC_SIZE_def)
  have atom: "0 < pool_channels_per_atom (pool_precision s)" "pool_channels_per_atom (pool_precision s) dvd 8192"
    by (cases "pool_precision s"; simp)+
  let ?ch = "next_multiple_of (input_channels s) (pool_channels_per_atom (pool_precision s))"
  have "?ch \<le> 8192" by (rule next_multiple_of_least [OF atom(1) _ atom(2)]) (use e(1) in simp)
  moreover have "1 \<le> ?ch" using next_multiple_of_ge [OF atom(1), of "input_channels s"] e(1) by simp
  ultimately show "task_channels s = ?ch" "1 \<le> task_channels s" "task_channels s \<le> 8192"
    by (simp_all add: task_channels_def)
  note rows = validate_rows [OF assms]
  have reach: "(?oh - 1) * stride_y s + kernel_height s \<le> ?ih + pad_top s + pad_bottom s"
  proof -
    have "(?oh - 1) * stride_y s \<le> ?ih + pad_top s + pad_bottom s - kernel_height s"
      using rows(2) div_times_less_eq_dividend [of "?ih + pad_top s + pad_bottom s - kernel_height s" "stride_y s"] by simp
    then show ?thesis using rows(1) by linarith
  qed
  moreover have "?ih + pad_top s + pad_bottom s < 2 ^ 32" using e by simp
  ultimately have "(?oh - 1) * stride_y s + kernel_height s < 2 ^ 32" by (rule le_less_trans)
  moreover have "?ih + pad_top s < 2 ^ 32" "sub32 ?oh 1 = ?oh - 1" using e by simp_all
  ultimately show bottom: "programmed_pad_bottom s =
      (?oh - 1) * stride_y s + kernel_height s - (?ih + pad_top s)"
    by (simp only: programmed_pad_bottom_def required_trailing_padding_def saturating_sub_def wrap32_id)
  show "programmed_pad_bottom s \<le> pad_bottom s" unfolding bottom using reach by linarith
qed

lemma task_writes_total:
  assumes v: "validate s = Done ()" and w: "1 \<le> pt_input_width t" "pt_input_width t \<le> 8192"
    "1 \<le> pt_output_width t" "pt_output_width t \<le> output_width s" "pt_pad_left t \<le> 7" "pt_pad_right t \<le> 7"
    and r: "fst recips < 2 ^ 17" "snd recips < 2 ^ 17" and oa: "oa < 2 ^ 32"
  shows "\<exists>cmds. write_all (task_writes s t ia oa recips) = Done cmds"
proof (rule write_all_total)
  note q = shape_quantities [OF v] and e = validate_extents [OF v]
  have small: "method_bits (pool_method s) < 4" "ppu_precision (pool_precision s) < 8"
    "rdma_precision (pool_precision s) < 4"
    by (cases "pool_method s"; simp) (cases "pool_precision s"; simp)+
  have line: "src_line_stride s < 2 ^ 28" using q(1) e(1) by simp
  have pads: "pad_top s < 8" "programmed_pad_bottom s < 8" "pt_pad_left t < 8" "pt_pad_right t < 8"
    using e(4) q(6) w(5,6) by simp_all
  have dims: "sub32 (pt_input_width t) 1 < 8192" "sub32 (pt_output_width t) 1 < 8192"
    "sub32 (input_height s) 1 < 8192" "sub32 (output_height s) 1 < 8192" "sub32 (task_channels s) 1 < 8192"
    "sub32 (output_width s) (pt_output_width t) < 8192" "sub32 (kernel_width s) 1 < 16"
    "sub32 (kernel_height s) 1 < 16" "sub32 (stride_x s) 1 < 16" "sub32 (stride_y s) 1 < 16"
    using e(1-3) q(9,10) w by auto
  have dst: "oa div 16 < 2 ^ 28" using oa by simp
  note facts = small line pads dims dst r q(7,8)
  note facts' = facts [simplified]
  show "\<forall>x \<in> set (task_writes s t ia oa recips). \<exists>r. apply_setters (snd x) 0 = Done r"
    by (simp add: task_writes_defs ppu_block_setters ppu_rdma_block_setters setter_steps facts')
qed

section \<open>The programs of a plan\<close>

text \<open>The task a tile stands for, in the units of the plan.\<close>

definition task_of_tile :: "pooling_shape \<Rightarrow> nat \<Rightarrow> nat \<Rightarrow> nat \<times> nat \<Rightarrow> pooling_tile \<Rightarrow> ppu_task" where
  "task_of_tile s input_addr output_addr recips t =
     (let c = next_multiple_of (input_channels s) (pool_channels_per_atom (pool_precision s)) in
      \<lparr>task_input = (pt_input_width t, input_height s), task_reader = (pt_input_width t, input_height s),
       task_channels_in_out = (c, c, c),
       task_output = (pt_output_width t, output_height s),
       task_notch = output_width s - pt_output_width t,
       task_method = method_bits (pool_method s),
       task_kernel = (kernel_width s, kernel_height s), task_stride = (stride_x s, stride_y s),
       task_pad_left_right = (pt_pad_left t, pt_pad_right t),
       task_pad_top_bottom = (pad_top s,
         (output_height s - 1) * stride_y s + kernel_height s - (input_height s + pad_top s)),
       task_source = input_addr + 16 * pt_input_first t,
       task_destination = output_addr + 16 * pt_output_first t,
       task_source_line = input_width s,
       task_source_surface = next_multiple_of (input_width s * input_height s) 4,
       task_destination_surface = next_multiple_of (output_width s * output_height s) 4,
       task_reciprocals = recips\<rparr>)"

lemma pad_to_four: "(n + (4 - n mod 4) mod 4) mod 4 = (0::nat)"
proof -
  have "n mod 4 < 4" by simp
  then have "n mod 4 \<in> {0, 1, 2, 3}" by auto
  then show ?thesis by (subst mod_add_left_eq [symmetric]) auto
qed

lemma push_ppu_kick_aligned: "length (push_ppu_kick cmds) mod 4 = 0"
  unfolding push_ppu_kick_def Let_def length_append length_replicate by (rule pad_to_four)

lemma pooling_task_carries_its_tile:
  assumes plan: "pooling_plan_new s = Done plan" and t: "t \<in> set (pp_tiles plan)" "0 < pt_input_width t"
    and recips: "reciprocals s = Done recips" "fst recips < 2 ^ 17" "snd recips < 2 ^ 17"
    and buffers: "ia + 16 * input_width s < 2 ^ 32" "oa + 16 * output_width s < 2 ^ 32" "oa mod 16 = 0"
  shows "\<exists>program. obind (expect_add32 oa (wrap32 (pt_output_first t * 16)))
      (\<lambda>addr. build_pooling_tile_task s t ia addr) = Done program
    \<and> length program mod 4 = 0 \<and> read_task program = task_of_tile s ia oa recips t"
proof -
  note v = pooling_plan_new_Done(1) [OF plan]
  note w = conjunct2 [OF plan_tiles_cover [OF plan], THEN bspec, OF t(1)]
  note q = shape_quantities [OF v] and e = validate_extents [OF v]
  let ?src = "ia + 16 * pt_input_first t" and ?dst = "oa + 16 * pt_output_first t"
  have outside: "pt_output_first t + pt_output_width t \<le> output_width s"
    using pooling_tile_inside [OF plan t(1)] .
  have src: "expect_add32 ia (wrap32 (pt_input_first t * 16)) = Done ?src" "?src < 2 ^ 32"
    and dst: "expect_add32 oa (wrap32 (pt_output_first t * 16)) = Done ?dst" "?dst < 2 ^ 32"
    using buffers w outside by (simp_all add: expect_add32_def checked_add32_def)
  have wide: "pt_input_width t \<le> 8192" "pt_output_width t \<le> output_width s" using w e(1) outside by auto
  obtain cmds where cmds: "write_all (task_writes s t ?src ?dst recips) = Done cmds"
    using task_writes_total [OF v _ wide(1) _ wide(2) _ _ recips(2,3) dst(2), of ?src] w t(2) by auto
  have "build_pooling_tile_task s t ia ?dst = Done (push_ppu_kick cmds)"
    using v w src(1) buffers(3) recips(1) cmds
    by (simp add: build_pooling_tile_task_def Let_def task_writes_def)
  moreover have "read_task (push_ppu_kick cmds) = task_of_tile s ia oa recips t"
  proof -
    have plus: "sub32 (pt_input_width t) 1 + 1 = pt_input_width t"
      "sub32 (pt_output_width t) 1 + 1 = pt_output_width t" "sub32 (input_height s) 1 + 1 = input_height s"
      "sub32 (output_height s) 1 + 1 = output_height s" "sub32 (kernel_width s) 1 + 1 = kernel_width s"
      "sub32 (kernel_height s) 1 + 1 = kernel_height s" "sub32 (stride_x s) 1 + 1 = stride_x s"
      "sub32 (stride_y s) 1 + 1 = stride_y s" "sub32 (task_channels s) 1 + 1 = task_channels s"
      by (rule minus_one_plus_one; use w t(2) e(1-3) q(9) in simp)+
    have aligned: "16 * (?dst div 16) = ?dst"
      using buffers(3) mult_div_mod_eq [of 16 ?dst] by simp
    show ?thesis
      unfolding task_read_back(1) [OF cmds] task_of_tile_def Let_def
      by (simp only: plus aligned q(1-3,5) src(2) sub32_id [OF wide(2)] if_True) (simp only: q(4))
  qed
  ultimately show ?thesis using dst(1) push_ppu_kick_aligned by auto
qed

lemma programs_of_tiles_total:
  assumes "\<forall>t \<in> set ts. \<exists>program. obind (expect_add32 oa (wrap32 (pt_output_first t * 16)))
      (\<lambda>addr. build_pooling_tile_task s t ia addr) = Done program \<and> P t program"
  shows "\<exists>programs. programs_of_tiles s ia oa ts = Done programs \<and> list_all2 P ts programs"
  using assms
proof (induction ts)
  case (Cons t ts)
  then obtain addr program programs where "expect_add32 oa (wrap32 (pt_output_first t * 16)) = Done addr"
    "build_pooling_tile_task s t ia addr = Done program" "P t program"
    "programs_of_tiles s ia oa ts = Done programs" "list_all2 P ts programs"
    by (auto simp: obind_eq_Done)
  then show ?case by simp
qed simp

text \<open>
  \<open>average_reciprocal\<close> panics on a half-precision kernel of one row or column, which no validation
  refuses: such an average has a plan and no program.
\<close>

definition averages_in_range :: "pooling_shape \<Rightarrow> bool" where
  "averages_in_range s \<longleftrightarrow> (pool_method s = AvgPool \<and> pool_precision s = PoolFp16 \<longrightarrow>
     2 \<le> kernel_width s \<and> 2 \<le> kernel_height s)"

lemma reciprocals_Panicked:
  assumes "validate s = Done ()" and "\<not> averages_in_range s"
  shows "reciprocals s = Panicked"
proof -
  have m: "pool_method s = AvgPool" "pool_precision s = PoolFp16" "\<not> (2 \<le> kernel_width s \<and> 2 \<le> kernel_height s)"
    using assms(2) by (auto simp: averages_in_range_def)
  have one: "average_reciprocal k PoolFp16 = Panicked" if "k < 2" for k
    using that by (simp add: average_reciprocal_def ensure_def Let_def)
  show ?thesis
  proof (cases "kernel_width s < 2")
    case False
    moreover have "kernel_width s \<le> 8" using validate_extents(2) [OF assms(1)] by auto
    ultimately obtain w where "average_reciprocal (kernel_width s) PoolFp16 = Done w"
      using average_reciprocal_Done [of "kernel_width s" PoolFp16] by auto
    with False m one [of "kernel_height s"] show ?thesis by (simp add: reciprocals_def)
  qed (simp add: reciprocals_def m one)
qed

lemma pooling_programs_without_reciprocals:
  assumes plan: "pooling_plan_new s = Done plan" and recips: "reciprocals s = Panicked"
    and buffers: "ia + 16 * input_width s < 2 ^ 32" "oa + 16 * output_width s < 2 ^ 32" "oa mod 16 = 0"
  shows "programs_with_buffers plan ia oa = Panicked"
proof -
  note v = pooling_plan_new_Done(1,2) [OF plan]
  have "0 < output_width s" using validate_extents(1) [OF v(1)] by simp
  then have "pp_tiles plan \<noteq> []"
    using arg_cong [where f = length, OF conjunct1 [OF plan_tiles_cover [OF plan]]] by auto
  then obtain t ts where ts: "pp_tiles plan = t # ts" by (cases "pp_tiles plan") auto
  then have t: "t \<in> set (pp_tiles plan)" by simp
  note w = conjunct2 [OF plan_tiles_cover [OF plan], THEN bspec, OF t]
  have outside: "pt_output_first t + pt_output_width t \<le> output_width s"
    using pooling_tile_inside [OF plan t] .
  have "expect_add32 ia (wrap32 (pt_input_first t * 16)) = Done (ia + 16 * pt_input_first t)"
    and "expect_add32 oa (wrap32 (pt_output_first t * 16)) = Done (oa + 16 * pt_output_first t)"
    using buffers w outside by (simp_all add: expect_add32_def checked_add32_def)
  then show ?thesis
    using v w buffers(3) recips mod_mult_self1 [of oa 16]
    by (simp add: programs_with_buffers_def ts build_pooling_tile_task_def Let_def)
qed

text \<open>
  C40. Take a pooling plan whose tiles all have a nonempty window, and buffers whose rows fit 32 bits,
  the output on a 16-byte boundary. Unless it is a half-precision average over a kernel of one row or
  column, which panics, its programs can be built, one per tile in order, and each reads back as its
  tile: the tile's window and columns, the shape's rows, kernel, strides and padding (no more bottom
  padding than the last window reaches), whole feature atoms of channels, the tile's own source and
  destination columns, and a notch that skips the columns of the other tiles.
\<close>

theorem pooling_programs_carry_their_tiles:
  assumes plan: "pooling_plan_new s = Done plan"
    and windows: "\<forall>t \<in> set (pp_tiles plan). 0 < pt_input_width t"
    and buffers: "input_addr + 16 * input_width s < 2 ^ 32" "output_addr + 16 * output_width s < 2 ^ 32"
      "output_addr mod 16 = 0"
  shows "if averages_in_range s
    then \<exists>recips programs. reciprocals s = Done recips
      \<and> programs_with_buffers plan input_addr output_addr = Done programs
      \<and> list_all2 (\<lambda>t program. length program mod 4 = 0
            \<and> read_task program = task_of_tile s input_addr output_addr recips t)
          (pp_tiles plan) programs
    else programs_with_buffers plan input_addr output_addr = Panicked"
proof (cases "averages_in_range s")
  case True
  note d = pooling_plan_new_Done [OF plan]
  obtain w h where recips: "reciprocals s = Done (w, h)" "fst (w, h) < 2 ^ 17" "snd (w, h) < 2 ^ 17"
    using reciprocals_Done [OF d(1)] True by (auto simp: averages_in_range_def)
  have "\<forall>t \<in> set (pp_tiles plan). \<exists>program.
      obind (expect_add32 output_addr (wrap32 (pt_output_first t * 16)))
        (\<lambda>addr. build_pooling_tile_task s t input_addr addr) = Done program
      \<and> length program mod 4 = 0 \<and> read_task program = task_of_tile s input_addr output_addr (w, h) t"
    using pooling_task_carries_its_tile [OF plan _ _ recips buffers] windows by blast
  from programs_of_tiles_total [OF this] show ?thesis
    using recips(1) d(2) True by (auto simp: programs_with_buffers_def)
next
  case False
  with pooling_programs_without_reciprocals [OF plan reciprocals_Panicked buffers]
    pooling_plan_new_Done(1) [OF plan] show ?thesis by simp
qed

theorem pooling_programs_carry_their_tiles_witness:
  "\<exists>programs. programs_with_buffers \<lparr>pp_shape = wide_pool, pp_tiles = wide_tiles\<rparr> 0x10000 0x20000 = Done programs
    \<and> length programs = 2
    \<and> task_source (read_task (programs ! 1)) = 0x10000 + 16 * 126
    \<and> task_destination (read_task (programs ! 1)) = 0x20000 + 16 * 63
    \<and> task_notch (read_task (programs ! 1)) = 63"
proof -
  have "\<exists>recips programs. reciprocals wide_pool = Done recips
    \<and> programs_with_buffers \<lparr>pp_shape = wide_pool, pp_tiles = wide_tiles\<rparr> 0x10000 0x20000 = Done programs
    \<and> list_all2 (\<lambda>t program. length program mod 4 = 0
          \<and> read_task program = task_of_tile wide_pool 0x10000 0x20000 recips t)
        (pp_tiles \<lparr>pp_shape = wide_pool, pp_tiles = wide_tiles\<rparr>) programs"
    using pooling_programs_carry_their_tiles [OF wide_pool_plan, where input_addr = "0x10000" and output_addr = "0x20000"]
    by (simp add: averages_in_range_def wide_tiles_def wide_pool_def)
  then show ?thesis
    by (auto simp: list_all2_conv_all_nth wide_tiles_def task_of_tile_def Let_def wide_pool_def)
qed

end
