(* ===== verification/RegisterProperties.thy ===== *)
theory RegisterProperties
  imports PpuRegisters CnaRegisters DpuRegisters
begin

text \<open>
  Every field setter of the blocks the driver programs against its description: what a setter of a
  given width and shift has to do, and that the fields of a register and the registers of the device
  do not overlap.
\<close>

section \<open>One setter\<close>

definition device_registers :: "(register_meta \<times> (setter \<times> nat \<times> nat) list) list" where
  "device_registers = cna_block @ core_block @ dpu_block @ dpu_rdma_block @ ppu_block @ ppu_rdma_block"

definition setter_ok :: "setter \<times> nat \<times> nat \<Rightarrow> bool" where
  "setter_ok = (\<lambda>(f, n, sh). \<forall>v r.
     if v < 2 ^ n
     then \<exists>r'. f v r = Done r' \<and> field_of n sh r' = v
            \<and> (\<forall>i<32. i < sh \<or> sh + n \<le> i \<longrightarrow> bit r' i = bit r i)
     else n < 32 \<longrightarrow> f v r = Panicked)"

lemma field_setter_ok:
  assumes "m = field_mask n sh" "n + sh \<le> 32" "0 < n"
  shows "setter_ok (field_setter n m sh, n, sh)"
  using assms field_of_same [OF assms(2)]
  by (auto simp: setter_ok_def field_setter_eq bit_set_field bit_field_mask)

section \<open>The fields of a register\<close>

fun fields_disjoint :: "(setter \<times> nat \<times> nat) list \<Rightarrow> bool" where
  "fields_disjoint [] = True"
| "fields_disjoint ((f, n, sh) # fs) =
     (list_all (\<lambda>(f', n', sh'). n + sh \<le> sh' \<or> n' + sh' \<le> sh) fs \<and> fields_disjoint fs)"

text \<open>Two setters of one register can be called in either order.\<close>

lemma set_field_commute:
  assumes "n + sh \<le> sh' \<or> n' + sh' \<le> sh"
  shows "set_field (field_mask n sh) e (set_field (field_mask n' sh') e' r) =
    set_field (field_mask n' sh') e' (set_field (field_mask n sh) e r)"
  using assms by (intro bit_word_eqI) (auto simp: bit_set_field bit_field_mask dest: bit_imp_le_length)

definition register_ok :: "register_meta \<times> (setter \<times> nat \<times> nat) list \<Rightarrow> bool" where
  "register_ok = (\<lambda>(R, fs). list_all setter_ok fs \<and> fields_disjoint fs
     \<and> reg_domain R < 2 ^ 16 \<and> reg_offset R < 2 ^ 16)"

lemmas block_check = register_ok_def domain_defs field_setter_ok field_mask_def mask_numeral

lemma ppu_blocks_ok: "list_all register_ok (ppu_block @ ppu_rdma_block)"
  by (simp add: ppu_block_def ppu_rdma_block_def ppu_block_setters ppu_rdma_block_setters
      ppu_block_registers ppu_rdma_block_registers block_check)

lemma cna_blocks_ok: "list_all register_ok (cna_block @ core_block)"
  by (simp add: cna_block_def core_block_def cna_block_setters core_block_setters
      cna_block_registers core_block_registers block_check)

lemma dpu_block_ok: "list_all register_ok dpu_block"
  by (simp add: dpu_block_def dpu_block_setters dpu_block_registers block_check)

lemma dpu_rdma_block_ok: "list_all register_ok dpu_rdma_block"
  by (simp add: dpu_rdma_block_def dpu_rdma_block_setters dpu_rdma_block_registers block_check)

definition address_of :: "register_meta \<Rightarrow> nat \<times> nat" where
  "address_of R = (reg_domain R, reg_offset R)"

lemma addresses_distinct: "distinct (map (address_of \<circ> fst) device_registers)"
  by (simp add: device_registers_def address_of_def
      ppu_block_def ppu_rdma_block_def ppu_block_registers ppu_rdma_block_registers
      cna_block_def core_block_def cna_block_registers core_block_registers
      dpu_block_def dpu_rdma_block_def dpu_block_registers dpu_rdma_block_registers domain_defs)

text \<open>
  C39. Every field setter of the six blocks stores every value its declared width admits, reads back
  as that value, leaves all other bits alone and panics on any wider value; the fields of a register
  do not overlap, no two registers share an address, and the command word of a register carries its
  address and value.
\<close>

theorem registers_are_independent:
  "(\<forall>(R, fs) \<in> set device_registers. fields_disjoint fs
      \<and> (\<forall>(f, n, sh) \<in> set fs. \<forall>v r.
           if v < 2 ^ n
           then \<exists>r'. f v r = Done r' \<and> field_of n sh r' = v
                  \<and> (\<forall>i<32. i < sh \<or> sh + n \<le> i \<longrightarrow> bit r' i = bit r i)
           else n < 32 \<longrightarrow> f v r = Panicked)
      \<and> (\<forall>r. cmd_domain (build R r) = reg_domain R \<and> cmd_offset (build R r) = reg_offset R
           \<and> cmd_value (build R r) = r))
   \<and> distinct (map (\<lambda>(R, fs). (reg_domain R, reg_offset R)) device_registers)"
proof
  have ok: "list_all register_ok device_registers"
    using ppu_blocks_ok cna_blocks_ok dpu_block_ok dpu_rdma_block_ok by (simp add: device_registers_def)
  have "fields_disjoint fs \<and> list_all setter_ok fs \<and> reg_domain R < 2 ^ 16 \<and> reg_offset R < 2 ^ 16"
    if "(R, fs) \<in> set device_registers" for R fs
    using ok that by (auto simp: list_all_iff register_ok_def)
  then show "\<forall>(R, fs) \<in> set device_registers. fields_disjoint fs
      \<and> (\<forall>(f, n, sh) \<in> set fs. \<forall>v r.
           if v < 2 ^ n
           then \<exists>r'. f v r = Done r' \<and> field_of n sh r' = v
                  \<and> (\<forall>i<32. i < sh \<or> sh + n \<le> i \<longrightarrow> bit r' i = bit r i)
           else n < 32 \<longrightarrow> f v r = Panicked)
      \<and> (\<forall>r. cmd_domain (build R r) = reg_domain R \<and> cmd_offset (build R r) = reg_offset R
           \<and> cmd_value (build R r) = r)"
    unfolding list_all_iff setter_ok_def by (fast intro: build_fields)
  show "distinct (map (\<lambda>(R, fs). (reg_domain R, reg_offset R)) device_registers)"
    using addresses_distinct by (simp add: address_of_def comp_def split_def)
qed

theorem registers_are_independent_witness:
  "(PpuPoolingKernelCfg, [(PpuPoolingKernelCfg_kernel_width, 4, 0),
      (PpuPoolingKernelCfg_kernel_height, 4, 8), (PpuPoolingKernelCfg_kernel_stride_width, 4, 16),
      (PpuPoolingKernelCfg_kernel_stride_height, 4, 20)]) \<in> set device_registers
   \<and> (\<exists>r'. PpuPoolingKernelCfg_kernel_height 2 0x00110001 = Done r' \<and> field_of 4 8 r' = 2
        \<and> bit r' 16 = bit (0x00110001 :: reg32) 16)
   \<and> PpuPoolingKernelCfg_kernel_height 16 0 = Panicked"
proof -
  have member: "(PpuPoolingKernelCfg, [(PpuPoolingKernelCfg_kernel_width, 4, 0),
      (PpuPoolingKernelCfg_kernel_height, 4, 8), (PpuPoolingKernelCfg_kernel_stride_width, 4, 16),
      (PpuPoolingKernelCfg_kernel_stride_height, 4, 20)]) \<in> set device_registers"
    by (simp add: device_registers_def ppu_block_def)
  have "\<forall>p \<in> set [(PpuPoolingKernelCfg_kernel_width, 4, 0),
      (PpuPoolingKernelCfg_kernel_height, 4, 8), (PpuPoolingKernelCfg_kernel_stride_width, 4, 16),
      (PpuPoolingKernelCfg_kernel_stride_height, 4, 20)]. setter_ok p"
    using bspec [OF conjunct1 [OF registers_are_independent] member, unfolded prod.case]
    unfolding setter_ok_def by (elim conjE)
  then have "setter_ok (PpuPoolingKernelCfg_kernel_height, 4, 8)" by simp
  then have at: "if v < 2 ^ 4
      then \<exists>r'. PpuPoolingKernelCfg_kernel_height v r = Done r' \<and> field_of 4 8 r' = v
             \<and> (\<forall>i<32. i < 8 \<or> 8 + 4 \<le> i \<longrightarrow> bit r' i = bit r i)
      else (4::nat) < 32 \<longrightarrow> PpuPoolingKernelCfg_kernel_height v r = Panicked" for v r
    unfolding setter_ok_def prod.case by (elim allE)
  from at [of 2 "0x00110001"] at [of 16 0] member
  show ?thesis by auto
qed

end
