(* ===== verification/Floats.thy ===== *)
theory Floats
  imports Prelude Complex_Main "HOL-Library.Log_Nat"
begin

text \<open>
  The floating-point arithmetic the program uses, on exact values: the binary64 numbers are the
  rationals they stand for, with the two infinities and a NaN (the sign of a zero and the payload
  of a NaN are never looked at). Widening a binary32 is exact; a product and a quotient are
  rounded to nearest, ties to even, and overflow to an infinity. All of it computes.
\<close>

section \<open>Values\<close>

datatype float64 = Fin rat | PosInf | NegInf | NaN

fun is_finite :: "float64 \<Rightarrow> bool" where
  "is_finite (Fin q) \<longleftrightarrow> True"
| "is_finite _ \<longleftrightarrow> False"

text \<open>\<open>x < y\<close> and \<open>x <= y\<close>: every comparison with a NaN is false.\<close>

fun flt :: "float64 \<Rightarrow> float64 \<Rightarrow> bool" where
  "flt (Fin a) (Fin b) \<longleftrightarrow> a < b"
| "flt NegInf (Fin b) \<longleftrightarrow> True"
| "flt NegInf PosInf \<longleftrightarrow> True"
| "flt (Fin a) PosInf \<longleftrightarrow> True"
| "flt _ _ \<longleftrightarrow> False"

fun fle :: "float64 \<Rightarrow> float64 \<Rightarrow> bool" where
  "fle (Fin a) (Fin b) \<longleftrightarrow> a \<le> b"
| "fle NegInf y \<longleftrightarrow> y \<noteq> NaN"
| "fle x PosInf \<longleftrightarrow> x \<noteq> NaN"
| "fle _ _ \<longleftrightarrow> False"

text \<open>\<open>f64::from(f32::from_bits(bits))\<close>: sign, exponent and fraction of a binary32.\<close>

definition float32_value :: "nat \<Rightarrow> float64" where
  "float32_value bits =
     (let e = bits div 2 ^ 23 mod 2 ^ 8;
          f = bits mod 2 ^ 23;
          negative = odd (bits div 2 ^ 31);
          m = of_nat (if e = 0 then f else 2 ^ 23 + f) * 2 powi (int (max e 1) - 150)
      in if e = 255 then (if f \<noteq> 0 then NaN else if negative then NegInf else PosInf)
         else Fin (if negative then - m else m))"

section \<open>Rounding\<close>

definition round_half_even :: "rat \<Rightarrow> int" where
  "round_half_even x =
     (let d = x - of_int \<lfloor>x\<rfloor>
      in if d < 1 / 2 \<or> d = 1 / 2 \<and> even \<lfloor>x\<rfloor> then \<lfloor>x\<rfloor> else \<lfloor>x\<rfloor> + 1)"

text \<open>The position of the leading one of a positive rational, from those of its two parts.\<close>

definition floor_log2 :: "rat \<Rightarrow> int" where
  "floor_log2 q =
     (let (n, d) = quotient_of q;
          k = int (floorlog 2 (nat n)) - int (floorlog 2 (nat d))
      in if 2 powi k \<le> q then k else k - 1)"

text \<open>The exponent of the last place of a binary64: 53 digits, and never below the subnormals'.\<close>

definition last_place :: "rat \<Rightarrow> int" where
  "last_place q = max (floor_log2 q - 52) (- 1074)"

definition round_magnitude :: "rat \<Rightarrow> rat" where
  "round_magnitude q = of_int (round_half_even (q / 2 powi last_place q)) * 2 powi last_place q"

definition round64 :: "rat \<Rightarrow> float64" where
  "round64 q =
     (if q = 0 then Fin 0
      else let v = round_magnitude \<bar>q\<bar>
           in if v \<ge> 2 ^ 1024 then (if q < 0 then NegInf else PosInf)
              else Fin (if q < 0 then - v else v))"

section \<open>Arithmetic\<close>

fun sign_of :: "float64 \<Rightarrow> int" where
  "sign_of (Fin q) = (if q < 0 then - 1 else if q = 0 then 0 else 1)"
| "sign_of PosInf = 1"
| "sign_of NegInf = - 1"
| "sign_of NaN = 0"

definition signed_inf :: "int \<Rightarrow> float64" where
  "signed_inf s = (if s > 0 then PosInf else if s < 0 then NegInf else NaN)"

fun fmul :: "float64 \<Rightarrow> float64 \<Rightarrow> float64" where
  "fmul (Fin a) (Fin b) = round64 (a * b)"
| "fmul x y = signed_inf (sign_of x * sign_of y)"

text \<open>The divisors of the program are finite and positive; a finite zero divisor gives an infinity.\<close>

fun fdiv :: "float64 \<Rightarrow> float64 \<Rightarrow> float64" where
  "fdiv (Fin a) (Fin b) = (if b = 0 then signed_inf (sign_of (Fin a)) else round64 (a / b))"
| "fdiv NaN y = NaN"
| "fdiv x NaN = NaN"
| "fdiv x (Fin b) = signed_inf (sign_of x * (if b < 0 then - 1 else 1))"
| "fdiv (Fin a) y = Fin 0"
| "fdiv x y = NaN"

text \<open>
  \<open>x.round()\<close> rounds halves away from zero; the result is a binary64, since from 2^52 on every
  binary64 is an integer. The casts \<open>as u32\<close> and \<open>as i32\<close> truncate and saturate, and take a NaN
  to zero.
\<close>

definition round_half_away :: "rat \<Rightarrow> int" where
  "round_half_away x = (if x < 0 then - \<lfloor>- x + 1 / 2\<rfloor> else \<lfloor>x + 1 / 2\<rfloor>)"

fun fround :: "float64 \<Rightarrow> float64" where
  "fround (Fin q) = Fin (of_int (round_half_away q))"
| "fround x = x"

fun truncated :: "int \<Rightarrow> int \<Rightarrow> float64 \<Rightarrow> int" where
  "truncated lo hi (Fin q) = max lo (min hi (if q < 0 then \<lceil>q\<rceil> else \<lfloor>q\<rfloor>))"
| "truncated lo hi PosInf = hi"
| "truncated lo hi NegInf = lo"
| "truncated lo hi NaN = 0"

definition trunc_u32 :: "float64 \<Rightarrow> nat" where
  "trunc_u32 x = nat (truncated 0 (2 ^ 32 - 1) x)"

definition trunc_i32 :: "float64 \<Rightarrow> int" where
  "trunc_i32 x = truncated (- (2 ^ 31)) (2 ^ 31 - 1) x"

section \<open>The leading position\<close>

lemma quotient_bounds:
  assumes "0 < q" "quotient_of q = (n, d)"
  shows "0 < n" "0 < d" "q = of_int n / of_int d"
proof -
  show d: "0 < d" using quotient_of_denom_pos [OF assms(2)] .
  show q: "q = of_int n / of_int d" using quotient_of_div [OF assms(2)] .
  show "0 < n" using assms(1) d unfolding q by (simp add: zero_less_divide_iff)
qed

lemma floorlog_powers:
  assumes "0 < n"
  shows "(2::rat) powi (int (floorlog 2 (nat n)) - 1) \<le> of_int n" "of_int n < (2::rat) powi int (floorlog 2 (nat n))"
proof -
  define k where "k = floorlog 2 (nat n)"
  have b: "2 ^ (k - 1) \<le> nat n" "nat n < 2 ^ k"
    using floorlog_bounds [of "nat n" 2] assms by (simp_all add: k_def)
  have k: "int k - 1 = int (k - 1)" using b assms by (cases k) simp_all
  have n: "of_int n = (of_nat (nat n) :: rat)" using assms by simp
  have "(of_nat (2 ^ (k - 1)) :: rat) \<le> of_nat (nat n)" "(of_nat (nat n) :: rat) < of_nat (2 ^ k)"
    using b by (simp_all only: of_nat_le_iff of_nat_less_iff)
  then show "(2::rat) powi (int (floorlog 2 (nat n)) - 1) \<le> of_int n" "of_int n < (2::rat) powi int (floorlog 2 (nat n))"
    unfolding k_def [symmetric] k n power_int_of_nat by (simp_all only: of_nat_power of_nat_numeral)
qed

lemma floor_log2_bounds:
  assumes "0 < q"
  shows "2 powi floor_log2 q \<le> q" "q < 2 powi (floor_log2 q + 1)"
proof -
  obtain n d where nd: "quotient_of q = (n, d)" by force
  note qb = quotient_bounds [OF assms nd]
  define a where "a = int (floorlog 2 (nat n))"
  define b where "b = int (floorlog 2 (nat d))"
  have n: "(2::rat) powi (a - 1) \<le> of_int n" "of_int n < (2::rat) powi a"
    using floorlog_powers [OF qb(1)] by (simp_all add: a_def)
  have d: "(2::rat) powi (b - 1) \<le> of_int d" "of_int d < (2::rat) powi b"
    using floorlog_powers [OF qb(2)] by (simp_all add: b_def)
  have "q < 2 powi a / 2 powi (b - 1)"
    unfolding qb(3) using n d qb by (intro frac_less) simp_all
  then have upper: "q < 2 powi (a - b + 1)" by (simp add: power_int_diff power_int_add field_simps)
  have "2 powi (a - 1) / 2 powi b < q"
    unfolding qb(3) using n d qb by (intro frac_less2) simp_all
  then have lower: "2 powi (a - b - 1) < q" by (simp add: power_int_diff power_int_add field_simps)
  have v: "floor_log2 q = (if 2 powi (a - b) \<le> q then a - b else a - b - 1)"
    by (simp add: floor_log2_def nd a_def b_def)
  show "2 powi floor_log2 q \<le> q" using lower by (simp add: v)
  show "q < 2 powi (floor_log2 q + 1)" using upper by (simp add: v)
qed

lemma powi_sign [simp]: "\<not> (2::rat) powi e < 0" "\<not> (2::rat) powi e \<le> 0"
  by (simp_all add: not_le not_less)

lemma powi_mono: "i \<le> j \<Longrightarrow> (2::rat) powi i \<le> 2 powi j"
  by (rule power_int_increasing) simp_all

lemma powi_less_cancel: "(2::rat) powi i < 2 powi j \<Longrightarrow> i < j"
  using powi_mono [of j i] by (cases "i < j") simp_all

section \<open>Which values are exact, and how far rounding moves the others\<close>

definition binary64 :: "rat \<Rightarrow> bool" where
  "binary64 q \<longleftrightarrow>
     (\<exists>m e. q = of_int m * 2 powi e \<and> \<bar>m\<bar> < 2 ^ 53 \<and> - 1074 \<le> e \<and> \<bar>q\<bar> < 2 ^ 1024)"

lemma round_half_even_int [simp]: "round_half_even (of_int n) = n"
  by (simp add: round_half_even_def)

lemma round_half_even_error: "\<bar>of_int (round_half_even x) - x\<bar> \<le> 1 / 2"
proof -
  have "of_int \<lfloor>x\<rfloor> \<le> x" "x < of_int \<lfloor>x\<rfloor> + 1" by linarith+
  then show ?thesis
    unfolding round_half_even_def Let_def
    by (cases "x - of_int \<lfloor>x\<rfloor> < 1 / 2 \<or> x - of_int \<lfloor>x\<rfloor> = 1 / 2 \<and> even \<lfloor>x\<rfloor>") (simp_all, linarith+)
qed

lemma last_place_bounds:
  assumes "0 < q"
  shows "q < 2 ^ 53 * 2 powi last_place q"
    and "last_place q = - 1074 \<or> 2 ^ 52 * 2 powi last_place q \<le> q"
proof -
  have split: "2 ^ k * 2 powi i = (2::rat) powi (i + int k)" for k i
    by (simp add: power_int_add power_int_of_nat mult.commute)
  have "q < 2 powi (floor_log2 q + 1)" using floor_log2_bounds [OF assms] by simp
  also have "\<dots> \<le> 2 powi (last_place q + int 53)" by (rule powi_mono) (simp add: last_place_def)
  finally show "q < 2 ^ 53 * 2 powi last_place q" unfolding split .
  show "last_place q = - 1074 \<or> 2 ^ 52 * 2 powi last_place q \<le> q"
    using floor_log2_bounds(1) [OF assms] unfolding split last_place_def by (auto simp: max_def)
qed

lemma round_magnitude_exact:
  assumes q: "0 < q" "q = of_int m * 2 powi e" and m: "m < 2 ^ 53" and e: "- 1074 \<le> e"
  shows "round_magnitude q = q"
proof -
  define E where "E = last_place q"
  have E: "E \<le> e"
  proof (cases "E = - 1074")
    case False
    then have "2 ^ 52 * 2 powi E \<le> q" using last_place_bounds(2) [OF q(1)] by (simp add: E_def)
    also have "(of_int m :: rat) < of_int (2 ^ 53)" using m by (simp only: of_int_less_iff)
    then have "q < 2 ^ 53 * 2 powi e" unfolding q(2) by (simp add: mult_strict_right_mono)
    finally have "2 powi E < (2::rat) * 2 powi e" by simp
    then have "(2::rat) powi E < 2 powi (e + 1)" by (simp add: power_int_add)
    then show ?thesis using powi_less_cancel by fastforce
  qed (use e in simp)
  have "q / 2 powi E = of_int m * (2 powi e / 2 powi E)" unfolding q(2) by simp
  also have "(2::rat) powi e / 2 powi E = 2 powi int (nat (e - E))"
    using E by (simp add: power_int_diff [symmetric])
  also have "of_int m * (2::rat) powi int (nat (e - E)) = of_int (m * 2 ^ nat (e - E))"
    unfolding power_int_of_nat by simp
  finally have "q / 2 powi E = of_int (m * 2 ^ nat (e - E))" .
  then have "of_int (round_half_even (q / 2 powi E)) = q / 2 powi E" by (metis round_half_even_int)
  then show ?thesis unfolding round_magnitude_def E_def [symmetric] by simp
qed

lemma round_magnitude_error:
  assumes "0 < q"
  shows "\<bar>round_magnitude q - q\<bar> \<le> 2 powi last_place q / 2"
proof -
  define E where "E = last_place q"
  have p: "(0::rat) < 2 powi E" by simp
  have "round_magnitude q - q = (of_int (round_half_even (q / 2 powi E)) - q / 2 powi E) * 2 powi E"
    unfolding round_magnitude_def E_def [symmetric] by (simp add: left_diff_distrib)
  then have "\<bar>round_magnitude q - q\<bar> = \<bar>of_int (round_half_even (q / 2 powi E)) - q / 2 powi E\<bar> * 2 powi E"
    using p by (simp add: abs_mult)
  also have "\<dots> \<le> 1 / 2 * 2 powi E" by (intro mult_right_mono round_half_even_error) simp
  finally show ?thesis by (simp add: E_def)
qed

lemma round64_exact:
  assumes "binary64 q"
  shows "round64 q = Fin q"
proof -
  obtain m e where q: "q = of_int m * 2 powi e" "\<bar>m\<bar> < 2 ^ 53" "- 1074 \<le> e" "\<bar>q\<bar> < 2 ^ 1024"
    using assms by (auto simp: binary64_def)
  have "round_magnitude \<bar>q\<bar> = \<bar>q\<bar>" if "q \<noteq> 0"
    using that q by (intro round_magnitude_exact [of _ "\<bar>m\<bar>" e]) (auto simp: abs_mult)
  then show ?thesis using q(4) by (auto simp: round64_def Let_def)
qed

lemma round64_positive:
  assumes "0 < q"
  shows "round64 q = (if round_magnitude q \<ge> 2 ^ 1024 then PosInf else Fin (round_magnitude q))"
  using assms by (simp add: round64_def Let_def)

lemma round_magnitude_nonneg: "0 \<le> q \<Longrightarrow> 0 \<le> round_magnitude q"
proof -
  assume "0 \<le> q"
  then have "0 \<le> \<lfloor>q / 2 powi last_place q\<rfloor>" by simp
  then have "0 \<le> round_half_even (q / 2 powi last_place q)" by (simp add: round_half_even_def Let_def)
  then show ?thesis by (simp add: round_magnitude_def)
qed

text \<open>A rounded value is a binary64 again: a carry out of the 53 digits moves the place by one.\<close>

lemma round64_binary64:
  assumes "0 < q" "round64 q = Fin v"
  shows "binary64 v"
proof -
  define E where "E = last_place q"
  define m where "m = round_half_even (q / 2 powi E)"
  have v: "v = of_int m * 2 powi E" "v < 2 ^ 1024"
    using assms by (auto simp: round64_positive round_magnitude_def E_def m_def split: if_splits)
  have "0 \<le> v" using assms round_magnitude_nonneg [of q] by (auto simp: round64_positive split: if_splits)
  then have m0: "0 \<le> m" unfolding v(1) by (simp add: zero_le_mult_iff)
  have "q / 2 powi E < 2 ^ 53" using last_place_bounds(1) [OF assms(1)] by (simp add: E_def divide_simps mult.commute)
  then have "of_int m < (2::rat) ^ 53 + 1" using round_half_even_error [of "q / 2 powi E"] unfolding m_def by linarith
  then have "m \<le> 2 ^ 53" by simp
  moreover have E: "- 1074 \<le> E" by (simp add: E_def last_place_def)
  moreover have "v = of_int (2 ^ 52) * 2 powi (E + 1)" if "m = 2 ^ 53" 
    using that by (simp add: v(1) power_int_add)
  ultimately have "\<exists>m e. v = of_int m * 2 powi e \<and> \<bar>m\<bar> < 2 ^ 53 \<and> - 1074 \<le> e"
    using v(1) m0 by (cases "m = 2 ^ 53") (fastforce, intro exI [of _ m] exI [of _ E], simp)
  then show ?thesis using v(2) \<open>0 \<le> v\<close> unfolding binary64_def by auto
qed

lemma round64_error:
  assumes q: "2 powi (- 1022) \<le> q" and v: "round64 q = Fin v"
  shows "\<bar>v - q\<bar> \<le> q / 2 ^ 53"
proof -
  have pos: "0 < q" using q by (rule less_le_trans [rotated]) simp
  have "v = round_magnitude q" using v pos by (auto simp: round64_positive split: if_splits)
  then have "\<bar>v - q\<bar> \<le> 2 powi last_place q / 2" using round_magnitude_error [OF pos] by simp
  also have "\<dots> \<le> q / 2 ^ 53"
  proof -
    have "2 ^ 52 * 2 powi last_place q \<le> q"
    proof (cases "last_place q = - 1074")
      case True
      have "2 ^ 52 * (2::rat) powi (- 1074) = 2 powi (- 1022)"
        using power_int_add [of "2::rat" 52 "- 1074"] by simp
      then show ?thesis using q True by simp
    qed (use last_place_bounds(2) [OF pos] in blast)
    then show ?thesis by simp
  qed
  finally show ?thesis .
qed

section \<open>Binary32 values\<close>

definition binary32 :: "rat \<Rightarrow> bool" where
  "binary32 q \<longleftrightarrow> (\<exists>m e. q = of_int m * 2 powi e \<and> \<bar>m\<bar> < 2 ^ 24 \<and> - 149 \<le> e \<and> e \<le> 104)"

lemma float32_value_binary32:
  assumes "float32_value bits = Fin q"
  shows "binary32 q"
proof -
  define e where "e = bits div 2 ^ 23 mod 2 ^ 8"
  define f where "f = bits mod 2 ^ 23"
  define m where "m = int (if e = 0 then f else 2 ^ 23 + f)"
  have e: "e < 256" by (simp add: e_def)
  have f: "f < 2 ^ 23" by (simp add: f_def)
  have "e \<noteq> 255" "q = of_int m * 2 powi (int (max e 1) - 150) \<or> q = of_int (- m) * 2 powi (int (max e 1) - 150)"
    using assms unfolding float32_value_def Let_def e_def [symmetric] f_def [symmetric] m_def
    by (auto split: if_splits)
  moreover have "\<bar>m\<bar> < 2 ^ 24" "\<bar>- m\<bar> < 2 ^ 24" using f by (simp_all add: m_def)
  moreover have "- 149 \<le> int (max e 1) - 150" "int (max e 1) - 150 \<le> 104"
    using e \<open>e \<noteq> 255\<close> by auto
  ultimately show ?thesis unfolding binary32_def by blast
qed

lemma of_int_bound: "m < n \<Longrightarrow> (of_int m :: rat) < of_int n" by simp

lemma binary32_positive:
  assumes "binary32 q" "0 < q"
  shows "2 powi (- 149) \<le> q" "q < 2 powi 128"
proof -
  obtain m e where q: "q = of_int m * 2 powi e" "\<bar>m\<bar> < 2 ^ 24" "- 149 \<le> e" "e \<le> 104"
    using assms(1) by (auto simp: binary32_def)
  have "0 < m" using assms(2) by (simp add: q(1) zero_less_mult_iff)
  then have m: "1 \<le> (of_int m :: rat)" "of_int m < (of_int (2 ^ 24) :: rat)"
    using q(2) by (simp, intro of_int_bound) simp
  have "1 * 2 powi (- 149) \<le> of_int m * (2::rat) powi e"
    using m powi_mono [OF q(3)] by (intro mult_mono) simp_all
  then show "2 powi (- 149) \<le> q" by (simp add: q(1))
  have "of_int m * 2 powi e < of_int (2 ^ 24) * (2::rat) powi e" using m by (intro mult_strict_right_mono) simp_all
  also have "\<dots> \<le> of_int (2 ^ 24) * 2 powi 104" using powi_mono [OF q(4)] by (intro mult_left_mono) simp_all
  also have "\<dots> = 2 powi 128" by (simp add: power_int_numeral)
  finally show "q < 2 powi 128" by (simp add: q(1))
qed

text \<open>A product of two binary32 values is exact in binary64.\<close>

lemma binary32_product:
  assumes "binary32 a" "binary32 b"
  shows "binary64 (a * b)"
proof -
  obtain m e n f where a: "a = of_int m * 2 powi e" "\<bar>m\<bar> < 2 ^ 24" "- 149 \<le> e" "e \<le> 104"
    and b: "b = of_int n * 2 powi f" "\<bar>n\<bar> < 2 ^ 24" "- 149 \<le> f" "f \<le> 104"
    using assms by (auto simp: binary32_def)
  have p: "a * b = of_int (m * n) * 2 powi (e + f)" by (simp add: a(1) b(1) power_int_add)
  have "\<bar>m * n\<bar> \<le> 2 ^ 24 * 2 ^ 24" unfolding abs_mult using a(2) b(2) by (intro mult_mono) simp_all
  then have mn: "\<bar>m * n\<bar> < 2 ^ 53" by simp
  have "\<bar>a * b\<bar> = of_int \<bar>m * n\<bar> * 2 powi (e + f)" by (simp add: p abs_mult)
  also have "\<dots> \<le> of_int (2 ^ 53) * 2 powi 208"
    using mn a(4) b(4) by (intro mult_mono powi_mono) (simp_all only: of_int_le_iff, simp_all)
  also have "\<dots> < 2 ^ 1024" by (simp add: power_int_numeral)
  finally show ?thesis unfolding binary64_def using p mn a(3) b(3) by (intro exI [of _ "m * n"] exI [of _ "e + f"]) auto
qed

end
