(* ===== verification/Requantization.thy ===== *)
theory Requantization
  imports Floats ConvTypes
begin

text \<open>
  The requantization multiplier and the activation ceilings of \<open>rocket-core/src/conv.rs\<close>: the
  search for the normalised mantissa and its shift, with its possible divergence as \<open>None\<close>, and
  the encoding of a clamp. Arithmetic is binary64 (theory Floats).
\<close>

section \<open>The multiplier\<close>

definition MANTISSA_FLOOR :: nat where "MANTISSA_FLOOR = 2 ^ 14"
definition MAX_CVT_SHIFT :: nat where "MAX_CVT_SHIFT = 63"
definition BS_UNIT_MULTIPLIER :: int where "BS_UNIT_MULTIPLIER = 2 ^ 14"
definition BS_MULTIPLIER_SHIFT :: nat where "BS_MULTIPLIER_SHIFT = 7"

datatype multiplier_error = NotPositive | TooSmall | TooLarge

text \<open>The first loop: \<open>while scaled < 2^14\<close>; its exit by an error bounds it.\<close>

function scale_up :: "float64 \<Rightarrow> int \<Rightarrow> (multiplier_error, float64 \<times> int) outcome" where
  "scale_up scaled shift =
     (if flt scaled (Fin (of_nat MANTISSA_FLOOR))
      then if shift + 1 > int MAX_CVT_SHIFT then Refused TooSmall
           else scale_up (fmul scaled (Fin 2)) (shift + 1)
      else Done (scaled, shift))"
  by pat_completeness auto
termination by (relation "measure (\<lambda>(_, shift). nat (int MAX_CVT_SHIFT - shift))") auto

text \<open>The second loop: \<open>while scaled >= 2^15\<close>. Nothing bounds it, so it may not return.\<close>

partial_function (option) scale_down :: "float64 \<Rightarrow> int \<Rightarrow> (float64 \<times> int) option" where
  "scale_down scaled shift =
     (if fle (Fin (of_nat (2 * MANTISSA_FLOOR))) scaled
      then scale_down (fdiv scaled (Fin 2)) (shift - 1)
      else Some (scaled, shift))"

text \<open>After the loops: the rounded mantissa, a carry out of it, and a shift that must not be negative.\<close>

definition encode_multiplier :: "float64 \<Rightarrow> int \<Rightarrow> (multiplier_error, multiplier) outcome" where
  "encode_multiplier scaled shift =
     (let rounded = trunc_u32 (fround scaled);
          (scale, shift) = (if rounded \<ge> 2 * MANTISSA_FLOOR then (rounded div 2, shift - 1)
                            else (rounded, shift))
      in refuse_unless (0 \<le> shift) TooLarge (Done \<lparr>mul_scale = scale, mul_shift = nat shift\<rparr>))"

definition try_from_ratio :: "float64 \<Rightarrow> (multiplier_error, multiplier) outcome option" where
  "try_from_ratio ratio =
     (if \<not> is_finite ratio \<or> fle ratio (Fin 0) then Some (Refused NotPositive)
      else case scale_up (fmul ratio (Fin (of_nat MANTISSA_FLOOR))) 14 of
             Refused e \<Rightarrow> Some (Refused e)
           | Panicked \<Rightarrow> Some Panicked
           | Done (scaled, shift) \<Rightarrow>
               Option.bind (scale_down scaled shift)
                 (\<lambda>(scaled, shift). Some (encode_multiplier scaled shift)))"

definition from_ratio :: "float64 \<Rightarrow> (multiplier_error, multiplier) outcome option" where
  "from_ratio ratio = map_option unwrap (try_from_ratio ratio)"

definition bs_gain :: float64 where
  "bs_gain = Fin (of_int (BS_UNIT_MULTIPLIER div 2 ^ BS_MULTIPLIER_SHIFT))"

definition try_for_unit_bs :: "float64 \<Rightarrow> (multiplier_error, multiplier) outcome option" where
  "try_for_unit_bs total_ratio = try_from_ratio (fdiv total_ratio bs_gain)"

definition for_unit_bs :: "float64 \<Rightarrow> (multiplier_error, multiplier) outcome option" where
  "for_unit_bs total_ratio = map_option unwrap (try_for_unit_bs total_ratio)"

definition multiplier_ratio :: "multiplier \<Rightarrow> float64" where
  "multiplier_ratio m = fdiv (Fin (of_nat (mul_scale m))) (Fin (2 ^ mul_shift m))"

section \<open>The ratio of three calibration scales\<close>

text \<open>\<open>f64::from(input_scale) * f64::from(weights_scale) / f64::from(output_scale)\<close>.\<close>

definition scale_ratio :: "nat \<Rightarrow> nat \<Rightarrow> nat \<Rightarrow> float64" where
  "scale_ratio in_scale w_scale out_scale =
     fdiv (fmul (float32_value in_scale) (float32_value w_scale)) (float32_value out_scale)"

text \<open>Continuing after a step that may not return.\<close>

definition returned :: "('e, 'a) outcome option \<Rightarrow> ('a \<Rightarrow> ('e, 'b) outcome) \<Rightarrow> ('e, 'b) outcome option" where
  "returned m f = map_option (\<lambda>r. obind r f) m"

section \<open>Activation ceilings\<close>

text \<open>A ceiling and the scales are binary32 bit patterns.\<close>

definition positive_f32 :: "nat \<Rightarrow> bool" where
  "positive_f32 bits \<longleftrightarrow> is_finite (float32_value bits) \<and> flt (Fin 0) (float32_value bits)"

definition try_clamped_fp16 :: "nat \<Rightarrow> activation plan_result" where
  "try_clamped_fp16 clamp_at =
     refuse_unless (positive_f32 clamp_at) InvalidShape (Done (Clamped clamp_at))"

definition try_clamped_int8 :: "nat \<Rightarrow> nat \<Rightarrow> nat \<Rightarrow> activation plan_result" where
  "try_clamped_int8 clamp_at in_scale w_scale =
     refuse_unless (positive_f32 clamp_at) InvalidShape
     (let unit = fmul (float32_value in_scale) (float32_value w_scale)
      in refuse_unless (is_finite unit \<and> flt (Fin 0) unit) InvalidShape
     (let cmp = fround (fmul (fdiv (float32_value clamp_at) unit) bs_gain)
      in refuse_unless (fle (Fin 0) cmp \<and> fle cmp (Fin (2 ^ 32 - 1))) HardwareLimit
           (Done (Clamped (trunc_u32 cmp)))))"

definition clamped_fp16 :: "nat \<Rightarrow> activation plan_result" where
  "clamped_fp16 clamp_at = unwrap (try_clamped_fp16 clamp_at)"

definition clamped_int8 :: "nat \<Rightarrow> nat \<Rightarrow> nat \<Rightarrow> activation plan_result" where
  "clamped_int8 clamp_at in_scale w_scale = unwrap (try_clamped_int8 clamp_at in_scale w_scale)"

declare scale_up.simps [simp del]

section \<open>The first loop\<close>

lemma binary64_double:
  assumes "binary64 q" "\<bar>q\<bar> < 2 ^ 1023"
  shows "binary64 (q * 2)"
proof -
  obtain m e where q: "q = of_int m * 2 powi e" "\<bar>m\<bar> < 2 ^ 53" "- 1074 \<le> e"
    using assms(1) by (auto simp: binary64_def)
  have "\<bar>q * 2\<bar> < 2 ^ 1024" using assms(2) by (simp add: abs_mult)
  then show ?thesis unfolding binary64_def using q
    by (intro exI [of _ m] exI [of _ "e + 1"]) (simp add: power_int_add)
qed

lemma binary64_half:
  assumes "binary64 q" "2 ^ 15 \<le> q"
  shows "binary64 (q / 2)"
proof -
  obtain m e where q: "q = of_int m * 2 powi e" "\<bar>m\<bar> < 2 ^ 53" "- 1074 \<le> e" "\<bar>q\<bar> < 2 ^ 1024"
    using assms(1) by (auto simp: binary64_def)
  have "e \<noteq> - 1074"
  proof
    assume e: "e = - 1074"
    have "(of_int m :: rat) \<le> of_int (2 ^ 53)" using q(2) by (simp only: of_int_le_iff)
    then have "q \<le> of_int (2 ^ 53) * 2 powi (- 1074)" unfolding q(1) e by (intro mult_right_mono) simp_all
    also have "(2::rat) powi (- 1074) \<le> 2 powi (- 53)" by (rule powi_mono) simp
    finally have "q \<le> 1" by (simp add: power_int_minus power_int_numeral)
    then show False using assms(2) by simp
  qed
  moreover have "q / 2 = of_int m * 2 powi (e - 1)" by (simp add: q(1) power_int_diff)
  moreover have "\<bar>q / 2\<bar> < 2 ^ 1024" using q(4) assms(2) by simp
  ultimately show ?thesis unfolding binary64_def using q(2,3)
    by (intro exI [of _ m] exI [of _ "e - 1"]) simp
qed

lemma scale_up_result:
  assumes "binary64 x" "0 < x" "s \<le> 63"
  shows "(x * 2 ^ nat (63 - s) < 2 ^ 14 \<and> scale_up (Fin x) s = Refused TooSmall)
    \<or> (\<exists>k. k \<le> nat (63 - s) \<and> scale_up (Fin x) s = Done (Fin (x * 2 ^ k), s + int k)
         \<and> binary64 (x * 2 ^ k) \<and> 2 ^ 14 \<le> x * 2 ^ k \<and> (k = 0 \<or> x * 2 ^ k < 2 ^ 15))"
  using assms
proof (induction "nat (63 - s)" arbitrary: x s)
  case 0
  then have "s = 63" by simp
  then show ?case using 0 by (subst (1 2) scale_up.simps) (auto simp: MANTISSA_FLOOR_def MAX_CVT_SHIFT_def not_less)
next
  case (Suc n)
  show ?case
  proof (cases "x < 2 ^ 14")
    case True
    have "\<bar>x\<bar> < 2 ^ 1023" using True Suc.prems(2) by simp
    then have b: "binary64 (x * 2)" using Suc.prems(1) by (rule binary64_double [rotated])
    have "s < 63" using Suc.hyps(2) by linarith
    then have step: "scale_up (Fin x) s = scale_up (Fin (x * 2)) (s + 1)"
      using True by (subst scale_up.simps)
        (simp add: MANTISSA_FLOOR_def MAX_CVT_SHIFT_def round64_exact [OF b])
    have n: "n = nat (63 - (s + 1))" and s: "s + 1 \<le> 63" "nat (63 - s) = Suc (nat (63 - (s + 1)))"
      using Suc.hyps(2) by linarith+
    have IH: "(x * 2 * 2 ^ nat (63 - (s + 1)) < 2 ^ 14 \<and> scale_up (Fin (x * 2)) (s + 1) = Refused TooSmall)
      \<or> (\<exists>k. k \<le> nat (63 - (s + 1)) \<and> scale_up (Fin (x * 2)) (s + 1) = Done (Fin (x * 2 * 2 ^ k), s + 1 + int k)
         \<and> binary64 (x * 2 * 2 ^ k) \<and> 2 ^ 14 \<le> x * 2 * 2 ^ k \<and> (k = 0 \<or> x * 2 * 2 ^ k < 2 ^ 15))"
      using Suc.hyps(1) [OF n b _ s(1)] Suc.prems(2) by simp
    consider "x * 2 * 2 ^ nat (63 - (s + 1)) < 2 ^ 14" "scale_up (Fin (x * 2)) (s + 1) = Refused TooSmall"
      | k where "k \<le> nat (63 - (s + 1))" "scale_up (Fin (x * 2)) (s + 1) = Done (Fin (x * 2 * 2 ^ k), s + 1 + int k)"
        "binary64 (x * 2 * 2 ^ k)" "2 ^ 14 \<le> x * 2 * 2 ^ k" "k = 0 \<or> x * 2 * 2 ^ k < 2 ^ 15"
      using IH by blast
    then show ?thesis
    proof cases
      case k: (2 k)
      have "x * 2 ^ Suc k < 2 ^ 15" using k(5) True by auto
      then show ?thesis using k s by (intro disjI2 exI [of _ "Suc k"]) (simp add: step mult.assoc)
    qed (simp add: step s mult.assoc)
  next
    case False
    then have "scale_up (Fin x) s = Done (Fin x, s)"
      by (subst scale_up.simps) (simp add: MANTISSA_FLOOR_def)
    then show ?thesis using False Suc.prems(1) by (intro disjI2 exI [of _ 0]) simp
  qed
qed

section \<open>The second loop\<close>

lemma scale_down_result:
  assumes "binary64 x" "0 < x" "x < 2 ^ (15 + n)"
  shows "\<exists>k. scale_down (Fin x) s = Some (Fin (x / 2 ^ k), s - int k)
      \<and> (k = 0 \<or> 2 ^ 14 \<le> x / 2 ^ k) \<and> x / 2 ^ k < 2 ^ 15"
  using assms
proof (induction n arbitrary: x s)
  case (Suc n)
  show ?case
  proof (cases "x < 2 ^ 15")
    case False
    then have b: "binary64 (x / 2)" using Suc.prems(1) by (intro binary64_half) simp_all
    have step: "scale_down (Fin x) s = scale_down (Fin (x / 2)) (s - 1)"
      using False by (subst scale_down.simps) (simp add: MANTISSA_FLOOR_def round64_exact [OF b])
    have half: "0 < x / 2" "x / 2 < 2 ^ (15 + n)" using Suc.prems(2,3) by (simp_all add: power_add)
    obtain k where k: "scale_down (Fin (x / 2)) (s - 1) = Some (Fin (x / 2 / 2 ^ k), s - 1 - int k)"
      "k = 0 \<or> 2 ^ 14 \<le> x / 2 / 2 ^ k" "x / 2 / 2 ^ k < 2 ^ 15"
      using Suc.IH [OF b half, of "s - 1"] by blast
    have "2 ^ 14 \<le> x / 2 ^ Suc k" using k(2) False by auto
    then show ?thesis using k by (intro exI [of _ "Suc k"]) (simp add: step)
  qed (auto intro!: exI [of _ 0] simp: scale_down.simps [of "Fin x"] MANTISSA_FLOOR_def)
qed (auto intro!: exI [of _ 0] simp: scale_down.simps [of "Fin x" for x] MANTISSA_FLOOR_def)

text \<open>Half of infinity is infinity: the loop never ends on it.\<close>

lemma scale_down_infinite: "scale_down PosInf s = None"
proof -
  have "x \<noteq> PosInf" if "scale_down x s = Some r" for x s r
    using that
  proof (rule scale_down.raw_induct [where P = "\<lambda>x s r. x \<noteq> PosInf", rotated])
    fix f x s r
    assume IH: "\<And>x s r. f x s = Some r \<Longrightarrow> x \<noteq> PosInf"
      and body: "(if fle (Fin (of_nat (2 * MANTISSA_FLOOR))) x then f (fdiv x (Fin 2)) (s - 1) else Some (x, s)) = Some r"
    show "x \<noteq> PosInf"
    proof
      assume "x = PosInf"
      with body have "f PosInf (s - 1) = Some r" by (simp add: signed_inf_def)
      then show False using IH by blast
    qed
  qed
  then show ?thesis by (cases "scale_down PosInf s") auto
qed

section \<open>The search as a whole\<close>

lemma powi_split: "(2::rat) powi (i + j) = 2 powi i * 2 powi j" by (simp add: power_int_add)

lemma normalised:
  assumes r: "binary64 r" "0 < r" "r < 2 ^ 1010"
  shows "(r * 2 ^ 49 < 1 \<and> try_from_ratio (Fin r) = Some (Refused TooSmall))
    \<or> (\<exists>z s. try_from_ratio (Fin r) = Some (encode_multiplier (Fin z) s)
          \<and> z = r * 2 powi s \<and> s \<le> 63 \<and> 2 ^ 14 \<le> z \<and> z < 2 ^ 15)"
proof -
  define x where "x = r * 2 ^ 14"
  obtain m e where me: "r = of_int m * 2 powi e" "\<bar>m\<bar> < 2 ^ 53" "- 1074 \<le> e"
    using r(1) by (auto simp: binary64_def)
  have "x < 2 ^ 1010 * 2 ^ 14" unfolding x_def using r(3) by (intro mult_strict_right_mono) simp_all
  then have x1024: "x < 2 ^ 1024" by (simp add: power_add [symmetric])
  have x: "binary64 x" "0 < x"
  proof -
    show "0 < x" using r(2) by (simp add: x_def)
    then show "binary64 x" unfolding binary64_def using me x1024
      by (intro exI [of _ m] exI [of _ "e + 14"]) (simp add: x_def power_int_add power_int_numeral)
  qed
  have start: "fmul (Fin r) (Fin (of_nat MANTISSA_FLOOR)) = Fin x"
    using round64_exact [OF x(1)] by (simp add: MANTISSA_FLOOR_def x_def)
  have unfolded: "try_from_ratio (Fin r) =
      (case scale_up (Fin x) 14 of Refused e \<Rightarrow> Some (Refused e) | Panicked \<Rightarrow> Some Panicked
       | Done (scaled, shift) \<Rightarrow> Option.bind (scale_down scaled shift)
           (\<lambda>(scaled, shift). Some (encode_multiplier scaled shift)))"
    using r(2) by (simp add: try_from_ratio_def start del: fmul.simps)
  have "(14::int) \<le> 63" by simp
  from scale_up_result [OF x this] consider
      (small) "x * 2 ^ nat (63 - 14) < 2 ^ 14" "scale_up (Fin x) 14 = Refused TooSmall"
    | (up) k where "scale_up (Fin x) 14 = Done (Fin (x * 2 ^ k), 14 + int k)" "k \<le> nat (63 - 14)"
        "binary64 (x * 2 ^ k)" "2 ^ 14 \<le> x * 2 ^ k" by blast
  then show ?thesis
  proof cases
    case small
    then show ?thesis by (simp add: unfolded x_def)
  next
    case (up k)
    then have up: "scale_up (Fin x) 14 = Done (Fin (x * 2 ^ k), 14 + int k)" and k: "k \<le> nat (63 - 14)"
      and y: "binary64 (x * 2 ^ k)" "2 ^ 14 \<le> x * 2 ^ k" by blast+
    have "x * 2 ^ k < 2 ^ (15 + 1009)" using y(1) by (auto simp: binary64_def)
    then obtain j where j: "scale_down (Fin (x * 2 ^ k)) (14 + int k)
          = Some (Fin (x * 2 ^ k / 2 ^ j), 14 + int k - int j)"
        "j = 0 \<or> 2 ^ 14 \<le> x * 2 ^ k / 2 ^ j" "x * 2 ^ k / 2 ^ j < 2 ^ 15"
      using scale_down_result [OF y(1)] x(2) by fastforce
    have "(2::rat) powi (14 + int k - int j) = 2 ^ 14 * 2 ^ k / 2 ^ j"
      by (simp add: power_int_diff power_int_add power_int_of_nat power_int_numeral)
    then have "x * 2 ^ k / 2 ^ j = r * 2 powi (14 + int k - int j)" by (simp add: x_def)
    then show ?thesis using j k y(2) unfolding unfolded up by (intro disjI2) auto
  qed
qed

lemma encoded:
  assumes "2 ^ 14 \<le> z" "z < 2 ^ 15"
  defines "c \<equiv> \<lfloor>z + 1 / 2\<rfloor>"
  shows "encode_multiplier (Fin z) s =
      (if c = 2 ^ 15 then refuse_unless (0 < s) TooLarge (Done \<lparr>mul_scale = 2 ^ 14, mul_shift = nat (s - 1)\<rparr>)
       else refuse_unless (0 \<le> s) TooLarge (Done \<lparr>mul_scale = nat c, mul_shift = nat s\<rparr>))"
    and "2 ^ 14 \<le> c" "c \<le> 2 ^ 15" "\<bar>of_int c - z\<bar> \<le> 1 / 2" "c = 2 ^ 15 \<longleftrightarrow> 2 ^ 15 - 1 / 2 \<le> z"
proof -
  have z: "16384 \<le> z" "z < 32768" using assms by simp_all
  have "16384 \<le> c" "c \<le> 32768" using z unfolding c_def by linarith+
  then show c: "2 ^ 14 \<le> c" "c \<le> 2 ^ 15" by simp_all
  show "\<bar>of_int c - z\<bar> \<le> 1 / 2" unfolding c_def by linarith
  show "c = 2 ^ 15 \<longleftrightarrow> 2 ^ 15 - 1 / 2 \<le> z" using z unfolding c_def by (simp, linarith)
  have "trunc_u32 (fround (Fin z)) = nat c"
    using z c by (simp add: trunc_u32_def round_half_away_def c_def [symmetric])
  then show "encode_multiplier (Fin z) s =
      (if c = 2 ^ 15 then refuse_unless (0 < s) TooLarge (Done \<lparr>mul_scale = 2 ^ 14, mul_shift = nat (s - 1)\<rparr>)
       else refuse_unless (0 \<le> s) TooLarge (Done \<lparr>mul_scale = nat c, mul_shift = nat s\<rparr>))"
    using c by (auto simp: encode_multiplier_def MANTISSA_FLOOR_def Let_def)
qed

lemma infinite_ratio:
  assumes "binary64 r" "2 ^ 1010 \<le> r"
  shows "try_from_ratio (Fin r) = None"
proof -
  obtain m e where me: "r = of_int m * 2 powi e" "\<bar>m\<bar> < 2 ^ 53" "- 1074 \<le> e"
    using assms(1) by (auto simp: binary64_def)
  have "(0::rat) < 2 ^ 1010" by (rule zero_less_power) simp
  then have pos: "0 < r" using assms(2) by (rule less_le_trans)
  have x: "r * 2 ^ 14 = of_int m * 2 powi (e + 14)" by (simp add: me(1) power_int_add power_int_numeral)
  have "2 ^ 1010 * 2 ^ 14 \<le> r * 2 ^ 14" using assms(2) by (intro mult_right_mono) simp_all
  then have "2 ^ 1024 \<le> r * 2 ^ 14" by (simp only: power_add [symmetric]) simp
  moreover have "round_magnitude (r * 2 ^ 14) = r * 2 ^ 14"
    by (rule round_magnitude_exact [OF _ x]) (use pos me in auto)
  moreover have "0 < r * 2 ^ 14" using pos by simp
  ultimately have "round64 (r * 2 ^ 14) = PosInf" by (simp only: round64_positive if_True)
  then have "fmul (Fin r) (Fin (of_nat MANTISSA_FLOOR)) = PosInf" by (simp add: MANTISSA_FLOOR_def)
  then show ?thesis using pos
    by (simp add: try_from_ratio_def scale_up.simps [of PosInf] scale_down_infinite del: fmul.simps)
qed

end
