(* ===== verification/BsBuffer.thy ===== *)
theory BsBuffer
  imports Requantization ExecutableFormat SlotWrites
begin

text \<open>
  The bias and scale operands of the BS stage (\<open>iree-rocket-hal/src/rocket/conv.rs\<close>): the planar
  buffer of eight-channel blocks and the packer that normalises an int8 bias vector into it.
\<close>

section \<open>Entries and the buffer\<close>

definition BS_CHANNELS_PER_BLOCK :: nat where "BS_CHANNELS_PER_BLOCK = 8"
definition BS_BLOCK_BYTES :: nat where "BS_BLOCK_BYTES = 64"
definition BS_CONSTANT :: int where "BS_CONSTANT = 128"

datatype bias_error =
    BiasTooSmall
  | PaddedBelowLogical
  | BadBiasScales
  | BsDestinationTooSmall
  | BiasOverflow

record bs_entry =
  bs_bias :: int
  bs_constant :: int
  bs_multiplier :: int

definition default_bs_entry :: bs_entry where
  "default_bs_entry =
     \<lparr>bs_bias = 0, bs_constant = BS_CONSTANT, bs_multiplier = BS_UNIT_MULTIPLIER\<rparr>"

text \<open>\<open>i16::to_le_bytes\<close> in two's complement.\<close>

definition i16_le_bytes :: "int \<Rightarrow> byte list" where
  "i16_le_bytes z = [of_int z, of_int (z div 256)]"

text \<open>One turn of the loop: the three planes of a block, each at the lane of the channel.\<close>

definition write_bs_entry :: "nat \<times> bs_entry \<Rightarrow> byte list \<Rightarrow> (bias_error, byte list) outcome" where
  "write_bs_entry ie buffer =
     (let (index, entry) = ie;
          lane = index mod BS_CHANNELS_PER_BLOCK;
          base = index div BS_CHANNELS_PER_BLOCK * BS_BLOCK_BYTES
      in obind (write_slice buffer (base + lane * 4) (to_le_bytes (i32_bits (bs_bias entry)))) (\<lambda>buffer.
         obind (write_slice buffer (base + 32 + lane * 2) (i16_le_bytes (bs_constant entry))) (\<lambda>buffer.
         write_slice buffer (base + 48 + lane * 2) (i16_le_bytes (bs_multiplier entry)))))"

definition write_bs_buffer :: "byte list \<Rightarrow> bs_entry list \<Rightarrow> (bias_error, byte list) outcome" where
  "write_bs_buffer buffer entries =
     (let needed = bs_buffer_bytes (wrap32 (length entries))
      in ensure (needed \<le> length buffer)
         (obind (fill_slice buffer 0 needed 0) (\<lambda>buffer.
          for_each (enumerate 0 entries) write_bs_entry buffer)))"

section \<open>Packing an int8 bias\<close>

definition bias_scale :: "nat \<Rightarrow> nat \<Rightarrow> float64" where
  "bias_scale in_scale w_scale = fmul (float32_value in_scale) (float32_value w_scale)"

definition normalized_bias :: "float64 \<Rightarrow> int \<Rightarrow> float64" where
  "normalized_bias scale bias = fround (fdiv (Fin (of_int bias)) scale)"

definition bias_at :: "byte list \<Rightarrow> nat \<Rightarrow> int" where
  "bias_at dense channel = as_i32 (from_le_bytes (take 4 (drop (channel * 4) dense)))"

text \<open>The body of the loop over the logical channels.\<close>

definition pack_bias_channel ::
  "byte list \<Rightarrow> float64 \<Rightarrow> int \<Rightarrow> nat \<Rightarrow> bs_entry list \<Rightarrow> (bias_error, bs_entry list) outcome" where
  "pack_bias_channel dense scale weight_zp channel entries =
     ensure (channel * 4 + 4 \<le> length dense)
     (let normalized = normalized_bias scale (bias_at dense channel)
      in if flt normalized (Fin (- (2 ^ 31))) \<or> flt (Fin (2 ^ 31 - 1)) normalized then Refused BiasOverflow
         else Done (entries[channel := (entries ! channel)\<lparr>bs_bias := trunc_i32 normalized,
                                                          bs_constant := - weight_zp\<rparr>]))"

definition pack_int8_bias_to_bs ::
  "byte list \<Rightarrow> nat \<Rightarrow> nat \<Rightarrow> nat \<Rightarrow> nat \<Rightarrow> int \<Rightarrow> byte list \<Rightarrow> (bias_error, byte list \<times> nat) outcome" where
  "pack_int8_bias_to_bs dense out_ch padded in_scale w_scale weight_zp packed =
     (if length dense < min (out_ch * 4) (2 ^ 64 - 1) then Refused BiasTooSmall
      else if padded < out_ch then Refused PaddedBelowLogical
      else let scale = bias_scale in_scale w_scale
      in if \<not> is_finite scale \<or> fle scale (Fin 0) then Refused BadBiasScales
      else let needed = bs_buffer_bytes (wrap32 padded)
      in if length packed < needed then Refused BsDestinationTooSmall
      else obind (for_each [0..<out_ch] (pack_bias_channel dense scale weight_zp)
                    (replicate padded default_bs_entry)) (\<lambda>entries.
           obind (write_bs_buffer (take needed packed) entries) (\<lambda>written.
           Done (written @ drop needed packed, needed))))"

section \<open>The slots of the buffer\<close>

text \<open>A slot is a channel and a plane: the bias, the constant or the multiplier.\<close>

datatype bs_plane = BiasPlane | ConstantPlane | MultiplierPlane

fun bs_place :: "nat \<times> bs_plane \<Rightarrow> nat" where
  "bs_place (c, BiasPlane) = c div 8 * 64 + c mod 8 * 4"
| "bs_place (c, ConstantPlane) = c div 8 * 64 + 32 + c mod 8 * 2"
| "bs_place (c, MultiplierPlane) = c div 8 * 64 + 48 + c mod 8 * 2"

fun bs_extent :: "nat \<times> bs_plane \<Rightarrow> nat" where
  "bs_extent (c, BiasPlane) = 4"
| "bs_extent (c, _) = 2"

fun bs_value :: "bs_entry list \<Rightarrow> nat \<times> bs_plane \<Rightarrow> byte list" where
  "bs_value es (c, BiasPlane) = to_le_bytes (i32_bits (bs_bias (es ! c)))"
| "bs_value es (c, ConstantPlane) = i16_le_bytes (bs_constant (es ! c))"
| "bs_value es (c, MultiplierPlane) = i16_le_bytes (bs_multiplier (es ! c))"

definition bs_keys :: "nat \<Rightarrow> (nat \<times> bs_plane) list" where
  "bs_keys n = concat (map (\<lambda>c. [(c, BiasPlane), (c, ConstantPlane), (c, MultiplierPlane)]) [0..<n])"

lemma bs_extent_value [simp]: "length (bs_value es k) = bs_extent k"
  by (cases k; cases "snd k") (auto simp: to_le_bytes_def i16_le_bytes_def)

lemma bs_slot_coordinates:
  assumes "bs_place (c, p) \<le> i" "i < bs_place (c, p) + bs_extent (c, p)"
  shows "i div 64 = c div 8"
    and "p = BiasPlane \<longleftrightarrow> i mod 64 < 32" "p = ConstantPlane \<longleftrightarrow> 32 \<le> i mod 64 \<and> i mod 64 < 48"
    and "c mod 8 = (if i mod 64 < 32 then i mod 64 div 4 else i mod 16 div 2)"
proof -
  define q r where "q = c div 8" and "r = c mod 8"
  have r: "r < 8" by (simp add: r_def)
  obtain t where i: "i = q * 64 + t" and t: "t < 64"
    and tp: "(p = BiasPlane \<and> r * 4 \<le> t \<and> t < r * 4 + 4)
      \<or> (p = ConstantPlane \<and> 32 + r * 2 \<le> t \<and> t < 34 + r * 2)
      \<or> (p = MultiplierPlane \<and> 48 + r * 2 \<le> t \<and> t < 50 + r * 2)"
  proof (rule that [of "i - q * 64"])
    have "q * 64 \<le> i" "i - q * 64 < 64 \<and> (p = BiasPlane \<and> r * 4 \<le> i - q * 64 \<and> i - q * 64 < r * 4 + 4
      \<or> p = ConstantPlane \<and> 32 + r * 2 \<le> i - q * 64 \<and> i - q * 64 < 34 + r * 2
      \<or> p = MultiplierPlane \<and> 48 + r * 2 \<le> i - q * 64 \<and> i - q * 64 < 50 + r * 2)"
      using assms r by (cases p; simp add: q_def [symmetric] r_def [symmetric]; linarith)+
    then show "i = q * 64 + (i - q * 64)" "i - q * 64 < 64"
      "(p = BiasPlane \<and> r * 4 \<le> i - q * 64 \<and> i - q * 64 < r * 4 + 4)
      \<or> (p = ConstantPlane \<and> 32 + r * 2 \<le> i - q * 64 \<and> i - q * 64 < 34 + r * 2)
      \<or> (p = MultiplierPlane \<and> 48 + r * 2 \<le> i - q * 64 \<and> i - q * 64 < 50 + r * 2)" by auto
  qed
  have "i = t + 16 * (4 * q)" by (simp add: i)
  then have "i mod 16 = t mod 16" by (simp only: mod_mult_self2)
  then have m: "i mod 64 = t" "i div 64 = q" "i mod 16 = t mod 16" using t by (simp_all add: i)
  show "i div 64 = c div 8" by (simp add: m q_def)
  show "p = BiasPlane \<longleftrightarrow> i mod 64 < 32" "p = ConstantPlane \<longleftrightarrow> 32 \<le> i mod 64 \<and> i mod 64 < 48"
    using tp r by (auto simp: m)
  from tp show "c mod 8 = (if i mod 64 < 32 then i mod 64 div 4 else i mod 16 div 2)"
    unfolding m r_def [symmetric]
  proof (elim disjE conjE)
    assume "r * 4 \<le> t" "t < r * 4 + 4"
    moreover from this have "t div 4 = r" by (intro div_nat_eqI) simp_all
    ultimately show "r = (if t < 32 then t div 4 else t mod 16 div 2)" using r by simp
  next
    assume "32 + r * 2 \<le> t" "t < 34 + r * 2"
    moreover from this have "t mod 16 = t - 32" using r by (simp add: mod_if)
    ultimately show "r = (if t < 32 then t div 4 else t mod 16 div 2)" by (simp add: div_nat_eqI)
  next
    assume "48 + r * 2 \<le> t" "t < 50 + r * 2"
    moreover from this have "t mod 16 = t - 48" using r by (simp add: mod_if)
    ultimately show "r = (if t < 32 then t div 4 else t mod 16 div 2)" by (simp add: div_nat_eqI)
  qed
qed

interpretation bs: placement bs_place bs_extent UNIV
proof
  fix k l :: "nat \<times> bs_plane" and i
  assume a: "bs_place k \<le> i" "i < bs_place k + bs_extent k" "bs_place l \<le> i" "i < bs_place l + bs_extent l"
  obtain c p d q where k: "k = (c, p)" and l: "l = (d, q)" by (cases k, cases l) auto
  note kc = bs_slot_coordinates [OF a(1,2) [unfolded k]] and lc = bs_slot_coordinates [OF a(3,4) [unfolded l]]
  have "c = d" using kc(1,4) lc(1,4) by (metis div_mult_mod_eq)
  moreover have "p = q" using kc(2,3) lc(2,3) by (cases p; cases q) auto
  ultimately show "k = l" by (simp add: k l)
qed

lemma bs_place_bound:
  assumes "c < n"
  shows "bs_place (c, p) + bs_extent (c, p) \<le> bs_buffer_bytes n"
proof -
  have "c div 8 + 1 \<le> div_ceil n 8"
  proof (rule ccontr)
    assume "\<not> c div 8 + 1 \<le> div_ceil n 8"
    then have "n \<le> c div 8 * 8" using div_ceil_le_iff [of 8 n "c div 8"] by simp
    then show False using assms by simp
  qed
  then have "c div 8 * 64 + 64 \<le> bs_buffer_bytes n" by (simp add: bs_buffer_bytes_def)
  moreover have "bs_place (c, p) + bs_extent (c, p) \<le> c div 8 * 64 + 64"
    using mod_less_divisor [of 8 c] by (cases p) auto
  ultimately show ?thesis by simp
qed

end
