(* ===== verification/BsBufferProperties.thy ===== *)
theory BsBufferProperties
  imports BsBuffer
begin

text \<open>
  What the BS packer writes: every plane of every channel at its place, the padding lanes with
  the default operands, and nothing past the size it returns.
\<close>

section \<open>Writing the entries\<close>

lemma bs_keys_Suc: "bs_keys (Suc n) = bs_keys n @ [(n, BiasPlane), (n, ConstantPlane), (n, MultiplierPlane)]"
  by (simp add: bs_keys_def)

lemma set_bs_keys: "(c, p) \<in> set (bs_keys n) \<longleftrightarrow> c < n"
  by (cases p) (auto simp: bs_keys_def)

lemma bs_keys_fit:
  assumes "bs_buffer_bytes n \<le> length buffer"
  shows "\<forall>k \<in> set (bs_keys n). length (bs_value es k) = bs_extent k \<and> bs_place k + bs_extent k \<le> length buffer"
proof
  fix k
  assume k: "k \<in> set (bs_keys n)"
  obtain c p where cp: "k = (c, p)" by (cases k) auto
  have "bs_place k + bs_extent k \<le> bs_buffer_bytes n"
    using k bs_place_bound [of c n p] unfolding cp set_bs_keys by blast
  then show "length (bs_value es k) = bs_extent k \<and> bs_place k + bs_extent k \<le> length buffer"
    using assms by simp
qed

lemma write_bs_entry_slots:
  assumes "c < n" "bs_buffer_bytes n \<le> length buffer"
  shows "write_bs_entry (c, es ! c) buffer
     = Done (write_slots bs_place (bs_value es) [(c, BiasPlane), (c, ConstantPlane), (c, MultiplierPlane)] buffer)"
proof -
  have fit: "bs_place (c, p) + bs_extent (c, p) \<le> length buffer" for p
    using bs_place_bound [OF assms(1)] assms(2) le_trans by blast
  have l: "length (to_le_bytes x) = 4" "length (i16_le_bytes z) = 2" for x z
    by (simp_all add: to_le_bytes_def i16_le_bytes_def)
  show ?thesis
    using fit [of BiasPlane] fit [of ConstantPlane] fit [of MultiplierPlane]
    by (simp add: write_bs_entry_def Let_def BS_CHANNELS_PER_BLOCK_def BS_BLOCK_BYTES_def l add.assoc)
qed

lemma write_bs_entries:
  assumes "n \<le> length es" "bs_buffer_bytes (length es) \<le> length buffer"
  shows "for_each (map (\<lambda>c. (c, es ! c)) [0..<n]) write_bs_entry buffer
     = Done (write_slots bs_place (bs_value es) (bs_keys n) buffer)"
  using assms(1)
proof (induction n)
  case 0
  then show ?case by (simp add: bs_keys_def)
next
  case (Suc n)
  let ?b = "write_slots bs_place (bs_value es) (bs_keys n) buffer"
  have "bs_buffer_bytes n \<le> bs_buffer_bytes (length es)"
    using Suc.prems by (simp add: bs_buffer_bytes_def div_ceil_le_iff le_trans [OF _ div_ceil_mult_ge])
  then have "length ?b = length buffer"
    using bs_keys_fit [of n buffer es] assms(2) by (intro length_write_slots) auto
  then have "write_bs_entry (n, es ! n) ?b
      = Done (write_slots bs_place (bs_value es) [(n, BiasPlane), (n, ConstantPlane), (n, MultiplierPlane)] ?b)"
    using Suc.prems assms(2) by (intro write_bs_entry_slots [of n "length es"]) simp_all
  then show ?case using Suc by (simp add: for_each_append bs_keys_Suc write_slots_append del: write_slots.simps)
qed

lemma write_bs_buffer_slots:
  assumes "length es < 2 ^ 32" "bs_buffer_bytes (length es) \<le> length buffer"
  shows "write_bs_buffer buffer es
     = Done (write_slots bs_place (bs_value es) (bs_keys (length es))
               (overwrite buffer 0 (replicate (bs_buffer_bytes (length es)) 0)))"
proof -
  have "enumerate 0 es = map (\<lambda>c. (c, es ! c)) [0..<length es]"
    by (rule nth_equalityI) (simp_all add: nth_enumerate_eq)
  then show ?thesis
    using write_bs_entries [of "length es" es "overwrite buffer 0 (replicate (bs_buffer_bytes (length es)) 0)"] assms
    by (simp add: write_bs_buffer_def)
qed

section \<open>Normalising the bias\<close>

definition bias_encodable :: "byte list \<Rightarrow> float64 \<Rightarrow> nat \<Rightarrow> bool" where
  "bias_encodable dense scale c \<longleftrightarrow>
     (let v = normalized_bias scale (bias_at dense c)
      in \<not> flt v (Fin (- (2 ^ 31))) \<and> \<not> flt (Fin (2 ^ 31 - 1)) v)"

definition channel_entry :: "byte list \<Rightarrow> float64 \<Rightarrow> int \<Rightarrow> nat \<Rightarrow> nat \<Rightarrow> bs_entry" where
  "channel_entry dense scale weight_zp out_ch c =
     (if c < out_ch
      then default_bs_entry\<lparr>bs_bias := trunc_i32 (normalized_bias scale (bias_at dense c)),
                            bs_constant := - weight_zp\<rparr>
      else default_bs_entry)"

lemma pack_bias_channels:
  assumes "n \<le> padded" "4 * n \<le> length dense"
  shows "for_each [0..<n] (pack_bias_channel dense scale weight_zp) (replicate padded default_bs_entry)
     = (if \<forall>c < n. bias_encodable dense scale c
        then Done (map (channel_entry dense scale weight_zp n) [0..<padded])
        else Refused BiasOverflow)"
  using assms
proof (induction n)
  case 0
  then show ?case by (auto intro!: nth_equalityI simp: channel_entry_def)
next
  case (Suc n)
  have step: "pack_bias_channel dense scale weight_zp n (map (channel_entry dense scale weight_zp n) [0..<padded])
      = (if bias_encodable dense scale n
         then Done (map (channel_entry dense scale weight_zp (Suc n)) [0..<padded]) else Refused BiasOverflow)"
  proof (cases "bias_encodable dense scale n")
    case True
    have "(map (channel_entry dense scale weight_zp n) [0..<padded])
        [n := channel_entry dense scale weight_zp (Suc n) n]
      = map (channel_entry dense scale weight_zp (Suc n)) [0..<padded]"
      using Suc.prems by (auto intro!: nth_equalityI simp: nth_list_update channel_entry_def)
    moreover have "pack_bias_channel dense scale weight_zp n (map (channel_entry dense scale weight_zp n) [0..<padded])
        = Done ((map (channel_entry dense scale weight_zp n) [0..<padded])
             [n := channel_entry dense scale weight_zp (Suc n) n])"
      using True Suc.prems by (simp add: pack_bias_channel_def bias_encodable_def Let_def channel_entry_def)
    ultimately show ?thesis using True by simp
  qed (use Suc.prems in \<open>auto simp: pack_bias_channel_def bias_encodable_def Let_def\<close>)
  show ?case using Suc step by (auto simp: for_each_append less_Suc_eq)
qed

section \<open>The packer\<close>

text \<open>
  C21. With buffers of the declared sizes, finite positive scales and every normalised bias inside
  the 32-bit range, the packer succeeds and reports the buffer size; each plane of each padded
  channel stands at its place with its value, a logical channel carrying its bias over the two
  scales and the negated weight zero point, a padding channel the default operands; what lies
  past the reported size is kept. One bias outside the range refuses the whole buffer.
\<close>
theorem bs_buffer_is_exact:
  assumes "4 * out_ch \<le> length dense" "out_ch \<le> padded" "padded < 2 ^ 32"
    and "bs_buffer_bytes padded \<le> length packed"
    and scale: "is_finite (bias_scale in_scale w_scale)" "\<not> fle (bias_scale in_scale w_scale) (Fin 0)"
  shows "if \<forall>c < out_ch. bias_encodable dense (bias_scale in_scale w_scale) c
     then \<exists>out. pack_int8_bias_to_bs dense out_ch padded in_scale w_scale weight_zp packed
            = Done (out, bs_buffer_bytes padded)
        \<and> length out = length packed
        \<and> (\<forall>c < padded. \<forall>p. take (bs_extent (c, p)) (drop (bs_place (c, p)) out)
              = bs_value (map (channel_entry dense (bias_scale in_scale w_scale) weight_zp out_ch) [0..<padded]) (c, p))
        \<and> drop (bs_buffer_bytes padded) out = drop (bs_buffer_bytes padded) packed
     else pack_int8_bias_to_bs dense out_ch padded in_scale w_scale weight_zp packed = Refused BiasOverflow"
proof -
  define scl where "scl = bias_scale in_scale w_scale"
  define es where "es = map (channel_entry dense scl weight_zp out_ch) [0..<padded]"
  define need where "need = bs_buffer_bytes padded"
  have unfolded: "pack_int8_bias_to_bs dense out_ch padded in_scale w_scale weight_zp packed
      = obind (for_each [0..<out_ch] (pack_bias_channel dense scl weight_zp) (replicate padded default_bs_entry))
         (\<lambda>entries. obind (write_bs_buffer (take need packed) entries) (\<lambda>written.
            Done (written @ drop need packed, need)))"
    using assms by (simp add: pack_int8_bias_to_bs_def Let_def scl_def need_def mult.commute)
  show ?thesis
  proof (cases "\<forall>c < out_ch. bias_encodable dense scl c")
    case True
    define start where "start = overwrite (take need packed) 0 (replicate need (0 :: byte))"
    define out where "out = write_slots bs_place (bs_value es) (bs_keys padded) start"
    have need: "need \<le> length packed" "length start = need" using assms(4) by (simp_all add: need_def start_def)
    have fit: "\<forall>k \<in> set (bs_keys padded). length (bs_value es k) = bs_extent k \<and> bs_place k + bs_extent k \<le> length start"
      by (rule bs_keys_fit) (simp add: need(2), simp add: need_def)
    have len: "length out = need" using fit need(2) by (simp add: out_def length_write_slots)
    have res: "pack_int8_bias_to_bs dense out_ch padded in_scale w_scale weight_zp packed = Done (out @ drop need packed, need)"
      using write_bs_buffer_slots [of es "take need packed"] pack_bias_channels [of out_ch padded dense scl weight_zp] True assms
      by (simp add: unfolded es_def [symmetric] need_def out_def start_def) (simp add: es_def)
    have slot: "take (bs_extent (c, p)) (drop (bs_place (c, p)) (out @ drop need packed)) = bs_value es (c, p)"
      if "c < padded" for c p
    proof (rule nth_equalityI)
      have b: "bs_place (c, p) + bs_extent (c, p) \<le> need"
        using bs_place_bound [OF that] by (simp add: need_def)
      then show "length (take (bs_extent (c, p)) (drop (bs_place (c, p)) (out @ drop need packed))) = length (bs_value es (c, p))"
        using len need(1) by simp
      fix j
      assume "j < length (take (bs_extent (c, p)) (drop (bs_place (c, p)) (out @ drop need packed)))"
      then have j: "j < bs_extent (c, p)" by simp
      have "out ! (bs_place (c, p) + j) = bs_value es (c, p) ! j"
        unfolding out_def using fit that j by (intro bs.written) (simp_all add: set_bs_keys)
      then show "take (bs_extent (c, p)) (drop (bs_place (c, p)) (out @ drop need packed)) ! j = bs_value es (c, p) ! j"
        using j b len by (simp add: nth_append)
    qed
    show ?thesis
      unfolding scl_def [symmetric] es_def [symmetric] need_def [symmetric]
      using True res slot len need(1) by (auto intro!: exI [of _ "out @ drop need packed"])
  next
    case False
    then have "pack_int8_bias_to_bs dense out_ch padded in_scale w_scale weight_zp packed = Refused BiasOverflow"
      using pack_bias_channels [of out_ch padded dense scl weight_zp] assms(1,2)
      by (simp only: unfolded if_False obind.simps)
    then show ?thesis unfolding scl_def [symmetric] using False by (simp only: if_False)
  qed
qed

theorem bs_buffer_is_exact_witness:
  "\<exists>out. pack_int8_bias_to_bs [5, 0, 0, 0] 1 2 0x3F800000 0x3F800000 3 (replicate 64 7) = Done (out, 64)
     \<and> take 4 out = to_le_bytes 5 \<and> take 2 (drop 32 out) = [- 3, - 1] \<and> take 2 (drop 34 out) = [128, 0]"
proof -
  have one: "float32_value 0x3F800000 = Fin 1"
    by (simp add: float32_value_def Let_def power_int_minus power_int_numeral)
  have b1: "binary64 1" "binary64 5"
    unfolding binary64_def by (rule exI [of _ 1], rule exI [of _ 0], simp, rule exI [of _ 5], rule exI [of _ 0], simp)
  have scale: "bias_scale 0x3F800000 0x3F800000 = Fin 1"
    by (simp add: bias_scale_def one round64_exact [OF b1(1)])
  have bias: "bias_at [5, 0, 0, 0] 0 = 5" by (simp add: bias_at_def as_i32_def)
  have norm: "normalized_bias (Fin 1) 5 = Fin 5"
    by (simp add: normalized_bias_def round64_exact [OF b1(2)] round_half_away_def floor_eq_iff)
  have entry: "channel_entry [5, 0, 0, 0] (Fin 1) 3 1 0 = \<lparr>bs_bias = 5, bs_constant = - 3, bs_multiplier = 16384\<rparr>"
    "channel_entry [5, 0, 0, 0] (Fin 1) 3 1 1 = default_bs_entry"
    by (simp_all add: channel_entry_def bias norm trunc_i32_def default_bs_entry_def BS_UNIT_MULTIPLIER_def)
  have two: "bs_buffer_bytes 2 = 64" by (simp add: bs_buffer_bytes_def div_ceil_def)
  have enc: "\<forall>c < (1::nat). bias_encodable [5, 0, 0, 0] (Fin 1) c"
    by (simp add: bias_encodable_def bias norm)
  from bs_buffer_is_exact [where out_ch = 1 and dense = "[5, 0, 0, 0]" and padded = 2
      and packed = "replicate 64 7" and in_scale = "0x3F800000" and w_scale = "0x3F800000" and weight_zp = 3]
  obtain out where out: "pack_int8_bias_to_bs [5, 0, 0, 0] 1 2 0x3F800000 0x3F800000 3 (replicate 64 7) = Done (out, 64)"
    and slots: "\<forall>c < 2. \<forall>p. take (bs_extent (c, p)) (drop (bs_place (c, p)) out)
      = bs_value (map (channel_entry [5, 0, 0, 0] (Fin 1) 3 1) [0..<2]) (c, p)"
    using enc by (auto simp: scale two)
  have "take 4 out = to_le_bytes 5"
    using slots [rule_format, of 0 BiasPlane] by (simp add: entry [unfolded One_nat_def] upt_rec i32_bits_def)
  moreover have "take 2 (drop 32 out) = [- 3, - 1]"
    using slots [rule_format, of 0 ConstantPlane] by (simp add: entry [unfolded One_nat_def] upt_rec i16_le_bytes_def)
  moreover have "take 2 (drop 34 out) = [128, 0]"
    using slots [rule_format, of 1 ConstantPlane]
    by (simp add: entry [unfolded One_nat_def] upt_rec i16_le_bytes_def default_bs_entry_def BS_CONSTANT_def)
  ultimately show ?thesis using out by blast
qed

end
