(* ===== verification/ElementwiseProgram.thy ===== *)
theory ElementwiseProgram
  imports Requantization ConvProgram
begin

text \<open>
  The register programs of the element-wise engine (\<open>rocket/elementwise.rs\<close>): the two-tensor task in
  both precisions, the single-tensor task, and the convolution chained into an addition. The tasks
  are lists of register writes in the order the code pushes them. A ratio whose multiplier search
  does not return is \<open>None\<close>.
\<close>

section \<open>Shapes\<close>

datatype ew_precision = EwFp16 | EwInt8

datatype ew_binary_op = EwAdd | EwSub | EwMax | EwMin | EwMul

fun alu_algo :: "ew_binary_op \<Rightarrow> nat" where
  "alu_algo EwMax = 0"
| "alu_algo EwMin = 1"
| "alu_algo EwAdd = 2"
| "alu_algo EwSub = 4"
| "alu_algo EwMul = 0"

definition is_mul :: "ew_binary_op \<Rightarrow> bool" where
  "is_mul op \<longleftrightarrow> op = EwMul"

datatype ew_unary_algo = UnaryAdd | UnaryAbs | UnaryNeg | UnaryFloor | UnaryCeil

fun unary_code :: "ew_unary_algo \<Rightarrow> nat" where
  "unary_code UnaryAdd = 2"
| "unary_code UnaryAbs = 5"
| "unary_code UnaryNeg = 6"
| "unary_code UnaryFloor = 7"
| "unary_code UnaryCeil = 8"

text \<open>The ratios of an addition are binary64 values.\<close>

record ew_add_shape =
  ea_width :: nat
  ea_height :: nat
  ea_channels :: nat
  ea_precision :: ew_precision
  ea_op :: ew_binary_op
  ea_output_zero_point :: int
  ea_w_cvt_offset :: nat
  ea_w_scale_ratio :: float64
  ea_output_scale_ratio :: float64

record ew_add_buffers =
  intermediate_addr :: nat
  w_addr :: nat
  ea_output_addr :: nat

record ew_unary_shape =
  eu_width :: nat
  eu_height :: nat
  eu_channels :: nat
  eu_algo :: ew_unary_algo
  eu_operand :: nat

record ew_unary_buffers =
  eu_input_addr :: nat
  eu_output_addr :: nat

text \<open>\<open>channels.max(16).next_multiple_of(16)\<close>, in \<open>u32\<close>.\<close>

definition ew_task_channels :: "nat \<Rightarrow> nat" where
  "ew_task_channels channels = wrap32 (next_multiple_of (max channels 16) 16)"

section \<open>Blocks the tasks share\<close>

text \<open>Ping-pong pointers and the flying-mode header.\<close>

definition ew_header_commands :: writes where
  "ew_header_commands =
     [(DpuSPointer, [DpuSPointer_pointer_pp_mode 1, DpuSPointer_executer_pp_en 1, DpuSPointer_pointer_pp_en 1]),
      (DpuRdmaSPointer,
       [DpuRdmaSPointer_pointer_pp_mode 1, DpuRdmaSPointer_executer_pp_en 1, DpuRdmaSPointer_pointer_pp_en 1]),
      (DpuFeatureModeCfg,
       [DpuFeatureModeCfg_flying_mode 1, DpuFeatureModeCfg_output_mode 2, DpuFeatureModeCfg_burst_len 15])]"

definition ew_data_format_command :: "bool \<Rightarrow> writes" where
  "ew_data_format_command is_fp16 =
     [(DpuDataFormat,
       if is_fp16 then [DpuDataFormat_in_precision 2, DpuDataFormat_out_precision 2, DpuDataFormat_proc_precision 2]
       else [])]"

text \<open>Destination and cube.\<close>

definition ew_cube_commands :: "nat \<Rightarrow> nat \<Rightarrow> nat \<Rightarrow> nat \<Rightarrow> writes" where
  "ew_cube_commands w h c out_addr =
     [(DpuOffsetPend, []),
      (DpuDstBaseAddr, [DpuDstBaseAddr_dst_base_addr out_addr]),
      (DpuDstSurfStride, [DpuDstSurfStride_dst_surf_stride (wrap32 (w * h))]),
      (DpuDataCubeWidth, [DpuDataCubeWidth_width (sub32 w 1)]),
      (DpuDataCubeHeight, [DpuDataCubeHeight_height (sub32 h 1)]),
      (DpuDataCubeNotchAddr, []),
      (DpuDataCubeChannel,
       [DpuDataCubeChannel_orig_channel (sub32 c 1), DpuDataCubeChannel_channel (sub32 (ew_task_channels c) 1)])]"

definition bs_bypass_commands :: writes where
  "bs_bypass_commands =
     [(DpuBsCfg, [DpuBsCfg_bs_bypass 1, DpuBsCfg_bs_alu_bypass 1, DpuBsCfg_bs_mul_bypass 1, DpuBsCfg_bs_relu_bypass 1]),
      (DpuBsAluCfg, []), (DpuBsMulCfg, [])]"

definition ew_wdma_commands :: "nat \<Rightarrow> nat \<Rightarrow> nat \<Rightarrow> writes" where
  "ew_wdma_commands w h c =
     [(DpuBsReluxCmpValue, []),
      (DpuBsOwCfg, [DpuBsOwCfg_od_bypass 1]),
      (DpuBsOwOp, []),
      (DpuWdmaSize0, [DpuWdmaSize0_channel_wdma (sub32 (ew_task_channels c) 1)]),
      (DpuWdmaSize1, [DpuWdmaSize1_height_wdma (sub32 h 1), DpuWdmaSize1_width_wdma (sub32 w 1)])]"

definition bn_bypass_commands :: writes where
  "bn_bypass_commands =
     [(DpuBnCfg, [DpuBnCfg_bn_bypass 1, DpuBnCfg_bn_alu_bypass 1, DpuBnCfg_bn_mul_bypass 1, DpuBnCfg_bn_relu_bypass 1]),
      (DpuBnAluCfg, []), (DpuBnMulCfg, []), (DpuBnReluxCmpValue, [])]"

definition fp16_out_cvt_commands :: writes where
  "fp16_out_cvt_commands =
     [(DpuOutCvtOffset, []),
      (DpuOutCvtScale, [DpuOutCvtScale_fp32tofp16_en 1, DpuOutCvtScale_out_cvt_scale 1]),
      (DpuOutCvtShift, [])]"

definition ew_surface_commands :: "nat \<Rightarrow> nat \<Rightarrow> writes" where
  "ew_surface_commands w h =
     [(DpuSurfaceAdd, [DpuSurfaceAdd_surf_add (wrap32 (w * h))]), (DpuReserved40c4, [])]"

definition lut_unused_commands :: writes where
  "lut_unused_commands =
     [(DpuLutAccessCfg, []), (DpuLutAccessData, []), (DpuLutCfg, []), (DpuLutInfo, []),
      (DpuLutLeStart, []), (DpuLutLeEnd, []), (DpuLutLoStart, []), (DpuLutLoEnd, []),
      (DpuLutLeSlopeScale, []), (DpuLutLeSlopeShift, []), (DpuLutLoSlopeScale, []), (DpuLutLoSlopeShift, [])]"

text \<open>The reader: the cube and the primary operand.\<close>

definition ew_reader_commands :: "nat \<Rightarrow> nat \<Rightarrow> nat \<Rightarrow> nat \<Rightarrow> writes" where
  "ew_reader_commands w h c src_addr =
     [(DpuRdmaDataCubeWidth, [DpuRdmaDataCubeWidth_width (sub32 w 1)]),
      (DpuRdmaDataCubeHeight, [DpuRdmaDataCubeHeight_height (sub32 h 1)]),
      (DpuRdmaDataCubeChannel, [DpuRdmaDataCubeChannel_channel (sub32 (ew_task_channels c) 1)]),
      (DpuRdmaSrcBaseAddr, [DpuRdmaSrcBaseAddr_src_base_addr src_addr]),
      (DpuRdmaBrdmaCfg, []), (DpuRdmaBsBaseAddr, []), (DpuRdmaNrdmaCfg, []), (DpuRdmaBnBaseAddr, [])]"

definition ew_reader_mode_commands :: "bool \<Rightarrow> writes" where
  "ew_reader_mode_commands is_fp16 =
     [(DpuRdmaFeatureModeCfg,
       [DpuRdmaFeatureModeCfg_flying_mode 1, DpuRdmaFeatureModeCfg_burst_len 15]
       @ (if is_fp16 then [DpuRdmaFeatureModeCfg_in_precision 2, DpuRdmaFeatureModeCfg_proc_precision 2,
                           DpuRdmaFeatureModeCfg_mrdma_fp16tofp32_en 1] else [])),
      (DpuRdmaSrcDmaCfg, []), (DpuRdmaSurfNotch, []), (DpuRdmaPadCfg, []),
      (DpuRdmaWeight,
       [DpuRdmaWeight_e_weight 1, DpuRdmaWeight_n_weight 1, DpuRdmaWeight_b_weight 1, DpuRdmaWeight_m_weight 1]),
      (DpuRdmaEwSurfNotch, [])]"

section \<open>The two-tensor task\<close>

text \<open>The BS stage: bypassed in fp16, in int8 a recentring of the primary operand.\<close>

definition ew_bs_commands :: "ew_add_shape \<Rightarrow> writes" where
  "ew_bs_commands s =
     (if ea_precision s = EwFp16 then bs_bypass_commands
      else [(DpuBsCfg, [DpuBsCfg_bs_alu_algo 2, DpuBsCfg_bs_relu_bypass 1]),
            (DpuBsAluCfg, [DpuBsAluCfg_bs_alu_operand (i32_bits (- ea_output_zero_point s))]),
            (DpuBsMulCfg, [DpuBsMulCfg_bs_mul_operand 0x4000])])"

definition edata_size :: "ew_precision \<Rightarrow> nat" where
  "edata_size p = (if p = EwFp16 then 2 else 1)"

definition ew_cfg_command :: "ew_add_shape \<Rightarrow> bool \<Rightarrow> writes" where
  "ew_cfg_command s relu =
     [(DpuEwCfg,
       [DpuEwCfg_ew_cvt_type (if ea_precision s = EwFp16 then 0 else 1), DpuEwCfg_ew_data_mode 1,
        DpuEwCfg_edata_size (edata_size (ea_precision s)), DpuEwCfg_ew_alu_algo (alu_algo (ea_op s)),
        DpuEwCfg_ew_relu_bypass (if relu then 0 else 1), DpuEwCfg_ew_lut_bypass 1, DpuEwCfg_ew_op_src 1]
       @ (if is_mul (ea_op s) then [DpuEwCfg_ew_op_type 1, DpuEwCfg_ew_op_cvt_bypass 1] else []))]"

definition ew_operand_cvt_commands :: "ew_add_shape \<Rightarrow> multiplier \<Rightarrow> writes" where
  "ew_operand_cvt_commands s m =
     (if ea_precision s = EwFp16
      then [(DpuEwCvtOffsetValue, []), (DpuEwCvtScaleValue, [DpuEwCvtScaleValue_ew_op_cvt_scale 1])]
      else [(DpuEwCvtOffsetValue, [DpuEwCvtOffsetValue_ew_op_cvt_offset (ea_w_cvt_offset s)]),
            (DpuEwCvtScaleValue, [DpuEwCvtScaleValue_ew_op_cvt_scale (mul_scale m),
                                  DpuEwCvtScaleValue_ew_op_cvt_shift (mul_shift m)])])
     @ [(DpuEwReluxCmpValue, [])]"

definition ew_out_cvt_commands :: "ew_add_shape \<Rightarrow> multiplier \<Rightarrow> writes" where
  "ew_out_cvt_commands s m =
     (if ea_precision s = EwFp16 then fp16_out_cvt_commands
      else [(DpuOutCvtOffset, [DpuOutCvtOffset_out_cvt_offset (i32_bits (ea_output_zero_point s))]),
            (DpuOutCvtScale, [DpuOutCvtScale_out_cvt_scale (mul_scale m)]),
            (DpuOutCvtShift, [DpuOutCvtShift_out_cvt_shift (mul_shift m)])])"

definition ew_zero_operands :: writes where
  "ew_zero_operands =
     [(DpuEwOpValue0, []), (DpuEwOpValue1, []), (DpuEwOpValue2, []), (DpuEwOpValue3, []),
      (DpuEwOpValue4, []), (DpuEwOpValue5, []), (DpuEwOpValue6, []), (DpuEwOpValue7, [])]"

definition ew_second_tensor_commands :: "ew_add_shape \<Rightarrow> nat \<Rightarrow> writes" where
  "ew_second_tensor_commands s addr =
     [(DpuRdmaErdmaCfg,
       [DpuRdmaErdmaCfg_erdma_data_mode 1, DpuRdmaErdmaCfg_erdma_data_size (edata_size (ea_precision s))]),
      (DpuRdmaEwBaseAddr, [DpuRdmaEwBaseAddr_ew_base_addr addr]),
      (DpuRdmaEwSurfStride, [DpuRdmaEwSurfStride_ew_surf_stride (max (wrap32 (ea_width s * ea_height s)) 12)])]"

definition add_writes :: "ew_add_shape \<Rightarrow> ew_add_buffers \<Rightarrow> bool \<Rightarrow> multiplier \<Rightarrow> multiplier \<Rightarrow> writes" where
  "add_writes s b relu w_mul out_mul =
     ew_header_commands @ ew_data_format_command (ea_precision s = EwFp16)
     @ ew_cube_commands (ea_width s) (ea_height s) (ea_channels s) (ea_output_addr b)
     @ ew_bs_commands s @ ew_wdma_commands (ea_width s) (ea_height s) (ea_channels s)
     @ bn_bypass_commands @ ew_cfg_command s relu @ ew_operand_cvt_commands s w_mul
     @ ew_out_cvt_commands s out_mul @ ew_zero_operands
     @ ew_surface_commands (ea_width s) (ea_height s) @ lut_unused_commands
     @ ew_reader_commands (ea_width s) (ea_height s) (ea_channels s) (intermediate_addr b)
     @ ew_second_tensor_commands s (w_addr b) @ ew_reader_mode_commands (ea_precision s = EwFp16)"

definition ew_program :: "writes \<Rightarrow> reg_cmd list reg_result" where
  "ew_program ws = obind (write_all ws) (\<lambda>cmds. Done (push_kick cmds (MASK_DPU OR MASK_DPU_RDMA)))"

text \<open>
  An int8 task encodes its two ratios on the way; \<open>from_ratio\<close> panics on one it cannot encode. In
  fp16 the multipliers are not used, and a fixed pair stands in their place.
\<close>

definition no_multiplier :: multiplier where "no_multiplier = \<lparr>mul_scale = 1, mul_shift = 0\<rparr>"

definition ratio_multiplier :: "ew_precision \<Rightarrow> float64 \<Rightarrow> multiplier reg_result option" where
  "ratio_multiplier p ratio =
     (if p = EwFp16 then Some (Done no_multiplier) else map_option unwrap (from_ratio ratio))"

definition build_add_regcmd_with_relu :: "ew_add_shape \<Rightarrow> ew_add_buffers \<Rightarrow> bool \<Rightarrow> reg_cmd list reg_result option" where
  "build_add_regcmd_with_relu s b relu =
     (if ea_width s = 0 \<or> ea_height s = 0 \<or> ea_channels s = 0
         \<or> is_mul (ea_op s) \<and> ea_precision s = EwInt8 then Some Panicked
      else Option.bind (ratio_multiplier (ea_precision s) (ea_w_scale_ratio s)) (\<lambda>w.
           Option.bind (ratio_multiplier (ea_precision s) (ea_output_scale_ratio s)) (\<lambda>out.
           Some (obind w (\<lambda>w. obind out (\<lambda>out. ew_program (add_writes s b relu w out)))))))"

definition build_add_regcmd :: "ew_add_shape \<Rightarrow> ew_add_buffers \<Rightarrow> reg_cmd list reg_result option" where
  "build_add_regcmd s b = build_add_regcmd_with_relu s b False"

section \<open>The single-tensor task\<close>

definition unary_cfg_commands :: "ew_unary_shape \<Rightarrow> writes" where
  "unary_cfg_commands s =
     [(DpuEwCfg,
       [DpuEwCfg_ew_cvt_type 0, DpuEwCfg_ew_data_mode 1, DpuEwCfg_edata_size 2,
        DpuEwCfg_ew_alu_algo (unary_code (eu_algo s)), DpuEwCfg_ew_relu_bypass 1,
        DpuEwCfg_ew_lut_bypass 1, DpuEwCfg_ew_op_src 0]),
      (DpuEwCvtOffsetValue, []),
      (DpuEwCvtScaleValue, [DpuEwCvtScaleValue_ew_op_cvt_scale 1]),
      (DpuEwReluxCmpValue, [])]"

definition unary_operand_commands :: "nat \<Rightarrow> writes" where
  "unary_operand_commands v =
     [(DpuEwOpValue0, [DpuEwOpValue0_ew_operand v]), (DpuEwOpValue1, [DpuEwOpValue1_ew_operand v]),
      (DpuEwOpValue2, [DpuEwOpValue2_ew_operand v]), (DpuEwOpValue3, [DpuEwOpValue3_ew_operand v]),
      (DpuEwOpValue4, [DpuEwOpValue4_ew_operand v]), (DpuEwOpValue5, [DpuEwOpValue5_ew_operand v]),
      (DpuEwOpValue6, [DpuEwOpValue6_ew_operand v]), (DpuEwOpValue7, [DpuEwOpValue7_ew_operand v])]"

definition no_second_tensor_commands :: writes where
  "no_second_tensor_commands =
     [(DpuRdmaErdmaCfg, [DpuRdmaErdmaCfg_erdma_disable 1]), (DpuRdmaEwBaseAddr, []), (DpuRdmaEwSurfStride, [])]"

definition unary_writes :: "ew_unary_shape \<Rightarrow> ew_unary_buffers \<Rightarrow> writes" where
  "unary_writes s b =
     ew_header_commands @ ew_data_format_command True
     @ ew_cube_commands (eu_width s) (eu_height s) (eu_channels s) (eu_output_addr b)
     @ bs_bypass_commands @ ew_wdma_commands (eu_width s) (eu_height s) (eu_channels s)
     @ bn_bypass_commands @ unary_cfg_commands s @ fp16_out_cvt_commands
     @ unary_operand_commands (eu_operand s)
     @ ew_surface_commands (eu_width s) (eu_height s) @ lut_unused_commands
     @ ew_reader_commands (eu_width s) (eu_height s) (eu_channels s) (eu_input_addr b)
     @ no_second_tensor_commands @ ew_reader_mode_commands True"

definition build_unary_regcmd :: "ew_unary_shape \<Rightarrow> ew_unary_buffers \<Rightarrow> reg_cmd list reg_result" where
  "build_unary_regcmd s b =
     ensure (0 < eu_width s \<and> 0 < eu_height s \<and> 0 < eu_channels s)
     (ensure (eu_operand s = 0 \<or> eu_algo s = UnaryAdd)
     (ew_program (unary_writes s b)))"

section \<open>A convolution chained into an addition\<close>

record conv_then_add_buffers =
  ca_input :: nat
  ca_weights :: nat
  ca_bias :: nat
  ca_intermediate :: nat
  ca_w :: nat
  ca_output :: nat

definition build_conv_then_add_regcmd ::
  "planning_policy \<Rightarrow> conv_env \<Rightarrow> shape \<Rightarrow> kernels \<Rightarrow> ew_add_shape \<Rightarrow> conv_then_add_buffers
   \<Rightarrow> (reg_cmd list \<times> reg_cmd list) reg_result option" where
  "build_conv_then_add_regcmd pol e s ks add b =
     (case obind (unwrap (try_new pol s ks)) (\<lambda>p.
           obind (conv_programs_with_buffers e p
                    \<lparr>input_buffer = ca_input b, weights_buffer = ca_weights b, bias_buffer = ca_bias b,
                     output_buffer = ca_intermediate b\<rparr>) (\<lambda>tasks.
           ensure (length tasks = 1) (Done (hd tasks)))) of
        Done conv_cmds \<Rightarrow>
          map_option (\<lambda>r. obind r (\<lambda>add_cmds. Done (conv_cmds, add_cmds)))
            (build_add_regcmd add \<lparr>intermediate_addr = ca_intermediate b, w_addr = ca_w b, ea_output_addr = ca_output b\<rparr>)
      | Refused er \<Rightarrow> Some (Refused er)
      | Panicked \<Rightarrow> Some Panicked)"

end
