(* ===== verification/RequantizationProperties.thy ===== *)
theory RequantizationProperties
  imports Requantization
begin

text \<open>
  What the requantization multiplier is: the exact inputs on which the search returns, refuses or
  never ends, the normal form and the error of the encoded pair, and the search on the ratios of
  calibration scales, which always ends.
\<close>

section \<open>From the shift to the encoded ratio\<close>

lemma shift_value: "0 \<le> s \<Longrightarrow> (2::rat) ^ nat s = 2 powi s"
  by (simp add: power_int_of_nat [symmetric])

lemma encoded_error:
  fixes r :: rat
  assumes z: "z = r * 2 powi s" "2 ^ 14 \<le> z" and c: "\<bar>of_int c - z\<bar> \<le> 1 / 2"
  shows "\<bar>of_int c / 2 powi s - r\<bar> \<le> r / 2 ^ 15"
proof -
  have r: "r = z / 2 powi s" by (simp add: z(1))
  have "of_int c / 2 powi s - r = (of_int c - z) / 2 powi s" by (simp add: r diff_divide_distrib)
  then have "\<bar>of_int c / 2 powi s - r\<bar> = \<bar>of_int c - z\<bar> / 2 powi s" by (simp add: abs_divide)
  also have "\<dots> \<le> (z / 2 ^ 15) / 2 powi s" using c z(2) by (intro divide_right_mono) simp_all
  finally show ?thesis by (simp add: r)
qed

lemma shift_nonneg_iff:
  fixes r :: rat
  assumes "z = r * 2 powi s" "2 ^ 14 \<le> z" "z < 2 ^ 15"
  shows "0 < s \<longleftrightarrow> r < 2 ^ 14" "0 \<le> s \<longleftrightarrow> r < 2 ^ 15" "s = 0 \<Longrightarrow> z = r"
proof -
  have r: "r = z * 2 powi (- s)" by (simp add: assms(1) power_int_minus)
  have p: "0 < z" using assms(2) by (rule less_le_trans [rotated]) simp
  have up: "r < 2 ^ 15 * 2 powi (- s)" unfolding r using assms(3) by simp
  have lo: "2 ^ 14 * 2 powi (- s) \<le> r" unfolding r using assms(2) by simp
  have one: "2 powi (- s) \<le> (1::rat)" if "0 \<le> s" using powi_mono [of "- s" 0] that by simp
  have two: "2 powi (- s) \<le> (1 / 2 :: rat)" if "0 < s"
    using powi_mono [of "- s" "- 1"] that by (simp add: power_int_minus)
  have ge1: "1 \<le> (2::rat) powi (- s)" if "s \<le> 0" using powi_mono [of 0 "- s"] that by simp
  have ge2: "2 \<le> (2::rat) powi (- s)" if "s < 0" using powi_mono [of 1 "- s"] that by simp
  show "0 < s \<longleftrightarrow> r < 2 ^ 14"
  proof (cases "0 < s")
    case True
    have "r < 2 ^ 14" using two [OF True] up by simp
    then show ?thesis using True by simp
  next
    case False
    have "2 ^ 14 \<le> r" using ge1 [OF leI [OF False]] lo by simp
    then show ?thesis using False by (simp add: not_less)
  qed
  show "0 \<le> s \<longleftrightarrow> r < 2 ^ 15"
  proof (cases "0 \<le> s")
    case True
    have "r < 2 ^ 15" using one [OF True] up by simp
    then show ?thesis using True by simp
  next
    case False
    have "2 ^ 15 \<le> r" using ge2 [OF not_le_imp_less [OF False]] lo by simp
    then show ?thesis using False by (simp add: not_le)
  qed
  show "z = r" if "s = 0" using that by (simp add: assms(1))
qed

section \<open>The multiplier\<close>

lemma multiplier_search:
  assumes "binary64 r" "0 < r"
  shows "(try_from_ratio (Fin r) = None \<longleftrightarrow> 2 ^ 1010 \<le> r)
    \<and> (r < 2 ^ 1010 \<longrightarrow>
        (if 1 \<le> r * 2 ^ 49 \<and> r < 2 ^ 15 - 1 / 2
         then \<exists>m. try_from_ratio (Fin r) = Some (Done m)
                 \<and> 2 ^ 14 \<le> mul_scale m \<and> mul_scale m < 2 ^ 15 \<and> mul_shift m \<le> 63
                 \<and> \<bar>of_nat (mul_scale m) / 2 ^ mul_shift m - r\<bar> \<le> r / 2 ^ 15
         else try_from_ratio (Fin r) = Some (Refused (if r < 1 then TooSmall else TooLarge))))"
proof (cases "2 ^ 1010 \<le> r")
  case True
  then show ?thesis using infinite_ratio [OF assms(1)] by (simp add: not_less)
next
  case False
  consider (small) "r * 2 ^ 49 < 1" "try_from_ratio (Fin r) = Some (Refused TooSmall)"
    | (found) z s where "try_from_ratio (Fin r) = Some (encode_multiplier (Fin z) s)"
        "z = r * 2 powi s" "s \<le> 63" "2 ^ 14 \<le> z" "z < 2 ^ 15"
    using normalised [OF assms] False by (auto simp: not_le)
  then show ?thesis
  proof cases
    case small
    then show ?thesis using False assms(2) by auto
  next
    case (found z s)
    define c where "c = \<lfloor>z + 1 / 2\<rfloor>"
    note enc = encoded [OF found(4,5), folded c_def]
    note sh = shift_nonneg_iff [OF found(2,4,5)]
    have err: "\<bar>of_int c / 2 powi s - r\<bar> \<le> r / 2 ^ 15" by (rule encoded_error [OF found(2,4) enc(4)])
    have large: "1 \<le> r * 2 ^ 49"
    proof -
      have "2 powi s \<le> (2::rat) powi 63" using found(3) by (rule powi_mono)
      then have "z \<le> r * 2 powi 63" unfolding found(2) using assms(2) by (intro mult_left_mono) simp_all
      then have "2 ^ 14 \<le> r * 2 powi 63" using found(4) by (rule order_trans [rotated])
      then show ?thesis by (simp add: power_int_numeral)
    qed
    show ?thesis
    proof (cases "c = 2 ^ 15")
      case carry: True
      then have res: "try_from_ratio (Fin r) = Some (refuse_unless (0 < s) TooLarge (Done \<lparr>mul_scale = 2 ^ 14, mul_shift = nat (s - 1)\<rparr>))"
        using found(1) enc(1) by simp
      have z: "2 ^ 15 - 1 / 2 \<le> z" using enc(5) carry by blast
      show ?thesis
      proof (cases "0 < s")
        case True
        have "(2::rat) ^ 14 / 2 ^ nat (s - 1) = of_int c / 2 powi s"
          using True by (simp add: shift_value power_int_diff carry)
        then show ?thesis using res True False large err sh(1) found(3) by (simp add: shift_value)
      next
        case small_shift: False
        have "\<not> r < 2 ^ 15 - 1 / 2"
          using sh(2,3) z small_shift by (cases "s = 0") auto
        then show ?thesis using res small_shift False by simp
      qed
    next
      case nocarry: False
      then have res: "try_from_ratio (Fin r) = Some (refuse_unless (0 \<le> s) TooLarge (Done \<lparr>mul_scale = nat c, mul_shift = nat s\<rparr>))"
        using found(1) enc(1) by simp
      have c: "2 ^ 14 \<le> c" "c < 2 ^ 15" using enc(2,3) nocarry by simp_all
      show ?thesis
      proof (cases "0 \<le> s")
        case True
        have "r < 2 ^ 15 - 1 / 2" using sh True enc(5) nocarry by (cases "s = 0") (auto simp: not_le)
        moreover have "(of_nat (nat c) :: rat) = of_int c" using c by simp
        ultimately show ?thesis using res True False large err c found(3)
          by (simp add: shift_value nat_less_iff le_nat_iff nat_le_iff)
      next
        case neg: False
        then have "2 ^ 15 \<le> r" using sh(2) by (simp add: not_less)
        then show ?thesis using res neg False by simp
      qed
    qed
  qed
qed

text \<open>
  C10. For a positive binary64 ratio: the search never returns exactly from 2^1010 on; below, it
  returns a pair exactly between 2^-49 and 2^15 - 1/2, with a mantissa in [2^14, 2^15), a shift of
  at most 63 and a relative error of at most 2^-15, and refuses every other ratio by its side.
\<close>
theorem multiplier_search_is_exact:
  assumes "binary64 r" "0 < r"
  shows "(try_from_ratio (Fin r) = None \<longleftrightarrow> 2 ^ 1010 \<le> r)
    \<and> (r < 2 ^ 1010 \<longrightarrow>
        (if 1 \<le> r * 2 ^ 49 \<and> r < 2 ^ 15 - 1 / 2
         then \<exists>m. try_from_ratio (Fin r) = Some (Done m)
                 \<and> 2 ^ 14 \<le> mul_scale m \<and> mul_scale m < 2 ^ 15 \<and> mul_shift m \<le> 63
                 \<and> \<bar>of_nat (mul_scale m) / 2 ^ mul_shift m - r\<bar> \<le> r / 2 ^ 15
         else try_from_ratio (Fin r) = Some (Refused (if r < 1 then TooSmall else TooLarge))))"
  by (rule multiplier_search [OF assms])

theorem multiplier_search_is_exact_witness:
  "try_from_ratio (Fin (2 ^ 1010)) = None
   \<and> (\<exists>m. try_from_ratio (Fin (3 / 4)) = Some (Done m) \<and> 2 ^ 14 \<le> mul_scale m)
   \<and> try_from_ratio (Fin 32768) = Some (Refused TooLarge)"
proof -
  have b: "binary64 (2 ^ 1010)" "binary64 (3 / 4)" "binary64 32768"
    unfolding binary64_def
    by (rule exI [of _ 1], rule exI [of _ 1010], simp add: power_int_numeral,
        rule exI [of _ 3], rule exI [of _ "- 2"], simp add: power_int_minus power_int_numeral,
        rule exI [of _ 32768], rule exI [of _ 0], simp)
  show ?thesis
    using multiplier_search_is_exact [OF b(1)] multiplier_search_is_exact [OF b(2)]
      multiplier_search_is_exact [OF b(3)] by auto
qed

section \<open>The ratio of three calibration scales\<close>

lemma doubled_twice:
  fixes v :: rat
  assumes "v - q \<le> e / 2" "e \<le> P" "q < Q" "Q = 2 * P" "R = 2 * Q" "0 < P"
  shows "v < R"
  using assms by linarith

lemma positive_f32_value:
  assumes "positive_f32 bits"
  obtains q where "float32_value bits = Fin q" "binary32 q" "0 < q"
  using assms float32_value_binary32 by (cases "float32_value bits") (auto simp: positive_f32_def)

lemma scale_ratio_rounds:
  assumes "positive_f32 a" "positive_f32 b" "positive_f32 c"
  obtains x y z r where "float32_value a = Fin x" "float32_value b = Fin y" "float32_value c = Fin z"
    "scale_ratio a b c = Fin r" "binary64 r" "0 < x * y / z" "\<bar>r - x * y / z\<bar> \<le> (x * y / z) / 2 ^ 53"
    "r < 2 powi 406"
proof -
  obtain x y z where v: "float32_value a = Fin x" "float32_value b = Fin y" "float32_value c = Fin z"
    and b: "binary32 x" "binary32 y" "binary32 z" and p: "0 < x" "0 < y" "0 < z"
    using assms by (metis positive_f32_value)
  define q where "q = x * y / z"
  have q0: "0 < q" using p by (simp add: q_def)
  have lo: "2 powi (- 149) * 2 powi (- 149) / 2 powi 128 \<le> q" and hi: "q < 2 powi 128 * 2 powi 128 / 2 powi (- 149)"
  proof -
    note x = binary32_positive [OF b(1) p(1)] and y = binary32_positive [OF b(2) p(2)] and z = binary32_positive [OF b(3) p(3)]
    show "2 powi (- 149) * 2 powi (- 149) / 2 powi 128 \<le> q"
      unfolding q_def using x y z p by (intro frac_le mult_mono) auto
    have "x * y < 2 powi 128 * 2 powi 128" using x y p by (intro mult_strict_mono) auto
    then show "q < 2 powi 128 * 2 powi 128 / 2 powi (- 149)"
      unfolding q_def using z p by (intro frac_less) auto
  qed
  have lo': "2 powi (- 426) \<le> q" using lo by (simp add: power_int_diff [symmetric] power_int_add [symmetric])
  have hi': "q < 2 powi 405" using hi by (simp add: power_int_diff [symmetric] power_int_add [symmetric])
  have small: "2 powi (- 1022) \<le> q" using powi_mono [of "- 1022" "- 426"] lo' by linarith
  have ratio: "scale_ratio a b c = round64 q"
    using p by (simp add: scale_ratio_def v round64_exact [OF binary32_product [OF b(1,2)]] q_def)
  have e: "\<bar>round_magnitude q - q\<bar> \<le> 2 powi last_place q / 2" by (rule round_magnitude_error [OF q0])
  have "floor_log2 q < 405"
    using floor_log2_bounds(1) [OF q0] hi' by (intro powi_less_cancel) linarith
  then have "(2::rat) powi last_place q \<le> 2 powi 404" by (intro powi_mono) (simp add: last_place_def)
  then have mag: "round_magnitude q < 2 powi 406"
  proof -
    have "(2::rat) powi 405 = 2 * 2 powi 404" "(2::rat) powi 406 = 2 * 2 powi 405"
      using powi_split [of 404 1] powi_split [of 405 1] by (simp_all del: power_int_numeral)
    then show ?thesis
      using doubled_twice [OF abs_le_D1 [OF e] \<open>(2::rat) powi last_place q \<le> 2 powi 404\<close> hi'] by simp
  qed
  have "(2::rat) powi 406 \<le> 2 powi 1024" by (rule powi_mono) simp
  then have "round_magnitude q < 2 ^ 1024" using mag by (simp only: power_int_numeral)
  then have r: "round64 q = Fin (round_magnitude q)" by (simp add: round64_positive [OF q0])
  show ?thesis
    using that [OF v, of "round_magnitude q"] ratio r round64_binary64 [OF q0 r] q0 round64_error [OF small r] mag
    by (simp add: q_def)
qed

lemma scale_ratio_settles:
  assumes "positive_f32 a" "positive_f32 b" "positive_f32 c"
  obtains r where "try_from_ratio (scale_ratio a b c) = Some r" "r \<noteq> Panicked"
proof -
  obtain q where q: "scale_ratio a b c = Fin q" "binary64 q" "0 < q" "q < 2 ^ 1010"
  proof -
    obtain x y z r where r: "scale_ratio a b c = Fin r" "binary64 r" "0 < x * y / z"
      "\<bar>r - x * y / z\<bar> \<le> (x * y / z) / 2 ^ 53" "r < 2 powi 406"
      using scale_ratio_rounds [OF assms] .
    define e where "e = x * y / z"
    have e: "0 < e" "\<bar>r - e\<bar> \<le> e / 9007199254740992" using r(3,4) by (simp_all add: e_def)
    have "0 < r" using e(1) abs_le_D2 [OF e(2)] by linarith
    moreover have "(2::rat) powi 406 \<le> 2 powi 1010" by (rule powi_mono) simp
    then have "r < 2 ^ 1010" using r(5) by (simp only: power_int_numeral)
    ultimately show ?thesis using that r(1,2) by blast
  qed
  show ?thesis
    using multiplier_search [OF q(2,3)] q(1,4) that by (fastforce split: if_splits)
qed

text \<open>A computation that may not return, and one that settles on a value or a refusal.\<close>

definition ends :: "('e, 'a) outcome option \<Rightarrow> bool" where
  "ends m \<longleftrightarrow> m \<noteq> None \<and> m \<noteq> Some Panicked"

lemma ends_Some: "r \<noteq> Panicked \<Longrightarrow> ends (Some r)"
  by (simp add: ends_def)

lemma ends_returned: "ends m \<Longrightarrow> (\<And>x. m = Some (Done x) \<Longrightarrow> f x \<noteq> Panicked) \<Longrightarrow> ends (returned m f)"
  by (cases m) (auto simp: ends_def returned_def obind_eq_Panicked)

lemma returned_Done: "returned m f = Some (Done y) \<longleftrightarrow> (\<exists>x. m = Some (Done x) \<and> f x = Done y)"
  by (auto simp: returned_def obind_eq_Done)

lemma one_is_positive: "positive_f32 0x3F800000"
  by (simp add: positive_f32_def float32_value_def Let_def power_int_minus power_int_numeral)

text \<open>
  C17. On the scales of an executable (three positive finite binary32 values) the search always
  returns and never panics; when it encodes a pair, the pair is within 2^-14 of the exact
  quotient, and it refuses only quotients at most 2^-48 or at least 2^14.
\<close>
theorem calibrated_multipliers_are_close:
  assumes "positive_f32 in_scale" "positive_f32 w_scale" "positive_f32 out_scale"
  shows "\<exists>x y z. float32_value in_scale = Fin x \<and> float32_value w_scale = Fin y \<and> float32_value out_scale = Fin z
    \<and> (case try_from_ratio (scale_ratio in_scale w_scale out_scale) of
         Some (Done m) \<Rightarrow> 2 ^ 14 \<le> mul_scale m \<and> mul_scale m < 2 ^ 15 \<and> mul_shift m \<le> 63
           \<and> \<bar>of_nat (mul_scale m) / 2 ^ mul_shift m - x * y / z\<bar> \<le> (x * y / z) / 2 ^ 14
       | Some (Refused TooSmall) \<Rightarrow> x * y / z * 2 ^ 48 \<le> 1
       | Some (Refused TooLarge) \<Rightarrow> 2 ^ 14 \<le> x * y / z
       | _ \<Rightarrow> False)"
proof -
  obtain x y z r where v: "float32_value in_scale = Fin x" "float32_value w_scale = Fin y" "float32_value out_scale = Fin z"
    and ratio: "scale_ratio in_scale w_scale out_scale = Fin r" and r: "binary64 r"
    and q: "0 < x * y / z" "\<bar>r - x * y / z\<bar> \<le> (x * y / z) / 2 ^ 53" and hi: "r < 2 powi 406"
    using scale_ratio_rounds [OF assms] .
  define q where "q = x * y / z"
  have q': "0 < q" "\<bar>r - q\<bar> \<le> q / 9007199254740992" using q by (simp_all add: q_def)
  have pos: "0 < r" using q'(1) abs_le_D2 [OF q'(2)] by linarith
  have "(2::rat) powi 406 \<le> 2 powi 1010" by (rule powi_mono) simp
  then have fin: "r < 2 ^ 1010" using hi by (simp only: power_int_numeral)
  note search = multiplier_search [OF r pos]
  show ?thesis
  proof (intro exI conjI; (rule v)?)
    show "case try_from_ratio (scale_ratio in_scale w_scale out_scale) of
         Some (Done m) \<Rightarrow> 2 ^ 14 \<le> mul_scale m \<and> mul_scale m < 2 ^ 15 \<and> mul_shift m \<le> 63
           \<and> \<bar>of_nat (mul_scale m) / 2 ^ mul_shift m - x * y / z\<bar> \<le> (x * y / z) / 2 ^ 14
       | Some (Refused TooSmall) \<Rightarrow> x * y / z * 2 ^ 48 \<le> 1
       | Some (Refused TooLarge) \<Rightarrow> 2 ^ 14 \<le> x * y / z
       | _ \<Rightarrow> False"
      unfolding ratio q_def [symmetric]
    proof (cases "1 \<le> r * 2 ^ 49 \<and> r < 2 ^ 15 - 1 / 2")
      case True
      then obtain m where m: "try_from_ratio (Fin r) = Some (Done m)" "2 ^ 14 \<le> mul_scale m"
          "mul_scale m < 2 ^ 15" "mul_shift m \<le> 63"
          and e: "\<bar>of_nat (mul_scale m) / 2 ^ mul_shift m - r\<bar> \<le> r / 2 ^ 15"
        using search fin by auto
      have "r / 2 ^ 15 = r / 32768" by simp
      then have "\<bar>of_nat (mul_scale m) / 2 ^ mul_shift m - q\<bar> \<le> q / 16384"
        using abs_le_D1 [OF e] abs_le_D2 [OF e] abs_le_D1 [OF q'(2)] abs_le_D2 [OF q'(2)] q'(1)
        by (intro abs_leI) linarith+
      then have "\<bar>of_nat (mul_scale m) / 2 ^ mul_shift m - q\<bar> \<le> q / 2 ^ 14" by simp
      then show "case try_from_ratio (Fin r) of
         Some (Done m) \<Rightarrow> 2 ^ 14 \<le> mul_scale m \<and> mul_scale m < 2 ^ 15 \<and> mul_shift m \<le> 63
           \<and> \<bar>of_nat (mul_scale m) / 2 ^ mul_shift m - q\<bar> \<le> q / 2 ^ 14
       | Some (Refused TooSmall) \<Rightarrow> q * 2 ^ 48 \<le> 1
       | Some (Refused TooLarge) \<Rightarrow> 2 ^ 14 \<le> q
       | _ \<Rightarrow> False" using m by simp
    next
      case False
      then have res: "try_from_ratio (Fin r) = Some (Refused (if r < 1 then TooSmall else TooLarge))"
        using search fin by auto
      note near = q'(1) abs_le_D1 [OF q'(2)] abs_le_D2 [OF q'(2)]
      have "q * 281474976710656 \<le> 1" if "r * 562949953421312 < 1" using that near by linarith
      then have "q * 2 ^ 48 \<le> 1" if "r < 1" using False that by (auto simp: not_le)
      moreover have "16384 \<le> q" if "32768 - 1 / 2 \<le> r" using that near by linarith
      then have "2 ^ 14 \<le> q" if "1 \<le> r" using False that by (auto simp: not_le)
      ultimately show "case try_from_ratio (Fin r) of
         Some (Done m) \<Rightarrow> 2 ^ 14 \<le> mul_scale m \<and> mul_scale m < 2 ^ 15 \<and> mul_shift m \<le> 63
           \<and> \<bar>of_nat (mul_scale m) / 2 ^ mul_shift m - q\<bar> \<le> q / 2 ^ 14
       | Some (Refused TooSmall) \<Rightarrow> q * 2 ^ 48 \<le> 1
       | Some (Refused TooLarge) \<Rightarrow> 2 ^ 14 \<le> q
       | _ \<Rightarrow> False" by (simp add: res not_less)
    qed
  qed
qed

theorem calibrated_multipliers_are_close_witness:
  "\<exists>m. try_from_ratio (scale_ratio 0x3F800000 0x3F800000 0x3F800000) = Some (Done m)
       \<and> 2 ^ 14 \<le> mul_scale m \<and> mul_scale m < 2 ^ 15"
proof -
  have one: "float32_value 0x3F800000 = Fin 1"
    by (simp add: float32_value_def Let_def power_int_minus power_int_numeral)
  then have "positive_f32 0x3F800000" by (simp add: positive_f32_def)
  from calibrated_multipliers_are_close [OF this this this] show ?thesis
    by (auto simp: one split: option.splits outcome.splits multiplier_error.splits)
qed

end
