(* ===== verification/ElementwiseProperties.thy ===== *)
theory ElementwiseProperties
  imports ElementwiseProgram RequantizationProperties
begin

text \<open>
  What an element-wise task says once read back as the device reads it, and when it can be built.
\<close>

section \<open>A task as the device reads it\<close>

text \<open>Extents are stored less one and repeated by the engine, its write port and its reader.\<close>

record ew_task =
  et_cubes :: "(nat \<times> nat \<times> nat) list"
  et_channels :: nat
  et_destination :: nat
  et_primary :: nat
  et_surfaces :: "nat \<times> nat"
  et_second :: "(nat \<times> nat \<times> nat) option"
  et_operation :: "nat \<times> nat \<times> nat"
  et_relu :: bool
  et_operands :: "nat list"
  et_conversion :: "nat \<times> nat \<times> nat \<times> nat"
  et_recentre :: "(nat \<times> nat) option"
  et_result :: "bool \<times> nat \<times> nat \<times> nat"
  et_precisions :: "nat list"

definition read_ew :: "reg_cmd list \<Rightarrow> ew_task" where
  "read_ew p =
     \<lparr>et_cubes =
        [(field_at p DpuDataCubeWidth 13 0 + 1, field_at p DpuDataCubeHeight 13 0 + 1,
          field_at p DpuDataCubeChannel 13 0 + 1),
         (field_at p DpuWdmaSize1 13 0 + 1, field_at p DpuWdmaSize1 13 16 + 1, field_at p DpuWdmaSize0 13 0 + 1),
         (field_at p DpuRdmaDataCubeWidth 13 0 + 1, field_at p DpuRdmaDataCubeHeight 13 0 + 1,
          field_at p DpuRdmaDataCubeChannel 13 0 + 1)],
      et_channels = field_at p DpuDataCubeChannel 13 16 + 1,
      et_destination = field_at p DpuDstBaseAddr 32 0,
      et_primary = field_at p DpuRdmaSrcBaseAddr 32 0,
      et_surfaces = (field_at p DpuDstSurfStride 28 4, field_at p DpuSurfaceAdd 28 4),
      et_second =
        (if field_at p DpuRdmaErdmaCfg 1 0 = 1 then None
         else Some (field_at p DpuRdmaEwBaseAddr 32 0, field_at p DpuRdmaEwSurfStride 28 4,
                    field_at p DpuRdmaErdmaCfg 2 2)),
      et_operation = (field_at p DpuEwCfg 4 16, field_at p DpuEwCfg 1 2, field_at p DpuEwCfg 1 6),
      et_relu = (field_at p DpuEwCfg 1 9 = 0),
      et_operands = [field_at p DpuEwOpValue0 32 0, field_at p DpuEwOpValue1 32 0,
        field_at p DpuEwOpValue2 32 0, field_at p DpuEwOpValue3 32 0, field_at p DpuEwOpValue4 32 0,
        field_at p DpuEwOpValue5 32 0, field_at p DpuEwOpValue6 32 0, field_at p DpuEwOpValue7 32 0],
      et_conversion = (field_at p DpuEwCfg 1 31, field_at p DpuEwCvtOffsetValue 32 0,
        field_at p DpuEwCvtScaleValue 16 0, field_at p DpuEwCvtScaleValue 6 16),
      et_recentre =
        (if field_at p DpuBsCfg 1 0 = 1 then None
         else Some (field_at p DpuBsAluCfg 32 0, field_at p DpuBsMulCfg 16 16)),
      et_result = (field_at p DpuOutCvtScale 1 16 = 1, field_at p DpuOutCvtOffset 32 0,
        field_at p DpuOutCvtScale 16 0, field_at p DpuOutCvtShift 12 0),
      et_precisions = [field_at p DpuDataFormat 3 26, field_at p DpuDataFormat 3 29,
        field_at p DpuDataFormat 3 0, field_at p DpuEwCfg 2 22]\<rparr>"

section \<open>Fields of a block\<close>

definition ew_registers :: "writes \<Rightarrow> bool" where
  "ew_registers ws \<longleftrightarrow> distinct (map (reg_address \<circ> fst) ws)
     \<and> list_all (\<lambda>(R, _). reg_domain R \<in> {0x1001, 0x2001} \<and> reg_offset R < 2 ^ 16) ws"

definition kicked :: "reg_cmd list \<Rightarrow> reg_cmd list" where
  "kicked cmds = push_kick cmds (MASK_DPU OR MASK_DPU_RDMA)"

lemma kicked_trail:
  "\<exists>trail. kicked cmds = cmds @ trail \<and> (\<forall>w \<in> set trail. fst (cmd_address w) \<in> {0, 0x41, 0x81, 0x101})"
  by (auto simp: kicked_def push_kick_def Let_def cmd_address_def trailer_fields zero_register_def
      build_fields PCRegisterAmounts_def domain_defs)

lemma ew_field_written:
  assumes cmds: "write_all ws = Done cmds" and ok: "ew_registers ws"
    and block: "set block \<subseteq> set ws" and mem: "(R, fs) \<in> set block"
    and field: "\<forall>r. apply_setters fs 0 = Done r \<longrightarrow> field_of n sh r = x"
  shows "field_at (kicked cmds) R n sh = x"
proof -
  obtain trail where trail: "kicked cmds = cmds @ trail"
    and low: "\<forall>w \<in> set trail. fst (cmd_address w) \<in> {0, 0x41, 0x81, 0x101}"
    using kicked_trail [of cmds] by blast
  have dom: "fst a \<in> {0x1001, 0x2001}" if "a \<in> set (map (reg_address \<circ> fst) ws)" for a
    using ok that by (fastforce simp: ew_registers_def list_all_iff reg_address_def)
  have "cmd_address w \<notin> set (map (reg_address \<circ> fst) ws)" if "w \<in> set trail" for w
    using dom [of "cmd_address w"] low that by fastforce
  moreover have "\<forall>(R, fs) \<in> set ws. reg_domain R < 2 ^ 16 \<and> reg_offset R < 2 ^ 16"
    using ok by (fastforce simp: ew_registers_def list_all_iff)
  moreover have "distinct (map (reg_address \<circ> fst) ws)" using ok by (simp add: ew_registers_def)
  ultimately obtain r where "register_value (cmds @ trail) R = Some r" "apply_setters fs 0 = Done r"
    using write_all_value [OF cmds _ _ _ subsetD [OF block mem], of trail] by blast
  then show ?thesis using field by (simp add: trail field_at_def field_value_def)
qed

lemmas dpu_setters = dpu_block_setters dpu_rdma_block_setters setter_steps
lemmas dpu_registers = reg_address_def dpu_block_registers dpu_rdma_block_registers domain_defs

lemma cube_fields:
  assumes "write_all ws = Done cmds" "ew_registers ws" "set (ew_cube_commands w h c dst) \<subseteq> set ws" "dst < 2 ^ 32"
  shows "field_at (kicked cmds) DpuDataCubeWidth 13 0 = sub32 w 1"
    "field_at (kicked cmds) DpuDataCubeHeight 13 0 = sub32 h 1"
    "field_at (kicked cmds) DpuDataCubeChannel 13 0 = sub32 (ew_task_channels c) 1"
    "field_at (kicked cmds) DpuDataCubeChannel 13 16 = sub32 c 1"
    "field_at (kicked cmds) DpuDstBaseAddr 32 0 = dst"
    "field_at (kicked cmds) DpuDstSurfStride 28 4 = wrap32 (w * h)"
  by (rule ew_field_written [OF assms(1-3), unfolded ew_cube_commands_def], (rule list.set_intros(1) | rule list.set_intros(2))+,
      simp add: dpu_setters assms(4) [simplified] split: if_splits)+

lemma wdma_fields:
  assumes "write_all ws = Done cmds" "ew_registers ws" "set (ew_wdma_commands w h c) \<subseteq> set ws"
  shows "field_at (kicked cmds) DpuWdmaSize1 13 0 = sub32 w 1"
    "field_at (kicked cmds) DpuWdmaSize1 13 16 = sub32 h 1"
    "field_at (kicked cmds) DpuWdmaSize0 13 0 = sub32 (ew_task_channels c) 1"
  by (rule ew_field_written [OF assms(1-3), unfolded ew_wdma_commands_def], (rule list.set_intros(1) | rule list.set_intros(2))+,
      simp add: dpu_setters split: if_splits)+

lemma reader_fields:
  assumes "write_all ws = Done cmds" "ew_registers ws" "set (ew_reader_commands w h c src) \<subseteq> set ws" "src < 2 ^ 32"
  shows "field_at (kicked cmds) DpuRdmaDataCubeWidth 13 0 = sub32 w 1"
    "field_at (kicked cmds) DpuRdmaDataCubeHeight 13 0 = sub32 h 1"
    "field_at (kicked cmds) DpuRdmaDataCubeChannel 13 0 = sub32 (ew_task_channels c) 1"
    "field_at (kicked cmds) DpuRdmaSrcBaseAddr 32 0 = src"
  by (rule ew_field_written [OF assms(1-3), unfolded ew_reader_commands_def], (rule list.set_intros(1) | rule list.set_intros(2))+,
      simp add: dpu_setters assms(4) [simplified] split: if_splits)+

lemma surface_field:
  assumes "write_all ws = Done cmds" "ew_registers ws" "set (ew_surface_commands w h) \<subseteq> set ws"
  shows "field_at (kicked cmds) DpuSurfaceAdd 28 4 = wrap32 (w * h)"
  by (rule ew_field_written [OF assms(1-3), unfolded ew_surface_commands_def], (rule list.set_intros(1) | rule list.set_intros(2))+,
      simp add: dpu_setters split: if_splits)+

lemma format_fields:
  assumes "write_all ws = Done cmds" "ew_registers ws" "set (ew_data_format_command fp16) \<subseteq> set ws"
  shows "field_at (kicked cmds) DpuDataFormat 3 26 = (if fp16 then 2 else 0)"
    "field_at (kicked cmds) DpuDataFormat 3 29 = (if fp16 then 2 else 0)"
    "field_at (kicked cmds) DpuDataFormat 3 0 = (if fp16 then 2 else 0)"
  by (rule ew_field_written [OF assms(1-3), unfolded ew_data_format_command_def], (rule list.set_intros(1) | rule list.set_intros(2))+,
      simp add: dpu_setters split: if_splits)+

lemma fp16_result_fields:
  assumes "write_all ws = Done cmds" "ew_registers ws" "set fp16_out_cvt_commands \<subseteq> set ws"
  shows "field_at (kicked cmds) DpuOutCvtScale 1 16 = 1"
    "field_at (kicked cmds) DpuOutCvtScale 16 0 = 1"
    "field_at (kicked cmds) DpuOutCvtOffset 32 0 = 0"
    "field_at (kicked cmds) DpuOutCvtShift 12 0 = 0"
  by (rule ew_field_written [OF assms(1-3), unfolded fp16_out_cvt_commands_def], (rule list.set_intros(1) | rule list.set_intros(2))+,
      simp add: dpu_setters split: if_splits)+

lemma bypass_field:
  assumes "write_all ws = Done cmds" "ew_registers ws" "set bs_bypass_commands \<subseteq> set ws"
  shows "field_at (kicked cmds) DpuBsCfg 1 0 = 1"
  by (rule ew_field_written [OF assms(1-3), unfolded bs_bypass_commands_def], (rule list.set_intros(1) | rule list.set_intros(2))+,
      simp add: dpu_setters split: if_splits)+

section \<open>When a block can be built\<close>

definition writable :: "writes \<Rightarrow> bool" where
  "writable ws \<longleftrightarrow> list_all (\<lambda>x. \<exists>r. apply_setters (snd x) 0 = Done r) ws"

lemma writable_append [simp]: "writable (xs @ ys) \<longleftrightarrow> writable xs \<and> writable ys"
  by (simp add: writable_def)

lemma writable_total: "writable ws \<Longrightarrow> \<exists>cmds. write_all ws = Done cmds"
  by (rule write_all_total) (simp add: writable_def list_all_iff)

definition ew_fits :: "nat \<Rightarrow> nat \<Rightarrow> nat \<Rightarrow> bool" where
  "ew_fits w h c \<longleftrightarrow> 1 \<le> w \<and> w \<le> 8192 \<and> 1 \<le> h \<and> h \<le> 8192 \<and> 1 \<le> c \<and> c \<le> 8192"

lemma ew_fits_facts:
  assumes "ew_fits w h c"
  shows "sub32 w 1 = w - 1" "sub32 h 1 = h - 1" "sub32 c 1 = c - 1"
    "sub32 (ew_task_channels c) 1 = next_multiple_of (max c 16) 16 - 1"
    "1 \<le> next_multiple_of (max c 16) 16" "next_multiple_of (max c 16) 16 \<le> 8192"
    "wrap32 (w * h) = w * h" "w * h \<le> 2 ^ 26"
proof -
  note f = assms [unfolded ew_fits_def]
  show area: "w * h \<le> 2 ^ 26" using mult_le_mono [of w 8192 h 8192] f by simp
  then show "wrap32 (w * h) = w * h" by simp
  have "next_multiple_of (max c 16) 16 \<le> 8192"
    by (rule next_multiple_of_least) (use f in simp_all)
  moreover have "1 \<le> next_multiple_of (max c 16) 16"
    using next_multiple_of_ge [of 16 "max c 16"] by simp
  ultimately show "1 \<le> next_multiple_of (max c 16) 16" "next_multiple_of (max c 16) 16 \<le> 8192"
    "sub32 (ew_task_channels c) 1 = next_multiple_of (max c 16) 16 - 1"
    by (simp_all add: ew_task_channels_def)
  show "sub32 w 1 = w - 1" "sub32 h 1 = h - 1" "sub32 c 1 = c - 1" using f by simp_all
qed

lemma fixed_blocks_writable:
  "writable ew_header_commands" "writable (ew_data_format_command fp16)" "writable bs_bypass_commands"
  "writable bn_bypass_commands" "writable fp16_out_cvt_commands" "writable lut_unused_commands"
  "writable (ew_reader_mode_commands fp16)" "writable ew_zero_operands" "writable no_second_tensor_commands"
  by (simp_all add: writable_def ew_header_commands_def ew_data_format_command_def bs_bypass_commands_def
      bn_bypass_commands_def fp16_out_cvt_commands_def lut_unused_commands_def ew_reader_mode_commands_def
      ew_zero_operands_def no_second_tensor_commands_def dpu_setters)

lemma cube_blocks_writable:
  assumes "ew_fits w h c" "dst < 2 ^ 32" "src < 2 ^ 32"
  shows "writable (ew_cube_commands w h c dst)" "writable (ew_wdma_commands w h c)"
    "writable (ew_surface_commands w h)" "writable (ew_reader_commands w h c src)"
proof -
  note f = ew_fits_facts [OF assms(1)] and b = assms(1) [unfolded ew_fits_def]
  have "w * h \<le> 67108864" using f(8) by simp
  then have "w - 1 < 8192" "h - 1 < 8192" "c - 1 < 8192" "next_multiple_of (max c 16) 16 - 1 < 8192" "w * h < 268435456"
    using b f(5,6) by linarith+
  note small = this
  show "writable (ew_cube_commands w h c dst)" "writable (ew_wdma_commands w h c)"
    "writable (ew_surface_commands w h)" "writable (ew_reader_commands w h c src)"
    unfolding writable_def ew_cube_commands_def ew_wdma_commands_def ew_surface_commands_def
      ew_reader_commands_def f(1-4,7)
    using small assms(2,3) by (simp_all add: dpu_setters)
qed

section \<open>The two-tensor task\<close>

definition encoded :: "multiplier \<Rightarrow> bool" where
  "encoded m \<longleftrightarrow> mul_scale m < 2 ^ 16 \<and> mul_shift m < 2 ^ 6"

lemma zero_operand_fields:
  assumes "write_all ws = Done cmds" "ew_registers ws" "set ew_zero_operands \<subseteq> set ws"
  shows "field_at (kicked cmds) DpuEwOpValue0 32 0 = 0" "field_at (kicked cmds) DpuEwOpValue1 32 0 = 0"
    "field_at (kicked cmds) DpuEwOpValue2 32 0 = 0" "field_at (kicked cmds) DpuEwOpValue3 32 0 = 0"
    "field_at (kicked cmds) DpuEwOpValue4 32 0 = 0" "field_at (kicked cmds) DpuEwOpValue5 32 0 = 0"
    "field_at (kicked cmds) DpuEwOpValue6 32 0 = 0" "field_at (kicked cmds) DpuEwOpValue7 32 0 = 0"
  by (rule ew_field_written [OF assms(1-3), unfolded ew_zero_operands_def], (rule list.set_intros(1) | rule list.set_intros(2))+,
      simp add: dpu_setters split: if_splits)+

lemma operation_fields:
  assumes "write_all ws = Done cmds" "ew_registers ws" "set (ew_cfg_command s relu) \<subseteq> set ws"
  shows "field_at (kicked cmds) DpuEwCfg 4 16 = alu_algo (ea_op s)"
    "field_at (kicked cmds) DpuEwCfg 1 2 = (if is_mul (ea_op s) then 1 else 0)"
    "field_at (kicked cmds) DpuEwCfg 1 6 = 1"
    "field_at (kicked cmds) DpuEwCfg 1 9 = (if relu then 0 else 1)"
    "field_at (kicked cmds) DpuEwCfg 1 31 = (if ea_precision s = EwFp16 then 0 else 1)"
    "field_at (kicked cmds) DpuEwCfg 2 22 = edata_size (ea_precision s)"
  by (rule ew_field_written [OF assms(1-3), unfolded ew_cfg_command_def], (rule list.set_intros(1) | rule list.set_intros(2))+,
      simp add: dpu_setters edata_size_def split: if_splits)+

lemma second_tensor_fields:
  assumes "write_all ws = Done cmds" "ew_registers ws" "set (ew_second_tensor_commands s addr) \<subseteq> set ws" "addr < 2 ^ 32"
  shows "field_at (kicked cmds) DpuRdmaErdmaCfg 1 0 = 0"
    "field_at (kicked cmds) DpuRdmaErdmaCfg 2 2 = edata_size (ea_precision s)"
    "field_at (kicked cmds) DpuRdmaEwBaseAddr 32 0 = addr"
    "field_at (kicked cmds) DpuRdmaEwSurfStride 28 4 = max (wrap32 (ea_width s * ea_height s)) 12"
  by (rule ew_field_written [OF assms(1-3), unfolded ew_second_tensor_commands_def], (rule list.set_intros(1) | rule list.set_intros(2))+,
      simp add: dpu_setters edata_size_def assms(4) [simplified] split: if_splits)+

text \<open>The three blocks that differ between the precisions, one lemma per precision.\<close>

lemma precision_blocks:
  "ea_precision s = EwFp16 \<Longrightarrow> ew_operand_cvt_commands s m =
     [(DpuEwCvtOffsetValue, []), (DpuEwCvtScaleValue, [DpuEwCvtScaleValue_ew_op_cvt_scale 1]),
      (DpuEwReluxCmpValue, [])]"
  "ea_precision s \<noteq> EwFp16 \<Longrightarrow> ew_operand_cvt_commands s m =
     [(DpuEwCvtOffsetValue, [DpuEwCvtOffsetValue_ew_op_cvt_offset (ea_w_cvt_offset s)]),
      (DpuEwCvtScaleValue, [DpuEwCvtScaleValue_ew_op_cvt_scale (mul_scale m),
                            DpuEwCvtScaleValue_ew_op_cvt_shift (mul_shift m)]),
      (DpuEwReluxCmpValue, [])]"
  "ea_precision s = EwFp16 \<Longrightarrow> ew_out_cvt_commands s m = fp16_out_cvt_commands"
  "ea_precision s \<noteq> EwFp16 \<Longrightarrow> ew_out_cvt_commands s m =
     [(DpuOutCvtOffset, [DpuOutCvtOffset_out_cvt_offset (i32_bits (ea_output_zero_point s))]),
      (DpuOutCvtScale, [DpuOutCvtScale_out_cvt_scale (mul_scale m)]),
      (DpuOutCvtShift, [DpuOutCvtShift_out_cvt_shift (mul_shift m)])]"
  "ea_precision s = EwFp16 \<Longrightarrow> ew_bs_commands s = bs_bypass_commands"
  "ea_precision s \<noteq> EwFp16 \<Longrightarrow> ew_bs_commands s =
     [(DpuBsCfg, [DpuBsCfg_bs_alu_algo 2, DpuBsCfg_bs_relu_bypass 1]),
      (DpuBsAluCfg, [DpuBsAluCfg_bs_alu_operand (i32_bits (- ea_output_zero_point s))]),
      (DpuBsMulCfg, [DpuBsMulCfg_bs_mul_operand 0x4000])]"
  by (simp_all add: ew_operand_cvt_commands_def ew_out_cvt_commands_def ew_bs_commands_def)

lemma fp16_conversion_fields:
  assumes "write_all ws = Done cmds" "ew_registers ws" "set (ew_operand_cvt_commands s m) \<subseteq> set ws"
    "ea_precision s = EwFp16"
  shows "field_at (kicked cmds) DpuEwCvtOffsetValue 32 0 = 0"
    "field_at (kicked cmds) DpuEwCvtScaleValue 16 0 = 1"
    "field_at (kicked cmds) DpuEwCvtScaleValue 6 16 = 0"
  by (rule ew_field_written [OF assms(1-3), unfolded precision_blocks(1) [OF assms(4)]],
      (rule list.set_intros(1) | rule list.set_intros(2))+, simp add: dpu_setters split: if_splits)+

lemma int8_conversion_fields:
  assumes "write_all ws = Done cmds" "ew_registers ws" "set (ew_operand_cvt_commands s m) \<subseteq> set ws"
    "ea_precision s \<noteq> EwFp16" "ea_w_cvt_offset s < 2 ^ 32"
  shows "field_at (kicked cmds) DpuEwCvtOffsetValue 32 0 = ea_w_cvt_offset s"
    "field_at (kicked cmds) DpuEwCvtScaleValue 16 0 = mul_scale m"
    "field_at (kicked cmds) DpuEwCvtScaleValue 6 16 = mul_shift m"
  by (rule ew_field_written [OF assms(1-3), unfolded precision_blocks(2) [OF assms(4)]],
      (rule list.set_intros(1) | rule list.set_intros(2))+,
      simp add: dpu_setters assms(5) [simplified] split: if_splits)+

lemma i32_bits_less [simp]: "i32_bits z < 4294967296"
  by (simp add: i32_bits_def nat_less_iff)

lemma int8_result_fields:
  assumes "write_all ws = Done cmds" "ew_registers ws" "set (ew_out_cvt_commands s m) \<subseteq> set ws"
    "ea_precision s \<noteq> EwFp16"
  shows "field_at (kicked cmds) DpuOutCvtScale 1 16 = 0"
    "field_at (kicked cmds) DpuOutCvtOffset 32 0 = i32_bits (ea_output_zero_point s)"
    "field_at (kicked cmds) DpuOutCvtScale 16 0 = mul_scale m"
    "field_at (kicked cmds) DpuOutCvtShift 12 0 = mul_shift m"
  by (rule ew_field_written [OF assms(1-3), unfolded precision_blocks(4) [OF assms(4)]],
      (rule list.set_intros(1) | rule list.set_intros(2))+, simp add: dpu_setters split: if_splits)+

lemma int8_recentre_fields:
  assumes "write_all ws = Done cmds" "ew_registers ws" "set (ew_bs_commands s) \<subseteq> set ws"
    "ea_precision s \<noteq> EwFp16"
  shows "field_at (kicked cmds) DpuBsCfg 1 0 = 0"
    "field_at (kicked cmds) DpuBsAluCfg 32 0 = i32_bits (- ea_output_zero_point s)"
    "field_at (kicked cmds) DpuBsMulCfg 16 16 = 0x4000"
  by (rule ew_field_written [OF assms(1-3), unfolded precision_blocks(6) [OF assms(4)]],
      (rule list.set_intros(1) | rule list.set_intros(2))+, simp add: dpu_setters split: if_splits)+

lemmas ew_block_defs =
  ew_header_commands_def ew_data_format_command_def ew_cube_commands_def ew_bs_commands_def
  bs_bypass_commands_def ew_wdma_commands_def bn_bypass_commands_def ew_cfg_command_def
  ew_operand_cvt_commands_def ew_out_cvt_commands_def fp16_out_cvt_commands_def ew_zero_operands_def
  ew_surface_commands_def lut_unused_commands_def ew_reader_commands_def ew_second_tensor_commands_def
  ew_reader_mode_commands_def unary_cfg_commands_def unary_operand_commands_def no_second_tensor_commands_def

lemma add_registers: "ew_registers (add_writes s b relu w out)"
  by (cases "ea_precision s") (simp_all add: ew_registers_def add_writes_def ew_block_defs dpu_registers)

lemma unary_registers: "ew_registers (unary_writes s b)"
  by (simp add: ew_registers_def unary_writes_def ew_block_defs dpu_registers)

section \<open>The task a shape stands for\<close>

definition common_task :: "nat \<Rightarrow> nat \<Rightarrow> nat \<Rightarrow> nat \<Rightarrow> nat \<Rightarrow> ew_task" where
  "common_task w h c dst src =
     (let cube = (w, h, next_multiple_of (max c 16) 16) in
      \<lparr>et_cubes = [cube, cube, cube], et_channels = c, et_destination = dst, et_primary = src,
       et_surfaces = (w * h, w * h), et_second = None, et_operation = (0, 0, 0), et_relu = False,
       et_operands = replicate 8 0, et_conversion = (0, 0, 1, 0), et_recentre = None,
       et_result = (True, 0, 1, 0), et_precisions = [2, 2, 2, 2]\<rparr>)"

definition task_of_add ::
  "ew_add_shape \<Rightarrow> ew_add_buffers \<Rightarrow> bool \<Rightarrow> multiplier \<Rightarrow> multiplier \<Rightarrow> ew_task" where
  "task_of_add s b relu w_mul out_mul =
     (common_task (ea_width s) (ea_height s) (ea_channels s) (ea_output_addr b) (intermediate_addr b))
       \<lparr>et_second := Some (w_addr b, max (ea_width s * ea_height s) 12, edata_size (ea_precision s)),
        et_operation := (alu_algo (ea_op s), (if is_mul (ea_op s) then 1 else 0), 1),
        et_relu := relu,
        et_conversion := (if ea_precision s = EwFp16 then (0, 0, 1, 0)
          else (1, ea_w_cvt_offset s, mul_scale w_mul, mul_shift w_mul)),
        et_recentre := (if ea_precision s = EwFp16 then None
          else Some (i32_bits (- ea_output_zero_point s), 0x4000)),
        et_result := (if ea_precision s = EwFp16 then (True, 0, 1, 0)
          else (False, i32_bits (ea_output_zero_point s), mul_scale out_mul, mul_shift out_mul)),
        et_precisions := (if ea_precision s = EwFp16 then [2, 2, 2, 2] else [0, 0, 0, 1])\<rparr>"

definition task_of_unary :: "ew_unary_shape \<Rightarrow> ew_unary_buffers \<Rightarrow> ew_task" where
  "task_of_unary s b =
     (common_task (eu_width s) (eu_height s) (eu_channels s) (eu_output_addr b) (eu_input_addr b))
       \<lparr>et_operation := (unary_code (eu_algo s), 0, 0), et_operands := replicate 8 (eu_operand s)\<rparr>"

lemma replicate_8: "replicate 8 x = [x, x, x, x, x, x, x, x]"
  by (simp add: numeral_eq_Suc)

lemma add_blocks:
  "set (ew_data_format_command (ea_precision s = EwFp16)) \<subseteq> set (add_writes s b relu w out)"
  "set (ew_cube_commands (ea_width s) (ea_height s) (ea_channels s) (ea_output_addr b)) \<subseteq> set (add_writes s b relu w out)"
  "set (ew_bs_commands s) \<subseteq> set (add_writes s b relu w out)"
  "set (ew_wdma_commands (ea_width s) (ea_height s) (ea_channels s)) \<subseteq> set (add_writes s b relu w out)"
  "set (ew_cfg_command s relu) \<subseteq> set (add_writes s b relu w out)"
  "set (ew_operand_cvt_commands s w) \<subseteq> set (add_writes s b relu w out)"
  "set (ew_out_cvt_commands s out) \<subseteq> set (add_writes s b relu w out)"
  "set ew_zero_operands \<subseteq> set (add_writes s b relu w out)"
  "set (ew_surface_commands (ea_width s) (ea_height s)) \<subseteq> set (add_writes s b relu w out)"
  "set (ew_reader_commands (ea_width s) (ea_height s) (ea_channels s) (intermediate_addr b)) \<subseteq> set (add_writes s b relu w out)"
  "set (ew_second_tensor_commands s (w_addr b)) \<subseteq> set (add_writes s b relu w out)"
  unfolding add_writes_def set_append by blast+

lemma unary_blocks:
  "set (ew_data_format_command True) \<subseteq> set (unary_writes s b)"
  "set (ew_cube_commands (eu_width s) (eu_height s) (eu_channels s) (eu_output_addr b)) \<subseteq> set (unary_writes s b)"
  "set bs_bypass_commands \<subseteq> set (unary_writes s b)"
  "set (ew_wdma_commands (eu_width s) (eu_height s) (eu_channels s)) \<subseteq> set (unary_writes s b)"
  "set (unary_cfg_commands s) \<subseteq> set (unary_writes s b)"
  "set fp16_out_cvt_commands \<subseteq> set (unary_writes s b)"
  "set (unary_operand_commands (eu_operand s)) \<subseteq> set (unary_writes s b)"
  "set (ew_surface_commands (eu_width s) (eu_height s)) \<subseteq> set (unary_writes s b)"
  "set (ew_reader_commands (eu_width s) (eu_height s) (eu_channels s) (eu_input_addr b)) \<subseteq> set (unary_writes s b)"
  "set no_second_tensor_commands \<subseteq> set (unary_writes s b)"
  unfolding unary_writes_def set_append by blast+

lemma ew_fits_plus:
  assumes "ew_fits w h c"
  shows "w - 1 + 1 = w" "h - 1 + 1 = h" "c - 1 + 1 = c"
    "next_multiple_of (max c 16) 16 - 1 + 1 = next_multiple_of (max c 16) 16"
  using assms ew_fits_facts(5) [OF assms] by (simp_all add: ew_fits_def)

lemma add_read_back:
  assumes cmds: "write_all (add_writes s b relu w out) = Done cmds"
    and fits: "ew_fits (ea_width s) (ea_height s) (ea_channels s)"
    and addr: "intermediate_addr b < 2 ^ 32" "w_addr b < 2 ^ 32" "ea_output_addr b < 2 ^ 32"
      "ea_w_cvt_offset s < 2 ^ 32"
  shows "read_ew (kicked cmds) = task_of_add s b relu w out"
proof -
  note r = cmds add_registers
  note shared = cube_fields [OF r add_blocks(2) addr(3)] wdma_fields [OF r add_blocks(4)]
    reader_fields [OF r add_blocks(10) addr(1)] surface_field [OF r add_blocks(9)]
    format_fields [OF r add_blocks(1)] operation_fields [OF r add_blocks(5)]
    second_tensor_fields [OF r add_blocks(11) addr(2)] zero_operand_fields [OF r add_blocks(8)]
  note plain = ew_fits_facts(1-4,7) [OF fits] ew_fits_plus [OF fits]
  show ?thesis
  proof (cases "ea_precision s = EwFp16")
    case True
    have blocks: "set bs_bypass_commands \<subseteq> set (add_writes s b relu w out)"
      "set fp16_out_cvt_commands \<subseteq> set (add_writes s b relu w out)"
      using add_blocks(3,7) [of s] by (simp_all add: precision_blocks(3,5) [OF True])
    note own = bypass_field [OF r blocks(1)] fp16_conversion_fields [OF r add_blocks(6) True]
      fp16_result_fields [OF r blocks(2)]
    show ?thesis
      unfolding read_ew_def shared own plain task_of_add_def common_task_def Let_def replicate_8
      by (simp add: True edata_size_def)
  next
    case False
    note own = int8_recentre_fields [OF r add_blocks(3) False]
      int8_conversion_fields [OF r add_blocks(6) False addr(4)]
      int8_result_fields [OF r add_blocks(7) False]
    show ?thesis
      unfolding read_ew_def shared own plain task_of_add_def common_task_def Let_def replicate_8
      by (simp add: False edata_size_def)
  qed
qed

lemma add_writable:
  assumes fits: "ew_fits (ea_width s) (ea_height s) (ea_channels s)"
    and addr: "intermediate_addr b < 2 ^ 32" "w_addr b < 2 ^ 32" "ea_output_addr b < 2 ^ 32"
      "ea_w_cvt_offset s < 2 ^ 32"
    and mult: "ea_precision s \<noteq> EwFp16 \<Longrightarrow> encoded w \<and> encoded out"
  shows "writable (add_writes s b relu w out)"
proof -
  have area: "max (ea_width s * ea_height s) 12 < 268435456"
    using ew_fits_facts(8) [OF fits] by simp
  have second: "writable (ew_second_tensor_commands s (w_addr b))"
    unfolding writable_def ew_second_tensor_commands_def ew_fits_facts(7) [OF fits]
    using area addr(2) by (cases "ea_precision s") (simp_all add: edata_size_def dpu_setters)
  have cfg: "writable (ew_cfg_command s relu)"
    by (cases "ea_op s"; cases "ea_precision s"; cases relu)
       (simp_all add: writable_def ew_cfg_command_def is_mul_def edata_size_def dpu_setters)
  have "writable (ew_bs_commands s) \<and> writable (ew_operand_cvt_commands s w) \<and> writable (ew_out_cvt_commands s out)"
  proof (cases "ea_precision s = EwFp16")
    case True
    then show ?thesis
      by (simp_all add: precision_blocks fixed_blocks_writable)
         (simp add: writable_def dpu_setters)
  next
    case False
    from mult [OF False] have m: "mul_scale w < 65536" "mul_shift w < 64" "mul_scale out < 65536"
      "mul_shift out < 4096"
      by (simp_all add: encoded_def)
    show ?thesis
      using m addr(4) by (simp_all add: precision_blocks(2,4,6) [OF False] writable_def dpu_setters)
  qed
  then show ?thesis
    unfolding add_writes_def writable_append
    by (auto intro: fixed_blocks_writable cube_blocks_writable [OF fits addr(3,1)] second cfg)
qed

lemma erdma_off_field:
  assumes "write_all ws = Done cmds" "ew_registers ws" "set no_second_tensor_commands \<subseteq> set ws"
  shows "field_at (kicked cmds) DpuRdmaErdmaCfg 1 0 = 1"
  by (rule ew_field_written [OF assms(1-3), unfolded no_second_tensor_commands_def],
      (rule list.set_intros(1) | rule list.set_intros(2))+, simp add: dpu_setters split: if_splits)

lemma unary_code_less: "unary_code a < 16"
  by (cases a) simp_all

lemma unary_cfg_fields:
  assumes "write_all ws = Done cmds" "ew_registers ws" "set (unary_cfg_commands s) \<subseteq> set ws"
  shows "field_at (kicked cmds) DpuEwCfg 4 16 = unary_code (eu_algo s)"
    "field_at (kicked cmds) DpuEwCfg 1 2 = 0" "field_at (kicked cmds) DpuEwCfg 1 6 = 0"
    "field_at (kicked cmds) DpuEwCfg 1 9 = 1" "field_at (kicked cmds) DpuEwCfg 1 31 = 0"
    "field_at (kicked cmds) DpuEwCfg 2 22 = 2"
    "field_at (kicked cmds) DpuEwCvtOffsetValue 32 0 = 0"
    "field_at (kicked cmds) DpuEwCvtScaleValue 16 0 = 1"
    "field_at (kicked cmds) DpuEwCvtScaleValue 6 16 = 0"
  by (rule ew_field_written [OF assms(1-3), unfolded unary_cfg_commands_def],
      (rule list.set_intros(1) | rule list.set_intros(2))+, simp add: dpu_setters split: if_splits)+

lemma unary_operand_fields:
  assumes "write_all ws = Done cmds" "ew_registers ws" "set (unary_operand_commands v) \<subseteq> set ws" "v < 2 ^ 32"
  shows "field_at (kicked cmds) DpuEwOpValue0 32 0 = v" "field_at (kicked cmds) DpuEwOpValue1 32 0 = v"
    "field_at (kicked cmds) DpuEwOpValue2 32 0 = v" "field_at (kicked cmds) DpuEwOpValue3 32 0 = v"
    "field_at (kicked cmds) DpuEwOpValue4 32 0 = v" "field_at (kicked cmds) DpuEwOpValue5 32 0 = v"
    "field_at (kicked cmds) DpuEwOpValue6 32 0 = v" "field_at (kicked cmds) DpuEwOpValue7 32 0 = v"
  by (rule ew_field_written [OF assms(1-3), unfolded unary_operand_commands_def],
      (rule list.set_intros(1) | rule list.set_intros(2))+,
      simp add: dpu_setters assms(4) [simplified] split: if_splits)+

lemma unary_read_back:
  assumes cmds: "write_all (unary_writes s b) = Done cmds"
    and fits: "ew_fits (eu_width s) (eu_height s) (eu_channels s)"
    and addr: "eu_input_addr b < 2 ^ 32" "eu_output_addr b < 2 ^ 32" "eu_operand s < 2 ^ 32"
  shows "read_ew (kicked cmds) = task_of_unary s b"
proof -
  note r = cmds unary_registers
  note fields = cube_fields [OF r unary_blocks(2) addr(2)] wdma_fields [OF r unary_blocks(4)]
    reader_fields [OF r unary_blocks(9) addr(1)] surface_field [OF r unary_blocks(8)]
    format_fields [OF r unary_blocks(1), unfolded simp_thms if_True] unary_cfg_fields [OF r unary_blocks(5)]
    unary_operand_fields [OF r unary_blocks(7) addr(3)] bypass_field [OF r unary_blocks(3)]
    fp16_result_fields [OF r unary_blocks(6)] erdma_off_field [OF r unary_blocks(10)]
  note plain = ew_fits_facts(1-4,7) [OF fits] ew_fits_plus [OF fits]
  show ?thesis
    unfolding read_ew_def fields plain task_of_unary_def common_task_def Let_def replicate_8
    by simp
qed

lemma unary_writable:
  assumes fits: "ew_fits (eu_width s) (eu_height s) (eu_channels s)"
    and addr: "eu_input_addr b < 2 ^ 32" "eu_output_addr b < 2 ^ 32" "eu_operand s < 2 ^ 32"
  shows "writable (unary_writes s b)"
proof -
  have "writable (unary_cfg_commands s)" "writable (unary_operand_commands (eu_operand s))"
    using addr(3) unary_code_less [of "eu_algo s"]
    by (simp_all add: writable_def unary_cfg_commands_def unary_operand_commands_def dpu_setters)
  then show ?thesis
    unfolding unary_writes_def writable_append
    by (auto intro: fixed_blocks_writable cube_blocks_writable [OF fits addr(2,1)])
qed

section \<open>The builders\<close>

lemma ew_program_Done: "write_all ws = Done cmds \<Longrightarrow> ew_program ws = Done (kicked cmds)"
  by (simp add: ew_program_def kicked_def)

lemma kicked_even: "length (kicked cmds) mod 2 = 0"
  by (auto simp: kicked_def push_kick_def Let_def mod2_eq_if split: if_splits)

text \<open>The exact ratios the converters can hold.\<close>

definition encodable :: "float64 \<Rightarrow> bool" where
  "encodable x \<longleftrightarrow> (\<exists>r. x = Fin r \<and> binary64 r \<and> 1 \<le> r * 2 ^ 49 \<and> r < 2 ^ 15 - 1 / 2)"

definition multiplier_near :: "multiplier \<Rightarrow> float64 \<Rightarrow> bool" where
  "multiplier_near m x \<longleftrightarrow> (\<exists>r. x = Fin r \<and> \<bar>of_nat (mul_scale m) / 2 ^ mul_shift m - r\<bar> \<le> r / 2 ^ 15)"

lemma encodable_multiplier:
  assumes "encodable x"
  shows "\<exists>m. from_ratio x = Some (Done m) \<and> encoded m \<and> multiplier_near m x"
proof -
  obtain r where r: "x = Fin r" "binary64 r" "1 \<le> r * 2 ^ 49" "r < 2 ^ 15 - 1 / 2"
    using assms by (auto simp: encodable_def)
  have pos: "0 < r" using r(3) by simp
  have "r < 2 ^ 15" using r(4) by simp
  also have "(2 :: rat) ^ 15 \<le> 2 ^ 1010" by (rule power_increasing) simp_all
  finally obtain m where m: "try_from_ratio x = Some (Done m)" "mul_scale m < 2 ^ 15" "mul_shift m \<le> 63"
      "\<bar>of_nat (mul_scale m) / 2 ^ mul_shift m - r\<bar> \<le> r / 2 ^ 15"
    using multiplier_search [OF r(2) pos] r(1,3,4) by auto
  then have "encoded m" "multiplier_near m x" "from_ratio x = Some (Done m)"
    using r(1) by (auto simp: encoded_def multiplier_near_def from_ratio_def)
  then show ?thesis by blast
qed

text \<open>Past the converters no multiplier comes back.\<close>

definition f64 :: "float64 \<Rightarrow> bool" where
  "f64 x \<longleftrightarrow> (\<forall>r. x = Fin r \<longrightarrow> binary64 r)"

lemma encodable_f64: "encodable x \<Longrightarrow> f64 x"
  by (metis encodable_def f64_def float64.inject)

lemma multiplier_encodable:
  assumes "from_ratio x = Some (Done m)" "f64 x"
  shows "encodable x"
proof -
  have t: "try_from_ratio x = Some (Done m)"
    using assms(1) by (auto simp: from_ratio_def outcome_done)
  then have "is_finite x" "\<not> fle x (Fin 0)" by (auto simp: try_from_ratio_def split: if_splits)
  then obtain r where r: "x = Fin r" "0 < r" by (cases x) (auto simp: not_le)
  then have b: "binary64 r" using assms(2) by (simp add: f64_def)
  note search = multiplier_search [OF b r(2), folded r(1)]
  have "r < 2 ^ 1010" using search t by (metis not_le option.distinct(1))
  with search t have "1 \<le> r * 2 ^ 49 \<and> r < 2 ^ 15 - 1 / 2" by (metis option.inject outcome.distinct(1))
  with r(1) b show ?thesis by (auto simp: encodable_def)
qed

lemma cube_overflow:
  assumes "write_all ws = Done cmds" "ew_registers ws" "set (ew_cube_commands w h c dst) \<subseteq> set ws"
    and "1 \<le> w" "1 \<le> h" "1 \<le> c" "w < 2 ^ 32" "h < 2 ^ 32" "c < 2 ^ 32"
  shows "ew_fits w h c"
proof -
  note written = write_all_value [OF assms(1) _ _ _ subsetD [OF assms(3)], of "[]"]
  have ok: "\<forall>(R, fs) \<in> set ws. reg_domain R < 2 ^ 16 \<and> reg_offset R < 2 ^ 16"
    "distinct (map (reg_address \<circ> fst) ws)"
    using assms(2) by (fastforce simp: ew_registers_def list_all_iff)+
  have "\<exists>r. apply_setters fs 0 = Done r" if "(R, fs) \<in> set (ew_cube_commands w h c dst)" for R fs
    using written [OF ok _ that] by auto
  then have "\<exists>r. apply_setters [DpuDataCubeWidth_width (sub32 w 1)] 0 = Done r"
    "\<exists>r. apply_setters [DpuDataCubeHeight_height (sub32 h 1)] 0 = Done r"
    "\<exists>r. apply_setters [DpuDataCubeChannel_orig_channel (sub32 c 1),
       DpuDataCubeChannel_channel (sub32 (ew_task_channels c) 1)] 0 = Done r"
    by (fastforce simp: ew_cube_commands_def)+
  then have "sub32 w 1 < 8192" "sub32 h 1 < 8192" "sub32 c 1 < 8192"
    by (auto simp: dpu_block_setters field_setter_def bits_new_def obind_eq_Done ensure_def split: if_splits)
  then show ?thesis using assms(4-9) by (auto simp: ew_fits_def)
qed

definition int8_ready :: "ew_add_shape \<Rightarrow> bool" where
  "int8_ready s \<longleftrightarrow> (ea_precision s = EwInt8 \<longrightarrow>
     \<not> is_mul (ea_op s) \<and> encodable (ea_w_scale_ratio s) \<and> encodable (ea_output_scale_ratio s))"

lemma addition_built:
  assumes fits: "ew_fits (ea_width s) (ea_height s) (ea_channels s)" and ready: "int8_ready s"
    and addr: "intermediate_addr b < 2 ^ 32" "w_addr b < 2 ^ 32" "ea_output_addr b < 2 ^ 32"
      "ea_w_cvt_offset s < 2 ^ 32"
  shows "\<exists>program w_mul out_mul.
    build_add_regcmd_with_relu s b relu = Some (Done program)
    \<and> (ea_precision s = EwInt8 \<longrightarrow>
         multiplier_near w_mul (ea_w_scale_ratio s) \<and> multiplier_near out_mul (ea_output_scale_ratio s))
    \<and> length program mod 2 = 0 \<and> read_ew program = task_of_add s b relu w_mul out_mul"
proof -
  note int8 = ready [unfolded int8_ready_def]
  obtain w out where m: "ratio_multiplier (ea_precision s) (ea_w_scale_ratio s) = Some (Done w)"
    "ratio_multiplier (ea_precision s) (ea_output_scale_ratio s) = Some (Done out)"
    "ea_precision s \<noteq> EwFp16 \<Longrightarrow> encoded w \<and> encoded out"
    "ea_precision s = EwInt8 \<longrightarrow>
         multiplier_near w (ea_w_scale_ratio s) \<and> multiplier_near out (ea_output_scale_ratio s)"
  proof (cases "ea_precision s")
    case EwFp16
    then show ?thesis using that by (simp add: ratio_multiplier_def)
  next
    case EwInt8
    then show ?thesis
      using that encodable_multiplier [of "ea_w_scale_ratio s"]
        encodable_multiplier [of "ea_output_scale_ratio s"] int8
      by (force simp: ratio_multiplier_def)
  qed
  obtain cmds where cmds: "write_all (add_writes s b relu w out) = Done cmds"
    using writable_total [OF add_writable [OF fits addr m(3)]] by blast
  have "build_add_regcmd_with_relu s b relu = Some (Done (kicked cmds))"
    using fits int8 m(1,2) ew_program_Done [OF cmds]
    by (cases "ea_precision s") (auto simp: build_add_regcmd_with_relu_def ew_fits_def)
  then show ?thesis using m(4) add_read_back [OF cmds fits addr] kicked_even by blast
qed

lemma addition_refused:
  assumes built: "build_add_regcmd_with_relu s b relu = Some (Done program)"
    and dims: "ea_width s < 2 ^ 32" "ea_height s < 2 ^ 32" "ea_channels s < 2 ^ 32"
    and ratios: "ea_precision s = EwInt8 \<longrightarrow> f64 (ea_w_scale_ratio s) \<and> f64 (ea_output_scale_ratio s)"
  shows "ew_fits (ea_width s) (ea_height s) (ea_channels s) \<and> int8_ready s"
proof -
  from built obtain w out cmds where guard: "0 < ea_width s" "0 < ea_height s" "0 < ea_channels s"
      "\<not> (is_mul (ea_op s) \<and> ea_precision s = EwInt8)"
    and w: "ratio_multiplier (ea_precision s) (ea_w_scale_ratio s) = Some (Done w)"
    and out: "ratio_multiplier (ea_precision s) (ea_output_scale_ratio s) = Some (Done out)"
    and cmds: "write_all (add_writes s b relu w out) = Done cmds"
    by (auto simp: build_add_regcmd_with_relu_def ew_program_def bind_eq_Some_conv outcome_done split: if_splits)
  have "ew_fits (ea_width s) (ea_height s) (ea_channels s)"
    using cube_overflow [OF cmds add_registers add_blocks(2) _ _ _ dims] guard(1-3) by (simp add: Suc_leI)
  moreover have "int8_ready s"
    using guard(4) w out ratios multiplier_encodable
    by (auto simp: int8_ready_def ratio_multiplier_def unwrap_eq_Done)
  ultimately show ?thesis by simp
qed

text \<open>
  C23. With 32-bit fields and addresses and, in int8, binary64 ratios, a two-tensor task is built
  exactly when its rows, columns and channels are between 1 and 8192 and, in int8, its operation is not
  the product and both ratios are ones the converters can hold. Then the program has even length and
  reads back as the shape and its buffers in the engine, its write port and its reader alike, with both
  int8 ratios encoded to within 2^-15. A zero extent and an int8 product panic.
\<close>

theorem addition_tasks_carry_their_shape:
  assumes addr: "intermediate_addr b < 2 ^ 32" "w_addr b < 2 ^ 32" "ea_output_addr b < 2 ^ 32"
      "ea_w_cvt_offset s < 2 ^ 32"
    and dims: "ea_width s < 2 ^ 32" "ea_height s < 2 ^ 32" "ea_channels s < 2 ^ 32"
    and ratios: "ea_precision s = EwInt8 \<longrightarrow> f64 (ea_w_scale_ratio s) \<and> f64 (ea_output_scale_ratio s)"
  shows "(if ew_fits (ea_width s) (ea_height s) (ea_channels s) \<and> int8_ready s
     then \<exists>program w_mul out_mul.
       build_add_regcmd_with_relu s b relu = Some (Done program)
       \<and> (ea_precision s = EwInt8 \<longrightarrow>
            multiplier_near w_mul (ea_w_scale_ratio s) \<and> multiplier_near out_mul (ea_output_scale_ratio s))
       \<and> length program mod 2 = 0 \<and> read_ew program = task_of_add s b relu w_mul out_mul
     else \<forall>program. build_add_regcmd_with_relu s b relu \<noteq> Some (Done program))
   \<and> (ea_width s = 0 \<or> ea_height s = 0 \<or> ea_channels s = 0 \<or> ea_precision s = EwInt8 \<and> is_mul (ea_op s) \<longrightarrow>
       build_add_regcmd_with_relu s b relu = Some Panicked)"
  using addition_built [OF _ _ addr, of relu] addition_refused [OF _ dims ratios]
  by (auto simp: build_add_regcmd_with_relu_def)

theorem addition_tasks_carry_their_shape_witness:
  "\<exists>program. build_add_regcmd
     \<lparr>ea_width = 5, ea_height = 7, ea_channels = 20, ea_precision = EwInt8, ea_op = EwSub,
      ea_output_zero_point = 3, ea_w_cvt_offset = 9, ea_w_scale_ratio = Fin (3 / 4), ea_output_scale_ratio = Fin (1 / 2)\<rparr>
     \<lparr>intermediate_addr = 0x1000, w_addr = 0x2000, ea_output_addr = 0x3000\<rparr> = Some (Done program)
   \<and> et_second (read_ew program) = Some (0x2000, 35, 1)
   \<and> et_cubes (read_ew program) ! 2 = (5, 7, 32)
   \<and> et_operation (read_ew program) = (4, 0, 1)"
proof -
  have "binary64 (3 / 4)" "binary64 (1 / 2)"
    unfolding binary64_def
    by (rule exI [of _ 3], rule exI [of _ "- 2"], simp add: power_int_minus power_int_numeral,
        rule exI [of _ 1], rule exI [of _ "- 1"], simp add: power_int_minus power_int_numeral)
  then have e: "encodable (Fin (3 / 4))" "encodable (Fin (1 / 2))" unfolding encodable_def
    by (intro exI [of _ "3 / 4"], simp, intro exI [of _ "1 / 2"], simp)
  then have f: "f64 (Fin (3 / 4))" "f64 (Fin (1 / 2))" by (simp_all only: encodable_f64)
  show ?thesis
    using addition_tasks_carry_their_shape [of
        "\<lparr>intermediate_addr = 0x1000, w_addr = 0x2000, ea_output_addr = 0x3000\<rparr>"
        "\<lparr>ea_width = 5, ea_height = 7, ea_channels = 20, ea_precision = EwInt8, ea_op = EwSub,
          ea_output_zero_point = 3, ea_w_cvt_offset = 9, ea_w_scale_ratio = Fin (3 / 4), ea_output_scale_ratio = Fin (1 / 2)\<rparr>" False]
    by (auto simp: e f int8_ready_def ew_fits_def is_mul_def build_add_regcmd_def task_of_add_def common_task_def
        edata_size_def next_multiple_of_def Let_def)
qed

text \<open>A register the value does not fit panics, and nothing in a task can end it in another way.\<close>

definition never_refuses :: "writes \<Rightarrow> bool" where
  "never_refuses ws \<longleftrightarrow> list_all (\<lambda>x. list_all (\<lambda>f. \<forall>r e. f r \<noteq> Refused e) (snd x)) ws"

lemma field_setter_never_refuses: "field_setter n m sh v r \<noteq> Refused e"
  by (simp add: field_setter_def bits_new_def ensure_def)

lemma setters_never_refuse: "list_all (\<lambda>f. \<forall>r e. f r \<noteq> Refused e) fs \<Longrightarrow> apply_setters fs r \<noteq> Refused e"
proof (induction fs arbitrary: r)
  case (Cons f fs)
  then show ?case by (cases "f r") auto
qed simp

lemma write_all_panics:
  assumes "never_refuses ws" "\<forall>cmds. write_all ws \<noteq> Done cmds"
  shows "write_all ws = Panicked"
proof -
  have "write_all ws \<noteq> Refused e" if "never_refuses ws" for e
    using that
  proof (induction ws)
    case (Cons x ws)
    obtain R fs where x: "x = (R, fs)" by (cases x)
    have "apply_setters fs 0 \<noteq> Refused e" for e
      using Cons.prems by (intro setters_never_refuse) (simp add: never_refuses_def x)
    then show ?case using Cons
      by (cases "apply_setters fs 0"; cases "write_all ws") (auto simp: x never_refuses_def write_register_def)
  qed simp
  with assms show ?thesis by (cases "write_all ws") auto
qed

lemma unary_never_refuses: "never_refuses (unary_writes s b)"
  by (simp add: never_refuses_def unary_writes_def ew_block_defs dpu_block_setters dpu_rdma_block_setters
      field_setter_never_refuses)

lemma unary_tasks:
  assumes addr: "eu_input_addr b < 2 ^ 32" "eu_output_addr b < 2 ^ 32" "eu_operand s < 2 ^ 32"
    and dims: "eu_width s < 2 ^ 32" "eu_height s < 2 ^ 32" "eu_channels s < 2 ^ 32"
  shows "if ew_fits (eu_width s) (eu_height s) (eu_channels s) \<and> (eu_operand s = 0 \<or> eu_algo s = UnaryAdd)
    then \<exists>program. build_unary_regcmd s b = Done program
      \<and> length program mod 2 = 0 \<and> read_ew program = task_of_unary s b
    else build_unary_regcmd s b = Panicked"
proof (cases "ew_fits (eu_width s) (eu_height s) (eu_channels s)")
  case True
  obtain cmds where cmds: "write_all (unary_writes s b) = Done cmds"
    using writable_total [OF unary_writable [OF True addr]] by blast
  show ?thesis
    using True ew_program_Done [OF cmds] unary_read_back [OF cmds True addr] kicked_even
    by (auto simp: build_unary_regcmd_def ew_fits_def)
next
  case False
  have "write_all (unary_writes s b) = Panicked" if "0 < eu_width s" "0 < eu_height s" "0 < eu_channels s"
    using cube_overflow [OF _ unary_registers unary_blocks(2) _ _ _ dims] that False
    by (intro write_all_panics unary_never_refuses) (metis One_nat_def Suc_leI)
  then show ?thesis using False by (auto simp: build_unary_regcmd_def ew_program_def ensure_def)
qed

text \<open>
  C24. With addresses, extents and operand of 32 bits, a single-tensor task is built exactly when no
  extent is zero or above 8192 and only an addition has an operand: then the program reads back as its
  shape, with the operand in all eight slots and the second reader off. Otherwise the builder panics.
\<close>

theorem unary_tasks_carry_their_shape:
  assumes addr: "eu_input_addr b < 2 ^ 32" "eu_output_addr b < 2 ^ 32" "eu_operand s < 2 ^ 32"
    and dims: "eu_width s < 2 ^ 32" "eu_height s < 2 ^ 32" "eu_channels s < 2 ^ 32"
  shows "if ew_fits (eu_width s) (eu_height s) (eu_channels s) \<and> (eu_operand s = 0 \<or> eu_algo s = UnaryAdd)
    then \<exists>program. build_unary_regcmd s b = Done program
      \<and> length program mod 2 = 0 \<and> read_ew program = task_of_unary s b
    else build_unary_regcmd s b = Panicked"
  by (rule unary_tasks [OF assms])

theorem unary_tasks_carry_their_shape_witness:
  "(\<exists>program. build_unary_regcmd
      \<lparr>eu_width = 64, eu_height = 32, eu_channels = 24, eu_algo = UnaryAdd, eu_operand = 0x3F800000\<rparr>
      \<lparr>eu_input_addr = 0x1000, eu_output_addr = 0x2000\<rparr> = Done program
    \<and> et_operands (read_ew program) ! 7 = 0x3F800000 \<and> et_cubes (read_ew program) ! 1 = (64, 32, 32))
   \<and> build_unary_regcmd
      \<lparr>eu_width = 8193, eu_height = 1, eu_channels = 16, eu_algo = UnaryAbs, eu_operand = 0\<rparr>
      \<lparr>eu_input_addr = 0x1000, eu_output_addr = 0x2000\<rparr> = Panicked"
  using unary_tasks_carry_their_shape [of "\<lparr>eu_input_addr = 0x1000, eu_output_addr = 0x2000\<rparr>"
      "\<lparr>eu_width = 64, eu_height = 32, eu_channels = 24, eu_algo = UnaryAdd, eu_operand = 0x3F800000\<rparr>"]
    unary_tasks_carry_their_shape [of "\<lparr>eu_input_addr = 0x1000, eu_output_addr = 0x2000\<rparr>"
      "\<lparr>eu_width = 8193, eu_height = 1, eu_channels = 16, eu_algo = UnaryAbs, eu_operand = 0\<rparr>"]
  by (auto simp: ew_fits_def task_of_unary_def common_task_def next_multiple_of_def replicate_8 Let_def)

end
