(* ===== verification/DispatchTemplates.thy ===== *)
theory DispatchTemplates
  imports ElementwiseProgram CubeLayout
begin

text \<open>
  Executables before their dispatch is known (\<open>rocket-hal-driver/src/executable.rs\<close>): the part every
  kind shares. A template lists the dimensions each dispatch supplies as push constants; it has to be
  zero exactly at those, and a dispatch overwrites them in the listed order. Also the executables of
  the element-wise engine, which have no other constraint.
\<close>

section \<open>Refusals\<close>

text \<open>One constructor for each message of the module; the messages differ between kinds by a noun only.\<close>

datatype template_error =
    DuplicateDimension
  | NonzeroRuntimeDimension
  | ZeroStaticDimension
  | DuplicateQuantization
  | NonzeroRuntimeQuantization
  | QuantizationNeedsInt8
  | ByteCountOverflow
  | ByteCountMismatch
  | ConstantsRanOut
  | ZeroRuntimeDimension
  | BadOutputScale
  | BadMultiplier multiplier_error
  | ZeroKernelOrStride
  | PaddedExtentOverflow
  | KernelExceedsInput
  | OutputExtentsDisagree
  | UnprogrammablePooling
  | OperandWithoutAdd
  | UnsupportedLutZeroPoint
  | LutOutputZeroPoint
  | BadLutScale
  | PlanRefused plan_error_code

type_synonym 'a template_result = "(template_error, 'a) outcome"

section \<open>Templates\<close>

text \<open>The loop over the listed dimensions, with its array of flags, and the loop over all of them.\<close>

fun check_listed :: "('d \<Rightarrow> nat) \<Rightarrow> ('d \<Rightarrow> nat) \<Rightarrow> bool list \<Rightarrow> 'd list \<Rightarrow> bool list template_result" where
  "check_listed index get seen [] = Done seen"
| "check_listed index get seen (d # ds) =
     ensure (index d < length seen)
     (refuse_unless (\<not> seen ! index d) DuplicateDimension
     (refuse_unless (get d = 0) NonzeroRuntimeDimension
     (check_listed index get (seen[index d := True]) ds)))"

fun check_unlisted :: "('d \<Rightarrow> nat) \<Rightarrow> ('d \<Rightarrow> nat) \<Rightarrow> bool list \<Rightarrow> 'd list \<Rightarrow> unit template_result" where
  "check_unlisted index get seen [] = Done ()"
| "check_unlisted index get seen (d # ds) =
     ensure (index d < length seen)
     (refuse_unless (seen ! index d \<or> get d \<noteq> 0) ZeroStaticDimension
     (check_unlisted index get seen ds))"

definition check_dimensions :: "('d \<Rightarrow> nat) \<Rightarrow> ('d \<Rightarrow> nat) \<Rightarrow> 'd list \<Rightarrow> 'd list \<Rightarrow> unit template_result" where
  "check_dimensions index get every listed =
     obind (check_listed index get (replicate (length every) False) listed)
       (\<lambda>seen. check_unlisted index get seen every)"

section \<open>Push constants\<close>

text \<open>
  The constants are \<open>u32\<close>s in native order, which is little-endian on every host of the device;
  \<open>chunks_exact(4)\<close> leaves an incomplete last word out.
\<close>

fun constant_words :: "byte list \<Rightarrow> nat list" where
  "constant_words (a # b # c # d # bs) = from_le_bytes [a, b, c, d] # constant_words bs"
| "constant_words bs = []"

definition expected_bytes :: "nat \<Rightarrow> bool \<Rightarrow> nat option" where
  "expected_bytes count trailing =
     Option.bind (checked_add64 count (if trailing then 1 else 0)) (\<lambda>c. checked_mul64 c 4)"

definition check_byte_count :: "nat option \<Rightarrow> byte list \<Rightarrow> unit template_result" where
  "check_byte_count expected constants =
     obind (ok_or expected ByteCountOverflow) (\<lambda>n.
     refuse_unless (length constants = n) ByteCountMismatch (Done ()))"

fun set_dimensions :: "('d \<Rightarrow> nat \<Rightarrow> 's \<Rightarrow> 's) \<Rightarrow> ('d \<times> nat) list \<Rightarrow> 's \<Rightarrow> 's template_result" where
  "set_dimensions assign [] s = Done s"
| "set_dimensions assign ((d, v) # rest) s =
     refuse_unless (v \<noteq> 0) ZeroRuntimeDimension (set_dimensions assign rest (assign d v s))"

text \<open>What the compiler declared about the layout: the last constant.\<close>

definition no_layout :: dispatch_layout where
  "no_layout = \<lparr>packed_inputs = 0, packed_readers = 0\<rparr>"

definition trailing_layout :: "bool \<Rightarrow> bool \<Rightarrow> byte list \<Rightarrow> dispatch_layout" where
  "trailing_layout declared_dense_readers declared_layout constants =
     (if (\<not> declared_dense_readers \<and> \<not> declared_layout) \<or> length constants < 4 then no_layout
      else let word = from_le_bytes (drop (length constants - 4) constants) in
           if declared_layout then from_word (word_of_nat word)
           else \<lparr>packed_inputs = 0, packed_readers = (if word < 2 ^ 16 then word_of_nat word else 0xFFFF)\<rparr>)"

section \<open>Element-wise executables\<close>

record ew_geometry =
  eg_width :: nat
  eg_height :: nat
  eg_channels :: nat

datatype ew_dimension = EwWidth | EwHeight | EwChannels

fun ew_index :: "ew_dimension \<Rightarrow> nat" where
  "ew_index EwWidth = 0"
| "ew_index EwHeight = 1"
| "ew_index EwChannels = 2"

fun ew_get :: "ew_dimension \<Rightarrow> ew_geometry \<Rightarrow> nat" where
  "ew_get EwWidth g = eg_width g"
| "ew_get EwHeight g = eg_height g"
| "ew_get EwChannels g = eg_channels g"

fun ew_set :: "ew_dimension \<Rightarrow> nat \<Rightarrow> ew_geometry \<Rightarrow> ew_geometry" where
  "ew_set EwWidth v g = g\<lparr>eg_width := v\<rparr>"
| "ew_set EwHeight v g = g\<lparr>eg_height := v\<rparr>"
| "ew_set EwChannels v g = g\<lparr>eg_channels := v\<rparr>"

definition ALL_ELEMENTWISE_DIMENSIONS :: "ew_dimension list" where
  "ALL_ELEMENTWISE_DIMENSIONS = [EwWidth, EwHeight, EwChannels]"

definition validate_elementwise_template :: "ew_geometry \<Rightarrow> ew_dimension list \<Rightarrow> unit template_result" where
  "validate_elementwise_template g listed =
     check_dimensions ew_index (\<lambda>d. ew_get d g) ALL_ELEMENTWISE_DIMENSIONS listed"

definition resolve_elementwise_geometry ::
  "ew_geometry \<Rightarrow> ew_dimension list \<Rightarrow> bool \<Rightarrow> byte list \<Rightarrow> ew_geometry template_result" where
  "resolve_elementwise_geometry template listed trailing constants =
     obind (check_byte_count (expected_bytes (length listed) trailing) constants) (\<lambda>_.
     set_dimensions ew_set (zip listed (constant_words constants)) template)"

record ew_unary_executable =
  ux_geometry :: ew_geometry
  ux_algo :: ew_unary_algo
  ux_operand :: nat
  ux_dimensions :: "ew_dimension list"
  ux_dense_readers :: bool
  ux_layout :: bool

definition unary_new_static :: "ew_geometry \<Rightarrow> ew_unary_algo \<Rightarrow> nat \<Rightarrow> ew_unary_executable" where
  "unary_new_static g algo v =
     \<lparr>ux_geometry = g, ux_algo = algo, ux_operand = v, ux_dimensions = [], ux_dense_readers = False,
      ux_layout = False\<rparr>"

definition unary_layout :: "ew_unary_executable \<Rightarrow> byte list \<Rightarrow> dispatch_layout" where
  "unary_layout x constants = trailing_layout (ux_dense_readers x) (ux_layout x) constants"

definition unary_validate_template :: "ew_unary_executable \<Rightarrow> unit template_result" where
  "unary_validate_template x =
     obind (validate_elementwise_template (ux_geometry x) (ux_dimensions x)) (\<lambda>_.
     refuse_unless (ux_operand x = 0 \<or> ux_algo x = UnaryAdd) OperandWithoutAdd (Done ()))"

definition unary_resolve_shape :: "ew_unary_executable \<Rightarrow> byte list \<Rightarrow> ew_unary_shape template_result" where
  "unary_resolve_shape x constants =
     obind (resolve_elementwise_geometry (ux_geometry x) (ux_dimensions x)
              (ux_dense_readers x \<or> ux_layout x) constants) (\<lambda>g.
     Done \<lparr>eu_width = eg_width g, eu_height = eg_height g, eu_channels = eg_channels g,
           eu_algo = ux_algo x, eu_operand = ux_operand x\<rparr>)"

record ew_binary_executable =
  bx_geometry :: ew_geometry
  bx_op :: ew_binary_op
  bx_dimensions :: "ew_dimension list"
  bx_dense_readers :: bool
  bx_layout :: bool

definition binary_new_static :: "ew_geometry \<Rightarrow> ew_binary_op \<Rightarrow> ew_binary_executable" where
  "binary_new_static g op =
     \<lparr>bx_geometry = g, bx_op = op, bx_dimensions = [], bx_dense_readers = False, bx_layout = False\<rparr>"

definition binary_layout :: "ew_binary_executable \<Rightarrow> byte list \<Rightarrow> dispatch_layout" where
  "binary_layout x constants = trailing_layout (bx_dense_readers x) (bx_layout x) constants"

definition binary_validate_template :: "ew_binary_executable \<Rightarrow> unit template_result" where
  "binary_validate_template x = validate_elementwise_template (bx_geometry x) (bx_dimensions x)"

definition binary_resolve_shape :: "ew_binary_executable \<Rightarrow> byte list \<Rightarrow> ew_add_shape template_result" where
  "binary_resolve_shape x constants =
     obind (resolve_elementwise_geometry (bx_geometry x) (bx_dimensions x)
              (bx_dense_readers x \<or> bx_layout x) constants) (\<lambda>g.
     Done \<lparr>ea_width = eg_width g, ea_height = eg_height g, ea_channels = eg_channels g,
           ea_precision = EwFp16, ea_op = bx_op x, ea_output_zero_point = 0, ea_w_cvt_offset = 0,
           ea_w_scale_ratio = Fin 1, ea_output_scale_ratio = Fin 1\<rparr>)"

text \<open>The table of a LUT executable is not modelled; its shape carries biased zero points and scales.\<close>

datatype lut_function = Sigmoid | Tanh | ExpFn | Square | Erf | SqrtFn | Rsqrt | LogFn | Reciprocal

record lut_shape =
  lut_width :: nat
  lut_height :: nat
  lut_channels :: nat
  lut_input_zero_point :: nat
  lut_output_zero_point :: nat
  lut_input_scale :: nat
  lut_output_scale :: nat

definition SUPPORTED_LUT_ZERO_POINTS :: "int list" where
  "SUPPORTED_LUT_ZERO_POINTS = [-128, -2, 0, 127]"

record lut_executable =
  lx_geometry :: ew_geometry
  lx_function :: lut_function
  lx_input_zero_point :: int
  lx_output_zero_point :: int
  lx_input_scale :: nat
  lx_output_scale :: nat
  lx_dimensions :: "ew_dimension list"
  lx_dense_readers :: bool
  lx_layout :: bool

definition lut_layout :: "lut_executable \<Rightarrow> byte list \<Rightarrow> dispatch_layout" where
  "lut_layout x constants = trailing_layout (lx_dense_readers x) (lx_layout x) constants"

definition lut_validate_template :: "lut_executable \<Rightarrow> unit template_result" where
  "lut_validate_template x =
     obind (validate_elementwise_template (lx_geometry x) (lx_dimensions x)) (\<lambda>_.
     refuse_unless (lx_input_zero_point x \<in> set SUPPORTED_LUT_ZERO_POINTS) UnsupportedLutZeroPoint
     (refuse_unless (-128 \<le> lx_output_zero_point x \<and> lx_output_zero_point x \<le> 127) LutOutputZeroPoint
     (refuse_unless (positive_f32 (lx_input_scale x) \<and> positive_f32 (lx_output_scale x)) BadLutScale
     (Done ()))))"

text \<open>\<open>(z as u8 as u32).wrapping_add(0x80) & 0xff\<close>.\<close>

definition biased_zero_point :: "int \<Rightarrow> nat" where
  "biased_zero_point z = (nat (z mod 256) + 0x80) mod 256"

definition lut_resolve_shape :: "lut_executable \<Rightarrow> byte list \<Rightarrow> lut_shape template_result" where
  "lut_resolve_shape x constants =
     obind (resolve_elementwise_geometry (lx_geometry x) (lx_dimensions x)
              (lx_dense_readers x \<or> lx_layout x) constants) (\<lambda>g.
     Done \<lparr>lut_width = eg_width g, lut_height = eg_height g, lut_channels = eg_channels g,
           lut_input_zero_point = biased_zero_point (lx_input_zero_point x),
           lut_output_zero_point = biased_zero_point (lx_output_zero_point x),
           lut_input_scale = lx_input_scale x, lut_output_scale = lx_output_scale x\<rparr>)"

section \<open>Words\<close>

lemma constant_words_length: "length (constant_words bs) = length bs div 4"
  by (induction bs rule: constant_words.induct) simp_all

lemma from_le_bytes_less: "from_le_bytes bs < 256 ^ length bs"
proof (induction bs)
  case (Cons b bs)
  have "unat b < 256" using unsigned_less [of b] by simp
  with Cons show ?case by simp
qed simp

lemma constant_words_less: "v \<in> set (constant_words bs) \<Longrightarrow> v < 2 ^ 32"
  using from_le_bytes_less [of "[a, b, c, d]" for a b c d]
  by (induction bs rule: constant_words.induct) (auto simp del: from_le_bytes.simps)

lemma expected_bytes_Some: "count < 2 ^ 33 \<Longrightarrow> expected_bytes count trailing = Some (4 * (count + of_bool trailing))"
  by (simp add: expected_bytes_def checked_add64_def checked_mul64_def)

lemma check_byte_count_no_panic [no_panic]: "check_byte_count expected constants \<noteq> Panicked"
  by (cases expected) (simp_all add: check_byte_count_def refuse_unless_def)

lemma set_dimensions_no_panic [no_panic]: "set_dimensions assign pairs s \<noteq> Panicked"
  by (induction assign pairs s rule: set_dimensions.induct) (auto intro!: no_panic)

section \<open>The contract of a list of dimensions\<close>

text \<open>
  Every dimension has its own index below the number of dimensions, and its own place in the shape.
  A stronger contract adds that the shape is those places and a rest that no dimension touches.
\<close>

locale dimensions =
  fixes index :: "'d \<Rightarrow> nat" and every :: "'d list"
    and get :: "'d \<Rightarrow> 's \<Rightarrow> nat" and assign :: "'d \<Rightarrow> nat \<Rightarrow> 's \<Rightarrow> 's"
  assumes index_less: "index d < length every"
    and index_inj: "index d = index e \<Longrightarrow> d = e"
    and listed: "d \<in> set every"
    and few: "length every < 2 ^ 32"
    and get_assign: "v < 2 ^ 32 \<Longrightarrow> get d (assign d v s) = v"
    and get_other: "d \<noteq> e \<Longrightarrow> get e (assign d v s) = get e s"
begin

lemma flagged:
  "length seen = length every \<Longrightarrow> seen[index d := True] ! index e \<longleftrightarrow> seen ! index e \<or> e = d"
  using index_less [of d] index_inj [of d e] by (cases "e = d") (auto simp: nth_list_update)

lemma check_listed_outcome:
  assumes "length seen = length every"
  shows "check_listed index (\<lambda>d. get d s) seen ds \<noteq> Panicked"
    and "check_listed index (\<lambda>d. get d s) seen ds = Done seen' \<Longrightarrow>
      length seen' = length every \<and> distinct ds \<and> (\<forall>d. seen' ! index d \<longleftrightarrow> seen ! index d \<or> d \<in> set ds)
      \<and> (\<forall>d \<in> set ds. \<not> seen ! index d \<and> get d s = 0)"
    and "distinct ds \<Longrightarrow> \<forall>d \<in> set ds. \<not> seen ! index d \<and> get d s = 0 \<Longrightarrow>
      \<exists>seen'. check_listed index (\<lambda>d. get d s) seen ds = Done seen'"
  using assms
proof (induction ds arbitrary: seen)
  case (Cons d ds)
  {
    case 1
    then show ?case using Cons.IH(1) index_less [of d] by (simp add: ensure_def refuse_unless_def)
  next
    case 2
    then show ?case
      using Cons.IH(2) [of "seen[index d := True]"] index_less [of d] flagged [of seen d]
      by (auto simp: outcome_done)
  next
    case 3
    then show ?case
      using Cons.IH(3) [of "seen[index d := True]"] index_less [of d] flagged [of seen d] by (auto simp: outcome_done)
  }
qed auto

lemma check_unlisted_outcome:
  assumes "length seen = length every"
  shows "check_unlisted index (\<lambda>d. get d s) seen ds \<noteq> Panicked"
    and "check_unlisted index (\<lambda>d. get d s) seen ds = Done () \<longleftrightarrow> (\<forall>d \<in> set ds. seen ! index d \<or> get d s \<noteq> 0)"
  using assms index_less by (induction ds) (auto simp: outcome_done intro!: no_panic)

text \<open>A template is accepted exactly when the listed dimensions are distinct and are its zeros.\<close>

lemma check_dimensions_Done:
  "check_dimensions index (\<lambda>d. get d s) every ds = Done () \<longleftrightarrow>
     distinct ds \<and> (\<forall>d. get d s = 0 \<longleftrightarrow> d \<in> set ds)"
  (is "?check \<longleftrightarrow> ?ok")
proof
  assume ?check
  then obtain seen where seen: "check_listed index (\<lambda>d. get d s) (replicate (length every) False) ds = Done seen"
    and rest: "check_unlisted index (\<lambda>d. get d s) seen every = Done ()"
    by (auto simp: check_dimensions_def outcome_done)
  note l = check_listed_outcome(2) [OF length_replicate seen]
  then show ?ok
    using rest check_unlisted_outcome(2) [of seen] listed index_less by auto
next
  assume ok: ?ok
  then obtain seen where seen: "check_listed index (\<lambda>d. get d s) (replicate (length every) False) ds = Done seen"
    using check_listed_outcome(3) [OF length_replicate, of ds] index_less by fastforce
  note l = check_listed_outcome(2) [OF length_replicate seen]
  show ?check
    using ok l check_unlisted_outcome(2) [of seen] by (auto simp: check_dimensions_def seen)
qed

lemma accepted_length:
  assumes "check_dimensions index (\<lambda>d. get d s) every ds = Done ()"
  shows "distinct ds" "length ds < 2 ^ 32"
proof -
  show d: "distinct ds" using assms by (simp only: check_dimensions_Done)
  have "card (set ds) \<le> card (set every)" using listed by (intro card_mono) auto
  also have "\<dots> \<le> length every" by (rule card_length)
  finally show "length ds < 2 ^ 32" using few by (simp add: distinct_card [OF d])
qed

lemma check_dimensions_no_panic: "check_dimensions index (\<lambda>d. get d s) every ds \<noteq> Panicked"
  unfolding check_dimensions_def
  using check_listed_outcome(1,2) [OF length_replicate] check_unlisted_outcome(1)
  by (intro no_panic) blast+

end

text \<open>The value a dispatch gives a dimension: its constant when it is listed, the template's otherwise.\<close>

definition supplied :: "'d list \<Rightarrow> nat list \<Rightarrow> ('d \<Rightarrow> nat) \<Rightarrow> 'd \<Rightarrow> nat" where
  "supplied ds ws template d = (case map_of (zip ds ws) d of Some v \<Rightarrow> v | None \<Rightarrow> template d)"

lemma supplied_unlisted: "d \<notin> set ds \<Longrightarrow> supplied ds ws f d = f d"
  by (auto simp: supplied_def dest: map_of_SomeD set_zip_leftD split: option.split)

lemma supplied_listed:
  assumes "d \<in> set ds" "length ds \<le> length ws"
  shows "supplied ds ws f d \<in> set (take (length ds) ws)"
proof -
  have len: "length (take (length ds) ws) = length ds" using assms(2) by simp
  have z: "zip ds ws = zip ds (take (length ds) ws)" using take_zip [of "length ds" ds ws] by simp
  obtain v where "map_of (zip ds ws) d = Some v"
    unfolding z using assms(1) by (metis len map_of_zip_is_Some)
  then show ?thesis by (auto simp: supplied_def z dest!: map_of_SomeD set_zip_rightD)
qed

context dimensions
begin

lemma supplied_less:
  assumes "length ds \<le> length (constant_words bs)" "get d s < 2 ^ 32"
  shows "supplied ds (constant_words bs) (\<lambda>d. get d s) d < 2 ^ 32"
proof (cases "d \<in> set ds")
  case True
  then show ?thesis
    using constant_words_less in_set_takeD supplied_listed [OF True assms(1), of "\<lambda>d. get d s"] by metis
qed (use assms(2) in \<open>simp add: supplied_unlisted\<close>)

lemma supplied_positive:
  assumes accepted: "check_dimensions index (\<lambda>d. get d s) every ds = Done ()"
    and words: "length ds \<le> length (constant_words bs)" "0 \<notin> set (take (length ds) (constant_words bs))"
  shows "0 < supplied ds (constant_words bs) (\<lambda>d. get d s) d"
proof (cases "d \<in> set ds")
  case True
  then have "supplied ds (constant_words bs) (\<lambda>d. get d s) d \<noteq> 0"
    using supplied_listed [OF True words(1), of "\<lambda>d. get d s"] words(2) by metis
  then show ?thesis by simp
next
  case False
  then have "get d s \<noteq> 0" using accepted unfolding check_dimensions_Done by blast
  then show ?thesis using False by (simp add: supplied_unlisted)
qed

end

locale framed_dimensions = dimensions +
  fixes frame :: "'b \<Rightarrow> 'f" and ok :: "'b \<Rightarrow> bool"
  assumes frame_assign: "frame (assign d v s) = frame s"
    and ok_assign: "ok s \<Longrightarrow> v < 2 ^ 32 \<Longrightarrow> ok (assign d v s)"
    and same: "ok s \<Longrightarrow> ok t \<Longrightarrow> frame s = frame t \<Longrightarrow> (\<And>d. get d s = get d t) \<Longrightarrow> s = t"
begin

lemma set_dimensions_outcome:
  assumes "length ws = length ds" "distinct ds" "\<forall>v \<in> set ws. v < 2 ^ 32" "ok s"
  shows "if 0 \<in> set ws then set_dimensions assign (zip ds ws) s = Refused ZeroRuntimeDimension
    else \<exists>t. set_dimensions assign (zip ds ws) s = Done t \<and> ok t \<and> frame t = frame s
      \<and> (\<forall>d. get d t = supplied ds ws (\<lambda>d. get d s) d)"
  using assms
proof (induction ds ws arbitrary: s rule: list_induct2')
  case (4 d ds v ws)
  have fresh: "map_of (zip ds ws) d = None" using 4 by (simp add: map_of_zip_is_None)
  show ?case
  proof (cases "v = 0")
    case False
    have "get e (assign d v s) = (if e = d then v else get e s)" for e
      using 4 get_assign get_other [of d e] by simp
    moreover note 4(1) [of "assign d v s"]
    ultimately show ?thesis
      using 4 False fresh by (auto simp: frame_assign ok_assign supplied_def split: option.splits if_splits)
  qed simp
qed (auto simp: supplied_def)

lemma set_dimensions_is:
  assumes "length ws = length ds" "distinct ds" "\<forall>v \<in> set ws. v < 2 ^ 32" "0 \<notin> set ws" "ok s"
    and t: "ok t" "frame t = frame s" "\<And>d. get d t = supplied ds ws (\<lambda>d. get d s) d"
  shows "set_dimensions assign (zip ds ws) s = Done t"
proof -
  obtain t' where "set_dimensions assign (zip ds ws) s = Done t'" "ok t'" "frame t' = frame s"
    "\<forall>d. get d t' = supplied ds ws (\<lambda>d. get d s) d"
    using set_dimensions_outcome [OF assms(1-3,5)] assms(4) by auto
  then show ?thesis using same [of t' t] t by auto
qed

lemma set_dimensions_prefix:
  assumes "length ds \<le> length ws" "distinct ds" "\<forall>v \<in> set ws. v < 2 ^ 32" "ok s"
    and t: "ok t" "frame t = frame s" "\<And>d. get d t = supplied ds ws (\<lambda>d. get d s) d"
  shows "set_dimensions assign (zip ds ws) s =
    (if 0 \<in> set (take (length ds) ws) then Refused ZeroRuntimeDimension else Done t)"
proof -
  let ?ws = "take (length ds) ws"
  have len: "length ?ws = length ds" using assms(1) by simp
  have small: "\<forall>v \<in> set ?ws. v < 2 ^ 32" using assms(3) by (auto dest: in_set_takeD)
  have z: "zip ds ?ws = zip ds ws" using take_zip [of "length ds" ds ws] by simp
  have sup: "supplied ds ?ws f = supplied ds ws f" for f by (simp add: supplied_def fun_eq_iff z)
  show ?thesis
    using set_dimensions_outcome [OF len assms(2) small assms(4)]
      set_dimensions_is [OF len assms(2) small _ assms(4) t(1,2)]
    by (auto simp: z sup t(3))
qed

text \<open>A dispatch of an accepted template, up to what the kind does with the resolved shape.\<close>

lemma dispatch:
  assumes accepted: "check_dimensions index (\<lambda>d. get d s) every ds = Done ()" and s: "ok s"
    and t: "ok t" "frame t = frame s" "\<And>d. get d t = supplied ds (constant_words constants) (\<lambda>d. get d s) d"
  shows "obind (check_byte_count (expected_bytes (length ds) trailing) constants) (\<lambda>_.
      obind (set_dimensions assign (zip ds (constant_words constants)) s) k) =
    (if length constants \<noteq> 4 * (length ds + of_bool trailing) then Refused ByteCountMismatch
     else if 0 \<in> set (take (length ds) (constant_words constants)) then Refused ZeroRuntimeDimension
     else k t)"
proof -
  let ?ws = "constant_words constants" and ?n = "length ds"
  note d = accepted_length [OF accepted]
  have bytes: "expected_bytes ?n trailing = Some (4 * (?n + of_bool trailing))"
    using d(2) by (intro expected_bytes_Some) simp
  show ?thesis
  proof (cases "length constants = 4 * (?n + of_bool trailing)")
    case True
    then have len: "?n \<le> length ?ws" by (simp add: constant_words_length)
    show ?thesis
      using set_dimensions_prefix [OF len d(1) _ s t] constant_words_less
      by (simp add: check_byte_count_def bytes True)
  qed (simp add: check_byte_count_def bytes)
qed

end

interpretation ew: framed_dimensions ew_index ALL_ELEMENTWISE_DIMENSIONS ew_get ew_set "\<lambda>_. ()" "\<lambda>_. True"
proof
  show "ew_index d = ew_index e \<Longrightarrow> d = e" for d e by (cases d; cases e) simp_all
  show "d \<noteq> e \<Longrightarrow> ew_get e (ew_set d v s) = ew_get e s" for d e v and s :: ew_geometry
    by (cases d; cases e) simp_all
  show "(\<And>d. ew_get d s = ew_get d t) \<Longrightarrow> s = t" for s t :: ew_geometry
    by (rule ew_geometry.equality) (metis ew_get.simps unit_eq)+
  show "ew_index d < length ALL_ELEMENTWISE_DIMENSIONS" "d \<in> set ALL_ELEMENTWISE_DIMENSIONS" for d
    by (cases d; simp add: ALL_ELEMENTWISE_DIMENSIONS_def)+
  show "length ALL_ELEMENTWISE_DIMENSIONS < 2 ^ 32" by (simp add: ALL_ELEMENTWISE_DIMENSIONS_def)
  show "ew_get d (ew_set d v s) = v" for d v and s :: ew_geometry by (cases d) simp_all
qed simp_all

end
