(* ===== verification/PoolingTemplates.thy ===== *)
theory PoolingTemplates
  imports DispatchTemplates PoolingPlan
begin

text \<open>
  Pooling executables (\<open>executable.rs\<close>): as the other kinds, but the output extents are derived from
  the resolved input, kernel, stride and padding, and a template that states them is checked.
\<close>

section \<open>Dimensions\<close>

datatype pooling_dimension = PoolWidth | PoolHeight | PoolChannels | KernelWidth | KernelHeight | StrideX | StrideY

fun pooling_index :: "pooling_dimension \<Rightarrow> nat" where
  "pooling_index PoolWidth = 0"
| "pooling_index PoolHeight = 1"
| "pooling_index PoolChannels = 2"
| "pooling_index KernelWidth = 3"
| "pooling_index KernelHeight = 4"
| "pooling_index StrideX = 5"
| "pooling_index StrideY = 6"

fun pooling_get :: "pooling_dimension \<Rightarrow> pooling_shape \<Rightarrow> nat" where
  "pooling_get PoolWidth s = input_width s"
| "pooling_get PoolHeight s = input_height s"
| "pooling_get PoolChannels s = input_channels s"
| "pooling_get KernelWidth s = kernel_width s"
| "pooling_get KernelHeight s = kernel_height s"
| "pooling_get StrideX s = stride_x s"
| "pooling_get StrideY s = stride_y s"

fun pooling_set :: "pooling_dimension \<Rightarrow> nat \<Rightarrow> pooling_shape \<Rightarrow> pooling_shape" where
  "pooling_set PoolWidth v s = s\<lparr>input_width := v\<rparr>"
| "pooling_set PoolHeight v s = s\<lparr>input_height := v\<rparr>"
| "pooling_set PoolChannels v s = s\<lparr>input_channels := v, output_channels := v\<rparr>"
| "pooling_set KernelWidth v s = s\<lparr>kernel_width := v\<rparr>"
| "pooling_set KernelHeight v s = s\<lparr>kernel_height := v\<rparr>"
| "pooling_set StrideX v s = s\<lparr>stride_x := v\<rparr>"
| "pooling_set StrideY v s = s\<lparr>stride_y := v\<rparr>"

definition all_pooling_dimensions :: "pooling_dimension list" where
  "all_pooling_dimensions = [PoolWidth, PoolHeight, PoolChannels, KernelWidth, KernelHeight, StrideX, StrideY]"

section \<open>Executables\<close>

record pooling_executable =
  px_shape :: pooling_shape
  px_dimensions :: "pooling_dimension list"
  px_dense_readers :: bool
  px_layout :: bool

definition pooling_new_static :: "pooling_shape \<Rightarrow> pooling_executable" where
  "pooling_new_static s = \<lparr>px_shape = s, px_dimensions = [], px_dense_readers = False, px_layout = False\<rparr>"

definition pooling_layout :: "pooling_executable \<Rightarrow> byte list \<Rightarrow> dispatch_layout" where
  "pooling_layout x constants = trailing_layout (px_dense_readers x) (px_layout x) constants"

definition floor_output_extent :: "nat \<Rightarrow> nat \<Rightarrow> nat \<Rightarrow> nat \<Rightarrow> nat \<Rightarrow> nat template_result" where
  "floor_output_extent input k st before after =
     refuse_unless (k \<noteq> 0 \<and> st \<noteq> 0) ZeroKernelOrStride
     (obind (ok_or (Option.bind (checked_add32 input before) (\<lambda>v. checked_add32 v after)) PaddedExtentOverflow) (\<lambda>padded.
      refuse_unless (k \<le> padded) KernelExceedsInput (Done (wrap32 ((padded - k) div st + 1)))))"

text \<open>\<open>catch_unwind(|| shape.validate())\<close>.\<close>

definition validate_caught :: "pooling_shape \<Rightarrow> unit template_result" where
  "validate_caught s = (case validate s of Done u \<Rightarrow> Done u | _ \<Rightarrow> Refused UnprogrammablePooling)"

definition pooling_resolve_shape :: "pooling_executable \<Rightarrow> byte list \<Rightarrow> pooling_shape template_result" where
  "pooling_resolve_shape x constants =
     obind (check_byte_count (expected_bytes (length (px_dimensions x)) (px_dense_readers x \<or> px_layout x)) constants) (\<lambda>_.
     let declared = (output_width (px_shape x), output_height (px_shape x)) in
     obind (set_dimensions pooling_set (zip (px_dimensions x) (constant_words constants)) (px_shape x)) (\<lambda>s.
     obind (floor_output_extent (input_width s) (kernel_width s) (stride_x s) (pad_left s) (pad_right s)) (\<lambda>ow.
     obind (floor_output_extent (input_height s) (kernel_height s) (stride_y s) (pad_top s) (pad_bottom s)) (\<lambda>oh.
     let s = s\<lparr>output_width := ow, output_height := oh\<rparr> in
     refuse_unless (px_dimensions x \<noteq> [] \<or> declared = (0, 0) \<or> declared = (ow, oh)) OutputExtentsDisagree
     (obind (validate_caught s) (\<lambda>_. Done s))))))"

definition pooling_validate_template :: "pooling_executable \<Rightarrow> unit template_result" where
  "pooling_validate_template x =
     obind (check_dimensions pooling_index (\<lambda>d. pooling_get d (px_shape x)) all_pooling_dimensions
              (px_dimensions x)) (\<lambda>_.
     if px_dimensions x = [] then obind (pooling_resolve_shape x []) (\<lambda>_. Done ()) else Done ())"

section \<open>The contract of the dimensions\<close>

text \<open>A shape without what the dimensions set; the wire's one channel count is both counts of the shape.\<close>

definition pooling_frame :: "pooling_shape \<Rightarrow> pooling_shape" where
  "pooling_frame s = s\<lparr>input_width := 0, input_height := 0, input_channels := 0, output_channels := 0,
     kernel_width := 0, kernel_height := 0, stride_x := 0, stride_y := 0\<rparr>"

interpretation pooling: framed_dimensions pooling_index all_pooling_dimensions pooling_get pooling_set
  pooling_frame "\<lambda>s. input_channels s = output_channels s"
proof
  show "pooling_index d = pooling_index e \<Longrightarrow> d = e" for d e by (cases d; cases e) simp_all
  show "pooling_index d < length all_pooling_dimensions" "d \<in> set all_pooling_dimensions" for d
    by (cases d; simp add: all_pooling_dimensions_def)+
  show "length all_pooling_dimensions < 2 ^ 32" by (simp add: all_pooling_dimensions_def)
  show "d \<noteq> e \<Longrightarrow> pooling_get e (pooling_set d v s) = pooling_get e s" for d e v and s :: pooling_shape
    by (cases d; cases e) simp_all
  show "pooling_get d (pooling_set d v s) = v" for d v and s :: pooling_shape by (cases d) simp_all
  show "pooling_frame (pooling_set d v s) = pooling_frame s" for d v s
    by (cases d) (simp_all add: pooling_frame_def)
  show "input_channels s = output_channels s \<Longrightarrow>
      input_channels (pooling_set d v s) = output_channels (pooling_set d v s)" for d v and s :: pooling_shape
    by (cases d) simp_all
  show "s = t" if "input_channels s = output_channels s" "input_channels t = output_channels t"
    "pooling_frame s = pooling_frame t" "\<And>d. pooling_get d s = pooling_get d t" for s t :: pooling_shape
    using that(1-3) that(4) [of PoolWidth] that(4) [of PoolHeight] that(4) [of PoolChannels]
      that(4) [of KernelWidth] that(4) [of KernelHeight] that(4) [of StrideX] that(4) [of StrideY]
    by (cases s; cases t) (simp add: pooling_frame_def)
qed

end
