(* ===== verification/TemplateProperties.thy ===== *)
theory TemplateProperties
  imports ElementwiseProperties PoolingTemplates PoolingProperties
begin

text \<open>
  What the resolution of a dispatch gives, kind by kind: the template with exactly the listed
  dimensions replaced, and a shape the planner or the builder accepts.
\<close>

lemma obind_Done_right [simp]: "obind m Done = m"
  by (cases m) simp_all

section \<open>Element-wise dispatches\<close>

text \<open>
  A dispatch of an accepted element-wise template: the constants are exactly one word per listed
  dimension and one for the layout when declared, no listed dimension may be zero, and the resolved
  geometry is the template with each listed dimension replaced by its own word.
\<close>

lemma elementwise_geometry:
  assumes "validate_elementwise_template g ds = Done ()"
  shows "resolve_elementwise_geometry g ds trailing constants =
    (let v = supplied ds (constant_words constants) (\<lambda>d. ew_get d g) in
     if length constants \<noteq> 4 * (length ds + of_bool trailing) then Refused ByteCountMismatch
     else if 0 \<in> set (take (length ds) (constant_words constants)) then Refused ZeroRuntimeDimension
     else Done \<lparr>eg_width = v EwWidth, eg_height = v EwHeight, eg_channels = v EwChannels\<rparr>)"
proof -
  let ?v = "supplied ds (constant_words constants) (\<lambda>d. ew_get d g)"
  let ?t = "\<lparr>eg_width = ?v EwWidth, eg_height = ?v EwHeight, eg_channels = ?v EwChannels\<rparr>"
  have "ew_get d ?t = ?v d" for d by (cases d) simp_all
  from ew.dispatch [OF assms [unfolded validate_elementwise_template_def] _ _ _ this, of trailing Done]
  show ?thesis by (simp only: resolve_elementwise_geometry_def Let_def obind_Done_right unit_eq)
qed

section \<open>Pooling dispatches\<close>

definition resolved_pooling :: "pooling_executable \<Rightarrow> nat list \<Rightarrow> pooling_shape" where
  "resolved_pooling x ws =
     (let v = supplied (px_dimensions x) ws (\<lambda>d. pooling_get d (px_shape x)) in
      (px_shape x)\<lparr>input_width := v PoolWidth, input_height := v PoolHeight, input_channels := v PoolChannels,
        output_channels := v PoolChannels, kernel_width := v KernelWidth, kernel_height := v KernelHeight,
        stride_x := v StrideX, stride_y := v StrideY\<rparr>)"

lemma resolved_pooling_dimensions:
  "pooling_get d (resolved_pooling x ws) = supplied (px_dimensions x) ws (\<lambda>d. pooling_get d (px_shape x)) d"
  "pooling_frame (resolved_pooling x ws) = pooling_frame (px_shape x)"
  "input_channels (resolved_pooling x ws) = output_channels (resolved_pooling x ws)"
  by (cases d; simp add: resolved_pooling_def Let_def)
     (simp_all add: resolved_pooling_def pooling_frame_def Let_def)

lemma floor_extent_agrees:
  assumes "k \<noteq> 0" "st \<noteq> 0"
  shows "floor_output_extent input k st before after = Done n \<longleftrightarrow> output_extent input k st before after = Done n"
  using assms
  by (auto simp: floor_output_extent_def output_extent_def udiv_def outcome_done split: option.splits)

lemma floor_extent_no_panic: "floor_output_extent input k st before after \<noteq> Panicked"
  unfolding floor_output_extent_def by (intro no_panic)

text \<open>Validation pins the extents that resolution derives.\<close>

lemma validate_pins_extents:
  assumes "validate s = Done ()"
  shows "floor_output_extent (input_width s) (kernel_width s) (stride_x s) (pad_left s) (pad_right s) = Done (output_width s)"
    "floor_output_extent (input_height s) (kernel_height s) (stride_y s) (pad_top s) (pad_bottom s) = Done (output_height s)"
proof -
  have v: "output_extent (input_width s) (kernel_width s) (stride_x s) (pad_left s) (pad_right s) = Done (output_width s)"
    "output_extent (input_height s) (kernel_height s) (stride_y s) (pad_top s) (pad_bottom s) = Done (output_height s)"
    "kernel_width s \<noteq> 0" "kernel_height s \<noteq> 0" "stride_x s \<noteq> 0" "stride_y s \<noteq> 0"
    using assms by (auto simp: validate_def validate_pooling_geometry_def outcome_done)
  show "floor_output_extent (input_width s) (kernel_width s) (stride_x s) (pad_left s) (pad_right s) = Done (output_width s)"
    using v(1) by (simp only: floor_extent_agrees [OF v(3,5)])
  show "floor_output_extent (input_height s) (kernel_height s) (stride_y s) (pad_top s) (pad_bottom s) = Done (output_height s)"
    using v(2) by (simp only: floor_extent_agrees [OF v(4,6)])
qed

lemma resolved_pooling_frame:
  "pad_left (resolved_pooling x ws) = pad_left (px_shape x)" "pad_right (resolved_pooling x ws) = pad_right (px_shape x)"
  "pad_top (resolved_pooling x ws) = pad_top (px_shape x)" "pad_bottom (resolved_pooling x ws) = pad_bottom (px_shape x)"
  by (simp_all add: resolved_pooling_def Let_def)

lemma pooling_resolution:
  assumes accepted: "check_dimensions pooling_index (\<lambda>d. pooling_get d (px_shape x)) all_pooling_dimensions
      (px_dimensions x) = Done ()"
    and channels: "input_channels (px_shape x) = output_channels (px_shape x)"
  shows "pooling_resolve_shape x constants \<noteq> Panicked
    \<and> (\<forall>s. pooling_resolve_shape x constants = Done s \<longleftrightarrow>
      length constants = 4 * (length (px_dimensions x) + of_bool (px_dense_readers x \<or> px_layout x))
      \<and> 0 \<notin> set (take (length (px_dimensions x)) (constant_words constants))
      \<and> s = (resolved_pooling x (constant_words constants))
              \<lparr>output_width := output_width s, output_height := output_height s\<rparr>
      \<and> validate s = Done ()
      \<and> (px_dimensions x = [] \<longrightarrow>
           (output_width (px_shape x), output_height (px_shape x)) \<in> {(0, 0), (output_width s, output_height s)}))"
proof -
  let ?r = "resolved_pooling x (constant_words constants)"
  let ?w = "floor_output_extent (input_width ?r) (kernel_width ?r) (stride_x ?r) (pad_left ?r) (pad_right ?r)"
  let ?h = "floor_output_extent (input_height ?r) (kernel_height ?r) (stride_y ?r) (pad_top ?r) (pad_bottom ?r)"
  let ?s = "\<lambda>ow oh. ?r\<lparr>output_width := ow, output_height := oh\<rparr>"
  let ?agree = "\<lambda>ow oh. px_dimensions x \<noteq> [] \<or> (output_width (px_shape x), output_height (px_shape x)) = (0, 0)
    \<or> (output_width (px_shape x), output_height (px_shape x)) = (ow, oh)"
  let ?k = "\<lambda>s. obind (floor_output_extent (input_width s) (kernel_width s) (stride_x s) (pad_left s) (pad_right s)) (\<lambda>ow.
     obind (floor_output_extent (input_height s) (kernel_height s) (stride_y s) (pad_top s) (pad_bottom s)) (\<lambda>oh.
     let s = s\<lparr>output_width := ow, output_height := oh\<rparr> in
     refuse_unless (px_dimensions x \<noteq> [] \<or> (output_width (px_shape x), output_height (px_shape x)) = (0, 0)
        \<or> (output_width (px_shape x), output_height (px_shape x)) = (ow, oh)) OutputExtentsDisagree
     (obind (validate_caught s) (\<lambda>_. Done s))))"
  let ?bytes = "length constants = 4 * (length (px_dimensions x) + of_bool (px_dense_readers x \<or> px_layout x))"
  let ?zero = "0 \<in> set (take (length (px_dimensions x)) (constant_words constants))"
  have eq: "pooling_resolve_shape x constants =
      (if \<not> ?bytes then Refused ByteCountMismatch else if ?zero then Refused ZeroRuntimeDimension else ?k ?r)"
    unfolding pooling_resolve_shape_def Let_def
    by (rule pooling.dispatch [OF accepted channels resolved_pooling_dimensions(3,2,1), unfolded Let_def])
  have caught: "validate_caught s = Done u \<longleftrightarrow> validate s = Done ()" "validate_caught s \<noteq> Panicked" for s u
    by (simp_all add: validate_caught_def split: outcome.split)
  have no: "?k ?r \<noteq> Panicked"
    unfolding Let_def by (intro no_panic floor_extent_no_panic caught(2))
  have built: "?k ?r = Done s \<longleftrightarrow> s = ?s (output_width s) (output_height s) \<and> validate s = Done ()
      \<and> ?agree (output_width s) (output_height s)" for s
  proof
    assume "?k ?r = Done s"
    then show "s = ?s (output_width s) (output_height s) \<and> validate s = Done ()
      \<and> ?agree (output_width s) (output_height s)"
      by (auto simp: Let_def outcome_done caught(1))
  next
    assume a: "s = ?s (output_width s) (output_height s) \<and> validate s = Done ()
      \<and> ?agree (output_width s) (output_height s)"
    define ow oh where "ow = output_width s" and "oh = output_height s"
    have s: "s = ?s ow oh" using a by (simp add: ow_def oh_def)
    have "?w = Done ow" "?h = Done oh" using validate_pins_extents [of s] a unfolding s by simp_all
    then show "?k ?r = Done s" using a unfolding Let_def by (simp add: validate_caught_def s)
  qed
  show ?thesis using no built unfolding eq by auto
qed

text \<open>
  C15. A dispatch of an accepted pooling template never panics and resolves exactly to the shapes that
  are the template with the listed dimensions replaced, whose output extents are those validation
  derives, and, for a static template, those it declared unless it declared none.
\<close>

theorem pooling_dispatches_resolve:
  assumes accepted: "check_dimensions pooling_index (\<lambda>d. pooling_get d (px_shape x)) all_pooling_dimensions
      (px_dimensions x) = Done ()"
    and channels: "input_channels (px_shape x) = output_channels (px_shape x)"
  shows "pooling_resolve_shape x constants \<noteq> Panicked
    \<and> (\<forall>s. pooling_resolve_shape x constants = Done s \<longleftrightarrow>
      length constants = 4 * (length (px_dimensions x) + of_bool (px_dense_readers x \<or> px_layout x))
      \<and> 0 \<notin> set (take (length (px_dimensions x)) (constant_words constants))
      \<and> s = (resolved_pooling x (constant_words constants))
              \<lparr>output_width := output_width s, output_height := output_height s\<rparr>
      \<and> validate s = Done ()
      \<and> (px_dimensions x = [] \<longrightarrow>
           (output_width (px_shape x), output_height (px_shape x)) \<in> {(0, 0), (output_width s, output_height s)}))"
  by (rule pooling_resolution [OF assms])

theorem pooling_dispatches_resolve_witness:
  "pooling_resolve_shape
     \<lparr>px_shape = wide_pool\<lparr>input_width := 0, output_width := 0\<rparr>, px_dimensions = [PoolWidth],
      px_dense_readers = False, px_layout = True\<rparr> [0, 1, 0, 0, 3, 0, 1, 0] = Done wide_pool"
proof -
  let ?x = "\<lparr>px_shape = wide_pool\<lparr>input_width := 0, output_width := 0\<rparr>, px_dimensions = [PoolWidth],
      px_dense_readers = False, px_layout = True\<rparr>"
  have "check_dimensions pooling_index (\<lambda>d. pooling_get d (px_shape ?x)) all_pooling_dimensions (px_dimensions ?x) = Done ()"
    by (simp add: check_dimensions_def all_pooling_dimensions_def wide_pool_def)
  moreover have "resolved_pooling ?x (constant_words [0, 1, 0, 0, 3, 0, 1, 0]) = wide_pool\<lparr>output_width := 0\<rparr>"
    by (simp add: resolved_pooling_def supplied_def wide_pool_def Let_def)
  moreover have "wide_pool = (wide_pool\<lparr>output_width := 0\<rparr>)\<lparr>output_width := output_width wide_pool, output_height := output_height wide_pool\<rparr>"
    by (simp add: wide_pool_def)
  moreover have "input_channels (px_shape ?x) = output_channels (px_shape ?x)" by (simp add: wide_pool_def)
  ultimately show ?thesis
    using pooling_dispatches_resolve [of ?x "[0, 1, 0, 0, 3, 0, 1, 0]"] wide_pool_validates
    by (auto simp del: pooling_shape.update_convs)
qed

lemma resolved_geometry:
  assumes v: "validate_elementwise_template g ds = Done ()"
    and r: "resolve_elementwise_geometry g ds trailing constants = Done t"
  shows "0 < ew_get d t" and "ew_get d g < 2 ^ 32 \<Longrightarrow> ew_get d t < 2 ^ 32"
proof -
  let ?ws = "constant_words constants"
  note eq = elementwise_geometry [OF v, of trailing constants]
  have words: "0 \<notin> set (take (length ds) ?ws)" "length ds \<le> length ?ws"
    using r unfolding eq by (auto simp: Let_def constant_words_length split: if_splits)
  have got: "ew_get d t = supplied ds ?ws (\<lambda>d. ew_get d g) d"
    using r unfolding eq by (cases d) (auto simp: Let_def split: if_splits)
  show "0 < ew_get d t"
    unfolding got using ew.supplied_positive [OF v [unfolded validate_elementwise_template_def] words(2,1)] .
  show "ew_get d g < 2 ^ 32 \<Longrightarrow> ew_get d t < 2 ^ 32"
    unfolding got using ew.supplied_less [OF words(2)] .
qed

section \<open>From a dispatch to its task\<close>

text \<open>
  C19. An accepted single-tensor executable of 32-bit fields, dispatched with constants that resolve:
  the task is built, and reads back as the resolved shape, exactly when no extent exceeds 8192.
  Otherwise the builder panics: nothing before it looks at the limits of the registers.
\<close>

theorem unary_dispatches_run_or_panic:
  assumes accepted: "unary_validate_template x = Done ()"
    and fields: "eg_width (ux_geometry x) < 2 ^ 32" "eg_height (ux_geometry x) < 2 ^ 32"
      "eg_channels (ux_geometry x) < 2 ^ 32" "ux_operand x < 2 ^ 32"
    and addr: "eu_input_addr b < 2 ^ 32" "eu_output_addr b < 2 ^ 32"
    and resolved: "unary_resolve_shape x constants = Done s"
  shows "0 < eu_width s \<and> 0 < eu_height s \<and> 0 < eu_channels s
    \<and> (if eu_width s \<le> 8192 \<and> eu_height s \<le> 8192 \<and> eu_channels s \<le> 8192
       then \<exists>program. build_unary_regcmd s b = Done program \<and> read_ew program = task_of_unary s b
       else build_unary_regcmd s b = Panicked)"
proof -
  have v: "validate_elementwise_template (ux_geometry x) (ux_dimensions x) = Done ()"
    and op: "ux_operand x = 0 \<or> ux_algo x = UnaryAdd"
    using accepted by (auto simp: unary_validate_template_def outcome_done)
  obtain g where g: "resolve_elementwise_geometry (ux_geometry x) (ux_dimensions x)
      (ux_dense_readers x \<or> ux_layout x) constants = Done g"
    and s: "s = \<lparr>eu_width = eg_width g, eu_height = eg_height g, eu_channels = eg_channels g,
      eu_algo = ux_algo x, eu_operand = ux_operand x\<rparr>"
    using resolved by (auto simp: unary_resolve_shape_def outcome_done)
  have range: "0 < ew_get d g \<and> ew_get d g < 2 ^ 32" for d
    using resolved_geometry [OF v g, of d] fields(1-3) by (cases d) simp_all
  show ?thesis
    using range [of EwWidth] range [of EwHeight] range [of EwChannels] op
      unary_tasks [OF addr, of s] fields(4)
    by (auto simp: s ew_fits_def)
qed

definition unary_sample :: "nat \<Rightarrow> ew_unary_executable" where
  "unary_sample w = \<lparr>ux_geometry = \<lparr>eg_width = w, eg_height = 3, eg_channels = 0\<rparr>, ux_algo = UnaryNeg,
     ux_operand = 0, ux_dimensions = [EwChannels], ux_dense_readers = False, ux_layout = False\<rparr>"

theorem unary_dispatches_run_or_panic_witness:
  "unary_validate_template (unary_sample 8193) = Done ()
   \<and> (\<exists>s. unary_resolve_shape (unary_sample 8193) [16, 0, 0, 0] = Done s
        \<and> build_unary_regcmd s \<lparr>eu_input_addr = 0x1000, eu_output_addr = 0x2000\<rparr> = Panicked)
   \<and> (\<exists>s program. unary_resolve_shape (unary_sample 8192) [16, 0, 0, 0] = Done s
        \<and> build_unary_regcmd s \<lparr>eu_input_addr = 0x1000, eu_output_addr = 0x2000\<rparr> = Done program)"
proof -
  have v: "unary_validate_template (unary_sample 8193) = Done ()" "unary_validate_template (unary_sample 8192) = Done ()"
    by (simp_all add: unary_sample_def unary_validate_template_def validate_elementwise_template_def
        check_dimensions_def ALL_ELEMENTWISE_DIMENSIONS_def)
  have r: "unary_resolve_shape (unary_sample w) [16, 0, 0, 0] =
      Done \<lparr>eu_width = w, eu_height = 3, eu_channels = 16, eu_algo = UnaryNeg, eu_operand = 0\<rparr>" for w
    by (simp add: unary_sample_def unary_resolve_shape_def resolve_elementwise_geometry_def
        check_byte_count_def expected_bytes_Some)
  show ?thesis
    using unary_dispatches_run_or_panic [OF v(1) _ _ _ _ _ _ r, of "\<lparr>eu_input_addr = 0x1000, eu_output_addr = 0x2000\<rparr>"]
      unary_dispatches_run_or_panic [OF v(2) _ _ _ _ _ _ r, of "\<lparr>eu_input_addr = 0x1000, eu_output_addr = 0x2000\<rparr>"]
      v(1) r
    by (auto simp: unary_sample_def)
qed

end
