(* ===== verification/ConvTemplates.thy ===== *)
theory ConvTemplates
  imports DispatchTemplates ExecutableFormat FullyConnected
begin

text \<open>
  Convolution and matrix-product executables (\<open>executable.rs\<close>): their templates, and how a dispatch's
  push constants resolve them. The quantization parameters a dispatch supplies follow its dimensions.
  A multiplier search that does not return is \<open>None\<close>.
\<close>

section \<open>The dimensions of a convolution\<close>

datatype conv_dimension = InputWidth | InputHeight | InputChannels | OutputChannels | WeightsWidth | WeightsHeight

fun conv_index :: "conv_dimension \<Rightarrow> nat" where
  "conv_index InputWidth = 0"
| "conv_index InputHeight = 1"
| "conv_index InputChannels = 2"
| "conv_index OutputChannels = 3"
| "conv_index WeightsWidth = 4"
| "conv_index WeightsHeight = 5"

text \<open>The kernels are \<open>usize\<close>, read back \<open>as u32\<close>.\<close>

fun conv_get :: "conv_dimension \<Rightarrow> shape \<times> kernels \<Rightarrow> nat" where
  "conv_get InputWidth (s, ks) = width s"
| "conv_get InputHeight (s, ks) = height s"
| "conv_get InputChannels (s, ks) = in_channels s"
| "conv_get OutputChannels (s, ks) = out_channels s"
| "conv_get WeightsWidth (s, ks) = wrap32 (snd ks)"
| "conv_get WeightsHeight (s, ks) = wrap32 (fst ks)"

fun conv_set :: "conv_dimension \<Rightarrow> nat \<Rightarrow> shape \<times> kernels \<Rightarrow> shape \<times> kernels" where
  "conv_set InputWidth v (s, ks) = (s\<lparr>width := v\<rparr>, ks)"
| "conv_set InputHeight v (s, ks) = (s\<lparr>height := v\<rparr>, ks)"
| "conv_set InputChannels v (s, ks) = (s\<lparr>in_channels := v\<rparr>, ks)"
| "conv_set OutputChannels v (s, ks) = (s\<lparr>out_channels := v\<rparr>, ks)"
| "conv_set WeightsWidth v (s, ks) = (s, (fst ks, v))"
| "conv_set WeightsHeight v (s, ks) = (s, (v, snd ks))"

definition all_conv_dimensions :: "conv_dimension list" where
  "all_conv_dimensions = [InputWidth, InputHeight, InputChannels, OutputChannels, WeightsWidth, WeightsHeight]"

section \<open>Its quantization parameters\<close>

datatype quant_param = OutputScale | InputZeroPoint | OutputZeroPoint

fun quant_index :: "quant_param \<Rightarrow> nat" where
  "quant_index OutputScale = 0"
| "quant_index InputZeroPoint = 1"
| "quant_index OutputZeroPoint = 2"

fun is_unset :: "quant_param \<Rightarrow> quantization \<Rightarrow> bool" where
  "is_unset OutputScale q = True"
| "is_unset InputZeroPoint q = (input_zero_point q = 0)"
| "is_unset OutputZeroPoint q = (output_zero_point q = 0)"

fun check_quantization :: "precision \<Rightarrow> bool list \<Rightarrow> quant_param list \<Rightarrow> unit template_result" where
  "check_quantization p seen [] = Done ()"
| "check_quantization p seen (x # xs) =
     ensure (quant_index x < length seen)
     (refuse_unless (\<not> seen ! quant_index x) DuplicateQuantization
     (case p of
        Int8 q \<Rightarrow> refuse_unless (is_unset x q) NonzeroRuntimeQuantization
                    (check_quantization p (seen[quant_index x := True]) xs)
      | _ \<Rightarrow> Refused QuantizationNeedsInt8))"

section \<open>Convolution executables\<close>

record conv_executable =
  cx_shape :: shape
  cx_kernels :: kernels
  cx_dimensions :: "conv_dimension list"
  cx_quantization :: "quant_param list"
  cx_epilogue_add :: bool
  cx_epilogue_activation :: activation
  cx_dense_readers :: bool
  cx_layout :: bool
  cx_weights_packed :: bool

definition conv_new_static :: "shape \<Rightarrow> kernels \<Rightarrow> conv_executable" where
  "conv_new_static s ks =
     \<lparr>cx_shape = s, cx_kernels = ks, cx_dimensions = [], cx_quantization = [], cx_epilogue_add = False,
      cx_epilogue_activation = NoActivation, cx_dense_readers = False, cx_layout = False,
      cx_weights_packed = False\<rparr>"

definition conv_validate_template :: "planning_policy \<Rightarrow> conv_executable \<Rightarrow> unit template_result" where
  "conv_validate_template pol x =
     obind (check_dimensions conv_index (\<lambda>d. conv_get d (cx_shape x, cx_kernels x)) all_conv_dimensions
              (cx_dimensions x)) (\<lambda>_.
     obind (check_quantization (precision (cx_shape x)) (replicate 3 False) (cx_quantization x)) (\<lambda>_.
     if cx_dimensions x = [] \<and> cx_quantization x = []
     then map_refused PlanRefused (validate_conv_shape pol (cx_shape x) (cx_kernels x))
     else Done ()))"

definition conv_expected_bytes :: "conv_executable \<Rightarrow> nat option" where
  "conv_expected_bytes x =
     Option.bind (checked_add64 (length (cx_dimensions x)) (length (cx_quantization x)))
       (\<lambda>count. expected_bytes count (cx_dense_readers x \<or> cx_layout x))"

text \<open>The two loops that take one word of the constants each.\<close>

fun take_dimensions :: "conv_dimension list \<Rightarrow> nat list \<Rightarrow> shape \<times> kernels \<Rightarrow> ((shape \<times> kernels) \<times> nat list) template_result" where
  "take_dimensions [] ws c = Done (c, ws)"
| "take_dimensions (d # ds) [] c = Refused ConstantsRanOut"
| "take_dimensions (d # ds) (v # ws) c =
     refuse_unless (v \<noteq> 0) ZeroRuntimeDimension (take_dimensions ds ws (conv_set d v c))"

fun supply_quantization :: "quant_param \<Rightarrow> nat \<Rightarrow> quantization \<times> nat option \<Rightarrow> quantization \<times> nat option" where
  "supply_quantization OutputScale v (q, scale) = (q, Some v)"
| "supply_quantization InputZeroPoint v (q, scale) = (q\<lparr>input_zero_point := as_i32 v\<rparr>, scale)"
| "supply_quantization OutputZeroPoint v (q, scale) = (q\<lparr>output_zero_point := as_i32 v\<rparr>, scale)"

fun take_quantization :: "quant_param list \<Rightarrow> nat list \<Rightarrow> quantization \<times> nat option \<Rightarrow> (quantization \<times> nat option) template_result" where
  "take_quantization [] ws acc = Done acc"
| "take_quantization (x # xs) [] acc = Refused ConstantsRanOut"
| "take_quantization (x # xs) (v # ws) acc = take_quantization xs ws (supply_quantization x v acc)"

text \<open>The multiplier a supplied output scale asks for.\<close>

definition rescale :: "quantization \<Rightarrow> nat option \<Rightarrow> quantization template_result option" where
  "rescale q output_scale =
     (case output_scale of
        None \<Rightarrow> Some (Done q)
      | Some out \<Rightarrow>
          if positive_f32 out
          then map_option (\<lambda>r. obind (map_refused BadMultiplier r) (\<lambda>m. Done (q\<lparr>q_multiplier := m\<rparr>)))
                 (try_from_ratio (scale_ratio (input_scale q) (weights_scale q) out))
          else Some (Refused BadOutputScale))"

definition resolve_quantization :: "quant_param list \<Rightarrow> nat list \<Rightarrow> precision \<Rightarrow> precision template_result option" where
  "resolve_quantization params ws p =
     (if params = [] then Some (Done p)
      else case p of
        Int8 q \<Rightarrow>
          (case take_quantization params ws (q, None) of
             Done (q, scale) \<Rightarrow> map_option (\<lambda>r. obind r (\<lambda>q. Done (Int8 q))) (rescale q scale)
           | Refused e \<Rightarrow> Some (Refused e)
           | Panicked \<Rightarrow> Some Panicked)
      | _ \<Rightarrow> Some (Refused QuantizationNeedsInt8))"

definition conv_resolve_shape ::
  "planning_policy \<Rightarrow> conv_executable \<Rightarrow> byte list \<Rightarrow> (shape \<times> kernels) template_result option" where
  "conv_resolve_shape pol x constants =
     (case obind (check_byte_count (conv_expected_bytes x) constants)
             (\<lambda>_. take_dimensions (cx_dimensions x) (constant_words constants) (cx_shape x, cx_kernels x)) of
        Done ((s, ks), ws) \<Rightarrow>
          map_option (\<lambda>r. obind r (\<lambda>p.
              let s = s\<lparr>precision := p\<rparr> in
              obind (map_refused PlanRefused (validate_conv_shape pol s ks)) (\<lambda>_. Done (s, ks))))
            (resolve_quantization (cx_quantization x) ws (precision s))
      | Refused e \<Rightarrow> Some (Refused e)
      | Panicked \<Rightarrow> Some Panicked)"

definition conv_layout :: "conv_executable \<Rightarrow> byte list \<Rightarrow> dispatch_layout" where
  "conv_layout x constants = trailing_layout (cx_dense_readers x) (cx_layout x) constants"

section \<open>Matrix products\<close>

datatype matmul_dimension = DimM | DimK | DimN

fun matmul_index :: "matmul_dimension \<Rightarrow> nat" where
  "matmul_index DimM = 0"
| "matmul_index DimK = 1"
| "matmul_index DimN = 2"

fun matmul_get :: "matmul_dimension \<Rightarrow> fc_shape \<Rightarrow> nat" where
  "matmul_get DimM f = fc_m f"
| "matmul_get DimK f = fc_k f"
| "matmul_get DimN f = fc_n f"

fun matmul_set :: "matmul_dimension \<Rightarrow> nat \<Rightarrow> fc_shape \<Rightarrow> fc_shape" where
  "matmul_set DimM v f = f\<lparr>fc_m := v\<rparr>"
| "matmul_set DimK v f = f\<lparr>fc_k := v\<rparr>"
| "matmul_set DimN v f = f\<lparr>fc_n := v\<rparr>"

definition all_matmul_dimensions :: "matmul_dimension list" where
  "all_matmul_dimensions = [DimM, DimK, DimN]"

record matmul_executable =
  mx_shape :: fc_shape
  mx_dimensions :: "matmul_dimension list"
  mx_dense_readers :: bool
  mx_layout :: bool
  mx_weights_packed :: bool

definition matmul_new_static :: "fc_shape \<Rightarrow> matmul_executable" where
  "matmul_new_static f =
     \<lparr>mx_shape = f, mx_dimensions = [], mx_dense_readers = False, mx_layout = False, mx_weights_packed = False\<rparr>"

definition matmul_resolve_shape :: "planning_policy \<Rightarrow> matmul_executable \<Rightarrow> byte list \<Rightarrow> fc_shape template_result" where
  "matmul_resolve_shape pol x constants =
     obind (check_byte_count (expected_bytes (length (mx_dimensions x)) (mx_dense_readers x \<or> mx_layout x)) constants) (\<lambda>_.
     obind (set_dimensions matmul_set (zip (mx_dimensions x) (constant_words constants)) (mx_shape x)) (\<lambda>f.
     obind (map_refused PlanRefused (try_as_conv_shape pol f)) (\<lambda>conv.
     obind (map_refused PlanRefused (validate_conv_shape pol conv KERNELS)) (\<lambda>_. Done f))))"

definition matmul_validate_template :: "planning_policy \<Rightarrow> matmul_executable \<Rightarrow> unit template_result" where
  "matmul_validate_template pol x =
     obind (check_dimensions matmul_index (\<lambda>d. matmul_get d (mx_shape x)) all_matmul_dimensions
              (mx_dimensions x)) (\<lambda>_.
     if mx_dimensions x = [] then obind (matmul_resolve_shape pol x []) (\<lambda>_. Done ()) else Done ())"

definition matmul_layout :: "matmul_executable \<Rightarrow> byte list \<Rightarrow> dispatch_layout" where
  "matmul_layout x constants = trailing_layout (mx_dense_readers x) (mx_layout x) constants"

section \<open>The contract of the dimensions\<close>

text \<open>A shape without its four extents.\<close>

definition conv_frame :: "shape \<times> kernels \<Rightarrow> shape" where
  "conv_frame c = (fst c)\<lparr>width := 0, height := 0, in_channels := 0, out_channels := 0\<rparr>"

definition u32_kernels :: "kernels \<Rightarrow> bool" where
  "u32_kernels ks \<longleftrightarrow> fst ks < 2 ^ 32 \<and> snd ks < 2 ^ 32"

interpretation conv: framed_dimensions conv_index all_conv_dimensions conv_get conv_set conv_frame "\<lambda>c. u32_kernels (snd c)"
proof
  show "conv_index d = conv_index e \<Longrightarrow> d = e" for d e by (cases d; cases e) simp_all
  show "conv_index d < length all_conv_dimensions" "d \<in> set all_conv_dimensions" for d
    by (cases d; simp add: all_conv_dimensions_def)+
  show "length all_conv_dimensions < 2 ^ 32" by (simp add: all_conv_dimensions_def)
  show "d \<noteq> e \<Longrightarrow> conv_get e (conv_set d v c) = conv_get e c" for d e v c
    by (cases d; cases e; cases c) simp_all
  show "v < 2 ^ 32 \<Longrightarrow> conv_get d (conv_set d v c) = v" for d v c by (cases d; cases c) simp_all
  show "conv_frame (conv_set d v c) = conv_frame c" for d v c
    by (cases d; cases c) (simp_all add: conv_frame_def)
  show "u32_kernels (snd c) \<Longrightarrow> v < 2 ^ 32 \<Longrightarrow> u32_kernels (snd (conv_set d v c))" for d v c
    by (cases d; cases c) (simp_all add: u32_kernels_def)
  show "c = c'" if "u32_kernels (snd c)" "u32_kernels (snd c')" "conv_frame c = conv_frame c'"
    "\<And>d. conv_get d c = conv_get d c'" for c c'
  proof -
    obtain s ks s' ks' where c: "c = (s, ks)" "c' = (s', ks')" by (cases c; cases c')
    note get = that(4) [of InputWidth] that(4) [of InputHeight] that(4) [of InputChannels]
      that(4) [of OutputChannels] that(4) [of WeightsWidth] that(4) [of WeightsHeight]
    have "s = s'" using that(3) get(1-4) by (cases s; cases s') (simp add: c conv_frame_def)
    moreover have "ks = ks'" using that(1,2) get(5,6) by (simp add: c u32_kernels_def prod_eq_iff)
    ultimately show ?thesis by (simp add: c)
  qed
qed

definition matmul_frame :: "fc_shape \<Rightarrow> precision \<times> activation" where
  "matmul_frame f = (fc_precision f, fc_activation f)"

interpretation matmul: framed_dimensions matmul_index all_matmul_dimensions matmul_get matmul_set matmul_frame "\<lambda>_. True"
proof
  show "matmul_index d = matmul_index e \<Longrightarrow> d = e" for d e by (cases d; cases e) simp_all
  show "matmul_index d < length all_matmul_dimensions" "d \<in> set all_matmul_dimensions" for d
    by (cases d; simp add: all_matmul_dimensions_def)+
  show "length all_matmul_dimensions < 2 ^ 32" by (simp add: all_matmul_dimensions_def)
  show "d \<noteq> e \<Longrightarrow> matmul_get e (matmul_set d v f) = matmul_get e f" for d e v and f :: fc_shape
    by (cases d; cases e) simp_all
  show "matmul_get d (matmul_set d v f) = v" for d v and f :: fc_shape by (cases d) simp_all
  show "matmul_frame (matmul_set d v f) = matmul_frame f" for d v f
    by (cases d) (simp_all add: matmul_frame_def)
  show "f = f'" if "matmul_frame f = matmul_frame f'" "\<And>d. matmul_get d f = matmul_get d f'" for f f'
    using that(1) that(2) [of DimM] that(2) [of DimK] that(2) [of DimN]
    by (simp add: matmul_frame_def)
qed simp_all

text \<open>With one word per dimension, the loop over an iterator is the loop over the pairs.\<close>

lemma take_dimensions_zip:
  "length ds \<le> length ws \<Longrightarrow>
   take_dimensions ds ws c = obind (set_dimensions conv_set (zip ds ws) c) (\<lambda>c. Done (c, drop (length ds) ws))"
  by (induction ds ws c rule: take_dimensions.induct) (auto simp: refuse_unless_def)

end
