(* ===== verification/ConvTemplateProperties.thy ===== *)
theory ConvTemplateProperties
  imports TemplateProperties ConvTemplates FormatProperties RequantizationProperties
begin

text \<open>
  The resolution of convolution and matrix-product dispatches: always an answer, and the answer is the
  template with the listed dimensions and quantization parameters replaced, as a shape with a plan.
\<close>

section \<open>Validation and the planner\<close>

lemma validate_conv_shape_no_panic [no_panic]: "validate_conv_shape pol s ks \<noteq> Panicked"
  by (simp add: validate_conv_shape_def split: outcome.split)

lemma validated_shape_planned:
  assumes "u32_shape s" "validate_conv_shape pol s ks = Done ()"
  shows "\<exists>plan. try_new pol s ks = Done plan"
proof -
  have r: "rebuild_and_plan pol s ks = Done ()"
    using assms(2) by (simp add: validate_conv_shape_def split: outcome.splits)
  show ?thesis
    using assms(1)
    by (cases rule: rebuild_gives_the_shape [where pol = pol and ks = ks]; cases "try_new pol s ks")
       (use r in simp_all)
qed

lemma map_refused_no_panic [no_panic]: "m \<noteq> Panicked \<Longrightarrow> map_refused h m \<noteq> Panicked"
  by (cases m) simp_all

section \<open>Matrix products\<close>

definition resolved_matmul :: "matmul_executable \<Rightarrow> nat list \<Rightarrow> fc_shape" where
  "resolved_matmul x ws =
     (let v = supplied (mx_dimensions x) ws (\<lambda>d. matmul_get d (mx_shape x)) in
      (mx_shape x)\<lparr>fc_m := v DimM, fc_k := v DimK, fc_n := v DimN\<rparr>)"

lemma resolved_matmul_dimensions:
  "matmul_get d (resolved_matmul x ws) = supplied (mx_dimensions x) ws (\<lambda>d. matmul_get d (mx_shape x)) d"
  "matmul_frame (resolved_matmul x ws) = matmul_frame (mx_shape x)"
  by (cases d; simp add: resolved_matmul_def Let_def) (simp add: resolved_matmul_def matmul_frame_def Let_def)

lemma lowered_matmul:
  assumes "try_as_conv_shape pol f = Done s"
  shows "s = \<lparr>width = fc_m f, height = 1, stride = 1, in_channels = fc_k f, out_channels = fc_n f,
      precision = fc_precision f, padding = Some (0, 0), activation = fc_activation f, depthwise = False\<rparr>"
    and "rebuild_and_plan pol s KERNELS = obind (try_new pol s KERNELS) (\<lambda>_. Done ())"
  using assms
  by (auto simp: try_as_conv_shape_def rebuild_and_plan_def parity_padded_shape_def try_with_precision_def
      try_with_padding_def try_with_activation_def outcome_done)

lemma fc_planned_iff:
  "(\<exists>s. try_as_conv_shape pol f = Done s \<and> validate_conv_shape pol s KERNELS = Done ()) \<longleftrightarrow>
   (\<exists>plan. fc_plan_try_new pol f = Done plan)"
proof -
  have "validate_conv_shape pol s KERNELS = Done () \<longleftrightarrow> (\<exists>plan. try_new pol s KERNELS = Done plan)"
    if "try_as_conv_shape pol f = Done s" for s
    by (simp add: validate_conv_shape_def lowered_matmul(2) [OF that] split: outcome.split)
       (cases "try_new pol s KERNELS"; simp)
  then show ?thesis by (auto simp: fc_plan_try_new_def outcome_done)
qed

lemma try_as_conv_shape_no_panic: "try_as_conv_shape pol f \<noteq> Panicked"
  unfolding try_as_conv_shape_def try_with_precision_def try_with_padding_def try_with_activation_def
  by (intro no_panic)

lemma matmul_resolution:
  assumes "check_dimensions matmul_index (\<lambda>d. matmul_get d (mx_shape x)) all_matmul_dimensions
      (mx_dimensions x) = Done ()"
  shows "matmul_resolve_shape pol x constants \<noteq> Panicked
    \<and> (\<forall>f. matmul_resolve_shape pol x constants = Done f \<longleftrightarrow>
      length constants = 4 * (length (mx_dimensions x) + of_bool (mx_dense_readers x \<or> mx_layout x))
      \<and> 0 \<notin> set (take (length (mx_dimensions x)) (constant_words constants))
      \<and> f = resolved_matmul x (constant_words constants)
      \<and> (\<exists>plan. fc_plan_try_new pol f = Done plan))"
proof -
  let ?r = "resolved_matmul x (constant_words constants)"
  let ?k = "\<lambda>f. obind (map_refused PlanRefused (try_as_conv_shape pol f)) (\<lambda>conv.
     obind (map_refused PlanRefused (validate_conv_shape pol conv KERNELS)) (\<lambda>_. Done f))"
  have eq: "matmul_resolve_shape pol x constants =
      (if length constants \<noteq> 4 * (length (mx_dimensions x) + of_bool (mx_dense_readers x \<or> mx_layout x))
       then Refused ByteCountMismatch
       else if 0 \<in> set (take (length (mx_dimensions x)) (constant_words constants)) then Refused ZeroRuntimeDimension
       else ?k ?r)"
    unfolding matmul_resolve_shape_def
    by (rule matmul.dispatch [OF assms TrueI TrueI resolved_matmul_dimensions(2,1)])
  have "?k ?r \<noteq> Panicked" by (intro no_panic try_as_conv_shape_no_panic)
  moreover have "?k ?r = Done f \<longleftrightarrow> f = ?r \<and> (\<exists>plan. fc_plan_try_new pol f = Done plan)" for f
    using fc_planned_iff [of pol ?r] by (auto simp: outcome_done)
  ultimately show ?thesis unfolding eq by auto
qed

text \<open>
  C30. A dispatch of an accepted matrix-product template never panics, and resolves exactly to the
  template with each listed dimension replaced by its own nonzero word, when that product has a plan.
\<close>

theorem matmul_dispatches_resolve:
  assumes "check_dimensions matmul_index (\<lambda>d. matmul_get d (mx_shape x)) all_matmul_dimensions
      (mx_dimensions x) = Done ()"
  shows "matmul_resolve_shape pol x constants \<noteq> Panicked
    \<and> (\<forall>f. matmul_resolve_shape pol x constants = Done f \<longleftrightarrow>
      length constants = 4 * (length (mx_dimensions x) + of_bool (mx_dense_readers x \<or> mx_layout x))
      \<and> 0 \<notin> set (take (length (mx_dimensions x)) (constant_words constants))
      \<and> f = resolved_matmul x (constant_words constants)
      \<and> (\<exists>plan. fc_plan_try_new pol f = Done plan))"
  by (rule matmul_resolution [OF assms])

section \<open>Static executables with a layout word\<close>

text \<open>
  C28. A pooling or matrix-product executable that lists no dimension but declares a trailing constant
  is never accepted: its template is resolved against no constants at all, where one word is due.
\<close>

theorem static_executables_with_a_trailing_word_are_refused:
  "(px_dimensions x = [] \<and> (px_dense_readers x \<or> px_layout x) \<longrightarrow>
      pooling_validate_template x \<in> {Refused ZeroStaticDimension, Refused ByteCountMismatch})
   \<and> (mx_dimensions y = [] \<and> (mx_dense_readers y \<or> mx_layout y) \<longrightarrow>
      matmul_validate_template pol y \<in> {Refused ZeroStaticDimension, Refused ByteCountMismatch})"
proof -
  have bytes: "check_byte_count (expected_bytes 0 True) [] = Refused ByteCountMismatch"
    by (simp add: check_byte_count_def expected_bytes_Some)
  have step: "check_dimensions index get every [] \<in> {Done (), Refused ZeroStaticDimension, Panicked}"
    for index and get :: "'d \<Rightarrow> nat" and every
  proof -
    have "check_unlisted index get seen ds \<in> {Done (), Refused ZeroStaticDimension, Panicked}" for seen ds
      by (induction ds) (auto simp: ensure_def refuse_unless_def)
    then show ?thesis by (simp add: check_dimensions_def)
  qed
  show ?thesis
    using step [of pooling_index "\<lambda>d. pooling_get d (px_shape x)" all_pooling_dimensions]
      step [of matmul_index "\<lambda>d. matmul_get d (mx_shape y)" all_matmul_dimensions]
      pooling.check_dimensions_no_panic [of "px_shape x" "[]"] matmul.check_dimensions_no_panic [of "mx_shape y" "[]"]
    by (auto simp: pooling_validate_template_def matmul_validate_template_def pooling_resolve_shape_def
        matmul_resolve_shape_def bytes)
qed

section \<open>Convolutions\<close>

text \<open>The quantization a dispatch supplies, before its multiplier.\<close>

definition supplied_zero_points :: "quant_param list \<Rightarrow> nat list \<Rightarrow> quantization \<Rightarrow> quantization" where
  "supplied_zero_points params ws q =
     q\<lparr>input_zero_point := (case map_of (zip params ws) InputZeroPoint of Some v \<Rightarrow> as_i32 v | None \<Rightarrow> input_zero_point q),
       output_zero_point := (case map_of (zip params ws) OutputZeroPoint of Some v \<Rightarrow> as_i32 v | None \<Rightarrow> output_zero_point q)\<rparr>"

lemma take_quantization_zip:
  assumes "distinct params" "length params \<le> length ws" "OutputScale \<in> set params \<longrightarrow> scale = None"
  shows "take_quantization params ws (q, scale) =
    Done (supplied_zero_points params ws q, case map_of (zip params ws) OutputScale of Some v \<Rightarrow> Some v | None \<Rightarrow> scale)"
  using assms
proof (induction params ws arbitrary: q scale rule: list_induct2')
  case (4 p params v ws)
  have fresh: "map_of (zip params ws) p = None"
    using 4(2) by (auto simp: map_of_eq_None_iff dest: set_zip_leftD)
  show ?case
    using 4 fresh
    by (cases p) (auto simp: supplied_zero_points_def split: option.splits)
qed (auto simp: supplied_zero_points_def)

lemma quant_index_inj: "quant_index x = quant_index y \<longleftrightarrow> x = y"
  by (cases x; cases y) simp_all

lemma check_quantization_Done:
  assumes "check_quantization p seen params = Done ()" "length seen = 3"
  shows "distinct params \<and> (\<forall>x \<in> set params. \<not> seen ! quant_index x) \<and> (params \<noteq> [] \<longrightarrow> (\<exists>q. p = Int8 q))"
  using assms
proof (induction params arbitrary: seen)
  case (Cons x xs)
  then obtain q where p: "p = Int8 q" and x: "\<not> seen ! quant_index x" "quant_index x < 3"
    and rest: "check_quantization p (seen[quant_index x := True]) xs = Done ()"
    by (auto simp: outcome_done split: precision.splits)
  have "seen[quant_index x := True] ! quant_index y \<longleftrightarrow> seen ! quant_index y \<or> y = x" for y
    using x(2) Cons.prems(2) quant_index_inj [of x y] by (cases "y = x") auto
  with Cons.IH [OF rest] show ?case using p x(1) Cons.prems(2) by auto
qed simp

lemma quant_params_few: "distinct (params :: quant_param list) \<Longrightarrow> length params \<le> 3"
proof -
  assume d: "distinct params"
  have "set params \<subseteq> {OutputScale, InputZeroPoint, OutputZeroPoint}" using quant_param.exhaust by blast
  then have "card (set params) \<le> card {OutputScale, InputZeroPoint, OutputZeroPoint}" by (intro card_mono) simp_all
  then show ?thesis by (simp add: distinct_card [OF d])
qed

definition resolved_conv :: "conv_executable \<Rightarrow> nat list \<Rightarrow> shape \<times> kernels" where
  "resolved_conv x ws =
     (let v = supplied (cx_dimensions x) ws (\<lambda>d. conv_get d (cx_shape x, cx_kernels x)) in
      ((cx_shape x)\<lparr>width := v InputWidth, height := v InputHeight, in_channels := v InputChannels,
         out_channels := v OutputChannels\<rparr>, (v WeightsHeight, v WeightsWidth)))"

text \<open>
  The precision a dispatch resolves to: the template's, or its zero points replaced where listed, and
  the multiplier of the supplied output scale.
\<close>

definition resolved_precision :: "conv_executable \<Rightarrow> nat list \<Rightarrow> precision \<Rightarrow> bool" where
  "resolved_precision x ws p \<longleftrightarrow>
     (if cx_quantization x = [] then p = precision (cx_shape x)
      else \<exists>q m. precision (cx_shape x) = Int8 q
        \<and> p = Int8 ((supplied_zero_points (cx_quantization x) ws q)\<lparr>q_multiplier := m\<rparr>)
        \<and> (case map_of (zip (cx_quantization x) ws) OutputScale of
             None \<Rightarrow> m = q_multiplier q
           | Some out \<Rightarrow> positive_f32 out
               \<and> try_from_ratio (scale_ratio (input_scale q) (weights_scale q) out) = Some (Done m)))"

definition calibrated :: "precision \<Rightarrow> bool" where
  "calibrated p \<longleftrightarrow> (\<forall>q. p = Int8 q \<longrightarrow> positive_f32 (input_scale q) \<and> positive_f32 (weights_scale q))"

lemma resolve_quantization_outcome:
  assumes "check_quantization (precision (cx_shape x)) (replicate 3 False) (cx_quantization x) = Done ()"
    and "cx_quantization x \<noteq> [] \<longrightarrow> calibrated (precision (cx_shape x))" "length (cx_quantization x) \<le> length ws"
  obtains r where "resolve_quantization (cx_quantization x) ws (precision (cx_shape x)) = Some r"
    "r \<noteq> Panicked" "\<And>p. r = Done p \<longleftrightarrow> resolved_precision x ws p" "r \<noteq> Refused ConstantsRanOut" "r \<noteq> Refused ByteCountOverflow"
proof (cases "cx_quantization x = []")
  case True
  then show ?thesis
    using that [of "Done (precision (cx_shape x))"] by (auto simp: resolve_quantization_def resolved_precision_def)
next
  case False
  let ?ps = "cx_quantization x"
  obtain q where q: "precision (cx_shape x) = Int8 q" and d: "distinct ?ps"
    using check_quantization_Done [OF assms(1)] False by auto
  let ?q = "supplied_zero_points ?ps ws q" and ?scale = "map_of (zip ?ps ws) OutputScale"
  have taken: "take_quantization ?ps ws (q, None) = Done (?q, ?scale)"
    using take_quantization_zip [OF d assms(3), of None q] by (simp split: option.split)
  have scales: "positive_f32 (input_scale q)" "positive_f32 (weights_scale q)"
    using assms(2) q False by (simp_all add: calibrated_def)
  have same: "input_scale ?q = input_scale q" "weights_scale ?q = weights_scale q" "q_multiplier ?q = q_multiplier q"
    by (simp_all add: supplied_zero_points_def)
  have eq: "resolve_quantization ?ps ws (precision (cx_shape x)) =
      map_option (\<lambda>r. obind r (\<lambda>q. Done (Int8 q))) (rescale ?q ?scale)"
    using False by (simp add: resolve_quantization_def q taken)
  have meaning: "resolved_precision x ws p \<longleftrightarrow> (\<exists>m. p = Int8 (?q\<lparr>q_multiplier := m\<rparr>) \<and> (case ?scale of
      None \<Rightarrow> m = q_multiplier q
    | Some out \<Rightarrow> positive_f32 out \<and> try_from_ratio (scale_ratio (input_scale q) (weights_scale q) out) = Some (Done m)))" for p
    using False by (auto simp: resolved_precision_def q)
  show ?thesis
  proof (cases ?scale)
    case None
    have "?q\<lparr>q_multiplier := q_multiplier q\<rparr> = ?q"
      by (metis quantization.surjective quantization.update_convs(6) same(3))
    then have "Done (Int8 ?q) = Done p \<longleftrightarrow> resolved_precision x ws p" for p
      unfolding meaning None by auto
    then show ?thesis
      using that [of "Done (Int8 ?q)"] by (simp add: eq [unfolded q] rescale_def None q)
  next
    case (Some out)
    show ?thesis
    proof (cases "positive_f32 out")
      case True
      obtain r where r: "try_from_ratio (scale_ratio (input_scale q) (weights_scale q) out) = Some r" "r \<noteq> Panicked"
        using scale_ratio_settles [OF scales True] .
      let ?r = "obind (map_refused BadMultiplier r) (\<lambda>m. Done (Int8 (?q\<lparr>q_multiplier := m\<rparr>)))"
      have "?r = Done p \<longleftrightarrow> resolved_precision x ws p" for p
        unfolding meaning Some using True r(1) by (auto simp: outcome_done)
      moreover have "resolve_quantization ?ps ws (precision (cx_shape x)) = Some ?r"
        by (simp add: eq rescale_def Some True same r(1) obind_assoc)
      ultimately show ?thesis
        using that [of ?r] r by (cases r) auto
    next
      case False
      then have "\<not> resolved_precision x ws p" for p unfolding meaning Some by simp
      with False show ?thesis using that [of "Refused BadOutputScale"] by (simp add: eq rescale_def Some)
    qed
  qed
qed

lemma taken_dimensions:
  assumes dims: "check_dimensions conv_index (\<lambda>d. conv_get d (cx_shape x, cx_kernels x)) all_conv_dimensions
      (cx_dimensions x) = Done ()"
    and fields: "u32_shape (cx_shape x)" "u32_kernels (cx_kernels x)"
    and len: "length (cx_dimensions x) \<le> length (constant_words bs)"
  shows "take_dimensions (cx_dimensions x) (constant_words bs) (cx_shape x, cx_kernels x) =
      (if 0 \<in> set (take (length (cx_dimensions x)) (constant_words bs)) then Refused ZeroRuntimeDimension
       else Done (resolved_conv x (constant_words bs), drop (length (cx_dimensions x)) (constant_words bs)))"
    and "u32_shape ((fst (resolved_conv x (constant_words bs)))\<lparr>precision := p\<rparr>)"
    and "precision (fst (resolved_conv x (constant_words bs))) = precision (cx_shape x)"
proof -
  let ?ds = "cx_dimensions x" and ?ws = "constant_words bs" and ?c = "(cx_shape x, cx_kernels x)"
  let ?v = "supplied ?ds ?ws (\<lambda>d. conv_get d ?c)"
  have "conv_get d ?c < 2 ^ 32" for d
    using fields by (cases d) (simp_all add: u32_shape_def u32_kernels_def)
  then have v: "?v d < 4294967296" for d using conv.supplied_less [OF len, of d ?c] by simp
  have get: "conv_get d (resolved_conv x ?ws) = ?v d" for d
    using v by (cases d) (simp_all add: resolved_conv_def Let_def)
  have frame: "conv_frame (resolved_conv x ?ws) = conv_frame ?c"
    by (simp add: resolved_conv_def conv_frame_def Let_def)
  have kernels: "u32_kernels (snd (resolved_conv x ?ws))" "u32_kernels (snd ?c)"
    using v fields(2) by (simp_all add: resolved_conv_def Let_def u32_kernels_def)
  have small: "\<forall>v \<in> set ?ws. v < 2 ^ 32" using constant_words_less by blast
  show "take_dimensions ?ds ?ws ?c =
      (if 0 \<in> set (take (length ?ds) ?ws) then Refused ZeroRuntimeDimension
       else Done (resolved_conv x ?ws, drop (length ?ds) ?ws))"
    using conv.set_dimensions_prefix [OF len conv.accepted_length(1) [OF dims] small kernels(2,1) frame get]
    by (simp add: take_dimensions_zip [OF len])
  show "u32_shape ((fst (resolved_conv x ?ws))\<lparr>precision := p\<rparr>)"
    using v fields(1) by (simp add: u32_shape_def resolved_conv_def Let_def)
  show "precision (fst (resolved_conv x ?ws)) = precision (cx_shape x)"
    by (simp add: resolved_conv_def Let_def)
qed

lemma conv_resolution:
  assumes accepted: "conv_validate_template pol x = Done ()"
    and fields: "u32_shape (cx_shape x)" "u32_kernels (cx_kernels x)"
    and scales: "cx_quantization x \<noteq> [] \<longrightarrow> calibrated (precision (cx_shape x))"
  shows "conv_resolve_shape pol x constants \<notin> {None, Some Panicked, Some (Refused ConstantsRanOut), Some (Refused ByteCountOverflow)}
    \<and> (\<forall>s ks. conv_resolve_shape pol x constants = Some (Done (s, ks)) \<longleftrightarrow>
        length constants = 4 * (length (cx_dimensions x) + length (cx_quantization x) + of_bool (cx_dense_readers x \<or> cx_layout x))
        \<and> 0 \<notin> set (take (length (cx_dimensions x)) (constant_words constants))
        \<and> (s\<lparr>precision := precision (cx_shape x)\<rparr>, ks) = resolved_conv x (constant_words constants)
        \<and> resolved_precision x (drop (length (cx_dimensions x)) (constant_words constants)) (precision s)
        \<and> validate_conv_shape pol s ks = Done ())
    \<and> (\<forall>s ks. conv_resolve_shape pol x constants = Some (Done (s, ks)) \<longrightarrow> (\<exists>plan. try_new pol s ks = Done plan))"
proof -
  let ?ws = "constant_words constants" and ?ds = "cx_dimensions x" and ?ps = "cx_quantization x"
  let ?c = "(cx_shape x, cx_kernels x)" and ?t = "resolved_conv x ?ws"
  have dims: "check_dimensions conv_index (\<lambda>d. conv_get d ?c) all_conv_dimensions ?ds = Done ()"
    and quant: "check_quantization (precision (cx_shape x)) (replicate 3 False) ?ps = Done ()"
    using accepted by (auto simp: conv_validate_template_def outcome_done)
  have few: "length ?ds < 2 ^ 32" "length ?ps \<le> 3"
    using conv.accepted_length [OF dims] quant_params_few check_quantization_Done [OF quant] by auto
  let ?n = "4 * (length ?ds + length ?ps + of_bool (cx_dense_readers x \<or> cx_layout x))"
  have bytes: "conv_expected_bytes x = Some ?n"
    using few by (simp add: conv_expected_bytes_def checked_add64_def expected_bytes_Some)
  show ?thesis
  proof (cases "length constants = ?n")
    case False
    then show ?thesis by (simp add: conv_resolve_shape_def check_byte_count_def bytes)
  next
    case True
    then have len: "length ?ds \<le> length ?ws" "length ?ps \<le> length (drop (length ?ds) ?ws)"
      by (simp_all add: constant_words_length)
    note taken = taken_dimensions [OF dims fields len(1)]
    obtain r where r: "resolve_quantization ?ps (drop (length ?ds) ?ws) (precision (cx_shape x)) = Some r"
      "r \<noteq> Panicked" "\<And>p. r = Done p \<longleftrightarrow> resolved_precision x (drop (length ?ds) ?ws) p"
      "r \<noteq> Refused ConstantsRanOut" "r \<noteq> Refused ByteCountOverflow"
      by (rule resolve_quantization_outcome [OF quant scales len(2)]) blast
    obtain t ks where t: "?t = (t, ks)" by (cases ?t)
    let ?k = "\<lambda>p. obind (map_refused PlanRefused (validate_conv_shape pol (t\<lparr>precision := p\<rparr>) ks))
      (\<lambda>_. Done (t\<lparr>precision := p\<rparr>, ks))"
    have eq: "conv_resolve_shape pol x constants =
        (if 0 \<in> set (take (length ?ds) ?ws) then Some (Refused ZeroRuntimeDimension) else Some (obind r ?k))"
      using taken(1,3) r(1) by (simp add: conv_resolve_shape_def check_byte_count_def bytes True t Let_def)
    have k: "?k p \<noteq> Panicked \<and> ?k p \<noteq> Refused ConstantsRanOut \<and> ?k p \<noteq> Refused ByteCountOverflow" for p
      using validate_conv_shape_no_panic [of pol "t\<lparr>precision := p\<rparr>" ks]
      by (cases "validate_conv_shape pol (t\<lparr>precision := p\<rparr>) ks") simp_all
    have restored: "t\<lparr>precision := p, precision := precision (cx_shape x)\<rparr> = t" for p
      using taken(3) by (simp add: t)
    have "s\<lparr>precision := precision (cx_shape x)\<rparr> = t \<longleftrightarrow> s = t\<lparr>precision := precision s\<rparr>" for s
      using taken(3) by (cases s; cases t) (auto simp: t)
    then have same: "obind r ?k = Done (s, ks') \<longleftrightarrow> resolved_precision x (drop (length ?ds) ?ws) (precision s)
        \<and> (s\<lparr>precision := precision (cx_shape x)\<rparr>, ks') = (t, ks) \<and> validate_conv_shape pol s ks' = Done ()" for s ks'
      using r(3) by (auto simp: outcome_done)
    have planned: "\<exists>plan. try_new pol s ks' = Done plan" if "obind r ?k = Done (s, ks')" for s ks'
    proof -
      from that obtain p where "?k p = Done (s, ks')" by (auto simp: obind_eq_Done)
      then have "s = t\<lparr>precision := p\<rparr> \<and> ks' = ks \<and> validate_conv_shape pol s ks = Done ()"
        by (auto simp: outcome_done)
      moreover from this taken(2) [of p] have "u32_shape s" by (simp add: t)
      ultimately show ?thesis using validated_shape_planned by blast
    qed
    have "obind r ?k \<noteq> Panicked" "obind r ?k \<noteq> Refused ConstantsRanOut" "obind r ?k \<noteq> Refused ByteCountOverflow"
      using r(2,4,5) k by (cases r; simp)+
    with same planned True show ?thesis unfolding eq t by auto
  qed
qed

text \<open>
  C6. A dispatch of an accepted convolution template with 32-bit fields, whose input and weight scales
  are positive when it lists quantization parameters, always gets an answer: the multiplier search
  returns, nothing panics, the constants never run out and their count never overflows. It resolves
  exactly when the constants have their byte count, no dimension word is zero, a supplied output scale
  is positive and its multiplier encodable, and the constructors and the planner accept the shape;
  then the shape is the template with the listed dimensions replaced by their own words, its
  precision has the supplied zero points and the multiplier of the supplied scale, and it has a plan.
\<close>

theorem conv_dispatches_resolve:
  assumes accepted: "conv_validate_template pol x = Done ()"
    and fields: "u32_shape (cx_shape x)" "u32_kernels (cx_kernels x)"
    and scales: "cx_quantization x \<noteq> [] \<longrightarrow> calibrated (precision (cx_shape x))"
  shows "conv_resolve_shape pol x constants \<notin> {None, Some Panicked, Some (Refused ConstantsRanOut), Some (Refused ByteCountOverflow)}
    \<and> (\<forall>s ks. conv_resolve_shape pol x constants = Some (Done (s, ks)) \<longleftrightarrow>
        length constants = 4 * (length (cx_dimensions x) + length (cx_quantization x) + of_bool (cx_dense_readers x \<or> cx_layout x))
        \<and> 0 \<notin> set (take (length (cx_dimensions x)) (constant_words constants))
        \<and> (s\<lparr>precision := precision (cx_shape x)\<rparr>, ks) = resolved_conv x (constant_words constants)
        \<and> resolved_precision x (drop (length (cx_dimensions x)) (constant_words constants)) (precision s)
        \<and> validate_conv_shape pol s ks = Done ())
    \<and> (\<forall>s ks. conv_resolve_shape pol x constants = Some (Done (s, ks)) \<longrightarrow> (\<exists>plan. try_new pol s ks = Done plan))"
  by (rule conv_resolution [OF assms])

definition pointwise_template :: conv_executable where
  "pointwise_template =
     (conv_new_static (pointwise\<lparr>width := 0, out_channels := 0\<rparr>) unit_kernel)
       \<lparr>cx_dimensions := [OutputChannels, InputWidth], cx_layout := True\<rparr>"

lemma pointwise_validates: "validate_conv_shape default_policy pointwise unit_kernel = Done ()"
proof -
  have "try_with_precision default_policy 8 8 1 4096 8 Fp16 = Done pointwise"
    by (simp add: try_with_precision_def hw_consts checked_mul32_def pointwise_def)
  moreover have "try_with_activation pointwise NoActivation = Done pointwise"
    by (simp add: try_with_activation_def pointwise_def)
  ultimately show ?thesis
    by (simp add: validate_conv_shape_def rebuild_and_plan_def parity_padded_shape_def pointwise_planned)
qed

lemma pointwise_resolved:
  "conv_resolve_shape default_policy pointwise_template [8, 0, 0, 0, 8, 0, 0, 0, 0, 0, 2, 0] = Some (Done (pointwise, unit_kernel))"
proof -
  have same: "pointwise\<lparr>out_channels := 8, width := 8\<rparr> = pointwise" "pointwise\<lparr>precision := Fp16\<rparr> = pointwise"
    by (simp_all add: pointwise_def)
  show ?thesis
    by (simp add: conv_resolve_shape_def conv_expected_bytes_def check_byte_count_def expected_bytes_Some
        checked_add64_def pointwise_template_def conv_new_static_def resolve_quantization_def Let_def
        same pointwise_validates)
qed

theorem conv_dispatches_resolve_witness:
  "conv_resolve_shape default_policy pointwise_template [8, 0, 0, 0, 8, 0, 0, 0, 0, 0, 2, 0] =
      Some (Done (pointwise, unit_kernel))
   \<and> (\<exists>plan. try_new default_policy pointwise unit_kernel = Done plan)"
proof -
  have "conv_validate_template default_policy pointwise_template = Done ()"
    by (simp add: conv_validate_template_def pointwise_template_def conv_new_static_def check_dimensions_def
        all_conv_dimensions_def unit_kernel_def)
  from conv_dispatches_resolve [OF this, of "[8, 0, 0, 0, 8, 0, 0, 0, 0, 0, 2, 0]"]
  have "\<forall>s ks. conv_resolve_shape default_policy pointwise_template [8, 0, 0, 0, 8, 0, 0, 0, 0, 0, 2, 0] = Some (Done (s, ks))
      \<longrightarrow> (\<exists>plan. try_new default_policy s ks = Done plan)"
    by (simp add: pointwise_template_def conv_new_static_def u32_shape_def u32_kernels_def unit_kernel_def calibrated_def)
  with pointwise_resolved show ?thesis by blast
qed

theorem matmul_dispatches_resolve_witness:
  "matmul_resolve_shape default_policy
     \<lparr>mx_shape = \<lparr>fc_m = 0, fc_k = 64, fc_n = 32, fc_precision = Fp16, fc_activation = NoActivation\<rparr>,
      mx_dimensions = [DimM], mx_dense_readers = False, mx_layout = False, mx_weights_packed = True\<rparr> [0, 0, 0, 0]
   \<noteq> Panicked"
  by (rule matmul_dispatches_resolve [THEN conjunct1])
     (simp add: check_dimensions_def all_matmul_dimensions_def)

theorem static_executables_with_a_trailing_word_are_refused_witness:
  "pooling_validate_template \<lparr>px_shape = wide_pool, px_dimensions = [], px_dense_readers = False, px_layout = True\<rparr>
     = Refused ByteCountMismatch"
proof -
  let ?x = "\<lparr>px_shape = wide_pool, px_dimensions = [], px_dense_readers = False, px_layout = True\<rparr>"
  have "pooling_validate_template ?x \<noteq> Refused ZeroStaticDimension"
    by (simp add: pooling_validate_template_def check_dimensions_def all_pooling_dimensions_def wide_pool_def
        pooling_resolve_shape_def check_byte_count_def expected_bytes_Some)
  then show ?thesis
    using static_executables_with_a_trailing_word_are_refused [of ?x] by auto
qed

end
