(* ===== verification/ExecutableCache.thy ===== *)
theory ExecutableCache
  imports ConvTemplates PoolingTemplates
begin

text \<open>
  Preparing an executable (\<open>rocket-hal-driver/src/executable_cache.rs\<close>): from the bytes of a program to
  the template that a dispatch resolves. The FlatBuffers verifier and accessors are code of another
  crate and are parameters: \<open>identified\<close> is the identifier check, \<open>parse\<close> the verified root, giving one
  entry per export: its kernel table, or \<open>None\<close> for an unknown kind or an absent table. Enumerations
  are the raw numbers of the schema. A float field is its bit pattern.
\<close>

section \<open>Tables\<close>

record quant_def =
  qd_precision :: nat
  qd_input_zero_point :: nat
  qd_output_zero_point :: nat
  qd_weights_zero_point :: nat
  qd_input_scale :: nat
  qd_weights_scale :: nat
  qd_output_scale :: nat

record conv_def =
  cd_quant :: quant_def
  cd_input_width :: nat
  cd_input_height :: nat
  cd_stride :: nat
  cd_input_channels :: nat
  cd_output_channels :: nat
  cd_pad_top :: nat
  cd_pad_left :: nat
  cd_activation :: nat
  cd_activation_cmp :: nat
  cd_depthwise :: bool
  cd_weights_height :: nat
  cd_weights_width :: nat
  cd_runtime_dimensions :: "nat list option"
  cd_runtime_quantization :: "nat list option"
  cd_epilogue_add :: bool
  cd_epilogue_activation :: nat
  cd_runtime_dense_readers :: bool
  cd_runtime_layout :: bool
  cd_weights_packed :: bool

text \<open>The deprecated fully-connected table has the first four of these fields.\<close>

record matmul_def =
  md_quant :: quant_def
  md_extents :: "nat \<times> nat \<times> nat"
  md_activation :: nat
  md_activation_cmp :: nat
  md_runtime_dimensions :: "nat list option"
  md_runtime_dense_readers :: bool
  md_runtime_layout :: bool
  md_weights_packed :: bool

record pooling_def =
  pd_method :: nat
  pd_precision :: nat
  pd_input_width :: nat
  pd_input_height :: nat
  pd_channels :: nat
  pd_output_width :: nat
  pd_output_height :: nat
  pd_kernel_width :: nat
  pd_kernel_height :: nat
  pd_stride_x :: nat
  pd_stride_y :: nat
  pd_pad_left :: nat
  pd_pad_top :: nat
  pd_pad_right :: nat
  pd_pad_bottom :: nat
  pd_runtime_dimensions :: "nat list option"
  pd_runtime_dense_readers :: bool
  pd_runtime_layout :: bool

record ew_def =
  ed_op :: nat
  ed_geometry :: ew_geometry
  ed_operand :: nat
  ed_runtime_dimensions :: "nat list option"
  ed_runtime_dense_readers :: bool
  ed_runtime_layout :: bool

record lut_def = ew_def +
  ld_input_zero_point :: nat
  ld_output_zero_point :: nat
  ld_input_scale :: nat
  ld_output_scale :: nat

datatype kernel_def =
    Conv2DDef conv_def
  | FullyConnectedDef matmul_def
  | MatmulDef matmul_def
  | PoolingDef pooling_def
  | ElementwiseUnaryDef ew_def
  | ElementwiseBinaryDef ew_def
  | ElementwiseLutDef lut_def

datatype ukernel_shape =
    UConv conv_executable
  | UMatmul matmul_executable
  | UPooling pooling_executable
  | UUnary ew_unary_executable
  | UBinary ew_binary_executable
  | ULut lut_executable

type_synonym 'a def_result = "(unit, 'a) outcome"

section \<open>Enumerations\<close>

text \<open>A value the schema does not name refuses the executable.\<close>

definition decode_enum :: "(nat \<times> 'a) list \<Rightarrow> nat \<Rightarrow> 'a def_result" where
  "decode_enum table v = ok_or (map_of table v) ()"

fun decode_values :: "(nat \<times> 'a) list \<Rightarrow> nat list \<Rightarrow> 'a list def_result" where
  "decode_values table [] = Done []"
| "decode_values table (v # vs) =
     obind (decode_enum table v) (\<lambda>x. obind (decode_values table vs) (\<lambda>xs. Done (x # xs)))"

definition decode_vector :: "(nat \<times> 'a) list \<Rightarrow> nat list option \<Rightarrow> 'a list def_result" where
  "decode_vector table vs = (case vs of Some vs \<Rightarrow> decode_values table vs | None \<Rightarrow> Done [])"

definition conv_dimension_tags :: "(nat \<times> conv_dimension) list" where
  "conv_dimension_tags =
     [(0, InputWidth), (1, InputHeight), (2, InputChannels), (5, OutputChannels), (6, WeightsWidth), (7, WeightsHeight)]"

definition quant_param_tags :: "(nat \<times> quant_param) list" where
  "quant_param_tags = [(0, OutputScale), (1, InputZeroPoint), (2, OutputZeroPoint)]"

definition matmul_dimension_tags :: "(nat \<times> matmul_dimension) list" where
  "matmul_dimension_tags = [(0, DimM), (1, DimK), (2, DimN)]"

definition pooling_dimension_tags :: "(nat \<times> pooling_dimension) list" where
  "pooling_dimension_tags =
     [(0, PoolWidth), (1, PoolHeight), (2, PoolChannels), (3, KernelWidth), (4, KernelHeight), (5, StrideX), (6, StrideY)]"

definition pooling_method_tags :: "(nat \<times> pooling_method) list" where
  "pooling_method_tags = [(0, AvgPool), (1, MaxPool), (2, MinPool)]"

definition pooling_precision_tags :: "(nat \<times> pooling_precision) list" where
  "pooling_precision_tags = [(0, PoolInt8), (1, PoolFp16)]"

definition ew_dimension_tags :: "(nat \<times> ew_dimension) list" where
  "ew_dimension_tags = [(0, EwWidth), (1, EwHeight), (2, EwChannels)]"

definition unary_op_tags :: "(nat \<times> ew_unary_algo) list" where
  "unary_op_tags = [(0, UnaryAbs), (1, UnaryNeg), (2, UnaryFloor), (3, UnaryCeil), (4, UnaryAdd)]"

definition binary_op_tags :: "(nat \<times> ew_binary_op) list" where
  "binary_op_tags = [(0, EwAdd), (1, EwSub), (2, EwMul), (3, EwMax), (4, EwMin)]"

definition lut_function_tags :: "(nat \<times> lut_function) list" where
  "lut_function_tags =
     [(0, Sigmoid), (1, Tanh), (2, ExpFn), (3, Square), (4, Erf), (5, SqrtFn), (6, Rsqrt), (7, LogFn), (8, Reciprocal)]"

section \<open>Activations and precisions\<close>

definition decode_def_activation :: "nat \<Rightarrow> nat \<Rightarrow> activation def_result" where
  "decode_def_activation tag cmp = decode_enum [(0, NoActivation), (1, Relu), (2, Clamped cmp)] tag"

text \<open>An output scale the dispatch supplies is replaced by one, whose bit pattern is \<open>0x3F800000\<close>.\<close>

definition decode_def_precision :: "quant_def \<Rightarrow> bool \<Rightarrow> precision def_result option" where
  "decode_def_precision d runtime_output_scale =
     (let out = (if runtime_output_scale then 0x3F800000 else qd_output_scale d) in
      if qd_precision d = 0 \<or> qd_precision d = 2 then
        if positive_f32 (qd_input_scale d) \<and> positive_f32 (qd_weights_scale d) \<and> positive_f32 out
        then map_option (\<lambda>r. obind (map_refused (\<lambda>_. ()) r) (\<lambda>m.
               let q = \<lparr>input_zero_point = as_i32 (qd_input_zero_point d),
                        output_zero_point = as_i32 (qd_output_zero_point d),
                        weight_zero_point = as_i32 (qd_weights_zero_point d),
                        input_scale = qd_input_scale d, weights_scale = qd_weights_scale d, q_multiplier = m\<rparr> in
               if qd_precision d = 2
               then refuse_unless (qd_input_zero_point d = 0 \<and> qd_output_zero_point d = 0
                      \<and> qd_weights_zero_point d = 0) () (Done (Int8Accumulator q))
               else Done (Int8 q)))
             (try_from_ratio (scale_ratio (qd_input_scale d) (qd_weights_scale d) out))
        else Some (Refused ())
      else if qd_precision d = 1 then Some (Done Fp16)
      else Some (Refused ()))"

section \<open>Kernels\<close>

text \<open>\<open>executable.validate_template().map_err(|_| ())?; Ok(kind(executable))\<close>.\<close>

definition accept :: "unit template_result \<Rightarrow> ukernel_shape \<Rightarrow> ukernel_shape def_result" where
  "accept valid shape = obind (map_refused (\<lambda>_. ()) valid) (\<lambda>_. Done shape)"

definition decode_conv :: "planning_policy \<Rightarrow> conv_def \<Rightarrow> ukernel_shape def_result option" where
  "decode_conv pol d =
     (case decode_vector quant_param_tags (cd_runtime_quantization d) of
        Refused e \<Rightarrow> Some (Refused e)
      | Panicked \<Rightarrow> Some Panicked
      | Done params \<Rightarrow>
          returned (decode_def_precision (cd_quant d) (OutputScale \<in> set params)) (\<lambda>p.
          obind (decode_def_activation (cd_activation d) (cd_activation_cmp d)) (\<lambda>act.
          obind (decode_vector conv_dimension_tags (cd_runtime_dimensions d)) (\<lambda>dims.
          obind (decode_enum [(0, NoActivation), (1, Relu)] (cd_epilogue_activation d)) (\<lambda>epilogue.
          let x = \<lparr>cx_shape =
                     \<lparr>width = cd_input_width d, height = cd_input_height d, stride = cd_stride d,
                      in_channels = cd_input_channels d, out_channels = cd_output_channels d, precision = p,
                      padding = Some (cd_pad_top d, cd_pad_left d), activation = act, depthwise = cd_depthwise d\<rparr>,
                   cx_kernels = (cd_weights_height d, cd_weights_width d), cx_dimensions = dims,
                   cx_quantization = params, cx_epilogue_add = cd_epilogue_add d,
                   cx_epilogue_activation = epilogue, cx_dense_readers = cd_runtime_dense_readers d,
                   cx_layout = cd_runtime_layout d, cx_weights_packed = cd_weights_packed d\<rparr>
          in accept (conv_validate_template pol x) (UConv x))))))"

definition decode_matmul_shape :: "matmul_def \<Rightarrow> fc_shape def_result option" where
  "decode_matmul_shape d =
     returned (decode_def_precision (md_quant d) False) (\<lambda>p.
     refuse_unless (\<not> writes_accumulators p) ()
     (obind (decode_def_activation (md_activation d) (md_activation_cmp d)) (\<lambda>act.
      Done \<lparr>fc_m = fst (md_extents d), fc_k = fst (snd (md_extents d)), fc_n = snd (snd (md_extents d)),
            fc_precision = p, fc_activation = act\<rparr>)))"

definition decode_fully_connected :: "planning_policy \<Rightarrow> matmul_def \<Rightarrow> ukernel_shape def_result option" where
  "decode_fully_connected pol d =
     returned (decode_matmul_shape d) (\<lambda>f.
     let x = matmul_new_static f in accept (matmul_validate_template pol x) (UMatmul x))"

definition decode_matmul :: "planning_policy \<Rightarrow> matmul_def \<Rightarrow> ukernel_shape def_result option" where
  "decode_matmul pol d =
     returned (decode_matmul_shape d) (\<lambda>f.
     obind (decode_vector matmul_dimension_tags (md_runtime_dimensions d)) (\<lambda>dims.
     let x = \<lparr>mx_shape = f, mx_dimensions = dims, mx_dense_readers = md_runtime_dense_readers d,
              mx_layout = md_runtime_layout d, mx_weights_packed = md_weights_packed d\<rparr>
     in accept (matmul_validate_template pol x) (UMatmul x)))"

text \<open>\<open>pad_left | pad_top | pad_right | pad_bottom != 0\<close> says that one of them is not zero.\<close>

definition decode_pooling :: "pooling_def \<Rightarrow> ukernel_shape def_result" where
  "decode_pooling d =
     obind (decode_enum pooling_method_tags (pd_method d)) (\<lambda>method.
     obind (decode_enum pooling_precision_tags (pd_precision d)) (\<lambda>p.
     let padded = (pd_pad_left d \<noteq> 0 \<or> pd_pad_top d \<noteq> 0 \<or> pd_pad_right d \<noteq> 0 \<or> pd_pad_bottom d \<noteq> 0) in
     obind (ok_or (required_pad_fill method p padded) ()) (\<lambda>fill.
     obind (decode_vector pooling_dimension_tags (pd_runtime_dimensions d)) (\<lambda>dims.
     let x = \<lparr>px_shape =
                \<lparr>input_width = pd_input_width d, input_height = pd_input_height d, input_channels = pd_channels d,
                 output_width = pd_output_width d, output_height = pd_output_height d,
                 output_channels = pd_channels d, pool_precision = p, kernel_width = pd_kernel_width d,
                 kernel_height = pd_kernel_height d, stride_x = pd_stride_x d, stride_y = pd_stride_y d,
                 pool_method = method, pad_left = pd_pad_left d, pad_top = pd_pad_top d,
                 pad_right = pd_pad_right d, pad_bottom = pd_pad_bottom d, pad_value = fill\<rparr>,
              px_dimensions = dims, px_dense_readers = pd_runtime_dense_readers d,
              px_layout = pd_runtime_layout d\<rparr>
     in accept (pooling_validate_template x) (UPooling x)))))"

definition decode_unary :: "ew_def \<Rightarrow> ukernel_shape def_result" where
  "decode_unary d =
     obind (decode_enum unary_op_tags (ed_op d)) (\<lambda>algo.
     obind (decode_vector ew_dimension_tags (ed_runtime_dimensions d)) (\<lambda>dims.
     let x = \<lparr>ux_geometry = ed_geometry d, ux_algo = algo, ux_operand = ed_operand d, ux_dimensions = dims,
              ux_dense_readers = ed_runtime_dense_readers d, ux_layout = ed_runtime_layout d\<rparr>
     in accept (unary_validate_template x) (UUnary x)))"

definition decode_binary :: "ew_def \<Rightarrow> ukernel_shape def_result" where
  "decode_binary d =
     obind (decode_enum binary_op_tags (ed_op d)) (\<lambda>op.
     obind (decode_vector ew_dimension_tags (ed_runtime_dimensions d)) (\<lambda>dims.
     let x = \<lparr>bx_geometry = ed_geometry d, bx_op = op, bx_dimensions = dims,
              bx_dense_readers = ed_runtime_dense_readers d, bx_layout = ed_runtime_layout d\<rparr>
     in accept (binary_validate_template x) (UBinary x)))"

definition decode_lut :: "lut_def \<Rightarrow> ukernel_shape def_result" where
  "decode_lut d =
     obind (decode_enum lut_function_tags (ed_op d)) (\<lambda>function.
     obind (decode_vector ew_dimension_tags (ed_runtime_dimensions d)) (\<lambda>dims.
     let x = \<lparr>lx_geometry = ed_geometry d, lx_function = function,
              lx_input_zero_point = as_i32 (ld_input_zero_point d),
              lx_output_zero_point = as_i32 (ld_output_zero_point d), lx_input_scale = ld_input_scale d,
              lx_output_scale = ld_output_scale d, lx_dimensions = dims,
              lx_dense_readers = ed_runtime_dense_readers d, lx_layout = ed_runtime_layout d\<rparr>
     in accept (lut_validate_template x) (ULut x)))"

fun decode_kernel :: "planning_policy \<Rightarrow> kernel_def \<Rightarrow> ukernel_shape def_result option" where
  "decode_kernel pol (Conv2DDef d) = decode_conv pol d"
| "decode_kernel pol (FullyConnectedDef d) = decode_fully_connected pol d"
| "decode_kernel pol (MatmulDef d) = decode_matmul pol d"
| "decode_kernel pol (PoolingDef d) = Some (decode_pooling d)"
| "decode_kernel pol (ElementwiseUnaryDef d) = Some (decode_unary d)"
| "decode_kernel pol (ElementwiseBinaryDef d) = Some (decode_binary d)"
| "decode_kernel pol (ElementwiseLutDef d) = Some (decode_lut d)"

section \<open>The container\<close>

definition IREE_FLATBUFFER_HEADER_SIZE :: nat where "IREE_FLATBUFFER_HEADER_SIZE = 64"

text \<open>The bytes of \<open>RKT1\<close>.\<close>

definition container_magic :: "byte list" where "container_magic = [0x52, 0x4B, 0x54, 0x31]"

type_synonym schema_parser = "byte list \<Rightarrow> kernel_def option list option"

definition flatbuffer_of :: "byte list \<Rightarrow> byte list def_result" where
  "flatbuffer_of data =
     refuse_unless (IREE_FLATBUFFER_HEADER_SIZE \<le> length data \<and> take 4 data = container_magic) ()
     (refuse_unless (from_le_bytes (take 4 (drop 4 data)) = 0) ()
     (let content_size = from_le_bytes (take 8 (drop 8 data)) in
      refuse_unless (content_size \<noteq> 0 \<and> content_size \<le> length data - IREE_FLATBUFFER_HEADER_SIZE) ()
      (Done (take content_size (drop IREE_FLATBUFFER_HEADER_SIZE data)))))"

definition decode_flatbuffer_shape ::
  "(byte list \<Rightarrow> bool) \<Rightarrow> schema_parser \<Rightarrow> planning_policy \<Rightarrow> byte list \<Rightarrow> ukernel_shape def_result option" where
  "decode_flatbuffer_shape identified parse pol data =
     (case flatbuffer_of data of
        Refused e \<Rightarrow> Some (Refused e)
      | Panicked \<Rightarrow> Some Panicked
      | Done flatbuffer \<Rightarrow>
          (if \<not> identified flatbuffer then Some (Refused ())
           else case parse flatbuffer of
             None \<Rightarrow> Some (Refused ())
           | Some exports \<Rightarrow>
               (case exports of
                  [Some k] \<Rightarrow> decode_kernel pol k
                | _ \<Rightarrow> Some (Refused ()))))"

section \<open>Preparing an executable\<close>

datatype prepare_status = Prepared ukernel_shape | InvalidArgument | NotFound

text \<open>The bytes of the two format names.\<close>

definition byte_string :: "string \<Rightarrow> byte list" where
  "byte_string s = map of_char s"

definition FLATBUFFER_FORMAT :: "byte list" where
  "FLATBUFFER_FORMAT = byte_string ''rocket-flatbuffer-v1''"

definition LEGACY_FORMAT :: "byte list" where
  "LEGACY_FORMAT = byte_string ''rocket-conv2d-v1''"

text \<open>A format is \<open>None\<close> when its pointer is null.\<close>

definition can_prepare_format :: "byte list option \<Rightarrow> bool" where
  "can_prepare_format format =
     (case format of None \<Rightarrow> False | Some f \<Rightarrow> f \<noteq> [] \<and> (f = FLATBUFFER_FORMAT \<or> f = LEGACY_FORMAT))"

definition CONV2D_V1_TAG :: nat where "CONV2D_V1_TAG = 3"

definition legacy_shape :: "precision \<Rightarrow> ukernel_shape" where
  "legacy_shape p =
     UConv (conv_new_static
       \<lparr>width = 4, height = 4, stride = 1, in_channels = 1, out_channels = 1, precision = p,
        padding = Some (0, 0), activation = NoActivation, depthwise = False\<rparr> (1, 1))"

definition prepare_legacy :: "planning_policy \<Rightarrow> byte list \<Rightarrow> (unit, prepare_status) outcome option" where
  "prepare_legacy pol bytes =
     (let tag = (case bytes of b # _ \<Rightarrow> unat b | [] \<Rightarrow> 0) in
      if tag = CONV2D_V1_TAG then
        Some (case decode_conv_shape_v1 (tl bytes) of
            Refused _ \<Rightarrow> Done InvalidArgument
          | Panicked \<Rightarrow> Panicked
          | Done (s, ks) \<Rightarrow>
              (case validate_conv_shape pol s ks of
                 Refused _ \<Rightarrow> Done InvalidArgument
               | Panicked \<Rightarrow> Panicked
               | Done _ \<Rightarrow> Done (Prepared (UConv (conv_new_static s ks)))))
      else if tag = 1 then Some (Done InvalidArgument)
      else if tag = 2 then Some (Done (Prepared (legacy_shape Fp16)))
      else map_option (\<lambda>r. case r of
            Done m \<Rightarrow> Done (Prepared (legacy_shape (Int8
              \<lparr>input_zero_point = 0, output_zero_point = 0, weight_zero_point = 0,
               input_scale = 0x3F800000, weights_scale = 0x3F800000, q_multiplier = m\<rparr>)))
          | _ \<Rightarrow> Panicked) (from_ratio (Fin 1)))"

text \<open>The data is \<open>None\<close> when its pointer is null but its length is not zero.\<close>

definition prepare_executable ::
  "(byte list \<Rightarrow> bool) \<Rightarrow> schema_parser \<Rightarrow> planning_policy \<Rightarrow> byte list option \<Rightarrow> byte list option
   \<Rightarrow> (unit, prepare_status) outcome option" where
  "prepare_executable identified parse pol format data =
     (case format of
        None \<Rightarrow> Some (Done InvalidArgument)
      | Some f \<Rightarrow>
          if f = [] then Some (Done InvalidArgument)
          else case data of
            None \<Rightarrow> Some (Done InvalidArgument)
          | Some bytes \<Rightarrow>
              if f = FLATBUFFER_FORMAT then
                map_option (\<lambda>r. case r of
                    Done shape \<Rightarrow> Done (Prepared shape)
                  | Refused _ \<Rightarrow> Done InvalidArgument
                  | Panicked \<Rightarrow> Panicked) (decode_flatbuffer_shape identified parse pol bytes)
              else if f \<noteq> LEGACY_FORMAT then Some (Done NotFound)
              else prepare_legacy pol bytes)"

end
