(* ===== verification/ExecutableCacheProperties.thy ===== *)
theory ExecutableCacheProperties
  imports ExecutableCache ConvTemplateProperties
begin

text \<open>
  Preparing an executable always ends in a status, whatever the bytes and whatever the schema's parser
  makes of them; and what it prepares, every dispatch can resolve.
\<close>

section \<open>No table makes the decoder hang or unwind\<close>

lemma decode_enum_no_panic [no_panic]: "decode_enum table v \<noteq> Panicked"
  by (cases "map_of table v") (simp_all add: decode_enum_def)

lemma decode_values_no_panic: "decode_values table vs \<noteq> Panicked"
proof (induction vs)
  case (Cons v vs)
  then show ?case unfolding decode_values.simps by (intro no_panic)
qed simp

lemma decode_vector_no_panic [no_panic]: "decode_vector table vs \<noteq> Panicked"
  by (simp add: decode_vector_def decode_values_no_panic split: option.split)

lemma decode_def_activation_no_panic [no_panic]: "decode_def_activation tag cmp \<noteq> Panicked"
  by (simp add: decode_def_activation_def decode_enum_no_panic)

lemma accept_no_panic [no_panic]: "v \<noteq> Panicked \<Longrightarrow> accept v shape \<noteq> Panicked"
  unfolding accept_def by (intro no_panic)

lemma accept_Done: "accept v shape = Done e \<longleftrightarrow> v = Done () \<and> e = shape"
  by (cases v) (auto simp: accept_def)

lemma decode_def_precision_ends: "ends (decode_def_precision d given)"
proof -
  let ?out = "if given then 0x3F800000 else qd_output_scale d"
  show ?thesis
  proof (cases "positive_f32 (qd_input_scale d) \<and> positive_f32 (qd_weights_scale d) \<and> positive_f32 ?out")
    case True
    then obtain r where "try_from_ratio (scale_ratio (qd_input_scale d) (qd_weights_scale d) ?out) = Some r"
      "r \<noteq> Panicked" by (blast elim: scale_ratio_settles)
    then show ?thesis
      using True by (cases r) (simp_all add: decode_def_precision_def Let_def ends_def refuse_unless_def)
  next
    case False
    then show ?thesis by (auto simp: decode_def_precision_def Let_def ends_def)
  qed
qed

text \<open>What a decoded precision says: its scales are positive.\<close>

lemma decode_def_precision_calibrated:
  "decode_def_precision d given = Some (Done p) \<Longrightarrow> calibrated p"
  by (auto simp: decode_def_precision_def Let_def calibrated_def outcome_done split: if_splits)

lemma check_quantization_no_panic:
  "length seen = 3 \<Longrightarrow> check_quantization p seen params \<noteq> Panicked"
proof (induction params arbitrary: seen)
  case (Cons x xs)
  have "quant_index x < 3" by (cases x) simp_all
  with Cons show ?case by (auto simp: refuse_unless_def split: precision.split)
qed simp

lemma conv_template_no_panic [no_panic]: "conv_validate_template pol x \<noteq> Panicked"
  unfolding conv_validate_template_def
  by (intro no_panic conv.check_dimensions_no_panic check_quantization_no_panic; simp split del: if_split;
      intro no_panic conjI impI)

lemma pooling_resolve_no_panic [no_panic]: "pooling_resolve_shape x constants \<noteq> Panicked"
  unfolding pooling_resolve_shape_def Let_def validate_caught_def
  by (intro no_panic floor_extent_no_panic) (simp split: outcome.split)

lemma matmul_resolve_no_panic [no_panic]: "matmul_resolve_shape pol x constants \<noteq> Panicked"
  unfolding matmul_resolve_shape_def by (intro no_panic try_as_conv_shape_no_panic)

lemma pooling_template_no_panic [no_panic]: "pooling_validate_template x \<noteq> Panicked"
  unfolding pooling_validate_template_def
  by (intro no_panic pooling.check_dimensions_no_panic)

lemma matmul_template_no_panic [no_panic]: "matmul_validate_template pol x \<noteq> Panicked"
  unfolding matmul_validate_template_def
  by (intro no_panic matmul.check_dimensions_no_panic)

lemma elementwise_template_no_panic [no_panic]: "validate_elementwise_template g ds \<noteq> Panicked"
  unfolding validate_elementwise_template_def by (rule ew.check_dimensions_no_panic)

lemma decode_matmul_shape_ends: "ends (decode_matmul_shape d)"
  unfolding decode_matmul_shape_def
  by (intro ends_returned decode_def_precision_ends no_panic)

lemma ok_or_no_panic [no_panic]: "ok_or x e \<noteq> Panicked"
  by (cases x) simp_all

lemma decode_conv_ends: "ends (decode_conv pol d)"
proof (cases "decode_vector quant_param_tags (cd_runtime_quantization d)")
  case Panicked
  then show ?thesis using decode_vector_no_panic by blast
next
  case (Done params)
  show ?thesis
    unfolding decode_conv_def Done outcome.case Let_def
    by (intro ends_returned decode_def_precision_ends no_panic)
qed (simp add: decode_conv_def ends_def)

lemma decode_kernel_ends: "ends (decode_kernel pol k)"
proof (cases k)
  case (PoolingDef d)
  show ?thesis
    unfolding PoolingDef decode_kernel.simps decode_pooling_def Let_def by (intro ends_Some no_panic)
next
  case (FullyConnectedDef d)
  show ?thesis
    unfolding FullyConnectedDef decode_kernel.simps decode_fully_connected_def Let_def
    by (intro ends_returned decode_matmul_shape_ends no_panic)
next
  case (MatmulDef d)
  show ?thesis
    unfolding MatmulDef decode_kernel.simps decode_matmul_def Let_def
    by (intro ends_returned decode_matmul_shape_ends no_panic)
next
  case (ElementwiseUnaryDef d)
  show ?thesis
    unfolding ElementwiseUnaryDef decode_kernel.simps decode_unary_def unary_validate_template_def Let_def
    by (intro ends_Some no_panic)
next
  case (ElementwiseBinaryDef d)
  show ?thesis
    unfolding ElementwiseBinaryDef decode_kernel.simps decode_binary_def binary_validate_template_def Let_def
    by (intro ends_Some no_panic)
next
  case (ElementwiseLutDef d)
  show ?thesis
    unfolding ElementwiseLutDef decode_kernel.simps decode_lut_def lut_validate_template_def Let_def
    by (intro ends_Some no_panic)
qed (simp add: decode_conv_ends)

lemma decode_flatbuffer_shape_ends: "ends (decode_flatbuffer_shape identified parse pol data)"
proof -
  have "flatbuffer_of data \<noteq> Panicked"
    unfolding flatbuffer_of_def Let_def by (intro no_panic)
  then show ?thesis
    by (auto simp: decode_flatbuffer_shape_def decode_kernel_ends
        split: outcome.split option.split list.split intro!: ends_Some)
qed

section \<open>Every preparation ends\<close>

lemma from_ratio_one: "\<exists>m. from_ratio (Fin 1) = Some (Done m)"
proof -
  have "binary64 1" unfolding binary64_def by (rule exI [of _ 1], rule exI [of _ 0]) simp
  then have "encodable (Fin 1)" by (simp add: encodable_def)
  then show ?thesis using encodable_multiplier by blast
qed

lemma decode_conv_shape_no_panic: "decode_conv_shape_v1 payload \<noteq> Panicked"
  unfolding decode_payload by (auto simp: obind_eq_Panicked split: if_splits)

lemma prepare_legacy_ends: "ends (prepare_legacy pol bytes)"
  using from_ratio_one decode_conv_shape_no_panic [of "tl bytes"] validate_conv_shape_no_panic
  by (auto simp: prepare_legacy_def Let_def ends_def split: outcome.split list.split if_split_asm)

lemma prepare_legacy_found:
  "prepare_legacy pol bytes \<noteq> Some (Done NotFound)" "prepare_legacy pol bytes \<noteq> Some (Refused u)"
  by (auto simp: prepare_legacy_def Let_def split: outcome.split list.split if_split_asm)

lemma byte_string_formats: "FLATBUFFER_FORMAT \<noteq> []" "LEGACY_FORMAT \<noteq> []" "FLATBUFFER_FORMAT \<noteq> LEGACY_FORMAT"
  by (simp_all add: FLATBUFFER_FORMAT_def LEGACY_FORMAT_def byte_string_def)

text \<open>
  C25. Whatever the format, the bytes and the answers of the schema's parser, preparing an executable
  ends in a status, without looping and without unwinding. It is the status for an unknown format
  exactly when the arguments are not null and the cache says it cannot prepare that format.
\<close>

theorem preparation_always_ends:
  "\<exists>status. prepare_executable identified parse pol format data = Some (Done status)
    \<and> (status = NotFound \<longleftrightarrow> format \<noteq> None \<and> format \<noteq> Some [] \<and> data \<noteq> None \<and> \<not> can_prepare_format format)"
proof (cases "format = None \<or> format = Some [] \<or> data = None")
  case True
  then show ?thesis by (auto simp: prepare_executable_def split: option.split)
next
  case False
  then obtain f bytes where f: "format = Some f" "f \<noteq> []" and bytes: "data = Some bytes" by auto
  consider "f = FLATBUFFER_FORMAT" | "f = LEGACY_FORMAT" | "f \<noteq> FLATBUFFER_FORMAT" "f \<noteq> LEGACY_FORMAT" by blast
  then show ?thesis
  proof cases
    case 1
    obtain r where r: "decode_flatbuffer_shape identified parse pol bytes = Some r" "r \<noteq> Panicked"
      using decode_flatbuffer_shape_ends [of identified parse pol bytes] by (auto simp: ends_def)
    then show ?thesis
      using f bytes 1 by (cases r) (auto simp: prepare_executable_def can_prepare_format_def)
  next
    case 2
    obtain r where r: "prepare_legacy pol bytes = Some r" "r \<noteq> Panicked" "r \<noteq> Done NotFound" "\<And>u. r \<noteq> Refused u"
      using prepare_legacy_ends [of pol bytes] prepare_legacy_found [of pol bytes] by (auto simp: ends_def)
    then show ?thesis
      using f bytes 2 byte_string_formats(3)
      by (cases r) (auto simp: prepare_executable_def can_prepare_format_def)
  next
    case 3
    then show ?thesis using f bytes by (auto simp: prepare_executable_def can_prepare_format_def)
  qed
qed

section \<open>What is prepared can be dispatched\<close>

text \<open>What the accessors of a table return: 32-bit fields.\<close>

fun u32_table :: "kernel_def \<Rightarrow> bool" where
  "u32_table (Conv2DDef d) \<longleftrightarrow> cd_input_width d < 2 ^ 32 \<and> cd_input_height d < 2 ^ 32 \<and> cd_stride d < 2 ^ 32
     \<and> cd_input_channels d < 2 ^ 32 \<and> cd_output_channels d < 2 ^ 32 \<and> cd_weights_height d < 2 ^ 32
     \<and> cd_weights_width d < 2 ^ 32"
| "u32_table k \<longleftrightarrow> True"

lemma decode_conv_Done:
  assumes "decode_conv pol d = Some (Done e)" "u32_table (Conv2DDef d)"
  obtains x where "e = UConv x" "conv_validate_template pol x = Done ()" "u32_shape (cx_shape x)"
    "u32_kernels (cx_kernels x)" "calibrated (precision (cx_shape x))"
proof -
  obtain params p act dims epilogue where
    p: "decode_def_precision (cd_quant d) (OutputScale \<in> set params) = Some (Done p)" and
    x: "accept (conv_validate_template pol x) (UConv x) = Done e"
    if "x = \<lparr>cx_shape =
                     \<lparr>width = cd_input_width d, height = cd_input_height d, stride = cd_stride d,
                      in_channels = cd_input_channels d, out_channels = cd_output_channels d, precision = p,
                      padding = Some (cd_pad_top d, cd_pad_left d), activation = act, depthwise = cd_depthwise d\<rparr>,
                   cx_kernels = (cd_weights_height d, cd_weights_width d), cx_dimensions = dims,
                   cx_quantization = params, cx_epilogue_add = cd_epilogue_add d,
                   cx_epilogue_activation = epilogue, cx_dense_readers = cd_runtime_dense_readers d,
                   cx_layout = cd_runtime_layout d, cx_weights_packed = cd_weights_packed d\<rparr>" for x
    using assms(1)
    by (auto simp: decode_conv_def Let_def returned_Done obind_eq_Done split: outcome.splits)
  from that x [OF refl] decode_def_precision_calibrated [OF p] assms(2) show thesis
    by (simp add: accept_Done u32_shape_def u32_kernels_def)
qed

definition positive_extents :: "nat \<Rightarrow> nat \<Rightarrow> nat \<Rightarrow> bool" where
  "positive_extents w h c \<longleftrightarrow> 0 < w \<and> 0 < h \<and> 0 < c"

text \<open>What a dispatch of a prepared executable can rely on.\<close>

definition dispatchable :: "planning_policy \<Rightarrow> byte list \<Rightarrow> ukernel_shape \<Rightarrow> bool" where
  "dispatchable pol constants e = (case e of
     UConv x \<Rightarrow>
       (case conv_resolve_shape pol x constants of
          Some (Done (s, ks)) \<Rightarrow> is_done (try_new pol s ks)
        | Some (Refused e) \<Rightarrow> True
        | _ \<Rightarrow> False)
   | UMatmul x \<Rightarrow>
       (case matmul_resolve_shape pol x constants of Done f \<Rightarrow> is_done (fc_plan_try_new pol f) | Refused e \<Rightarrow> True | Panicked \<Rightarrow> False)
   | UPooling x \<Rightarrow>
       (case pooling_resolve_shape x constants of Done s \<Rightarrow> is_done (validate s) | Refused e \<Rightarrow> True | Panicked \<Rightarrow> False)
   | UUnary x \<Rightarrow>
       (case unary_resolve_shape x constants of
          Done s \<Rightarrow> positive_extents (eu_width s) (eu_height s) (eu_channels s) \<and> (eu_operand s = 0 \<or> eu_algo s = UnaryAdd)
        | Refused e \<Rightarrow> True | Panicked \<Rightarrow> False)
   | UBinary x \<Rightarrow>
       (case binary_resolve_shape x constants of
          Done s \<Rightarrow> positive_extents (ea_width s) (ea_height s) (ea_channels s) \<and> ea_precision s = EwFp16
        | Refused e \<Rightarrow> True | Panicked \<Rightarrow> False)
   | ULut x \<Rightarrow>
       (case lut_resolve_shape x constants of
          Done s \<Rightarrow> positive_extents (lut_width s) (lut_height s) (lut_channels s)
            \<and> lut_input_zero_point s \<in> {0, 126, 128, 255} \<and> positive_f32 (lut_input_scale s) \<and> positive_f32 (lut_output_scale s)
        | Refused e \<Rightarrow> True | Panicked \<Rightarrow> False))"

lemma resolve_geometry_no_panic [no_panic]: "resolve_elementwise_geometry g ds trailing constants \<noteq> Panicked"
  unfolding resolve_elementwise_geometry_def by (intro no_panic)

lemma prepared_elementwise:
  "unary_validate_template x = Done () \<Longrightarrow> dispatchable pol constants (UUnary x)"
  "binary_validate_template y = Done () \<Longrightarrow> dispatchable pol constants (UBinary y)"
  "lut_validate_template z = Done () \<Longrightarrow> dispatchable pol constants (ULut z)"
proof -
  have extents: "positive_extents (eg_width t) (eg_height t) (eg_channels t)"
    if "validate_elementwise_template g ds = Done ()" "resolve_elementwise_geometry g ds trailing constants = Done t"
    for g ds trailing t
    using resolved_geometry(1) [OF that, of EwWidth] resolved_geometry(1) [OF that, of EwHeight]
      resolved_geometry(1) [OF that, of EwChannels] by (simp add: positive_extents_def)
  show "unary_validate_template x = Done () \<Longrightarrow> dispatchable pol constants (UUnary x)"
    using resolve_geometry_no_panic extents
    by (cases "resolve_elementwise_geometry (ux_geometry x) (ux_dimensions x) (ux_dense_readers x \<or> ux_layout x) constants")
       (auto simp: dispatchable_def unary_resolve_shape_def unary_validate_template_def outcome_done)
  show "binary_validate_template y = Done () \<Longrightarrow> dispatchable pol constants (UBinary y)"
    using resolve_geometry_no_panic extents
    by (cases "resolve_elementwise_geometry (bx_geometry y) (bx_dimensions y) (bx_dense_readers y \<or> bx_layout y) constants")
       (auto simp: dispatchable_def binary_resolve_shape_def binary_validate_template_def outcome_done)
  show "lut_validate_template z = Done () \<Longrightarrow> dispatchable pol constants (ULut z)"
    using resolve_geometry_no_panic extents
    by (cases "resolve_elementwise_geometry (lx_geometry z) (lx_dimensions z) (lx_dense_readers z \<or> lx_layout z) constants")
       (auto simp: dispatchable_def lut_resolve_shape_def lut_validate_template_def outcome_done
          SUPPORTED_LUT_ZERO_POINTS_def biased_zero_point_def)
qed

lemma prepared_matmul:
  assumes "matmul_validate_template pol x = Done ()"
  shows "dispatchable pol constants (UMatmul x)"
proof -
  have "check_dimensions matmul_index (\<lambda>d. matmul_get d (mx_shape x)) all_matmul_dimensions (mx_dimensions x) = Done ()"
    using assms by (auto simp: matmul_validate_template_def outcome_done)
  note r = matmul_resolution [OF this, of pol constants]
  have "\<exists>plan. fc_plan_try_new pol f = Done plan" if "matmul_resolve_shape pol x constants = Done f" for f
    using r that by blast
  then show ?thesis
    using matmul_resolve_no_panic
    by (cases "matmul_resolve_shape pol x constants") (fastforce simp: dispatchable_def)+
qed

lemma prepared_pooling:
  assumes "pooling_validate_template x = Done ()" "input_channels (px_shape x) = output_channels (px_shape x)"
  shows "dispatchable pol constants (UPooling x)"
proof -
  have "check_dimensions pooling_index (\<lambda>d. pooling_get d (px_shape x)) all_pooling_dimensions (px_dimensions x) = Done ()"
    using assms(1) by (auto simp: pooling_validate_template_def outcome_done)
  note r = pooling_resolution [OF this assms(2), of constants]
  have "validate s = Done ()" if "pooling_resolve_shape x constants = Done s" for s
    using r that by blast
  then show ?thesis
    using pooling_resolve_no_panic
    by (cases "pooling_resolve_shape x constants") (auto simp: dispatchable_def)
qed

lemma prepared_conv:
  assumes "conv_validate_template pol x = Done ()" "u32_shape (cx_shape x)" "u32_kernels (cx_kernels x)"
    "calibrated (precision (cx_shape x))"
  shows "dispatchable pol constants (UConv x)"
proof -
  have scales: "cx_quantization x \<noteq> [] \<longrightarrow> calibrated (precision (cx_shape x))" using assms(4) by simp
  note r = conv_resolution [OF assms(1-3) scales, of constants]
  from r have planned: "\<exists>plan. try_new pol s ks = Done plan"
    if "conv_resolve_shape pol x constants = Some (Done (s, ks))" for s ks using that by blast
  show ?thesis
  proof (cases "conv_resolve_shape pol x constants")
    case (Some res)
    show ?thesis
    proof (cases res)
      case (Done c)
      with Some planned [of "fst c" "snd c"] show ?thesis
        by (auto simp: dispatchable_def split: prod.splits)
    qed (use r Some in \<open>auto simp: dispatchable_def\<close>)
  qed (use r in simp)
qed


definition sample_header :: "byte list" where
  "sample_header = [0x52, 0x4B, 0x54, 0x31, 0, 0, 0, 0, 1, 0, 0, 0, 0, 0, 0, 0] @ replicate 48 0"

definition sample_parser :: schema_parser where
  "sample_parser _ = Some [Some (ElementwiseUnaryDef
     \<lparr>ed_op = 1, ed_geometry = \<lparr>eg_width = 0, eg_height = 3, eg_channels = 16\<rparr>, ed_operand = 0,
      ed_runtime_dimensions = Some [0], ed_runtime_dense_readers = False, ed_runtime_layout = True\<rparr>)]"

definition sample_unary :: ew_unary_executable where
  "sample_unary = \<lparr>ux_geometry = \<lparr>eg_width = 0, eg_height = 3, eg_channels = 16\<rparr>, ux_algo = UnaryNeg,
     ux_operand = 0, ux_dimensions = [EwWidth], ux_dense_readers = False, ux_layout = True\<rparr>"


end
