(* ===== verification/PlanAbi.thy ===== *)
theory PlanAbi
  imports Requantization FullyConnected Admission CubeLayout WeightLayout
begin

text \<open>
  The versioned C interface over the planner (\<open>rocket-plan-ffi/src/lib.rs\<close>): planning, admission,
  cube geometry and coefficient packing for callers that are not Rust.

  A pointer is an option, \<open>None\<close> being null; a buffer is the list of the bytes the caller promises,
  its capacity the length. An entry point returns its status and what it leaves in the caller's
  memory. The text of the message a call formats is an argument of the entry point: only where it
  is written is code of this file. Nothing here is \<open>Panicked\<close> past a boundary, which catches it; a
  multiplier search that does not return is the outer \<open>None\<close>.
\<close>

section \<open>Statuses\<close>

definition ROCKET_PLAN_ABI_VERSION :: nat where "ROCKET_PLAN_ABI_VERSION = 5"

definition ROCKET_PLAN_OK :: nat where "ROCKET_PLAN_OK = 0"
definition ROCKET_PLAN_INVALID_SHAPE :: nat where "ROCKET_PLAN_INVALID_SHAPE = 1"
definition ROCKET_PLAN_UNSUPPORTED_SEMANTICS :: nat where "ROCKET_PLAN_UNSUPPORTED_SEMANTICS = 2"
definition ROCKET_PLAN_HARDWARE_LIMIT :: nat where "ROCKET_PLAN_HARDWARE_LIMIT = 3"
definition ROCKET_PLAN_CAPACITY_EXCEEDED :: nat where "ROCKET_PLAN_CAPACITY_EXCEEDED = 4"
definition ROCKET_PLAN_UNVALIDATED_CONFIGURATION :: nat where "ROCKET_PLAN_UNVALIDATED_CONFIGURATION = 5"
definition ROCKET_PLAN_INTERNAL :: nat where "ROCKET_PLAN_INTERNAL = 6"
definition ROCKET_PLAN_INVALID_ARGUMENT :: nat where "ROCKET_PLAN_INVALID_ARGUMENT = 7"
definition ROCKET_PLAN_LAYOUT_MISMATCH :: nat where "ROCKET_PLAN_LAYOUT_MISMATCH = 8"

lemmas abi_statuses =
  ROCKET_PLAN_OK_def ROCKET_PLAN_INVALID_SHAPE_def ROCKET_PLAN_UNSUPPORTED_SEMANTICS_def
  ROCKET_PLAN_HARDWARE_LIMIT_def ROCKET_PLAN_CAPACITY_EXCEEDED_def
  ROCKET_PLAN_UNVALIDATED_CONFIGURATION_def ROCKET_PLAN_INTERNAL_def
  ROCKET_PLAN_INVALID_ARGUMENT_def ROCKET_PLAN_LAYOUT_MISMATCH_def

fun status_of :: "plan_error_code \<Rightarrow> nat" where
  "status_of InvalidShape = ROCKET_PLAN_INVALID_SHAPE"
| "status_of UnsupportedSemantics = ROCKET_PLAN_UNSUPPORTED_SEMANTICS"
| "status_of HardwareLimit = ROCKET_PLAN_HARDWARE_LIMIT"
| "status_of CapacityExceeded = ROCKET_PLAN_CAPACITY_EXCEEDED"
| "status_of UnvalidatedConfiguration = ROCKET_PLAN_UNVALIDATED_CONFIGURATION"
| "status_of Internal = ROCKET_PLAN_INTERNAL"

definition status_name :: "nat \<Rightarrow> string" where
  "status_name s =
     (if s = ROCKET_PLAN_OK then ''ok''
      else if s = ROCKET_PLAN_INVALID_SHAPE then ''invalid_shape''
      else if s = ROCKET_PLAN_UNSUPPORTED_SEMANTICS then ''unsupported_semantics''
      else if s = ROCKET_PLAN_HARDWARE_LIMIT then ''hardware_limit''
      else if s = ROCKET_PLAN_CAPACITY_EXCEEDED then ''capacity_exceeded''
      else if s = ROCKET_PLAN_UNVALIDATED_CONFIGURATION then ''unvalidated_configuration''
      else if s = ROCKET_PLAN_INTERNAL then ''internal''
      else if s = ROCKET_PLAN_INVALID_ARGUMENT then ''invalid_argument''
      else if s = ROCKET_PLAN_LAYOUT_MISMATCH then ''layout_mismatch''
      else ''unknown'')"

definition status_names :: "string list" where
  "status_names =
     [''ok'', ''invalid_shape'', ''unsupported_semantics'', ''hardware_limit'', ''capacity_exceeded'',
      ''unvalidated_configuration'', ''internal'', ''invalid_argument'', ''layout_mismatch'', ''unknown'']"

definition rocket_plan_status_name :: "nat \<Rightarrow> string" where
  "rocket_plan_status_name s = status_names ! min s (length status_names - 1)"

definition precision_names :: "string list" where
  "precision_names =
     [''fp16'', ''fp16_accumulator'', ''bf16'', ''int16'', ''tf32'', ''int4'', ''int8_requant'',
      ''int8_accumulator'', ''unknown'']"

definition rocket_plan_precision_name :: "nat \<Rightarrow> string" where
  "rocket_plan_precision_name p = precision_names ! min p (length precision_names - 1)"

text \<open>A refusal is its status; \<open>plan_status\<close> is the conversion \<open>?\<close> applies to a planner's refusal.\<close>

type_synonym 'a abi_result = "(nat, 'a) outcome"

definition plan_status :: "'a plan_result \<Rightarrow> 'a abi_result" where
  "plan_status r = map_refused status_of r"

definition invalid :: "'a abi_result" where "invalid = Refused ROCKET_PLAN_INVALID_ARGUMENT"

section \<open>Descriptors\<close>

text \<open>Extents are 64-bit; a float is its binary32 pattern.\<close>

record abi_quantization =
  aq_input_zero_point :: int
  aq_output_zero_point :: int
  aq_weight_zero_point :: int
  aq_input_scale :: nat
  aq_weights_scale :: nat
  aq_output_scale :: nat

record conv_desc =
  cv_struct_size :: nat
  cv_precision :: nat
  cv_width :: nat
  cv_height :: nat
  cv_in_channels :: nat
  cv_out_channels :: nat
  cv_stride :: nat
  cv_kernel_height :: nat
  cv_kernel_width :: nat
  cv_pad_top :: int
  cv_pad_left :: int
  cv_activation :: nat
  cv_activation_ceiling :: nat
  cv_depthwise :: nat
  cv_quantization :: abi_quantization

record matmul_desc =
  mt_struct_size :: nat
  mt_precision :: nat
  mt_m :: nat
  mt_k :: nat
  mt_n :: nat
  mt_activation :: nat
  mt_activation_ceiling :: nat
  mt_quantization :: abi_quantization

record admission_desc =
  ad_struct_size :: nat
  ad_precision :: nat
  ad_kernel_height :: nat
  ad_kernel_width :: nat
  ad_stride :: nat
  ad_in_channels :: nat
  ad_out_channels :: nat
  ad_depthwise :: nat

record matmul_admission_desc =
  am_struct_size :: nat
  am_precision :: nat
  am_m :: nat
  am_k :: nat
  am_n :: nat

record policy_desc =
  pl_struct_size :: nat
  pl_allow_unbacked_channels :: nat
  pl_allow_large_kernel_probing :: nat

record cube_desc =
  cb_struct_size :: nat
  cb_kind :: nat
  cb_element_bytes :: nat
  cb_width :: nat
  cb_height :: nat
  cb_channels :: nat

record cube_summary =
  cg_struct_size :: nat
  cg_whole_atom :: nat
  cg_exact :: nat
  cg_pixel_count :: nat
  cg_surface_pixel_count :: nat
  cg_bytes_per_pixel :: nat
  cg_packed_bytes_per_pixel :: nat
  cg_storage_bytes :: nat

record plan_summary =
  ps_struct_size :: nat
  ps_data_banks :: nat
  ps_weight_banks :: nat
  ps_tile_count :: nat
  ps_column_count :: nat
  ps_output_width :: nat
  ps_output_height :: nat
  ps_weight_bytes :: nat
  ps_output_scratch_bytes :: nat

text \<open>\<open>size_of\<close> of the \<open>repr(C)\<close> structs, padding and reserved bytes included.\<close>

definition CONV_DESC_SIZE :: nat where "CONV_DESC_SIZE = 120"
definition MATMUL_DESC_SIZE :: nat where "MATMUL_DESC_SIZE = 64"
definition ADMISSION_DESC_SIZE :: nat where "ADMISSION_DESC_SIZE = 56"
definition MATMUL_ADMISSION_DESC_SIZE :: nat where "MATMUL_ADMISSION_DESC_SIZE = 32"
definition POLICY_SIZE :: nat where "POLICY_SIZE = 8"
definition CUBE_DESC_SIZE :: nat where "CUBE_DESC_SIZE = 40"
definition CUBE_GEOMETRY_SIZE :: nat where "CUBE_GEOMETRY_SIZE = 48"
definition CONV_PLAN_SIZE :: nat where "CONV_PLAN_SIZE = 48"

section \<open>From a descriptor to the planner's types\<close>

definition narrow :: "nat \<Rightarrow> nat abi_result" where
  "narrow v = plan_status (refuse_unless (v < 2 ^ 32) HardwareLimit (Done v))"

definition abi_quantization_of :: "abi_quantization \<Rightarrow> quantization abi_result option" where
  "abi_quantization_of q =
     (if \<not> positive_f32 (aq_input_scale q) \<or> \<not> positive_f32 (aq_weights_scale q) \<or> \<not> positive_f32 (aq_output_scale q)
      then Some (plan_status (Refused InvalidShape))
      else returned (map_option (\<lambda>r. plan_status (map_refused (\<lambda>_. HardwareLimit) r))
             (try_from_ratio (scale_ratio (aq_input_scale q) (aq_weights_scale q) (aq_output_scale q)))) (\<lambda>m.
           Done \<lparr>input_zero_point = aq_input_zero_point q, output_zero_point = aq_output_zero_point q,
                 weight_zero_point = aq_weight_zero_point q, input_scale = aq_input_scale q,
                 weights_scale = aq_weights_scale q, q_multiplier = m\<rparr>))"

definition abi_precision :: "nat \<Rightarrow> abi_quantization \<Rightarrow> precision abi_result option" where
  "abi_precision code q =
     (if code = 0 then Some (Done Fp16)
      else if code = 1 then Some (Done Fp16Accumulator)
      else if code = 2 then Some (Done Bf16)
      else if code = 3 then Some (Done Int16)
      else if code = 4 then Some (Done Tf32)
      else if code = 5 then Some (Done Int4)
      else if code = 6 then returned (abi_quantization_of q) (\<lambda>q. Done (Int8 q))
      else if code = 7 then returned (abi_quantization_of q) (\<lambda>q. Done (Int8Accumulator q))
      else Some invalid)"

definition unit_quantization :: abi_quantization where
  "unit_quantization =
     \<lparr>aq_input_zero_point = 0, aq_output_zero_point = 0, aq_weight_zero_point = 0,
      aq_input_scale = 0x3F800000, aq_weights_scale = 0x3F800000, aq_output_scale = 0x3F800000\<rparr>"

definition admission_precision :: "nat \<Rightarrow> precision abi_result option" where
  "admission_precision code = abi_precision code unit_quantization"

definition abi_activation :: "nat \<Rightarrow> nat \<Rightarrow> precision \<Rightarrow> activation abi_result" where
  "abi_activation code clamp_at p =
     (if code = 0 then Done NoActivation
      else if code = 1 then Done Relu
      else if code = 2 then
        plan_status (case quantization_of p of
            None \<Rightarrow> try_clamped_fp16 clamp_at
          | Some q \<Rightarrow> try_clamped_int8 clamp_at (input_scale q) (weights_scale q))
      else invalid)"

definition policy_of :: "policy_desc option \<Rightarrow> planning_policy abi_result" where
  "policy_of policy =
     (case policy of
        None \<Rightarrow> Done default_policy
      | Some p \<Rightarrow>
          if pl_struct_size p \<noteq> POLICY_SIZE then invalid
          else Done \<lparr>allow_unbacked_channels = (pl_allow_unbacked_channels p \<noteq> 0),
                     allow_large_kernel_probing = (pl_allow_large_kernel_probing p \<noteq> 0)\<rparr>)"

definition summarize :: "conv_plan \<Rightarrow> plan_summary abi_result" where
  "summarize p =
     (let s = plan_shape p; ks = plan_kernels p in
      obind (plan_status (output_width s ks)) (\<lambda>ow.
      obind (plan_status (output_height s ks)) (\<lambda>oh.
      obind (plan_status (try_weight_bytes s ks)) (\<lambda>wb.
      obind (plan_status (output_scratch_bytes s ks)) (\<lambda>sb.
      Done \<lparr>ps_struct_size = CONV_PLAN_SIZE, ps_data_banks = plan_data_banks p,
            ps_weight_banks = plan_weight_banks p, ps_tile_count = wrap32 (length (plan_tiles p)),
            ps_column_count = wrap32 (length (plan_output_column_widths p)), ps_output_width = ow,
            ps_output_height = oh, ps_weight_bytes = wb, ps_output_scratch_bytes = sb\<rparr>)))))"

text \<open>The shape without padding and activation, which both the planner's and the packer's entry build first.\<close>

definition shape_of_desc :: "planning_policy \<Rightarrow> conv_desc \<Rightarrow> precision \<Rightarrow> shape abi_result" where
  "shape_of_desc pol d p =
     obind (narrow (cv_width d)) (\<lambda>w.
     obind (narrow (cv_height d)) (\<lambda>h.
     obind (narrow (cv_stride d)) (\<lambda>st.
     obind (narrow (cv_in_channels d)) (\<lambda>cin.
     obind (narrow (cv_out_channels d)) (\<lambda>cout.
     plan_status (try_with_precision pol w h st cin cout p))))))"

definition pad_field :: "int \<Rightarrow> nat abi_result" where
  "pad_field v = plan_status (refuse_unless (0 \<le> v \<and> v \<le> 15) HardwareLimit (Done (nat v)))"

definition padded_shape :: "conv_desc \<Rightarrow> shape \<Rightarrow> shape abi_result" where
  "padded_shape d s =
     (if cv_pad_top d = -1 \<and> cv_pad_left d = -1 then Done s
      else if 0 \<le> cv_pad_top d \<and> 0 \<le> cv_pad_left d then
        obind (pad_field (cv_pad_top d)) (\<lambda>top.
        obind (pad_field (cv_pad_left d)) (\<lambda>left.
        plan_status (try_with_padding s (top, left))))
      else invalid)"

definition depthwise_shape :: "planning_policy \<Rightarrow> conv_desc \<Rightarrow> shape \<Rightarrow> shape abi_result" where
  "depthwise_shape pol d s = (if cv_depthwise d \<noteq> 0 then plan_status (try_with_depthwise pol s) else Done s)"

definition kernels_of_desc :: "conv_desc \<Rightarrow> kernels abi_result" where
  "kernels_of_desc d =
     obind (narrow (cv_kernel_height d)) (\<lambda>kh. obind (narrow (cv_kernel_width d)) (\<lambda>kw. Done (kh, kw)))"

definition plan_conv_checked :: "planning_policy \<Rightarrow> conv_desc \<Rightarrow> conv_plan abi_result option" where
  "plan_conv_checked pol d =
     returned (abi_precision (cv_precision d) (cv_quantization d)) (\<lambda>p.
     obind (shape_of_desc pol d p) (\<lambda>s.
     obind (padded_shape d s) (\<lambda>s.
     obind (abi_activation (cv_activation d) (cv_activation_ceiling d) p) (\<lambda>a.
     obind (plan_status (try_with_activation s a)) (\<lambda>s.
     obind (depthwise_shape pol d s) (\<lambda>s.
     obind (kernels_of_desc d) (\<lambda>ks.
     plan_status (try_new pol s ks))))))))"

definition matmul_of_desc :: "planning_policy \<Rightarrow> matmul_desc \<Rightarrow> precision \<Rightarrow> fc_shape abi_result" where
  "matmul_of_desc pol d p =
     obind (narrow (mt_m d)) (\<lambda>m.
     obind (narrow (mt_k d)) (\<lambda>k.
     obind (narrow (mt_n d)) (\<lambda>n.
     plan_status (fc_try_new pol m k n p))))"

definition plan_matmul_checked :: "planning_policy \<Rightarrow> matmul_desc \<Rightarrow> conv_plan abi_result option" where
  "plan_matmul_checked pol d =
     returned (abi_precision (mt_precision d) (mt_quantization d)) (\<lambda>p.
     obind (matmul_of_desc pol d p) (\<lambda>f.
     obind (abi_activation (mt_activation d) (mt_activation_ceiling d) p) (\<lambda>a.
     obind (plan_status (fc_plan_try_new pol (with_activation f a))) (\<lambda>plan. Done (fc_conv plan)))))"

section \<open>Messages\<close>

text \<open>A byte starts a UTF-8 sequence when it is not a continuation byte.\<close>

definition is_char_boundary :: "byte list \<Rightarrow> nat \<Rightarrow> bool" where
  "is_char_boundary text i \<longleftrightarrow>
     i = 0 \<or> i = length text \<or> (i < length text \<and> \<not> (0x80 \<le> text ! i \<and> text ! i < 0xC0))"

fun cut_at_boundary :: "byte list \<Rightarrow> nat \<Rightarrow> nat" where
  "cut_at_boundary text 0 = 0"
| "cut_at_boundary text (Suc n) = (if is_char_boundary text (Suc n) then Suc n else cut_at_boundary text n)"

definition write_message :: "byte list option \<Rightarrow> byte list \<Rightarrow> byte list option" where
  "write_message buffer text =
     map_option (\<lambda>b. if b = [] then []
       else let n = cut_at_boundary text (min (length text) (length b - 1))
            in take n text @ [0] @ drop (n + 1) b) buffer"

text \<open>The tail of every boundary: a refusal keeps its status, a panic is caught.\<close>

definition abi_report :: "'a abi_result \<Rightarrow> byte list option \<Rightarrow> byte list \<Rightarrow> nat \<times> byte list option" where
  "abi_report result message text =
     (case result of
        Done _ \<Rightarrow> (ROCKET_PLAN_OK, message)
      | Refused status \<Rightarrow> (status, write_message message text)
      | Panicked \<Rightarrow> (ROCKET_PLAN_INTERNAL, write_message message text))"

section \<open>Planning\<close>

definition checked_desc :: "('d \<Rightarrow> nat) \<Rightarrow> nat \<Rightarrow> 'd option \<Rightarrow> 'd abi_result" where
  "checked_desc struct_size_of expected desc =
     (case desc of None \<Rightarrow> invalid | Some d \<Rightarrow> if struct_size_of d \<noteq> expected then invalid else Done d)"

record plan_call =
  call_status :: nat
  call_plan :: "plan_summary option"
  call_message :: "byte list option"

definition boundary ::
  "('d \<Rightarrow> nat) \<Rightarrow> nat \<Rightarrow> (planning_policy \<Rightarrow> 'd \<Rightarrow> conv_plan abi_result option)
   \<Rightarrow> 'd option \<Rightarrow> policy_desc option \<Rightarrow> plan_summary option \<Rightarrow> byte list option \<Rightarrow> byte list \<Rightarrow> plan_call option" where
  "boundary struct_size_of expected plan desc policy out_plan message text =
     (let checked =
        obind (checked_desc struct_size_of expected desc) (\<lambda>d.
        if (case out_plan of Some out \<Rightarrow> ps_struct_size out \<noteq> CONV_PLAN_SIZE | None \<Rightarrow> False) then invalid
        else obind (policy_of policy) (\<lambda>pol. Done (d, pol)))
      in map_option (\<lambda>result.
           let (status, message) = abi_report result message text
           in \<lparr>call_status = status,
               call_plan = (case result of Done summary \<Rightarrow> map_option (\<lambda>_. summary) out_plan | _ \<Rightarrow> out_plan),
               call_message = message\<rparr>)
         (case checked of
            Done (d, pol) \<Rightarrow> returned (plan pol d) summarize
          | Refused status \<Rightarrow> Some (Refused status)
          | Panicked \<Rightarrow> Some Panicked))"

definition rocket_plan_conv where
  "rocket_plan_conv = boundary cv_struct_size CONV_DESC_SIZE plan_conv_checked"

definition rocket_plan_matmul where
  "rocket_plan_matmul = boundary mt_struct_size MATMUL_DESC_SIZE plan_matmul_checked"

section \<open>Admission\<close>

definition admission_boundary ::
  "('d \<Rightarrow> nat) \<Rightarrow> nat \<Rightarrow> ('d \<Rightarrow> unit abi_result option)
   \<Rightarrow> 'd option \<Rightarrow> byte list option \<Rightarrow> byte list \<Rightarrow> (nat \<times> byte list option) option" where
  "admission_boundary struct_size_of expected admit desc message text =
     map_option (\<lambda>result. abi_report result message text)
       (case checked_desc struct_size_of expected desc of
          Done d \<Rightarrow> admit d
        | Refused status \<Rightarrow> Some (Refused status)
        | Panicked \<Rightarrow> Some Panicked)"

definition rocket_admit_conv where
  "rocket_admit_conv = admission_boundary ad_struct_size ADMISSION_DESC_SIZE (\<lambda>d.
     returned (admission_precision (ad_precision d)) (\<lambda>p.
     plan_status (admit_conv \<lparr>adm_precision = p, adm_depthwise = (ad_depthwise d \<noteq> 0),
       adm_kernel_height = ad_kernel_height d, adm_kernel_width = ad_kernel_width d, adm_stride = ad_stride d,
       adm_in_channels = ad_in_channels d, adm_out_channels = ad_out_channels d\<rparr>)))"

definition rocket_admit_matmul where
  "rocket_admit_matmul = admission_boundary am_struct_size MATMUL_ADMISSION_DESC_SIZE (\<lambda>d.
     returned (admission_precision (am_precision d)) (\<lambda>p.
     plan_status (admit_matmul \<lparr>mm_precision = p, mm_m = am_m d, mm_k = am_k d, mm_n = am_n d\<rparr>)))"

section \<open>Cubes\<close>

definition abi_cube_kind :: "nat \<Rightarrow> cube_kind abi_result" where
  "abi_cube_kind code =
     (if code = 0 then Done Conv else if code = 1 then Done Matmul else if code = 2 then Done Pooling
      else if code = 3 then Done Elementwise else invalid)"

definition cube_of :: "cube_desc \<Rightarrow> cube abi_result" where
  "cube_of d =
     obind (abi_cube_kind (cb_kind d)) (\<lambda>kind.
     obind (narrow (cb_width d)) (\<lambda>w.
     obind (narrow (cb_height d)) (\<lambda>h.
     obind (narrow (cb_channels d)) (\<lambda>c.
     plan_status (cube_geometry kind (cb_element_bytes d) w h c)))))"

definition describe :: "cube \<Rightarrow> cube_summary abi_result" where
  "describe g =
     obind (plan_status (storage_bytes g)) (\<lambda>storage.
     Done \<lparr>cg_struct_size = CUBE_GEOMETRY_SIZE, cg_whole_atom = of_bool (is_whole_atom g),
           cg_exact = of_bool (is_exact g), cg_pixel_count = pixel_count g,
           cg_surface_pixel_count = surface_pixel_count g, cg_bytes_per_pixel = bytes_per_pixel g,
           cg_packed_bytes_per_pixel = packed_bytes_per_pixel g, cg_storage_bytes = storage\<rparr>)"

definition rocket_plan_cube_geometry ::
  "cube_desc option \<Rightarrow> cube_summary option \<Rightarrow> byte list option \<Rightarrow> byte list
   \<Rightarrow> nat \<times> cube_summary option \<times> byte list option" where
  "rocket_plan_cube_geometry desc out_geometry message text =
     (let result =
        obind (checked_desc cb_struct_size CUBE_DESC_SIZE desc) (\<lambda>d.
        obind (cube_of d) (\<lambda>g.
        case out_geometry of
          None \<Rightarrow> Done None
        | Some out \<Rightarrow> if cg_struct_size out \<noteq> CUBE_GEOMETRY_SIZE then invalid
                     else obind (describe g) (\<lambda>summary. Done (Some summary))));
          (status, message) = abi_report result message text
      in (status, (case result of Done written \<Rightarrow> written | _ \<Rightarrow> out_geometry), message))"

definition rocket_plan_chain_identity ::
  "cube_desc option \<Rightarrow> cube_desc option \<Rightarrow> byte list option \<Rightarrow> byte list \<Rightarrow> nat \<times> byte list option" where
  "rocket_plan_chain_identity producer consumer message text =
     abi_report
       (obind (obind (checked_desc cb_struct_size CUBE_DESC_SIZE producer) cube_of) (\<lambda>p.
        obind (obind (checked_desc cb_struct_size CUBE_DESC_SIZE consumer) cube_of) (\<lambda>c.
        map_refused (\<lambda>_. ROCKET_PLAN_LAYOUT_MISMATCH) (chain_identity p c)))) message text"

section \<open>Packing\<close>

text \<open>
  \<open>pack_packed\<close> is the destination after the call. A packer that refuses or panics half-way may have
  written to it: \<open>partial\<close> is what it leaves then.
\<close>

record pack_call =
  pack_status :: nat
  pack_packed :: "byte list option"
  pack_length :: "nat option"
  pack_message :: "byte list option"

definition check_dense :: "weight_plan \<Rightarrow> nat \<Rightarrow> byte list option \<Rightarrow> byte list \<Rightarrow> byte list abi_result" where
  "check_dense w n dense packed =
     (case dense of
        None \<Rightarrow> invalid
      | Some src \<Rightarrow>
          obind (plan_status (wp_dense_bytes w)) (\<lambda>needed.
          if length src \<noteq> needed then invalid
          else if length packed < n then invalid
          else Done src))"

definition pack_boundary ::
  "weight_plan abi_result option \<Rightarrow> byte list option \<Rightarrow> byte list option \<Rightarrow> nat option
   \<Rightarrow> byte list option \<Rightarrow> byte list \<Rightarrow> byte list \<Rightarrow> pack_call option" where
  "pack_boundary plan dense packed out_packed_length message text partial =
     map_option (\<lambda>plan.
       let sized = obind plan (\<lambda>w. obind (plan_status (wp_packed_bytes w)) (\<lambda>n. Done (w, n)));
           call = (\<lambda>result packed out_length.
             let (status, message) = abi_report result message text
             in \<lparr>pack_status = status, pack_packed = packed, pack_length = out_length, pack_message = message\<rparr>)
       in case sized of
            Done (w, n) \<Rightarrow>
              let out_length = map_option (\<lambda>_. n) out_packed_length
              in (case packed of
                    None \<Rightarrow> call (Done ()) None out_length
                  | Some dst \<Rightarrow>
                      (case check_dense w n dense dst of
                         Done src \<Rightarrow>
                           (case plan_status (wp_pack w src dst) of
                              Done (written, _) \<Rightarrow> call (Done ()) (Some written) out_length
                            | Refused status \<Rightarrow> call (Refused status) (Some partial) out_length
                            | Panicked \<Rightarrow> call Panicked (Some partial) out_length)
                       | Refused status \<Rightarrow> call (Refused status) packed out_length
                       | Panicked \<Rightarrow> call Panicked packed out_length))
          | Refused status \<Rightarrow> call (Refused status) packed out_packed_length
          | Panicked \<Rightarrow> call Panicked packed out_packed_length) plan"

definition conv_shape_checked :: "planning_policy \<Rightarrow> conv_desc \<Rightarrow> (shape \<times> kernels) abi_result option" where
  "conv_shape_checked pol d =
     returned (abi_precision (cv_precision d) (cv_quantization d)) (\<lambda>p.
     obind (shape_of_desc pol d p) (\<lambda>s.
     obind (depthwise_shape pol d s) (\<lambda>s.
     obind (kernels_of_desc d) (\<lambda>ks. Done (s, ks)))))"

text \<open>The packing entries run under the policy of the thread, which no argument replaces.\<close>

definition rocket_pack_conv_weights where
  "rocket_pack_conv_weights pol desc =
     pack_boundary
       (case checked_desc cv_struct_size CONV_DESC_SIZE desc of
          Done d \<Rightarrow> returned (conv_shape_checked pol d) (\<lambda>(s, ks). Done (for_conv s ks))
        | Refused status \<Rightarrow> Some (Refused status)
        | Panicked \<Rightarrow> Some Panicked)"

definition rocket_pack_matmul_weights where
  "rocket_pack_matmul_weights pol desc =
     pack_boundary
       (case checked_desc mt_struct_size MATMUL_DESC_SIZE desc of
          Done d \<Rightarrow>
            returned (abi_precision (mt_precision d) (mt_quantization d)) (\<lambda>p.
            obind (matmul_of_desc pol d p) (\<lambda>f. plan_status (for_matmul pol f)))
        | Refused status \<Rightarrow> Some (Refused status)
        | Panicked \<Rightarrow> Some Panicked)"

end
