(* ===== verification/PlanAbiProperties.thy ===== *)
theory PlanAbiProperties
  imports PlanAbi RequantizationProperties WeightProperties PlanProperties
begin

text \<open>
  What the C interface promises: every call returns, a plan it reports is the plan of the shape the
  descriptor spells, with no extent cut to 32 bits, a failed call leaves the caller's structs alone
  and writes a terminated message, and the packer takes what the planner has accepted.
\<close>

section \<open>Conversions\<close>

lemma plan_status_Done [simp]: "plan_status r = Done x \<longleftrightarrow> r = Done x"
  by (simp add: plan_status_def map_refused_eq_Done)

lemma plan_status_Panicked [simp]: "plan_status r = Panicked \<longleftrightarrow> r = Panicked"
  by (cases r) (simp_all add: plan_status_def)

lemma plan_status_of_Done [simp]: "plan_status (Done x) = Done x"
  by (simp add: plan_status_def)

lemma invalid_not_Done [simp]: "invalid \<noteq> Done x" "invalid \<noteq> Panicked"
  by (simp_all add: invalid_def)

lemma narrow_Done: "narrow v = Done w \<longleftrightarrow> w = v \<and> v < 2 ^ 32"
  by (auto simp: narrow_def outcome_done)

lemma narrow_small: "v < 2 ^ 32 \<Longrightarrow> narrow v = Done v"
  by (simp add: narrow_Done)

lemma pad_field_Done: "pad_field v = Done n \<longleftrightarrow> 0 \<le> v \<and> v \<le> 15 \<and> n = nat v"
  by (auto simp: pad_field_def outcome_done)

lemma abi_quantization_ends: "ends (abi_quantization_of q)"
proof (cases "positive_f32 (aq_input_scale q) \<and> positive_f32 (aq_weights_scale q) \<and> positive_f32 (aq_output_scale q)")
  case True
  then obtain r where r: "try_from_ratio (scale_ratio (aq_input_scale q) (aq_weights_scale q) (aq_output_scale q)) = Some r"
    "r \<noteq> Panicked" by (blast elim: scale_ratio_settles)
  then show ?thesis using True by (cases r) (simp_all add: abi_quantization_of_def returned_def ends_def plan_status_def)
qed (auto simp: abi_quantization_of_def ends_def plan_status_def)

lemma abi_precision_ends: "ends (abi_precision code q)"
  using abi_quantization_ends [of q]
  by (auto simp: abi_precision_def intro!: ends_Some ends_returned)

text \<open>The codes of a precision and an activation.\<close>

fun precision_code :: "precision \<Rightarrow> nat" where
  "precision_code Fp16 = 0"
| "precision_code Fp16Accumulator = 1"
| "precision_code Bf16 = 2"
| "precision_code Int16 = 3"
| "precision_code Tf32 = 4"
| "precision_code Int4 = 5"
| "precision_code (Int8 q) = 6"
| "precision_code (Int8Accumulator q) = 7"

fun activation_code :: "activation \<Rightarrow> nat" where
  "activation_code NoActivation = 0"
| "activation_code Relu = 1"
| "activation_code (Clamped c) = 2"

lemma abi_precision_code: "abi_precision code q = Some (Done p) \<Longrightarrow> precision_code p = code"
  by (auto simp: abi_precision_def returned_Done split: if_splits)

lemma abi_activation_code:
  assumes "abi_activation code clamp_at p = Done a"
  shows "activation_code a = code"
proof -
  have "activation_code b = 2" if "try_clamped_fp16 c = Done b" for b c
    using that by (auto simp: try_clamped_fp16_def outcome_done)
  moreover have "activation_code b = 2" if "try_clamped_int8 c i w = Done b" for b c i w
    using that by (auto simp: try_clamped_int8_def Let_def outcome_done)
  ultimately show ?thesis
    using assms by (auto simp: abi_activation_def split: if_splits option.splits)
qed

lemma abi_activation_no_panic: "abi_activation code clamp_at p \<noteq> Panicked"
  by (auto simp: abi_activation_def try_clamped_fp16_def try_clamped_int8_def Let_def refuse_unless_def
      split: option.splits)

section \<open>The shape a descriptor spells\<close>

definition spells :: "conv_desc \<Rightarrow> shape \<Rightarrow> kernels \<Rightarrow> bool" where
  "spells d s ks \<longleftrightarrow> width s = cv_width d \<and> height s = cv_height d \<and> stride s = cv_stride d
     \<and> in_channels s = cv_in_channels d \<and> out_channels s = cv_out_channels d
     \<and> ks = (cv_kernel_height d, cv_kernel_width d)
     \<and> padding s = (if cv_pad_top d = -1 then None else Some (nat (cv_pad_top d), nat (cv_pad_left d)))
     \<and> depthwise s = (cv_depthwise d \<noteq> 0) \<and> precision_code (precision s) = cv_precision d
     \<and> activation_code (activation s) = cv_activation d"

lemma shape_of_desc_Done:
  assumes "shape_of_desc pol d p = Done s"
  shows "s = \<lparr>width = cv_width d, height = cv_height d, stride = cv_stride d, in_channels = cv_in_channels d,
      out_channels = cv_out_channels d, precision = p, padding = None, activation = NoActivation, depthwise = False\<rparr>"
    and "valid_shape s"
proof -
  have t: "try_with_precision pol (cv_width d) (cv_height d) (cv_stride d) (cv_in_channels d) (cv_out_channels d) p = Done s"
    and bounds: "cv_width d < 2 ^ 32" "cv_height d < 2 ^ 32" "cv_stride d < 2 ^ 32" "cv_in_channels d < 2 ^ 32"
      "cv_out_channels d < 2 ^ 32"
    using assms by (auto simp: shape_of_desc_def obind_eq_Done narrow_Done)
  show "s = \<lparr>width = cv_width d, height = cv_height d, stride = cv_stride d, in_channels = cv_in_channels d,
      out_channels = cv_out_channels d, precision = p, padding = None, activation = NoActivation, depthwise = False\<rparr>"
    using t by (auto simp: try_with_precision_def outcome_done)
  show "valid_shape s" using try_with_precision_valid [OF t bounds] by blast
qed

lemma plan_conv_checked_Done:
  assumes "plan_conv_checked pol d = Some (Done plan)"
  obtains s ks where "spells d s ks" "valid_shape s" "try_new pol s ks = Done plan"
    "depthwise s \<longrightarrow> element_bits (precision s) \<in> {8, 16}"
    "conv_shape_checked pol d = Some (Done (s\<lparr>padding := None, activation := NoActivation\<rparr>, ks))"
proof -
  from assms obtain p s0 s1 a s2 s3 ks where
    p: "abi_precision (cv_precision d) (cv_quantization d) = Some (Done p)"
    and s0: "shape_of_desc pol d p = Done s0" and s1: "padded_shape d s0 = Done s1"
    and a: "abi_activation (cv_activation d) (cv_activation_ceiling d) p = Done a"
    and s2: "try_with_activation s1 a = Done s2" and s3: "depthwise_shape pol d s2 = Done s3"
    and ks: "kernels_of_desc d = Done ks" and plan: "try_new pol s3 ks = Done plan"
    by (auto simp: plan_conv_checked_def returned_Done obind_eq_Done)
  note base = shape_of_desc_Done [OF s0]
  have pads: "s1 = s0\<lparr>padding := (if cv_pad_top d = -1 then None else Some (nat (cv_pad_top d), nat (cv_pad_left d)))\<rparr>"
    "valid_shape s1"
    using s1 base with_setters_valid(1) [OF base(2)]
    by (auto simp: padded_shape_def obind_eq_Done pad_field_Done try_with_padding_def outcome_done split: if_splits)
  have act: "s2 = s1\<lparr>activation := a\<rparr>" "valid_shape s2"
    using s2 with_setters_valid(2) [OF pads(2) s2] by (auto simp: try_with_activation_def outcome_done)
  have dw: "s3 = s2\<lparr>depthwise := (cv_depthwise d \<noteq> 0)\<rparr>" "valid_shape s3"
    "depthwise s3 \<Longrightarrow> element_bits (precision s3) \<in> {8, 16}"
    using s3 act with_setters_valid(3) [OF act(2)] base(1) pads(1)
    by (auto simp: depthwise_shape_def try_with_depthwise_def outcome_done split: if_splits)
  have "ks = (cv_kernel_height d, cv_kernel_width d)"
    using ks by (auto simp: kernels_of_desc_def obind_eq_Done narrow_Done)
  then have "spells d s3 ks"
    using abi_precision_code [OF p] abi_activation_code [OF a]
    by (simp add: spells_def dw(1) act(1) pads(1) base(1))
  moreover have "depthwise_shape pol d s0 = Done (s3\<lparr>padding := None, activation := NoActivation\<rparr>)"
    using s3 base(1) pads(1) act(1)
    by (auto simp: depthwise_shape_def try_with_depthwise_def outcome_done split: if_splits)
  then have "conv_shape_checked pol d = Some (Done (s3\<lparr>padding := None, activation := NoActivation\<rparr>, ks))"
    using p s0 ks by (simp add: conv_shape_checked_def returned_def)
  ultimately show thesis using that dw(2,3) plan by blast
qed

lemma plan_conv_checked_settles: "plan_conv_checked pol d \<noteq> None"
  using abi_precision_ends [of "cv_precision d" "cv_quantization d"]
  by (auto simp: plan_conv_checked_def returned_def ends_def)

section \<open>The summary\<close>

lemma tiles_within_area:
  assumes "plan_grid_ok s ks k b p"
  shows "length (plan_tiles p) \<le> out_h s k * out_w s k"
proof -
  have "1 \<le> tile_area t" if "t \<in> set (plan_tiles p)" for t
    using plan_tile(3,6) [OF assms that] by (simp add: tile_area_def)
  then have "sum_list (map (\<lambda>_. 1) (plan_tiles p)) \<le> sum_list (map tile_area (plan_tiles p))"
    by (rule sum_list_mono)
  then show ?thesis by (simp add: plan_area [OF assms] sum_list_triv)
qed

text \<open>What a summary says of a plan.\<close>

definition summarizes :: "plan_summary \<Rightarrow> conv_plan \<Rightarrow> bool" where
  "summarizes m p \<longleftrightarrow>
     ps_data_banks m = plan_data_banks p \<and> ps_weight_banks m = plan_weight_banks p
     \<and> ps_data_banks m + ps_weight_banks m = CBUF_BANKS
     \<and> output_width (plan_shape p) (plan_kernels p) = Done (ps_output_width m)
     \<and> output_height (plan_shape p) (plan_kernels p) = Done (ps_output_height m)
     \<and> try_weight_bytes (plan_shape p) (plan_kernels p) = Done (ps_weight_bytes m)
     \<and> output_scratch_bytes (plan_shape p) (plan_kernels p) = Done (ps_output_scratch_bytes m)
     \<and> (ps_output_height m * ps_output_width m < 2 ^ 32 \<longrightarrow> ps_tile_count m = length (plan_tiles p))"

lemma summarize_Done:
  assumes v: "valid_shape s" and p: "try_new pol s ks = Done p" and m: "summarize p = Done m"
  shows "summarizes m p" "plan_shape p = s" "plan_kernels p = ks"
proof -
  obtain k b where b: "banks_ok b" "plan_grid_ok s ks k b p"
    and ext: "output_width s ks = Done (out_w s k)" "output_height s ks = Done (out_h s k)"
    using try_new_grid [OF v p] by metis
  then show fields: "plan_shape p = s" "plan_kernels p = ks" by (simp_all add: plan_grid_ok_def)
  show "summarizes m p"
    using m b(1,2) ext tiles_within_area [OF b(2)]
    by (auto simp: summarizes_def summarize_def Let_def obind_eq_Done plan_grid_ok_def banks_ok_def
        CBUF_BANKS_def wrap32_def)
qed

section \<open>Planning calls\<close>

lemma abi_report_status:
  "abi_report r message text = (st, m) \<Longrightarrow> st = ROCKET_PLAN_OK \<Longrightarrow> (\<forall>e. r = Refused e \<longrightarrow> e \<noteq> ROCKET_PLAN_OK) \<Longrightarrow>
   \<exists>x. r = Done x \<and> m = message"
  by (auto simp: abi_report_def abi_statuses split: outcome.splits)

text \<open>Every refusal of this file has a status of its own.\<close>

definition proper :: "'a abi_result \<Rightarrow> bool" where
  "proper r \<longleftrightarrow> (\<forall>e. r = Refused e \<longrightarrow> 1 \<le> e \<and> e \<le> 7)"

lemma status_of_bounds: "Suc 0 \<le> status_of e" "status_of e \<le> 7"
  by (cases e; simp add: abi_statuses)+

named_theorems proper_intro

lemma proper_Done [proper_intro]: "proper (Done x)" by (simp add: proper_def)

lemma proper_Panicked [proper_intro]: "proper Panicked" by (simp add: proper_def)

lemma proper_invalid [proper_intro]: "proper invalid" by (simp add: proper_def invalid_def abi_statuses)

lemma proper_plan_status [proper_intro]: "proper (plan_status r)"
  by (cases r) (simp_all add: proper_def plan_status_def status_of_bounds)

lemma proper_obind [proper_intro]: "proper m \<Longrightarrow> (\<And>x. m = Done x \<Longrightarrow> proper (f x)) \<Longrightarrow> proper (obind m f)"
  by (cases m) (auto simp: proper_def)

lemma proper_summarize: "proper (summarize p)"
  unfolding summarize_def Let_def by (intro proper_intro)

lemma proper_policy [proper_intro]: "proper (policy_of policy)"
  by (auto simp: policy_of_def intro: proper_intro split: option.split)

lemma proper_checked_desc [proper_intro]: "proper (checked_desc f n desc)"
  by (auto simp: checked_desc_def intro: proper_intro split: option.split)

definition proper_option :: "'a abi_result option \<Rightarrow> bool" where
  "proper_option m \<longleftrightarrow> (\<forall>r. m = Some r \<longrightarrow> proper r)"

lemma proper_returned:
  "proper_option m \<Longrightarrow> (\<And>x. proper (f x)) \<Longrightarrow> proper_option (returned m f)"
  by (auto simp: proper_option_def returned_def intro: proper_obind)

lemma proper_precision: "proper_option (abi_precision code q)"
proof -
  have "proper_option (abi_quantization_of q)"
    unfolding abi_quantization_of_def
    by (auto simp: returned_def proper_option_def intro!: proper_intro)
  then show ?thesis
    by (auto simp: abi_precision_def proper_option_def returned_def intro!: proper_intro)
qed

lemma proper_plan_conv: "proper_option (plan_conv_checked pol d)"
  unfolding plan_conv_checked_def
proof (rule proper_returned [OF proper_precision])
  fix p
  have "proper (shape_of_desc pol d p)" unfolding shape_of_desc_def narrow_def by (intro proper_intro)
  moreover have "proper (padded_shape d s)" for s
    unfolding padded_shape_def pad_field_def by (auto intro!: proper_intro)
  moreover have "proper (abi_activation (cv_activation d) (cv_activation_ceiling d) p)"
    unfolding abi_activation_def by (auto intro!: proper_intro)
  moreover have "proper (depthwise_shape pol d s)" for s
    unfolding depthwise_shape_def by (auto intro!: proper_intro)
  moreover have "proper (kernels_of_desc d)"
    unfolding kernels_of_desc_def narrow_def by (intro proper_intro)
  ultimately show "proper (obind (shape_of_desc pol d p) (\<lambda>s.
     obind (padded_shape d s) (\<lambda>s.
     obind (abi_activation (cv_activation d) (cv_activation_ceiling d) p) (\<lambda>a.
     obind (plan_status (try_with_activation s a)) (\<lambda>s.
     obind (depthwise_shape pol d s) (\<lambda>s.
     obind (kernels_of_desc d) (\<lambda>ks.
     plan_status (try_new pol s ks))))))))"
    by (intro proper_intro)
qed

lemma planning_call_cases:
  obtains r where
    "rocket_plan_conv desc policy out message text = Some
      \<lparr>call_status = fst (abi_report r message text),
       call_plan = (case r of Done m \<Rightarrow> map_option (\<lambda>_. m) out | _ \<Rightarrow> out),
       call_message = snd (abi_report r message text)\<rparr>"
    "proper r"
    "\<And>m. r = Done m \<Longrightarrow> \<exists>d pol p. desc = Some d \<and> cv_struct_size d = CONV_DESC_SIZE \<and> policy_of policy = Done pol
       \<and> plan_conv_checked pol d = Some (Done p) \<and> summarize p = Done m"
proof -
  define checked where "checked =
     obind (checked_desc cv_struct_size CONV_DESC_SIZE desc) (\<lambda>d.
        if (case out of Some out \<Rightarrow> ps_struct_size out \<noteq> CONV_PLAN_SIZE | None \<Rightarrow> False) then invalid
        else obind (policy_of policy) (\<lambda>pol. Done (d, pol)))"
  have proper_checked: "proper checked"
    unfolding checked_def by (auto intro!: proper_intro)
  define result where "result = (case checked of
            Done (d, pol) \<Rightarrow> returned (plan_conv_checked pol d) summarize
          | Refused status \<Rightarrow> Some (Refused status)
          | Panicked \<Rightarrow> Some Panicked)"
  have "result \<noteq> None"
    using plan_conv_checked_settles by (cases checked) (simp_all add: result_def returned_def split: prod.split)
  then obtain r where r: "result = Some r" by blast
  have "proper_option result"
    using proper_checked proper_returned [OF proper_plan_conv proper_summarize]
    by (auto simp: result_def proper_option_def proper_def split: outcome.splits prod.splits)
  then have "proper r" by (simp add: proper_option_def r)
  moreover have "rocket_plan_conv desc policy out message text = Some
      \<lparr>call_status = fst (abi_report r message text),
       call_plan = (case r of Done m \<Rightarrow> map_option (\<lambda>_. m) out | _ \<Rightarrow> out),
       call_message = snd (abi_report r message text)\<rparr>"
    using r by (simp add: rocket_plan_conv_def boundary_def checked_def [symmetric] result_def Let_def split_beta)
  moreover have "\<exists>d pol p. desc = Some d \<and> cv_struct_size d = CONV_DESC_SIZE \<and> policy_of policy = Done pol
       \<and> plan_conv_checked pol d = Some (Done p) \<and> summarize p = Done m" if "r = Done m" for m
  proof -
    from r that obtain d pol p where c: "checked = Done (d, pol)" and p: "plan_conv_checked pol d = Some (Done p)"
      "summarize p = Done m"
      by (auto simp: result_def returned_Done split: outcome.splits prod.splits)
    have "desc = Some d" "cv_struct_size d = CONV_DESC_SIZE" "policy_of policy = Done pol"
      using c by (auto simp: checked_def obind_eq_Done checked_desc_def invalid_def split: option.splits if_splits)
    with p show ?thesis by blast
  qed
  ultimately show thesis using that by blast
qed

lemma planning_call_success:
  assumes "rocket_plan_conv desc policy out message text = Some call" "call_status call = ROCKET_PLAN_OK"
  obtains d pol p m where "desc = Some d" "cv_struct_size d = CONV_DESC_SIZE" "policy_of policy = Done pol"
    "plan_conv_checked pol d = Some (Done p)" "summarize p = Done m"
    "call_plan call = map_option (\<lambda>_. m) out" "call_message call = message"
proof (rule planning_call_cases [of desc policy out message "text"])
  fix r
  assume r: "rocket_plan_conv desc policy out message text = Some
      \<lparr>call_status = fst (abi_report r message text),
       call_plan = (case r of Done m \<Rightarrow> map_option (\<lambda>_. m) out | _ \<Rightarrow> out),
       call_message = snd (abi_report r message text)\<rparr>" "proper r"
    "\<And>m. r = Done m \<Longrightarrow> \<exists>d pol p. desc = Some d \<and> cv_struct_size d = CONV_DESC_SIZE \<and> policy_of policy = Done pol
       \<and> plan_conv_checked pol d = Some (Done p) \<and> summarize p = Done m"
  obtain m where m: "r = Done m"
    using assms r(1,2) by (cases r) (auto simp: abi_report_def proper_def abi_statuses)
  with r(3) obtain d pol p where "desc = Some d" "cv_struct_size d = CONV_DESC_SIZE" "policy_of policy = Done pol"
      "plan_conv_checked pol d = Some (Done p)" "summarize p = Done m" by blast
  then show thesis using that assms(1) r(1) m by (auto simp: abi_report_def)
qed

text \<open>
  A planning call returns, whatever the descriptor, with a status the header lists. It reports
  success only for a descriptor of the right size whose every 64-bit extent reached the planner as it
  stands, and the summary it writes is that of the planner's own plan, with twelve banks in all;
  the message buffer is then untouched. On any other status the plan struct is untouched and the
  message is written.
\<close>

theorem planning_calls_report_the_planner:
  "\<exists>call. rocket_plan_conv desc policy out message text = Some call \<and> call_status call \<le> 7
     \<and> (if call_status call = ROCKET_PLAN_OK
        then \<exists>d pol s ks p m. desc = Some d \<and> cv_struct_size d = CONV_DESC_SIZE \<and> policy_of policy = Done pol
               \<and> spells d s ks \<and> valid_shape s \<and> try_new pol s ks = Done p
               \<and> plan_shape p = s \<and> plan_kernels p = ks \<and> summarizes m p
               \<and> call_plan call = map_option (\<lambda>_. m) out \<and> call_message call = message
        else call_plan call = out \<and> call_message call = write_message message text)"
proof (rule planning_call_cases [of desc policy out message "text"])
  fix r
  assume call: "rocket_plan_conv desc policy out message text = Some
      \<lparr>call_status = fst (abi_report r message text),
       call_plan = (case r of Done m \<Rightarrow> map_option (\<lambda>_. m) out | _ \<Rightarrow> out),
       call_message = snd (abi_report r message text)\<rparr>"
    and pr: "proper r"
    and planned: "\<And>m. r = Done m \<Longrightarrow> \<exists>d pol p. desc = Some d \<and> cv_struct_size d = CONV_DESC_SIZE
       \<and> policy_of policy = Done pol \<and> plan_conv_checked pol d = Some (Done p) \<and> summarize p = Done m"
  show ?thesis
  proof (cases r)
    case (Done m)
    then obtain d pol p where d: "desc = Some d" "cv_struct_size d = CONV_DESC_SIZE" "policy_of policy = Done pol"
      and p: "plan_conv_checked pol d = Some (Done p)" and m: "summarize p = Done m"
      using planned by blast
    from p obtain s ks where s: "spells d s ks" "valid_shape s" "try_new pol s ks = Done p"
      by (rule plan_conv_checked_Done)
    note fields = summarize_Done [OF s(2,3) m]
    show ?thesis
      unfolding call Done abi_report_def
      by (simp add: ROCKET_PLAN_OK_def del: split_paired_Ex) (use d s fields in blast)
  next
    case (Refused e)
    then show ?thesis using pr by (auto simp: call abi_report_def proper_def abi_statuses)
  next
    case Panicked
    then show ?thesis by (auto simp: call abi_report_def abi_statuses)
  qed
qed

definition pointwise_desc :: conv_desc where
  "pointwise_desc =
     \<lparr>cv_struct_size = 120, cv_precision = 0, cv_width = 8, cv_height = 8, cv_in_channels = 4096,
      cv_out_channels = 8, cv_stride = 1, cv_kernel_height = 1, cv_kernel_width = 1, cv_pad_top = -1,
      cv_pad_left = -1, cv_activation = 0, cv_activation_ceiling = 0, cv_depthwise = 0,
      cv_quantization = unit_quantization\<rparr>"

lemma pointwise_desc_size: "cv_struct_size pointwise_desc = 120"
  by (simp add: pointwise_desc_def)

lemma pointwise_desc_planned: "plan_conv_checked default_policy pointwise_desc = Some (Done pointwise_plan)"
proof -
  have "try_with_precision default_policy 8 8 1 4096 8 Fp16 = Done pointwise"
    by (simp add: try_with_precision_def hw_consts checked_mul32_def pointwise_def)
  moreover have "try_with_activation pointwise NoActivation = Done pointwise"
    by (simp add: try_with_activation_def pointwise_def)
  moreover have "narrow n = Done n" if "n < 2 ^ 32" for n using that by (simp add: narrow_Done)
  ultimately show ?thesis
    using pointwise_planned
    by (simp add: plan_conv_checked_def pointwise_desc_def abi_precision_def returned_def shape_of_desc_def
        padded_shape_def abi_activation_def depthwise_shape_def kernels_of_desc_def unit_kernel_def)
qed

lemma pointwise_summary:
  obtains m where "summarize pointwise_plan = Done m"
proof -
  obtain n where "output_scratch_bytes pointwise unit_kernel = Done n"
    by (simp add: output_scratch_bytes_def Let_def pointwise_extents)
  then show thesis
    using that
    by (simp add: summarize_def Let_def pointwise_plan_def pointwise_extents pointwise_weights)
qed

definition blank_summary :: plan_summary where
  "blank_summary =
     \<lparr>ps_struct_size = 48, ps_data_banks = 0, ps_weight_banks = 0, ps_tile_count = 0, ps_column_count = 0,
      ps_output_width = 0, ps_output_height = 0, ps_weight_bytes = 0, ps_output_scratch_bytes = 0\<rparr>"

lemma pointwise_call:
  assumes "summarize pointwise_plan = Done m"
  shows "rocket_plan_conv (Some pointwise_desc) None (Some blank_summary) message text
     = Some \<lparr>call_status = 0, call_plan = Some m, call_message = message\<rparr>"
  using assms pointwise_desc_planned
  by (simp add: rocket_plan_conv_def boundary_def checked_desc_def pointwise_desc_def CONV_DESC_SIZE_def
      blank_summary_def CONV_PLAN_SIZE_def policy_of_def returned_def abi_report_def ROCKET_PLAN_OK_def)

theorem planning_calls_report_the_planner_witness:
  "\<exists>call m. rocket_plan_conv (Some pointwise_desc) None (Some blank_summary) (Some [7, 7]) [] = Some call
     \<and> call_status call = ROCKET_PLAN_OK \<and> call_plan call = Some m
     \<and> ps_data_banks m + ps_weight_banks m = CBUF_BANKS \<and> call_message call = Some [7, 7]"
proof -
  obtain m where m: "summarize pointwise_plan = Done m" by (rule pointwise_summary)
  show ?thesis
    using planning_calls_report_the_planner [of "Some pointwise_desc" None "Some blank_summary" "Some [7, 7]" "[]"]
      pointwise_call [OF m]
    by (auto simp: ROCKET_PLAN_OK_def summarizes_def)
qed

section \<open>Compile-time packing\<close>

text \<open>The shape the packer builds has neither the padding nor the activation of the planned one.\<close>

lemma try_weight_bytes_unpadded:
  assumes n: "try_weight_bytes s ks = Done n"
  shows "try_weight_bytes (s\<lparr>padding := None, activation := a\<rparr>) ks = Done n"
proof -
  have "try_kernel_programming (s\<lparr>padding := None, activation := a\<rparr>) ks
      = Done \<lparr>k_height = fst ks, k_width = snd ks, k_pad_top = fst ks div 2, k_pad_left = snd ks div 2\<rparr>"
    and "k_height k = fst ks" "k_width k = snd ks" if "try_kernel_programming s ks = Done k" for k
    using that by (auto simp: try_kernel_programming_def try_kernel_programming_of_def outcome_done split: prod.splits)
  then show ?thesis
    using n
    by (auto simp: try_weight_bytes_def Let_def outcome_done cbuf_atoms_def feature_atoms_def weight_channels_def
        padded_channels_def programmed_kernels_def cong: if_cong)
qed

lemma for_conv_unpadded:
  assumes m: "moderate s" and n: "try_weight_bytes s ks = Done n"
  shows "wp_pack (for_conv (s\<lparr>padding := None, activation := a\<rparr>) ks) dense packed = wp_pack (for_conv s ks) dense packed"
    and "wp_dense_bytes (for_conv (s\<lparr>padding := None, activation := a\<rparr>) ks) = wp_dense_bytes (for_conv s ks)"
    and "wp_packed_bytes (for_conv (s\<lparr>padding := None, activation := a\<rparr>) ks) = Done n"
proof -
  let ?s = "s\<lparr>padding := None, activation := a\<rparr>"
  have m': "moderate ?s" using m by (simp add: moderate_def valid_shape_def u32_shape_def)
  note sizes = size_agrees [OF m n] size_agrees [OF m' try_weight_bytes_unpadded [OF n]]
  show "wp_packed_bytes (for_conv ?s ks) = Done n" by (rule sizes(2))
  have for_conv_fields: "wp_shape (for_conv t ks) = t" "wp_kernels (for_conv t ks) = ks"
    "wp_zero_point (for_conv t ks) = map_option (\<lambda>q. of_int (weight_zero_point q)) (quantization_of (precision t))" for t
    by (simp_all add: for_conv_def)
  have eb: "wp_element_bytes (for_conv ?s ks) = wp_element_bytes (for_conv s ks)"
    by (simp add: wp_element_bytes_def for_conv_def)
  show dense: "wp_dense_bytes (for_conv ?s ks) = wp_dense_bytes (for_conv s ks)"
    by (simp add: wp_dense_bytes_def eb) (simp add: for_conv_def cong: if_cong)
  have "depthwise_padded_channels ?s = depthwise_padded_channels s"
    by (simp add: depthwise_padded_channels_def cbuf_atoms_def feature_atoms_def)
  moreover have "wp_programmed_out_channels (for_conv ?s ks) = wp_programmed_out_channels (for_conv s ks)"
    by (simp add: wp_programmed_out_channels_def parity_padded_shape_def for_conv_def)
  ultimately show "wp_pack (for_conv ?s ks) dense packed = wp_pack (for_conv s ks) dense packed"
    by (simp add: wp_pack_def dense sizes eb for_conv_fields cong: if_cong option.case_cong)
qed

text \<open>Bytes of one element of a whole-byte precision.\<close>

definition code_bytes :: "nat \<Rightarrow> nat" where
  "code_bytes code = (if code = 4 then 4 else if code = 6 \<or> code = 7 then 1 else 2)"

lemma element_code_bytes: "p \<noteq> Int4 \<Longrightarrow> element_bits p = 8 * code_bytes (precision_code p)"
  by (cases p) (simp_all add: code_bytes_def)

lemma dense_bytes_exact:
  assumes m: "moderate s" and ks: "ks = (kh, kw)" "0 < kh" "0 < kw"
    and n: "n = kh * kw * in_channels s * (if depthwise s then 1 else out_channels s) * code_bytes (precision_code (precision s))"
    and small: "n < 2 ^ 63"
  shows "wp_dense_bytes (for_conv s ks) = Done n"
proof -
  have bits: "element_bits (precision s) = 8 * code_bytes (precision_code (precision s))"
    using m by (simp add: moderate_def element_code_bytes)
  have pos: "0 < in_channels s" "0 < out_channels s" "0 < code_bytes (precision_code (precision s))"
    using m by (simp_all add: moderate_def valid_shape_def code_bytes_def)
  have le: "kh * kw \<le> n" "kh * kw * in_channels s \<le> n" "\<not> depthwise s \<Longrightarrow> kh * kw * in_channels s * out_channels s \<le> n"
    "depthwise s \<Longrightarrow> n = kh * kw * in_channels s * code_bytes (precision_code (precision s))"
    "\<not> depthwise s \<Longrightarrow> n = kh * kw * in_channels s * out_channels s * code_bytes (precision_code (precision s))"
    using pos by (simp_all add: n)
  have "x < 18446744073709551616" if "x \<le> n" for x using that small by simp
  then show ?thesis
    using le by (simp add: wp_dense_bytes_def for_conv_def ks(1) checked_mul64_def wp_element_bytes_def bits)
qed

text \<open>
  What the planner has accepted the compile-time packer packs, to the size the plan was charged
  for: if a planning call on a descriptor returned success under a policy, the precision is not
  sub-byte and the channels are at most 2^24, then the packing call on the same descriptor under the
  same policy, given a dense filter of the logical size and a buffer of at least the reported weight
  bytes, returns success, reports that length and leaves exactly the bytes the weight plan of the
  planned convolution packs; asked for the size only, it reports the same length.
\<close>

theorem packing_agrees_with_planning:
  assumes planned: "rocket_plan_conv (Some d) policy (Some out) msg txt = Some call" "call_status call = ROCKET_PLAN_OK"
    and pol: "policy_of policy = Done pol" and m: "call_plan call = Some m"
    and small: "cv_in_channels d \<le> 2 ^ 24" "cv_out_channels d \<le> 2 ^ 24" "cv_precision d \<noteq> precision_code Int4"
    and dense: "length dense = cv_kernel_height d * cv_kernel_width d * cv_in_channels d
        * (if cv_depthwise d \<noteq> 0 then 1 else cv_out_channels d) * code_bytes (cv_precision d)" "length dense < 2 ^ 63"
    and packed: "ps_weight_bytes m \<le> length packed" "length packed < 2 ^ 63"
  shows "\<exists>s ks p written. spells d s ks \<and> try_new pol s ks = Done p
    \<and> wp_pack (for_conv s ks) dense packed = Done (written, ps_weight_bytes m) \<and> length written = length packed
    \<and> rocket_pack_conv_weights pol (Some d) (Some dense) (Some packed) (Some old) message text partial
        = Some \<lparr>pack_status = ROCKET_PLAN_OK, pack_packed = Some written, pack_length = Some (ps_weight_bytes m),
                pack_message = message\<rparr>
    \<and> rocket_pack_conv_weights pol (Some d) None None (Some old) message text partial
        = Some \<lparr>pack_status = ROCKET_PLAN_OK, pack_packed = None, pack_length = Some (ps_weight_bytes m),
                pack_message = message\<rparr>"
proof -
  obtain p where size: "cv_struct_size d = CONV_DESC_SIZE" and p: "plan_conv_checked pol d = Some (Done p)"
    and sum: "summarize p = Done m"
    by (rule planning_call_success [OF planned]) (use pol m in auto)
  from p obtain s ks where s: "spells d s ks" "valid_shape s" "try_new pol s ks = Done p"
    "depthwise s \<longrightarrow> element_bits (precision s) \<in> {8, 16}"
    "conv_shape_checked pol d = Some (Done (s\<lparr>padding := None, activation := NoActivation\<rparr>, ks))"
    by (rule plan_conv_checked_Done)
  note fields = summarize_Done [OF s(2,3) sum]
  let ?n = "ps_weight_bytes m" and ?w = "for_conv (s\<lparr>padding := None, activation := NoActivation\<rparr>) ks"
  have n: "try_weight_bytes s ks = Done ?n" using fields by (simp add: summarizes_def)
  have mod: "moderate s"
    using s(1,2) small by (auto simp: moderate_def spells_def)
  note taps = try_weight_bytes_Done(1,3) [OF mod n]
  have "wp_dense_bytes (for_conv s ks) = Done (length dense)"
    by (rule dense_bytes_exact [OF mod, of ks "fst ks" "snd ks"]) (use taps dense s(1) in \<open>auto simp: spells_def\<close>)
  note d = this
  obtain written where w: "wp_pack (for_conv s ks) dense packed = Done (written, ?n)" "length written = length packed"
    using weight_plan_packs [OF mod n s(4) [rule_format] d packed dense(2)] by blast
  note plain = for_conv_unpadded [OF mod n, of NoActivation]
  have shape: "(case checked_desc cv_struct_size CONV_DESC_SIZE (Some d) of
      Done d \<Rightarrow> returned (conv_shape_checked pol d) (\<lambda>(s, ks). Done (for_conv s ks))
    | Refused status \<Rightarrow> Some (Refused status) | Panicked \<Rightarrow> Some Panicked) = Some (Done ?w)"
    using size s(5) by (simp add: checked_desc_def returned_def)
  have "check_dense ?w ?n (Some dense) packed = Done dense"
    using d packed by (simp add: check_dense_def plain)
  then have "rocket_pack_conv_weights pol (Some d) (Some dense) (Some packed) (Some old) message text partial
        = Some \<lparr>pack_status = ROCKET_PLAN_OK, pack_packed = Some written, pack_length = Some ?n, pack_message = message\<rparr>"
    and "rocket_pack_conv_weights pol (Some d) None None (Some old) message text partial
        = Some \<lparr>pack_status = ROCKET_PLAN_OK, pack_packed = None, pack_length = Some ?n, pack_message = message\<rparr>"
    unfolding rocket_pack_conv_weights_def shape pack_boundary_def
    using w by (simp_all add: plain Let_def abi_report_def)
  then show ?thesis using s(1,3) w by blast
qed

theorem packing_agrees_with_planning_witness:
  "\<exists>written. rocket_pack_conv_weights default_policy (Some pointwise_desc) (Some (replicate 65536 1))
       (Some (replicate 70000 0)) (Some 0) None [] []
     = Some \<lparr>pack_status = 0, pack_packed = Some written, pack_length = Some 65536, pack_message = None\<rparr>
     \<and> length written = 70000"
proof -
  obtain m where m: "summarize pointwise_plan = Done m" by (rule pointwise_summary)
  then have n: "ps_weight_bytes m = 65536"
    using summarize_Done(1) [OF pointwise_valid pointwise_planned m]
    by (simp add: summarizes_def pointwise_plan_def pointwise_weights)
  show ?thesis
    using packing_agrees_with_planning [OF pointwise_call [OF m, of None "[]"], of default_policy m "replicate 65536 1"
        "replicate 70000 0" 0 None "[]" "[]"] n
    by (auto simp: ROCKET_PLAN_OK_def policy_of_def pointwise_desc_def code_bytes_def)
qed

text \<open>
  The C header promises that a packing call refused for a short buffer writes nothing; the length is
  written before the buffers are checked.
\<close>

lemma refused_packing_writes_the_length:
  "rocket_pack_conv_weights default_policy (Some pointwise_desc) (Some (replicate 65536 1)) (Some []) (Some 0) None [] []
   = Some \<lparr>pack_status = ROCKET_PLAN_INVALID_ARGUMENT, pack_packed = Some [], pack_length = Some 65536, pack_message = None\<rparr>"
proof -
  from pointwise_desc_planned obtain s ks where s: "spells pointwise_desc s ks" "valid_shape s"
    "try_new default_policy s ks = Done pointwise_plan"
    "conv_shape_checked default_policy pointwise_desc = Some (Done (s\<lparr>padding := None, activation := NoActivation\<rparr>, ks))"
    by (rule plan_conv_checked_Done)
  have eq: "s = pointwise" "ks = unit_kernel"
    using try_new_grid [OF s(2,3)] by (metis plan_grid_ok_def conv_plan.simps(1,2) pointwise_plan_def)+
  have mod: "moderate pointwise" using pointwise_valid by (simp add: moderate_def)
  note plain = for_conv_unpadded [OF mod pointwise_weights(3), of NoActivation]
  have d: "wp_dense_bytes (for_conv pointwise unit_kernel) = Done 65536"
    by (rule dense_bytes_exact [OF mod, of unit_kernel 1 1]) (use s(1) in \<open>simp_all add: spells_def eq unit_kernel_def code_bytes_def\<close>)
  from s(4) plain d show ?thesis
    by (simp add: rocket_pack_conv_weights_def checked_desc_def pointwise_desc_size CONV_DESC_SIZE_def eq
        returned_def pack_boundary_def Let_def check_dense_def abi_report_def invalid_def write_message_def)
qed

section \<open>Messages\<close>

text \<open>A character of UTF-8: a byte that starts a sequence and its continuation bytes.\<close>

definition continuation :: "byte \<Rightarrow> bool" where "continuation b \<longleftrightarrow> 0x80 \<le> b \<and> b < 0xC0"

definition utf8_char :: "byte list \<Rightarrow> bool" where
  "utf8_char c \<longleftrightarrow> c \<noteq> [] \<and> \<not> continuation (hd c) \<and> (\<forall>b \<in> set (tl c). continuation b)"

lemma boundary_between:
  assumes "\<forall>c \<in> set (kept @ dropped). utf8_char c"
  shows "is_char_boundary (concat (kept @ dropped)) (length (concat kept))"
proof (cases dropped)
  case (Cons c cs)
  then have "c \<noteq> []" "\<not> continuation (hd c)" using assms by (simp_all add: utf8_char_def)
  then show ?thesis
    using Cons by (cases c) (auto simp: is_char_boundary_def continuation_def nth_append)
qed (simp add: is_char_boundary_def)

lemma no_boundary_within:
  assumes "\<forall>c \<in> set (kept @ c # cs). utf8_char c"
    and "length (concat kept) < i" "i < length (concat kept) + length c"
  shows "\<not> is_char_boundary (concat (kept @ c # cs)) i"
proof -
  define j where "j = i - length (concat kept) - 1"
  have j: "i = length (concat kept) + Suc j" "Suc j < length c" using assms(2,3) by (auto simp: j_def)
  have "utf8_char c" using assms(1) by simp
  then have "continuation (tl c ! j)" using j(2) by (auto simp: utf8_char_def)
  moreover have "concat (kept @ c # cs) ! i = tl c ! j"
    using j by (cases c) (simp_all add: nth_append)
  ultimately show ?thesis
    using j by (auto simp: is_char_boundary_def continuation_def)
qed

lemma cut_at_boundary_back:
  "(\<And>i. m < i \<Longrightarrow> i \<le> n \<Longrightarrow> \<not> is_char_boundary t i) \<Longrightarrow> is_char_boundary t m \<Longrightarrow> m \<le> n \<Longrightarrow>
   cut_at_boundary t n = m"
proof (induction n)
  case (Suc n)
  show ?case
  proof (cases "m = Suc n")
    case True
    then show ?thesis using Suc.prems(2) by simp
  next
    case False
    then have "m \<le> n" "\<not> is_char_boundary t (Suc n)" using Suc.prems by auto
    then show ?thesis using Suc.IH Suc.prems(1,2) by simp
  qed
qed simp

lemma whole_characters:
  assumes "n \<le> length (concat cs)"
  obtains kept dropped where "cs = kept @ dropped" "length (concat kept) \<le> n"
    "dropped = [] \<or> n < length (concat kept) + length (hd dropped)"
  using assms
proof (induction cs arbitrary: n thesis)
  case (Cons c cs)
  show ?case
  proof (cases "length c \<le> n")
    case True
    obtain kept dropped where k: "cs = kept @ dropped" "length (concat kept) \<le> n - length c"
      "dropped = [] \<or> n - length c < length (concat kept) + length (hd dropped)"
      by (rule Cons.IH [of "n - length c"]) (use Cons.prems(2) in auto)
    then have "dropped = [] \<or> n < length (concat (c # kept)) + length (hd dropped)"
      using True by (cases dropped) auto
    moreover have "length (concat (c # kept)) \<le> n" using k(2) True by simp
    ultimately show ?thesis using Cons.prems(1) [of "c # kept" dropped] k(1) by simp
  next
    case False
    then show ?thesis using Cons.prems(1) [of "[]" "c # cs"] by simp
  qed
qed simp

text \<open>
  A message is always a terminated string of whole characters: in a buffer that is not empty the
  longest run of leading UTF-8 characters that leaves room for the terminator is copied, a zero byte
  follows, and the rest of the buffer, whose size does not change, keeps its bytes.
\<close>

theorem messages_are_terminated:
  assumes chars: "\<forall>c \<in> set cs. utf8_char c" and "buf \<noteq> []"
  shows "\<exists>kept dropped. cs = kept @ dropped \<and> length (concat kept) < length buf
    \<and> (dropped = [] \<or> length buf \<le> length (concat kept) + length (hd dropped))
    \<and> write_message (Some buf) (concat cs) = Some (concat kept @ [0] @ drop (length (concat kept) + 1) buf)"
proof -
  define n where "n = min (length (concat cs)) (length buf - 1)"
  obtain kept dropped where cs: "cs = kept @ dropped" and k: "length (concat kept) \<le> n"
    and most: "dropped = [] \<or> n < length (concat kept) + length (hd dropped)"
    by (rule whole_characters [of n cs]) (simp_all add: n_def)
  have inside: "\<not> is_char_boundary (concat cs) i" if "length (concat kept) < i" "i \<le> n" for i
  proof (cases dropped)
    case Nil
    then have "n \<le> length (concat kept)" by (simp add: n_def cs)
    then show ?thesis using that by simp
  next
    case (Cons c ds)
    then show ?thesis
      using no_boundary_within [of kept c ds i] chars most that by (simp add: cs)
  qed
  have cut: "cut_at_boundary (concat cs) n = length (concat kept)"
    using inside boundary_between [of kept dropped] chars k by (intro cut_at_boundary_back) (simp_all add: cs)
  have "take (length (concat kept)) (concat cs) = concat kept" by (simp add: cs)
  then have "write_message (Some buf) (concat cs) = Some (concat kept @ [0] @ drop (length (concat kept) + 1) buf)"
    using assms(2) by (simp add: write_message_def cut [unfolded n_def] Let_def del: One_nat_def)
  moreover have "length (concat kept) < length buf"
    using k assms(2) by (simp add: n_def) (metis Suc_pred le_imp_less_Suc length_greater_0_conv)
  moreover have "dropped = [] \<or> length buf \<le> length (concat kept) + length (hd dropped)"
  proof (cases dropped)
    case (Cons c ds)
    then have "n < length (concat kept) + length c" using most by simp
    moreover have "length (concat kept) + length c \<le> length (concat cs)" by (simp add: cs Cons)
    ultimately show ?thesis by (auto simp: n_def Cons)
  qed simp
  ultimately show ?thesis using cs by blast
qed

theorem messages_are_terminated_witness:
  "write_message (Some [9, 9, 9, 9]) (concat [[0x41], [0xC3, 0xA9], [0x42]]) = Some [0x41, 0xC3, 0xA9, 0]
   \<and> write_message (Some [9, 9, 9]) (concat [[0x41], [0xC3, 0xA9], [0x42]]) = Some [0x41, 0, 9]"
  using messages_are_terminated [of "[[0x41], [0xC3, 0xA9], [0x42]]" "[9, 9, 9, 9]"]
    messages_are_terminated [of "[[0x41], [0xC3, 0xA9], [0x42]]" "[9, 9, 9]"]
  by (auto simp: utf8_char_def continuation_def Cons_eq_append_conv)

section \<open>Cubes\<close>

text \<open>
  The verdict on a cube depends on whether the caller wants the numbers: its storage is only computed
  for a destination, so a cube too large to address is accepted without one and refused with one.
\<close>

lemma cube_verdict_depends_on_the_destination:
  fixes out :: cube_summary
  assumes "cg_struct_size out = 48"
  defines "d \<equiv> \<lparr>cb_struct_size = 40, cb_kind = 0, cb_element_bytes = 1, cb_width = 4294967295, cb_height = 4294967295,
     cb_channels = 16\<rparr>"
  shows "fst (rocket_plan_cube_geometry (Some d) None message txt) = ROCKET_PLAN_OK"
    and "fst (rocket_plan_cube_geometry (Some d) (Some out) message txt) = ROCKET_PLAN_HARDWARE_LIMIT"
proof -
  have g: "cube_of d = Done \<lparr>pixel_count = 4294967295 * 4294967295, surface_pixel_count = 4294967295 * 4294967295,
      bytes_per_pixel = 16, packed_bytes_per_pixel = 16\<rparr>"
    by (simp add: d_def cube_of_def abi_cube_kind_def narrow_small cube_geometry_def FEATURE_ATOM_BYTES_def
        checked_mul64_def packed_channels_def checked_next_multiple_of32_def)
  have c: "checked_desc cb_struct_size CUBE_DESC_SIZE (Some d) = Done d"
    by (simp add: checked_desc_def d_def CUBE_DESC_SIZE_def)
  show "fst (rocket_plan_cube_geometry (Some d) None message txt) = ROCKET_PLAN_OK"
    by (simp add: rocket_plan_cube_geometry_def c g abi_report_def)
  show "fst (rocket_plan_cube_geometry (Some d) (Some out) message txt) = ROCKET_PLAN_HARDWARE_LIMIT"
    using assms(1)
    by (simp add: rocket_plan_cube_geometry_def c g abi_report_def CUBE_GEOMETRY_SIZE_def describe_def storage_bytes_def
        packed_surfaces_def checked_mul64_def FEATURE_ATOM_BYTES_def plan_status_def div_ceil_def)
qed

text \<open>The two ways to name a status agree.\<close>

lemma status_names_agree: "rocket_plan_status_name s = status_name s"
proof (cases "s < 10")
  case True
  then have "s \<in> {0, 1, 2, 3, 4, 5, 6, 7, 8, 9}" by auto
  then show ?thesis
    by (auto simp: rocket_plan_status_name_def status_names_def status_name_def abi_statuses)
next
  case False
  then show ?thesis
    by (simp add: rocket_plan_status_name_def status_names_def status_name_def abi_statuses min_def)
qed

end
