(* ===== verification/Spec2Isabelle.thy ===== *)
theory Spec2Isabelle
  imports ConvProgramProperties PlanProperties TensorProperties WeightProperties AdmissionProperties FormatProperties
    CacheProperties ScratchPool WorkerPool PoolingProgramProperties RegisterProperties BsBufferProperties
    ElementwiseProperties TemplateProperties ConvTemplateProperties ExecutableCacheProperties
    PlanAbiProperties
begin

text \<open>
  A verification development of iree-rocket, the IREE backend for the neural processing unit of the
  RK3588.

  \<^bold>\<open>The program.\<close> A compiler plugin decides which convolutions, matrix products and poolings the unit
  runs (\<open>rocket-core/src/admission.rs\<close>), and encodes the shape of each into an executable
  (\<open>iree-rocket-hal/src/rocket/executable_format.rs\<close>, or a container of schema tables). At run time the
  driver decodes an executable into a template (\<open>rocket-hal-driver/src/executable_cache.rs\<close>), a dispatch
  resolves it with its push constants (\<open>executable.rs\<close>), and the shape is planned (\<open>rocket-core/src/conv.rs\<close>, \<open>fc.rs\<close>, \<open>rocket/pooling.rs\<close>): the on-chip buffer is divided between
  features and coefficients and the output image is cut into tiles that fit. Each tile becomes a program
  of register writes (\<open>rocket/conv.rs\<close>, \<open>rocket/pooling.rs\<close>, \<open>rocket/elementwise.rs\<close>, over the register types of
  \<open>rocket/builders/\<close>), which is relocated to the buffers of the dispatch. Tensors are repacked between
  the host's layouts and the unit's (\<open>rocket/tensor_layout.rs\<close>, \<open>rocket-core/src/weights.rs\<close>), or left
  in the unit's layout when producer and consumer agree (\<open>rocket-core/src/layout.rs\<close>). Packed
  coefficients are cached, scratch buffers are reused and submissions are spread over the contexts of
  the unit (\<open>rocket-hal-driver/src/weight_cache.rs\<close>, \<open>scratch_pool.rs\<close>, \<open>pool.rs\<close>).

  \<^bold>\<open>Conventions.\<close> Theory Prelude gives the result of a function that may refuse or panic (type
  \<open>outcome\<close>: a value, a typed refusal, a panic). Every assertion, index and division of the code is a
  branch to \<open>Panicked\<close>. The release profile has no overflow checks, so \<open>u32\<close> and \<open>usize\<close> arithmetic
  wraps: extents are natural numbers and each computation is reduced with \<open>wrap32\<close>, \<open>wrap64\<close>,
  \<open>sub32\<close>; register values and command words are words. Byte slices are lists written through
  \<open>read_slice\<close>, \<open>write_slice\<close> and \<open>fill_slice\<close>, which panic out of range, and loops are \<open>for_each\<close> or
  recursion. Definitions keep the names of the code; a suffix or prefix is added where a name is taken.

  \<^bold>\<open>Planning.\<close> PlanError (\<open>error.rs\<close>, \<open>policy.rs\<close>), ConvTypes and ConvShape (precisions, shapes and
  their constructors, derived sizes), Tiles (row and column tiles), CbufPartition (bank demand, capacity,
  the partition rules), ConvPlan (grids, realignment, \<open>ConvPlan::try_new\<close>, the staged accumulator
  layout) model \<open>rocket-core/src/conv.rs\<close>; FullyConnected models \<open>fc.rs\<close>. TileProofs reads tiles without
  wrap-around on valid shapes; RowProofs and RowSplitters show that every way of cutting rows gives a
  chain that covers each output row once; PlanProofs lifts this to the grids \<open>try_new\<close> returns and
  PlanTotal shows that no branch panics when an input row is addressable. PlanProperties states what
  any sequence of constructor calls leaves in a shape (C1) and these results (C2 to C4 and C7 to C9);
  Samples plans concrete shapes for the witnesses.

  \<^bold>\<open>The C interface.\<close> PlanAbi models \<open>rocket-plan-ffi/src/lib.rs\<close>, through which the compiler plugin
  plans, admits, describes cubes and packs coefficients. PlanAbiProperties shows that a call always
  returns with a status of the header, that a plan it reports is the planner's plan of the extents given,
  that the packer takes what the planner has accepted, and that messages are terminated.

  \<^bold>\<open>Programs.\<close> RegisterWords models a register value, its field setters and command words, and what a
  list of writes leaves in each register. PpuRegisters, CnaRegisters and DpuRegisters are the registers
  and setters of the six blocks, with the masks of \<open>rkt_registers.h\<close>; RegisterProperties shows the
  fields disjoint and exact (C39). ConvEncodings and ConvProgram model \<open>rocket/conv.rs\<close> command by
  command, the settings read from the environment being a parameter; ConvTask decodes a program into the
  task the device sees, ConvTileValues gives the values of a plan's tile in exact arithmetic,
  ConvProgramProofs the register widths they have to fit, ConvRelocation the four address words.
  ConvProgramProperties states that inside the register envelope every tile of a plan has a program which
  reads back as that tile (C11), what relocation changes (C22), and that the planner's limits are wider
  than the registers' (C38). PoolingPlan, PoolingProgram and their property theories do the same for
  \<open>rocket/pooling.rs\<close> (C37, C40), where a half-precision average with a kernel extent of 1 panics although it is planned.
  ElementwiseProgram models \<open>rocket/elementwise.rs\<close>; ElementwiseProperties states that the two-tensor
  and the single-tensor task read back as their shape, each with its exact domain (C23, C24).

  \<^bold>\<open>Scales.\<close> Floats gives the binary64 operations the code uses: exact rationals rounded to nearest even,
  with the infinities and a single not-a-number. Requantization models the multiplier search of
  \<open>rocket-core/src/conv.rs\<close>, whose second loop is a partial function because it does not end on an infinite
  product; RequantizationProperties states where it returns and how close the pair is (C10, C17).
  BsBuffer models the operands of the bias stage of \<open>rocket/conv.rs\<close>; BsBufferProperties states that each
  plane of each channel stands at its place with its value (C21), over the locale \<open>placement\<close>.

  \<^bold>\<open>Executables.\<close> DispatchTemplates holds what the kinds of executable of \<open>executable.rs\<close> share: the check of
  listed and unlisted dimensions, the push constants, and the locales \<open>dimensions\<close> and
  \<open>framed_dimensions\<close> of settable dimensions, interpreted for each kind; it models the element-wise
  kinds, ConvTemplates the convolution and the matrix product, PoolingTemplates the pooling.
  TemplateProperties and ConvTemplateProperties state when a dispatch resolves and to what (C6, C15, C30),
  where an element-wise dispatch panics (C19) and which static executables are refused (C28). ExecutableCache
  models \<open>executable_cache.rs\<close>, the parser of the schema being a parameter; ExecutableCacheProperties
  states that preparation always returns (C25) and that what it prepares resolves without a panic to a
  shape with a plan, or to an element-wise shape with supported operands, whose extents the program
  builder still has to take (C5).

  \<^bold>\<open>Layouts.\<close> CubeLayout models \<open>layout.rs\<close>; TensorLayout, Fp16Widening, TensorProofs and TiledOutput
  model and prove \<open>tensor_layout.rs\<close>: packing and compaction are inverse, chaining is sound, the tiled
  gather rebuilds the image, the half-precision widening is exact (C12 to C14, C16 and C18, in
  TensorProperties).
  WeightLayout, NibbleStore, WeightProofs, WeightPackers model and prove \<open>weights.rs\<close>: coefficients and
  slots correspond one to one and each packer writes exactly its coefficients (C20, in WeightProperties,
  with the theorems on each packer). Theory SlotWrites holds the interface they share: the locale
  \<open>placement\<close> of writes into disjoint slots, interpreted on the slots of each packer.

  \<^bold>\<open>Admission and format.\<close> Admission and AdmissionProperties: what the compiler admits the constructors accept, the
  convolutions with accumulated int8 and a zero point excepted (C26), and admitted products lower (C27). ExecutableFormat and FormatProperties: the shape payload round-trips, the decoder accepts exactly
  the known payloads, validated payloads are planned (C29).

  \<^bold>\<open>Driver state.\<close> WeightCache and CacheProperties: the packed-coefficient cache as a state machine over
  the driver's operations (\<open>stage_weights\<close>, \<open>build_replicas\<close>, \<open>apply_ops\<close> and \<open>destroy\<close> of
  \<open>command_buffer.rs\<close>), the copies for the other contexts of a fan-out included. A hit is exact when no
  binding is written while a copy of its packing is outstanding (C31), can be stale otherwise (C32), and
  the cache stays within its budget (C33). ScratchPool: no scratch buffer is handed out twice (C34).
  WorkerPool: the contexts resolve their units in order (C35). A wait on a semaphore is a parameter of a
  step, which says what the wait would answer now, and a worker whose wait is not answered does not move;
  a closed pool accepts nothing more, its work decreases at every worker step, and it ends drained when
  semaphores keep their contract, work returns and submissions are ordered by their fences (C36).
  HostText holds the text functions of the standard library their settings use.

  \<^bold>\<open>Bounds.\<close> A shape is valid when the constructors accept it: positive extents and one feature surface
  within 32 bits. \<open>row_addressable\<close> is the bound under which the size of an input row does not wrap; C8
  shows that it is needed. \<open>register_envelope\<close> is the range of the register fields in terms of the
  shape; C38 shows that the width and the stride bounds are needed. \<open>normalize_subnormal\<close> counts with
  fuel ten, the width of the half-precision fraction, which the loop cannot exceed. \<open>scale_down\<close> is
  a partial function of the option kind, since its loop may run forever. All other recursion is
  structural or has a measure.

  \<^bold>\<open>Not modelled.\<close> The kernel interface (\<open>rocket/device.rs\<close>) is ioctl calls and mappings. The IREE glue
  of the driver (\<open>device.rs\<close>, \<open>command_buffer.rs\<close>, \<open>allocator.rs\<close>, \<open>semaphore.rs\<close> and others) is callbacks
  over runtime objects of a C library, semaphores among them; of these, only their use of the cache and
  the waits and signals of a worker are modelled. Its planning of command batches and its statistics are
  candidates for extension. The lookup-table program (\<open>rocket/activation.rs\<close>) and the matrix-product builder follow
  the pattern of the programs modelled here; the tables themselves are data. The texts of messages are
  not part of the model where only a code is returned.
\<close>

end
